(* ===== verification/Prelude.thy ===== *)
theory Prelude
  imports Main "HOL-Library.Sublist"
begin

text \<open>
  What every component shares: JavaScript errors as values, the truthiness tests the code
  writes as \<open>!x\<close> and \<open>a || b\<close>, the JSON columns of the database, the few standard-library
  routines the code relies on (\<open>Set\<close> order, \<open>join\<close>, decimal printing, \<open>Math.floor\<close>,
  \<open>Math.round\<close>), and row updates on tables kept as lists.

  Conventions. Identifiers and other strings are char lists; a parameter the code tests
  with \<open>!x\<close> is a plain string whose empty value stands for a missing or empty argument, a
  nullable column is an \<open>option\<close>. Points in time are integers in milliseconds (what
  \<open>Date.getTime\<close> gives), also inside JSON columns, where the code stores what \<open>toISOString\<close>
  prints; durations are integers in seconds. \<open>now\<close>, fresh row ids and random
  bytes are arguments of the operations that read them.
\<close>

named_theorems rows_simps \<open>facts about updating and searching rows of a table\<close>

type_synonym id = string

section \<open>Errors\<close>

text \<open>
  \<open>ApiError status message code\<close> is \<open>utils/ApiError.js\<close>; \<open>TypeError\<close> is what reading a
  property of \<open>undefined\<close> raises; \<open>DbError\<close> is a failed database call.
\<close>

datatype err = ApiError nat string "string option" | TypeError | DbError

type_synonym 'a res = "err + 'a"

abbreviation api_error :: "nat \<Rightarrow> string \<Rightarrow> err" where
  "api_error n m \<equiv> ApiError n m None"

abbreviation ok_res :: "'a res \<Rightarrow> bool" where
  "ok_res r \<equiv> (\<exists>x. r = Inr x)"

fun is_ok :: "'a res \<Rightarrow> bool" where
  "is_ok (Inl _) = False"
| "is_ok (Inr _) = True"

lemma is_ok_iff: "is_ok r \<longleftrightarrow> (\<exists>x. r = Inr x)"
  by (cases r) auto

section \<open>Truthiness\<close>

fun truthy :: "string option \<Rightarrow> bool" where
  "truthy None = False"
| "truthy (Some s) = (s \<noteq> [])"

fun or_else :: "string option \<Rightarrow> string \<Rightarrow> string" where
  "or_else None d = d"
| "or_else (Some s) d = (if s = [] then d else s)"

definition or_none :: "string option \<Rightarrow> string option" where
  "or_none x = (if truthy x then x else None)"

fun or_opt :: "string option \<Rightarrow> string option \<Rightarrow> string option" where
  "or_opt None d = d"
| "or_opt (Some s) d = (if s = [] then d else Some s)"

text \<open>A condition on a value that may be missing.\<close>

fun holds :: "('a \<Rightarrow> bool) \<Rightarrow> 'a option \<Rightarrow> bool" where
  "holds P None = False"
| "holds P (Some x) = P x"

lemma holds_iff: "holds P x \<longleftrightarrow> (\<exists>v. x = Some v \<and> P v)"
  by (cases x) auto

lemma truthy_iff: "truthy x \<longleftrightarrow> (\<exists>s. x = Some s \<and> s \<noteq> [])"
  by (cases x) auto

section \<open>Lists in the order JavaScript keeps them\<close>

text \<open>\<open>[...new Set(xs)]\<close> keeps the first occurrence of each element.\<close>

definition uniq :: "'a list \<Rightarrow> 'a list" where
  "uniq xs = rev (remdups (rev xs))"

lemma set_uniq [simp]: "set (uniq xs) = set xs"
  by (simp add: uniq_def)

lemma distinct_uniq [simp]: "distinct (uniq xs)"
  by (simp add: uniq_def)

lemma uniq_Nil [simp]: "uniq [] = []"
  by (simp add: uniq_def)

lemma uniq_eq_Nil [simp]: "uniq xs = [] \<longleftrightarrow> xs = []"
  by (simp add: uniq_def)

text \<open>A text in quotation marks, as messages print it.\<close>

definition sq :: "string \<Rightarrow> string" where
  "sq s = CHR 0x27 # s @ [CHR 0x27]"

definition dq :: "string \<Rightarrow> string" where
  "dq s = CHR 0x22 # s @ [CHR 0x22]"

fun join :: "string \<Rightarrow> string list \<Rightarrow> string" where
  "join sep [] = []"
| "join sep [x] = x"
| "join sep (x # y # ys) = x @ sep @ join sep (y # ys)"

text \<open>The dash in messages, as UTF-8.\<close>

definition dashed :: "string \<Rightarrow> string \<Rightarrow> string" where
  "dashed a b = a @ [CHR '' '', CHR 0xE2, CHR 0x80, CHR 0x94, CHR '' ''] @ b"

text \<open>\<open>Array.prototype.sort\<close> with a numeric key is stable, as \<open>sort_key\<close> is.\<close>

lemma sort_key_hd_min:
  assumes "xs \<noteq> []"
  shows "\<forall>y \<in> set xs. f (hd (sort_key f xs)) \<le> f y"
proof
  fix y assume y: "y \<in> set xs"
  have "sort_key f xs \<noteq> []" using assms by (metis set_empty set_sort)
  then obtain z zs where z: "sort_key f xs = z # zs" by (cases "sort_key f xs") auto
  have "sorted (map f (z # zs))" using sorted_sort_key [of f xs] by (simp only: z)
  moreover have "y \<in> set (z # zs)" using y by (metis z set_sort)
  ultimately show "f (hd (sort_key f xs)) \<le> f y" by (auto simp: z)
qed

lemma hd_sort_key_in: "xs \<noteq> [] \<Longrightarrow> hd (sort_key f xs) \<in> set xs"
  by (metis hd_in_set set_empty set_sort)

text \<open>The first row of a list, or \<open>null\<close>.\<close>

fun first_opt :: "'a list \<Rightarrow> 'a option" where
  "first_opt [] = None"
| "first_opt (x # _) = Some x"

lemma first_opt_None [simp]: "first_opt xs = None \<longleftrightarrow> xs = []"
  by (cases xs) auto

lemma first_opt_Some_in: "first_opt xs = Some x \<Longrightarrow> x \<in> set xs"
  by (cases xs) auto

lemma first_opt_conv_hd: "xs \<noteq> [] \<Longrightarrow> first_opt xs = Some (hd xs)"
  by (cases xs) auto

lemma first_opt_sort_min:
  assumes "first_opt (sort_key f xs) = Some x"
  shows "x \<in> set xs \<and> (\<forall>y \<in> set xs. f x \<le> f y)"
proof -
  have "sort_key f xs \<noteq> []" using assms by auto
  then have "xs \<noteq> []" by auto
  moreover have "x = hd (sort_key f xs)"
    using assms by (cases "sort_key f xs") auto
  ultimately show ?thesis by (simp add: hd_sort_key_in sort_key_hd_min)
qed

section \<open>Numbers and their printing\<close>

fun digit_char :: "nat \<Rightarrow> char" where
  "digit_char n = char_of (48 + n mod 10)"

function nat_str :: "nat \<Rightarrow> string" where
  "nat_str n = (if n < 10 then [digit_char n] else nat_str (n div 10) @ [digit_char n])"
  by pat_completeness auto
termination
  by (relation "measure id") auto

declare nat_str.simps [simp del]

definition int_str :: "int \<Rightarrow> string" where
  "int_str i = (if i < 0 then ''-'' @ nat_str (nat (- i)) else nat_str (nat i))"

lemma nat_str_nonempty [simp]: "nat_str n \<noteq> []"
  by (subst nat_str.simps) simp

text \<open>\<open>Math.floor(a / b)\<close> and \<open>Math.round(a / b)\<close> for an integer \<open>a\<close> and a positive \<open>b\<close>.\<close>

definition math_floor_div :: "int \<Rightarrow> int \<Rightarrow> int" where
  "math_floor_div a b = a div b"

definition math_round_div :: "int \<Rightarrow> int \<Rightarrow> int" where
  "math_round_div a b = (2 * a + b) div (2 * b)"

lemma math_floor_div_bounds:
  assumes "0 < b"
  shows "math_floor_div a b * b \<le> a \<and> a < math_floor_div a b * b + b"
proof -
  have "a = a div b * b + a mod b" by simp
  moreover have "0 \<le> a mod b" "a mod b < b" using assms by simp_all
  ultimately show ?thesis unfolding math_floor_div_def by linarith
qed

section \<open>Strings\<close>

text \<open>\<open>String.prototype.trim\<close>, \<open>toLowerCase\<close> on the ASCII letters and \<open>slice(0, n)\<close>.\<close>

definition is_ws :: "char \<Rightarrow> bool" where
  "is_ws c = (of_char c \<in> {9 :: nat, 10, 11, 12, 13, 32})"

definition js_trim :: "string \<Rightarrow> string" where
  "js_trim s = rev (dropWhile is_ws (rev (dropWhile is_ws s)))"

definition lower_char :: "char \<Rightarrow> char" where
  "lower_char c = (let n = of_char c :: nat in if 65 \<le> n \<and> n \<le> 90 then char_of (n + 32) else c)"

definition lower :: "string \<Rightarrow> string" where
  "lower s = map lower_char s"

definition js_slice :: "nat \<Rightarrow> string \<Rightarrow> string" where
  "js_slice n s = take n s"

definition is_lower_alnum :: "char \<Rightarrow> bool" where
  "is_lower_alnum c = (let n = of_char c :: nat in 48 \<le> n \<and> n \<le> 57 \<or> 97 \<le> n \<and> n \<le> 122)"

text \<open>
  \<open>s.replace(/[^a-z0-9]+/g, '_').replace(/^_+|_+$/g, '')\<close>: each run of other characters
  becomes one underscore, and none is left at either end.
\<close>

fun squeeze :: "bool \<Rightarrow> string \<Rightarrow> string" where
  "squeeze run [] = []"
| "squeeze run (c # cs) =
     (if is_lower_alnum c then c # squeeze False cs
      else if run then squeeze True cs else CHR ''_'' # squeeze True cs)"

definition slug :: "string \<Rightarrow> string" where
  "slug s = rev (dropWhile (\<lambda>c. c = CHR ''_'') (rev (dropWhile (\<lambda>c. c = CHR ''_'') (squeeze False s))))"

lemma set_squeeze: "c \<in> set (squeeze r s) \<Longrightarrow> is_lower_alnum c \<or> c = CHR ''_''"
  by (induction r s rule: squeeze.induct) (auto split: if_splits)

lemma set_slug: "c \<in> set (slug s) \<Longrightarrow> is_lower_alnum c \<or> c = CHR ''_''"
  unfolding slug_def by (auto dest!: set_dropWhileD set_squeeze)

text \<open>Decimal numerals are distinct for distinct numbers.\<close>

lemma digit_char_inj: "m < 10 \<Longrightarrow> n < 10 \<Longrightarrow> digit_char m = digit_char n \<Longrightarrow> m = n"
proof -
  assume mn: "m < 10" "n < 10" and "digit_char m = digit_char n"
  then have "(of_char (digit_char m) :: nat) = of_char (digit_char n)" by simp
  with mn show "m = n" by (simp add: of_char_of take_bit_eq_mod)
qed

lemma length_nat_str_ge10: "10 \<le> n \<Longrightarrow> 2 \<le> length (nat_str n)"
  by (subst nat_str.simps) (simp add: Suc_le_eq)

lemma nat_str_inj: "nat_str m = nat_str n \<Longrightarrow> m = n"
proof (induction m arbitrary: n rule: nat_str.induct)
  case (1 m)
  show ?case
  proof (cases "m < 10")
    case True
    then have l: "nat_str m = [digit_char m]" by (subst nat_str.simps) simp
    then have "n < 10" using 1(2) length_nat_str_ge10 [of n] by (cases "n < 10") auto
    then have "nat_str n = [digit_char n]" by (subst nat_str.simps) simp
    with l 1(2) True \<open>n < 10\<close> show ?thesis using digit_char_inj by simp
  next
    case False
    then have l: "nat_str m = nat_str (m div 10) @ [digit_char m]" by (subst nat_str.simps) simp
    have "\<not> n < 10"
    proof
      assume "n < 10"
      then have "length (nat_str n) = 1" by (subst nat_str.simps) simp
      then show False using 1(2) False length_nat_str_ge10 [of m] by simp
    qed
    then have r: "nat_str n = nat_str (n div 10) @ [digit_char n]" by (subst nat_str.simps) simp
    from l r 1(2) have eqs: "nat_str (m div 10) = nat_str (n div 10)" "digit_char m = digit_char n"
      by simp_all
    then have "m div 10 = n div 10" using 1(1) False by blast
    moreover have "digit_char (m mod 10) = digit_char (n mod 10)" using eqs(2) by simp
    then have "m mod 10 = n mod 10" using digit_char_inj [of "m mod 10" "n mod 10"] by simp
    ultimately show ?thesis by (metis div_mult_mod_eq)
  qed
qed

section \<open>JSON columns\<close>

datatype json =
    JNull
  | JBool bool
  | JNum int
  | JStr string
  | JArr "json list"
  | JObj "(string \<times> json) list"

text \<open>\<open>`${v}`\<close>: what a template literal prints for a JSON value.\<close>

fun js_string :: "json \<Rightarrow> string" where
  "js_string JNull = ''null''"
| "js_string (JBool b) = (if b then ''true'' else ''false'')"
| "js_string (JNum i) = int_str i"
| "js_string (JStr s) = s"
| "js_string (JArr xs) = join '','' (map (\<lambda>x. case x of JNull \<Rightarrow> [] | _ \<Rightarrow> js_string x) xs)"
| "js_string (JObj _) = ''[object Object]''"

text \<open>\<open>obj?.key\<close>; \<open>None\<close> is \<open>undefined\<close>.\<close>

fun json_get :: "json \<Rightarrow> string \<Rightarrow> json option" where
  "json_get (JObj kvs) k = map_of kvs k"
| "json_get _ k = None"

text \<open>\<open>v && typeof v === 'object'\<close>: objects and arrays.\<close>

fun json_is_object :: "json option \<Rightarrow> bool" where
  "json_is_object (Some (JObj _)) = True"
| "json_is_object (Some (JArr _)) = True"
| "json_is_object _ = False"

text \<open>The own properties of a value; the indices of an array are keys.\<close>

definition json_entries :: "json \<Rightarrow> (string \<times> json) list" where
  "json_entries j =
     (case j of JObj kvs \<Rightarrow> kvs | JArr xs \<Rightarrow> zip (map nat_str [0..<length xs]) xs | _ \<Rightarrow> [])"

text \<open>\<open>{ ...obj, key: v }\<close>\<close>

definition json_put :: "json \<Rightarrow> string \<Rightarrow> json \<Rightarrow> json" where
  "json_put j k v = JObj (filter (\<lambda>p. fst p \<noteq> k) (json_entries j) @ [(k, v)])"

lemma map_of_filter_ne: "k' \<noteq> k \<Longrightarrow> map_of (filter (\<lambda>p. fst p \<noteq> k) kvs) k' = map_of kvs k'"
  by (induction kvs) auto

lemma map_of_filter_eq: "map_of (filter (\<lambda>p. fst p \<noteq> k) kvs) k = None"
  by (induction kvs) auto

lemma json_get_put [simp]:
  "json_get (json_put j k v) k' = (if k' = k then Some v else map_of (json_entries j) k')"
  by (auto simp: json_put_def map_add_def map_of_filter_ne map_of_filter_eq split: option.splits)

lemma json_entries_JObj [simp]: "json_entries (JObj kvs) = kvs"
  by (simp add: json_entries_def)

section \<open>Tables\<close>

text \<open>\<open>updateMany({ where: P, data })\<close>: the rows that satisfy the predicate are rewritten.\<close>

definition update_where :: "('r \<Rightarrow> bool) \<Rightarrow> ('r \<Rightarrow> 'r) \<Rightarrow> 'r list \<Rightarrow> 'r list" where
  "update_where P f rs = map (\<lambda>r. if P r then f r else r) rs"

definition count_where :: "('r \<Rightarrow> bool) \<Rightarrow> 'r list \<Rightarrow> nat" where
  "count_where P rs = length (filter P rs)"

lemma update_where_Nil [rows_simps]: "update_where P f [] = []"
  by (simp add: update_where_def)

lemma update_where_append [rows_simps]:
  "update_where P f (xs @ ys) = update_where P f xs @ update_where P f ys"
  by (simp add: update_where_def)

lemma length_update_where [rows_simps]: "length (update_where P f rs) = length rs"
  by (simp add: update_where_def)

lemma set_update_where:
  "set (update_where P f rs) = (\<lambda>r. if P r then f r else r) ` set rs"
  by (simp add: update_where_def)

lemma in_update_whereE:
  assumes "r' \<in> set (update_where P f rs)"
  obtains r where "r \<in> set rs" "r' = (if P r then f r else r)"
  using assms by (auto simp: set_update_where)

lemma map_update_where [rows_simps]:
  assumes "\<And>r. k (f r) = k r"
  shows "map k (update_where P f rs) = map k rs"
  using assms by (induction rs) (auto simp: update_where_def)

lemma find_update_where:
  assumes "\<And>r. Q (f r) = Q r"
  shows "find Q (update_where P f rs) = map_option (\<lambda>r. if P r then f r else r) (find Q rs)"
  using assms by (induction rs) (auto simp: update_where_def)

lemma update_where_none: "\<forall>r \<in> set rs. \<not> P r \<Longrightarrow> update_where P f rs = rs"
  by (induction rs) (auto simp: update_where_def)

lemma find_SomeD: "find P xs = Some x \<Longrightarrow> x \<in> set xs \<and> P x"
  by (induction xs) (auto split: if_splits)

lemma find_None_iff_all: "find P xs = None \<longleftrightarrow> (\<forall>x \<in> set xs. \<not> P x)"
  by (induction xs) auto

lemma find_unique:
  assumes "distinct (map k rs)" and "r \<in> set rs" and "k r = x"
  shows "find (\<lambda>r. k r = x) rs = Some r"
  using assms by (induction rs) auto

lemma count_where_pos: "count_where P rs = 0 \<longleftrightarrow> (\<forall>r \<in> set rs. \<not> P r)"
  by (auto simp: count_where_def filter_empty_conv)

text \<open>
  The contract of a row update: it keeps the key, so it keeps the keys of the table in
  place, and every lookup by key finds the rewritten row.
\<close>

locale keyed_update =
  fixes key :: "'r \<Rightarrow> 'k" and upd :: "'r \<Rightarrow> 'r"
  assumes key_upd: "key (upd r) = key r"
begin

lemma keys_kept: "map key (update_where P upd rs) = map key rs"
  by (rule map_update_where) (rule key_upd)

lemma distinct_kept: "distinct (map key rs) \<Longrightarrow> distinct (map key (update_where P upd rs))"
  by (simp add: keys_kept)

lemma find_key:
  "find (\<lambda>r. key r = x) (update_where P upd rs) =
     map_option (\<lambda>r. if P r then upd r else r) (find (\<lambda>r. key r = x) rs)"
  by (rule find_update_where) (simp add: key_upd)

lemma find_other:
  "x \<noteq> y \<Longrightarrow> find (\<lambda>r. key r = x) (update_where (\<lambda>r. key r = y \<and> P r) upd rs) =
     find (\<lambda>r. key r = x) rs"
proof -
  assume "x \<noteq> y"
  then show ?thesis
    by (subst find_key) (auto simp: option.map_ident dest: find_SomeD intro!: option.map_ident_strong)
qed

end

end
