(* ===== verification/Store.thy ===== *)
theory Store
  imports Prelude
begin

text \<open>
  The rows of the database the access-management services read and write
  (\<open>backend/prisma/schema.prisma\<close>), one record per table, with the columns those services
  use. A table is a list of rows in insertion order; \<open>findFirst\<close> without an \<open>orderBy\<close> is the
  first row that matches. Relations the code loads with \<open>include\<close> are looked up by id.
\<close>

section \<open>Enumerations\<close>

datatype tier = Member | Manager | Admin | SuperAdmin

fun tier_name :: "tier \<Rightarrow> string" where
  "tier_name Member = ''member''"
| "tier_name Manager = ''manager''"
| "tier_name Admin = ''admin''"
| "tier_name SuperAdmin = ''super_admin''"

datatype user_status = Active | Invited | Suspended | Deactivated | PendingVerification | Deleted

datatype user_kind = Human | Service

datatype access_scope = SCOPE_ALL | SCOPE_CUSTOMERS

datatype environment = EnvDemo | EnvDev | EnvStaging | EnvProd

fun env_name :: "environment \<Rightarrow> string" where
  "env_name EnvDemo = ''demo''"
| "env_name EnvDev = ''dev''"
| "env_name EnvStaging = ''staging''"
| "env_name EnvProd = ''prod''"

datatype server_protocol = ProtoSsh | ProtoRdp | ProtoBoth

datatype auth_mode = AuthCertificate | AuthCredential

datatype protocol = SSH | RDP

fun protocol_name :: "protocol \<Rightarrow> string" where
  "protocol_name SSH = ''SSH''"
| "protocol_name RDP = ''RDP''"

datatype policy_effect = ALLOW | DENY

text \<open>An enumeration sorts in the order of its declaration in the schema.\<close>

fun effect_rank :: "policy_effect \<Rightarrow> nat" where
  "effect_rank ALLOW = 0"
| "effect_rank DENY = 1"

instantiation policy_effect :: linorder
begin

definition less_eq_policy_effect :: "policy_effect \<Rightarrow> policy_effect \<Rightarrow> bool" where
  "less_eq_policy_effect a b = (effect_rank a \<le> effect_rank b)"

definition less_policy_effect :: "policy_effect \<Rightarrow> policy_effect \<Rightarrow> bool" where
  "less_policy_effect a b = (effect_rank a < effect_rank b)"

lemma effect_rank_inj: "effect_rank a = effect_rank b \<longleftrightarrow> a = b"
  by (cases a; cases b) auto

instance
  by standard (auto simp: less_eq_policy_effect_def less_policy_effect_def effect_rank_inj)

end

datatype subject_type = USER | GROUP | ROLE

datatype request_status = PENDING | APPROVED | DENIED | EXPIRED | REVOKED

fun status_name :: "request_status \<Rightarrow> string" where
  "status_name PENDING = ''PENDING''"
| "status_name APPROVED = ''APPROVED''"
| "status_name DENIED = ''DENIED''"
| "status_name EXPIRED = ''EXPIRED''"
| "status_name REVOKED = ''REVOKED''"

datatype cert_type = CERT_USER | CERT_HOST

datatype cert_status = CERT_ACTIVE | CERT_REVOKED | CERT_EXPIRED

datatype session_status = SES_ACTIVE | SES_ENDED | SES_TERMINATED

datatype notification_type =
    ACCESS_REQUEST_SUBMITTED | ACCESS_REQUEST_APPROVED | ACCESS_REQUEST_DENIED
  | ACCESS_REQUEST_EXPIRING | ACCESS_REQUEST_EXPIRED | ACCESS_REQUEST_REVOKED
  | BREAK_GLASS_INVOKED | POSTURE_FINDING | DIRECTORY_SYNC

section \<open>Rows\<close>

record org =
  org_id :: id
  org_settings :: "json option"

record role =
  rol_id :: id
  rol_org :: id
  rol_key :: string
  rol_name :: string
  rol_description :: "string option"
  rol_base :: tier
  rol_permissions :: "string list"
  rol_isSystem :: bool
  rol_catalogVersion :: int

record user =
  usr_id :: id
  usr_org :: id
  usr_email :: string
  usr_name :: string
  usr_role :: tier
  usr_roleId :: "id option"
  usr_status :: user_status
  usr_kind :: user_kind
  usr_scope :: access_scope
  usr_manager :: "id option"
  usr_deletedAt :: "int option"
  usr_jitUid :: "int option"
  usr_totpEnabled :: bool
  usr_totpSecret :: "string option"
  usr_totpPending :: "string option"
  usr_emailOtp :: bool
  usr_backupCodes :: "string list"
  usr_mfaEnrolledAt :: "int option"
  usr_mfaPreferred :: "string option"
  usr_passwordHash :: "string option"
  usr_failedLogins :: nat
  usr_lastFailedLogin :: "int option"
  usr_lockedUntil :: "int option"
  usr_lastLoginAt :: "int option"
  usr_sessionsFrom :: "int option"
  usr_ssoProvider :: "string option"
  usr_ssoSub :: "string option"
  usr_avatarUrl :: "string option"
  usr_sshKey :: "string option"
  usr_passwordChangedAt :: "int option"
  usr_preferences :: json
  usr_description :: "string option"

record grp =
  grp_id :: id
  grp_org :: id
  grp_name :: string
  grp_scope :: access_scope
  grp_description :: "string option"

record membership =
  mem_group :: id
  mem_user :: id
  mem_addedBy :: "id option"

record scope_row =
  scr_owner :: id
  scr_customer :: id

record customer =
  cus_id :: id
  cus_org :: id
  cus_name :: string
  cus_slug :: string
  cus_description :: "string option"
  cus_isActive :: bool

record server =
  srv_id :: id
  srv_org :: id
  srv_customer :: id
  srv_hostname :: string
  srv_displayName :: "string option"
  srv_ip :: string
  srv_port :: int
  srv_protocol :: server_protocol
  srv_env :: environment
  srv_labels :: json
  srv_agentId :: "string option"
  srv_agentLastSeen :: "int option"
  srv_sshUser :: string
  srv_rdpUsername :: "string option"
  srv_authMode :: auth_mode
  srv_credential :: "id option"
  srv_sudoCredential :: "id option"
  srv_rdpPort :: "int option"
  srv_rdpPassword :: "string option"
  srv_isActive :: bool
  srv_provision :: string
  srv_description :: "string option"
  srv_dynamicIp :: bool
  srv_osType :: "string option"
  srv_osVersion :: "string option"
  srv_cloudProvider :: "string option"
  srv_health :: string
  srv_lastHealthCheck :: "int option"
  srv_hostKey :: "string option"
  srv_hostKeyAlg :: "string option"
  srv_hostKeyPinnedAt :: "int option"
  srv_provisionError :: "string option"
  srv_agentTokenHash :: "string option"
  srv_postureRejectedAt :: "int option"
  srv_postureInstalledAt :: "int option"

record subject =
  sub_type :: subject_type
  sub_id :: id

record policy =
  pol_id :: id
  pol_org :: id
  pol_customer :: "id option"
  pol_name :: string
  pol_description :: "string option"
  pol_effect :: policy_effect
  pol_envs :: "string list"
  pol_labels :: json
  pol_servers :: "id list"
  pol_principals :: "string list"
  pol_maxDuration :: int
  pol_requireApproval :: bool
  pol_autoApprove :: bool
  pol_active :: bool
  pol_priority :: int
  pol_osProv :: json
  pol_keyDownload :: bool
  pol_breakGlass :: bool
  pol_approverGroup :: "id option"
  pol_approverRoles :: "string list"
  pol_approverUsers :: "id list"
  pol_subjects :: "subject list"
  pol_createdAt :: int
  pol_updatedAt :: int

record request =
  req_id :: id
  req_org :: id
  req_requester :: id
  req_reviewer :: "id option"
  req_server :: id
  req_status :: request_status
  req_reason :: string
  req_principal :: string
  req_duration :: int
  req_protocol :: protocol
  req_approvedDuration :: "int option"
  req_approvedAt :: "int option"
  req_deniedAt :: "int option"
  req_deniedReason :: "string option"
  req_expiresAt :: "int option"
  req_revokedAt :: "int option"
  req_revokedReason :: "string option"
  req_certificate :: "id option"
  req_breakGlass :: bool
  req_createdAt :: int
  req_approvers :: "id list"

record certificate =
  cert_id :: id
  cert_org :: id
  cert_serial :: int
  cert_type :: cert_type
  cert_keyId :: string
  cert_principals :: "string list"
  cert_publicKey :: string
  cert_signed :: string
  cert_validAfter :: int
  cert_validBefore :: int
  cert_status :: cert_status
  cert_issuedTo :: "id option"
  cert_issuedFor :: "id option"
  cert_revokedAt :: "int option"
  cert_revokedBy :: "id option"
  cert_via :: string

record notification =
  ntf_org :: id
  ntf_user :: id
  ntf_type :: notification_type
  ntf_title :: string
  ntf_body :: string
  ntf_meta :: json

record audit =
  aud_org :: id
  aud_actor :: "id option"
  aud_action :: string
  aud_resourceType :: string
  aud_resource :: "id option"
  aud_meta :: json

record session_row =
  ses_id :: id
  ses_org :: id
  ses_user :: id
  ses_server :: "id option"
  ses_request :: "id option"
  ses_protocol :: protocol
  ses_authMethod :: string
  ses_targetHost :: "string option"
  ses_clientIp :: "string option"
  ses_certificate :: "id option"
  ses_status :: session_status
  ses_startedAt :: int
  ses_endedAt :: "int option"
  ses_durationSeconds :: "int option"
  ses_meta :: json
  ses_recording :: "string option"

record user_token =
  tok_id :: id
  tok_user :: id
  tok_type :: string
  tok_hash :: string
  tok_resource :: "id option"
  tok_expiresAt :: int
  tok_usedAt :: "int option"

record refresh_token =
  rt_id :: id
  rt_user :: id
  rt_hash :: string
  rt_client :: string
  rt_ip :: "string option"
  rt_agent :: "string option"
  rt_expiresAt :: int
  rt_createdAt :: int
  rt_family :: "id option"
  rt_startedAt :: int
  rt_lastUsedAt :: "int option"
  rt_revokedAt :: "int option"
  rt_replacedBy :: "id option"

text \<open>API tokens are \<open>personal\<close> or \<open>service\<close>.\<close>

record api_token =
  at_id :: id
  at_org :: id
  at_user :: id
  at_kind :: string
  at_name :: string
  at_description :: "string option"
  at_hash :: string
  at_prefix :: string
  at_scopes :: "string list"
  at_expiresAt :: int
  at_lastUsedAt :: "int option"
  at_lastUsedIp :: "string option"
  at_revokedAt :: "int option"
  at_revokedBy :: "id option"
  at_revokedReason :: "string option"
  at_rotatedAt :: "int option"
  at_createdBy :: "id option"
  at_createdAt :: int

datatype device_status = DevPending | DevApproved | DevDenied | DevExpired

record device_request =
  dr_id :: id
  dr_deviceCode :: string
  dr_userCode :: string
  dr_client :: string
  dr_scope :: string
  dr_org :: id
  dr_user :: "id option"
  dr_status :: device_status
  dr_interval :: int
  dr_expiresAt :: int
  dr_lastPollAt :: "int option"

text \<open>
  Stored keys and identities. No owner: the organization's; otherwise the personal vault of that
  user. \<open>key_private\<close>, \<open>key_passphrase\<close> and \<open>cred_password\<close> hold sealed texts.
\<close>

record ssh_key =
  key_id :: id
  key_org :: id
  key_name :: string
  key_description :: "string option"
  key_type :: string
  key_bits :: "nat option"
  key_public :: string
  key_private :: string
  key_passphrase :: "string option"
  key_fingerprint :: string
  key_comment :: "string option"
  key_source :: string
  key_format :: "string option"
  key_certificate :: "string option"
  key_createdBy :: "id option"
  key_owner :: "id option"
  key_exportedAt :: "int option"

record credential =
  cred_id :: id
  cred_org :: id
  cred_name :: string
  cred_description :: "string option"
  cred_username :: string
  cred_authType :: string
  cred_password :: "string option"
  cred_sshKey :: "id option"
  cred_tags :: "string list"
  cred_createdBy :: "id option"
  cred_owner :: "id option"
  cred_lastUsedAt :: "int option"

record personal_host =
  ph_id :: id
  ph_org :: id
  ph_owner :: id
  ph_name :: string
  ph_host :: string
  ph_port :: int
  ph_username :: "string option"
  ph_credential :: "id option"
  ph_description :: "string option"
  ph_tags :: "string list"
  ph_hostKey :: "string option"
  ph_hostKeyAlg :: "string option"
  ph_hostKeyPinnedAt :: "int option"

text \<open>A user's account at a sign-in provider, the providers, and the history of ad-hoc connections.\<close>

record user_identity =
  idn_id :: id
  idn_org :: id
  idn_user :: id
  idn_config :: id
  idn_provider :: string
  idn_subject :: string
  idn_externalId :: "string option"
  idn_email :: "string option"
  idn_lastLoginAt :: "int option"

record sso_config =
  sso_id :: id
  sso_org :: id
  sso_provider :: string
  sso_preset :: "string option"
  sso_name :: string
  sso_order :: int
  sso_defaultRole :: string
  sso_defaultGroup :: "id option"
  sso_autoProvision :: bool
  sso_domains :: "string list"
  sso_verifiedEmail :: bool
  sso_active :: bool

record quick_entry =
  qh_id :: id
  qh_org :: id
  qh_user :: id
  qh_host :: string
  qh_port :: int
  qh_username :: string
  qh_authType :: string
  qh_credential :: "id option"
  qh_server :: "id option"
  qh_session :: "id option"
  qh_status :: string
  qh_error :: "string option"
  qh_count :: nat
  qh_connectedAt :: int

record db =
  orgs :: "org list"
  roles :: "role list"
  users :: "user list"
  groups :: "grp list"
  memberships :: "membership list"
  userScopes :: "scope_row list"
  groupScopes :: "scope_row list"
  customers :: "customer list"
  servers :: "server list"
  policies :: "policy list"
  requests :: "request list"
  certs :: "certificate list"
  notifications :: "notification list"
  audits :: "audit list"
  sessions :: "session_row list"
  tokens :: "user_token list"
  refreshTokens :: "refresh_token list"
  apiTokens :: "api_token list"
  deviceRequests :: "device_request list"
  personalHosts :: "personal_host list"
  credentials :: "credential list"
  sshKeys :: "ssh_key list"
  identities :: "user_identity list"
  ssoConfigs :: "sso_config list"
  quickHistory :: "quick_entry list"

definition empty_db :: db where
  "empty_db = \<lparr>orgs = [], roles = [], users = [], groups = [], memberships = [], userScopes = [],
     groupScopes = [], customers = [], servers = [], policies = [], requests = [], certs = [],
     notifications = [], audits = [], sessions = [], tokens = [],
     refreshTokens = [], apiTokens = [], deviceRequests = [], personalHosts = [], credentials = [], sshKeys = [],
     identities = [], ssoConfigs = [], quickHistory = []\<rparr>"

section \<open>Lookups\<close>

text \<open>\<open>findFirst({ where: { id, orgId } })\<close> on the tables that carry an organization.\<close>

definition find_server :: "db \<Rightarrow> id \<Rightarrow> id \<Rightarrow> server option" where
  "find_server d sid oid = find (\<lambda>s. srv_id s = sid \<and> srv_org s = oid) (servers d)"

definition find_user :: "db \<Rightarrow> id \<Rightarrow> id \<Rightarrow> user option" where
  "find_user d uid oid = find (\<lambda>u. usr_id u = uid \<and> usr_org u = oid) (users d)"

definition find_user_id :: "db \<Rightarrow> id \<Rightarrow> user option" where
  "find_user_id d uid = find (\<lambda>u. usr_id u = uid) (users d)"

definition find_policy :: "db \<Rightarrow> id \<Rightarrow> id \<Rightarrow> policy option" where
  "find_policy d pid oid = find (\<lambda>p. pol_id p = pid \<and> pol_org p = oid) (policies d)"

definition find_request :: "db \<Rightarrow> id \<Rightarrow> request option" where
  "find_request d rid = find (\<lambda>r. req_id r = rid) (requests d)"

definition find_request_in_org :: "db \<Rightarrow> id \<Rightarrow> id \<Rightarrow> request option" where
  "find_request_in_org d rid oid = find (\<lambda>r. req_id r = rid \<and> req_org r = oid) (requests d)"

definition find_org :: "db \<Rightarrow> id \<Rightarrow> org option" where
  "find_org d oid = find (\<lambda>g. org_id g = oid) (orgs d)"

definition find_cert :: "db \<Rightarrow> id \<Rightarrow> certificate option" where
  "find_cert d cid = find (\<lambda>c. cert_id c = cid) (certs d)"

definition find_role :: "db \<Rightarrow> id option \<Rightarrow> role option" where
  "find_role d rid = (case rid of None \<Rightarrow> None | Some i \<Rightarrow> find (\<lambda>r. rol_id r = i) (roles d))"

definition server_of :: "db \<Rightarrow> request \<Rightarrow> server option" where
  "server_of d r = find (\<lambda>s. srv_id s = req_server r) (servers d)"

definition find_session :: "db \<Rightarrow> id \<Rightarrow> session_row option" where
  "find_session d sid = find (\<lambda>r. ses_id r = sid) (sessions d)"

lemmas store_lookups =
  find_server_def find_user_def find_user_id_def find_policy_def find_request_def
  find_request_in_org_def find_org_def find_cert_def find_role_def server_of_def

lemma find_server_SomeD:
  "find_server d sid oid = Some s \<Longrightarrow> s \<in> set (servers d) \<and> srv_id s = sid \<and> srv_org s = oid"
  by (auto simp: find_server_def dest: find_SomeD)

lemma find_user_SomeD:
  "find_user d uid oid = Some u \<Longrightarrow> u \<in> set (users d) \<and> usr_id u = uid \<and> usr_org u = oid"
  by (auto simp: find_user_def dest: find_SomeD)

lemma find_request_SomeD:
  "find_request d rid = Some r \<Longrightarrow> r \<in> set (requests d) \<and> req_id r = rid"
  by (auto simp: find_request_def dest: find_SomeD)

lemma find_request_in_org_SomeD:
  "find_request_in_org d rid oid = Some r \<Longrightarrow>
     r \<in> set (requests d) \<and> req_id r = rid \<and> req_org r = oid"
  by (auto simp: find_request_in_org_def dest: find_SomeD)

text \<open>A \<open>contains\<close> filter that ignores case, and one page of a result.\<close>

definition contains_ci :: "string \<Rightarrow> string \<Rightarrow> bool" where
  "contains_ci needle hay = sublist (lower needle) (lower hay)"

definition opt_contains :: "string \<Rightarrow> string option \<Rightarrow> bool" where
  "opt_contains needle h = (case h of None \<Rightarrow> False | Some t \<Rightarrow> contains_ci needle t)"

text \<open>\<open>skip: (p - 1) * ps, take: ps\<close>\<close>

definition page_of :: "nat \<Rightarrow> nat \<Rightarrow> 'a list \<Rightarrow> 'a list" where
  "page_of p ps xs = take ps (drop ((p - 1) * ps) xs)"

text \<open>\<open>parseInt(x) || d\<close> on a number that is 0 when missing, and the cap of 100 rows.\<close>

definition page_no :: "nat \<Rightarrow> nat" where
  "page_no p = (if p = 0 then 1 else p)"

definition page_size :: "nat \<Rightarrow> nat" where
  "page_size n = min (if n = 0 then 25 else n) 100"

lemma pages_concat:
  "concat (map (\<lambda>p. page_of (Suc p) ps xs) [0..<n]) = take (n * ps) xs"
  by (induction n) (simp_all add: page_of_def take_add [symmetric] add.commute)

lemma length_page_of: "length (page_of p ps xs) \<le> ps"
  by (simp add: page_of_def)

lemma page_size_bounds: "1 \<le> page_size n \<and> page_size n \<le> 100"
  by (auto simp: page_size_def)

section \<open>Updates\<close>

text \<open>\<open>update({ where: { id } })\<close> and the conditional \<open>updateMany\<close> on access requests.\<close>

definition update_request :: "id \<Rightarrow> (request \<Rightarrow> request) \<Rightarrow> db \<Rightarrow> db" where
  "update_request rid f d =
     d\<lparr>requests := update_where (\<lambda>r. req_id r = rid) f (requests d)\<rparr>"

definition claim_request :: "id \<Rightarrow> (request \<Rightarrow> bool) \<Rightarrow> (request \<Rightarrow> request) \<Rightarrow> db \<Rightarrow> nat \<times> db" where
  "claim_request rid P f d =
     (count_where (\<lambda>r. req_id r = rid \<and> P r) (requests d),
      d\<lparr>requests := update_where (\<lambda>r. req_id r = rid \<and> P r) f (requests d)\<rparr>)"

definition add_request :: "request \<Rightarrow> db \<Rightarrow> db" where
  "add_request r d = d\<lparr>requests := requests d @ [r]\<rparr>"

definition add_audit :: "audit \<Rightarrow> db \<Rightarrow> db" where
  "add_audit a d = d\<lparr>audits := audits d @ [a]\<rparr>"

definition add_notification :: "notification \<Rightarrow> db \<Rightarrow> db" where
  "add_notification n d = d\<lparr>notifications := notifications d @ [n]\<rparr>"

definition add_cert :: "certificate \<Rightarrow> db \<Rightarrow> db" where
  "add_cert c d = d\<lparr>certs := certs d @ [c]\<rparr>"

lemmas store_updates =
  update_request_def claim_request_def add_request_def add_audit_def add_notification_def
  add_cert_def

lemma requests_update_frames [simp]:
  "requests (add_audit a d) = requests d"
  "requests (add_notification n d) = requests d"
  "requests (add_cert c d) = requests d"
  "certs (add_audit a d) = certs d"
  "certs (add_notification n d) = certs d"
  "certs (update_request rid f d) = certs d"
  "certs (add_request r d) = certs d"
  by (simp_all add: store_updates)

lemma requests_update_request [simp]:
  "requests (update_request rid f d) = update_where (\<lambda>r. req_id r = rid) f (requests d)"
  by (simp add: update_request_def)

lemma requests_add_request [simp]: "requests (add_request r d) = requests d @ [r]"
  by (simp add: add_request_def)

end
