(* ===== verification/Scope.thy ===== *)
theory Scope
  imports Store
begin

text \<open>
  Customer scope (\<open>backend/src/lib/scope.js\<close>) and disabled accounts
  (\<open>backend/src/lib/userStatus.js\<close>): which rows a caller may see. The predicates the code
  spreads into a Prisma \<open>where\<close> are Boolean functions on rows here.
\<close>

section \<open>Scopes\<close>

text \<open>\<open>{ mode: 'all' }\<close> (also what a missing scope means) and \<open>{ mode: 'customers', customerIds }\<close>.\<close>

datatype scope = ScopeAll | ScopeCustomers "id list"

definition UNSCOPED :: scope where
  "UNSCOPED = ScopeAll"

definition user_groups :: "db \<Rightarrow> id \<Rightarrow> grp list" where
  "user_groups d uid =
     List.map_filter (\<lambda>m. find (\<lambda>g. grp_id g = mem_group m) (groups d))
       (filter (\<lambda>m. mem_user m = uid) (memberships d))"

definition resolveScope :: "db \<Rightarrow> user option \<Rightarrow> scope" where
  "resolveScope d ou =
     (case ou of
        None \<Rightarrow> UNSCOPED
      | Some u \<Rightarrow>
          if usr_role u = SuperAdmin then UNSCOPED
          else if usr_scope u \<noteq> SCOPE_CUSTOMERS then UNSCOPED
          else
            let gs = user_groups d (usr_id u) in
            if \<exists>g \<in> set gs. grp_scope g = SCOPE_ALL then UNSCOPED
            else
              let customersGroupIds = map grp_id (filter (\<lambda>g. grp_scope g = SCOPE_CUSTOMERS) gs);
                  own = filter (\<lambda>r. scr_owner r = usr_id u) (userScopes d);
                  viaGroups = (if customersGroupIds \<noteq> []
                               then filter (\<lambda>r. scr_owner r \<in> set customersGroupIds) (groupScopes d)
                               else [])
              in ScopeCustomers (uniq (map scr_customer (own @ viaGroups))))"

fun isUnscoped :: "scope \<Rightarrow> bool" where
  "isUnscoped ScopeAll = True"
| "isUnscoped (ScopeCustomers _) = False"

section \<open>Predicates\<close>

fun serverScopeWhere :: "scope \<Rightarrow> server \<Rightarrow> bool" where
  "serverScopeWhere ScopeAll s = True"
| "serverScopeWhere (ScopeCustomers ids) s = (srv_customer s \<in> set ids)"

fun customerScopeWhere :: "scope \<Rightarrow> customer \<Rightarrow> bool" where
  "customerScopeWhere ScopeAll c = True"
| "customerScopeWhere (ScopeCustomers ids) c = (cus_id c \<in> set ids)"

text \<open>The related server of a row; a null relation is excluded for a scoped caller.\<close>

fun relationScopeWhere :: "scope \<Rightarrow> server option \<Rightarrow> bool" where
  "relationScopeWhere ScopeAll os = True"
| "relationScopeWhere (ScopeCustomers ids) os =
     (case os of None \<Rightarrow> False | Some s \<Rightarrow> srv_customer s \<in> set ids)"

fun sessionScopeWhere :: "scope \<Rightarrow> id \<Rightarrow> db \<Rightarrow> session_row \<Rightarrow> bool" where
  "sessionScopeWhere ScopeAll uid d r = True"
| "sessionScopeWhere (ScopeCustomers ids) uid d r =
     ((case ses_server r of
         None \<Rightarrow> False
       | Some sid \<Rightarrow> (\<exists>s \<in> set (servers d). srv_id s = sid \<and> srv_customer s \<in> set ids))
      \<or> (ses_server r = None \<and> ses_user r = uid))"

fun scopeSqlIds :: "scope \<Rightarrow> id list option" where
  "scopeSqlIds ScopeAll = None"
| "scopeSqlIds (ScopeCustomers ids) = Some ids"

section \<open>Guards: out of scope is a 404\<close>

fun assertServerInScope :: "scope \<Rightarrow> server option \<Rightarrow> unit res" where
  "assertServerInScope ScopeAll os = Inr ()"
| "assertServerInScope (ScopeCustomers ids) os =
     (case os of
        None \<Rightarrow> Inl (api_error 404 ''Server not found'')
      | Some s \<Rightarrow> if srv_customer s \<in> set ids then Inr ()
                  else Inl (api_error 404 ''Server not found''))"

fun assertCustomerInScope :: "scope \<Rightarrow> id \<Rightarrow> unit res" where
  "assertCustomerInScope ScopeAll c = Inr ()"
| "assertCustomerInScope (ScopeCustomers ids) c =
     (if c = [] \<or> c \<notin> set ids then Inl (api_error 404 ''Customer not found'') else Inr ())"

section \<open>Disabled accounts\<close>

definition DISABLED_STATUSES :: "user_status list" where
  "DISABLED_STATUSES = [Deleted, Suspended, Deactivated]"

definition isDisabledStatus :: "user_status \<Rightarrow> bool" where
  "isDisabledStatus s = (s \<in> set DISABLED_STATUSES)"

lemma isDisabledStatus_simps [simp]:
  "isDisabledStatus Active = False" "isDisabledStatus Invited = False"
  "isDisabledStatus PendingVerification = False"
  "isDisabledStatus Deleted" "isDisabledStatus Suspended" "isDisabledStatus Deactivated"
  by (simp_all add: isDisabledStatus_def DISABLED_STATUSES_def)

section \<open>The contract of a scope predicate\<close>

text \<open>
  Every predicate of this file narrows by the customer that owns the row. \<open>owner\<close> is that
  customer, \<open>None\<close> for a row that has none.
\<close>

locale scope_predicate =
  fixes sees :: "scope \<Rightarrow> 'r \<Rightarrow> bool" and owner :: "'r \<Rightarrow> id option"
  assumes sees_all: "sees ScopeAll r"
    and sees_customers: "sees (ScopeCustomers ids) r \<longleftrightarrow> (\<exists>c. owner r = Some c \<and> c \<in> set ids)"
begin

lemma empty_sees_nothing: "\<not> sees (ScopeCustomers []) r"
  by (simp add: sees_customers)

lemma narrows: "set ids \<subseteq> set ids' \<Longrightarrow> sees (ScopeCustomers ids) r \<Longrightarrow> sees (ScopeCustomers ids') r"
  by (auto simp: sees_customers)

lemma never_grants: "set (filter (\<lambda>r. P r \<and> sees sc r) rs) \<subseteq> set (filter P rs)"
  by auto

lemma seen_is_owned:
  "r \<in> set (filter (sees (ScopeCustomers ids)) rs) \<Longrightarrow> \<exists>c \<in> set ids. owner r = Some c"
  by (auto simp: sees_customers)

lemma isolation:
  "set ids \<inter> set ids' = {} \<Longrightarrow>
     set (filter (sees (ScopeCustomers ids)) rs) \<inter> set (filter (sees (ScopeCustomers ids')) rs) = {}"
  by (auto simp: sees_customers)

end

interpretation server_scope: scope_predicate serverScopeWhere "\<lambda>s. Some (srv_customer s)"
  by unfold_locales auto

interpretation customer_scope: scope_predicate customerScopeWhere "\<lambda>c. Some (cus_id c)"
  by unfold_locales auto

interpretation relation_scope: scope_predicate relationScopeWhere "map_option srv_customer"
  by unfold_locales (auto split: option.splits)

section \<open>Lemmas\<close>

lemma isUnscoped_iff: "isUnscoped sc \<longleftrightarrow> sc = ScopeAll"
  by (cases sc) auto

lemma assertServerInScope_ok:
  "assertServerInScope sc (Some s) = Inr () \<longleftrightarrow> serverScopeWhere sc s"
  by (cases sc) auto

lemma assertServerInScope_cases:
  "assertServerInScope sc os = Inr () \<or> assertServerInScope sc os = Inl (api_error 404 ''Server not found'')"
  by (cases sc) (auto split: option.splits)

lemma relationScopeWhere_Some [simp]: "relationScopeWhere sc (Some s) = serverScopeWhere sc s"
  by (cases sc) auto

lemma mem_user_groups:
  "g \<in> set (user_groups d uid) \<Longrightarrow>
     g \<in> set (groups d) \<and> (\<exists>m \<in> set (memberships d). mem_user m = uid \<and> mem_group m = grp_id g)"
  by (fastforce simp: user_groups_def List.map_filter_def dest: find_SomeD)

lemma resolveScope_customersD:
  assumes "resolveScope d (Some u) = ScopeCustomers ids"
  shows "usr_role u \<noteq> SuperAdmin" "usr_scope u = SCOPE_CUSTOMERS"
    "\<forall>g \<in> set (user_groups d (usr_id u)). grp_scope g = SCOPE_CUSTOMERS"
proof -
  have nall: "\<not> (\<exists>g \<in> set (user_groups d (usr_id u)). grp_scope g = SCOPE_ALL)"
    using assms by (auto simp: resolveScope_def UNSCOPED_def Let_def split: if_splits)
  show "\<forall>g \<in> set (user_groups d (usr_id u)). grp_scope g = SCOPE_CUSTOMERS"
    using nall by (metis access_scope.exhaust)
  show "usr_role u \<noteq> SuperAdmin" "usr_scope u = SCOPE_CUSTOMERS"
    using assms by (auto simp: resolveScope_def UNSCOPED_def split: if_splits)
qed

lemma resolveScope_customers_set:
  assumes "resolveScope d (Some u) = ScopeCustomers ids"
  shows "set ids = scr_customer ` {r \<in> set (userScopes d). scr_owner r = usr_id u} \<union>
      scr_customer ` {r \<in> set (groupScopes d). scr_owner r \<in> grp_id ` set (user_groups d (usr_id u))}"
proof -
  note cs = resolveScope_customersD [OF assms]
  have "ids = uniq (map scr_customer
      (filter (\<lambda>r. scr_owner r = usr_id u) (userScopes d) @
       (if map grp_id (filter (\<lambda>g. grp_scope g = SCOPE_CUSTOMERS) (user_groups d (usr_id u))) \<noteq> []
        then filter (\<lambda>r. scr_owner r \<in> set (map grp_id (filter (\<lambda>g. grp_scope g = SCOPE_CUSTOMERS)
               (user_groups d (usr_id u))))) (groupScopes d) else [])))"
    using assms by (simp add: resolveScope_def Let_def UNSCOPED_def split: if_splits)
  moreover have "filter (\<lambda>g. grp_scope g = SCOPE_CUSTOMERS) (user_groups d (usr_id u)) = user_groups d (usr_id u)"
    using cs(3) by (simp add: filter_id_conv)
  ultimately show ?thesis
    by (cases "user_groups d (usr_id u) = []") simp_all
qed

end
