(* ===== verification/Permissions.thy ===== *)
theory Permissions
  imports Store
begin

text \<open>
  The permission catalogue (\<open>backend/src/config/permissions.js\<close>): the keys a role can hold,
  and for each the group it is shown under, whether it is sensitive, the base tiers that get
  it by default, whether an API token may carry it and the catalogue version that added it.
  The texts of the catalogue (label, description, endpoints, findings, \<open>current\<close>) document the
  entries and have no behaviour.
\<close>

section \<open>Tiers and entries\<close>

definition TIERS :: "string list" where
  "TIERS = [''member'', ''manager'', ''admin'', ''super_admin'']"

definition tiers_M :: "tier list" where "tiers_M = [Member, Manager, Admin, SuperAdmin]"
definition tiers_MGR :: "tier list" where "tiers_MGR = [Manager, Admin, SuperAdmin]"
definition tiers_ADM :: "tier list" where "tiers_ADM = [Admin, SuperAdmin]"
definition tiers_SA :: "tier list" where "tiers_SA = [SuperAdmin]"

lemmas tiers_defs = tiers_M_def tiers_MGR_def tiers_ADM_def tiers_SA_def

record permission =
  pm_key :: string
  pm_group :: string
  pm_sensitive :: bool
  pm_defaults :: "tier list"
  pm_delegable :: bool
  pm_since :: int

definition perm :: "string \<Rightarrow> string \<Rightarrow> bool \<Rightarrow> tier list \<Rightarrow> bool \<Rightarrow> int \<Rightarrow> permission" where
  "perm k g s ds del since =
     \<lparr>pm_key = k, pm_group = g, pm_sensitive = s, pm_defaults = ds, pm_delegable = del,
      pm_since = since\<rparr>"

section \<open>The catalogue\<close>

definition perms_inventory :: "permission list" where
  "perms_inventory = [
     perm ''customers.view'' ''inventory'' False tiers_M True 1,
     perm ''customers.create'' ''inventory'' False tiers_MGR True 1,
     perm ''customers.update'' ''inventory'' False tiers_MGR True 1,
     perm ''customers.delete'' ''inventory'' True tiers_SA True 1,
     perm ''servers.view'' ''inventory'' False tiers_M True 1,
     perm ''servers.create'' ''inventory'' False tiers_MGR True 1,
     perm ''servers.update'' ''inventory'' False tiers_MGR True 1,
     perm ''servers.change_environment'' ''inventory'' True tiers_ADM True 1,
     perm ''servers.manage_credentials'' ''inventory'' True tiers_ADM True 1,
     perm ''servers.update_connection_ip'' ''inventory'' False tiers_MGR True 1,
     perm ''servers.onboard'' ''inventory'' False tiers_MGR True 1,
     perm ''servers.reset_host_key'' ''inventory'' True tiers_ADM True 1,
     perm ''servers.delete'' ''inventory'' True tiers_SA True 1,
     perm ''import.run'' ''inventory'' False tiers_ADM True 1]"

definition perms_access :: "permission list" where
  "perms_access = [
     perm ''access.request'' ''access'' False tiers_M True 1,
     perm ''access.choose_principal'' ''access'' False tiers_ADM True 1,
     perm ''access.prod_bypass'' ''access'' True tiers_ADM True 1,
     perm ''access.bypass_policies'' ''access'' True tiers_SA True 1,
     perm ''access.break_glass'' ''access'' True tiers_ADM False 1,
     perm ''access_requests.view_all'' ''access'' False tiers_ADM True 1,
     perm ''access_requests.revoke_any'' ''access'' False tiers_ADM True 1]"

definition perms_quick_connect :: "permission list" where
  "perms_quick_connect = [
     perm ''quick_connect.use'' ''quick_connect'' False tiers_MGR True 1,
     perm ''quick_connect.use_stored_identity'' ''quick_connect'' True tiers_ADM True 1,
     perm ''quick_connect.save_server'' ''quick_connect'' False tiers_MGR True 1,
     perm ''quick_connect.settings'' ''quick_connect'' False tiers_ADM True 1]"

definition perms_certificates :: "permission list" where
  "perms_certificates = [
     perm ''certificates.view_all'' ''certificates'' False tiers_ADM True 1,
     perm ''certificates.revoke'' ''certificates'' False tiers_ADM True 1,
     perm ''certificates.issue_direct'' ''certificates'' True tiers_SA True 1,
     perm ''ca.view'' ''certificates'' False tiers_ADM True 1,
     perm ''ca.rotate'' ''certificates'' True tiers_SA False 1]"

definition perms_policies :: "permission list" where
  "perms_policies = [
     perm ''policies.view'' ''policies'' False tiers_ADM True 1,
     perm ''policies.manage'' ''policies'' True tiers_ADM True 1,
     perm ''groups.view'' ''policies'' False tiers_MGR True 1,
     perm ''groups.manage'' ''policies'' False tiers_ADM True 1]"

definition perms_sessions :: "permission list" where
  "perms_sessions = [
     perm ''sessions.view_all'' ''sessions'' False tiers_MGR True 1,
     perm ''sessions.view_recordings'' ''sessions'' True tiers_ADM True 1,
     perm ''sessions.terminate'' ''sessions'' False tiers_ADM True 1,
     perm ''audit.view'' ''sessions'' False tiers_ADM True 1,
     perm ''audit.export'' ''sessions'' True tiers_SA True 1]"

definition perms_keystore :: "permission list" where
  "perms_keystore = [
     perm ''keystore.view'' ''keystore'' False tiers_MGR True 1,
     perm ''keystore.test'' ''keystore'' False tiers_MGR True 1,
     perm ''keystore.manage'' ''keystore'' True tiers_ADM True 1,
     perm ''keystore.export_private'' ''keystore'' True tiers_ADM False 1,
     perm ''keystore.deploy'' ''keystore'' True tiers_ADM True 1]"

definition perms_vault :: "permission list" where
  "perms_vault = [
     perm ''vault.use'' ''vault'' False tiers_M True 2,
     perm ''vault.hosts'' ''vault'' False tiers_M True 2]"

definition perms_users :: "permission list" where
  "perms_users = [
     perm ''users.view'' ''users'' False tiers_ADM True 1,
     perm ''users.view_reports'' ''users'' False tiers_MGR True 1,
     perm ''users.invite'' ''users'' False tiers_ADM True 1,
     perm ''users.update'' ''users'' False tiers_ADM True 1,
     perm ''users.assign_role'' ''users'' True tiers_ADM False 1,
     perm ''users.suspend'' ''users'' False tiers_ADM True 1,
     perm ''users.reset_credentials'' ''users'' True tiers_ADM False 1,
     perm ''users.revoke_sessions'' ''users'' False tiers_ADM True 1,
     perm ''users.delete'' ''users'' True tiers_SA False 1,
     perm ''users.manage_identities'' ''users'' True tiers_ADM False 3,
     perm ''users.assign_scope'' ''users'' True tiers_ADM True 4]"

definition perms_posture :: "permission list" where
  "perms_posture = [
     perm ''posture.read'' ''posture'' False tiers_M True 5,
     perm ''posture.mute'' ''posture'' True tiers_MGR True 5,
     perm ''posture.export'' ''posture'' True tiers_MGR True 6,
     perm ''posture.expected_ports'' ''posture'' True tiers_MGR True 6,
     perm ''posture.settings'' ''posture'' True tiers_ADM True 5]"

definition perms_roles :: "permission list" where
  "perms_roles = [
     perm ''roles.view'' ''roles'' False tiers_ADM True 1,
     perm ''roles.manage'' ''roles'' True tiers_ADM False 1]"

definition perms_settings :: "permission list" where
  "perms_settings = [
     perm ''org.update'' ''settings'' False tiers_ADM True 1,
     perm ''org.access_settings'' ''settings'' True tiers_SA True 1,
     perm ''settings.sso'' ''settings'' True tiers_SA False 1,
     perm ''settings.mfa'' ''settings'' True tiers_SA False 1,
     perm ''settings.smtp'' ''settings'' True tiers_SA False 1,
     perm ''settings.storage'' ''settings'' True tiers_SA False 1,
     perm ''settings.notifications'' ''settings'' True tiers_SA False 8,
     perm ''settings.updates'' ''settings'' True tiers_SA False 9]"

definition perms_audit_destinations :: "permission list" where
  "perms_audit_destinations = [
     perm ''audit.sinks'' ''sessions'' True tiers_SA False 7,
     perm ''audit.retention'' ''sessions'' True tiers_SA False 7]"

definition perms_tokens :: "permission list" where
  "perms_tokens = [
     perm ''tokens.personal'' ''tokens'' False tiers_M False 7,
     perm ''tokens.view_all'' ''tokens'' False tiers_ADM True 7,
     perm ''tokens.revoke_any'' ''tokens'' True tiers_ADM False 7,
     perm ''service_accounts.view'' ''tokens'' False tiers_ADM True 7,
     perm ''service_accounts.manage'' ''tokens'' True tiers_SA False 7]"

definition PERMISSIONS :: "permission list" where
  "PERMISSIONS =
     perms_inventory @ perms_access @ perms_quick_connect @ perms_certificates @ perms_policies @
     perms_sessions @ perms_keystore @ perms_vault @ perms_users @ perms_posture @ perms_roles @
     perms_settings @ perms_audit_destinations @ perms_tokens"

lemmas perms_defs =
  perms_inventory_def perms_access_def perms_quick_connect_def perms_certificates_def
  perms_policies_def perms_sessions_def perms_keystore_def perms_vault_def perms_users_def
  perms_posture_def perms_roles_def perms_settings_def perms_audit_destinations_def
  perms_tokens_def

section \<open>Derived sets\<close>

definition CATALOG_VERSION :: int where
  "CATALOG_VERSION = fold max (map pm_since PERMISSIONS) 0"

definition PERMISSION_KEYS :: "string list" where
  "PERMISSION_KEYS = map pm_key PERMISSIONS"

text \<open>\<open>/\.view(_|$)/.test(key)\<close>\<close>

definition is_view_key :: "string \<Rightarrow> bool" where
  "is_view_key k = (\<exists>s \<in> set (suffixes k). s = ''.view'' \<or> prefix ''.view_'' s)"

definition PRIVILEGED_PERMISSIONS :: "string list" where
  "PRIVILEGED_PERMISSIONS =
     map pm_key (filter (\<lambda>p.
       (pm_group p \<in> {''users'', ''roles'', ''settings''} \<and> \<not> is_view_key (pm_key p)) \<or>
       (pm_group p = ''tokens'' \<and> pm_sensitive p) \<or>
       pm_key p = ''access.prod_bypass'') PERMISSIONS)"

definition NON_DELEGABLE_PERMISSIONS :: "string list" where
  "NON_DELEGABLE_PERMISSIONS = map pm_key (filter (\<lambda>p. \<not> pm_delegable p) PERMISSIONS)"

definition isPermission :: "string \<Rightarrow> bool" where
  "isPermission k = (k \<in> set PERMISSION_KEYS)"

definition defaultPermissionsFor :: "tier \<Rightarrow> string list" where
  "defaultPermissionsFor t =
     (if t = SuperAdmin then PERMISSION_KEYS
      else map pm_key (filter (\<lambda>p. t \<in> set (pm_defaults p)) PERMISSIONS))"

definition normalizePermissions :: "string list \<Rightarrow> string list" where
  "normalizePermissions ks =
     (let wanted = filter isPermission ks in filter (\<lambda>k. k \<in> set wanted) PERMISSION_KEYS)"

definition SYSTEM_ROLES :: "(tier \<times> string \<times> string) list" where
  "SYSTEM_ROLES =
     [(SuperAdmin, ''Super admin'',
       ''Owns the organization. Always has every permission and cannot be edited.''),
      (Admin, ''Admin'',
       ''Runs day-to-day administration: users, policies, Keystore, audit.''),
      (Manager, ''Manager'',
       ''Manages customers and servers, onboards hosts, sees sessions.''),
      (Member, ''Member'',
       ''Views the inventory and requests access to servers.'')]"

section \<open>Lemmas\<close>

text \<open>Every entry is granted to an upward-closed set of tiers.\<close>

definition upward :: "tier list \<Rightarrow> bool" where
  "upward ts = (ts \<in> {tiers_M, tiers_MGR, tiers_ADM, tiers_SA})"

lemma PERMISSIONS_upward: "\<forall>p \<in> set PERMISSIONS. upward (pm_defaults p)"
  by (simp add: PERMISSIONS_def perms_defs perm_def upward_def)

fun tier_rank :: "tier \<Rightarrow> nat" where
  "tier_rank Member = 1"
| "tier_rank Manager = 2"
| "tier_rank Admin = 3"
| "tier_rank SuperAdmin = 4"

lemma upward_mono: "upward ts \<Longrightarrow> t \<in> set ts \<Longrightarrow> tier_rank t \<le> tier_rank t' \<Longrightarrow> t' \<in> set ts"
  by (cases t; cases t') (auto simp: upward_def tiers_defs)

lemma upward_SuperAdmin: "upward ts \<Longrightarrow> SuperAdmin \<in> set ts"
  by (auto simp: upward_def tiers_defs)

lemma defaultPermissionsFor_alt:
  "set (defaultPermissionsFor t) = {pm_key p | p. p \<in> set PERMISSIONS \<and> t \<in> set (pm_defaults p)}"
  using PERMISSIONS_upward upward_SuperAdmin
  by (auto simp: defaultPermissionsFor_def PERMISSION_KEYS_def)

lemma set_normalizePermissions [simp]:
  "set (normalizePermissions ks) = set ks \<inter> set PERMISSION_KEYS"
  by (auto simp: normalizePermissions_def isPermission_def Let_def)

lemma normalize_filter: "normalizePermissions ks = filter (\<lambda>k. k \<in> set ks) PERMISSION_KEYS"
  by (auto simp: normalizePermissions_def isPermission_def Let_def intro!: filter_cong)

lemma normalizePermissions_idem [simp]:
  "normalizePermissions (normalizePermissions ks) = normalizePermissions ks"
  by (simp add: normalize_filter conj_commute cong: filter_cong)

lemma PERMISSION_KEYS_distinct: "distinct PERMISSION_KEYS"
  by code_simp

lemma CATALOG_VERSION_eq: "CATALOG_VERSION = 9"
  by code_simp

end
