(* ===== verification/Roles.thy ===== *)
theory Roles
  imports Permissions
begin

text \<open>
  Custom roles and the permission model (\<open>backend/src/services/roleService.js\<close>): what a role
  or a user is allowed, who may act on a role, and the operations that create, edit, reset
  and delete roles or bring them in step with the catalogue.
\<close>

section \<open>Resolution\<close>

definition tier_of_name :: "string \<Rightarrow> tier option" where
  "tier_of_name s =
     (if s = ''member'' then Some Member else if s = ''manager'' then Some Manager
      else if s = ''admin'' then Some Admin else if s = ''super_admin'' then Some SuperAdmin else None)"

definition SENSITIVE :: "string list" where
  "SENSITIVE = map pm_key (filter pm_sensitive PERMISSIONS)"

definition isOwnerRole :: "role option \<Rightarrow> bool" where
  "isOwnerRole r = (case r of None \<Rightarrow> False | Some r \<Rightarrow> rol_isSystem r \<and> rol_key r = ''super_admin'')"

definition permissionsOfRole :: "role option \<Rightarrow> string list" where
  "permissionsOfRole r =
     (case r of None \<Rightarrow> []
      | Some ro \<Rightarrow> if isOwnerRole r then PERMISSION_KEYS else normalizePermissions (rol_permissions ro))"

text \<open>The user row with its \<open>assignedRole\<close> relation loaded.\<close>

definition permissionsForUser :: "user \<Rightarrow> role option \<Rightarrow> string list" where
  "permissionsForUser u assigned =
     (case assigned of Some _ \<Rightarrow> permissionsOfRole assigned | None \<Rightarrow> defaultPermissionsFor (usr_role u))"

definition hasPermission :: "string list \<Rightarrow> string \<Rightarrow> bool" where
  "hasPermission perms k = (k \<in> set perms)"

definition coversAll :: "string list \<Rightarrow> string list \<Rightarrow> bool" where
  "coversAll actorPerms perms = (\<forall>p \<in> set perms. p \<in> set actorPerms)"

definition missingFrom :: "string list \<Rightarrow> string list \<Rightarrow> string list" where
  "missingFrom actorPerms perms = filter (\<lambda>p. p \<notin> set actorPerms) perms"

record actor =
  act_user :: id
  act_roleId :: "id option"
  act_tier :: tier
  act_permissions :: "string list"

definition canActOnRole :: "actor \<Rightarrow> role option \<Rightarrow> bool" where
  "canActOnRole a r =
     (case r of
        None \<Rightarrow> True
      | Some ro \<Rightarrow>
          if isOwnerRole r \<and> act_tier a \<noteq> SuperAdmin then False
          else if tier_rank (rol_base ro) > tier_rank (act_tier a) then False
          else coversAll (act_permissions a) (permissionsOfRole r))"

definition ROLE_ESCALATION :: "string option" where
  "ROLE_ESCALATION = Some ''ROLE_ESCALATION''"

definition assertCanActOnRole :: "actor \<Rightarrow> role option \<Rightarrow> string \<Rightarrow> unit res" where
  "assertCanActOnRole a r what =
     (if canActOnRole a r then Inr ()
      else Inl (ApiError 403 (''You can't '' @ what @ '': it has permissions you don't hold'')
                  ROLE_ESCALATION))"

section \<open>System-role sync\<close>

text \<open>\<open>settings?.access?.prodApprovalBypassMinRole\<close> and \<open>settings?.quickConnect?.minRole\<close>.\<close>

definition settings_path :: "json option \<Rightarrow> string \<Rightarrow> string \<Rightarrow> json option" where
  "settings_path s k1 k2 =
     (case s of None \<Rightarrow> None
      | Some j \<Rightarrow> (case json_get j k1 of None \<Rightarrow> None | Some j' \<Rightarrow> json_get j' k2))"

definition set_add :: "string \<Rightarrow> string list \<Rightarrow> string list" where
  "set_add k xs = (if k \<in> set xs then xs else xs @ [k])"

definition set_delete :: "string \<Rightarrow> string list \<Rightarrow> string list" where
  "set_delete k xs = filter (\<lambda>x. x \<noteq> k) xs"

definition legacyAdjustments :: "json option \<Rightarrow> tier \<Rightarrow> string list \<Rightarrow> string list" where
  "legacyAdjustments settings t perms =
     (let bypass = settings_path settings ''access'' ''prodApprovalBypassMinRole'';
          out1 = (if (bypass = Some (JStr ''super_admin'') \<or> bypass = Some (JStr ''none''))
                     \<and> t \<noteq> SuperAdmin
                  then set_delete ''access.prod_bypass'' perms else perms);
          qcMin = (case settings_path settings ''quickConnect'' ''minRole'' of
                     Some (JStr s) \<Rightarrow> tier_of_name s | _ \<Rightarrow> None);
          out2 = (case qcMin of
                    None \<Rightarrow> out1
                  | Some m \<Rightarrow> if tier_rank t \<ge> tier_rank m then set_add ''quick_connect.use'' out1
                              else set_delete ''quick_connect.use'' out1)
      in normalizePermissions out2)"

definition new_system_role :: "id \<Rightarrow> json option \<Rightarrow> (string \<Rightarrow> id) \<Rightarrow> tier \<times> string \<times> string \<Rightarrow> role" where
  "new_system_role oid settings fresh sys =
     (case sys of (t, nm, desc) \<Rightarrow>
       \<lparr>rol_id = fresh (tier_name t), rol_org = oid, rol_key = tier_name t, rol_name = nm,
        rol_description = Some desc, rol_base = t,
        rol_permissions = legacyAdjustments settings t (defaultPermissionsFor t),
        rol_isSystem = True, rol_catalogVersion = CATALOG_VERSION\<rparr>)"

definition upgrade_role :: "role \<Rightarrow> role" where
  "upgrade_role r =
     (if rol_catalogVersion r \<ge> CATALOG_VERSION then r
      else
        let added = map pm_key (filter (\<lambda>p. pm_since p > rol_catalogVersion r \<and>
                      (rol_base r = SuperAdmin \<or> rol_base r \<in> set (pm_defaults p))) PERMISSIONS)
        in r\<lparr>rol_permissions := normalizePermissions (rol_permissions r @ added),
             rol_catalogVersion := CATALOG_VERSION\<rparr>)"

text \<open>Link users without a role to the system role of their tier, one tier after another.\<close>

fun link_tiers :: "id \<Rightarrow> role list \<Rightarrow> tier list \<Rightarrow> user list \<Rightarrow> user list" where
  "link_tiers oid rs [] us = us"
| "link_tiers oid rs (t # ts) us =
     link_tiers oid rs ts
       (update_where (\<lambda>u. usr_org u = oid \<and> usr_roleId u = None \<and> usr_role u = t)
          (\<lambda>u. u\<lparr>usr_roleId := map_option rol_id (find (\<lambda>r. rol_key r = tier_name t) rs)\<rparr>) us)"

text \<open>Keep \<open>User.role\<close> in step with the base tier of the role.\<close>

fun mirror_tiers :: "id \<Rightarrow> role list \<Rightarrow> user list \<Rightarrow> user list" where
  "mirror_tiers oid [] us = us"
| "mirror_tiers oid (r # rs) us =
     mirror_tiers oid rs
       (update_where (\<lambda>u. usr_org u = oid \<and> usr_roleId u = Some (rol_id r) \<and> usr_role u \<noteq> rol_base r)
          (\<lambda>u. u\<lparr>usr_role := rol_base r\<rparr>) us)"

definition syncSystemRoles :: "(string \<Rightarrow> id) \<Rightarrow> id \<Rightarrow> db \<Rightarrow> db" where
  "syncSystemRoles fresh oid d =
     (case find_org d oid of
        None \<Rightarrow> d
      | Some g \<Rightarrow>
          let existing = filter (\<lambda>r. rol_org r = oid) (roles d);
              missing = filter (\<lambda>sys. \<not> (\<exists>r \<in> set existing. rol_key r = tier_name (fst sys))) SYSTEM_ROLES;
              created = map (new_system_role oid (org_settings g) fresh) missing;
              roles' = update_where (\<lambda>r. rol_org r = oid) upgrade_role (roles d) @ created;
              byKey = existing @ created;
              us1 = link_tiers oid byKey [Member, Manager, Admin, SuperAdmin] (users d);
              us2 = mirror_tiers oid byKey us1
          in d\<lparr>roles := roles', users := us2\<rparr>)"

section \<open>Queries\<close>

definition find_role_in_org :: "db \<Rightarrow> id \<Rightarrow> id \<Rightarrow> role option" where
  "find_role_in_org d rid oid = find (\<lambda>r. rol_id r = rid \<and> rol_org r = oid) (roles d)"

definition getSystemRole :: "db \<Rightarrow> id \<Rightarrow> tier \<Rightarrow> role option" where
  "getSystemRole d oid t = find (\<lambda>r. rol_org r = oid \<and> rol_key r = tier_name t \<and> rol_isSystem r) (roles d)"

definition resolveRole :: "db \<Rightarrow> id \<Rightarrow> string \<Rightarrow> role option" where
  "resolveRole d oid ref =
     (if ref = [] then None
      else case find (\<lambda>r. rol_org r = oid \<and> (rol_id r = ref \<or> rol_key r = ref)) (roles d) of
             Some r \<Rightarrow> Some r
           | None \<Rightarrow> find (\<lambda>r. rol_org r = oid \<and> lower (rol_name r) = lower ref) (roles d))"

definition isAutoAssignable :: "role option \<Rightarrow> bool" where
  "isAutoAssignable r =
     (r \<noteq> None \<and> \<not> isOwnerRole r \<and> (\<forall>p \<in> set (permissionsOfRole r). p \<notin> set SENSITIVE))"

definition assertSsoDefaultRole :: "db \<Rightarrow> id \<Rightarrow> string \<Rightarrow> string option res" where
  "assertSsoDefaultRole d oid ref =
     (if ref = [] then Inr None
      else case resolveRole d oid ref of
             None \<Rightarrow> Inl (api_error 400 (''Unknown role '' @ dq ref))
           | Some r \<Rightarrow>
               if \<not> isAutoAssignable (Some r)
               then Inl (api_error 400 (dq (rol_name r) @
                      '' has sensitive permissions and can't be given automatically to new SSO users''))
               else Inr (Some (rol_key r)))"

definition ssoDefaultRole :: "db \<Rightarrow> id \<Rightarrow> string \<Rightarrow> role option" where
  "ssoDefaultRole d oid ref =
     (let r = (if ref \<noteq> [] then resolveRole d oid ref else None)
      in if isAutoAssignable r then r else getSystemRole d oid Member)"

definition usersWithPermission :: "db \<Rightarrow> id \<Rightarrow> string \<Rightarrow> id option \<Rightarrow> user list" where
  "usersWithPermission d oid k excl =
     (let roleIds = map rol_id (filter (\<lambda>r. k \<in> set (permissionsOfRole (Some r)))
                      (filter (\<lambda>r. rol_org r = oid) (roles d)))
      in if roleIds = [] then []
         else filter (\<lambda>u. usr_org u = oid \<and> (\<exists>i \<in> set roleIds. usr_roleId u = Some i)
                \<and> usr_status u = Active \<and> usr_deletedAt u = None \<and> usr_kind u = Human
                \<and> Some (usr_id u) \<noteq> excl) (users d))"

section \<open>Mutations\<close>

text \<open>\<open>nfkd\<close> is the compatibility decomposition of the runtime's Unicode tables (\<open>normalize('NFKD')\<close>).\<close>

definition slugify :: "(string \<Rightarrow> string) \<Rightarrow> string \<Rightarrow> string" where
  "slugify nfkd nm = (let s = take 40 (slug (nfkd (lower nm))) in if s = [] then ''role'' else s)"

definition key_taken :: "db \<Rightarrow> id \<Rightarrow> string \<Rightarrow> bool" where
  "key_taken d oid k = (\<exists>r \<in> set (roles d). rol_org r = oid \<and> rol_key r = k)"

text \<open>
  \<open>for (let i = 2; taken(key); i += 1) key = base_i\<close>. The fuel is the number of probes; one
  more than there are roles is enough.
\<close>

fun probe_key :: "(string \<Rightarrow> bool) \<Rightarrow> string \<Rightarrow> nat \<Rightarrow> string \<Rightarrow> nat \<Rightarrow> string option" where
  "probe_key taken base 0 k i = None"
| "probe_key taken base (Suc fuel) k i =
     (if taken k then probe_key taken base fuel (base @ ''_'' @ nat_str i) (Suc i) else Some k)"

definition uniqueKey :: "(string \<Rightarrow> string) \<Rightarrow> db \<Rightarrow> id \<Rightarrow> string \<Rightarrow> string option" where
  "uniqueKey nfkd d oid nm =
     (let base = slugify nfkd nm;
          k = (if base \<in> set TIERS then base @ ''_custom'' else base)
      in probe_key (key_taken d oid) base (length (roles d) + 2) k 2)"

definition assertGrantable :: "actor \<Rightarrow> string list \<Rightarrow> unit res" where
  "assertGrantable a perms =
     (if missingFrom (act_permissions a) perms \<noteq> []
      then Inl (ApiError 403 ''You can only grant permissions you hold yourself'' ROLE_ESCALATION)
      else Inr ())"

definition assertBaseRole :: "actor \<Rightarrow> string \<Rightarrow> tier res" where
  "assertBaseRole a base =
     (case tier_of_name base of
        None \<Rightarrow> Inl (api_error 400 ''baseRole must be one of: member, manager, admin'')
      | Some t \<Rightarrow>
          if t = SuperAdmin then Inl (api_error 400 ''baseRole must be one of: member, manager, admin'')
          else if tier_rank t > tier_rank (act_tier a)
          then Inl (ApiError 403 ''A role's base can't be above your own'' ROLE_ESCALATION)
          else Inr t)"

definition assertNameFree :: "db \<Rightarrow> id \<Rightarrow> string \<Rightarrow> id option \<Rightarrow> unit res" where
  "assertNameFree d oid nm excl =
     (if \<exists>r \<in> set (roles d). rol_org r = oid \<and> lower (rol_name r) = lower nm \<and> Some (rol_id r) \<noteq> excl
      then Inl (api_error 409 (''A role named '' @ dq nm @ '' already exists'')) else Inr ())"

text \<open>\<open>data\<close> of a create or an update; \<open>None\<close> is \<open>undefined\<close>.\<close>

record role_data =
  rd_name :: "string option"
  rd_description :: "string option"
  rd_base :: "string option"
  rd_permissions :: "string list option"
  rd_copyFrom :: "id option"

definition role_audit :: "id \<Rightarrow> actor \<Rightarrow> string \<Rightarrow> id \<Rightarrow> audit" where
  "role_audit oid a action rid =
     \<lparr>aud_org = oid, aud_actor = Some (act_user a), aud_action = action, aud_resourceType = ''Role'',
      aud_resource = Some rid, aud_meta = JNull\<rparr>"

text \<open>\<open>data.description?.trim() || null\<close>\<close>

definition clean_description :: "string option \<Rightarrow> string option" where
  "clean_description x =
     (case x of None \<Rightarrow> None | Some s \<Rightarrow> if js_trim s = [] then None else Some (js_trim s))"

text \<open>The role copied from, if one is named: its permissions and base fill what \<open>data\<close> leaves out.\<close>

definition role_source :: "db \<Rightarrow> id \<Rightarrow> role_data \<Rightarrow> (string \<times> string list) res" where
  "role_source d oid data =
     (let base = or_else (rd_base data) ''member'' in
      if truthy (rd_copyFrom data) then
        (case find_role_in_org d (the (rd_copyFrom data)) oid of
           None \<Rightarrow> Inl (api_error 404 ''Role to copy not found'')
         | Some src \<Rightarrow>
             Inr (if \<not> truthy (rd_base data)
                  then (if rol_base src = SuperAdmin then ''admin'' else tier_name (rol_base src))
                  else base,
                  case rd_permissions data of None \<Rightarrow> permissionsOfRole (Some src) | Some ps \<Rightarrow> ps))
      else Inr (base, case rd_permissions data of None \<Rightarrow> [] | Some ps \<Rightarrow> ps))"

definition createRole :: "(string \<Rightarrow> string) \<Rightarrow> id \<Rightarrow> id \<Rightarrow> actor \<Rightarrow> role_data \<Rightarrow> db \<Rightarrow> role res \<times> db" where
  "createRole nfkd newId oid a data d =
     (let nm = js_trim (or_else (rd_name data) '''') in
      if nm = [] then (Inl (api_error 400 ''name is required''), d)
      else case assertNameFree d oid nm None of Inl e \<Rightarrow> (Inl e, d) | Inr _ \<Rightarrow>
      case role_source d oid data of Inl e \<Rightarrow> (Inl e, d) | Inr (base, ps) \<Rightarrow>
      let permissions = normalizePermissions ps in
      case assertBaseRole a base of Inl e \<Rightarrow> (Inl e, d) | Inr t \<Rightarrow>
      case assertGrantable a permissions of Inl e \<Rightarrow> (Inl e, d) | Inr _ \<Rightarrow>
      case uniqueKey nfkd d oid nm of None \<Rightarrow> (Inl DbError, d) | Some k \<Rightarrow>
      let r = \<lparr>rol_id = newId, rol_org = oid, rol_key = k, rol_name = nm,
               rol_description = clean_description (rd_description data), rol_base = t,
               rol_permissions = permissions, rol_isSystem = False,
               rol_catalogVersion = CATALOG_VERSION\<rparr>
      in (Inr r, add_audit (role_audit oid a ''role.created'' newId) (d\<lparr>roles := roles d @ [r]\<rparr>)))"

text \<open>The checks of an update, in the order the code makes them; the result is the new row.\<close>

definition role_patch :: "db \<Rightarrow> id \<Rightarrow> actor \<Rightarrow> role \<Rightarrow> role_data \<Rightarrow> role res" where
  "role_patch d oid a r data =
     (case (case rd_name data of
              None \<Rightarrow> Inr r
            | Some n \<Rightarrow>
                if rol_isSystem r then Inl (api_error 400 ''Built-in roles cannot be renamed'')
                else let nm = js_trim n in
                  if nm = [] then Inl (api_error 400 ''name cannot be empty'')
                  else (case assertNameFree d oid nm (Some (rol_id r)) of
                          Inl e \<Rightarrow> Inl e | Inr _ \<Rightarrow> Inr (r\<lparr>rol_name := nm\<rparr>)))
      of Inl e \<Rightarrow> Inl e | Inr r1 \<Rightarrow>
      let r2 = (case rd_description data of None \<Rightarrow> r1
                | Some _ \<Rightarrow> r1\<lparr>rol_description := clean_description (rd_description data)\<rparr>) in
      case (case rd_base data of
              None \<Rightarrow> Inr r2
            | Some b \<Rightarrow>
                if b = tier_name (rol_base r) then Inr r2
                else if rol_isSystem r then Inl (api_error 400 ''A built-in role's base cannot change'')
                else (case assertBaseRole a b of Inl e \<Rightarrow> Inl e | Inr t \<Rightarrow> Inr (r2\<lparr>rol_base := t\<rparr>)))
      of Inl e \<Rightarrow> Inl e | Inr r3 \<Rightarrow>
      (case rd_permissions data of
         None \<Rightarrow> Inr r3
       | Some ps \<Rightarrow>
           let nxt = normalizePermissions ps in
           case assertGrantable a nxt of Inl e \<Rightarrow> Inl e | Inr _ \<Rightarrow> Inr (r3\<lparr>rol_permissions := nxt\<rparr>)))"

definition updateRole :: "id \<Rightarrow> actor \<Rightarrow> id \<Rightarrow> role_data \<Rightarrow> db \<Rightarrow> role res \<times> db" where
  "updateRole oid a rid data d =
     (case find_role_in_org d rid oid of
        None \<Rightarrow> (Inl (api_error 404 ''Role not found''), d)
      | Some r \<Rightarrow>
          if isOwnerRole (Some r)
          then (Inl (api_error 403 ''The Super admin role always has every permission and cannot be edited''), d)
          else if Some (rol_id r) = act_roleId a
          then (Inl (ApiError 403 ''You can't edit the role you hold'' (Some ''ROLE_SELF_EDIT'')), d)
          else case assertCanActOnRole a (Some r) ''edit this role'' of Inl e \<Rightarrow> (Inl e, d) | Inr _ \<Rightarrow>
          case role_patch d oid a r data of Inl e \<Rightarrow> (Inl e, d) | Inr r' \<Rightarrow>
          let d1 = d\<lparr>roles := update_where (\<lambda>x. rol_id x = rid) (\<lambda>_. r') (roles d)\<rparr>;
              d2 = (if rol_base r' \<noteq> rol_base r
                    then d1\<lparr>users := update_where (\<lambda>u. usr_org u = oid \<and> usr_roleId u = Some rid)
                              (\<lambda>u. u\<lparr>usr_role := rol_base r'\<rparr>) (users d1)\<rparr>
                    else d1)
          in (Inr r', add_audit (role_audit oid a ''role.updated'' rid) d2))"

definition resetRole :: "id \<Rightarrow> actor \<Rightarrow> id \<Rightarrow> db \<Rightarrow> role res \<times> db" where
  "resetRole oid a rid d =
     (case find_role_in_org d rid oid of
        None \<Rightarrow> (Inl (api_error 404 ''Role not found''), d)
      | Some r \<Rightarrow>
          if \<not> rol_isSystem r then (Inl (api_error 400 ''Only built-in roles can be reset to defaults''), d)
          else updateRole oid a rid
                 \<lparr>rd_name = None, rd_description = None, rd_base = None,
                  rd_permissions = Some (case tier_of_name (rol_key r) of
                                           None \<Rightarrow> [] | Some t \<Rightarrow> defaultPermissionsFor t),
                  rd_copyFrom = None\<rparr> d)"

text \<open>Where the users of a role that goes away move to.\<close>

definition role_target :: "db \<Rightarrow> id \<Rightarrow> actor \<Rightarrow> id \<Rightarrow> nat \<Rightarrow> id option \<Rightarrow> role option res" where
  "role_target d oid a rid userCount reassign =
     (if userCount = 0 then Inr None
      else if \<not> truthy reassign
      then Inl (ApiError 409 (dashed (nat_str userCount @ '' user(s) have this role'') ''choose a role to move them to'')
             (Some ''ROLE_IN_USE''))
      else case find_role_in_org d (the reassign) oid of
             None \<Rightarrow> Inl (api_error 400 ''Choose a different, existing role to move users to'')
           | Some t \<Rightarrow>
               if rol_id t = rid then Inl (api_error 400 ''Choose a different, existing role to move users to'')
               else case assertCanActOnRole a (Some t) ''move users to that role'' of
                      Inl e \<Rightarrow> Inl e | Inr _ \<Rightarrow> Inr (Some t))"

definition drop_role_subjects :: "id \<Rightarrow> string \<Rightarrow> policy list \<Rightarrow> policy list" where
  "drop_role_subjects oid k ps =
     update_where (\<lambda>p. pol_org p = oid)
       (\<lambda>p. p\<lparr>pol_subjects := filter (\<lambda>s. \<not> (sub_type s = ROLE \<and> sub_id s = k)) (pol_subjects p)\<rparr>) ps"

text \<open>The transaction: move the users, drop the policy subjects, delete the row.\<close>

definition delete_role_rows :: "id \<Rightarrow> role \<Rightarrow> role option \<Rightarrow> db \<Rightarrow> db" where
  "delete_role_rows oid r target d =
     (let d1 = (case target of None \<Rightarrow> d
                | Some t \<Rightarrow> d\<lparr>users := update_where (\<lambda>u. usr_org u = oid \<and> usr_roleId u = Some (rol_id r))
                               (\<lambda>u. u\<lparr>usr_roleId := Some (rol_id t), usr_role := rol_base t\<rparr>) (users d)\<rparr>);
          d2 = d1\<lparr>policies := drop_role_subjects oid (rol_key r) (policies d1)\<rparr>
      in d2\<lparr>roles := filter (\<lambda>x. rol_id x \<noteq> rol_id r) (roles d2)\<rparr>)"

definition deleteRole :: "id \<Rightarrow> actor \<Rightarrow> id \<Rightarrow> id option \<Rightarrow> db \<Rightarrow> nat res \<times> db" where
  "deleteRole oid a rid reassign d =
     (case find_role_in_org d rid oid of
        None \<Rightarrow> (Inl (api_error 404 ''Role not found''), d)
      | Some r \<Rightarrow>
          if rol_isSystem r then (Inl (api_error 400 ''Built-in roles cannot be deleted''), d)
          else if Some (rol_id r) = act_roleId a
          then (Inl (api_error 403 ''You can't delete the role you hold''), d)
          else case assertCanActOnRole a (Some r) ''delete this role'' of Inl e \<Rightarrow> (Inl e, d) | Inr _ \<Rightarrow>
          let userCount = count_where (\<lambda>u. usr_org u = oid \<and> usr_roleId u = Some rid) (users d) in
          case role_target d oid a rid userCount reassign of Inl e \<Rightarrow> (Inl e, d) | Inr target \<Rightarrow>
          (Inr userCount, add_audit (role_audit oid a ''role.deleted'' rid) (delete_role_rows oid r target d)))"

end
