(* ===== verification/RolesProps.thy ===== *)
theory RolesProps
  imports Roles
begin

text \<open>
  What the role operations guarantee: nobody hands out, through a role, more than they hold;
  a new role always gets a key nothing else uses; a deleted role leaves no user and no policy
  subject behind.
\<close>

section \<open>Lemmas\<close>

lemma missingFrom_Nil: "missingFrom ap ps = [] \<longleftrightarrow> coversAll ap ps"
  by (auto simp: missingFrom_def coversAll_def filter_empty_conv)

lemma assertGrantable_ok: "assertGrantable a ps = Inr u \<longleftrightarrow> coversAll (act_permissions a) ps"
  by (auto simp: assertGrantable_def missingFrom_Nil)

lemma assertBaseRole_ok:
  "assertBaseRole a b = Inr t \<longleftrightarrow>
     tier_of_name b = Some t \<and> t \<noteq> SuperAdmin \<and> tier_rank t \<le> tier_rank (act_tier a)"
  by (auto simp: assertBaseRole_def split: option.splits)

lemma assertCanActOnRole_ok: "assertCanActOnRole a r w = Inr u \<longleftrightarrow> canActOnRole a r"
  by (auto simp: assertCanActOnRole_def)

lemma permissionsOfRole_custom:
  "\<not> isOwnerRole (Some r) \<Longrightarrow> permissionsOfRole (Some r) = normalizePermissions (rol_permissions r)"
  by (simp add: permissionsOfRole_def)

lemma coversAll_normalize:
  "coversAll ap (normalizePermissions (normalizePermissions ps)) \<longleftrightarrow> coversAll ap (normalizePermissions ps)"
  by simp

lemma isOwnerRole_Some: "isOwnerRole (Some r) \<longleftrightarrow> rol_isSystem r \<and> rol_key r = ''super_admin''"
  by (simp add: isOwnerRole_def)

section \<open>Free keys\<close>

lemma probe_key_free: "probe_key taken base n k i = Some k' \<Longrightarrow> \<not> taken k'"
  by (induction n arbitrary: k i) (auto split: if_splits)

lemma probe_key_enough:
  assumes "finite {k. taken k}" and "card {k. taken k} < n"
  shows "probe_key taken base (Suc n) k i \<noteq> None"
proof
  assume none: "probe_key taken base (Suc n) k i = None"
  have all: "probe_key taken base m k' j = None \<Longrightarrow> Suc l < m \<Longrightarrow>
      taken (base @ ''_'' @ nat_str (j + l))" for m k' j l
  proof (induction m arbitrary: k' j l)
    case 0
    then show ?case by simp
  next
    case (Suc m)
    then have rec: "probe_key taken base m (base @ ''_'' @ nat_str j) (Suc j) = None"
      by (auto split: if_splits)
    show ?case
    proof (cases l)
      case 0
      with Suc.prems(2) obtain m' where "m = Suc m'" by (cases m) auto
      with rec 0 show ?thesis by (auto split: if_splits)
    next
      case (Suc l')
      with Suc.prems(2) have "Suc l' < m" by simp
      from Suc.IH [OF rec this] Suc show ?thesis by simp
    qed
  qed
  let ?f = "\<lambda>l. base @ ''_'' @ nat_str (i + l)"
  have "?f ` {..<n} \<subseteq> {k. taken k}" using all [OF none] by auto
  moreover have "inj_on ?f {..<n}"
  proof (rule inj_onI)
    fix x y assume xy: "x \<in> {..<n}" "y \<in> {..<n}" "?f x = ?f y"
    then have "nat_str (i + x) = nat_str (i + y)" by simp
    then have "i + x = i + y" by (rule nat_str_inj)
    then show "x = y" by simp
  qed
  ultimately have "card {..<n} \<le> card {k. taken k}"
    using assms(1) card_image card_mono by metis
  with assms(2) show False by simp
qed

lemma taken_finite: "finite {k. key_taken d oid k}" "card {k. key_taken d oid k} \<le> length (roles d)"
proof -
  have sub: "{k. key_taken d oid k} \<subseteq> set (map rol_key (roles d))" by (auto simp: key_taken_def)
  then show "finite {k. key_taken d oid k}" by (rule finite_subset) simp
  have "card {k. key_taken d oid k} \<le> card (set (map rol_key (roles d)))"
    using sub by (intro card_mono) simp_all
  then show "card {k. key_taken d oid k} \<le> length (roles d)"
    using card_length [of "map rol_key (roles d)"] by simp
qed

lemma uniqueKey_total: "\<exists>k. uniqueKey nfkd d oid nm = Some k \<and> \<not> key_taken d oid k"
proof -
  have "card {k. key_taken d oid k} < Suc (length (roles d))" using taken_finite(2) [of d oid] by simp
  from probe_key_enough [OF taken_finite(1) this]
  obtain k where "uniqueKey nfkd d oid nm = Some k"
    unfolding uniqueKey_def Let_def by (metis add_2_eq_Suc' not_Some_eq)
  moreover from this have "\<not> key_taken d oid k"
    unfolding uniqueKey_def Let_def by (rule probe_key_free)
  ultimately show ?thesis by blast
qed

section \<open>Creation and edition never escalate\<close>

text \<open>C: a role the actor created holds nothing the actor lacks.\<close>

lemma createRole_InrD:
  assumes "createRole nfkd newId oid a data d = (Inr r, d')"
  shows "coversAll (act_permissions a) (rol_permissions r)" "tier_rank (rol_base r) \<le> tier_rank (act_tier a)"
    "rol_base r \<noteq> SuperAdmin" "\<not> rol_isSystem r" "\<not> key_taken d oid (rol_key r)"
    "roles d' = roles d @ [r]" "users d' = users d" "rol_org r = oid"
    "rol_permissions r = normalizePermissions (rol_permissions r)"
proof -
  from assms obtain nm base ps t k where
    g: "assertGrantable a (normalizePermissions ps) = Inr ()"
    and b: "assertBaseRole a base = Inr t"
    and u: "uniqueKey nfkd d oid nm = Some k"
    and r: "rol_permissions r = normalizePermissions ps" "rol_base r = t" "rol_isSystem r = False"
      "rol_key r = k" "rol_org r = oid"
    and d': "roles d' = roles d @ [r]" "users d' = users d"
    by (auto simp: createRole_def Let_def add_audit_def split: if_splits sum.splits option.splits prod.splits)
  show "coversAll (act_permissions a) (rol_permissions r)" using g r by (simp add: assertGrantable_ok)
  show "tier_rank (rol_base r) \<le> tier_rank (act_tier a)" "rol_base r \<noteq> SuperAdmin"
    using b r by (auto simp: assertBaseRole_ok)
  show "\<not> key_taken d oid (rol_key r)" using u r uniqueKey_total [of nfkd d oid nm] by auto
  show "\<not> rol_isSystem r" "roles d' = roles d @ [r]" "users d' = users d" "rol_org r = oid"
    "rol_permissions r = normalizePermissions (rol_permissions r)"
    using r d' by simp_all
qed

lemma role_patch_InrD:
  assumes "role_patch d oid a r data = Inr r'"
  shows "rol_id r' = rol_id r" "rol_org r' = rol_org r" "rol_key r' = rol_key r"
    "rol_isSystem r' = rol_isSystem r"
    "rol_permissions r' = rol_permissions r \<or>
       coversAll (act_permissions a) (rol_permissions r')
       \<and> rol_permissions r' = normalizePermissions (rol_permissions r')"
    "rol_base r' = rol_base r \<or> \<not> rol_isSystem r \<and> rol_base r' \<noteq> SuperAdmin
       \<and> tier_rank (rol_base r') \<le> tier_rank (act_tier a)"
  using assms
  by (auto simp: role_patch_def Let_def assertGrantable_ok assertBaseRole_ok
      split: option.splits if_splits sum.splits)

lemma updateRole_InrD:
  assumes "updateRole oid a rid data d = (Inr r', d')"
  obtains r where "find_role_in_org d rid oid = Some r" "\<not> isOwnerRole (Some r)"
    "Some (rol_id r) \<noteq> act_roleId a" "canActOnRole a (Some r)" "role_patch d oid a r data = Inr r'"
  using assms
  by (auto simp: updateRole_def Let_def assertCanActOnRole_ok split: option.splits if_splits sum.splits)

lemma updateRole_stays_below:
  assumes "updateRole oid a rid data d = (Inr r', d')"
  shows "canActOnRole a (Some r')"
proof -
  from assms obtain r where r: "\<not> isOwnerRole (Some r)" "canActOnRole a (Some r)"
    and p: "role_patch d oid a r data = Inr r'" by (elim updateRole_InrD)
  note pd = role_patch_InrD [OF p]
  have own: "\<not> isOwnerRole (Some r')" using r(1) pd by (simp add: isOwnerRole_Some)
  have "tier_rank (rol_base r') \<le> tier_rank (act_tier a)"
    using pd(6) r by (auto simp: canActOnRole_def split: if_splits)
  moreover have "coversAll (act_permissions a) (permissionsOfRole (Some r'))"
    using pd(5)
  proof
    assume "rol_permissions r' = rol_permissions r"
    then show ?thesis using r own
      by (simp add: canActOnRole_def permissionsOfRole_custom split: if_splits)
  next
    assume "coversAll (act_permissions a) (rol_permissions r') \<and>
      rol_permissions r' = normalizePermissions (rol_permissions r')"
    then show ?thesis using own by (metis permissionsOfRole_custom)
  qed
  ultimately show ?thesis using own by (simp add: canActOnRole_def)
qed

section \<open>Deletion leaves nothing dangling\<close>

lemma find_role_in_org_SomeD:
  "find_role_in_org d rid oid = Some r \<Longrightarrow> r \<in> set (roles d) \<and> rol_id r = rid \<and> rol_org r = oid"
  by (auto simp: find_role_in_org_def dest: find_SomeD)

lemma role_target_InrD:
  assumes "role_target d oid a rid n re = Inr t"
  shows "t = None \<longleftrightarrow> n = 0"
    "t = Some ro \<Longrightarrow> rol_id ro \<noteq> rid \<and> canActOnRole a (Some ro) \<and> ro \<in> set (roles d) \<and> rol_org ro = oid"
  using assms
  by (cases "find_role_in_org d (the re) oid";
      auto simp: role_target_def assertCanActOnRole_ok dest: find_role_in_org_SomeD
        split: if_splits sum.splits)+

lemma deleteRole_InrD:
  assumes "deleteRole oid a rid re d = (Inr n, d')"
  obtains r t where "find_role_in_org d rid oid = Some r" "\<not> rol_isSystem r" "canActOnRole a (Some r)"
    "n = count_where (\<lambda>u. usr_org u = oid \<and> usr_roleId u = Some rid) (users d)"
    "role_target d oid a rid n re = Inr t"
    "d' = add_audit (role_audit oid a ''role.deleted'' rid) (delete_role_rows oid r t d)"
  using assms
  by (simp add: deleteRole_def Let_def assertCanActOnRole_ok split: option.splits if_splits sum.splits)

lemma deleteRole_clean:
  assumes "deleteRole oid a rid re d = (Inr n, d')"
  shows "\<forall>u \<in> set (users d'). usr_org u = oid \<longrightarrow> usr_roleId u \<noteq> Some rid"
    "\<forall>r \<in> set (roles d'). rol_id r \<noteq> rid"
proof -
  from assms obtain r t where fr: "find_role_in_org d rid oid = Some r"
    and n: "n = count_where (\<lambda>u. usr_org u = oid \<and> usr_roleId u = Some rid) (users d)"
    and t: "role_target d oid a rid n re = Inr t"
    and d': "d' = add_audit (role_audit oid a ''role.deleted'' rid) (delete_role_rows oid r t d)"
    by (elim deleteRole_InrD)
  have rid: "rol_id r = rid" using find_role_in_org_SomeD [OF fr] by simp
  show "\<forall>r \<in> set (roles d'). rol_id r \<noteq> rid"
    using rid by (simp add: d' add_audit_def delete_role_rows_def Let_def)
  show "\<forall>u \<in> set (users d'). usr_org u = oid \<longrightarrow> usr_roleId u \<noteq> Some rid"
  proof (cases t)
    case None
    then have "n = 0" using role_target_InrD(1) [OF t] by simp
    with n None show ?thesis
      by (simp add: d' add_audit_def delete_role_rows_def Let_def count_where_pos)
  next
    case (Some ro)
    with role_target_InrD(2) [OF t, of ro] have "rol_id ro \<noteq> rid" by simp
    moreover have "users d' = update_where (\<lambda>u. usr_org u = oid \<and> usr_roleId u = Some rid)
        (\<lambda>u. u\<lparr>usr_roleId := Some (rol_id ro), usr_role := rol_base ro\<rparr>) (users d)"
      using Some rid by (simp add: d' add_audit_def delete_role_rows_def Let_def)
    ultimately show ?thesis by (auto elim!: in_update_whereE split: if_splits)
  qed
qed

section \<open>Automatic assignment\<close>

lemma isAutoAssignable_safe:
  "isAutoAssignable (Some r) \<Longrightarrow> p \<in> set (permissionsOfRole (Some r)) \<Longrightarrow> p \<notin> set SENSITIVE"
  by (auto simp: isAutoAssignable_def)

end
