(* ===== verification/Org.thy ===== *)
theory Org
  imports RolesProps
begin

text \<open>
  Organization settings that gate access (\<open>backend/src/services/orgService.js\<close>): the
  production-bypass switch with its legacy spelling, chat approvals, the personal vault and
  the require-SSO switch.
\<close>

section \<open>Reading the settings\<close>

text \<open>\<open>settings && typeof settings === 'object' && settings.k && typeof settings.k === 'object' ? settings.k : {}\<close>\<close>

definition section_of :: "string \<Rightarrow> json option \<Rightarrow> json" where
  "section_of k settings =
     (if json_is_object settings then
        (case json_get (the settings) k of
           Some j \<Rightarrow> if json_is_object (Some j) then j else JObj []
         | None \<Rightarrow> JObj [])
      else JObj [])"

definition accessSettingsOf :: "json option \<Rightarrow> json" where
  "accessSettingsOf = section_of ''access''"

definition org_settings_of :: "db \<Rightarrow> id \<Rightarrow> json option" where
  "org_settings_of d oid = (case find_org d oid of None \<Rightarrow> None | Some g \<Rightarrow> org_settings g)"

definition isProdBypassEnabled :: "db \<Rightarrow> id \<Rightarrow> bool" where
  "isProdBypassEnabled d oid =
     (let access = accessSettingsOf (org_settings_of d oid) in
      case json_get access ''prodBypassEnabled'' of
        Some (JBool b) \<Rightarrow> b
      | _ \<Rightarrow> json_get access ''prodApprovalBypassMinRole'' \<noteq> Some (JStr ''none''))"

definition canBypassProdApproval :: "db \<Rightarrow> id \<Rightarrow> string list \<Rightarrow> bool" where
  "canBypassProdApproval d oid permissions =
     (if ''access.prod_bypass'' \<notin> set permissions then False else isProdBypassEnabled d oid)"

definition chatApprovalsAllowProd :: "db \<Rightarrow> id \<Rightarrow> bool" where
  "chatApprovalsAllowProd d oid =
     (json_get (section_of ''notifications'' (org_settings_of d oid)) ''chatApprovalsAllowProd''
        = Some (JBool True))"

definition vaultEnabledFromSettings :: "json option \<Rightarrow> bool" where
  "vaultEnabledFromSettings s = (json_get (section_of ''vault'' s) ''enabled'' \<noteq> Some (JBool False))"

definition ssoRequiredFromSettings :: "json option \<Rightarrow> bool" where
  "ssoRequiredFromSettings s = (json_get (accessSettingsOf s) ''ssoRequired'' = Some (JBool True))"

definition SSO_REQUIRED_EXEMPT_PERMISSION :: string where
  "SSO_REQUIRED_EXEMPT_PERMISSION = ''settings.sso''"

definition passwordSignInBlocked :: "db \<Rightarrow> user option \<Rightarrow> bool" where
  "passwordSignInBlocked d ou =
     (case ou of
        None \<Rightarrow> False
      | Some u \<Rightarrow>
          if usr_org u = [] then False
          else if \<not> ssoRequiredFromSettings (org_settings_of d (usr_org u)) then False
          else
            let assigned = (case usr_roleId u of None \<Rightarrow> None
                            | Some rid \<Rightarrow> find_role_in_org d rid (usr_org u))
            in \<not> hasPermission (permissionsForUser u assigned) SSO_REQUIRED_EXEMPT_PERMISSION)"

section \<open>Writing the settings\<close>

definition update_settings :: "id \<Rightarrow> json \<Rightarrow> db \<Rightarrow> db" where
  "update_settings oid s d =
     d\<lparr>orgs := update_where (\<lambda>g. org_id g = oid) (\<lambda>g. g\<lparr>org_settings := Some s\<rparr>) (orgs d)\<rparr>"

text \<open>\<open>{ ...settings, section: { ...section, key: value } }\<close>\<close>

definition put_setting :: "string \<Rightarrow> string \<Rightarrow> json \<Rightarrow> json option \<Rightarrow> json" where
  "put_setting k1 k2 v settings =
     json_put (if json_is_object settings then the settings else JObj []) k1
       (json_put (section_of k1 settings) k2 v)"

definition setChatApprovalsAllowProd :: "id \<Rightarrow> bool \<Rightarrow> db \<Rightarrow> bool \<times> db" where
  "setChatApprovalsAllowProd oid allow d =
     (allow, update_settings oid
        (put_setting ''notifications'' ''chatApprovalsAllowProd'' (JBool allow) (org_settings_of d oid)) d)"

text \<open>
  The values of a request body are JSON until \<open>typeof\<close> has been checked. The number of active
  providers is a count of \<open>ssoConfig\<close> rows, which no operation of the model writes, so it is an
  argument.
\<close>

definition updateSsoRequired :: "nat \<Rightarrow> id \<Rightarrow> json \<Rightarrow> db \<Rightarrow> unit res \<times> db" where
  "updateSsoRequired activeProviders oid v d =
     (case v of
        JBool b \<Rightarrow>
          (case find_org d oid of
             None \<Rightarrow> (Inl (api_error 404 ''Organization not found''), d)
           | Some g \<Rightarrow>
               if b \<and> activeProviders = 0
               then (Inl (ApiError 409 ''Add and enable a single sign-on provider before requiring it''
                            (Some ''SSO_NOT_CONFIGURED'')), d)
               else (Inr (), update_settings oid
                       (put_setting ''access'' ''ssoRequired'' (JBool b) (org_settings g)) d))
      | _ \<Rightarrow> (Inl (api_error 400 ''ssoRequired must be true or false''), d))"

definition update_vault :: "id \<Rightarrow> json \<Rightarrow> db \<Rightarrow> unit res \<times> db" where
  "update_vault oid v d =
     (case v of
        JBool b \<Rightarrow>
          (case find_org d oid of
             None \<Rightarrow> (Inl (api_error 404 ''Organization not found''), d)
           | Some g \<Rightarrow> (Inr (), update_settings oid
                 (put_setting ''vault'' ''enabled'' (JBool b) (org_settings g)) d))
      | _ \<Rightarrow> (Inl (api_error 400 ''personalVaultEnabled must be true or false''), d))"

text \<open>The production switch: the flag itself or its legacy spelling.\<close>

definition PROD_BYPASS_ROLES :: "string list" where
  "PROD_BYPASS_ROLES = [''admin'', ''super_admin'', ''none'']"

definition set_admin_bypass :: "id \<Rightarrow> string \<Rightarrow> db \<Rightarrow> unit res \<times> db" where
  "set_admin_bypass oid legacy d =
     (case getSystemRole d oid Admin of
        None \<Rightarrow> (Inl TypeError, d)
      | Some r \<Rightarrow>
          let current = filter (\<lambda>p. p \<noteq> ''access.prod_bypass'') (permissionsOfRole (Some r));
              nxt = (if legacy = ''admin'' then current @ [''access.prod_bypass''] else current)
          in (Inr (), d\<lparr>roles := update_where (\<lambda>x. rol_id x = rol_id r)
                 (\<lambda>x. x\<lparr>rol_permissions := normalizePermissions nxt\<rparr>) (roles d)\<rparr>))"

definition drop_key :: "string \<Rightarrow> json \<Rightarrow> json" where
  "drop_key k j = JObj (filter (\<lambda>p. fst p \<noteq> k) (json_entries j))"

definition write_prod_bypass :: "id \<Rightarrow> json option \<Rightarrow> db \<Rightarrow> unit res \<times> db" where
  "write_prod_bypass oid enabled d =
     (case enabled of
        Some (JBool b) \<Rightarrow>
          (case find_org d oid of
             None \<Rightarrow> (Inl (api_error 404 ''Organization not found''), d)
           | Some g \<Rightarrow>
               let settings = (if json_is_object (org_settings g) then the (org_settings g) else JObj []);
                   access = drop_key ''prodApprovalBypassMinRole'' (accessSettingsOf (Some settings))
               in (Inr (), update_settings oid
                     (json_put settings ''access'' (json_put access ''prodBypassEnabled'' (JBool b))) d))
      | _ \<Rightarrow> (Inl (api_error 400 ''prodBypassEnabled must be true or false''), d))"

definition update_prod_bypass :: "id \<Rightarrow> json option \<Rightarrow> string option \<Rightarrow> db \<Rightarrow> unit res \<times> db" where
  "update_prod_bypass oid flag legacy d =
     (case legacy of
        None \<Rightarrow> write_prod_bypass oid flag d
      | Some l \<Rightarrow>
          if l \<notin> set PROD_BYPASS_ROLES
          then (Inl (api_error 400 (''prodApprovalBypassMinRole must be one of: '' @ join '', '' PROD_BYPASS_ROLES)), d)
          else if l = ''none'' then write_prod_bypass oid (Some (JBool False)) d
          else (case set_admin_bypass oid l d of
                  (Inl e, d1) \<Rightarrow> (Inl e, d1)
                | (Inr _, d1) \<Rightarrow> write_prod_bypass oid (Some (JBool True)) d1))"

record access_data =
  ad_ssoRequired :: "json option"
  ad_vault :: "json option"
  ad_prodBypass :: "json option"
  ad_legacy :: "string option"

record access_settings =
  as_prodBypassEnabled :: bool
  as_rolesWithBypass :: "role list"
  as_legacyMinRole :: string
  as_vaultEnabled :: bool
  as_ssoRequired :: bool
  as_rolesExemptFromSso :: "role list"
  as_ssoProvidersActive :: nat

definition getAccessSettings :: "nat \<Rightarrow> db \<Rightarrow> id \<Rightarrow> access_settings" where
  "getAccessSettings activeProviders d oid =
     (let enabled = isProdBypassEnabled d oid;
          rs = filter (\<lambda>r. rol_org r = oid) (roles d);
          rolesWithBypass = filter (\<lambda>r. ''access.prod_bypass'' \<in> set (permissionsOfRole (Some r))) rs;
          adminHas = (\<exists>r \<in> set rolesWithBypass. rol_isSystem r \<and> rol_key r = ''admin'')
      in \<lparr>as_prodBypassEnabled = enabled, as_rolesWithBypass = rolesWithBypass,
          as_legacyMinRole = (if \<not> enabled then ''none'' else if adminHas then ''admin'' else ''super_admin''),
          as_vaultEnabled = vaultEnabledFromSettings (org_settings_of d oid),
          as_ssoRequired = ssoRequiredFromSettings (org_settings_of d oid),
          as_rolesExemptFromSso =
            filter (\<lambda>r. SSO_REQUIRED_EXEMPT_PERMISSION \<in> set (permissionsOfRole (Some r))) rs,
          as_ssoProvidersActive = activeProviders\<rparr>)"

text \<open>The three switches, one after another; a later error leaves the earlier writes in place.\<close>

definition updateAccessSettings :: "nat \<Rightarrow> id \<Rightarrow> access_data \<Rightarrow> db \<Rightarrow> access_settings res \<times> db" where
  "updateAccessSettings n oid x d =
     (case (case ad_ssoRequired x of None \<Rightarrow> (Inr (), d) | Some v \<Rightarrow> updateSsoRequired n oid v d) of
        (Inl e, d1) \<Rightarrow> (Inl e, d1)
      | (Inr _, d1) \<Rightarrow>
          if ad_ssoRequired x \<noteq> None \<and> ad_vault x = None \<and> ad_prodBypass x = None \<and> ad_legacy x = None
          then (Inr (getAccessSettings n d1 oid), d1)
          else case (case ad_vault x of None \<Rightarrow> (Inr (), d1) | Some v \<Rightarrow> update_vault oid v d1) of
            (Inl e, d2) \<Rightarrow> (Inl e, d2)
          | (Inr _, d2) \<Rightarrow>
              if ad_vault x \<noteq> None \<and> ad_prodBypass x = None \<and> ad_legacy x = None
              then (Inr (getAccessSettings n d2 oid), d2)
              else case update_prod_bypass oid (ad_prodBypass x) (ad_legacy x) d2 of
                (Inl e, d3) \<Rightarrow> (Inl e, d3)
              | (Inr _, d3) \<Rightarrow> (Inr (getAccessSettings n d3 oid), d3))"

section \<open>Lemmas\<close>

lemma canBypass_iff:
  "canBypassProdApproval d oid ps \<longleftrightarrow> ''access.prod_bypass'' \<in> set ps \<and> isProdBypassEnabled d oid"
  by (simp add: canBypassProdApproval_def)

lemma find_org_update_settings:
  "find_org d oid = Some g \<Longrightarrow> find_org (update_settings oid s d) oid = Some (g\<lparr>org_settings := Some s\<rparr>)"
  by (auto simp: find_org_def update_settings_def find_update_where dest: find_SomeD)

lemma json_is_object_put [simp]: "json_is_object (Some (json_put j k v))"
  by (simp add: json_put_def)

lemma section_put: "section_of k (Some (json_put s k (json_put a k' v))) = json_put a k' v"
  by (simp add: section_of_def)

lemma write_prod_bypass_reads_back:
  "write_prod_bypass oid (Some (JBool b)) d = (Inr (), d') \<Longrightarrow> isProdBypassEnabled d' oid = b"
  by (auto simp: write_prod_bypass_def Let_def isProdBypassEnabled_def org_settings_of_def
      find_org_update_settings accessSettingsOf_def section_put split: option.splits)

lemma put_setting_reads_back:
  "find_org d oid = Some g \<Longrightarrow>
     json_get (section_of k (org_settings_of (update_settings oid (put_setting k k' v s) d) oid)) k' = Some v"
  by (simp add: org_settings_of_def find_org_update_settings put_setting_def section_put)

lemma updateSsoRequired_ok_iff:
  "fst (updateSsoRequired n oid v d) = Inr () \<longleftrightarrow>
     (\<exists>b. v = JBool b \<and> find_org d oid \<noteq> None \<and> (b \<longrightarrow> 0 < n))"
  by (cases v) (auto simp: updateSsoRequired_def split: option.splits)

lemma updateSsoRequired_reads_back:
  "updateSsoRequired n oid (JBool b) d = (Inr (), d') \<Longrightarrow> ssoRequiredFromSettings (org_settings_of d' oid) = b"
  by (auto simp: updateSsoRequired_def ssoRequiredFromSettings_def accessSettingsOf_def put_setting_reads_back
      split: option.splits if_splits)

lemma update_vault_reads_back:
  "update_vault oid (JBool b) d = (Inr (), d') \<Longrightarrow> vaultEnabledFromSettings (org_settings_of d' oid) = b"
  by (auto simp: update_vault_def vaultEnabledFromSettings_def put_setting_reads_back
      split: option.splits if_splits)

section \<open>Switches do not overwrite one another\<close>

definition settings_are :: "db \<Rightarrow> id \<Rightarrow> json \<Rightarrow> bool" where
  "settings_are d oid j \<longleftrightarrow> (\<exists>g. find_org d oid = Some g \<and> org_settings g = Some j) \<and> (\<exists>kvs. j = JObj kvs)"

lemma settings_are_update:
  "settings_are d oid j \<Longrightarrow> settings_are (update_settings oid (JObj kvs) d) oid (JObj kvs)"
  by (auto simp: settings_are_def find_org_update_settings)

lemma settings_are_of: "settings_are d oid j \<Longrightarrow> org_settings_of d oid = Some j"
  by (auto simp: settings_are_def org_settings_of_def)

lemma section_put_other:
  "k \<noteq> k' \<Longrightarrow> section_of k (Some (json_put (JObj kvs) k' v)) = section_of k (Some (JObj kvs))"
  by (simp add: section_of_def)

lemma json_put_JObj: "\<exists>kvs. json_put j k v = JObj kvs"
  by (simp add: json_put_def)

lemma update_vault_keeps_access:
  assumes "settings_are d oid j" and "update_vault oid (JBool b) d = (Inr (), d')"
  obtains j' where "settings_are d' oid j'" "accessSettingsOf (Some j') = accessSettingsOf (Some j)"
    "vaultEnabledFromSettings (Some j') = b"
proof -
  from assms(1) obtain g kvs where g: "find_org d oid = Some g" "org_settings g = Some j" "j = JObj kvs"
    by (auto simp: settings_are_def)
  let ?j = "json_put j ''vault'' (json_put (section_of ''vault'' (Some j)) ''enabled'' (JBool b))"
  have d': "d' = update_settings oid ?j d"
    using assms(2) g by (simp add: update_vault_def put_setting_def)
  obtain kvs' where k: "?j = JObj kvs'" using json_put_JObj by blast
  show thesis
  proof (rule that)
    show "settings_are d' oid ?j" unfolding d' k by (rule settings_are_update [OF assms(1)])
    show "accessSettingsOf (Some ?j) = accessSettingsOf (Some j)"
      unfolding accessSettingsOf_def g(3) by (rule section_put_other) simp
    show "vaultEnabledFromSettings (Some ?j) = b" by (simp add: vaultEnabledFromSettings_def section_put)
  qed
qed

lemma updateSsoRequired_writes:
  assumes "settings_are d oid j" and "updateSsoRequired n oid (JBool b) d = (Inr (), d')"
  obtains j' kvs where "settings_are d' oid j'" "ssoRequiredFromSettings (Some j') = b"
    "accessSettingsOf (Some j') = JObj kvs"
proof -
  from assms(1) obtain g kvs where g: "find_org d oid = Some g" "org_settings g = Some j" "j = JObj kvs"
    by (auto simp: settings_are_def)
  let ?a = "json_put (section_of ''access'' (Some j)) ''ssoRequired'' (JBool b)"
  let ?j = "json_put j ''access'' ?a"
  have d': "d' = update_settings oid ?j d"
    using assms(2) g by (simp add: updateSsoRequired_def put_setting_def split: if_splits)
  obtain kvs' where k: "?j = JObj kvs'" using json_put_JObj by blast
  obtain avs where a: "?a = JObj avs" using json_put_JObj by blast
  show thesis
  proof (rule that)
    show "settings_are d' oid ?j" unfolding d' k by (rule settings_are_update [OF assms(1)])
    show "ssoRequiredFromSettings (Some ?j) = b"
      by (simp add: ssoRequiredFromSettings_def accessSettingsOf_def section_put)
    show "accessSettingsOf (Some ?j) = JObj avs" unfolding accessSettingsOf_def by (rule trans [OF section_put a])
  qed
qed

lemma write_prod_bypass_keeps:
  assumes "settings_are d oid j" and "accessSettingsOf (Some j) = JObj avs"
    and "write_prod_bypass oid (Some (JBool b)) d = (Inr (), d')"
  obtains j' where "settings_are d' oid j'" "ssoRequiredFromSettings (Some j') = ssoRequiredFromSettings (Some j)"
    "vaultEnabledFromSettings (Some j') = vaultEnabledFromSettings (Some j)"
proof -
  from assms(1) obtain g kvs where g: "find_org d oid = Some g" "org_settings g = Some j" "j = JObj kvs"
    by (auto simp: settings_are_def)
  let ?a = "json_put (drop_key ''prodApprovalBypassMinRole'' (JObj avs)) ''prodBypassEnabled'' (JBool b)"
  let ?j = "json_put j ''access'' ?a"
  have d': "d' = update_settings oid ?j d"
    using assms(2,3) g by (simp add: write_prod_bypass_def Let_def)
  obtain kvs' where k: "?j = JObj kvs'" using json_put_JObj by blast
  show thesis
  proof (rule that)
    show "settings_are d' oid ?j" unfolding d' k by (rule settings_are_update [OF assms(1)])
    show "ssoRequiredFromSettings (Some ?j) = ssoRequiredFromSettings (Some j)"
      using assms(2) by (simp add: ssoRequiredFromSettings_def accessSettingsOf_def section_put drop_key_def
          map_of_filter_ne)
    show "vaultEnabledFromSettings (Some ?j) = vaultEnabledFromSettings (Some j)"
      unfolding vaultEnabledFromSettings_def g(3) by (subst section_put_other) simp_all
  qed
qed

lemma set_admin_bypass_orgs:
  "set_admin_bypass oid l d = (r, d') \<Longrightarrow> settings_are d' oid j = settings_are d oid j"
  by (auto simp: set_admin_bypass_def Let_def settings_are_def find_org_def split: option.splits)

end
