(* ===== verification/Policy.thy ===== *)
theory Policy
  imports Scope Org
begin

text \<open>
  The access-policy engine (\<open>backend/src/services/policyService.js\<close>): which policies apply to
  a user and a server, the three modes of \<open>evaluate\<close>, its batched sibling, the two policy
  lookups of the request flow, and the operations on policies themselves.
\<close>

section \<open>Who is asking\<close>

record subject_info =
  si_permissions :: "string list"
  si_roleKeys :: "string list"
  si_tier :: "tier option"

definition loadSubject :: "db \<Rightarrow> id \<Rightarrow> id \<Rightarrow> subject_info" where
  "loadSubject d uid oid =
     (case find_user d uid oid of
        None \<Rightarrow> \<lparr>si_permissions = [], si_roleKeys = [], si_tier = None\<rparr>
      | Some u \<Rightarrow>
          let assigned = find_role d (usr_roleId u);
              keys = (case assigned of None \<Rightarrow> [] | Some r \<Rightarrow> [rol_key r])
          in \<lparr>si_permissions = permissionsForUser u assigned,
              si_roleKeys = uniq (filter (\<lambda>k. k \<noteq> []) (tier_name (usr_role u) # keys)),
              si_tier = Some (usr_role u)\<rparr>)"

definition resolveUserGroupIds :: "db \<Rightarrow> id \<Rightarrow> id \<Rightarrow> id list" where
  "resolveUserGroupIds d uid oid =
     map mem_group (filter (\<lambda>m. mem_user m = uid \<and>
       (\<exists>g \<in> set (groups d). grp_id g = mem_group m \<and> grp_org g = oid)) (memberships d))"

section \<open>Which policies apply\<close>

definition subject_matches :: "id \<Rightarrow> id list \<Rightarrow> string list \<Rightarrow> subject \<Rightarrow> bool" where
  "subject_matches uid gids rkeys s =
     (case sub_type s of
        USER \<Rightarrow> sub_id s = uid
      | GROUP \<Rightarrow> sub_id s \<in> set gids
      | ROLE \<Rightarrow> sub_id s \<in> set rkeys)"

definition loadMatchingPolicies :: "db \<Rightarrow> id \<Rightarrow> id \<Rightarrow> id list \<Rightarrow> string list \<Rightarrow> policy list" where
  "loadMatchingPolicies d oid uid gids rkeys =
     sort_key pol_effect (sort_key pol_priority
       (filter (\<lambda>p. pol_org p = oid \<and> pol_active p \<and>
          (\<exists>s \<in> set (pol_subjects p). subject_matches uid gids rkeys s)) (policies d)))"

text \<open>An object of target labels against the \<open>"key:value"\<close> strings of the server.\<close>

fun labelsMatch :: "json \<Rightarrow> json \<Rightarrow> bool" where
  "labelsMatch serverLabels (JObj kvs) =
     (let labelArray = (case serverLabels of JArr xs \<Rightarrow> xs | _ \<Rightarrow> [])
      in \<forall>(k, v) \<in> set kvs. JStr (k @ '':'' @ js_string v) \<in> set labelArray)"
| "labelsMatch serverLabels _ = True"

text \<open>
  The customer condition \<open>p.customerId !== null && p.customerId !== server.customerId\<close> tells
  \<open>null\<close> from \<open>undefined\<close>, which a draft policy may have: the outer \<open>None\<close> is \<open>undefined\<close>.
\<close>

definition customer_applies :: "id option option \<Rightarrow> server \<Rightarrow> bool" where
  "customer_applies c s = (\<not> (c \<noteq> Some None \<and> c \<noteq> Some (Some (srv_customer s))))"

definition filter_with :: "id option option \<Rightarrow> server \<Rightarrow> id \<Rightarrow> string option \<Rightarrow> policy \<Rightarrow> bool" where
  "filter_with c s sid prin p =
     (if \<not> customer_applies c s then False
      else if pol_envs p \<noteq> [] \<and> env_name (srv_env s) \<notin> set (pol_envs p) then False
      else if \<not> labelsMatch (srv_labels s) (pol_labels p) then False
      else if pol_servers p \<noteq> [] \<and> sid \<notin> set (pol_servers p) then False
      else if truthy prin \<and> pol_principals p \<noteq> [] \<and> srv_authMode s \<noteq> AuthCredential
           then the prin \<in> set (pol_principals p)
      else True)"

definition policy_filter :: "server \<Rightarrow> id \<Rightarrow> string option \<Rightarrow> policy \<Rightarrow> bool" where
  "policy_filter s sid prin p = filter_with (Some (pol_customer p)) s sid prin p"

definition filterPolicies :: "policy list \<Rightarrow> server \<Rightarrow> id \<Rightarrow> string option \<Rightarrow> policy list" where
  "filterPolicies ps s sid prin = filter (policy_filter s sid prin) ps"

section \<open>Evaluation\<close>

record evaluation =
  ev_allowed :: bool
  ev_requiresApproval :: bool
  ev_autoApprove :: bool
  ev_reason :: "string option"
  ev_principals :: "string list"
  ev_maxTtl :: int
  ev_policyId :: "id option"
  ev_policyName :: "string option"
  ev_draft :: bool
  ev_prodBypass :: bool

definition refused :: "string \<Rightarrow> id option \<Rightarrow> evaluation" where
  "refused reason pid =
     \<lparr>ev_allowed = False, ev_requiresApproval = False, ev_autoApprove = False, ev_reason = Some reason,
      ev_principals = [], ev_maxTtl = 0, ev_policyId = pid, ev_policyName = None, ev_draft = False,
      ev_prodBypass = False\<rparr>"

definition is_deny :: "policy \<Rightarrow> bool" where "is_deny p = (pol_effect p = DENY)"
definition is_allow :: "policy \<Rightarrow> bool" where "is_allow p = (pol_effect p = ALLOW)"

text \<open>The policies of \<open>evaluate\<close>'s organization-wide mode.\<close>

definition matching_policies :: "db \<Rightarrow> id \<Rightarrow> id \<Rightarrow> server \<Rightarrow> id \<Rightarrow> string option \<Rightarrow> policy list" where
  "matching_policies d oid uid s sid prin =
     filterPolicies (loadMatchingPolicies d oid uid (resolveUserGroupIds d uid oid)
       (si_roleKeys (loadSubject d uid oid))) s sid prin"

definition best_allow :: "policy list \<Rightarrow> policy option" where
  "best_allow ps = first_opt (sort_key pol_priority (filter is_allow ps))"

text \<open>\<open>access.bypass_policies\<close>: a DENY still wins.\<close>

definition evaluate_bypass :: "bool \<Rightarrow> policy list \<Rightarrow> string option \<Rightarrow> evaluation" where
  "evaluate_bypass isProd candidates prin =
     (case find is_deny candidates of
        Some p \<Rightarrow> refused (''Denied by policy '' @ pol_name p) (Some (pol_id p))
      | None \<Rightarrow>
          \<lparr>ev_allowed = True, ev_requiresApproval = False, ev_autoApprove = True,
           ev_reason = Some (if isProd then ''policy bypass (prod)'' else ''policy bypass''),
           ev_principals = (if truthy prin then [the prin] else []),
           ev_maxTtl = 24 * 60 * 60, ev_policyId = None, ev_policyName = None, ev_draft = False,
           ev_prodBypass = isProd\<rparr>)"

text \<open>A draft policy of the request body; its customer may be left out.\<close>

record draft =
  dr_customer :: "id option option"
  dr_policy :: policy

definition evaluate_draft :: "draft \<Rightarrow> server \<Rightarrow> id \<Rightarrow> string option \<Rightarrow> evaluation" where
  "evaluate_draft dr s sid prin =
     (let p = dr_policy dr in
      if \<not> filter_with (dr_customer dr) s sid prin p \<or> is_deny p
      then (refused (if is_deny p then ''Denied by draft policy '' @ sq (pol_name p)
                     else ''Draft policy does not match this server'') None)\<lparr>ev_draft := True\<rparr>
      else \<lparr>ev_allowed = True, ev_requiresApproval = pol_requireApproval p,
            ev_autoApprove = pol_autoApprove p,
            ev_reason = Some (''Allowed by draft policy '' @ sq (pol_name p)),
            ev_principals = pol_principals p, ev_maxTtl = pol_maxDuration p, ev_policyId = None,
            ev_policyName = None, ev_draft = True, ev_prodBypass = False\<rparr>)"

definition evaluate_saved :: "policy \<Rightarrow> server \<Rightarrow> id \<Rightarrow> string option \<Rightarrow> evaluation" where
  "evaluate_saved p s sid prin =
     (if filterPolicies [p] s sid prin = [] \<or> is_deny p
      then (refused (if is_deny p then ''Denied by policy '' @ sq (pol_name p)
                     else ''Policy does not match this server'') (Some (pol_id p)))
             \<lparr>ev_policyName := Some (pol_name p)\<rparr>
      else \<lparr>ev_allowed = True, ev_requiresApproval = pol_requireApproval p,
            ev_autoApprove = pol_autoApprove p, ev_reason = None, ev_principals = pol_principals p,
            ev_maxTtl = pol_maxDuration p, ev_policyId = Some (pol_id p),
            ev_policyName = Some (pol_name p), ev_draft = False, ev_prodBypass = False\<rparr>)"

text \<open>
  The organization-wide mode. \<open>prodBypass\<close> is the answer of \<open>canBypassProdApproval\<close>, which only
  prod asks for. Reading \<open>bestPolicy.requireApproval\<close> of no policy is a \<open>TypeError\<close>.
\<close>

definition evaluate_org :: "bool \<Rightarrow> bool \<Rightarrow> policy list \<Rightarrow> evaluation res" where
  "evaluate_org isProd prodBypass ps =
     (if ps = [] then Inr (refused ''No matching policy'' None)
      else case find is_deny ps of
        Some p \<Rightarrow> Inr (refused (''Denied by policy '' @ pol_name p) (Some (pol_id p)))
      | None \<Rightarrow>
          (case best_allow ps of
             None \<Rightarrow> Inl TypeError
           | Some p \<Rightarrow>
               let requiresApproval = (if isProd then \<not> prodBypass else pol_requireApproval p)
               in Inr \<lparr>ev_allowed = True, ev_requiresApproval = requiresApproval,
                       ev_autoApprove = pol_autoApprove p, ev_reason = None,
                       ev_principals = pol_principals p, ev_maxTtl = pol_maxDuration p,
                       ev_policyId = Some (pol_id p), ev_policyName = None, ev_draft = False,
                       ev_prodBypass = (isProd \<and> \<not> requiresApproval)\<rparr>))"

definition evaluate ::
    "db \<Rightarrow> id \<Rightarrow> id \<Rightarrow> id \<Rightarrow> string option \<Rightarrow> id \<Rightarrow> draft option \<Rightarrow> evaluation res" where
  "evaluate d oid uid sid prin policyId dr =
     (if oid = [] then Inl (api_error 400 ''orgId is required'')
      else if uid = [] then Inl (api_error 400 ''userId is required'')
      else if sid = [] then Inl (api_error 400 ''serverId is required'')
      else case find_server d sid oid of
        None \<Rightarrow> Inl (api_error 404 ''Server not found'')
      | Some s \<Rightarrow>
          let isProd = (srv_env s = EnvProd);
              perms = si_permissions (loadSubject d uid oid);
              prodBypass = canBypassProdApproval d oid perms;
              candidates = matching_policies d oid uid s sid prin
          in if ''access.bypass_policies'' \<in> set perms \<and> policyId = [] \<and> dr = None
                \<and> (\<not> isProd \<or> prodBypass)
             then Inr (evaluate_bypass isProd candidates prin)
             else case dr of
               Some p \<Rightarrow> Inr (evaluate_draft p s sid prin)
             | None \<Rightarrow>
                 if policyId \<noteq> []
                 then (case find_policy d policyId oid of
                         None \<Rightarrow> Inl (api_error 404 ''Policy not found'')
                       | Some p \<Rightarrow> Inr (evaluate_saved p s sid prin))
                 else evaluate_org isProd prodBypass candidates)"

section \<open>Batched evaluation\<close>

record bulk_entry =
  be_allowed :: bool
  be_requiresApproval :: bool
  be_isProduction :: bool
  be_reason :: string
  be_policyId :: "id option"

definition bulk_entry_for :: "bool \<Rightarrow> bool \<Rightarrow> server \<Rightarrow> policy list \<Rightarrow> bulk_entry" where
  "bulk_entry_for bypassesPolicies prodBypassAllowed s matching =
     (let isProd = (srv_env s = EnvProd) in
      case find is_deny matching of
        Some p \<Rightarrow> \<lparr>be_allowed = False, be_requiresApproval = False, be_isProduction = isProd,
                   be_reason = ''Denied by policy '' @ pol_name p, be_policyId = Some (pol_id p)\<rparr>
      | None \<Rightarrow>
          if bypassesPolicies \<and> (\<not> isProd \<or> prodBypassAllowed)
          then \<lparr>be_allowed = True, be_requiresApproval = False, be_isProduction = isProd,
                be_reason = (if isProd then ''policy bypass (prod)'' else ''policy bypass''),
                be_policyId = None\<rparr>
          else case best_allow matching of
                 None \<Rightarrow> \<lparr>be_allowed = False, be_requiresApproval = False, be_isProduction = isProd,
                           be_reason = ''No matching policy'', be_policyId = None\<rparr>
               | Some p \<Rightarrow>
                   \<lparr>be_allowed = True,
                    be_requiresApproval = (if isProd then \<not> prodBypassAllowed else pol_requireApproval p),
                    be_isProduction = isProd, be_reason = ''Allowed by policy '' @ pol_name p,
                    be_policyId = Some (pol_id p)\<rparr>)"

text \<open>The returned object as the list of its entries, in the order the servers are read.\<close>

definition evaluateBulk :: "db \<Rightarrow> id \<Rightarrow> id \<Rightarrow> id list \<Rightarrow> (id \<times> bulk_entry) list res" where
  "evaluateBulk d oid uid serverIds =
     (if oid = [] then Inl (api_error 400 ''orgId is required'')
      else if uid = [] then Inl (api_error 400 ''userId is required'')
      else
        let ids = filter (\<lambda>i. i \<noteq> []) (uniq serverIds) in
        if ids = [] then Inr []
        else
          let found = filter (\<lambda>s. srv_org s = oid \<and> srv_id s \<in> set ids) (servers d);
              subject = loadSubject d uid oid;
              prodBypassAllowed = canBypassProdApproval d oid (si_permissions subject);
              raw = loadMatchingPolicies d oid uid (resolveUserGroupIds d uid oid) (si_roleKeys subject);
              bypasses = (''access.bypass_policies'' \<in> set (si_permissions subject))
          in Inr (map (\<lambda>s. (srv_id s, bulk_entry_for bypasses prodBypassAllowed s
                                (filterPolicies raw s (srv_id s) None))) found))"

section \<open>Lookups of the request flow\<close>

definition findApproverPolicy :: "db \<Rightarrow> id \<Rightarrow> id \<Rightarrow> id \<Rightarrow> string option \<Rightarrow> policy option" where
  "findApproverPolicy d oid uid sid prin =
     (case find_server d sid oid of
        None \<Rightarrow> None
      | Some s \<Rightarrow> best_allow (matching_policies d oid uid s sid prin))"

definition findBreakGlassPolicy :: "db \<Rightarrow> id \<Rightarrow> id \<Rightarrow> id \<Rightarrow> policy option" where
  "findBreakGlassPolicy d oid uid sid =
     (case find_server d sid oid of
        None \<Rightarrow> None
      | Some s \<Rightarrow>
          let matching = matching_policies d oid uid s sid None in
          if \<exists>p \<in> set matching. is_deny p then None
          else first_opt (sort_key pol_priority (filter (\<lambda>p. is_allow p \<and> pol_breakGlass p) matching)))"

text \<open>One \<open>evaluate\<close> per server; \<open>Promise.all\<close> rejects with the first error.\<close>

fun evaluate_all :: "(server \<Rightarrow> evaluation res) \<Rightarrow> server list \<Rightarrow> (server \<times> evaluation) list res" where
  "evaluate_all f [] = Inr []"
| "evaluate_all f (s # ss) =
     (case f s of
        Inl e \<Rightarrow> Inl e
      | Inr ev \<Rightarrow> (case evaluate_all f ss of Inl e \<Rightarrow> Inl e | Inr rest \<Rightarrow> Inr ((s, ev) # rest)))"

definition getAccessibleServers :: "db \<Rightarrow> id \<Rightarrow> id \<Rightarrow> scope \<Rightarrow> (server \<times> evaluation) list res" where
  "getAccessibleServers d oid uid sc =
     (if oid = [] then Inl (api_error 400 ''orgId is required'')
      else if uid = [] then Inl (api_error 400 ''userId is required'')
      else
        let ss = filter (\<lambda>s. srv_org s = oid \<and> srv_isActive s \<and> serverScopeWhere sc s) (servers d) in
        case evaluate_all (\<lambda>s. evaluate d oid uid (srv_id s) None [] None) ss of
          Inl e \<Rightarrow> Inl e
        | Inr rs \<Rightarrow> Inr (filter (\<lambda>(s, ev). ev_allowed ev \<or> ev_requiresApproval ev) rs))"

end
