(* ===== verification/PolicyProps.thy ===== *)
theory PolicyProps
  imports Policy
begin

text \<open>
  What the policy engine promises: the set of policies that apply to a request, stated
  without the order the database returns them in, and the decision as a function of that
  set. The single and the batched evaluation are two implementations of one contract.
\<close>

section \<open>Policies that apply\<close>

definition applies :: "db \<Rightarrow> id \<Rightarrow> id \<Rightarrow> server \<Rightarrow> id \<Rightarrow> string option \<Rightarrow> policy \<Rightarrow> bool" where
  "applies d oid uid s sid prin p \<longleftrightarrow>
     p \<in> set (policies d) \<and> pol_org p = oid \<and> pol_active p \<and>
     (\<exists>sj \<in> set (pol_subjects p). subject_matches uid (resolveUserGroupIds d uid oid)
        (si_roleKeys (loadSubject d uid oid)) sj) \<and>
     policy_filter s sid prin p"

lemma set_matching_policies [simp]:
  "set (matching_policies d oid uid s sid prin) = {p. applies d oid uid s sid prin p}"
  by (auto simp: matching_policies_def filterPolicies_def loadMatchingPolicies_def applies_def)

lemma best_allow_SomeD:
  "best_allow ps = Some p \<Longrightarrow>
     p \<in> set ps \<and> pol_effect p = ALLOW \<and> (\<forall>q \<in> set ps. pol_effect q = ALLOW \<longrightarrow> pol_priority p \<le> pol_priority q)"
  unfolding best_allow_def by (drule first_opt_sort_min) (auto simp: is_allow_def)

lemma best_allow_None: "best_allow ps = None \<longleftrightarrow> (\<forall>p \<in> set ps. pol_effect p \<noteq> ALLOW)"
proof -
  have "sort_key pol_priority (filter is_allow ps) = [] \<longleftrightarrow> filter is_allow ps = []"
    by (metis set_empty set_sort)
  then show ?thesis by (auto simp: best_allow_def is_allow_def filter_empty_conv)
qed

lemma find_deny_None: "find is_deny ps = None \<longleftrightarrow> (\<forall>p \<in> set ps. pol_effect p \<noteq> DENY)"
  by (simp add: find_None_iff_all is_deny_def)

lemma find_deny_SomeD: "find is_deny ps = Some p \<Longrightarrow> p \<in> set ps \<and> pol_effect p = DENY"
  by (auto simp: is_deny_def dest: find_SomeD)

lemma not_deny: "pol_effect p \<noteq> DENY \<longleftrightarrow> pol_effect p = ALLOW"
  by (cases "pol_effect p") auto

lemma best_allow_of_undenied:
  "ps \<noteq> [] \<Longrightarrow> find is_deny ps = None \<Longrightarrow> \<exists>p. best_allow ps = Some p"
  by (cases "best_allow ps") (auto simp: best_allow_None find_deny_None not_deny)

section \<open>The decision as a function of the matching policies\<close>

definition role_bypass :: "db \<Rightarrow> id \<Rightarrow> id \<Rightarrow> server \<Rightarrow> bool" where
  "role_bypass d oid uid s \<longleftrightarrow>
     ''access.bypass_policies'' \<in> set (si_permissions (loadSubject d uid oid)) \<and>
     (srv_env s = EnvProd \<longrightarrow> canBypassProdApproval d oid (si_permissions (loadSubject d uid oid)))"

lemma evaluate_org_mode:
  assumes "evaluate d oid uid sid prin [] None = Inr ev" and "find_server d sid oid = Some s"
  shows "Inr ev =
    (if role_bypass d oid uid s
     then Inr (evaluate_bypass (srv_env s = EnvProd) (matching_policies d oid uid s sid prin) prin)
     else evaluate_org (srv_env s = EnvProd)
            (canBypassProdApproval d oid (si_permissions (loadSubject d uid oid)))
            (matching_policies d oid uid s sid prin))"
  using assms by (auto simp: evaluate_def Let_def role_bypass_def split: if_splits)

lemma evaluate_bypass_allowed:
  "ev_allowed (evaluate_bypass b ps prin) \<longleftrightarrow> (\<forall>p \<in> set ps. pol_effect p \<noteq> DENY)"
  by (auto simp: evaluate_bypass_def refused_def find_deny_None [symmetric] split: option.splits)

lemma evaluate_org_total: "\<exists>ev. evaluate_org b pb ps = Inr ev"
proof (cases "ps = [] \<or> find is_deny ps \<noteq> None")
  case True
  then show ?thesis by (auto simp: evaluate_org_def)
next
  case False
  then show ?thesis using best_allow_of_undenied [of ps] by (auto simp: evaluate_org_def Let_def)
qed

lemma evaluate_org_not_Inl [simp]: "evaluate_org b pb ps \<noteq> Inl e"
  using evaluate_org_total [of b pb ps] by auto

lemma evaluate_org_allowed:
  assumes "evaluate_org b pb ps = Inr ev"
  shows "ev_allowed ev \<longleftrightarrow> (\<exists>p \<in> set ps. pol_effect p = ALLOW) \<and> (\<forall>p \<in> set ps. pol_effect p \<noteq> DENY)"
proof (cases "ps = [] \<or> find is_deny ps \<noteq> None")
  case True
  then have "\<not> ev_allowed ev"
    using assms by (auto simp: evaluate_org_def refused_def split: option.splits if_splits)
  moreover have "\<not> ((\<exists>p \<in> set ps. pol_effect p = ALLOW) \<and> (\<forall>p \<in> set ps. pol_effect p \<noteq> DENY))"
    using True find_deny_None [of ps] by auto
  ultimately show ?thesis by blast
next
  case False
  with best_allow_of_undenied [of ps] obtain p where p: "best_allow ps = Some p" by blast
  then have "ev_allowed ev" using assms False by (auto simp: evaluate_org_def Let_def)
  then show ?thesis using best_allow_SomeD [OF p] False find_deny_None [of ps] by auto
qed

lemma evaluate_allowed_iff:
  assumes "evaluate d oid uid sid prin [] None = Inr ev" and "find_server d sid oid = Some s"
  shows "ev_allowed ev \<longleftrightarrow>
    (\<forall>p. applies d oid uid s sid prin p \<longrightarrow> pol_effect p \<noteq> DENY) \<and>
    (role_bypass d oid uid s \<or> (\<exists>p. applies d oid uid s sid prin p \<and> pol_effect p = ALLOW))"
  using evaluate_org_mode [OF assms]
  by (cases "role_bypass d oid uid s") (auto simp: evaluate_bypass_allowed dest!: evaluate_org_allowed [OF sym])

lemma evaluate_org_direct:
  assumes "evaluate_org isProd pb ps = Inr ev" and "ev_allowed ev"
  shows "\<exists>p. best_allow ps = Some p \<and> ev_policyId ev = Some (pol_id p) \<and> ev_principals ev = pol_principals p
    \<and> ev_maxTtl ev = pol_maxDuration p \<and> ev_autoApprove ev = pol_autoApprove p
    \<and> ev_requiresApproval ev = (if isProd then \<not> pb else pol_requireApproval p)
    \<and> ev_prodBypass ev = (isProd \<and> pb)"
  using assms by (auto simp: evaluate_org_def Let_def refused_def split: if_splits option.splits)

lemma evaluate_cases:
  "evaluate d oid uid sid prin [] None = Inl e \<Longrightarrow>
     e \<in> {api_error 400 ''orgId is required'', api_error 400 ''userId is required'',
          api_error 400 ''serverId is required'', api_error 404 ''Server not found''}"
  by (auto simp: evaluate_def Let_def split: if_splits option.splits)

lemma evaluate_ok:
  "oid \<noteq> [] \<Longrightarrow> uid \<noteq> [] \<Longrightarrow> sid \<noteq> [] \<Longrightarrow> find_server d sid oid \<noteq> None \<Longrightarrow>
     \<exists>ev. evaluate d oid uid sid prin [] None = Inr ev"
  using evaluate_org_total
  by (auto simp: evaluate_def Let_def)

lemma evaluate_prod_guard:
  assumes "evaluate d oid uid sid prin [] None = Inr ev" and "find_server d sid oid = Some s"
    and "ev_allowed ev" "\<not> ev_requiresApproval ev" "srv_env s = EnvProd"
  shows "''access.prod_bypass'' \<in> set (si_permissions (loadSubject d uid oid)) \<and> isProdBypassEnabled d oid"
proof (cases "role_bypass d oid uid s")
  case True
  with assms(5) show ?thesis by (simp add: role_bypass_def canBypass_iff)
next
  case False
  with evaluate_org_mode [OF assms(1,2)] assms(5)
  have "evaluate_org True (canBypassProdApproval d oid (si_permissions (loadSubject d uid oid)))
      (matching_policies d oid uid s sid prin) = Inr ev" by simp
  from evaluate_org_direct [OF this assms(3)] assms(4) show ?thesis by (auto simp: canBypass_iff)
qed

lemma evaluate_refused_plain:
  assumes "evaluate d oid uid sid prin [] None = Inr ev" and "\<not> ev_allowed ev"
  shows "\<not> ev_requiresApproval ev"
proof -
  from assms(1) obtain s where s: "find_server d sid oid = Some s"
    by (auto simp: evaluate_def split: if_splits option.splits)
  have "evaluate_org b pb ps = Inr ev \<Longrightarrow> \<not> ev_requiresApproval ev" for b pb ps
    using assms(2) by (auto simp: evaluate_org_def refused_def Let_def split: if_splits option.splits)
  moreover have "ev = evaluate_bypass b ps prin \<Longrightarrow> \<not> ev_requiresApproval ev" for b ps
    by (auto simp: evaluate_bypass_def refused_def split: option.splits)
  ultimately show ?thesis using evaluate_org_mode [OF assms(1) s] by (auto split: if_splits)
qed

section \<open>The batched evaluation\<close>

lemma find_server_distinct:
  "distinct (map srv_id (servers d)) \<Longrightarrow> s \<in> set (servers d) \<Longrightarrow> srv_org s = oid \<Longrightarrow>
     find_server d (srv_id s) oid = Some s"
proof -
  assume dist: "distinct (map srv_id (servers d))" and s: "s \<in> set (servers d)" "srv_org s = oid"
  obtain t where t: "find_server d (srv_id s) oid = Some t"
    using s by (cases "find_server d (srv_id s) oid") (auto simp: find_server_def find_None_iff_all)
  then have "t \<in> set (servers d)" "srv_id t = srv_id s" by (auto dest: find_server_SomeD)
  with dist s have "t = s" by (metis distinct_map inj_onD)
  with t show ?thesis by simp
qed

definition agrees :: "bulk_entry \<Rightarrow> evaluation \<Rightarrow> bool" where
  "agrees b ev \<longleftrightarrow> be_allowed b = ev_allowed ev \<and> be_requiresApproval b = ev_requiresApproval ev
     \<and> be_policyId b = ev_policyId ev \<and> (\<forall>r. ev_reason ev = Some r \<longrightarrow> be_reason b = r)"

lemma bulk_entry_agrees:
  assumes "evaluate d oid uid sid None [] None = Inr ev" and "find_server d sid oid = Some s"
  shows "agrees (bulk_entry_for (''access.bypass_policies'' \<in> set (si_permissions (loadSubject d uid oid)))
      (canBypassProdApproval d oid (si_permissions (loadSubject d uid oid))) s
      (matching_policies d oid uid s sid None)) ev"
proof -
  let ?ps = "matching_policies d oid uid s sid None"
  show ?thesis
  proof (cases "find is_deny ?ps")
    case (Some p)
    then have "?ps \<noteq> []" by auto
    then show ?thesis using evaluate_org_mode [OF assms] Some
      by (simp add: bulk_entry_for_def agrees_def evaluate_bypass_def evaluate_org_def refused_def
          split: if_splits)
  next
    case None
    show ?thesis
    proof (cases "role_bypass d oid uid s")
      case True
      then show ?thesis using evaluate_org_mode [OF assms] None
        by (auto simp: bulk_entry_for_def agrees_def evaluate_bypass_def role_bypass_def Let_def)
    next
      case False
      then show ?thesis
        using evaluate_org_mode [OF assms] None best_allow_of_undenied [of ?ps]
        by (cases "?ps = []")
          (auto simp: bulk_entry_for_def agrees_def evaluate_org_def role_bypass_def Let_def refused_def
            best_allow_def)
    qed
  qed
qed

lemma evaluateBulk_InrD:
  assumes "evaluateBulk d oid uid ids = Inr out"
  shows "oid \<noteq> []" "uid \<noteq> []"
    "out = map (\<lambda>s. (srv_id s, bulk_entry_for
        (''access.bypass_policies'' \<in> set (si_permissions (loadSubject d uid oid)))
        (canBypassProdApproval d oid (si_permissions (loadSubject d uid oid))) s
        (matching_policies d oid uid s (srv_id s) None)))
      (filter (\<lambda>s. srv_org s = oid \<and> srv_id s \<in> set ids \<and> srv_id s \<noteq> []) (servers d))"
proof -
  show o: "oid \<noteq> []" and u: "uid \<noteq> []" using assms by (auto simp: evaluateBulk_def split: if_splits)
  have none: "filter (\<lambda>i. i \<noteq> []) (uniq ids) = [] \<Longrightarrow>
      filter (\<lambda>s. srv_org s = oid \<and> srv_id s \<in> set ids \<and> srv_id s \<noteq> []) (servers d) = []"
    by (auto simp: filter_empty_conv)
  show "out = map (\<lambda>s. (srv_id s, bulk_entry_for
        (''access.bypass_policies'' \<in> set (si_permissions (loadSubject d uid oid)))
        (canBypassProdApproval d oid (si_permissions (loadSubject d uid oid))) s
        (matching_policies d oid uid s (srv_id s) None)))
      (filter (\<lambda>s. srv_org s = oid \<and> srv_id s \<in> set ids \<and> srv_id s \<noteq> []) (servers d))"
    using assms none o u
    by (auto simp: evaluateBulk_def Let_def matching_policies_def split: if_splits)
qed

section \<open>The contract of an access decision\<close>

text \<open>
  A decision is whether access is allowed and whether it needs approval. A DENY wins, nothing
  is allowed by default, and a production server is never reached without approval unless the
  requester may bypass it.
\<close>

locale access_decision =
  fixes decide :: "'q \<Rightarrow> (bool \<times> bool) option"
    and denied :: "'q \<Rightarrow> bool" and granted :: "'q \<Rightarrow> bool" and bypassed :: "'q \<Rightarrow> bool"
    and prod :: "'q \<Rightarrow> bool" and prod_ok :: "'q \<Rightarrow> bool"
  assumes allowed_iff: "decide q = Some (a, r) \<Longrightarrow> a \<longleftrightarrow> \<not> denied q \<and> (bypassed q \<or> granted q)"
    and prod_guard: "decide q = Some (True, False) \<Longrightarrow> prod q \<Longrightarrow> prod_ok q"
    and refused_is_final: "decide q = Some (False, r) \<Longrightarrow> \<not> r"
begin

lemma deny_wins: "decide q = Some (a, r) \<Longrightarrow> denied q \<Longrightarrow> \<not> a \<and> \<not> r"
  using allowed_iff [of q a r] refused_is_final [of q r] by (cases a) auto

lemma default_deny: "decide q = Some (a, r) \<Longrightarrow> \<not> granted q \<Longrightarrow> \<not> bypassed q \<Longrightarrow> \<not> a"
  using allowed_iff by blast

lemma direct_prod:
  "decide q = Some (True, False) \<Longrightarrow> prod q \<Longrightarrow> prod_ok q \<and> \<not> denied q"
  using allowed_iff prod_guard by blast

lemma shown_iff: "decide q = Some (a, r) \<Longrightarrow> (a \<or> r) = a"
  using refused_is_final by (cases a) auto

end

type_synonym question = "db \<times> id \<times> id \<times> server \<times> string option"

definition evaluate_decision :: "question \<Rightarrow> (bool \<times> bool) option" where
  "evaluate_decision q = (case q of (d, oid, uid, s, prin) \<Rightarrow>
     if find_server d (srv_id s) oid \<noteq> Some s then None
     else case evaluate d oid uid (srv_id s) prin [] None of
       Inl e \<Rightarrow> None | Inr ev \<Rightarrow> Some (ev_allowed ev, ev_requiresApproval ev))"

definition bulk_decision :: "question \<Rightarrow> (bool \<times> bool) option" where
  "bulk_decision q = (case q of (d, oid, uid, s, prin) \<Rightarrow>
     if oid = [] \<or> uid = [] \<or> srv_id s = [] \<or> find_server d (srv_id s) oid \<noteq> Some s then None
     else let e = bulk_entry_for (''access.bypass_policies'' \<in> set (si_permissions (loadSubject d uid oid)))
            (canBypassProdApproval d oid (si_permissions (loadSubject d uid oid))) s
            (matching_policies d oid uid s (srv_id s) None)
          in Some (be_allowed e, be_requiresApproval e))"

definition q_effect :: "policy_effect \<Rightarrow> question \<Rightarrow> bool" where
  "q_effect eff q = (case q of (d, oid, uid, s, prin) \<Rightarrow>
     \<exists>p. applies d oid uid s (srv_id s) prin p \<and> pol_effect p = eff)"

definition q_bypass :: "question \<Rightarrow> bool" where
  "q_bypass q = (case q of (d, oid, uid, s, prin) \<Rightarrow> role_bypass d oid uid s)"

definition q_prod :: "question \<Rightarrow> bool" where
  "q_prod q = (case q of (d, oid, uid, s, prin) \<Rightarrow> srv_env s = EnvProd)"

definition q_prod_ok :: "question \<Rightarrow> bool" where
  "q_prod_ok q = (case q of (d, oid, uid, s, prin) \<Rightarrow>
     ''access.prod_bypass'' \<in> set (si_permissions (loadSubject d uid oid)) \<and> isProdBypassEnabled d oid)"

definition no_principal :: "question \<Rightarrow> question" where
  "no_principal q = (case q of (d, oid, uid, s, prin) \<Rightarrow> (d, oid, uid, s, None))"

lemmas q_defs = q_effect_def q_bypass_def q_prod_def q_prod_ok_def no_principal_def

lemma evaluate_decision_SomeD:
  assumes "evaluate_decision (d, oid, uid, s, prin) = Some (a, r)"
  obtains ev where "evaluate d oid uid (srv_id s) prin [] None = Inr ev"
    "find_server d (srv_id s) oid = Some s" "ev_allowed ev = a" "ev_requiresApproval ev = r"
  using assms by (auto simp: evaluate_decision_def split: if_splits sum.splits)

interpretation single: access_decision evaluate_decision "q_effect DENY" "q_effect ALLOW" q_bypass q_prod q_prod_ok
proof
  fix q :: question and a r
  obtain d oid uid s prin where q: "q = (d, oid, uid, s, prin)" by (cases q)
  show "evaluate_decision q = Some (a, r) \<Longrightarrow> a \<longleftrightarrow> \<not> q_effect DENY q \<and> (q_bypass q \<or> q_effect ALLOW q)"
    unfolding q by (elim evaluate_decision_SomeD) (auto simp: q_defs evaluate_allowed_iff)
  show "evaluate_decision q = Some (True, False) \<Longrightarrow> q_prod q \<Longrightarrow> q_prod_ok q"
    unfolding q by (elim evaluate_decision_SomeD) (auto simp: q_defs dest: evaluate_prod_guard)
  show "evaluate_decision q = Some (False, r) \<Longrightarrow> \<not> r"
    unfolding q by (elim evaluate_decision_SomeD) (auto dest: evaluate_refused_plain)
qed

lemma bulk_decision_eq: "bulk_decision q = Some ar \<Longrightarrow> evaluate_decision (no_principal q) = Some ar"
proof -
  assume b: "bulk_decision q = Some ar"
  obtain d oid uid s prin where q: "q = (d, oid, uid, s, prin)" by (cases q)
  from b have g: "oid \<noteq> []" "uid \<noteq> []" "srv_id s \<noteq> []" "find_server d (srv_id s) oid = Some s"
    by (auto simp: q bulk_decision_def split: if_splits)
  with evaluate_ok obtain ev where ev: "evaluate d oid uid (srv_id s) None [] None = Inr ev" by blast
  from bulk_entry_agrees [OF ev g(4)] b g ev show ?thesis
    by (simp add: q bulk_decision_def evaluate_decision_def no_principal_def agrees_def Let_def)
qed

interpretation bulk: access_decision bulk_decision "q_effect DENY \<circ> no_principal" "q_effect ALLOW \<circ> no_principal"
  "q_bypass \<circ> no_principal" "q_prod \<circ> no_principal" "q_prod_ok \<circ> no_principal"
proof
  fix q :: question and a r
  assume "bulk_decision q = Some (a, r)"
  from single.allowed_iff [OF bulk_decision_eq [OF this]]
  show "a \<longleftrightarrow> \<not> (q_effect DENY \<circ> no_principal) q \<and>
      ((q_bypass \<circ> no_principal) q \<or> (q_effect ALLOW \<circ> no_principal) q)" by simp
next
  fix q :: question
  assume b: "bulk_decision q = Some (True, False)" and "(q_prod \<circ> no_principal) q"
  then have "q_prod (no_principal q)" by simp
  with single.prod_guard [OF bulk_decision_eq [OF b]] show "(q_prod_ok \<circ> no_principal) q" by simp
next
  fix q :: question and r
  assume "bulk_decision q = Some (False, r)"
  from single.refused_is_final [OF bulk_decision_eq [OF this]] show "\<not> r" .
qed

end
