(* ===== verification/PolicyAdmin.thy ===== *)
theory PolicyAdmin
  imports PolicyProps
begin

text \<open>
  The operations on policies themselves (second half of
  \<open>backend/src/services/policyService.js\<close>): listing with filters and pages, the labels of
  their subjects, the check of every reference a policy makes, and create, update, delete.
\<close>

section \<open>Listing\<close>

record policy_filters =
  pf_customer :: "id option option"
  pf_orgWide :: bool
  pf_effect :: "policy_effect option"
  pf_active :: "bool option"
  pf_env :: string
  pf_subject :: id
  pf_search :: string
  pf_sortBy :: string
  pf_desc :: bool
  pf_page :: nat
  pf_pageSize :: nat

definition policy_where :: "id \<Rightarrow> policy_filters \<Rightarrow> policy \<Rightarrow> bool" where
  "policy_where oid f p \<longleftrightarrow>
     pol_org p = oid \<and>
     (if pf_orgWide f then pol_customer p = None
      else case pf_customer f of None \<Rightarrow> True | Some c \<Rightarrow> pol_customer p = c) \<and>
     (case pf_effect f of None \<Rightarrow> True | Some e \<Rightarrow> pol_effect p = e) \<and>
     (case pf_active f of None \<Rightarrow> True | Some b \<Rightarrow> pol_active p = b) \<and>
     (pf_env f = [] \<or> pf_env f \<in> set (pol_envs p)) \<and>
     (pf_subject f = [] \<or> (\<exists>s \<in> set (pol_subjects p). sub_id s = pf_subject f)) \<and>
     (pf_search f = [] \<or> contains_ci (pf_search f) (pol_name p) \<or>
        opt_contains (pf_search f) (pol_description p))"

text \<open>
  The whitelisted sort keys, as integers; anything else is the default order, priority and
  then newest first. The order of names is the collation of the database, a parameter.
\<close>

definition policy_sort_key :: "(string \<Rightarrow> int) \<Rightarrow> string \<Rightarrow> (policy \<Rightarrow> int) option" where
  "policy_sort_key collate k =
     (if k = ''name'' then Some (\<lambda>p. collate (pol_name p))
      else if k = ''effect'' then Some (\<lambda>p. int (effect_rank (pol_effect p)))
      else if k = ''priority'' then Some pol_priority
      else if k = ''isActive'' then Some (\<lambda>p. if pol_active p then 1 else 0)
      else if k = ''updatedAt'' then Some pol_updatedAt
      else None)"

definition order_policies :: "(string \<Rightarrow> int) \<Rightarrow> policy_filters \<Rightarrow> policy list \<Rightarrow> policy list" where
  "order_policies collate f ps =
     (case policy_sort_key collate (pf_sortBy f) of
        Some k \<Rightarrow> if pf_desc f then sort_key (\<lambda>p. - k p) ps else sort_key k ps
      | None \<Rightarrow> sort_key pol_priority (sort_key (\<lambda>p. - pol_createdAt p) ps))"

definition policy_list :: "(string \<Rightarrow> int) \<Rightarrow> db \<Rightarrow> id \<Rightarrow> policy_filters \<Rightarrow> policy list \<times> nat \<times> nat \<times> nat" where
  "policy_list collate d oid f =
     (let rows = filter (policy_where oid f) (policies d)
      in (page_of (page_no (pf_page f)) (page_size (pf_pageSize f)) (order_policies collate f rows),
          length rows, page_no (pf_page f), page_size (pf_pageSize f)))"

definition getPolicyById :: "db \<Rightarrow> id \<Rightarrow> id \<Rightarrow> policy res" where
  "getPolicyById d oid pid =
     (case find_policy d pid oid of None \<Rightarrow> Inl (api_error 404 ''Policy not found'') | Some p \<Rightarrow> Inr p)"

text \<open>\<open>enrichPolicySubjects\<close>: the label attached to one subject.\<close>

definition subject_label :: "db \<Rightarrow> id \<Rightarrow> subject \<Rightarrow> string" where
  "subject_label d oid s =
     (case sub_type s of
        USER \<Rightarrow> or_else (map_option (\<lambda>u. if usr_name u = [] then usr_email u else usr_name u)
                   (find_user d (sub_id s) oid)) ''(unknown user)''
      | GROUP \<Rightarrow> or_else (map_option grp_name
                   (find (\<lambda>g. grp_id g = sub_id s \<and> grp_org g = oid) (groups d))) ''(unknown group)''
      | ROLE \<Rightarrow> or_else (map_option rol_name
                   (find (\<lambda>r. rol_key r = sub_id s \<and> rol_org r = oid) (roles d)))
                   (''(deleted role '' @ sub_id s @ '')''))"

definition enrichPolicySubjects :: "db \<Rightarrow> id \<Rightarrow> policy \<Rightarrow> (subject \<times> string) list" where
  "enrichPolicySubjects d oid p = map (\<lambda>s. (s, subject_label d oid s)) (pol_subjects p)"

section \<open>References\<close>

definition subject_ids :: "subject_type \<Rightarrow> subject list \<Rightarrow> id list" where
  "subject_ids t ss = map sub_id (filter (\<lambda>s. sub_type s = t) ss)"

definition assertPolicyRefs ::
    "db \<Rightarrow> id \<Rightarrow> subject list \<Rightarrow> string list \<Rightarrow> id list \<Rightarrow> string option \<Rightarrow> unit res" where
  "assertPolicyRefs d oid subjects approverRoles approverUsers approverGroup =
     (let roleKeys = uniq (subject_ids ROLE subjects @ approverRoles);
          userIds = uniq (subject_ids USER subjects @ approverUsers);
          groupIds = uniq (subject_ids GROUP subjects @
                       (if truthy approverGroup then [the approverGroup] else []));
          roleRows = filter (\<lambda>r. rol_org r = oid \<and> rol_key r \<in> set roleKeys) (roles d);
          userRows = filter (\<lambda>u. usr_org u = oid \<and> usr_id u \<in> set userIds) (users d);
          groupRows = filter (\<lambda>g. grp_org g = oid \<and> grp_id g \<in> set groupIds) (groups d);
          missingRole = find (\<lambda>k. \<not> (\<exists>r \<in> set roleRows. rol_key r = k)) roleKeys
      in if truthy missingRole
         then Inl (api_error 400 (''Unknown role '' @ [CHR 0x22] @ the missingRole @ [CHR 0x22]))
         else if length userRows \<noteq> length userIds
         then Inl (api_error 400 ''One or more users are not in this organization'')
         else if length groupRows \<noteq> length groupIds
         then Inl (api_error 400 ''One or more groups are not in this organization'')
         else Inr ())"

section \<open>Create, update, delete\<close>

text \<open>The body of a request; \<open>None\<close> is \<open>undefined\<close>, the inner \<open>None\<close> is \<open>null\<close>.\<close>

record policy_data =
  pd_subjects :: "subject list option"
  pd_customer :: "id option option"
  pd_name :: "string option"
  pd_description :: "string option option"
  pd_effect :: "policy_effect option"
  pd_envs :: "string list option"
  pd_labels :: "json option"
  pd_servers :: "id list option"
  pd_principals :: "string list option"
  pd_maxDuration :: "int option"
  pd_requireApproval :: "bool option"
  pd_autoApprove :: "bool option"
  pd_active :: "bool option"
  pd_priority :: "int option"
  pd_osProv :: "json option"
  pd_keyDownload :: "bool option"
  pd_breakGlass :: "bool option"
  pd_approverGroup :: "id option option"
  pd_approverRoles :: "string list option"
  pd_approverUsers :: "id list option"

fun dflt :: "'a option \<Rightarrow> 'a \<Rightarrow> 'a" where
  "dflt None x = x"
| "dflt (Some y) x = y"

text \<open>\<open>v || null\<close> for a value that may be undefined, null or empty.\<close>

definition or_null :: "string option option \<Rightarrow> string option" where
  "or_null v = (if truthy (dflt v None) then dflt v None else None)"

definition customer_in_scope :: "db \<Rightarrow> id \<Rightarrow> scope \<Rightarrow> id \<Rightarrow> bool" where
  "customer_in_scope d oid sc cid =
     (\<exists>c \<in> set (customers d). cus_id c = cid \<and> cus_org c = oid \<and> customerScopeWhere sc c)"

text \<open>The row written by \<open>create\<close>; \<open>createMany\<close> skips duplicate subjects.\<close>

definition new_policy :: "id \<Rightarrow> int \<Rightarrow> id \<Rightarrow> policy_data \<Rightarrow> policy" where
  "new_policy newId now oid x =
     \<lparr>pol_id = newId, pol_org = oid, pol_customer = or_null (pd_customer x),
      pol_name = the (pd_name x), pol_description = or_null (pd_description x),
      pol_effect = the (pd_effect x), pol_envs = dflt (pd_envs x) [],
      pol_labels = dflt (pd_labels x) (JObj []), pol_servers = dflt (pd_servers x) [],
      pol_principals = dflt (pd_principals x) [], pol_maxDuration = the (pd_maxDuration x),
      pol_requireApproval = dflt (pd_requireApproval x) False,
      pol_autoApprove = dflt (pd_autoApprove x) False, pol_active = dflt (pd_active x) True,
      pol_priority = dflt (pd_priority x) 100, pol_osProv = dflt (pd_osProv x) (JObj []),
      pol_keyDownload = dflt (pd_keyDownload x) False, pol_breakGlass = dflt (pd_breakGlass x) False,
      pol_approverGroup = or_null (pd_approverGroup x),
      pol_approverRoles = dflt (pd_approverRoles x) [], pol_approverUsers = dflt (pd_approverUsers x) [],
      pol_subjects = uniq (dflt (pd_subjects x) []), pol_createdAt = now, pol_updatedAt = now\<rparr>"

definition createPolicy :: "id \<Rightarrow> int \<Rightarrow> id \<Rightarrow> policy_data \<Rightarrow> scope \<Rightarrow> db \<Rightarrow> policy res \<times> db" where
  "createPolicy newId now oid x sc d =
     (if \<not> truthy (pd_name x) then (Inl (api_error 400 ''name is required''), d)
      else if pd_effect x = None then (Inl (api_error 400 ''effect is required''), d)
      else if dflt (pd_maxDuration x) 0 \<le> 0
      then (Inl (api_error 400 ''maxSessionDuration must be a positive integer''), d)
      else if or_null (pd_customer x) \<noteq> None \<and> \<not> customer_in_scope d oid sc (the (or_null (pd_customer x)))
      then (Inl (api_error 400 ''Customer not found in organization''), d)
      else case assertPolicyRefs d oid (dflt (pd_subjects x) []) (dflt (pd_approverRoles x) [])
                  (dflt (pd_approverUsers x) []) (dflt (pd_approverGroup x) None) of
        Inl e \<Rightarrow> (Inl e, d)
      | Inr _ \<Rightarrow>
          let p = new_policy newId now oid x
          in (Inr p, d\<lparr>policies := policies d @ [p]\<rparr>))"

text \<open>The columns an update writes, then the subjects, which only an array replaces.\<close>

definition patch_policy :: "int \<Rightarrow> policy_data \<Rightarrow> policy \<Rightarrow> policy" where
  "patch_policy now x p = p\<lparr>
     pol_customer := (if pd_customer x \<noteq> None then or_null (pd_customer x) else pol_customer p),
     pol_name := dflt (pd_name x) (pol_name p),
     pol_description := dflt (pd_description x) (pol_description p),
     pol_effect := dflt (pd_effect x) (pol_effect p),
     pol_envs := dflt (pd_envs x) (pol_envs p),
     pol_labels := dflt (pd_labels x) (pol_labels p),
     pol_servers := dflt (pd_servers x) (pol_servers p),
     pol_principals := dflt (pd_principals x) (pol_principals p),
     pol_maxDuration := dflt (pd_maxDuration x) (pol_maxDuration p),
     pol_requireApproval := dflt (pd_requireApproval x) (pol_requireApproval p),
     pol_autoApprove := dflt (pd_autoApprove x) (pol_autoApprove p),
     pol_active := dflt (pd_active x) (pol_active p),
     pol_priority := dflt (pd_priority x) (pol_priority p),
     pol_osProv := dflt (pd_osProv x) (pol_osProv p),
     pol_keyDownload := dflt (pd_keyDownload x) (pol_keyDownload p),
     pol_breakGlass := dflt (pd_breakGlass x) (pol_breakGlass p),
     pol_approverGroup := (if pd_approverGroup x \<noteq> None then or_null (pd_approverGroup x)
                           else pol_approverGroup p),
     pol_approverRoles := dflt (pd_approverRoles x) (pol_approverRoles p),
     pol_approverUsers := dflt (pd_approverUsers x) (pol_approverUsers p),
     pol_subjects := (case pd_subjects x of None \<Rightarrow> pol_subjects p | Some ss \<Rightarrow> uniq ss),
     pol_updatedAt := now\<rparr>"

definition updatePolicy :: "int \<Rightarrow> id \<Rightarrow> id \<Rightarrow> policy_data \<Rightarrow> scope \<Rightarrow> db \<Rightarrow> policy res \<times> db" where
  "updatePolicy now oid pid x sc d =
     (case find_policy d pid oid of
        None \<Rightarrow> (Inl (api_error 404 ''Policy not found''), d)
      | Some p \<Rightarrow>
          if (case dflt (pd_customer x) None of None \<Rightarrow> False | Some c \<Rightarrow> \<not> customer_in_scope d oid sc c)
          then (Inl (api_error 400 ''Customer not found in organization''), d)
          else case assertPolicyRefs d oid (dflt (pd_subjects x) []) (dflt (pd_approverRoles x) [])
                      (dflt (pd_approverUsers x) []) (dflt (pd_approverGroup x) None) of
            Inl e \<Rightarrow> (Inl e, d)
          | Inr _ \<Rightarrow>
              (Inr (patch_policy now x p),
               d\<lparr>policies := update_where (\<lambda>q. pol_id q = pid) (patch_policy now x) (policies d)\<rparr>))"

definition delPolicy :: "id \<Rightarrow> id \<Rightarrow> db \<Rightarrow> bool res \<times> db" where
  "delPolicy oid pid d =
     (case find_policy d pid oid of
        None \<Rightarrow> (Inl (api_error 404 ''Policy not found''), d)
      | Some p \<Rightarrow> (Inr True, d\<lparr>policies := filter (\<lambda>q. pol_id q \<noteq> pid) (policies d)\<rparr>))"

definition cleanupPolicySubjects :: "subject_type \<Rightarrow> id \<Rightarrow> db \<Rightarrow> nat \<times> db" where
  "cleanupPolicySubjects t sid d =
     (let gone = (\<lambda>s. sub_type s = t \<and> sub_id s = sid)
      in (sum_list (map (\<lambda>p. count_where gone (pol_subjects p)) (policies d)),
          d\<lparr>policies := map (\<lambda>p. p\<lparr>pol_subjects := filter (\<lambda>s. \<not> gone s) (pol_subjects p)\<rparr>) (policies d)\<rparr>))"

record delete_impact =
  di_policy :: "id \<times> string"
  di_subjectCount :: nat
  di_userCount :: nat
  di_groupCount :: nat
  di_roleCount :: nat

definition getDeleteImpact :: "db \<Rightarrow> id \<Rightarrow> id \<Rightarrow> delete_impact res" where
  "getDeleteImpact d oid pid =
     (case find_policy d pid oid of
        None \<Rightarrow> Inl (api_error 404 ''Policy not found'')
      | Some p \<Rightarrow>
          let ss = pol_subjects p; n = (\<lambda>t. count_where (\<lambda>s. sub_type s = t) ss)
          in Inr \<lparr>di_policy = (pol_id p, pol_name p), di_subjectCount = length ss,
                  di_userCount = n USER, di_groupCount = n GROUP, di_roleCount = n ROLE\<rparr>)"

section \<open>Lemmas\<close>

text \<open>Every reference of an accepted policy exists in the organization.\<close>

definition refs_exist :: "db \<Rightarrow> id \<Rightarrow> subject list \<Rightarrow> string list \<Rightarrow> id list \<Rightarrow> string option \<Rightarrow> bool" where
  "refs_exist d oid subjects aroles ausers agroup \<longleftrightarrow>
     (\<forall>k \<in> set (subject_ids ROLE subjects @ aroles). \<exists>r \<in> set (roles d). rol_org r = oid \<and> rol_key r = k) \<and>
     (\<forall>i \<in> set (subject_ids USER subjects @ ausers). \<exists>u \<in> set (users d). usr_org u = oid \<and> usr_id u = i) \<and>
     (\<forall>i \<in> set (subject_ids GROUP subjects @ (if truthy agroup then [the agroup] else [])).
        \<exists>g \<in> set (groups d). grp_org g = oid \<and> grp_id g = i)"

text \<open>Rows with distinct keys, as many as the keys asked for, are all of them.\<close>

lemma rows_complete:
  assumes "distinct (map k rows)" and "distinct ids"
    and "length (filter (\<lambda>r. P r \<and> k r \<in> set ids) rows) = length ids" and "i \<in> set ids"
  shows "\<exists>r \<in> set rows. P r \<and> k r = i"
proof -
  let ?rs = "filter (\<lambda>r. P r \<and> k r \<in> set ids) rows"
  have dist: "distinct (map k ?rs)" using assms(1) by (simp add: distinct_map_filter)
  have sub: "set (map k ?rs) \<subseteq> set ids" by auto
  have "card (set (map k ?rs)) = card (set ids)"
    using distinct_card [OF dist] distinct_card [OF assms(2)] assms(3) by simp
  then have "set (map k ?rs) = set ids" using sub by (simp add: card_subset_eq)
  with assms(4) have "i \<in> set (map k ?rs)" by simp
  then show ?thesis by auto
qed

lemma assertPolicyRefs_ok:
  assumes "assertPolicyRefs d oid ss ar au ag = Inr ()"
    and "distinct (map usr_id (users d))" "distinct (map grp_id (groups d))"
    and "[] \<notin> set (subject_ids ROLE ss @ ar)"
  shows "refs_exist d oid ss ar au ag"
proof -
  let ?rk = "uniq (subject_ids ROLE ss @ ar)" and ?ui = "uniq (subject_ids USER ss @ au)"
  let ?gi = "uniq (subject_ids GROUP ss @ (if truthy ag then [the ag] else []))"
  from assms(1) have r: "\<not> truthy (find (\<lambda>k. \<not> (\<exists>r \<in> set (filter (\<lambda>r. rol_org r = oid \<and> rol_key r \<in> set ?rk) (roles d)). rol_key r = k)) ?rk)"
    and u: "length (filter (\<lambda>u. usr_org u = oid \<and> usr_id u \<in> set ?ui) (users d)) = length ?ui"
    and g: "length (filter (\<lambda>g. grp_org g = oid \<and> grp_id g \<in> set ?gi) (groups d)) = length ?gi"
    unfolding assertPolicyRefs_def Let_def by (auto simp only: split: if_splits)
  have "\<exists>u \<in> set (users d). usr_org u = oid \<and> usr_id u = i" if "i \<in> set ?ui" for i
    by (rule rows_complete [OF assms(2) distinct_uniq u that])
  moreover have "\<exists>u \<in> set (groups d). grp_org u = oid \<and> grp_id u = i" if "i \<in> set ?gi" for i
    by (rule rows_complete [OF assms(3) distinct_uniq g that])
  moreover have "\<exists>r \<in> set (roles d). rol_org r = oid \<and> rol_key r = k" if "k \<in> set ?rk" for k
  proof (rule ccontr)
    assume "\<not> ?thesis"
    with that obtain k' where k': "find (\<lambda>k. \<not> (\<exists>r \<in> set (filter (\<lambda>r. rol_org r = oid \<and> rol_key r \<in> set ?rk) (roles d)). rol_key r = k)) ?rk = Some k'"
      by (cases "find (\<lambda>k. \<not> (\<exists>r \<in> set (filter (\<lambda>r. rol_org r = oid \<and> rol_key r \<in> set ?rk) (roles d)). rol_key r = k)) ?rk")
        (auto simp: find_None_iff_all)
    then have "k' \<in> set ?rk" by (blast dest: find_SomeD)
    moreover have "k' = []" using r k' by simp
    ultimately show False using assms(4) by simp
  qed
  ultimately show ?thesis unfolding refs_exist_def by simp
qed

section \<open>Updates and pages\<close>

lemma patch_policy_keeps [simp]:
  "pol_id (patch_policy now x p) = pol_id p" "pol_org (patch_policy now x p) = pol_org p"
  "pol_createdAt (patch_policy now x p) = pol_createdAt p"
  by (simp_all add: patch_policy_def)

interpretation policy_update: keyed_update pol_id "patch_policy now x"
  for now :: int and x :: policy_data
  by unfold_locales simp

lemma find_policy_SomeD:
  "find_policy d pid oid = Some p \<Longrightarrow> p \<in> set (policies d) \<and> pol_id p = pid \<and> pol_org p = oid"
  by (auto simp: find_policy_def dest: find_SomeD)

lemma updatePolicy_cases:
  assumes "updatePolicy now oid pid x sc d = (r, d')"
  shows "(\<exists>e. r = Inl e) \<and> d' = d \<or>
    (\<exists>p. find_policy d pid oid = Some p \<and> r = Inr (patch_policy now x p) \<and>
       d' = d\<lparr>policies := update_where (\<lambda>q. pol_id q = pid) (patch_policy now x) (policies d)\<rparr>)"
  using assms by (auto simp: updatePolicy_def split: option.splits if_splits sum.splits)

lemma updatePolicy_other_org:
  assumes "distinct (map pol_id (policies d))" and "updatePolicy now oid pid x sc d = (r, d')"
    and "p \<in> set (policies d)" and "pol_org p \<noteq> oid"
  shows "p \<in> set (policies d')"
proof -
  from updatePolicy_cases [OF assms(2)] consider "d' = d"
    | q where "find_policy d pid oid = Some q"
        "d' = d\<lparr>policies := update_where (\<lambda>q. pol_id q = pid) (patch_policy now x) (policies d)\<rparr>"
    by blast
  then show ?thesis
  proof cases
    case 1
    then show ?thesis using assms(3) by simp
  next
    case 2
    then have "q \<in> set (policies d)" "pol_id q = pid" "pol_org q = oid"
      by (auto dest: find_policy_SomeD)
    with assms(1,3,4) have "pol_id p \<noteq> pid" by (metis distinct_map inj_onD)
    then show ?thesis using 2(2) assms(3) by (force simp: set_update_where)
  qed
qed

lemma cleanupPolicySubjects_clean:
  "cleanupPolicySubjects t sid d = (n, d') \<Longrightarrow>
     \<forall>p \<in> set (policies d'). \<forall>s \<in> set (pol_subjects p). \<not> (sub_type s = t \<and> sub_id s = sid)"
  by (auto simp: cleanupPolicySubjects_def Let_def)

end
