(* ===== verification/Jit.thy ===== *)
theory Jit
  imports PolicyAdmin "HOL-Library.Word"
begin

text \<open>
  Just-in-time Linux accounts (\<open>backend/src/services/jitManifestService.js\<close> and
  \<open>jitUidService.js\<close>): the account name derived from a user, the policy that turns the feature
  on, the manifest handed to the host, and the allocator of per-organization uids.
\<close>

unbundle bit_operations_syntax

section \<open>Account names\<close>

definition sanitizedBase :: "user \<Rightarrow> string" where
  "sanitizedBase u =
     (let raw = lower (if usr_email u \<noteq> [] then usr_email u
                       else if usr_name u \<noteq> [] then usr_name u else usr_id u);
          local_part = takeWhile (\<lambda>c. c \<noteq> CHR ''@'') raw;
          cleaned = slug local_part
      in take 24 (if cleaned = [] then ''shellius'' else cleaned))"

definition jitPrincipalFor :: "user \<Rightarrow> string" where
  "jitPrincipalFor u = sanitizedBase u @ ''_jit''"

section \<open>Which policy turns the feature on\<close>

fun json_truthy :: "json option \<Rightarrow> bool" where
  "json_truthy None = False"
| "json_truthy (Some JNull) = False"
| "json_truthy (Some (JBool b)) = b"
| "json_truthy (Some (JNum i)) = (i \<noteq> 0)"
| "json_truthy (Some (JStr s)) = (s \<noteq> [])"
| "json_truthy (Some _) = True"

text \<open>\<open>Array.isArray(x) ? x : []\<close>\<close>

fun array_or_empty :: "json option \<Rightarrow> json list" where
  "array_or_empty (Some (JArr xs)) = xs"
| "array_or_empty _ = []"

definition hasJitConfig :: "json \<Rightarrow> bool" where
  "hasJitConfig os =
     (if \<not> json_is_object (Some os) then False
      else if array_or_empty (json_get os ''linuxGroups'') \<noteq> [] then True
      else if json_get os ''sudo'' = Some (JBool True) then True
      else if array_or_empty (json_get os ''aclReadPaths'') \<noteq> [] then True
      else if json_get os ''hardCutoff'' = Some (JBool True) then True
      else False)"

definition role_keys_of :: "db \<Rightarrow> id \<Rightarrow> id \<Rightarrow> string list" where
  "role_keys_of d uid oid =
     (case find_user d uid oid of
        None \<Rightarrow> []
      | Some u \<Rightarrow>
          uniq (filter (\<lambda>k. k \<noteq> []) (tier_name (usr_role u) #
            (case find_role d (usr_roleId u) of None \<Rightarrow> [] | Some r \<Rightarrow> [rol_key r]))))"

definition findJitPolicyForUserServer :: "db \<Rightarrow> id \<Rightarrow> id \<Rightarrow> id \<Rightarrow> policy option" where
  "findJitPolicyForUserServer d oid uid sid =
     (let gids = resolveUserGroupIds d uid oid;
          rkeys = role_keys_of d uid oid;
          ps = sort_key pol_priority (filter (\<lambda>p. pol_org p = oid \<and> pol_active p \<and> is_allow p \<and>
                 (\<exists>s \<in> set (pol_subjects p). subject_matches uid gids rkeys s)) (policies d));
          sv = find_server d sid oid;
          relevant = filter (\<lambda>p.
            (pol_servers p = [] \<or> sid \<in> set (pol_servers p)) \<and>
            (pol_envs p = [] \<or> sv = None \<or> env_name (srv_env (the sv)) \<in> set (pol_envs p))) ps
      in find (\<lambda>p. hasJitConfig (pol_osProv p)) relevant)"

section \<open>Uids\<close>

definition MIN_UID :: int where "MIN_UID = 70000"
definition MAX_UID :: int where "MAX_UID = 79999"

text \<open>FNV-1a on 32-bit words; \<open>Math.imul\<close> keeps the low 32 bits and \<open>| 0\<close> reads them signed.\<close>

definition hashOrgId :: "string \<Rightarrow> int" where
  "hashOrgId s =
     sint (foldl (\<lambda>h c. (h XOR of_nat (of_char c)) * 0x01000193) (0x811c9dc5 :: 32 word) s)"

definition org_uids :: "db \<Rightarrow> id \<Rightarrow> int list" where
  "org_uids d oid = List.map_filter usr_jitUid (filter (\<lambda>u. usr_org u = oid) (users d))"

definition next_uid :: "db \<Rightarrow> id \<Rightarrow> int" where
  "next_uid d oid = (case org_uids d oid of [] \<Rightarrow> MIN_UID - 1 | x # xs \<Rightarrow> fold max xs x) + 1"

definition set_jitUid :: "id \<Rightarrow> int \<Rightarrow> db \<Rightarrow> db" where
  "set_jitUid uid n d =
     d\<lparr>users := update_where (\<lambda>u. usr_id u = uid) (\<lambda>u. u\<lparr>usr_jitUid := Some n\<rparr>) (users d)\<rparr>"

text \<open>The transaction under the advisory lock: read again, then take the next number.\<close>

definition allocate_uid_tx :: "id \<Rightarrow> id \<Rightarrow> db \<Rightarrow> int res \<times> db" where
  "allocate_uid_tx oid uid d =
     (case Option.bind (find_user_id d uid) usr_jitUid of
        Some n \<Rightarrow> (Inr n, d)
      | None \<Rightarrow>
          let n = next_uid d oid in
          if n > MAX_UID
          then (Inl (ApiError 500 ''JIT UID range exhausted for org'' (Some ''JIT_UID_RANGE_EXHAUSTED'')), d)
          else if n < MIN_UID
          then (Inl (api_error 500 (''Computed UID '' @ int_str n @ '' below minimum '' @ int_str MIN_UID)), d)
          else if find_user_id d uid = None then (Inl DbError, d)
          else (Inr n, set_jitUid uid n d))"

definition getOrAllocateUid :: "id \<Rightarrow> id \<Rightarrow> db \<Rightarrow> int res \<times> db" where
  "getOrAllocateUid oid uid d =
     (case find_user_id d uid of
        None \<Rightarrow> (Inl (ApiError 404 ''User not found'' (Some ''USER_NOT_FOUND'')), d)
      | Some u \<Rightarrow>
          (case usr_jitUid u of
             Some n \<Rightarrow> (Inr n, d)
           | None \<Rightarrow> allocate_uid_tx oid uid d))"

section \<open>The manifest\<close>

record manifest =
  mf_linuxUser :: string
  mf_uid :: int
  mf_groups :: "json list"
  mf_sudo :: bool
  mf_aclReadPaths :: "json list"
  mf_aclRecursive :: bool
  mf_hardCutoff :: bool
  mf_leaseId :: id
  mf_ttlSeconds :: int

definition manifest_policy :: "db \<Rightarrow> id \<Rightarrow> policy option" where
  "manifest_policy d oid =
     find (\<lambda>p. hasJitConfig (pol_osProv p))
       (sort_key pol_priority (filter (\<lambda>p. pol_org p = oid \<and> pol_active p \<and> is_allow p) (policies d)))"

text \<open>\<open>now\<close> is read for the expiry check and again, as \<open>now'\<close>, for the remaining seconds.\<close>

definition buildManifest :: "int \<Rightarrow> int \<Rightarrow> id \<Rightarrow> db \<Rightarrow> manifest option \<times> db" where
  "buildManifest now now' rid d =
     (case find_request d rid of None \<Rightarrow> (None, d) | Some ar \<Rightarrow>
      case find_user_id d (req_requester ar) of None \<Rightarrow> (None, d) | Some u \<Rightarrow>
      if req_status ar \<noteq> APPROVED then (None, d)
      else case req_expiresAt ar of None \<Rightarrow> (None, d) | Some exp \<Rightarrow>
      if exp \<le> now then (None, d)
      else case manifest_policy d (usr_org u) of None \<Rightarrow> (None, d) | Some p \<Rightarrow>
      let os = pol_osProv p in
      case getOrAllocateUid (usr_org u) (usr_id u) d of
        (Inl e, d1) \<Rightarrow> (None, d1)
      | (Inr n, d1) \<Rightarrow>
          (Some \<lparr>mf_linuxUser = sanitizedBase u @ ''_jit'', mf_uid = n,
                 mf_groups = array_or_empty (json_get os ''linuxGroups''),
                 mf_sudo = json_truthy (json_get os ''sudo''),
                 mf_aclReadPaths = array_or_empty (json_get os ''aclReadPaths''),
                 mf_aclRecursive = json_truthy (json_get os ''aclRecursive''),
                 mf_hardCutoff = json_truthy (json_get os ''hardCutoff''),
                 mf_leaseId = req_id ar,
                 mf_ttlSeconds = max 0 (math_floor_div (exp - now') 1000)\<rparr>, d1))"

section \<open>Lemmas\<close>

lemma sanitizedBase_chars:
  "c \<in> set (sanitizedBase u) \<Longrightarrow> is_lower_alnum c \<or> c = CHR ''_''"
  unfolding sanitizedBase_def Let_def
  by (auto dest!: in_set_takeD set_slug split: if_splits) (auto simp: is_lower_alnum_def)

lemma sanitizedBase_length: "1 \<le> length (sanitizedBase u) \<and> length (sanitizedBase u) \<le> 24"
  unfolding sanitizedBase_def Let_def by (auto simp: Suc_le_eq)

text \<open>Uids of one organization are distinct and inside the reserved range.\<close>

definition uids_ok :: "db \<Rightarrow> id \<Rightarrow> bool" where
  "uids_ok d oid \<longleftrightarrow> distinct (org_uids d oid) \<and> (\<forall>n \<in> set (org_uids d oid). MIN_UID \<le> n \<and> n \<le> MAX_UID)"

lemma fold_max_ge: "(x :: int) \<in> set ys \<or> x \<le> y \<Longrightarrow> x \<le> fold max ys y"
  by (induction ys arbitrary: y) (auto simp: le_max_iff_disj)

lemma next_uid_above: "n \<in> set (org_uids d oid) \<Longrightarrow> n < next_uid d oid"
  by (cases "org_uids d oid") (auto simp: next_uid_def intro: fold_max_ge le_imp_less_Suc zle_add1_eq_le [THEN iffD2])

lemma map_filter_Cons:
  "List.map_filter f (x # xs) = (case f x of None \<Rightarrow> List.map_filter f xs | Some y \<Rightarrow> y # List.map_filter f xs)"
  by (auto simp: List.map_filter_def split: option.splits)

lemma map_filter_in: "y \<in> set (List.map_filter f xs) \<longleftrightarrow> (\<exists>x \<in> set xs. f x = Some y)"
  by (induction xs) (auto simp: map_filter_Cons List.map_filter_def split: option.splits)

text \<open>Writing a fresh number into the one row of a user.\<close>

lemma distinct_uids_update:
  assumes "distinct (map usr_id us)" and "distinct (List.map_filter usr_jitUid us)"
    and "n \<notin> set (List.map_filter usr_jitUid us)"
  shows "distinct (List.map_filter usr_jitUid
      (update_where (\<lambda>u. usr_id u = uid) (\<lambda>u. u\<lparr>usr_jitUid := Some n\<rparr>) us))
    \<and> set (List.map_filter usr_jitUid (update_where (\<lambda>u. usr_id u = uid) (\<lambda>u. u\<lparr>usr_jitUid := Some n\<rparr>) us))
      \<subseteq> insert n (set (List.map_filter usr_jitUid us))
    \<and> (uid \<notin> usr_id ` set us \<longrightarrow>
        update_where (\<lambda>u. usr_id u = uid) (\<lambda>u. u\<lparr>usr_jitUid := Some n\<rparr>) us = us)"
  using assms
proof (induction us)
  case Nil
  then show ?case by (simp add: update_where_def List.map_filter_def)
next
  case (Cons u us)
  have dist: "distinct (map usr_id us)" "distinct (List.map_filter usr_jitUid us)"
    "n \<notin> set (List.map_filter usr_jitUid us)"
    using Cons.prems by (auto simp: map_filter_Cons split: option.splits)
  note IH = Cons.IH [OF dist]
  show ?case
  proof (cases "usr_id u = uid")
    case True
    then have "uid \<notin> usr_id ` set us" using Cons.prems(1) by auto
    with IH have "update_where (\<lambda>u. usr_id u = uid) (\<lambda>u. u\<lparr>usr_jitUid := Some n\<rparr>) us = us" by blast
    with True dist show ?thesis by (auto simp: update_where_def map_filter_Cons split: option.splits)
  next
    case False
    then show ?thesis using IH Cons.prems
      by (auto simp: update_where_def map_filter_Cons split: option.splits)
  qed
qed

lemma filter_org_update:
  "filter (\<lambda>u. usr_org u = oid) (update_where (\<lambda>u. usr_id u = uid) (\<lambda>u. u\<lparr>usr_jitUid := Some n\<rparr>) us) =
     update_where (\<lambda>u. usr_id u = uid) (\<lambda>u. u\<lparr>usr_jitUid := Some n\<rparr>) (filter (\<lambda>u. usr_org u = oid) us)"
  by (induction us) (auto simp: update_where_def)

lemma next_uid_ge: "uids_ok d oid \<Longrightarrow> MIN_UID \<le> next_uid d oid"
proof (cases "org_uids d oid")
  case Nil
  then show ?thesis by (simp add: next_uid_def)
next
  case (Cons x xs)
  assume "uids_ok d oid"
  with Cons have "MIN_UID \<le> x" by (simp add: uids_ok_def)
  moreover have "x < next_uid d oid" using next_uid_above [of x d oid] Cons by simp
  ultimately show ?thesis by simp
qed

lemma org_uids_set_jitUid:
  "org_uids (set_jitUid uid n d) oid =
     List.map_filter usr_jitUid (update_where (\<lambda>u. usr_id u = uid) (\<lambda>u. u\<lparr>usr_jitUid := Some n\<rparr>)
       (filter (\<lambda>u. usr_org u = oid) (users d)))"
  by (simp add: org_uids_def set_jitUid_def filter_org_update)

lemma allocate_uid_tx_cases:
  "allocate_uid_tx oid uid d = (r, d') \<Longrightarrow>
     d' = d \<or> next_uid d oid \<le> MAX_UID \<and> d' = set_jitUid uid (next_uid d oid) d \<and> Option.bind (find_user_id d uid) usr_jitUid = None"
  by (cases "Option.bind (find_user_id d uid) usr_jitUid")
    (simp_all add: allocate_uid_tx_def Let_def split: if_splits)

lemma allocate_uid_tx_keeps:
  assumes "uids_ok d oid" and "distinct (map usr_id (users d))"
    and "allocate_uid_tx oid uid d = (r, d')"
  shows "uids_ok d' oid"
proof -
  consider "d' = d"
    | "next_uid d oid \<le> MAX_UID" "d' = set_jitUid uid (next_uid d oid) d"
    using allocate_uid_tx_cases [OF assms(3)] by blast
  then show ?thesis
  proof cases
    case 1
    then show ?thesis using assms(1) by simp
  next
    case 2
    let ?n = "next_uid d oid" and ?us = "filter (\<lambda>u. usr_org u = oid) (users d)"
    have fresh: "?n \<notin> set (org_uids d oid)" using next_uid_above [of ?n d oid] by auto
    have "distinct (map usr_id ?us)" using assms(2) by (simp add: distinct_map_filter)
    moreover have "distinct (List.map_filter usr_jitUid ?us)"
      using assms(1) by (simp add: uids_ok_def org_uids_def)
    moreover have "?n \<notin> set (List.map_filter usr_jitUid ?us)" using fresh by (simp add: org_uids_def)
    ultimately have u: "distinct (org_uids d' oid)"
      "set (org_uids d' oid) \<subseteq> insert ?n (set (org_uids d oid))"
      unfolding 2(2) org_uids_set_jitUid org_uids_def [of d] by (metis distinct_uids_update)+
    show ?thesis unfolding uids_ok_def
    proof (intro conjI ballI)
      show "distinct (org_uids d' oid)" by (rule u(1))
      fix m assume "m \<in> set (org_uids d' oid)"
      then have "m = ?n \<or> m \<in> set (org_uids d oid)" using u(2) by auto
      then show "MIN_UID \<le> m" "m \<le> MAX_UID"
        using 2(1) next_uid_ge [OF assms(1)] assms(1) by (auto simp: uids_ok_def)
    qed
  qed
qed

lemma find_user_id_set_jitUid:
  "find_user_id d uid = Some u \<Longrightarrow>
     find_user_id (set_jitUid uid n d) uid = Some (u\<lparr>usr_jitUid := Some n\<rparr>)"
  by (auto simp: find_user_id_def set_jitUid_def find_update_where dest: find_SomeD)

lemma getOrAllocateUid_stable:
  assumes "getOrAllocateUid oid uid d = (Inr n, d')"
  shows "getOrAllocateUid oid uid d' = (Inr n, d')"
proof -
  from assms obtain u where u: "find_user_id d uid = Some u"
    by (auto simp: getOrAllocateUid_def split: option.splits)
  show ?thesis
  proof (cases "usr_jitUid u")
    case (Some m)
    then show ?thesis using assms u by (auto simp: getOrAllocateUid_def)
  next
    case None
    then have "d' = set_jitUid uid n d"
      using assms u by (auto simp: getOrAllocateUid_def allocate_uid_tx_def Let_def split: if_splits)
    then show ?thesis using find_user_id_set_jitUid [OF u] by (simp add: getOrAllocateUid_def)
  qed
qed

lemma buildManifest_SomeD:
  assumes "buildManifest now now' rid d = (Some m, d')"
  obtains ar u exp p where "find_request d rid = Some ar" "find_user_id d (req_requester ar) = Some u"
    "req_status ar = APPROVED" "req_expiresAt ar = Some exp" "now < exp"
    "manifest_policy d (usr_org u) = Some p" "mf_ttlSeconds m = max 0 (math_floor_div (exp - now') 1000)"
    "mf_sudo m = json_truthy (json_get (pol_osProv p) ''sudo'')" "mf_leaseId m = rid"
    "getOrAllocateUid (usr_org u) (usr_id u) d = (Inr (mf_uid m), d')" "mf_linuxUser m = jitPrincipalFor u"
proof -
  obtain ar where ar: "find_request d rid = Some ar"
    using assms by (cases "find_request d rid") (simp_all add: buildManifest_def)
  obtain u where u: "find_user_id d (req_requester ar) = Some u"
    using assms ar by (cases "find_user_id d (req_requester ar)") (simp_all add: buildManifest_def)
  have st: "req_status ar = APPROVED"
    using assms ar u by (cases "req_status ar = APPROVED") (simp_all add: buildManifest_def)
  obtain ex where ex: "req_expiresAt ar = Some ex"
    using assms ar u st by (cases "req_expiresAt ar") (simp_all add: buildManifest_def)
  have lt: "now < ex"
    using assms ar u st ex by (cases "ex \<le> now") (simp_all add: buildManifest_def)
  obtain p where p: "manifest_policy d (usr_org u) = Some p"
    using assms ar u st ex lt by (cases "manifest_policy d (usr_org u)") (simp_all add: buildManifest_def)
  obtain r d1 where g: "getOrAllocateUid (usr_org u) (usr_id u) d = (r, d1)" by force
  obtain n where n: "r = Inr n"
    using assms ar u st ex lt p g by (cases r) (simp_all add: buildManifest_def Let_def)
  show thesis
    using assms ar u st ex lt p g n find_request_SomeD [OF ar]
    by (intro that [OF ar u st ex lt p]) (auto simp: buildManifest_def Let_def jitPrincipalFor_def)
qed

end
