(* ===== verification/Sample.thy ===== *)
theory Sample
  imports Jit
begin

text \<open>
  A small organization on which the properties are evaluated: a super admin, an admin, a
  member and a scoped member, a development and a production server of two customers, and a
  few policies. Rows are written with the helpers below so that each names what matters.
\<close>

definition mk_user :: "id \<Rightarrow> tier \<Rightarrow> access_scope \<Rightarrow> user" where
  "mk_user i t sc = \<lparr>usr_id = i, usr_org = ''o'', usr_email = i @ ''@x'', usr_name = i, usr_role = t,
     usr_roleId = None, usr_status = Active, usr_kind = Human, usr_scope = sc, usr_manager = None,
     usr_deletedAt = None, usr_jitUid = None, usr_totpEnabled = True, usr_totpSecret = Some ''k'',
     usr_totpPending = None, usr_emailOtp = False, usr_backupCodes = [], usr_mfaEnrolledAt = None,
     usr_mfaPreferred = None, usr_passwordHash = None, usr_failedLogins = 0, usr_lastFailedLogin = None,
     usr_lockedUntil = None, usr_lastLoginAt = None, usr_sessionsFrom = None, usr_ssoProvider = None, usr_ssoSub = None, usr_avatarUrl = None,
     usr_sshKey = None, usr_passwordChangedAt = None, usr_preferences = JObj [], usr_description = None\<rparr>"

definition mk_server :: "id \<Rightarrow> id \<Rightarrow> environment \<Rightarrow> server" where
  "mk_server i c e = \<lparr>srv_id = i, srv_org = ''o'', srv_customer = c, srv_hostname = i,
     srv_displayName = None, srv_ip = ''10.0.0.1'', srv_port = 22, srv_protocol = ProtoSsh, srv_env = e,
     srv_labels = JArr [], srv_agentId = Some ''ag'', srv_agentLastSeen = Some 1,
     srv_sshUser = ''deploy'', srv_rdpUsername = None, srv_authMode = AuthCertificate,
     srv_credential = None, srv_sudoCredential = None, srv_rdpPort = None, srv_rdpPassword = None, srv_isActive = True, srv_provision = ''SSH_KEY'',
     srv_description = None, srv_dynamicIp = False, srv_osType = None, srv_osVersion = None, srv_cloudProvider = None,
     srv_health = ''unknown'', srv_lastHealthCheck = None, srv_hostKey = None, srv_hostKeyAlg = None, srv_hostKeyPinnedAt = None,
     srv_provisionError = None, srv_agentTokenHash = None, srv_postureRejectedAt = None, srv_postureInstalledAt = None\<rparr>"

definition mk_policy :: "id \<Rightarrow> policy_effect \<Rightarrow> int \<Rightarrow> string list \<Rightarrow> subject list \<Rightarrow> policy" where
  "mk_policy i e pr envs ss = \<lparr>pol_id = i, pol_org = ''o'', pol_customer = None, pol_name = i,
     pol_description = None, pol_effect = e, pol_envs = envs, pol_labels = JObj [], pol_servers = [],
     pol_principals = [], pol_maxDuration = 3600, pol_requireApproval = False,
     pol_autoApprove = True, pol_active = True, pol_priority = pr, pol_osProv = JObj [],
     pol_keyDownload = False, pol_breakGlass = False, pol_approverGroup = None,
     pol_approverRoles = [], pol_approverUsers = [], pol_subjects = ss, pol_createdAt = 0,
     pol_updatedAt = 0\<rparr>"

definition mk_customer :: "id \<Rightarrow> customer" where
  "mk_customer i = \<lparr>cus_id = i, cus_org = ''o'', cus_name = i, cus_slug = i, cus_description = None, cus_isActive = True\<rparr>"

definition mk_role :: "id \<Rightarrow> string \<Rightarrow> tier \<Rightarrow> string list \<Rightarrow> role" where
  "mk_role i k t ps = \<lparr>rol_id = i, rol_org = ''o'', rol_key = k, rol_name = k, rol_description = None,
     rol_base = t, rol_permissions = ps, rol_isSystem = False, rol_catalogVersion = 9\<rparr>"

definition u_root :: user where "u_root = mk_user ''root'' SuperAdmin SCOPE_ALL"
definition u_adm :: user where "u_adm = mk_user ''adm'' Admin SCOPE_ALL"
definition u_mem :: user where "u_mem = mk_user ''mem'' Member SCOPE_ALL"
definition u_scp :: user where "u_scp = mk_user ''scp'' Member SCOPE_CUSTOMERS"

definition s_dev :: server where "s_dev = mk_server ''sdev'' ''c1'' EnvDev"
definition s_prod :: server where "s_prod = mk_server ''sprd'' ''c2'' EnvProd"

definition p_dev :: policy where "p_dev = mk_policy ''pdev'' ALLOW 10 [''dev''] [\<lparr>sub_type = ROLE, sub_id = ''member''\<rparr>]"
definition p_adm :: policy where "p_adm = mk_policy ''padm'' ALLOW 20 [] [\<lparr>sub_type = ROLE, sub_id = ''admin''\<rparr>]"
definition p_deny :: policy where "p_deny = mk_policy ''pden'' DENY 5 [''dev''] [\<lparr>sub_type = USER, sub_id = ''root''\<rparr>]"
definition p_brk :: policy where
  "p_brk = (mk_policy ''pbrk'' ALLOW 30 [''prod''] [\<lparr>sub_type = USER, sub_id = ''mem''\<rparr>])\<lparr>pol_breakGlass := True\<rparr>"

definition o_settings :: json where
  "o_settings = JObj [(''access'', JObj [(''prodBypassEnabled'', JBool True)])]"

definition sample_db :: db where
  "sample_db = empty_db\<lparr>
     orgs := [\<lparr>org_id = ''o'', org_settings = Some o_settings\<rparr>],
     users := [u_root, u_adm, u_mem, u_scp],
     userScopes := [\<lparr>scr_owner = ''scp'', scr_customer = ''c1''\<rparr>],
     customers := [mk_customer ''c1'', mk_customer ''c2''],
     servers := [s_dev, s_prod],
     policies := [p_dev, p_adm, p_deny, p_brk]\<rparr>"

end
