(* ===== verification/PolicyClaims.thy ===== *)
theory PolicyClaims
  imports Sample
begin

text \<open>
  The properties of the policy engine, of customer scope and of just-in-time accounts, each
  with an evaluation on the sample organization where it has hypotheses.
\<close>

section \<open>Single evaluation\<close>

text \<open>C2: The organization-wide evaluation is deny-before-allow and deny by default: access is
  allowed exactly when no applicable policy denies and either the requester may bypass
  policies or some applicable policy allows; in the latter case the policy reported is an
  applicable ALLOW of least priority and the duration and principals are its own.\<close>

theorem evaluate_verdict:
  assumes "evaluate d oid uid sid prin [] None = Inr ev" and "find_server d sid oid = Some s"
  shows "(ev_allowed ev \<longleftrightarrow>
      (\<forall>p. applies d oid uid s sid prin p \<longrightarrow> pol_effect p \<noteq> DENY) \<and>
      (role_bypass d oid uid s \<or> (\<exists>p. applies d oid uid s sid prin p \<and> pol_effect p = ALLOW)))
    \<and> (ev_allowed ev \<and> \<not> role_bypass d oid uid s \<longrightarrow>
      (\<exists>p. applies d oid uid s sid prin p \<and> pol_effect p = ALLOW \<and> ev_policyId ev = Some (pol_id p)
        \<and> ev_maxTtl ev = pol_maxDuration p \<and> ev_principals ev = pol_principals p
        \<and> (\<forall>q. applies d oid uid s sid prin q \<longrightarrow> pol_effect q = ALLOW \<longrightarrow> pol_priority p \<le> pol_priority q)))"
proof (intro conjI impI)
  assume a: "ev_allowed ev \<and> \<not> role_bypass d oid uid s"
  with evaluate_org_mode [OF assms] have "evaluate_org (srv_env s = EnvProd)
      (canBypassProdApproval d oid (si_permissions (loadSubject d uid oid)))
      (matching_policies d oid uid s sid prin) = Inr ev" by simp
  from evaluate_org_direct [OF this] a obtain p
    where p: "best_allow (matching_policies d oid uid s sid prin) = Some p" "ev_policyId ev = Some (pol_id p)"
      "ev_maxTtl ev = pol_maxDuration p" "ev_principals ev = pol_principals p" by blast
  show "\<exists>p. applies d oid uid s sid prin p \<and> pol_effect p = ALLOW \<and> ev_policyId ev = Some (pol_id p)
        \<and> ev_maxTtl ev = pol_maxDuration p \<and> ev_principals ev = pol_principals p
        \<and> (\<forall>q. applies d oid uid s sid prin q \<longrightarrow> pol_effect q = ALLOW \<longrightarrow> pol_priority p \<le> pol_priority q)"
    using best_allow_SomeD [OF p(1)] p by auto
qed (rule evaluate_allowed_iff [OF assms])

lemma evaluate_verdict_witness:
  "\<exists>ev. evaluate sample_db ''o'' ''mem'' ''sdev'' None [] None = Inr ev \<and> ev_allowed ev
     \<and> ev_policyId ev = Some ''pdev''
     \<and> (\<forall>p. applies sample_db ''o'' ''mem'' s_dev ''sdev'' None p \<longrightarrow> pol_effect p \<noteq> DENY)"
proof -
  have s: "find_server sample_db ''sdev'' ''o'' = Some s_dev" by code_simp
  have "case evaluate sample_db ''o'' ''mem'' ''sdev'' None [] None of
      Inr ev \<Rightarrow> ev_allowed ev \<and> ev_policyId ev = Some ''pdev'' | Inl e \<Rightarrow> False" by code_simp
  then obtain ev where ev: "evaluate sample_db ''o'' ''mem'' ''sdev'' None [] None = Inr ev"
    "ev_allowed ev" "ev_policyId ev = Some ''pdev''" by (auto split: sum.splits)
  from evaluate_verdict [OF ev(1) s] ev show ?thesis by blast
qed

text \<open>Evaluation is total: with the three ids given and the server in the organization it
  returns a result, and its only errors are the missing-argument and not-found errors; the
  best policy is never read from an empty list.\<close>

theorem evaluate_total:
  "(\<exists>ev. evaluate d oid uid sid prin [] None = Inr ev) \<longleftrightarrow>
     oid \<noteq> [] \<and> uid \<noteq> [] \<and> sid \<noteq> [] \<and> find_server d sid oid \<noteq> None"
proof
  assume "\<exists>ev. evaluate d oid uid sid prin [] None = Inr ev"
  then show "oid \<noteq> [] \<and> uid \<noteq> [] \<and> sid \<noteq> [] \<and> find_server d sid oid \<noteq> None"
    by (cases "find_server d sid oid") (auto simp: evaluate_def split: if_splits)
next
  assume "oid \<noteq> [] \<and> uid \<noteq> [] \<and> sid \<noteq> [] \<and> find_server d sid oid \<noteq> None"
  then show "\<exists>ev. evaluate d oid uid sid prin [] None = Inr ev" using evaluate_ok by blast
qed

section \<open>Batched evaluation and break-glass\<close>

text \<open>C9: The batched evaluation agrees with the single one: it has an entry for exactly the
  requested servers of the organization, and each entry has the verdict, the approval flag and
  the policy the single evaluation without a principal gives.\<close>

theorem evaluateBulk_agrees:
  assumes "evaluateBulk d oid uid ids = Inr out" and "distinct (map srv_id (servers d))"
  shows "fst ` set out = {srv_id s | s. s \<in> set (servers d) \<and> srv_org s = oid \<and> srv_id s \<in> set ids \<and> srv_id s \<noteq> []}
    \<and> (\<forall>e \<in> set out. \<exists>ev. evaluate d oid uid (fst e) None [] None = Inr ev \<and> agrees (snd e) ev)"
proof
  note out = evaluateBulk_InrD [OF assms(1)]
  show "fst ` set out = {srv_id s | s. s \<in> set (servers d) \<and> srv_org s = oid \<and> srv_id s \<in> set ids \<and> srv_id s \<noteq> []}"
    unfolding out(3) by (force simp: image_image)
  show "\<forall>e \<in> set out. \<exists>ev. evaluate d oid uid (fst e) None [] None = Inr ev \<and> agrees (snd e) ev"
  proof
    fix e assume "e \<in> set out"
    then obtain s where s: "s \<in> set (servers d)" "srv_org s = oid" "srv_id s \<noteq> []" "fst e = srv_id s"
      and e: "snd e = bulk_entry_for
        (''access.bypass_policies'' \<in> set (si_permissions (loadSubject d uid oid)))
        (canBypassProdApproval d oid (si_permissions (loadSubject d uid oid))) s
        (matching_policies d oid uid s (srv_id s) None)"
      unfolding out(3) by auto
    have f: "find_server d (srv_id s) oid = Some s" by (rule find_server_distinct [OF assms(2) s(1,2)])
    then obtain ev where "evaluate d oid uid (srv_id s) None [] None = Inr ev"
      using evaluate_ok [of oid uid "srv_id s" d] out(1,2) s(3) by auto
    with bulk_entry_agrees [OF this f] show "\<exists>ev. evaluate d oid uid (fst e) None [] None = Inr ev \<and> agrees (snd e) ev"
      unfolding s(4) e by blast
  qed
qed

lemma evaluateBulk_agrees_witness:
  "\<exists>out. evaluateBulk sample_db ''o'' ''root'' [''sdev'', ''sprd'', ''nope''] = Inr out \<and>
     fst ` set out = {''sdev'', ''sprd''}"
proof -
  have "case evaluateBulk sample_db ''o'' ''root'' [''sdev'', ''sprd'', ''nope''] of
      Inr out \<Rightarrow> fst ` set out = {''sdev'', ''sprd''} | Inl e \<Rightarrow> False" by code_simp
  then obtain out where out: "evaluateBulk sample_db ''o'' ''root'' [''sdev'', ''sprd'', ''nope''] = Inr out"
    "fst ` set out = {''sdev'', ''sprd''}" by (auto split: sum.splits)
  have "distinct (map srv_id (servers sample_db))" by code_simp
  from evaluateBulk_agrees [OF out(1) this] out show ?thesis by blast
qed

text \<open>The break-glass lookup returns a policy only when it applies to the user and the
  server, allows, carries the break-glass flag, has the least priority among those, and no
  applicable policy denies - whatever permissions the user's role holds.\<close>

theorem findBreakGlassPolicy_sound:
  "findBreakGlassPolicy d oid uid sid = Some p \<longleftrightarrow>
     (\<exists>s. find_server d sid oid = Some s \<and> (\<forall>q. applies d oid uid s sid None q \<longrightarrow> pol_effect q \<noteq> DENY) \<and>
       first_opt (sort_key pol_priority (filter (\<lambda>q. pol_effect q = ALLOW \<and> pol_breakGlass q)
         (matching_policies d oid uid s sid None))) = Some p \<and>
       applies d oid uid s sid None p \<and> pol_effect p = ALLOW \<and> pol_breakGlass p \<and>
       (\<forall>q. applies d oid uid s sid None q \<longrightarrow> pol_breakGlass q \<longrightarrow> pol_priority p \<le> pol_priority q))"
  (is "?L \<longleftrightarrow> ?R")
proof
  assume ?L
  then obtain s where s: "find_server d sid oid = Some s"
    and nd: "\<forall>q. applies d oid uid s sid None q \<longrightarrow> pol_effect q \<noteq> DENY"
    and f: "first_opt (sort_key pol_priority (filter (\<lambda>q. pol_effect q = ALLOW \<and> pol_breakGlass q)
         (matching_policies d oid uid s sid None))) = Some p"
    by (auto simp: findBreakGlassPolicy_def Let_def is_deny_def is_allow_def split: option.splits if_splits)
  with first_opt_sort_min [OF f] show ?R by (auto simp: not_deny [symmetric])
next
  assume ?R
  then show ?L by (auto simp: findBreakGlassPolicy_def Let_def is_deny_def is_allow_def)
qed

lemma findBreakGlassPolicy_sound_witness:
  "\<exists>p. findBreakGlassPolicy sample_db ''o'' ''mem'' ''sprd'' = Some p \<and> pol_breakGlass p \<and> pol_id p = ''pbrk''
     \<and> (\<forall>q. applies sample_db ''o'' ''mem'' s_prod ''sprd'' None q \<longrightarrow> pol_effect q \<noteq> DENY)"
proof -
  have s: "find_server sample_db ''sprd'' ''o'' = Some s_prod" by code_simp
  have "case findBreakGlassPolicy sample_db ''o'' ''mem'' ''sprd'' of Some p \<Rightarrow> pol_id p = ''pbrk'' | None \<Rightarrow> False"
    by code_simp
  then obtain p where p: "findBreakGlassPolicy sample_db ''o'' ''mem'' ''sprd'' = Some p" "pol_id p = ''pbrk''"
    by (auto split: option.splits)
  from findBreakGlassPolicy_sound [THEN iffD1, OF p(1)] p s show ?thesis by auto
qed

lemma evaluate_all_set: "evaluate_all f ss = Inr rs \<Longrightarrow> set rs = {(s, ev). s \<in> set ss \<and> f s = Inr ev}"
  by (induction ss arbitrary: rs) (auto split: sum.splits)

text \<open>The list of accessible servers is inside the caller's customer scope: every entry is
  an active server of the organization that the scope sees and that the evaluation allows,
  and every such server is listed.\<close>

theorem getAccessibleServers_scoped:
  assumes "getAccessibleServers d oid uid sc = Inr out"
  shows "set out = {(s, ev). s \<in> set (servers d) \<and> srv_org s = oid \<and> srv_isActive s \<and> serverScopeWhere sc s
    \<and> evaluate d oid uid (srv_id s) None [] None = Inr ev \<and> ev_allowed ev}"
proof -
  let ?f = "\<lambda>s. evaluate d oid uid (srv_id s) None [] None"
  let ?ss = "filter (\<lambda>s. srv_org s = oid \<and> srv_isActive s \<and> serverScopeWhere sc s) (servers d)"
  have g: "oid \<noteq> []" "uid \<noteq> []" using assms by (cases "oid = []"; cases "uid = []"; simp add: getAccessibleServers_def)+
  have "(case evaluate_all ?f ?ss of Inl e \<Rightarrow> Inl e
      | Inr rs \<Rightarrow> Inr (filter (\<lambda>(s, ev). ev_allowed ev \<or> ev_requiresApproval ev) rs)) = Inr out"
    using assms unfolding getAccessibleServers_def Let_def if_not_P [OF g(1)] if_not_P [OF g(2)] .
  then obtain rs where rs: "evaluate_all ?f ?ss = Inr rs"
    and out: "out = filter (\<lambda>(s, ev). ev_allowed ev \<or> ev_requiresApproval ev) rs"
    by (cases "evaluate_all ?f ?ss") (simp_all only: sum.case sum.inject Inl_Inr_False)
  have shown: "evaluate d oid uid i None [] None = Inr ev \<Longrightarrow> (ev_allowed ev \<or> ev_requiresApproval ev) = ev_allowed ev"
    for i ev using evaluate_refused_plain by blast
  have "x \<in> set out \<longleftrightarrow> x \<in> {(s, ev). s \<in> set (servers d) \<and> srv_org s = oid \<and> srv_isActive s \<and> serverScopeWhere sc s
    \<and> evaluate d oid uid (srv_id s) None [] None = Inr ev \<and> ev_allowed ev}" for x
  proof (cases x)
    case (Pair t ev)
    show ?thesis unfolding out Pair using evaluate_all_set [OF rs] shown [of "srv_id t" ev]
      by (simp only: set_filter mem_Collect_eq split_conv) blast
  qed
  then show ?thesis by (rule set_eqI)
qed

lemma getAccessibleServers_scoped_witness:
  "\<exists>out. getAccessibleServers sample_db ''o'' ''scp'' (resolveScope sample_db (Some u_scp)) = Inr out
     \<and> (\<forall>e \<in> set out. srv_customer (fst e) = ''c1'')"
proof -
  have sc: "resolveScope sample_db (Some u_scp) = ScopeCustomers [''c1'']" by code_simp
  have "case getAccessibleServers sample_db ''o'' ''scp'' (ScopeCustomers [''c1'']) of
      Inr out \<Rightarrow> out \<noteq> [] | Inl e \<Rightarrow> False" by code_simp
  then obtain out where out: "getAccessibleServers sample_db ''o'' ''scp'' (ScopeCustomers [''c1'']) = Inr out"
    by (auto split: sum.splits)
  from getAccessibleServers_scoped [OF out] out sc show ?thesis by auto
qed

end
