(* ===== verification/RoleClaims.thy ===== *)
theory RoleClaims
  imports Sample
begin

text \<open>
  The properties of roles, of the permission catalogue, of policy administration and of
  just-in-time accounts.
\<close>

section \<open>System roles in step with the catalogue\<close>

lemma link_tiers_keeps:
  "map usr_id (link_tiers oid rs ts us) = map usr_id us"
  by (induction ts arbitrary: us) (simp_all add: map_update_where)

lemma link_tiers_links:
  assumes "\<forall>t \<in> set ts. \<exists>r \<in> set rs. rol_key r = tier_name t"
    and "u' \<in> set (link_tiers oid rs ts us)" and "usr_org u' = oid"
    and "\<forall>u \<in> set us. usr_org u = oid \<longrightarrow> usr_roleId u = None \<longrightarrow> usr_role u \<in> set ts"
  shows "usr_roleId u' \<noteq> None"
  using assms
proof (induction ts arbitrary: us)
  case Nil
  then show ?case by auto
next
  case (Cons t ts)
  let ?us = "update_where (\<lambda>u. usr_org u = oid \<and> usr_roleId u = None \<and> usr_role u = t)
       (\<lambda>u. u\<lparr>usr_roleId := map_option rol_id (find (\<lambda>r. rol_key r = tier_name t) rs)\<rparr>) us"
  obtain r where r: "find (\<lambda>r. rol_key r = tier_name t) rs = Some r"
    using Cons.prems(1) by (cases "find (\<lambda>r. rol_key r = tier_name t) rs") (auto simp: find_None_iff_all)
  show ?case
  proof (rule Cons.IH)
    show "\<forall>t \<in> set ts. \<exists>r \<in> set rs. rol_key r = tier_name t" using Cons.prems(1) by simp
    show "u' \<in> set (link_tiers oid rs ts ?us)" using Cons.prems(2) by simp
    show "usr_org u' = oid" by (rule Cons.prems(3))
    show "\<forall>u \<in> set ?us. usr_org u = oid \<longrightarrow> usr_roleId u = None \<longrightarrow> usr_role u \<in> set ts"
      using Cons.prems(4) r by (auto elim!: in_update_whereE split: if_splits)
  qed
qed

lemma mirror_tiers_keeps:
  "u' \<in> set (mirror_tiers oid rs us) \<Longrightarrow>
     \<exists>u \<in> set us. usr_id u' = usr_id u \<and> usr_org u' = usr_org u \<and> usr_roleId u' = usr_roleId u"
proof (induction rs arbitrary: us)
  case Nil
  then show ?case by auto
next
  case (Cons r rs)
  let ?P = "\<lambda>u. usr_org u = oid \<and> usr_roleId u = Some (rol_id r) \<and> usr_role u \<noteq> rol_base r"
  let ?us = "update_where ?P (\<lambda>u. u\<lparr>usr_role := rol_base r\<rparr>) us"
  have "u' \<in> set (mirror_tiers oid rs ?us)" using Cons.prems by simp
  from Cons.IH [OF this] obtain u where u: "u \<in> set ?us"
    "usr_id u' = usr_id u" "usr_org u' = usr_org u" "usr_roleId u' = usr_roleId u" by blast
  from u(1) obtain v where v: "v \<in> set us" "u = (if ?P v then v\<lparr>usr_role := rol_base r\<rparr> else v)"
    by (rule in_update_whereE)
  then have "usr_id u = usr_id v" "usr_org u = usr_org v" "usr_roleId u = usr_roleId v" by simp_all
  with u v(1) show ?case by metis
qed

text \<open>A user of one of the roles ends with that role's tier, whatever order the roles come in.\<close>

lemma mirror_tiers_done:
  "\<forall>u \<in> set us. usr_org u = oid \<longrightarrow> usr_roleId u = Some (rol_id r) \<longrightarrow> usr_role u = rol_base r \<Longrightarrow>
   \<forall>q \<in> set rs. rol_id q = rol_id r \<longrightarrow> rol_base q = rol_base r \<Longrightarrow>
   u' \<in> set (mirror_tiers oid rs us) \<Longrightarrow> usr_org u' = oid \<Longrightarrow> usr_roleId u' = Some (rol_id r) \<Longrightarrow>
   usr_role u' = rol_base r"
proof (induction rs arbitrary: us)
  case Nil
  then show ?case by simp
next
  case (Cons q rs)
  let ?us = "update_where (\<lambda>u. usr_org u = oid \<and> usr_roleId u = Some (rol_id q) \<and> usr_role u \<noteq> rol_base q)
       (\<lambda>u. u\<lparr>usr_role := rol_base q\<rparr>) us"
  have "\<forall>u \<in> set ?us. usr_org u = oid \<longrightarrow> usr_roleId u = Some (rol_id r) \<longrightarrow> usr_role u = rol_base r"
    using Cons.prems(1,2) by (auto elim!: in_update_whereE split: if_splits)
  from Cons.IH [OF this] Cons.prems(2-) show ?case by simp
qed

lemma mirror_tiers_mirrors:
  assumes "distinct (map rol_id rs)" and "r \<in> set rs" and "u' \<in> set (mirror_tiers oid rs us)"
    and "usr_org u' = oid" and "usr_roleId u' = Some (rol_id r)"
  shows "usr_role u' = rol_base r"
  using assms(1-3)
proof (induction rs arbitrary: us)
  case Nil
  then show ?case by simp
next
  case (Cons q rs)
  let ?us = "update_where (\<lambda>u. usr_org u = oid \<and> usr_roleId u = Some (rol_id q) \<and> usr_role u \<noteq> rol_base q)
       (\<lambda>u. u\<lparr>usr_role := rol_base q\<rparr>) us"
  show ?case
  proof (cases "r = q")
    case True
    have "\<forall>u \<in> set ?us. usr_org u = oid \<longrightarrow> usr_roleId u = Some (rol_id r) \<longrightarrow> usr_role u = rol_base r"
      using True by (auto elim!: in_update_whereE split: if_splits)
    moreover have "\<forall>p \<in> set rs. rol_id p = rol_id r \<longrightarrow> rol_base p = rol_base r"
      using True Cons.prems(1) by (auto simp: image_iff)
    ultimately show ?thesis
      using mirror_tiers_done [of ?us oid r rs u'] Cons.prems(3) assms(4,5) by simp
  next
    case False
    then show ?thesis using Cons.IH [of ?us] Cons.prems by simp
  qed
qed

lemma upgrade_role_keeps [simp]:
  "rol_id (upgrade_role r) = rol_id r" "rol_org (upgrade_role r) = rol_org r"
  "rol_key (upgrade_role r) = rol_key r" "rol_base (upgrade_role r) = rol_base r"
  by (simp_all add: upgrade_role_def Let_def)

interpretation role_upgrade: keyed_update rol_id upgrade_role
  by unfold_locales simp

lemma upgrade_role_current:
  "CATALOG_VERSION \<le> rol_catalogVersion (upgrade_role r)"
  by (simp add: upgrade_role_def Let_def)

definition missing_system :: "db \<Rightarrow> id \<Rightarrow> (tier \<times> string \<times> string) list" where
  "missing_system d oid = filter (\<lambda>sys. \<not> (\<exists>r \<in> set (filter (\<lambda>r. rol_org r = oid) (roles d)).
     rol_key r = tier_name (fst sys))) SYSTEM_ROLES"

definition synced_roles :: "(string \<Rightarrow> id) \<Rightarrow> id \<Rightarrow> json option \<Rightarrow> db \<Rightarrow> role list" where
  "synced_roles fresh oid st d =
     filter (\<lambda>r. rol_org r = oid) (roles d) @ map (new_system_role oid st fresh) (missing_system d oid)"

lemma syncSystemRoles_eq:
  "find_org d oid = Some g \<Longrightarrow>
     roles (syncSystemRoles fresh oid d) = update_where (\<lambda>r. rol_org r = oid) upgrade_role (roles d) @
        map (new_system_role oid (org_settings g) fresh) (missing_system d oid)
     \<and> users (syncSystemRoles fresh oid d) = mirror_tiers oid (synced_roles fresh oid (org_settings g) d)
        (link_tiers oid (synced_roles fresh oid (org_settings g) d) [Member, Manager, Admin, SuperAdmin] (users d))"
  unfolding syncSystemRoles_def Let_def missing_system_def synced_roles_def
  by (simp del: link_tiers.simps mirror_tiers.simps set_filter bex_simps ball_simps)

lemma new_system_role_simps [simp]:
  "rol_org (new_system_role oid st fresh sys) = oid"
  "rol_key (new_system_role oid st fresh sys) = tier_name (fst sys)"
  "rol_id (new_system_role oid st fresh sys) = fresh (tier_name (fst sys))"
  "rol_base (new_system_role oid st fresh sys) = fst sys"
  "rol_catalogVersion (new_system_role oid st fresh sys) = CATALOG_VERSION"
  by (cases sys; simp add: new_system_role_def)+

lemma SYSTEM_ROLES_tiers: "fst ` set SYSTEM_ROLES = UNIV"
proof -
  have "t \<in> fst ` set SYSTEM_ROLES" for t by (cases t) (simp_all add: SYSTEM_ROLES_def)
  then show ?thesis by auto
qed

lemma synced_roles_cover: "\<exists>r \<in> set (synced_roles fresh oid st d). rol_key r = tier_name t"
proof (cases "\<exists>r \<in> set (filter (\<lambda>r. rol_org r = oid) (roles d)). rol_key r = tier_name t")
  case True
  then show ?thesis by (auto simp: synced_roles_def)
next
  case False
  from SYSTEM_ROLES_tiers obtain sys where "sys \<in> set SYSTEM_ROLES" "fst sys = t" by (metis imageE UNIV_I)
  with False have "sys \<in> set (missing_system d oid)" by (auto simp: missing_system_def)
  with \<open>fst sys = t\<close> show ?thesis unfolding synced_roles_def by force
qed

lemma synced_roles_distinct:
  assumes "distinct (map rol_id (roles d))" and "inj_on fresh (tier_name ` UNIV)"
    and "\<forall>k. fresh k \<notin> rol_id ` set (roles d)"
  shows "distinct (map rol_id (synced_roles fresh oid st d))"
proof -
  have "distinct (map rol_id (filter (\<lambda>r. rol_org r = oid) (roles d)))"
    using assms(1) by (simp add: distinct_map_filter)
  moreover have "distinct (map (\<lambda>sys. tier_name (fst sys)) SYSTEM_ROLES)" by (simp add: SYSTEM_ROLES_def)
  then have "distinct (map (\<lambda>sys. tier_name (fst sys)) (missing_system d oid))"
    unfolding missing_system_def by (rule distinct_map_filter)
  then have "distinct (map (\<lambda>sys. fresh (tier_name (fst sys))) (missing_system d oid))"
    using assms(2) by (auto simp: distinct_map inj_on_def)
  then have "distinct (map rol_id (map (new_system_role oid st fresh) (missing_system d oid)))"
    by (simp add: comp_def)
  moreover have "rol_id r \<noteq> fresh k" if "r \<in> set (roles d)" for r k
    using assms(3) that by (metis imageI)
  ultimately show ?thesis by (auto simp: synced_roles_def)
qed

lemma synced_roles_rows:
  assumes "find_org d oid = Some g" and "r \<in> set (roles (syncSystemRoles fresh oid d))" and "rol_org r = oid"
  shows "CATALOG_VERSION \<le> rol_catalogVersion r \<and>
    (\<exists>q \<in> set (synced_roles fresh oid (org_settings g) d). rol_id q = rol_id r \<and> rol_base q = rol_base r
       \<and> rol_key q = rol_key r)"
proof -
  from assms(2) syncSystemRoles_eq [OF assms(1)]
  consider "r \<in> set (update_where (\<lambda>r. rol_org r = oid) upgrade_role (roles d))"
    | "r \<in> set (map (new_system_role oid (org_settings g) fresh) (missing_system d oid))" by auto
  then show ?thesis
  proof cases
    case 1
    then obtain q where q: "q \<in> set (roles d)" "r = (if rol_org q = oid then upgrade_role q else q)"
      by (rule in_update_whereE)
    with assms(3) have "rol_org q = oid" "r = upgrade_role q" by (auto split: if_splits)
    with q(1) show ?thesis using upgrade_role_current by (auto simp: synced_roles_def)
  next
    case 2
    then have "r \<in> set (synced_roles fresh oid (org_settings g) d)" by (simp add: synced_roles_def)
    moreover from 2 have "rol_catalogVersion r = CATALOG_VERSION" by auto
    ultimately show ?thesis by auto
  qed
qed

text \<open>C31: Syncing an organization with the catalogue is complete: afterwards every built-in role
  exists and is at the catalogue's version, every user of the organization has a role, and
  the tier stored on a user is the base tier of the role the user holds.\<close>

theorem syncSystemRoles_complete:
  assumes "find_org d oid = Some g" and "distinct (map rol_id (roles d))"
    and "inj_on fresh (tier_name ` UNIV)" and "\<forall>k. fresh k \<notin> rol_id ` set (roles d)"
    and "d' = syncSystemRoles fresh oid d"
  shows "(\<forall>t. \<exists>r \<in> set (roles d'). rol_org r = oid \<and> rol_key r = tier_name t)
    \<and> (\<forall>r \<in> set (roles d'). rol_org r = oid \<longrightarrow> CATALOG_VERSION \<le> rol_catalogVersion r)
    \<and> (\<forall>u \<in> set (users d'). usr_org u = oid \<longrightarrow> usr_roleId u \<noteq> None)
    \<and> (\<forall>u \<in> set (users d'). \<forall>r \<in> set (roles d'). usr_org u = oid \<longrightarrow> rol_org r = oid \<longrightarrow>
         usr_roleId u = Some (rol_id r) \<longrightarrow> usr_role u = rol_base r)"
proof (intro conjI allI ballI impI)
  let ?rs = "synced_roles fresh oid (org_settings g) d"
  note eqs = syncSystemRoles_eq [OF assms(1), of fresh]
  note rows = synced_roles_rows [OF assms(1)]
  fix t
  from synced_roles_cover obtain r where r: "r \<in> set ?rs" "rol_key r = tier_name t" by blast
  then have "r \<in> set (filter (\<lambda>r. rol_org r = oid) (roles d)) \<or>
      r \<in> set (map (new_system_role oid (org_settings g) fresh) (missing_system d oid))"
    by (auto simp: synced_roles_def)
  then show "\<exists>r \<in> set (roles d'). rol_org r = oid \<and> rol_key r = tier_name t"
  proof
    assume "r \<in> set (filter (\<lambda>r. rol_org r = oid) (roles d))"
    then have "r \<in> set (roles d)" "rol_org r = oid" by simp_all
    then have "upgrade_role r \<in> set (roles d')"
      unfolding assms(5) using eqs by (auto simp: set_update_where image_iff)
    then show ?thesis using r \<open>rol_org r = oid\<close> by (intro bexI [of _ "upgrade_role r"]) simp_all
  next
    assume m: "r \<in> set (map (new_system_role oid (org_settings g) fresh) (missing_system d oid))"
    then have "r \<in> set (roles d')" unfolding assms(5) using eqs by auto
    moreover have "rol_org r = oid" using m by auto
    ultimately show ?thesis using r(2) by blast
  qed
next
  fix r assume "r \<in> set (roles d')" "rol_org r = oid"
  then show "CATALOG_VERSION \<le> rol_catalogVersion r"
    using synced_roles_rows [OF assms(1)] unfolding assms(5) by blast
next
  fix u assume u: "u \<in> set (users d')" "usr_org u = oid"
  let ?rs = "synced_roles fresh oid (org_settings g) d" and ?ts = "[Member, Manager, Admin, SuperAdmin]"
  from u(1) have "u \<in> set (mirror_tiers oid ?rs (link_tiers oid ?rs ?ts (users d)))"
    unfolding assms(5) using syncSystemRoles_eq [OF assms(1), of fresh] by simp
  from mirror_tiers_keeps [OF this] obtain v where v: "v \<in> set (link_tiers oid ?rs ?ts (users d))"
    "usr_org v = usr_org u" "usr_roleId v = usr_roleId u" by metis
  have "usr_roleId v \<noteq> None"
  proof (rule link_tiers_links [OF _ v(1)])
    show "\<forall>t \<in> set ?ts. \<exists>r \<in> set ?rs. rol_key r = tier_name t" using synced_roles_cover by blast
    show "usr_org v = oid" using v u by simp
    show "\<forall>u \<in> set (users d). usr_org u = oid \<longrightarrow> usr_roleId u = None \<longrightarrow> usr_role u \<in> set ?ts"
      using tier.exhaust by (metis list.set_intros)
  qed
  with v(3) show "usr_roleId u \<noteq> None" by simp
next
  fix u r assume u: "u \<in> set (users d')" "r \<in> set (roles d')" "usr_org u = oid" "rol_org r = oid"
    "usr_roleId u = Some (rol_id r)"
  let ?rs = "synced_roles fresh oid (org_settings g) d" and ?ts = "[Member, Manager, Admin, SuperAdmin]"
  from u(1) have m: "u \<in> set (mirror_tiers oid ?rs (link_tiers oid ?rs ?ts (users d)))"
    unfolding assms(5) using syncSystemRoles_eq [OF assms(1), of fresh] by simp
  from synced_roles_rows [OF assms(1) u(2) [unfolded assms(5)] u(4)] obtain q
    where q: "q \<in> set ?rs" "rol_id q = rol_id r" "rol_base q = rol_base r" by blast
  from mirror_tiers_mirrors [OF synced_roles_distinct [OF assms(2-4)] q(1) m u(3)] u(5) q
  show "usr_role u = rol_base r" by simp
qed

lemma syncSystemRoles_complete_witness:
  "\<exists>r \<in> set (roles (syncSystemRoles (\<lambda>k. ''new-'' @ k) ''o'' sample_db)). rol_org r = ''o'' \<and> rol_key r = ''admin''"
proof -
  obtain g where g: "find_org sample_db ''o'' = Some g"
    by (simp add: find_org_def sample_db_def empty_db_def)
  have r: "roles sample_db = []" by (simp add: sample_db_def empty_db_def)
  have "inj_on (\<lambda>k. ''new-'' @ k) (tier_name ` UNIV)" by (simp add: inj_on_def)
  from syncSystemRoles_complete [OF g _ this _ refl] r
  have "\<forall>t. \<exists>r \<in> set (roles (syncSystemRoles (\<lambda>k. ''new-'' @ k) ''o'' sample_db)).
      rol_org r = ''o'' \<and> rol_key r = tier_name t" by simp
  from spec [OF this, of Admin] show ?thesis by simp
qed

section \<open>Roles\<close>

definition a_root :: actor where
  "a_root = \<lparr>act_user = ''root'', act_roleId = None, act_tier = SuperAdmin, act_permissions = PERMISSION_KEYS\<rparr>"

definition a_adm :: actor where
  "a_adm = \<lparr>act_user = ''adm'', act_roleId = None, act_tier = Admin, act_permissions = defaultPermissionsFor Admin\<rparr>"

definition rd_ops :: role_data where
  "rd_ops = \<lparr>rd_name = Some ''Ops team'', rd_description = None, rd_base = Some ''manager'',
     rd_permissions = Some [''servers.view'', ''quick_connect.use''], rd_copyFrom = None\<rparr>"

text \<open>C30: Nobody hands out through a role more than they hold: a role that was just created or
  edited has a base tier no higher than the actor's and only permissions the actor has, so
  the actor may still act on it.\<close>

theorem role_edits_never_escalate:
  assumes "createRole nfkd newId oid a data d = (Inr r, d') \<or> updateRole oid a rid data d = (Inr r, d')"
  shows "canActOnRole a (Some r) \<and> coversAll (act_permissions a) (permissionsOfRole (Some r))
    \<and> tier_rank (rol_base r) \<le> tier_rank (act_tier a)"
proof -
  have "canActOnRole a (Some r)"
    using assms
  proof
    assume c: "createRole nfkd newId oid a data d = (Inr r, d')"
    note cr = createRole_InrD [OF c]
    have own: "\<not> isOwnerRole (Some r)" using cr(4) by (simp add: isOwnerRole_Some)
    then have "permissionsOfRole (Some r) = rol_permissions r"
      using cr(9) by (simp add: permissionsOfRole_custom)
    then show ?thesis using cr(1,2) own by (simp add: canActOnRole_def)
  next
    assume "updateRole oid a rid data d = (Inr r, d')"
    then show ?thesis by (rule updateRole_stays_below)
  qed
  then show ?thesis by (auto simp: canActOnRole_def split: if_splits)
qed

lemma role_edits_never_escalate_witness:
  "\<exists>r d'. createRole id ''r1'' ''o'' a_adm rd_ops sample_db = (Inr r, d') \<and> rol_key r = ''ops_team''
     \<and> canActOnRole a_adm (Some r)"
proof -
  have "case fst (createRole id ''r1'' ''o'' a_adm rd_ops sample_db) of
      Inr r \<Rightarrow> rol_key r = ''ops_team'' | Inl e \<Rightarrow> False" by code_simp
  then obtain r where r: "fst (createRole id ''r1'' ''o'' a_adm rd_ops sample_db) = Inr r" "rol_key r = ''ops_team''"
    by (auto split: sum.splits)
  obtain d' where c: "createRole id ''r1'' ''o'' a_adm rd_ops sample_db = (Inr r, d')" using r(1) by (metis prod.collapse)
  from role_edits_never_escalate [OF disjI1 [OF c]] c r(2) show ?thesis by blast
qed

text \<open>Deleting a role leaves nothing behind: no user of the organization and no row of the
  role table refers to it, no policy of the organization has a subject with its key, and users
  were moved only to a role the actor may act on.\<close>

theorem deleteRole_leaves_nothing:
  assumes "deleteRole oid a rid re d = (Inr n, d')" and "find_role_in_org d rid oid = Some r"
  shows "(\<forall>u \<in> set (users d'). usr_org u = oid \<longrightarrow> usr_roleId u \<noteq> Some rid)
    \<and> (\<forall>q \<in> set (roles d'). rol_id q \<noteq> rid)
    \<and> (\<forall>p \<in> set (policies d'). pol_org p = oid \<longrightarrow>
         (\<forall>s \<in> set (pol_subjects p). \<not> (sub_type s = ROLE \<and> sub_id s = rol_key r)))
    \<and> (0 < n \<longrightarrow> (\<exists>t. find_role_in_org d (the re) oid = Some t \<and> canActOnRole a (Some t)))"
proof -
  from assms(1) obtain r' t where fr: "find_role_in_org d rid oid = Some r'"
    and t: "role_target d oid a rid n re = Inr t"
    and d': "d' = add_audit (role_audit oid a ''role.deleted'' rid) (delete_role_rows oid r' t d)"
    by (elim deleteRole_InrD)
  have r': "r' = r" using fr assms(2) by simp
  have "\<forall>p \<in> set (policies d'). pol_org p = oid \<longrightarrow>
      (\<forall>s \<in> set (pol_subjects p). \<not> (sub_type s = ROLE \<and> sub_id s = rol_key r))"
  proof (intro ballI impI)
    fix p s assume p: "p \<in> set (policies d')" "pol_org p = oid" "s \<in> set (pol_subjects p)"
    have "policies d' = drop_role_subjects oid (rol_key r) (policies d)"
      unfolding d' r' by (cases t) (simp_all add: add_audit_def delete_role_rows_def Let_def)
    with p(1) obtain q where q: "q \<in> set (policies d)" "p = (if pol_org q = oid then
        q\<lparr>pol_subjects := filter (\<lambda>s. \<not> (sub_type s = ROLE \<and> sub_id s = rol_key r)) (pol_subjects q)\<rparr> else q)"
      by (auto simp: drop_role_subjects_def elim!: in_update_whereE)
    then show "\<not> (sub_type s = ROLE \<and> sub_id s = rol_key r)" using p(2,3) by (auto split: if_splits)
  qed
  moreover have "0 < n \<longrightarrow> (\<exists>t. find_role_in_org d (the re) oid = Some t \<and> canActOnRole a (Some t))"
    using t by (auto simp: role_target_def assertCanActOnRole_ok split: if_splits option.splits sum.splits)
  ultimately show ?thesis using deleteRole_clean [OF assms(1)] by blast
qed

definition role_db :: db where
  "role_db = sample_db\<lparr>roles := [mk_role ''r1'' ''ops'' Manager [''servers.view''], mk_role ''r2'' ''dev'' Member []],
     users := [u_mem\<lparr>usr_roleId := Some ''r1''\<rparr>]\<rparr>"

lemma deleteRole_leaves_nothing_witness:
  "\<exists>d'. deleteRole ''o'' a_adm ''r1'' (Some ''r2'') role_db = (Inr 1, d') \<and>
     (\<forall>q \<in> set (roles d'). rol_id q \<noteq> ''r1'')"
proof -
  have "fst (deleteRole ''o'' a_adm ''r1'' (Some ''r2'') role_db) = Inr 1" by code_simp
  then obtain d' where d: "deleteRole ''o'' a_adm ''r1'' (Some ''r2'') role_db = (Inr 1, d')" by (metis prod.collapse)
  have "find_role_in_org role_db ''r1'' ''o'' = Some (mk_role ''r1'' ''ops'' Manager [''servers.view''])" by code_simp
  from deleteRole_leaves_nothing [OF d this] d show ?thesis by blast
qed

text \<open>
  The approver roles of a policy are not cleaned: the deleted role's key stays in
  \<open>approverRoles\<close>, and a role created later with the same name takes that key again.
\<close>

definition dangling_db :: db where
  "dangling_db = role_db\<lparr>policies := [p_dev\<lparr>pol_approverRoles := [''ops'']\<rparr>]\<rparr>"

lemma deleted_key_reused_by_approvers:
  "(let d1 = snd (deleteRole ''o'' a_adm ''r1'' (Some ''r2'') dangling_db);
        r = createRole id ''r9'' ''o'' a_adm (rd_ops\<lparr>rd_name := Some ''ops''\<rparr>) d1
    in map pol_approverRoles (policies d1) = [[''ops'']] \<and>
       (case fst r of Inr ro \<Rightarrow> rol_key ro = ''ops'' | Inl e \<Rightarrow> False))"
  by code_simp

text \<open>C32: The search for a free role key ends: for every name it returns a key that no role of
  the organization uses, after at most as many probes as there are roles plus two.\<close>

theorem uniqueKey_terminates: "\<exists>k. uniqueKey nfkd d oid nm = Some k \<and> \<not> key_taken d oid k"
  by (rule uniqueKey_total)

section \<open>Policies as rows\<close>

text \<open>A policy that was created refers only to rows of its own organization: its ROLE, USER
  and GROUP subjects and its approvers exist there, its customer is one the author may see,
  and its longest session is positive.\<close>

theorem createPolicy_refs:
  assumes "createPolicy newId now oid x sc d = (Inr p, d')"
    and "distinct (map usr_id (users d))" and "distinct (map grp_id (groups d))"
    and "[] \<notin> set (subject_ids ROLE (pol_subjects p) @ pol_approverRoles p)"
  shows "refs_exist d oid (pol_subjects p) (pol_approverRoles p) (pol_approverUsers p) (pol_approverGroup p)
    \<and> pol_org p = oid \<and> 0 < pol_maxDuration p \<and> pol_name p \<noteq> []
    \<and> (\<forall>c. pol_customer p = Some c \<longrightarrow> customer_in_scope d oid sc c) \<and> policies d' = policies d @ [p]"
proof -
  from assms(1) have a: "assertPolicyRefs d oid (dflt (pd_subjects x) []) (dflt (pd_approverRoles x) [])
      (dflt (pd_approverUsers x) []) (dflt (pd_approverGroup x) None) = Inr ()"
    and p: "p = new_policy newId now oid x" "policies d' = policies d @ [p]"
    and g: "truthy (pd_name x)" "0 < dflt (pd_maxDuration x) 0"
      "or_null (pd_customer x) = None \<or> customer_in_scope d oid sc (the (or_null (pd_customer x)))"
    by (auto simp: createPolicy_def Let_def split: if_splits sum.splits)
  have sids: "set (subject_ids t (pol_subjects p)) = set (subject_ids t (dflt (pd_subjects x) []))" for t
    by (simp add: p new_policy_def subject_ids_def)
  have rest: "pol_approverRoles p = dflt (pd_approverRoles x) []" "pol_approverUsers p = dflt (pd_approverUsers x) []"
    "pol_approverGroup p = or_null (pd_approverGroup x)" by (simp_all add: p new_policy_def)
  have ag: "truthy (or_null (pd_approverGroup x)) = truthy (dflt (pd_approverGroup x) None)"
    "truthy (or_null (pd_approverGroup x)) \<Longrightarrow> the (or_null (pd_approverGroup x)) = the (dflt (pd_approverGroup x) None)"
    by (auto simp: or_null_def)
  have "[] \<notin> set (subject_ids ROLE (dflt (pd_subjects x) []) @ dflt (pd_approverRoles x) [])"
    using assms(4) sids rest by simp
  from assertPolicyRefs_ok [OF a assms(2,3) this]
  have "refs_exist d oid (pol_subjects p) (pol_approverRoles p) (pol_approverUsers p) (pol_approverGroup p)"
    unfolding refs_exist_def rest set_append sids ag(1) using ag(2)
    by (cases "truthy (dflt (pd_approverGroup x) None)") (simp_all add: ag(1))
  moreover have "0 < pol_maxDuration p" using g(2) by (cases "pd_maxDuration x") (simp_all add: p new_policy_def)
  moreover have "pol_name p \<noteq> []" using g(1) by (auto simp: p new_policy_def truthy_iff)
  moreover have "\<forall>c. pol_customer p = Some c \<longrightarrow> customer_in_scope d oid sc c"
    using g(3) by (auto simp: p new_policy_def)
  ultimately show ?thesis using p by (simp add: new_policy_def)
qed

definition pd_ops :: policy_data where
  "pd_ops = \<lparr>pd_subjects = Some [\<lparr>sub_type = USER, sub_id = ''mem''\<rparr>], pd_customer = Some (Some ''c1''),
     pd_name = Some ''ops'', pd_description = None, pd_effect = Some ALLOW, pd_envs = None, pd_labels = None,
     pd_servers = None, pd_principals = None, pd_maxDuration = Some 3600, pd_requireApproval = None,
     pd_autoApprove = None, pd_active = None, pd_priority = None, pd_osProv = None, pd_keyDownload = None,
     pd_breakGlass = None, pd_approverGroup = None, pd_approverRoles = None,
     pd_approverUsers = Some [''adm'']\<rparr>"

lemma createPolicy_refs_witness:
  "\<exists>p d'. createPolicy ''n'' 5 ''o'' pd_ops ScopeAll sample_db = (Inr p, d') \<and> customer_in_scope sample_db ''o'' ScopeAll ''c1''"
proof -
  have "case fst (createPolicy ''n'' 5 ''o'' pd_ops ScopeAll sample_db) of Inr p \<Rightarrow>
      pol_customer p = Some ''c1'' \<and> [] \<notin> set (subject_ids ROLE (pol_subjects p) @ pol_approverRoles p) | Inl e \<Rightarrow> False"
    by code_simp
  then obtain p where p: "fst (createPolicy ''n'' 5 ''o'' pd_ops ScopeAll sample_db) = Inr p" "pol_customer p = Some ''c1''"
    "[] \<notin> set (subject_ids ROLE (pol_subjects p) @ pol_approverRoles p)" by (auto split: sum.splits)
  obtain d' where c: "createPolicy ''n'' 5 ''o'' pd_ops ScopeAll sample_db = (Inr p, d')" using p(1) by (metis prod.collapse)
  have "distinct (map usr_id (users sample_db))" "distinct (map grp_id (groups sample_db))" by code_simp+
  from createPolicy_refs [OF c this p(3)] c p(2) show ?thesis by blast
qed

text \<open>An update never leaves its organization or changes the identity of a row: on an error
  nothing changes; otherwise exactly the named policy is rewritten, the ids and organizations
  of all rows stay, and the policies of other organizations are untouched.\<close>

theorem updatePolicy_tenancy:
  assumes "updatePolicy now oid pid x sc d = (r, d')" and "distinct (map pol_id (policies d))"
  shows "map pol_id (policies d') = map pol_id (policies d) \<and> map pol_org (policies d') = map pol_org (policies d)
    \<and> (\<forall>p \<in> set (policies d). pol_org p \<noteq> oid \<or> pol_id p \<noteq> pid \<longrightarrow> p \<in> set (policies d'))
    \<and> ((\<exists>e. r = Inl e) \<longrightarrow> d' = d)"
proof (intro conjI ballI impI)
  note cs = updatePolicy_cases [OF assms(1)]
  show "map pol_id (policies d') = map pol_id (policies d)"
    using cs by (auto simp: policy_update.keys_kept)
  show "map pol_org (policies d') = map pol_org (policies d)"
    using cs by (auto simp: map_update_where)
  show "(\<exists>e. r = Inl e) \<Longrightarrow> d' = d" using cs by auto
  fix p assume p: "p \<in> set (policies d)" "pol_org p \<noteq> oid \<or> pol_id p \<noteq> pid"
  show "p \<in> set (policies d')"
  proof (cases "pol_org p = oid")
    case True
    with p(2) have "pol_id p \<noteq> pid" by simp
    then show ?thesis using cs p(1) by (force simp: set_update_where)
  next
    case False
    then show ?thesis by (rule updatePolicy_other_org [OF assms(2,1) p(1)])
  qed
qed

lemma updatePolicy_tenancy_witness:
  "map pol_id (policies (snd (updatePolicy 7 ''o'' ''pdev'' pd_ops ScopeAll sample_db))) = [''pdev'', ''padm'', ''pden'', ''pbrk'']"
proof -
  have ids: "map pol_id (policies sample_db) = [''pdev'', ''padm'', ''pden'', ''pbrk'']" by code_simp
  then have "distinct (map pol_id (policies sample_db))" by simp
  from updatePolicy_tenancy [OF prod.collapse [symmetric] this, of 7 "''o''" "''pdev''" pd_ops ScopeAll] ids
  show ?thesis by simp
qed

end
