(* ===== verification/JitClaims.thy ===== *)
theory JitClaims
  imports Sample
begin

text \<open>
  The properties of just-in-time Linux accounts: the uid allocator, the account names and the
  provisioning manifest, and two places where the manifest is weaker than its comments say.
\<close>

section \<open>Uids\<close>

text \<open>A run of allocations, one locked transaction after another, in whatever order they come.\<close>

fun allocate_all :: "id \<Rightarrow> id list \<Rightarrow> db \<Rightarrow> db" where
  "allocate_all oid [] d = d"
| "allocate_all oid (u # us) d = allocate_all oid us (snd (allocate_uid_tx oid u d))"

lemma set_jitUid_ids: "map usr_id (users (set_jitUid uid n d)) = map usr_id (users d)"
  by (simp add: set_jitUid_def map_update_where)

lemma allocate_uid_tx_ids:
  "allocate_uid_tx oid uid d = (r, d') \<Longrightarrow> map usr_id (users d') = map usr_id (users d)"
  using allocate_uid_tx_cases [of oid uid d r d'] set_jitUid_ids by metis

lemma allocate_all_keeps:
  "uids_ok d oid \<Longrightarrow> distinct (map usr_id (users d)) \<Longrightarrow> uids_ok (allocate_all oid us d) oid"
proof (induction us arbitrary: d)
  case Nil
  then show ?case by simp
next
  case (Cons u us)
  obtain r d' where d': "allocate_uid_tx oid u d = (r, d')" by force
  have "uids_ok d' oid" by (rule allocate_uid_tx_keeps [OF Cons.prems d'])
  moreover have "distinct (map usr_id (users d'))" using Cons.prems(2) allocate_uid_tx_ids [OF d'] by simp
  ultimately show ?case using Cons.IH d' by simp
qed

text \<open>The uid a user has.\<close>

abbreviation uid_of :: "db \<Rightarrow> id \<Rightarrow> int option" where
  "uid_of d uid \<equiv> Option.bind (find_user_id d uid) usr_jitUid"

lemma find_user_id_other: "uid \<noteq> v \<Longrightarrow> find_user_id (set_jitUid v n d) uid = find_user_id d uid"
proof -
  assume "uid \<noteq> v"
  then have "find (\<lambda>u. usr_id u = uid) (update_where (\<lambda>u. usr_id u = v) (usr_jitUid_update (\<lambda>_. Some n)) us) = find (\<lambda>u. usr_id u = uid) us" for us
    by (induction us) (auto simp: update_where_def)
  then show ?thesis by (simp add: find_user_id_def set_jitUid_def)
qed

lemma allocate_uid_tx_stays:
  assumes "uid_of d uid = Some n" and "allocate_uid_tx oid v d = (r, d')"
  shows "uid_of d' uid = Some n"
proof (cases "d' = d")
  case False
  then have "d' = set_jitUid v (next_uid d oid) d" "uid_of d v = None" using allocate_uid_tx_cases [OF assms(2)] by blast+
  moreover have "uid \<noteq> v" using calculation(2) assms(1) by auto
  ultimately show ?thesis using assms(1) by (simp add: find_user_id_other)
qed (use assms(1) in simp)

lemma allocate_all_stays: "uid_of d uid = Some n \<Longrightarrow> uid_of (allocate_all oid us d) uid = Some n"
proof (induction us arbitrary: d)
  case (Cons v us)
  obtain r d' where d': "allocate_uid_tx oid v d = (r, d')" by force
  show ?case using Cons.IH [OF allocate_uid_tx_stays [OF Cons.prems d']] d' by simp
qed simp

lemma allocate_uid_tx_gives:
  assumes "allocate_uid_tx oid uid d = (Inr n, d')"
  shows "uid_of d' uid = Some n"
proof (cases "uid_of d uid")
  case (Some m)
  then show ?thesis using assms by (simp add: allocate_uid_tx_def)
next
  case None
  then obtain u where "find_user_id d uid = Some u" and d': "d' = set_jitUid uid n d"
    using assms by (auto simp: allocate_uid_tx_def Let_def split: if_splits)
  then show ?thesis using find_user_id_set_jitUid by simp
qed

lemma uid_read_again: "uid_of d uid = Some n \<Longrightarrow> allocate_uid_tx oid uid d = (Inr n, d) \<and> getOrAllocateUid oid uid d = (Inr n, d)"
  by (cases "find_user_id d uid") (simp_all add: allocate_uid_tx_def getOrAllocateUid_def)

text \<open>C36: The uids of an organization stay distinct and inside 70000-79999 whatever the order in which the
  allocating transactions run, the second one of a user included (two callers who both read that
  there is no uid yet). A user who has a uid keeps it through all of them, and once a transaction has
  given a user a number, every later one of the same user, and every later call, returns that
  number and writes nothing.\<close>

theorem uid_allocation_safe:
  assumes "uids_ok d oid" and "distinct (map usr_id (users d))"
  shows "uids_ok (allocate_all oid us d) oid
    \<and> (\<forall>uid n. Option.bind (find_user_id d uid) usr_jitUid = Some n \<longrightarrow>
         Option.bind (find_user_id (allocate_all oid us d) uid) usr_jitUid = Some n)
    \<and> (\<forall>uid n d'. allocate_uid_tx oid uid d = (Inr n, d') \<or> getOrAllocateUid oid uid d = (Inr n, d') \<longrightarrow>
         allocate_uid_tx oid uid (allocate_all oid us d') = (Inr n, allocate_all oid us d')
         \<and> getOrAllocateUid oid uid (allocate_all oid us d') = (Inr n, allocate_all oid us d'))"
proof (intro conjI allI impI)
  fix uid n d'
  assume "allocate_uid_tx oid uid d = (Inr n, d') \<or> getOrAllocateUid oid uid d = (Inr n, d')"
  then have "uid_of d' uid = Some n"
    by (auto simp: getOrAllocateUid_def allocate_uid_tx_gives split: option.splits)
  from uid_read_again [OF allocate_all_stays [OF this]]
  show "allocate_uid_tx oid uid (allocate_all oid us d') = (Inr n, allocate_all oid us d')"
    "getOrAllocateUid oid uid (allocate_all oid us d') = (Inr n, allocate_all oid us d')" by blast+
qed (use allocate_all_keeps [OF assms] allocate_all_stays in blast)+

lemma uid_allocation_safe_witness:
  "uids_ok (allocate_all ''o'' [''mem'', ''adm'', ''mem''] sample_db) ''o'' \<and>
   org_uids (allocate_all ''o'' [''mem'', ''adm'', ''mem''] sample_db) ''o'' = [70001, 70000]"
proof
  have "uids_ok sample_db ''o''" by code_simp
  moreover have "distinct (map usr_id (users sample_db))" by code_simp
  ultimately show "uids_ok (allocate_all ''o'' [''mem'', ''adm'', ''mem''] sample_db) ''o''"
    using uid_allocation_safe by blast
  show "org_uids (allocate_all ''o'' [''mem'', ''adm'', ''mem''] sample_db) ''o'' = [70001, 70000]" by code_simp
qed

section \<open>Names and manifests\<close>

text \<open>The Linux account of a user is a name of 5 to 28 lower-case letters, digits and
  underscores that ends in \<open>_jit\<close>.\<close>

theorem jitPrincipal_wellformed:
  "5 \<le> length (jitPrincipalFor u) \<and> length (jitPrincipalFor u) \<le> 28 \<and> suffix ''_jit'' (jitPrincipalFor u)
    \<and> (\<forall>c \<in> set (jitPrincipalFor u). is_lower_alnum c \<or> c = CHR ''_'')"
proof -
  have "\<forall>c \<in> set ''_jit''. is_lower_alnum c \<or> c = CHR ''_''" by code_simp
  then show ?thesis using sanitizedBase_length [of u] sanitizedBase_chars [of _ u]
    by (auto simp: jitPrincipalFor_def suffix_def)
qed

lemma jitPrincipal_wellformed_witness:
  "jitPrincipalFor u_mem = ''mem_jit'' \<and> suffix ''_jit'' (jitPrincipalFor u_mem)"
proof
  show "jitPrincipalFor u_mem = ''mem_jit''" by code_simp
qed (use jitPrincipal_wellformed [of u_mem] in blast)

text \<open>A manifest is issued only for an approved, unexpired request of an existing user; it
  names that request as its lease, carries the user's stable uid, and its remaining seconds
  never exceed the time left.\<close>

theorem buildManifest_live:
  assumes "buildManifest now now' rid d = (Some m, d')"
  shows "\<exists>ar u exp. find_request d rid = Some ar \<and> req_status ar = APPROVED \<and> req_expiresAt ar = Some exp
    \<and> now < exp \<and> find_user_id d (req_requester ar) = Some u \<and> mf_leaseId m = rid
    \<and> mf_linuxUser m = jitPrincipalFor u \<and> getOrAllocateUid (usr_org u) (usr_id u) d = (Inr (mf_uid m), d')
    \<and> 0 \<le> mf_ttlSeconds m \<and> (now' \<le> exp \<longrightarrow> mf_ttlSeconds m * 1000 \<le> exp - now')"
proof -
  from assms obtain ar u exp p where h: "find_request d rid = Some ar" "find_user_id d (req_requester ar) = Some u"
    "req_status ar = APPROVED" "req_expiresAt ar = Some exp" "now < exp"
    "mf_ttlSeconds m = max 0 (math_floor_div (exp - now') 1000)" "mf_leaseId m = rid"
    "getOrAllocateUid (usr_org u) (usr_id u) d = (Inr (mf_uid m), d')" "mf_linuxUser m = jitPrincipalFor u"
    by (rule buildManifest_SomeD)
  have "now' \<le> exp \<Longrightarrow> max 0 (math_floor_div (exp - now') 1000) * 1000 \<le> exp - now'"
    using math_floor_div_bounds [of 1000 "exp - now'"] by (auto simp: max_def)
  then have "0 \<le> mf_ttlSeconds m \<and> (now' \<le> exp \<longrightarrow> mf_ttlSeconds m * 1000 \<le> exp - now')"
    using h(6) by simp
  with h show ?thesis by blast
qed

definition rq_mem :: request where
  "rq_mem = \<lparr>req_id = ''rq'', req_org = ''o'', req_requester = ''mem'', req_reviewer = None, req_server = ''sdev'',
     req_status = APPROVED, req_reason = ''r'', req_principal = ''deploy'', req_duration = 60, req_protocol = SSH,
     req_approvedDuration = Some 60, req_approvedAt = Some 0, req_deniedAt = None, req_deniedReason = None,
     req_expiresAt = Some 60000, req_revokedAt = None, req_revokedReason = None, req_certificate = None,
     req_breakGlass = False, req_createdAt = 0, req_approvers = []\<rparr>"

text \<open>A policy for the user ''adm'' on one production server that grants sudo.\<close>

definition p_sudo :: policy where
  "p_sudo = (mk_policy ''psud'' ALLOW 1 [''prod''] [\<lparr>sub_type = USER, sub_id = ''adm''\<rparr>])
     \<lparr>pol_osProv := JObj [(''sudo'', JBool True)], pol_servers := [''sprd'']\<rparr>"

definition jit_db :: db where
  "jit_db = sample_db\<lparr>requests := [rq_mem], policies := [p_dev, p_sudo]\<rparr>"

lemma buildManifest_live_witness:
  "\<exists>m d'. buildManifest 0 1500 ''rq'' jit_db = (Some m, d') \<and> mf_ttlSeconds m * 1000 \<le> 58500 \<and> mf_uid m = 70000"
proof -
  have "case fst (buildManifest 0 1500 ''rq'' jit_db) of Some m \<Rightarrow> mf_uid m = 70000 | None \<Rightarrow> False" by code_simp
  then obtain m where m: "fst (buildManifest 0 1500 ''rq'' jit_db) = Some m" "mf_uid m = 70000"
    by (auto split: option.splits)
  obtain d' where b: "buildManifest 0 1500 ''rq'' jit_db = (Some m, d')" using m(1) by (metis prod.collapse)
  have "find_request jit_db ''rq'' = Some rq_mem" "req_expiresAt rq_mem = Some 60000" by code_simp+
  with buildManifest_live [OF b] have "mf_ttlSeconds m * 1000 \<le> 58500" by auto
  with b m(2) show ?thesis by blast
qed

text \<open>The manifest does not look at who a policy is for or which server it targets: a
  member's request on a development server is provisioned with the sudo right of a policy
  whose only subject is another user and whose only target is a production server, although
  no policy with such a block applies to the member.\<close>

theorem manifest_uses_foreign_policy:
  "(case fst (buildManifest 0 0 ''rq'' jit_db) of None \<Rightarrow> False | Some m \<Rightarrow> mf_sudo m)
   \<and> findJitPolicyForUserServer jit_db ''o'' ''mem'' ''sdev'' = None"
  by code_simp

text \<open>Two users of one organization may share one Linux account.\<close>

lemma jitPrincipal_not_injective:
  "jitPrincipalFor (u_mem\<lparr>usr_email := ''a.b@x''\<rparr>) = jitPrincipalFor (u_adm\<lparr>usr_email := ''a_b@y''\<rparr>)"
  by code_simp

end
