(* ===== verification/OrgClaims.thy ===== *)
theory OrgClaims
  imports Sample
begin

text \<open>
  The properties of the organization's access switches and of the sign-in rule they drive.
\<close>

lemma update_prod_bypass_JBool:
  assumes "update_prod_bypass oid (Some (JBool b)) legacy d = (Inr (), d')"
  obtains d1 b' where "write_prod_bypass oid (Some (JBool b')) d1 = (Inr (), d')"
    "\<And>j. settings_are d1 oid j = settings_are d oid j" "legacy = None \<Longrightarrow> b' = b"
    "\<And>l. legacy = Some l \<Longrightarrow> b' = (l \<noteq> ''none'')"
proof (cases legacy)
  case None
  with assms show thesis by (intro that [of b d]) (simp_all add: update_prod_bypass_def)
next
  case (Some l)
  show thesis
  proof (cases "l = ''none''")
    case True
    with Some assms show thesis
      by (intro that [of False d]) (simp_all add: update_prod_bypass_def PROD_BYPASS_ROLES_def)
  next
    case False
    obtain r d1 where s: "set_admin_bypass oid l d = (r, d1)" by force
    with False Some assms have "write_prod_bypass oid (Some (JBool True)) d1 = (Inr (), d')"
      by (cases r) (simp_all add: update_prod_bypass_def split: if_splits)
    with False Some set_admin_bypass_orgs [OF s] show thesis by (intro that [of True d1]) simp_all
  qed
qed

text \<open>Writing the three access switches in one request stores all three: the settings read
  back afterwards have the single sign-on, vault and production values of the request, so no
  write overwrites another; and single sign-on is only ever required with an active provider.\<close>

theorem access_switches_read_back:
  assumes "updateAccessSettings n oid \<lparr>ad_ssoRequired = Some (JBool b1), ad_vault = Some (JBool b2),
      ad_prodBypass = Some (JBool b3), ad_legacy = None\<rparr> d = (Inr st, d')"
    and "settings_are d oid j"
  shows "as_ssoRequired st = b1 \<and> as_vaultEnabled st = b2 \<and> as_prodBypassEnabled st = b3
    \<and> isProdBypassEnabled d' oid = b3 \<and> (b1 \<longrightarrow> 0 < n)"
proof -
  let ?u1 = "updateSsoRequired n oid (JBool b1) d"
  from assms(1) obtain d1 where u1: "?u1 = (Inr (), d1)"
    by (cases ?u1; cases "fst ?u1") (simp_all add: updateAccessSettings_def)
  from assms(1) u1 obtain d2 where u2: "update_vault oid (JBool b2) d1 = (Inr (), d2)"
    by (cases "update_vault oid (JBool b2) d1"; cases "fst (update_vault oid (JBool b2) d1)")
      (simp_all add: updateAccessSettings_def)
  from assms(1) u1 u2 have u3: "update_prod_bypass oid (Some (JBool b3)) None d2 = (Inr (), d')"
    and st: "st = getAccessSettings n d' oid"
    by (cases "update_prod_bypass oid (Some (JBool b3)) None d2";
        cases "fst (update_prod_bypass oid (Some (JBool b3)) None d2)";
        simp add: updateAccessSettings_def)+
  from u3 have w: "write_prod_bypass oid (Some (JBool b3)) d2 = (Inr (), d')"
    by (simp add: update_prod_bypass_def)
  obtain j1 avs where j1: "settings_are d1 oid j1" "ssoRequiredFromSettings (Some j1) = b1"
    "accessSettingsOf (Some j1) = JObj avs" using updateSsoRequired_writes [OF assms(2) u1] .
  obtain j2 where j2: "settings_are d2 oid j2" "accessSettingsOf (Some j2) = accessSettingsOf (Some j1)"
    "vaultEnabledFromSettings (Some j2) = b2" using update_vault_keeps_access [OF j1(1) u2] .
  obtain j3 where j3: "settings_are d' oid j3" "ssoRequiredFromSettings (Some j3) = ssoRequiredFromSettings (Some j2)"
    "vaultEnabledFromSettings (Some j3) = vaultEnabledFromSettings (Some j2)"
    using write_prod_bypass_keeps [OF j2(1) _ w, of avs] j2(2) j1(3) by auto
  have "ssoRequiredFromSettings (Some j2) = b1" using j1(2) j2(2) by (simp add: ssoRequiredFromSettings_def)
  then show ?thesis
    using j3 j2(3) st write_prod_bypass_reads_back [OF w] updateSsoRequired_ok_iff [of n oid "JBool b1" d] u1
      settings_are_of [OF j3(1)]
    by (auto simp: getAccessSettings_def Let_def)
qed

lemma access_switches_read_back_witness:
  "\<exists>st d'. updateAccessSettings 1 ''o'' \<lparr>ad_ssoRequired = Some (JBool True), ad_vault = Some (JBool False),
      ad_prodBypass = Some (JBool False), ad_legacy = None\<rparr> sample_db = (Inr st, d')
    \<and> as_ssoRequired st \<and> \<not> as_vaultEnabled st \<and> \<not> isProdBypassEnabled d' ''o''"
proof -
  let ?x = "\<lparr>ad_ssoRequired = Some (JBool True), ad_vault = Some (JBool False),
      ad_prodBypass = Some (JBool False), ad_legacy = None\<rparr>"
  have "case fst (updateAccessSettings 1 ''o'' ?x sample_db) of Inr st \<Rightarrow> True | Inl e \<Rightarrow> False" by code_simp
  then obtain st where "fst (updateAccessSettings 1 ''o'' ?x sample_db) = Inr st" by (auto split: sum.splits)
  then obtain d' where u: "updateAccessSettings 1 ''o'' ?x sample_db = (Inr st, d')" by (metis prod.collapse)
  have "settings_are sample_db ''o'' o_settings"
    by (simp add: settings_are_def find_org_def sample_db_def empty_db_def o_settings_def)
  from access_switches_read_back [OF u this] u show ?thesis by blast
qed

lemma settings_sso_defaults:
  "''settings.sso'' \<in> set (defaultPermissionsFor t) \<longleftrightarrow> t = SuperAdmin" "''settings.sso'' \<in> set PERMISSION_KEYS"
proof -
  show "''settings.sso'' \<in> set PERMISSION_KEYS" by code_simp
  have "''settings.sso'' \<in> set (defaultPermissionsFor SuperAdmin)"
    "''settings.sso'' \<notin> set (defaultPermissionsFor Admin)"
    "''settings.sso'' \<notin> set (defaultPermissionsFor Manager)"
    "''settings.sso'' \<notin> set (defaultPermissionsFor Member)" by code_simp+
  then show "''settings.sso'' \<in> set (defaultPermissionsFor t) \<longleftrightarrow> t = SuperAdmin" by (cases t) simp_all
qed

text \<open>Requiring single sign-on cannot lock out the owner: a user who holds the owner role,
  or who has no role and is a super admin, may always sign in with a password, while every
  other user without a custom role is blocked.\<close>

theorem sso_lockout_free:
  assumes "(\<exists>rid. usr_roleId u = Some rid \<and> isOwnerRole (find_role_in_org d rid (usr_org u)))
      \<or> usr_roleId u = None \<and> usr_role u = SuperAdmin"
  shows "\<not> passwordSignInBlocked d (Some u)
    \<and> (\<forall>v. usr_org v \<noteq> [] \<longrightarrow> usr_roleId v = None \<longrightarrow> usr_role v \<noteq> SuperAdmin \<longrightarrow>
         passwordSignInBlocked d (Some v) = ssoRequiredFromSettings (org_settings_of d (usr_org v)))"
proof
  have "''settings.sso'' \<in> set (permissionsForUser u
      (case usr_roleId u of None \<Rightarrow> None | Some rid \<Rightarrow> find_role_in_org d rid (usr_org u)))"
    using assms settings_sso_defaults
    by (auto simp: permissionsForUser_def permissionsOfRole_def isOwnerRole_def split: option.splits)
  then show "\<not> passwordSignInBlocked d (Some u)"
    by (simp add: passwordSignInBlocked_def Let_def hasPermission_def SSO_REQUIRED_EXEMPT_PERMISSION_def)
qed (auto simp: passwordSignInBlocked_def Let_def hasPermission_def SSO_REQUIRED_EXEMPT_PERMISSION_def
    permissionsForUser_def settings_sso_defaults)

definition sso_db :: db where
  "sso_db = sample_db\<lparr>orgs := [\<lparr>org_id = ''o'', org_settings =
     Some (JObj [(''access'', JObj [(''ssoRequired'', JBool True)])])\<rparr>]\<rparr>"

lemma sso_lockout_free_witness:
  "\<not> passwordSignInBlocked sso_db (Some u_root) \<and> passwordSignInBlocked sso_db (Some u_adm)"
proof -
  have h: "usr_roleId u_root = None \<and> usr_role u_root = SuperAdmin" by code_simp
  have "usr_org u_adm \<noteq> []" "usr_roleId u_adm = None" "usr_role u_adm \<noteq> SuperAdmin"
    "ssoRequiredFromSettings (org_settings_of sso_db (usr_org u_adm))" by code_simp+
  then show ?thesis using sso_lockout_free [OF disjI2 [OF h], of sso_db] by blast
qed

end
