(* ===== verification/Certs.thy ===== *)
theory Certs
  imports Jit
begin

text \<open>
  Certificates (\<open>backend/src/services/certificateService.js\<close>) and the parts of the certificate
  authority they use (\<open>caService.js\<close>): direct issuance, the arguments handed to \<open>ssh-keygen\<close>,
  revocation, expiry and the check a host makes on every connection. \<open>ssh-keygen\<close> itself is a
  parameter: a function of its argument list that returns the signed certificate or fails.
\<close>

section \<open>Signing\<close>

definition STANDARD_PERMITS :: "string list" where
  "STANDARD_PERMITS = [''permit-pty'', ''permit-port-forwarding'', ''permit-agent-forwarding'',
     ''permit-X11-forwarding'', ''permit-user-rc'']"

definition ext_args :: "string \<times> string \<Rightarrow> string list" where
  "ext_args e =
     (if fst e \<in> set STANDARD_PERMITS then [''-O'', fst e]
      else if snd e = [] then [''-O'', ''extension='' @ fst e]
      else [''-O'', ''extension='' @ fst e @ ''='' @ snd e])"

text \<open>The command line, from \<open>-s\<close> to the path of the public key.\<close>

definition keygen_args ::
    "string \<Rightarrow> string \<Rightarrow> string \<Rightarrow> string list \<Rightarrow> int \<Rightarrow> int \<Rightarrow> cert_type \<Rightarrow>
     (string \<times> string) list \<Rightarrow> (string \<times> string) list \<Rightarrow> string list" where
  "keygen_args caPath pubPath keyId principals validitySeconds serial ctype exts crits =
     [''-s'', caPath, ''-I'', keyId, ''-n'', join '','' principals,
      ''-V'', ''+'' @ int_str validitySeconds @ ''s'', ''-z'', int_str serial] @
     (if ctype = CERT_HOST then [''-h''] else []) @
     (if filter (\<lambda>k. k \<in> set STANDARD_PERMITS) (map fst exts) \<noteq> [] then [''-O'', ''clear''] else []) @
     concat (map ext_args exts) @
     concat (map (\<lambda>c. [''-O'', ''critical:'' @ fst c @ ''='' @ snd c]) crits) @ [pubPath]"

text \<open>
  The active key pair of the organization (table \<open>caKeyPair\<close>, not in the model) is an argument,
  as are the random serial and the two temporary paths.
\<close>

record signer =
  sg_caKey :: "id option"
  sg_serial :: int
  sg_caPath :: string
  sg_pubPath :: string
  sg_keygen :: "string list \<Rightarrow> string res"

definition signCertificate ::
    "signer \<Rightarrow> id \<Rightarrow> string \<Rightarrow> string list \<Rightarrow> int \<Rightarrow> cert_type \<Rightarrow> string \<Rightarrow>
     (string \<times> string) list \<Rightarrow> (string \<times> string) list \<Rightarrow> (string \<times> int \<times> id) res" where
  "signCertificate sg oid publicKey principals validitySeconds ctype keyId exts crits =
     (if oid = [] then Inl (api_error 400 ''orgId is required'')
      else if publicKey = [] then Inl (api_error 400 ''publicKey is required'')
      else if principals = [] then Inl (api_error 400 ''principals must be a non-empty array'')
      else if validitySeconds \<le> 0 then Inl (api_error 400 ''validitySeconds must be a positive number'')
      else if keyId = [] then Inl (api_error 400 ''keyId is required'')
      else case sg_caKey sg of
        None \<Rightarrow> Inl (api_error 404 ''No active CA key pair found for organization'')
      | Some ca \<Rightarrow>
          (case sg_keygen sg (keygen_args (sg_caPath sg) (sg_pubPath sg) keyId principals validitySeconds
                  (sg_serial sg) ctype exts crits) of
             Inl e \<Rightarrow> Inl e
           | Inr out \<Rightarrow> Inr (js_trim out, sg_serial sg, ca)))"

section \<open>Revocation and expiry\<close>

definition update_cert :: "id \<Rightarrow> (certificate \<Rightarrow> certificate) \<Rightarrow> db \<Rightarrow> db" where
  "update_cert cid f d = d\<lparr>certs := update_where (\<lambda>c. cert_id c = cid) f (certs d)\<rparr>"

text \<open>
  \<open>caService.revokeCertificate\<close>; its audit helper writes every entry with the resource type of
  a key pair and without an actor.
\<close>

definition ca_audit :: "id \<Rightarrow> string \<Rightarrow> id \<Rightarrow> json \<Rightarrow> audit" where
  "ca_audit oid action rid m =
     \<lparr>aud_org = oid, aud_actor = None, aud_action = action, aud_resourceType = ''CaKeyPair'',
      aud_resource = Some rid, aud_meta = m\<rparr>"

definition json_opt :: "string option \<Rightarrow> json" where
  "json_opt x = (case x of None \<Rightarrow> JNull | Some s \<Rightarrow> JStr s)"

definition revokeCertificate :: "int \<Rightarrow> id \<Rightarrow> id option \<Rightarrow> db \<Rightarrow> unit res \<times> db" where
  "revokeCertificate now cid revokedBy d =
     (if cid = [] then (Inl (api_error 400 ''certId is required''), d)
      else case find_cert d cid of
        None \<Rightarrow> (Inl (api_error 404 ''Certificate not found''), d)
      | Some c \<Rightarrow>
          if cert_status c = CERT_REVOKED
          then (Inl (api_error 409 ''Certificate is already revoked''), d)
          else (Inr (), add_audit (ca_audit (cert_org c) ''certificate.revoked'' cid
                          (JObj [(''serial'', JStr (int_str (cert_serial c))), (''revokedById'', json_opt revokedBy)]))
                  (update_cert cid (\<lambda>c. c\<lparr>cert_status := CERT_REVOKED, cert_revokedAt := Some now,
                                         cert_revokedBy := revokedBy\<rparr>) d)))"

definition revokeCert :: "int \<Rightarrow> id \<Rightarrow> id \<Rightarrow> id option \<Rightarrow> db \<Rightarrow> unit res \<times> db" where
  "revokeCert now oid cid revokedBy d =
     (if oid = [] then (Inl (api_error 400 ''orgId is required''), d)
      else if cid = [] then (Inl (api_error 400 ''certId is required''), d)
      else if find (\<lambda>c. cert_id c = cid \<and> cert_org c = oid) (certs d) = None
      then (Inl (api_error 404 ''Certificate not found''), d)
      else revokeCertificate now cid revokedBy d)"

definition markCertsExpired :: "int \<Rightarrow> id \<Rightarrow> db \<Rightarrow> nat \<times> db" where
  "markCertsExpired now oid d =
     (let due = (\<lambda>c. cert_status c = CERT_ACTIVE \<and> cert_validBefore c < now \<and> (oid = [] \<or> cert_org c = oid))
      in (count_where due (certs d),
          d\<lparr>certs := update_where due (\<lambda>c. c\<lparr>cert_status := CERT_EXPIRED\<rparr>) (certs d)\<rparr>))"

section \<open>Direct issuance\<close>

record issue_params =
  is_org :: id
  is_user :: id
  is_server :: id
  is_principals :: "string list"
  is_validity :: int
  is_publicKey :: string
  is_keyId :: string
  is_certType :: cert_type
  is_extensions :: "(string \<times> string) list"
  is_critical :: "(string \<times> string) list"
  is_via :: string
  is_actor :: "id option"
  is_scope :: scope

text \<open>The argument checks, in the order of the code.\<close>

definition issue_args_error :: "issue_params \<Rightarrow> err option" where
  "issue_args_error x =
     (if is_org x = [] then Some (api_error 400 ''orgId is required'')
      else if is_server x = [] then Some (api_error 400 ''serverId is required'')
      else if is_certType x \<noteq> CERT_USER then Some (api_error 400 ''Only USER certificates can be issued directly'')
      else
        let badExt = filter (\<lambda>k. k \<notin> set STANDARD_PERMITS) (map fst (is_extensions x)) in
        if badExt \<noteq> [] then Some (api_error 400 (''Unsupported certificate extension(s): '' @ join '', '' badExt))
        else if is_critical x \<noteq> []
        then Some (api_error 400 ''Critical options cannot be set on directly issued certificates'')
        else if is_user x = [] then Some (api_error 400 ''userId is required'')
        else if is_publicKey x = [] then Some (api_error 400 ''publicKey is required'')
        else if is_principals x = [] then Some (api_error 400 ''principals must be a non-empty array'')
        else if is_validity x \<le> 0 then Some (api_error 400 ''validitySeconds must be positive'')
        else if is_validity x > 604800
        then Some (api_error 400 ''validitySeconds may not exceed 604800 (7 days)'')
        else None)"

text \<open>
  Every principal passes policy on its own; each result clamps the validity further. The
  message prints \<open>undefined\<close> where a result has no reason.
\<close>

fun check_principals :: "(string \<Rightarrow> evaluation res) \<Rightarrow> bool \<Rightarrow> string list \<Rightarrow> int \<Rightarrow> int res" where
  "check_principals ev isProd [] v = Inr v"
| "check_principals ev isProd (p # ps) v =
     (case ev p of
        Inl e \<Rightarrow> Inl e
      | Inr r \<Rightarrow>
          if ev_requiresApproval r
          then (if isProd \<and> \<not> ev_allowed r
                then Inl (api_error 403 ''Production access requires an approved access request (phase 7 approval flow)'')
                else Inl (api_error 403 ''Access requires approval (phase 7 approval flow)''))
          else if \<not> ev_allowed r
          then Inl (api_error 403 (''Access denied by policy: '' @ (case ev_reason r of None \<Rightarrow> ''undefined'' | Some m \<Rightarrow> m)))
          else check_principals ev isProd ps
                 (if ev_maxTtl r > 0 \<and> v > ev_maxTtl r then ev_maxTtl r else v))"

definition new_cert :: "id \<Rightarrow> int \<Rightarrow> issue_params \<Rightarrow> string \<Rightarrow> int \<Rightarrow> string \<times> int \<times> id \<Rightarrow> certificate" where
  "new_cert newId now x keyId v sgd = (case sgd of (sc, serial, ca) \<Rightarrow>
     \<lparr>cert_id = newId, cert_org = is_org x, cert_serial = serial, cert_type = is_certType x,
      cert_keyId = keyId, cert_principals = is_principals x, cert_publicKey = is_publicKey x,
      cert_signed = sc, cert_validAfter = now, cert_validBefore = now + v * 1000,
      cert_status = CERT_ACTIVE, cert_issuedTo = Some (is_user x), cert_issuedFor = Some (is_server x),
      cert_revokedAt = None, cert_revokedBy = None, cert_via = is_via x\<rparr>)"

definition cert_audit :: "issue_params \<Rightarrow> certificate \<Rightarrow> audit" where
  "cert_audit x c =
     \<lparr>aud_org = is_org x, aud_actor = is_actor x, aud_action = ''certificate.issued'',
      aud_resourceType = ''Certificate'', aud_resource = Some (cert_id c),
      aud_meta = JObj [(''serial'', JStr (int_str (cert_serial c))), (''userId'', JStr (is_user x)),
        (''serverId'', JStr (is_server x)), (''principals'', JArr (map JStr (is_principals x)))]\<rparr>"

definition issue :: "signer \<Rightarrow> id \<Rightarrow> int \<Rightarrow> issue_params \<Rightarrow> db \<Rightarrow> certificate res \<times> db" where
  "issue sg newId now x d =
     (case issue_args_error x of Some e \<Rightarrow> (Inl e, d) | None \<Rightarrow>
      case find_user d (is_user x) (is_org x) of
        None \<Rightarrow> (Inl (api_error 404 ''User not found in organization''), d)
      | Some u \<Rightarrow>
      case find_server d (is_server x) (is_org x) of
        None \<Rightarrow> (Inl (api_error 404 ''Server not found in organization''), d)
      | Some s \<Rightarrow>
      case assertServerInScope (is_scope x) (Some s) of Inl e \<Rightarrow> (Inl e, d) | Inr _ \<Rightarrow>
      if srv_env s = EnvProd
      then (Inl (api_error 403 ''Production certificates are only issued for an approved access request''), d)
      else case check_principals (\<lambda>p. evaluate d (is_org x) (is_user x) (is_server x) (Some p) [] None)
                  (srv_env s = EnvProd) (is_principals x) (is_validity x) of
        Inl e \<Rightarrow> (Inl e, d)
      | Inr v \<Rightarrow>
          let keyId = (if is_keyId x \<noteq> [] then is_keyId x
                       else if usr_email u \<noteq> [] then usr_email u else is_user x) in
          (case signCertificate sg (is_org x) (is_publicKey x) (is_principals x) v (is_certType x) keyId
                  (is_extensions x) (is_critical x) of
             Inl e \<Rightarrow> (Inl e, d)
           | Inr sgd \<Rightarrow>
               let c = new_cert newId now x keyId v sgd
               in (Inr c, add_audit (cert_audit x c) (add_cert c d))))"

section \<open>What a host asks\<close>

text \<open>\<open>BigInt(serial)\<close> on a string: decimal digits with an optional sign, or a hexadecimal literal.\<close>

definition digit_of :: "nat \<Rightarrow> char \<Rightarrow> nat option" where
  "digit_of base c =
     (let n = of_char (lower_char c) :: nat;
          v = (if 48 \<le> n \<and> n \<le> 57 then n - 48 else if 97 \<le> n \<and> n \<le> 102 then n - 87 else base)
      in if v < base then Some v else None)"

fun parse_digits :: "nat \<Rightarrow> int \<Rightarrow> string \<Rightarrow> int option" where
  "parse_digits base acc [] = Some acc"
| "parse_digits base acc (c # cs) =
     (case digit_of base c of None \<Rightarrow> None | Some v \<Rightarrow> parse_digits base (acc * int base + int v) cs)"

definition js_bigint :: "string \<Rightarrow> int option" where
  "js_bigint s0 =
     (let s = js_trim s0 in
      if s = [] then Some 0
      else if prefix ''0x'' (map lower_char (take 2 s))
      then (if drop 2 s = [] then None else parse_digits 16 0 (drop 2 s))
      else if hd s = CHR ''-'' then (if tl s = [] then None else map_option uminus (parse_digits 10 0 (tl s)))
      else if hd s = CHR ''+'' then (if tl s = [] then None else parse_digits 10 0 (tl s))
      else parse_digits 10 0 s)"

record verdict =
  vf_valid :: bool
  vf_reason :: string
  vf_principals :: "string list"
  vf_manifest :: "manifest option"

definition invalid :: "string \<Rightarrow> verdict" where
  "invalid r = \<lparr>vf_valid = False, vf_reason = r, vf_principals = [], vf_manifest = None\<rparr>"

text \<open>
  The checks on the certificate itself. \<open>agent\<close> is the host that asks, with its organization,
  when it authenticated with a token of its own.
\<close>

definition cert_error :: "bool \<Rightarrow> int \<Rightarrow> string \<Rightarrow> (id \<times> id) option \<Rightarrow> db \<Rightarrow> certificate \<Rightarrow> string option" where
  "cert_error checkUserStatus now prin agent d c =
     (if cert_status c = CERT_REVOKED then Some ''certificate revoked''
      else if cert_status c = CERT_EXPIRED then Some ''certificate expired''
      else if checkUserStatus \<and>
         (case Option.bind (cert_issuedTo c) (find_user_id d) of None \<Rightarrow> False
          | Some u \<Rightarrow> isDisabledStatus (usr_status u))
      then Some ''certificate owner is not active''
      else if cert_validBefore c \<le> now then Some ''certificate has expired''
      else if cert_validAfter c > now then Some ''certificate not yet valid''
      else if prin \<notin> set (cert_principals c) then Some ''principal not in certificate''
      else case agent of
        None \<Rightarrow> None
      | Some (sid, oid) \<Rightarrow>
          if cert_org c \<noteq> oid \<or> cert_issuedFor c \<noteq> Some sid
          then Some ''certificate not issued for this host'' else None)"

definition request_live :: "int \<Rightarrow> request \<Rightarrow> bool" where
  "request_live now r =
     (req_status r = APPROVED \<and> (case req_expiresAt r of None \<Rightarrow> True | Some e \<Rightarrow> now < e))"

text \<open>
  \<open>clk\<close> gives the successive readings of the clock; \<open>dbFault\<close> and \<open>arFault\<close> say that the
  lookup of the certificate or of its access request fails. The second failure is swallowed.
\<close>

definition verify ::
    "bool \<Rightarrow> (nat \<Rightarrow> int) \<Rightarrow> bool \<Rightarrow> bool \<Rightarrow> string \<Rightarrow> string \<Rightarrow> (id \<times> id) option \<Rightarrow> db \<Rightarrow> verdict \<times> db" where
  "verify checkUserStatus clk dbFault arFault serial prin agent d =
     (if serial = [] then (invalid ''serial is required'', d)
      else if prin = [] then (invalid ''principal is required'', d)
      else case js_bigint serial of None \<Rightarrow> (invalid ''invalid serial format'', d) | Some n \<Rightarrow>
      if dbFault then (invalid ''internal error during verification'', d)
      else case find (\<lambda>c. cert_serial c = n) (certs d) of
        None \<Rightarrow> (invalid ''certificate not found'', d)
      | Some c \<Rightarrow>
      case cert_error checkUserStatus (clk 0) prin agent d c of Some r \<Rightarrow> (invalid r, d) | None \<Rightarrow>
      let ok = (\<lambda>m. \<lparr>vf_valid = True, vf_reason = [], vf_principals = cert_principals c, vf_manifest = m\<rparr>) in
      if arFault then (ok None, d)
      else case find (\<lambda>r. req_certificate r = Some (cert_id c)) (requests d) of
        None \<Rightarrow> (ok None, d)
      | Some ar \<Rightarrow>
          if agent \<noteq> None \<and> \<not> request_live (clk 1) ar
          then (invalid ''access request is no longer approved'', d)
          else if request_live (clk 1) ar
          then (case buildManifest (clk 2) (clk 3) (req_id ar) d of (m, d') \<Rightarrow> (ok m, d'))
          else (ok None, d))"

section \<open>Listing\<close>

record cert_filters =
  cf_user :: id
  cf_server :: id
  cf_status :: "cert_status option"
  cf_type :: "cert_type option"
  cf_env :: "environment option"
  cf_customer :: id
  cf_from :: "int option"
  cf_to :: "int option"

definition cert_server :: "db \<Rightarrow> certificate \<Rightarrow> server option" where
  "cert_server d c = Option.bind (cert_issuedFor c) (\<lambda>sid. find (\<lambda>s. srv_id s = sid) (servers d))"

definition cert_where :: "db \<Rightarrow> id \<Rightarrow> cert_filters \<Rightarrow> id list option \<Rightarrow> scope \<Rightarrow> certificate \<Rightarrow> bool" where
  "cert_where d oid f searchIds sc c \<longleftrightarrow>
     cert_org c = oid \<and> relationScopeWhere sc (cert_server d c) \<and>
     (cf_user f = [] \<or> cert_issuedTo c = Some (cf_user f)) \<and>
     (cf_server f = [] \<or> cert_issuedFor c = Some (cf_server f)) \<and>
     (case cf_status f of None \<Rightarrow> True | Some st \<Rightarrow> cert_status c = st) \<and>
     (case cf_type f of None \<Rightarrow> True | Some t \<Rightarrow> cert_type c = t) \<and>
     (case cf_env f of None \<Rightarrow> True | Some e \<Rightarrow> holds (\<lambda>s. srv_env s = e) (cert_server d c)) \<and>
     (cf_customer f = [] \<or> holds (\<lambda>s. srv_customer s = cf_customer f) (cert_server d c)) \<and>
     (case searchIds of None \<Rightarrow> True | Some ids \<Rightarrow> cert_id c \<in> set ids) \<and>
     (case cf_from f of None \<Rightarrow> True | Some t \<Rightarrow> t \<le> cert_validBefore c) \<and>
     (case cf_to f of None \<Rightarrow> True | Some t \<Rightarrow> cert_validBefore c \<le> t)"

definition expiring_soon :: "int \<Rightarrow> db \<Rightarrow> id \<Rightarrow> scope \<Rightarrow> nat" where
  "expiring_soon now d oid sc =
     count_where (\<lambda>c. cert_org c = oid \<and> cert_status c = CERT_ACTIVE \<and> now < cert_validBefore c
       \<and> cert_validBefore c \<le> now + 24 * 60 * 60 * 1000 \<and> relationScopeWhere sc (cert_server d c)) (certs d)"

definition getCertById :: "db \<Rightarrow> id \<Rightarrow> id \<Rightarrow> scope \<Rightarrow> certificate res" where
  "getCertById d oid cid sc =
     (if oid = [] then Inl (api_error 400 ''orgId is required'')
      else if cid = [] then Inl (api_error 400 ''certId is required'')
      else case find (\<lambda>c. cert_id c = cid \<and> cert_org c = oid \<and> relationScopeWhere sc (cert_server d c)) (certs d) of
        None \<Rightarrow> Inl (api_error 404 ''Certificate not found'')
      | Some c \<Rightarrow> Inr c)"

end
