(* ===== verification/CertClaims.thy ===== *)
theory CertClaims
  imports Certs Sample
begin

text \<open>
  The properties of certificates: what direct issuance may sign, what a host accepts, and that
  a revocation is final.
\<close>

section \<open>Issuance\<close>

lemma check_principals_InrD:
  "check_principals ev b ps v = Inr v' \<Longrightarrow> 0 < v \<Longrightarrow>
     v' \<le> v \<and> 0 < v' \<and>
     (\<forall>p \<in> set ps. \<exists>r. ev p = Inr r \<and> ev_allowed r \<and> \<not> ev_requiresApproval r \<and>
        (0 < ev_maxTtl r \<longrightarrow> v' \<le> ev_maxTtl r))"
proof (induction ps arbitrary: v)
  case Nil
  then show ?case by simp
next
  case (Cons p ps)
  from Cons.prems(1) obtain r where r: "ev p = Inr r" "ev_allowed r" "\<not> ev_requiresApproval r"
    by (auto split: sum.splits if_splits)
  obtain w where w: "check_principals ev b ps w = Inr v'" "0 < w" "w \<le> v" "0 < ev_maxTtl r \<longrightarrow> w \<le> ev_maxTtl r"
  proof
    let ?w = "if ev_maxTtl r > 0 \<and> v > ev_maxTtl r then ev_maxTtl r else v"
    show "check_principals ev b ps ?w = Inr v'" using Cons.prems r by simp
    show "0 < ?w" "?w \<le> v" "0 < ev_maxTtl r \<longrightarrow> ?w \<le> ev_maxTtl r" using Cons.prems(2) by simp_all
  qed
  note ih = Cons.IH [OF w(1,2)]
  have "\<exists>q. ev p = Inr q \<and> ev_allowed q \<and> \<not> ev_requiresApproval q \<and> (0 < ev_maxTtl q \<longrightarrow> v' \<le> ev_maxTtl q)"
    using r w(4) ih by (intro exI [of _ r]) auto
  with ih w(3) show ?case by simp
qed

lemma issue_args_ok:
  "issue_args_error x = None \<Longrightarrow>
     is_org x \<noteq> [] \<and> is_server x \<noteq> [] \<and> is_user x \<noteq> [] \<and> is_certType x = CERT_USER \<and> is_critical x = [] \<and>
     is_principals x \<noteq> [] \<and> 0 < is_validity x \<and> is_validity x \<le> 604800 \<and>
     fst ` set (is_extensions x) \<subseteq> set STANDARD_PERMITS"
  by (auto simp: issue_args_error_def Let_def filter_empty_conv split: if_splits)

lemma issue_InrD:
  assumes "issue sg newId now x d = (Inr c, d')"
  obtains u s v keyId signature where "issue_args_error x = None" "find_user d (is_user x) (is_org x) = Some u"
    "find_server d (is_server x) (is_org x) = Some s" "serverScopeWhere (is_scope x) s" "srv_env s \<noteq> EnvProd"
    "check_principals (\<lambda>p. evaluate d (is_org x) (is_user x) (is_server x) (Some p) [] None) False
       (is_principals x) (is_validity x) = Inr v"
    "signCertificate sg (is_org x) (is_publicKey x) (is_principals x) v (is_certType x) keyId
       (is_extensions x) (is_critical x) = Inr signature"
    "c = new_cert newId now x keyId v signature" "d' = add_audit (cert_audit x c) (add_cert c d)"
proof -
  have a: "issue_args_error x = None"
    using assms by (cases "issue_args_error x") (simp_all add: issue_def)
  obtain u where u: "find_user d (is_user x) (is_org x) = Some u"
    using assms a by (cases "find_user d (is_user x) (is_org x)") (simp_all add: issue_def)
  obtain s where s: "find_server d (is_server x) (is_org x) = Some s"
    using assms a u by (cases "find_server d (is_server x) (is_org x)") (simp_all add: issue_def)
  have sc: "assertServerInScope (is_scope x) (Some s) = Inr ()"
    using assms a u s by (cases "assertServerInScope (is_scope x) (Some s)") (simp_all add: issue_def)
  have np: "srv_env s \<noteq> EnvProd"
    using assms a u s sc by (cases "srv_env s = EnvProd") (simp_all add: issue_def)
  let ?ev = "\<lambda>p. evaluate d (is_org x) (is_user x) (is_server x) (Some p) [] None"
  obtain v where v: "check_principals ?ev False (is_principals x) (is_validity x) = Inr v"
    using assms a u s sc np by (cases "check_principals ?ev False (is_principals x) (is_validity x)") (simp_all add: issue_def)
  let ?k = "if is_keyId x \<noteq> [] then is_keyId x else if usr_email u \<noteq> [] then usr_email u else is_user x"
  let ?sg = "signCertificate sg (is_org x) (is_publicKey x) (is_principals x) v (is_certType x) ?k
       (is_extensions x) (is_critical x)"
  obtain q where q: "?sg = Inr q"
    using assms a u s sc np v by (cases ?sg) (simp_all add: issue_def Let_def)
  have "c = new_cert newId now x ?k v q \<and> d' = add_audit (cert_audit x c) (add_cert c d)"
    using assms a u s sc np v q by (auto simp add: issue_def Let_def)
  with that [OF a u s _ np v q] sc show thesis by (auto simp: assertServerInScope_ok)
qed

text \<open>Direct issuance is never a way around the request flow: a certificate it signs is an
  active user certificate with standard extensions only, bound to one server of the
  organization that the caller's scope sees and that is not production; every principal on it
  was allowed by policy on its own without approval; and it lives at most seven days and at
  most as long as each of those policies permits.\<close>

theorem issue_safe:
  assumes "issue sg newId now x d = (Inr c, d')"
  shows "\<exists>s v. find_server d (is_server x) (is_org x) = Some s \<and> srv_env s \<noteq> EnvProd \<and> serverScopeWhere (is_scope x) s
    \<and> cert_status c = CERT_ACTIVE \<and> cert_type c = CERT_USER \<and> cert_issuedFor c = Some (srv_id s)
    \<and> cert_issuedTo c = Some (is_user x) \<and> cert_principals c = is_principals x \<and> cert_principals c \<noteq> []
    \<and> fst ` set (is_extensions x) \<subseteq> set STANDARD_PERMITS
    \<and> cert_validBefore c = cert_validAfter c + v * 1000 \<and> 0 < v \<and> v \<le> 604800 \<and> v \<le> is_validity x
    \<and> (\<forall>p \<in> set (cert_principals c). \<exists>r. evaluate d (is_org x) (is_user x) (is_server x) (Some p) [] None = Inr r
         \<and> ev_allowed r \<and> \<not> ev_requiresApproval r \<and> (0 < ev_maxTtl r \<longrightarrow> v \<le> ev_maxTtl r))
    \<and> certs d' = certs d @ [c] \<and> requests d' = requests d"
proof -
  from assms obtain s v keyId signature where a: "issue_args_error x = None"
    and s: "find_server d (is_server x) (is_org x) = Some s" "serverScopeWhere (is_scope x) s" "srv_env s \<noteq> EnvProd"
    and v: "check_principals (\<lambda>p. evaluate d (is_org x) (is_user x) (is_server x) (Some p) [] None) False
       (is_principals x) (is_validity x) = Inr v"
    and c: "c = new_cert newId now x keyId v signature" "d' = add_audit (cert_audit x c) (add_cert c d)"
    by (rule issue_InrD)
  note args = issue_args_ok [OF a]
  have cf: "cert_status c = CERT_ACTIVE" "cert_type c = CERT_USER" "cert_issuedFor c = Some (srv_id s)"
    "cert_issuedTo c = Some (is_user x)" "cert_principals c = is_principals x"
    "cert_validBefore c = cert_validAfter c + v * 1000"
    using args find_server_SomeD [OF s(1)] by (cases signature; simp add: c(1) new_cert_def)+
  have "certs d' = certs d @ [c]" "requests d' = requests d"
    by (simp_all add: c(2) add_audit_def add_cert_def)
  moreover have "v \<le> is_validity x \<and> 0 < v" and "\<forall>p \<in> set (is_principals x).
      \<exists>r. evaluate d (is_org x) (is_user x) (is_server x) (Some p) [] None = Inr r
         \<and> ev_allowed r \<and> \<not> ev_requiresApproval r \<and> (0 < ev_maxTtl r \<longrightarrow> v \<le> ev_maxTtl r)"
    using check_principals_InrD [OF v] args by blast+
  ultimately show ?thesis using s cf args
    by (intro exI [of _ s] exI [of _ v]) (simp only: cf, auto)
qed

definition echo_signer :: signer where
  "echo_signer = \<lparr>sg_caKey = Some ''ca'', sg_serial = 77, sg_caPath = ''/tmp/k'', sg_pubPath = ''/tmp/p'',
     sg_keygen = (\<lambda>args. Inr (join '' '' args))\<rparr>"

definition x_mem :: issue_params where
  "x_mem = \<lparr>is_org = ''o'', is_user = ''mem'', is_server = ''sdev'', is_principals = [''deploy'', ''app''],
     is_validity = 7200, is_publicKey = ''key'', is_keyId = [], is_certType = CERT_USER,
     is_extensions = [(''permit-pty'', [])], is_critical = [], is_via = ''web'', is_actor = None, is_scope = ScopeAll\<rparr>"

lemma issue_safe_witness:
  "\<exists>c d'. issue echo_signer ''c1'' 1000 x_mem sample_db = (Inr c, d') \<and> cert_validBefore c = 3601000
     \<and> certs d' = certs sample_db @ [c]"
proof -
  have "case fst (issue echo_signer ''c1'' 1000 x_mem sample_db) of Inr c \<Rightarrow> cert_validBefore c = 3601000 | Inl e \<Rightarrow> False"
    by code_simp
  then obtain c where c: "fst (issue echo_signer ''c1'' 1000 x_mem sample_db) = Inr c" "cert_validBefore c = 3601000"
    by (auto split: sum.splits)
  obtain d' where i: "issue echo_signer ''c1'' 1000 x_mem sample_db = (Inr c, d')" using c(1) by (metis prod.collapse)
  from issue_safe [OF i] i c(2) show ?thesis by blast
qed

section \<open>What a host accepts\<close>

lemma verify_validD:
  assumes "verify cu clk df af serial prin agent d = (w, d')" and "vf_valid w"
  obtains n c where "js_bigint serial = Some n" "find (\<lambda>c. cert_serial c = n) (certs d) = Some c"
    "cert_error cu (clk 0) prin agent d c = None" "vf_principals w = cert_principals c"
    "\<And>ar. \<not> af \<Longrightarrow> agent \<noteq> None \<Longrightarrow> find (\<lambda>r. req_certificate r = Some (cert_id c)) (requests d) = Some ar \<Longrightarrow>
       request_live (clk 1) ar"
proof -
  have g: "serial \<noteq> []" "prin \<noteq> []"
    using assms by (cases "serial = []"; cases "prin = []"; auto simp: verify_def invalid_def)+
  obtain n where n: "js_bigint serial = Some n"
    using assms g by (cases "js_bigint serial") (auto simp: verify_def invalid_def)
  have df: "\<not> df" using assms g n by (cases df) (auto simp: verify_def invalid_def)
  obtain c where c: "find (\<lambda>c. cert_serial c = n) (certs d) = Some c"
    using assms g n df by (cases "find (\<lambda>c. cert_serial c = n) (certs d)") (auto simp: verify_def invalid_def)
  have e: "cert_error cu (clk 0) prin agent d c = None"
    using assms g n df c by (cases "cert_error cu (clk 0) prin agent d c") (auto simp: verify_def invalid_def)
  show thesis
  proof (rule that [OF n c e])
    show "vf_principals w = cert_principals c"
      using assms g n df c e
      by (simp add: verify_def invalid_def Let_def split: if_splits option.splits prod.splits) auto
    fix ar assume "\<not> af" "agent \<noteq> None" "find (\<lambda>r. req_certificate r = Some (cert_id c)) (requests d) = Some ar"
    then show "request_live (clk 1) ar"
      using assms g n df c e by (cases "request_live (clk 1) ar") (auto simp: verify_def invalid_def Let_def)
  qed
qed

lemma cert_error_NoneD:
  assumes "cert_error cu now prin agent d c = None"
  shows "cert_status c = CERT_ACTIVE" "now < cert_validBefore c" "cert_validAfter c \<le> now"
    "prin \<in> set (cert_principals c)"
    "agent = Some (sid, oid) \<Longrightarrow> cert_org c = oid \<and> cert_issuedFor c = Some sid"
    "cu \<Longrightarrow> cert_issuedTo c = Some i \<Longrightarrow> find_user_id d i = Some u \<Longrightarrow> \<not> isDisabledStatus (usr_status u)"
  using assms by (cases "cert_status c"; auto simp: cert_error_def split: if_splits option.splits)+

text \<open>A host that authenticates with its own token accepts a certificate only if it is
  active, inside its validity, names the principal, was issued in the host's organization for
  this very host, belongs to an account that is not disabled (when that check is on), and -
  unless the lookup of the access request fails, which is let through - the request behind it
  is still approved and unexpired.\<close>

theorem verify_host_binding:
  assumes "verify cu clk df af serial prin (Some (sid, oid)) d = (w, d')" and "vf_valid w"
  shows "\<exists>n c. js_bigint serial = Some n \<and> find (\<lambda>c. cert_serial c = n) (certs d) = Some c
    \<and> cert_status c = CERT_ACTIVE \<and> cert_validAfter c \<le> clk 0 \<and> clk 0 < cert_validBefore c
    \<and> prin \<in> set (cert_principals c) \<and> cert_org c = oid \<and> cert_issuedFor c = Some sid
    \<and> (cu \<longrightarrow> (\<forall>i u. cert_issuedTo c = Some i \<longrightarrow> find_user_id d i = Some u \<longrightarrow> \<not> isDisabledStatus (usr_status u)))
    \<and> (\<not> af \<longrightarrow> (\<forall>ar. find (\<lambda>r. req_certificate r = Some (cert_id c)) (requests d) = Some ar \<longrightarrow> request_live (clk 1) ar))"
proof -
  from assms obtain n c where n: "js_bigint serial = Some n" "find (\<lambda>c. cert_serial c = n) (certs d) = Some c"
    and e: "cert_error cu (clk 0) prin (Some (sid, oid)) d c = None"
    and l: "\<And>ar. \<not> af \<Longrightarrow> find (\<lambda>r. req_certificate r = Some (cert_id c)) (requests d) = Some ar \<Longrightarrow> request_live (clk 1) ar"
    by (rule verify_validD) blast
  from cert_error_NoneD [OF e] n l show ?thesis by blast
qed

definition c_mem :: certificate where
  "c_mem = new_cert ''c1'' 0 x_mem ''mem@x'' 60 (''sig'', 77, ''ca'')"

definition cert_db :: db where
  "cert_db = sample_db\<lparr>certs := [c_mem], requests := []\<rparr>"

lemma verify_host_binding_witness:
  "\<exists>w d'. verify True (\<lambda>_. 5) False False ''77'' ''app'' (Some (''sdev'', ''o'')) cert_db = (w, d') \<and> vf_valid w
     \<and> (\<exists>c. find (\<lambda>c. cert_serial c = 77) (certs cert_db) = Some c \<and> cert_issuedFor c = Some ''sdev'')"
proof -
  have v: "vf_valid (fst (verify True (\<lambda>_. 5) False False ''77'' ''app'' (Some (''sdev'', ''o'')) cert_db))" by code_simp
  obtain w d' where w: "verify True (\<lambda>_. 5) False False ''77'' ''app'' (Some (''sdev'', ''o'')) cert_db = (w, d')" by force
  have "js_bigint ''77'' = Some 77" by code_simp
  with verify_host_binding [OF w] v w show ?thesis by auto
qed

section \<open>Revocation is final\<close>

text \<open>
  The contract of an operation on the certificate table: a revoked certificate stays found
  under its serial, and stays revoked.
\<close>

definition revoked_serial :: "int \<Rightarrow> db \<Rightarrow> bool" where
  "revoked_serial n d \<longleftrightarrow>
     (\<exists>c. find (\<lambda>c. cert_serial c = n) (certs d) = Some c \<and> cert_status c = CERT_REVOKED)"

locale cert_operation =
  fixes step :: "'a \<Rightarrow> db \<Rightarrow> db"
  assumes keeps_revoked: "revoked_serial n d \<Longrightarrow> revoked_serial n (step x d)"
begin

lemma run_keeps_revoked: "revoked_serial n d \<Longrightarrow> revoked_serial n (fold step xs d)"
  by (induction xs arbitrary: d) (simp_all add: keeps_revoked)

end

lemma find_append_Some: "find P xs = Some x \<Longrightarrow> find P (xs @ ys) = Some x"
  by (induction xs) (auto split: if_splits)

lemma revoked_update:
  assumes "\<And>c. cert_serial (f c) = cert_serial c"
    and "\<And>c. P c \<Longrightarrow> cert_status c = CERT_REVOKED \<Longrightarrow> cert_status (f c) = CERT_REVOKED"
    and "revoked_serial n d" and "certs d' = update_where P f (certs d)"
  shows "revoked_serial n d'"
proof -
  from assms(3) obtain c where c: "find (\<lambda>c. cert_serial c = n) (certs d) = Some c" "cert_status c = CERT_REVOKED"
    by (auto simp: revoked_serial_def)
  have "find (\<lambda>c. cert_serial c = n) (certs d') = Some (if P c then f c else c)"
    unfolding assms(4) by (subst find_update_where) (simp_all add: assms(1) c(1))
  then show ?thesis using assms(2) c(2) by (auto simp: revoked_serial_def)
qed

lemma revokeCertificate_keeps:
  "revoked_serial n d \<Longrightarrow> revoked_serial n (snd (revokeCertificate now cid rb d))"
  unfolding revokeCertificate_def
  by (auto split: option.splits simp: add_audit_def update_cert_def
      intro!: revoked_update [where f = "\<lambda>c. c\<lparr>cert_status := CERT_REVOKED, cert_revokedAt := Some now,
        cert_revokedBy := rb\<rparr>" and P = "\<lambda>c. cert_id c = cid" and d = d])

interpretation revoke_op: cert_operation "\<lambda>(now, oid, cid, rb) d. snd (revokeCert now oid cid rb d)"
  by unfold_locales (auto simp: revokeCert_def revokeCertificate_keeps split: prod.splits)

interpretation expire_op: cert_operation "\<lambda>(now, oid) d. snd (markCertsExpired now oid d)"
proof (unfold_locales, clarsimp)
  fix n d now oid assume "revoked_serial n d"
  then show "revoked_serial n (snd (markCertsExpired now oid d))"
    by (rule revoked_update [rotated 2, where f = "\<lambda>c. c\<lparr>cert_status := CERT_EXPIRED\<rparr>" and
          P = "\<lambda>c. cert_status c = CERT_ACTIVE \<and> cert_validBefore c < now \<and> (oid = [] \<or> cert_org c = oid)"])
      (simp_all add: markCertsExpired_def Let_def)
qed

interpretation issue_op: cert_operation "\<lambda>(sg, newId, now, x) d. snd (issue sg newId now x d)"
proof (unfold_locales, clarsimp)
  fix n d sg newId now x assume r: "revoked_serial n d"
  have "certs (snd (issue sg newId now x d)) = certs d \<or> (\<exists>c. certs (snd (issue sg newId now x d)) = certs d @ [c])"
    by (auto simp: issue_def Let_def add_audit_def add_cert_def split: option.splits sum.splits)
  with r show "revoked_serial n (snd (issue sg newId now x d))"
    by (auto simp: revoked_serial_def find_append_Some)
qed

text \<open>Any sequence of issuing, revoking and expiring.\<close>

datatype cert_op =
    OpIssue signer id int issue_params
  | OpRevoke int id id "id option"
  | OpExpire int id

fun run_cert_op :: "cert_op \<Rightarrow> db \<Rightarrow> db" where
  "run_cert_op (OpIssue sg i now x) d = snd (issue sg i now x d)"
| "run_cert_op (OpRevoke now oid cid rb) d = snd (revokeCert now oid cid rb d)"
| "run_cert_op (OpExpire now oid) d = snd (markCertsExpired now oid d)"

interpretation any_cert_op: cert_operation run_cert_op
proof
  fix n d x assume r: "revoked_serial n d"
  show "revoked_serial n (run_cert_op x d)"
    using revoke_op.keeps_revoked [OF r] expire_op.keeps_revoked [OF r] issue_op.keeps_revoked [OF r]
    by (cases x) force+
qed

lemma verify_revoked:
  assumes "revoked_serial n d" and "js_bigint serial = Some n"
  shows "\<not> vf_valid (fst (verify cu clk df af serial prin agent d))"
proof
  assume v: "vf_valid (fst (verify cu clk df af serial prin agent d))"
  obtain w d' where w: "verify cu clk df af serial prin agent d = (w, d')" by force
  with v have "vf_valid w" by simp
  with w obtain n' c where "js_bigint serial = Some n'" "find (\<lambda>c. cert_serial c = n') (certs d) = Some c"
    "cert_error cu (clk 0) prin agent d c = None" by (rule verify_validD)
  with assms cert_error_NoneD(1) [of cu "clk 0" prin agent d c] show False by (auto simp: revoked_serial_def)
qed

text \<open>C37: Revocation is final: once a certificate is revoked, no sequence of issuing, revoking
  and expiring makes any host accept its serial again, with or without a host token.\<close>

theorem revocation_final:
  assumes "revokeCert now oid cid rb d = (Inr (), d')"
    and "find (\<lambda>c. cert_serial c = n) (certs d) = Some c" and "cert_id c = cid" and "js_bigint serial = Some n"
  shows "\<not> vf_valid (fst (verify cu clk df af serial prin agent (fold run_cert_op ops d')))"
proof (rule verify_revoked [OF any_cert_op.run_keeps_revoked assms(4)])
  let ?f = "\<lambda>c. c\<lparr>cert_status := CERT_REVOKED, cert_revokedAt := Some now, cert_revokedBy := rb\<rparr>"
  have "certs d' = update_where (\<lambda>c. cert_id c = cid) ?f (certs d)"
    using assms(1) by (auto simp: revokeCert_def revokeCertificate_def add_audit_def update_cert_def
        split: if_splits option.splits)
  then have "find (\<lambda>c. cert_serial c = n) (certs d') = Some (?f c)"
    using assms(2,3) by (simp add: find_update_where)
  then show "revoked_serial n d'" by (simp add: revoked_serial_def)
qed

lemma revocation_final_witness:
  "\<exists>d'. revokeCert 9 ''o'' ''c1'' (Some ''adm'') cert_db = (Inr (), d') \<and>
     \<not> vf_valid (fst (verify True (\<lambda>_. 10) False False ''77'' ''app'' None
          (fold run_cert_op [OpExpire 70000 [], OpIssue echo_signer ''c2'' 11 x_mem] d')))"
proof -
  have "fst (revokeCert 9 ''o'' ''c1'' (Some ''adm'') cert_db) = Inr ()" by code_simp
  then obtain d' where r: "revokeCert 9 ''o'' ''c1'' (Some ''adm'') cert_db = (Inr (), d')" by (metis prod.collapse)
  have "find (\<lambda>c. cert_serial c = 77) (certs cert_db) = Some c_mem" "cert_id c_mem = ''c1''" "js_bigint ''77'' = Some 77"
    by code_simp+
  from revocation_final [OF r this] r show ?thesis by blast
qed

text \<open>
  The audit entry of a revocation is filed under the resource type of a key pair, not of a
  certificate, and names no actor.
\<close>

lemma revocation_audit_misfiled:
  "map (\<lambda>a. (aud_action a, aud_resourceType a, aud_actor a))
     (audits (snd (revokeCert 9 ''o'' ''c1'' (Some ''adm'') cert_db))) =
   [(''certificate.revoked'', ''CaKeyPair'', None)]"
  by code_simp

end
