(* ===== verification/Sessions.thy ===== *)
theory Sessions
  imports Certs
begin

text \<open>
  Session rows (\<open>backend/src/services/sessionService.js\<close>): opening, ending and terminating a
  session, and the reads, which are narrowed by customer scope.
\<close>

section \<open>Opening and ending\<close>

record session_params =
  sp_org :: id
  sp_user :: id
  sp_server :: "id option"
  sp_certificate :: "id option"
  sp_request :: "id option"
  sp_type :: "protocol option"
  sp_authMethod :: string
  sp_targetHost :: "string option"
  sp_clientIp :: "string option"
  sp_meta :: "json option"

definition createSession :: "id \<Rightarrow> int \<Rightarrow> session_params \<Rightarrow> db \<Rightarrow> session_row res \<times> db" where
  "createSession newId now x d =
     (if sp_org x = [] then (Inl (api_error 400 ''orgId is required''), d)
      else if sp_user x = [] then (Inl (api_error 400 ''userId is required''), d)
      else case sp_type x of
        None \<Rightarrow> (Inl (api_error 400 (''sessionType must be '' @ sq ''SSH'' @ '' or '' @ sq ''RDP'')), d)
      | Some t \<Rightarrow>
          let r = \<lparr>ses_id = newId, ses_org = sp_org x, ses_user = sp_user x, ses_server = sp_server x,
                   ses_request = sp_request x, ses_protocol = t,
                   ses_authMethod = (if sp_authMethod x = [] then ''certificate'' else sp_authMethod x),
                   ses_targetHost = sp_targetHost x, ses_clientIp = sp_clientIp x,
                   ses_certificate = sp_certificate x, ses_status = SES_ACTIVE, ses_startedAt = now,
                   ses_endedAt = None, ses_durationSeconds = None,
                   ses_meta = (case sp_meta x of None \<Rightarrow> JNull | Some j \<Rightarrow> j), ses_recording = None\<rparr>
          in (Inr r, d\<lparr>sessions := sessions d @ [r]\<rparr>))"

definition update_session :: "id \<Rightarrow> (session_row \<Rightarrow> session_row) \<Rightarrow> db \<Rightarrow> db" where
  "update_session sid f d = d\<lparr>sessions := update_where (\<lambda>r. ses_id r = sid) f (sessions d)\<rparr>"

text \<open>\<open>{ ...meta, ...patch }\<close>\<close>

definition meta_patch :: "(string \<times> json) list \<Rightarrow> json \<Rightarrow> json" where
  "meta_patch patch m = fold (\<lambda>(k, v) j. json_put j k v) patch m"

definition close_row :: "session_status \<Rightarrow> int \<Rightarrow> int \<Rightarrow> (string \<times> json) list option \<Rightarrow> session_row \<Rightarrow> session_row" where
  "close_row st now started patch r =
     r\<lparr>ses_status := st, ses_endedAt := Some now,
       ses_durationSeconds := Some (math_floor_div (now - started) 1000),
       ses_meta := (case patch of None \<Rightarrow> ses_meta r | Some p \<Rightarrow> meta_patch p (ses_meta r))\<rparr>"

text \<open>\<open>end\<close> writes whatever the row's status is; it does not look whether the session is active.\<close>

definition endSession ::
    "int \<Rightarrow> id \<Rightarrow> session_status \<Rightarrow> (string \<times> json) list option \<Rightarrow> db \<Rightarrow> session_row res \<times> db" where
  "endSession now sid st patch d =
     (if sid = [] then (Inl (api_error 400 ''sessionId is required''), d)
      else if st = SES_ACTIVE then (Inl (api_error 400 (''status must be '' @ sq ''ENDED'' @ '' or '' @ sq ''TERMINATED'')), d)
      else case find_session d sid of
        None \<Rightarrow> (Inl (api_error 404 ''Session not found''), d)
      | Some r \<Rightarrow>
          (Inr (close_row st now (ses_startedAt r) patch r),
           update_session sid (close_row st now (ses_startedAt r) patch) d))"

definition ses_status_name :: "session_status \<Rightarrow> string" where
  "ses_status_name s =
     (case s of SES_ACTIVE \<Rightarrow> ''ACTIVE'' | SES_ENDED \<Rightarrow> ''ENDED'' | SES_TERMINATED \<Rightarrow> ''TERMINATED'')"

definition terminateRow :: "int \<Rightarrow> id \<Rightarrow> id \<Rightarrow> id option \<Rightarrow> db \<Rightarrow> session_row res \<times> db" where
  "terminateRow now oid sid by_user d =
     (if oid = [] then (Inl (api_error 400 ''orgId is required''), d)
      else if sid = [] then (Inl (api_error 400 ''sessionId is required''), d)
      else case find (\<lambda>r. ses_id r = sid \<and> ses_org r = oid) (sessions d) of
        None \<Rightarrow> (Inl (api_error 404 ''Session not found''), d)
      | Some r \<Rightarrow>
          if ses_status r \<noteq> SES_ACTIVE
          then (Inl (api_error 409 (''Session is not active (current status: '' @ ses_status_name (ses_status r) @ '')'')), d)
          else
            let patch = [(''terminatedBy'', json_opt by_user), (''terminatedAt'', JNum now)]
            in (Inr (close_row SES_TERMINATED now (ses_startedAt r) (Some patch) r),
                update_session sid (close_row SES_TERMINATED now (ses_startedAt r) (Some patch)) d))"

section \<open>Reads\<close>

definition getSessionById :: "db \<Rightarrow> id \<Rightarrow> id \<Rightarrow> scope \<Rightarrow> id \<Rightarrow> session_row res" where
  "getSessionById d oid sid sc caller =
     (if oid = [] then Inl (api_error 400 ''orgId is required'')
      else if sid = [] then Inl (api_error 400 ''id is required'')
      else case find (\<lambda>r. ses_id r = sid \<and> ses_org r = oid \<and> sessionScopeWhere sc caller d r) (sessions d) of
        None \<Rightarrow> Inl (api_error 404 ''Session not found'')
      | Some r \<Rightarrow> Inr r)"

record session_filters =
  sf_user :: id
  sf_server :: id
  sf_authMethod :: string
  sf_protocol :: "protocol option"
  sf_env :: "environment option"
  sf_customer :: id
  sf_clientIp :: string
  sf_search :: string

definition session_server :: "db \<Rightarrow> session_row \<Rightarrow> server option" where
  "session_server d r = Option.bind (ses_server r) (\<lambda>sid. find (\<lambda>s. srv_id s = sid) (servers d))"

text \<open>\<open>buildExtraClauses\<close>: each clause narrows.\<close>

definition extra_clauses :: "db \<Rightarrow> session_filters \<Rightarrow> session_row \<Rightarrow> bool" where
  "extra_clauses d f r \<longleftrightarrow>
     (let sv = session_server d r; q = js_trim (sf_search f); u = find_user_id d (ses_user r) in
      (sf_user f = [] \<or> ses_user r = sf_user f) \<and>
      (sf_server f = [] \<or> ses_server r = Some (sf_server f)) \<and>
      (sf_authMethod f = [] \<or> ses_authMethod r = sf_authMethod f) \<and>
      (case sf_protocol f of None \<Rightarrow> True | Some p \<Rightarrow> ses_protocol r = p) \<and>
      (case sf_env f of None \<Rightarrow> True | Some e \<Rightarrow> holds (\<lambda>s. srv_env s = e) sv) \<and>
      (sf_customer f = [] \<or> holds (\<lambda>s. srv_customer s = sf_customer f) sv) \<and>
      (sf_clientIp f = [] \<or> opt_contains (sf_clientIp f) (ses_clientIp r)) \<and>
      (q = [] \<or>
        opt_contains q (map_option srv_hostname sv) \<or> opt_contains q (Option.bind sv srv_displayName) \<or>
        opt_contains q (map_option srv_ip sv) \<or> opt_contains q (ses_targetHost r) \<or>
        opt_contains q (map_option usr_name u) \<or> opt_contains q (map_option usr_email u) \<or>
        opt_contains q (ses_clientIp r)))"

definition session_where ::
    "db \<Rightarrow> id \<Rightarrow> scope \<Rightarrow> id \<Rightarrow> session_status option \<Rightarrow> int option \<Rightarrow> int option \<Rightarrow> session_filters \<Rightarrow>
     session_row \<Rightarrow> bool" where
  "session_where d oid sc caller st from_t to_t f r \<longleftrightarrow>
     ses_org r = oid \<and> sessionScopeWhere sc caller d r \<and>
     (case st of None \<Rightarrow> True | Some s \<Rightarrow> ses_status r = s) \<and>
     (case from_t of None \<Rightarrow> True | Some t \<Rightarrow> t \<le> ses_startedAt r) \<and>
     (case to_t of None \<Rightarrow> True | Some t \<Rightarrow> ses_startedAt r \<le> t) \<and> extra_clauses d f r"

text \<open>The rows of \<open>listActive\<close>, newest first.\<close>

definition listActive :: "db \<Rightarrow> id \<Rightarrow> scope \<Rightarrow> id \<Rightarrow> session_filters \<Rightarrow> session_row list res" where
  "listActive d oid sc caller f =
     (if oid = [] then Inl (api_error 400 ''orgId is required'')
      else Inr (sort_key (\<lambda>r. - ses_startedAt r)
             (filter (session_where d oid sc caller (Some SES_ACTIVE) None None f) (sessions d))))"

text \<open>The caller's own recent servers, one entry per server.\<close>

definition recent_rows :: "db \<Rightarrow> id \<Rightarrow> id \<Rightarrow> int \<Rightarrow> session_row list" where
  "recent_rows d oid uid since =
     filter (\<lambda>r. ses_org r = oid \<and> ses_user r = uid \<and> ses_protocol r = SSH \<and> ses_server r \<noteq> None \<and>
       ses_authMethod r \<noteq> ''quick_connect'' \<and> since \<le> ses_startedAt r) (sessions d)"

definition listRecentServersForUser ::
    "db \<Rightarrow> int \<Rightarrow> id \<Rightarrow> id \<Rightarrow> int \<Rightarrow> nat \<Rightarrow> scope \<Rightarrow> (server \<times> int \<times> nat) list res" where
  "listRecentServersForUser d now oid uid days limit sc =
     (if oid = [] \<or> uid = [] then Inl (api_error 400 ''orgId and userId are required'')
      else
        let since = now - min (max days 1) 30 * 86400 * 1000;
            rows = recent_rows d oid uid since;
            sids = uniq (List.map_filter ses_server rows);
            grouped = map (\<lambda>i. let rs = filter (\<lambda>r. ses_server r = Some i) rows
                              in (i, fold max (map ses_startedAt rs) since, length rs)) sids;
            top = take (min (max limit 1) 50) (sort_key (\<lambda>(i, t, n). - t) grouped)
        in Inr (List.map_filter (\<lambda>(i, t, n).
             map_option (\<lambda>s. (s, t, n))
               (find (\<lambda>s. srv_id s = i \<and> srv_org s = oid \<and> serverScopeWhere sc s) (servers d))) top))"

section \<open>Lemmas\<close>

lemma close_row_keeps [simp]:
  "ses_id (close_row st now t p r) = ses_id r" "ses_org (close_row st now t p r) = ses_org r"
  "ses_status (close_row st now t p r) = st" "ses_endedAt (close_row st now t p r) = Some now"
  by (simp_all add: close_row_def)

interpretation session_close: keyed_update ses_id "close_row st now t p"
  for st :: session_status and now t :: int and p :: "(string \<times> json) list option"
  by unfold_locales simp

lemma find_session_update:
  "find_session (update_session sid (close_row st now t p) d) i =
     map_option (\<lambda>r. if ses_id r = sid then close_row st now t p r else r) (find_session d i)"
  by (simp add: find_session_def update_session_def session_close.find_key)

lemma update_session_frames [simp]:
  "requests (update_session sid f d) = requests d" "certs (update_session sid f d) = certs d"
  "audits (update_session sid f d) = audits d" "users (update_session sid f d) = users d"
  "notifications (update_session sid f d) = notifications d" "servers (update_session sid f d) = servers d"
  by (simp_all add: update_session_def)

end
