(* ===== verification/Hub.thy ===== *)
theory Hub
  imports Sessions "HOL-Library.Word"
begin

text \<open>
  The registry of live terminals (\<open>backend/src/services/terminalHub.js\<close>): the replay buffer,
  sockets that come and go, the detach timer, and ending a session. The module's maps and the
  effects it has on sockets and on ssh2 are fields of one record, \<open>world\<close>, next to the database.
\<close>

type_synonym byte = "8 word"

section \<open>The replay buffer\<close>

record ring =
  rb_max :: nat
  rb_chunks :: "byte list list"
  rb_size :: nat

definition RING_BUFFER_MAX_BYTES :: nat where
  "RING_BUFFER_MAX_BYTES = 512 * 1024"

definition new_ring :: "nat \<Rightarrow> ring" where
  "new_ring m = \<lparr>rb_max = m, rb_chunks = [], rb_size = 0\<rparr>"

text \<open>The loop of \<open>push\<close>: whole chunks leave at the front while more than one is kept.\<close>

fun drop_old :: "nat \<Rightarrow> byte list list \<Rightarrow> nat \<Rightarrow> byte list list \<times> nat" where
  "drop_old m (c # c2 # cs) sz =
     (if m < sz then drop_old m (c2 # cs) (sz - length c) else (c # c2 # cs, sz))"
| "drop_old m cs sz = (cs, sz)"

fun trim_single :: "nat \<Rightarrow> byte list list \<times> nat \<Rightarrow> byte list list \<times> nat" where
  "trim_single m ([c], sz) =
     (if m < sz then (let t = drop (length c - m) c in ([t], length t)) else ([c], sz))"
| "trim_single m (cs, sz) = (cs, sz)"

definition ring_push :: "byte list \<Rightarrow> ring \<Rightarrow> ring" where
  "ring_push buf r =
     (if buf = [] then r
      else case trim_single (rb_max r) (drop_old (rb_max r) (rb_chunks r @ [buf]) (rb_size r + length buf)) of
        (cs, sz) \<Rightarrow> r\<lparr>rb_chunks := cs, rb_size := sz\<rparr>)"

text \<open>\<open>Buffer.concat(list, total)\<close> cuts or zero-fills the concatenation to the given length.\<close>

definition toBuffer :: "ring \<Rightarrow> byte list" where
  "toBuffer r =
     (let b = concat (rb_chunks r) in take (rb_size r) b @ replicate (rb_size r - length b) 0)"

section \<open>Records of live sessions\<close>

datatype connect_spec =
    QuickConnect json
  | AccessRequestSpec id string

datatype stored_spec =
    SealedQuick string
  | StoredRequest id string

text \<open>\<open>encrypt \<circ> JSON.stringify\<close> and its inverse are arguments.\<close>

definition encodeConnectSpec :: "(json \<Rightarrow> string) \<Rightarrow> connect_spec option \<Rightarrow> stored_spec option" where
  "encodeConnectSpec seal s =
     (case s of None \<Rightarrow> None
      | Some (QuickConnect rest) \<Rightarrow> Some (SealedQuick (seal rest))
      | Some (AccessRequestSpec rid p) \<Rightarrow> Some (StoredRequest rid p))"

definition decodeConnectSpec :: "(string \<Rightarrow> json res) \<Rightarrow> stored_spec option \<Rightarrow> connect_spec option res" where
  "decodeConnectSpec unseal s =
     (case s of None \<Rightarrow> Inr None
      | Some (SealedQuick t) \<Rightarrow> (case unseal t of Inl e \<Rightarrow> Inl e | Inr j \<Rightarrow> Inr (Some (QuickConnect j)))
      | Some (StoredRequest rid p) \<Rightarrow> Inr (Some (AccessRequestSpec rid p)))"

record hub_meta =
  hm_label :: string
  hm_host :: string
  hm_port :: int
  hm_user :: string
  hm_authMethod :: string
  hm_server :: string
  hm_request :: id

record hub_rec =
  hr_id :: id
  hr_org :: id
  hr_user :: id
  hr_rows :: int
  hr_cols :: int
  hr_sockets :: "nat list"
  hr_buffer :: ring
  hr_recording :: "string option"
  hr_meta :: hub_meta
  hr_spec :: "stored_spec option"
  hr_arExpires :: "int option"
  hr_detachedAt :: "int option"
  hr_detachTimer :: "int option"
  hr_startedAt :: int
  hr_lastActivity :: int
  hr_destroyed :: bool

datatype wire =
    WRaw "byte list"
  | WAttached id nat
  | WEnded string
  | WClose string

text \<open>
  \<open>w_hub\<close> is the map \<open>sessions\<close> in insertion order (a record leaves it in the same step that
  sets its \<open>ended\<close> flag, so every record in it is one that has not ended); \<open>w_open\<close> are the
  sockets that are open, \<open>w_out\<close> what was sent to sockets, \<open>w_in\<close> what was written to the
  shells, \<open>w_closed\<close> the sessions whose stream and client were closed, \<open>w_recorded\<close> what the
  recording writers received. The last three fields belong to the RDP tunnel.
\<close>

record world =
  w_db :: db
  w_ttl :: int
  w_hub :: "hub_rec list"
  w_open :: "nat list"
  w_out :: "(nat \<times> wire) list"
  w_in :: "(id \<times> byte list) list"
  w_closed :: "id list"
  w_recorded :: "(id \<times> byte list) list"
  w_rdpByConn :: "(id \<times> id) list"
  w_rdpConn :: "(id \<times> id) list"
  w_rdpClosed :: "id list"

definition hub_get :: "id \<Rightarrow> world \<Rightarrow> hub_rec option" where
  "hub_get sid w = find (\<lambda>r. hr_id r = sid) (w_hub w)"

definition hub_upd :: "id \<Rightarrow> (hub_rec \<Rightarrow> hub_rec) \<Rightarrow> world \<Rightarrow> world" where
  "hub_upd sid f w = w\<lparr>w_hub := update_where (\<lambda>r. hr_id r = sid) f (w_hub w)\<rparr>"

text \<open>\<open>sessions.set(id, rec)\<close>: an existing key keeps its place.\<close>

definition hub_put :: "hub_rec \<Rightarrow> world \<Rightarrow> world" where
  "hub_put r w =
     (if hub_get (hr_id r) w = None then w\<lparr>w_hub := w_hub w @ [r]\<rparr>
      else hub_upd (hr_id r) (\<lambda>_. r) w)"

definition hub_delete :: "id \<Rightarrow> world \<Rightarrow> world" where
  "hub_delete sid w = w\<lparr>w_hub := filter (\<lambda>r. hr_id r \<noteq> sid) (w_hub w)\<rparr>"

definition has :: "id \<Rightarrow> world \<Rightarrow> bool" where
  "has sid w \<longleftrightarrow> hub_get sid w \<noteq> None"

definition hub_error :: "string \<Rightarrow> nat \<Rightarrow> string \<Rightarrow> err" where
  "hub_error code ws msg = ApiError (if ws = 4403 then 403 else 404) msg (Some code)"

definition requireOwned :: "id \<Rightarrow> id \<Rightarrow> id \<Rightarrow> world \<Rightarrow> hub_rec res" where
  "requireOwned sid uid oid w =
     (case hub_get sid w of
        None \<Rightarrow> Inl (hub_error ''SESSION_NOT_FOUND'' 4404 ''Session not found'')
      | Some r \<Rightarrow>
          if hr_user r \<noteq> uid \<or> hr_org r \<noteq> oid
          then Inl (hub_error ''SESSION_FORBIDDEN'' 4403 ''You do not have access to this session'')
          else Inr r)"

section \<open>Output\<close>

text \<open>\<open>ws.send\<close> behind the test of \<open>readyState\<close>; failures are ignored.\<close>

definition send :: "wire \<Rightarrow> nat \<Rightarrow> world \<Rightarrow> world" where
  "send m ws w = (if ws \<in> set (w_open w) then w\<lparr>w_out := w_out w @ [(ws, m)]\<rparr> else w)"

definition fanout :: "wire \<Rightarrow> nat list \<Rightarrow> world \<Rightarrow> world" where
  "fanout m socks w = fold (send m) socks w"

definition close_socket :: "string \<Rightarrow> nat \<Rightarrow> world \<Rightarrow> world" where
  "close_socket why ws w = (send (WClose why) ws w)\<lparr>w_open := filter (\<lambda>s. s \<noteq> ws) (w_open w)\<rparr>"

text \<open>\<open>onData\<close> of \<open>wireStream\<close>.\<close>

definition on_data :: "int \<Rightarrow> id \<Rightarrow> byte list \<Rightarrow> world \<Rightarrow> world" where
  "on_data now sid chunk w =
     (case hub_get sid w of None \<Rightarrow> w
      | Some r \<Rightarrow>
          let w1 = hub_upd sid (\<lambda>r. r\<lparr>hr_lastActivity := now, hr_buffer := ring_push chunk (hr_buffer r)\<rparr>) w;
              w2 = (if hr_recording r = None then w1 else w1\<lparr>w_recorded := w_recorded w1 @ [(sid, chunk)]\<rparr>)
          in fanout (WRaw chunk) (hr_sockets r) w2)"

section \<open>What the owner sees\<close>

record public_shape =
  pb_id :: id
  pb_label :: "string option"
  pb_host :: "string option"
  pb_port :: "int option"
  pb_user :: "string option"
  pb_authMethod :: "string option"
  pb_server :: "string option"
  pb_request :: "id option"
  pb_attachedCount :: nat
  pb_state :: string
  pb_startedAt :: int
  pb_lastActivity :: int
  pb_detachedAt :: "int option"
  pb_endsAt :: "int option"
  pb_canDuplicate :: bool

definition str_or_null :: "string \<Rightarrow> string option" where
  "str_or_null s = (if s = [] then None else Some s)"

definition ends_at :: "int option \<Rightarrow> int option \<Rightarrow> int option" where
  "ends_at detach ar =
     (case (detach, ar) of
        (Some a, Some b) \<Rightarrow> Some (if a < b then a else b)
      | (Some a, None) \<Rightarrow> Some a
      | (None, b) \<Rightarrow> b)"

definition toPublicShape :: "int \<Rightarrow> hub_rec \<Rightarrow> public_shape" where
  "toPublicShape ttl r =
     (let m = hr_meta r in
      \<lparr>pb_id = hr_id r, pb_label = str_or_null (hm_label m), pb_host = str_or_null (hm_host m),
       pb_port = (if hm_port m = 0 then None else Some (hm_port m)), pb_user = str_or_null (hm_user m),
       pb_authMethod = str_or_null (hm_authMethod m), pb_server = str_or_null (hm_server m),
       pb_request = str_or_null (hm_request m), pb_attachedCount = length (hr_sockets r),
       pb_state = (if 0 < length (hr_sockets r) then ''attached'' else ''detached''),
       pb_startedAt = hr_startedAt r, pb_lastActivity = hr_lastActivity r, pb_detachedAt = hr_detachedAt r,
       pb_endsAt = ends_at (map_option (\<lambda>t. t + ttl * 1000) (hr_detachedAt r)) (hr_arExpires r),
       pb_canDuplicate = (hr_spec r \<noteq> None)\<rparr>)"

section \<open>Sockets come and go\<close>

record hub_params =
  hp_id :: id
  hp_org :: id
  hp_user :: id
  hp_rows :: int
  hp_cols :: int
  hp_recording :: "string option"
  hp_meta :: hub_meta
  hp_spec :: "connect_spec option"
  hp_arExpires :: "int option"

definition hub_create :: "(json \<Rightarrow> string) \<Rightarrow> int \<Rightarrow> hub_params \<Rightarrow> world \<Rightarrow> public_shape \<times> world" where
  "hub_create seal now x w =
     (let r = \<lparr>hr_id = hp_id x, hr_org = hp_org x, hr_user = hp_user x, hr_rows = hp_rows x, hr_cols = hp_cols x,
               hr_sockets = [], hr_buffer = new_ring RING_BUFFER_MAX_BYTES, hr_recording = hp_recording x,
               hr_meta = hp_meta x, hr_spec = encodeConnectSpec seal (hp_spec x), hr_arExpires = hp_arExpires x,
               hr_detachedAt = None, hr_detachTimer = None, hr_startedAt = now, hr_lastActivity = now,
               hr_destroyed = False\<rparr>
      in (toPublicShape (w_ttl w) r, hub_put r w))"

text \<open>\<open>Set.add\<close>\<close>

definition sock_add :: "nat \<Rightarrow> nat list \<Rightarrow> nat list" where
  "sock_add ws ss = (if ws \<in> set ss then ss else ss @ [ws])"

definition addSocket :: "id \<Rightarrow> nat \<Rightarrow> world \<Rightarrow> world" where
  "addSocket sid ws w =
     hub_upd sid (\<lambda>r. r\<lparr>hr_sockets := sock_add ws (hr_sockets r), hr_detachTimer := None, hr_detachedAt := None\<rparr>) w"

text \<open>\<open>parseInt(rows, 10) || rec.rows\<close>, at least 1; the window change of the shell is not kept.\<close>

definition resize :: "id \<Rightarrow> int \<Rightarrow> int \<Rightarrow> world \<Rightarrow> world" where
  "resize sid rows cols w =
     hub_upd sid (\<lambda>r. r\<lparr>hr_rows := max 1 (if rows = 0 then hr_rows r else rows),
                        hr_cols := max 1 (if cols = 0 then hr_cols r else cols)\<rparr>) w"

definition session_audit :: "id \<Rightarrow> id \<Rightarrow> string \<Rightarrow> id \<Rightarrow> json \<Rightarrow> audit" where
  "session_audit oid actor act sid m =
     \<lparr>aud_org = oid, aud_actor = Some actor, aud_action = act, aud_resourceType = ''Session'',
      aud_resource = Some sid, aud_meta = m\<rparr>"

definition audit_w :: "audit \<Rightarrow> world \<Rightarrow> world" where
  "audit_w a w = w\<lparr>w_db := add_audit a (w_db w)\<rparr>"

definition attach :: "int \<Rightarrow> id \<Rightarrow> nat \<Rightarrow> id \<Rightarrow> id \<Rightarrow> int \<Rightarrow> int \<Rightarrow> world \<Rightarrow> public_shape res \<times> world" where
  "attach now sid ws uid oid rows cols w =
     (case requireOwned sid uid oid w of Inl e \<Rightarrow> (Inl e, w)
      | Inr r \<Rightarrow>
          let w1 = hub_upd sid (\<lambda>r. r\<lparr>hr_detachTimer := None, hr_detachedAt := None,
                     hr_sockets := sock_add ws (hr_sockets r), hr_lastActivity := now\<rparr>) w;
              w2 = (if rows \<noteq> 0 \<and> cols \<noteq> 0 then resize sid rows cols w1 else w1);
              replay = toBuffer (hr_buffer r);
              w3 = send (WAttached sid (length replay)) ws w2;
              w4 = (if replay \<noteq> [] then send (WRaw replay) ws w3 else w3);
              w5 = audit_w (session_audit (hr_org r) uid ''session.attach'' sid JNull) w4
          in (case hub_get sid w5 of None \<Rightarrow> (Inl TypeError, w5) | Some r' \<Rightarrow> (Inr (toPublicShape (w_ttl w) r'), w5)))"

definition detach :: "int \<Rightarrow> id \<Rightarrow> nat \<Rightarrow> world \<Rightarrow> world" where
  "detach now sid ws w =
     (case hub_get sid w of None \<Rightarrow> w
      | Some r \<Rightarrow>
          if ws \<notin> set (hr_sockets r) then w
          else
            let rest = filter (\<lambda>s. s \<noteq> ws) (hr_sockets r);
                w1 = hub_upd sid (\<lambda>r. r\<lparr>hr_sockets := rest\<rparr>) w
            in if rest \<noteq> [] then w1
               else audit_w (session_audit (hr_org r) (hr_user r) ''session.detach'' sid JNull)
                      (hub_upd sid (\<lambda>r. r\<lparr>hr_detachedAt := Some now,
                                           hr_detachTimer := Some (now + w_ttl w * 1000)\<rparr>) w1))"

definition write_in :: "int \<Rightarrow> id \<Rightarrow> byte list \<Rightarrow> world \<Rightarrow> world" where
  "write_in now sid bytes w =
     (case hub_get sid w of None \<Rightarrow> w
      | Some r \<Rightarrow>
          if hr_destroyed r then w
          else (hub_upd sid (\<lambda>r. r\<lparr>hr_lastActivity := now\<rparr>) w)\<lparr>w_in := w_in w @ [(sid, bytes)]\<rparr>)"

section \<open>Ending\<close>

definition TERMINATED_REASONS :: "string list" where
  "TERMINATED_REASONS = [''terminated'', ''error'']"

text \<open>
  Up to the first \<open>await\<close>: the record leaves the map, its sockets are told and closed, the
  stream and the client are closed.
\<close>

definition end_sync :: "hub_rec \<Rightarrow> string \<Rightarrow> world \<Rightarrow> world" where
  "end_sync r reason w =
     (let w1 = fanout (WEnded reason) (hr_sockets r) (hub_delete (hr_id r) w);
          w2 = fold (close_socket (''session '' @ reason)) (hr_sockets r) w1
      in w2\<lparr>w_closed := w_closed w2 @ [hr_id r]\<rparr>)"

text \<open>
  After it: the recording, the session row and the audit entry. A fault is a pair: whether the
  recording's upload gave a result, and whether the write of the row fails.
\<close>

definition end_status :: "string \<Rightarrow> session_status" where
  "end_status reason = (if reason \<in> set TERMINATED_REASONS then SES_TERMINATED else SES_ENDED)"

definition end_finish ::
    "int \<Rightarrow> bool \<times> bool \<Rightarrow> hub_rec \<Rightarrow> string \<Rightarrow> (string \<times> json) list \<Rightarrow> db \<Rightarrow> session_row option \<times> db" where
  "end_finish now fl r reason extra d =
     (let sid = hr_id r;
          d1 = (if hr_recording r \<noteq> None \<and> fst fl
                then update_session sid (\<lambda>s. s\<lparr>ses_recording := hr_recording r\<rparr>) d else d);
          u = (if snd fl then (None, d1)
               else case endSession now sid (end_status reason) (Some ((''endReason'', JStr reason) # extra)) d1 of
                 (Inr s, d2) \<Rightarrow> (Some s, d2)
               | (Inl _, d2) \<Rightarrow> (None, d2))
      in (fst u, add_audit (session_audit (hr_org r) (hr_user r) ''session.end'' sid
                   (JObj [(''reason'', JStr reason)])) (snd u)))"

type_synonym faults = "id \<Rightarrow> bool \<times> bool"

definition end_hub ::
    "int \<Rightarrow> faults \<Rightarrow> id \<Rightarrow> string \<Rightarrow> (string \<times> json) list \<Rightarrow> world \<Rightarrow> session_row option \<times> world" where
  "end_hub now fl sid reason extra w =
     (case hub_get sid w of None \<Rightarrow> (None, w)
      | Some r \<Rightarrow>
          let w1 = end_sync r reason w;
              u = end_finish now (fl sid) r reason extra (w_db w1)
          in (fst u, w1\<lparr>w_db := snd u\<rparr>))"

definition end_ids :: "int \<Rightarrow> faults \<Rightarrow> string \<Rightarrow> id list \<Rightarrow> world \<Rightarrow> world" where
  "end_ids now fl reason ids w = fold (\<lambda>i w. snd (end_hub now fl i reason [] w)) ids w"

definition closeOwned :: "int \<Rightarrow> faults \<Rightarrow> id \<Rightarrow> id \<Rightarrow> id \<Rightarrow> world \<Rightarrow> session_row option res \<times> world" where
  "closeOwned now fl sid uid oid w =
     (case requireOwned sid uid oid w of Inl e \<Rightarrow> (Inl e, w)
      | Inr _ \<Rightarrow> (case end_hub now fl sid ''closed'' [] w of (s, w') \<Rightarrow> (Inr s, w')))"

definition rename :: "id \<Rightarrow> id \<Rightarrow> id \<Rightarrow> string \<Rightarrow> world \<Rightarrow> public_shape res \<times> world" where
  "rename sid uid oid label w =
     (case requireOwned sid uid oid w of Inl e \<Rightarrow> (Inl e, w)
      | Inr r \<Rightarrow>
          let f = (\<lambda>r. r\<lparr>hr_meta := (hr_meta r)\<lparr>hm_label := js_slice 60 label\<rparr>\<rparr>)
          in (Inr (toPublicShape (w_ttl w) (f r)), hub_upd sid f w))"

definition getPublic :: "id \<Rightarrow> id \<Rightarrow> id \<Rightarrow> world \<Rightarrow> public_shape res" where
  "getPublic sid uid oid w =
     (case requireOwned sid uid oid w of Inl e \<Rightarrow> Inl e | Inr r \<Rightarrow> Inr (toPublicShape (w_ttl w) r))"

definition getConnectSpec :: "(string \<Rightarrow> json res) \<Rightarrow> id \<Rightarrow> id \<Rightarrow> id \<Rightarrow> world \<Rightarrow> connect_spec option res" where
  "getConnectSpec unseal sid uid oid w =
     (case requireOwned sid uid oid w of Inl e \<Rightarrow> Inl e | Inr r \<Rightarrow> decodeConnectSpec unseal (hr_spec r))"

definition list_hub :: "id \<Rightarrow> id \<Rightarrow> world \<Rightarrow> public_shape list" where
  "list_hub uid oid w =
     sort_key (\<lambda>p. - pb_startedAt p)
       (map (toPublicShape (w_ttl w)) (filter (\<lambda>r. hr_user r = uid \<and> hr_org r = oid) (w_hub w)))"

section \<open>Timers\<close>

text \<open>The detach timer of a session, once its deadline has come.\<close>

definition detach_timer_fires :: "int \<Rightarrow> faults \<Rightarrow> id \<Rightarrow> world \<Rightarrow> world" where
  "detach_timer_fires now fl sid w =
     (case hub_get sid w of None \<Rightarrow> w
      | Some r \<Rightarrow>
          (case hr_detachTimer r of None \<Rightarrow> w
           | Some t \<Rightarrow> if t \<le> now then snd (end_hub now fl sid ''detached_timeout'' [] w) else w))"

definition cache_expired :: "int \<Rightarrow> hub_rec \<Rightarrow> bool" where
  "cache_expired now r = (case hr_arExpires r of None \<Rightarrow> False | Some t \<Rightarrow> t \<le> now)"

text \<open>The second loop of \<open>checkExpiries\<close>, for one session that has an access request.\<close>

definition check_request :: "int \<Rightarrow> faults \<Rightarrow> hub_rec \<Rightarrow> world \<Rightarrow> world" where
  "check_request now fl r w =
     (if \<not> has (hr_id r) w then w
      else case find_request (w_db w) (hm_request (hr_meta r)) of None \<Rightarrow> w
      | Some ar \<Rightarrow>
          if req_status ar \<in> {REVOKED, DENIED, EXPIRED}
          then snd (end_hub now fl (hr_id r) ''expired'' [] w)
          else (case req_expiresAt ar of None \<Rightarrow> w
                | Some t \<Rightarrow>
                    let w1 = hub_upd (hr_id r) (\<lambda>r. r\<lparr>hr_arExpires := Some t\<rparr>) w
                    in if t \<le> now then snd (end_hub now fl (hr_id r) ''expired'' [] w1) else w1))"

definition checkExpiries :: "int \<Rightarrow> bool \<Rightarrow> faults \<Rightarrow> world \<Rightarrow> world" where
  "checkExpiries now dbFault fl w =
     (let expired = filter (cache_expired now) (w_hub w);
          withAr = filter (\<lambda>r. \<not> cache_expired now r \<and> hm_request (hr_meta r) \<noteq> []) (w_hub w);
          w1 = end_ids now fl ''expired'' (map hr_id expired) w
      in if withAr = [] \<or> dbFault then w1 else fold (check_request now fl) withAr w1)"

section \<open>Ending many\<close>

definition endAllForUser :: "int \<Rightarrow> faults \<Rightarrow> id \<Rightarrow> id \<Rightarrow> string \<Rightarrow> world \<Rightarrow> nat \<times> world" where
  "endAllForUser now fl uid oid reason w =
     (let ids = map hr_id (filter (\<lambda>r. hr_user r = uid \<and> (oid = [] \<or> hr_org r = oid)) (w_hub w))
      in (length ids, end_ids now fl reason ids w))"

definition endAll :: "int \<Rightarrow> faults \<Rightarrow> string \<Rightarrow> world \<Rightarrow> world" where
  "endAll now fl reason w = end_ids now fl reason (map hr_id (w_hub w)) w"

end
