(* ===== verification/HubProps.thy ===== *)
theory HubProps
  imports Hub
begin

text \<open>
  Lemmas on the terminal hub: the replay buffer, what each operation keeps, and how a session
  leaves the registry.
\<close>

section \<open>The replay buffer\<close>

definition total :: "byte list list \<Rightarrow> nat" where
  "total cs = sum_list (map length cs)"

definition ring_ok :: "ring \<Rightarrow> bool" where
  "ring_ok r \<longleftrightarrow> rb_size r = total (rb_chunks r) \<and> rb_size r \<le> rb_max r"

lemma total_simps [simp]: "total [] = 0" "total (c # cs) = length c + total cs"
  "total (xs @ ys) = total xs + total ys"
  by (simp_all add: total_def)

lemma length_concat_total: "length (concat cs) = total cs"
  by (simp add: total_def length_concat)

lemma toBuffer_ok: "ring_ok r \<Longrightarrow> toBuffer r = concat (rb_chunks r)"
  by (simp add: toBuffer_def ring_ok_def length_concat_total Let_def)

lemma drop_old_spec:
  assumes "drop_old m cs sz = (cs', sz')" and "sz = total cs" and "cs \<noteq> []"
  shows "sz' = total cs' \<and> cs' \<noteq> [] \<and> suffix cs' cs \<and> last cs' = last cs
    \<and> (m < sz' \<longrightarrow> length cs' = 1) \<and> (sz \<le> m \<longrightarrow> cs' = cs)"
  using assms
proof (induction m cs sz rule: drop_old.induct)
  case (1 m c c2 cs sz)
  show ?case
  proof (cases "m < sz")
    case True
    with 1 have "sz' = total cs' \<and> cs' \<noteq> [] \<and> suffix cs' (c2 # cs) \<and> last cs' = last (c2 # cs)
      \<and> (m < sz' \<longrightarrow> length cs' = 1)" by simp
    with True show ?thesis by (auto intro: suffix_ConsI)
  next
    case False
    with 1 show ?thesis by auto
  qed
qed auto

lemma trim_single_spec:
  assumes "trim_single m (cs, sz) = (cs', sz')" and "sz = total cs" and "m < sz \<longrightarrow> length cs = 1" and "cs \<noteq> []"
  shows "sz' = total cs' \<and> sz' \<le> m \<and> suffix (concat cs') (concat cs)
    \<and> suffix (drop (length (last cs) - m) (last cs)) (concat cs') \<and> (sz \<le> m \<longrightarrow> cs' = cs)"
proof (cases "m < sz")
  case True
  with assms(3) obtain c where c: "cs = [c]" by (auto simp: length_Suc_conv)
  with assms True show ?thesis by (auto simp: Let_def suffix_drop)
next
  case False
  then have "cs' = cs" "sz' = sz" using assms(1) by (cases "(m, (cs, sz))" rule: trim_single.cases; auto)+
  moreover have "suffix (drop (length (last cs) - m) (last cs)) (concat cs)"
  proof -
    have "concat cs = concat (butlast cs) @ last cs"
      using assms(4) append_butlast_last_id [of cs] by (metis concat_append concat.simps append_Nil2)
    then show ?thesis using suffix_drop by (metis suffix_append suffixI suffix_order.trans)
  qed
  ultimately show ?thesis using False assms(2) by auto
qed

lemma ring_push_spec:
  assumes "ring_ok r"
  shows "ring_ok (ring_push buf r) \<and> rb_max (ring_push buf r) = rb_max r
    \<and> suffix (toBuffer (ring_push buf r)) (toBuffer r @ buf)
    \<and> suffix (drop (length buf - rb_max r) buf) (toBuffer (ring_push buf r))
    \<and> (length (toBuffer r @ buf) \<le> rb_max r \<longrightarrow> toBuffer (ring_push buf r) = toBuffer r @ buf)"
proof (cases "buf = []")
  case True
  then show ?thesis using assms by (simp add: ring_push_def)
next
  case False
  let ?cs = "rb_chunks r @ [buf]" and ?sz = "rb_size r + length buf" and ?m = "rb_max r"
  obtain c1 s1 where d: "drop_old ?m ?cs ?sz = (c1, s1)" by force
  obtain c2 s2 where t: "trim_single ?m (c1, s1) = (c2, s2)" by force
  have sz: "?sz = total ?cs" using assms by (simp add: ring_ok_def)
  note D = drop_old_spec [OF d sz]
  have T: "s2 = total c2 \<and> s2 \<le> ?m \<and> suffix (concat c2) (concat c1)
    \<and> suffix (drop (length (last c1) - ?m) (last c1)) (concat c2) \<and> (s1 \<le> ?m \<longrightarrow> c2 = c1)"
    using D by (intro trim_single_spec [OF t]) auto
  have p: "ring_push buf r = r\<lparr>rb_chunks := c2, rb_size := s2\<rparr>" using False d t by (simp add: ring_push_def)
  have ok: "ring_ok (ring_push buf r)" using T by (simp add: p ring_ok_def)
  have b: "toBuffer r @ buf = concat ?cs" using assms by (simp add: toBuffer_ok)
  obtain pre where "?cs = pre @ c1" using D by (auto simp: suffix_def)
  then have "concat ?cs = concat pre @ concat c1" by (metis concat_append)
  then have "suffix (concat c1) (concat ?cs)" by (simp add: suffix_def)
  then have "suffix (concat c2) (concat ?cs)" using T suffix_order.trans by blast
  moreover have "c2 = ?cs" if "length (concat ?cs) \<le> ?m"
  proof -
    have "?sz \<le> ?m" using that sz by (simp add: length_concat_total)
    then have "c1 = ?cs" "s1 = ?sz" using D sz by auto
    then show ?thesis using T \<open>?sz \<le> ?m\<close> by simp
  qed
  moreover have "toBuffer (ring_push buf r) = concat c2" "rb_max (ring_push buf r) = ?m"
    using toBuffer_ok [OF ok] by (simp_all add: p)
  moreover have "suffix (drop (length buf - ?m) buf) (concat c2)" using T D by simp
  ultimately show ?thesis using ok b by metis
qed

lemma new_ring_ok: "ring_ok (new_ring m)" "toBuffer (new_ring m) = []" "rb_max (new_ring m) = m"
  by (simp_all add: ring_ok_def new_ring_def toBuffer_def)

lemma ring_pushes:
  "ring_ok r \<Longrightarrow> ring_ok (fold ring_push cs r) \<and> rb_max (fold ring_push cs r) = rb_max r
    \<and> suffix (toBuffer (fold ring_push cs r)) (toBuffer r @ concat cs)
    \<and> (length (toBuffer r @ concat cs) \<le> rb_max r \<longrightarrow> toBuffer (fold ring_push cs r) = toBuffer r @ concat cs)"
proof (induction cs arbitrary: r)
  case (Cons c cs)
  note P = ring_push_spec [OF Cons.prems, of c]
  then have ok: "ring_ok (ring_push c r)" by blast
  note I = Cons.IH [OF ok]
  have "suffix (toBuffer (ring_push c r) @ concat cs) ((toBuffer r @ c) @ concat cs)"
    using P unfolding suffix_def by (metis append_assoc)
  with I P show ?case by (auto intro: suffix_order.trans)
qed simp

section \<open>Frames\<close>

lemma hub_upd_frames [simp]:
  "w_db (hub_upd sid f w) = w_db w" "w_open (hub_upd sid f w) = w_open w" "w_out (hub_upd sid f w) = w_out w"
  "w_ttl (hub_upd sid f w) = w_ttl w" "w_closed (hub_upd sid f w) = w_closed w"
  "w_hub (hub_upd sid f w) = update_where (\<lambda>r. hr_id r = sid) f (w_hub w)"
  by (simp_all add: hub_upd_def)

lemma send_frames [simp]:
  "w_db (send m s w) = w_db w" "w_open (send m s w) = w_open w" "w_hub (send m s w) = w_hub w"
  "w_ttl (send m s w) = w_ttl w" "w_closed (send m s w) = w_closed w"
  by (simp_all add: send_def)

lemma fanout_frames [simp]:
  "w_db (fanout m ss w) = w_db w" "w_open (fanout m ss w) = w_open w" "w_hub (fanout m ss w) = w_hub w"
  "w_ttl (fanout m ss w) = w_ttl w" "w_closed (fanout m ss w) = w_closed w"
  by (induction ss arbitrary: w) (simp_all add: fanout_def)

lemma w_out_fanout:
  "w_out (fanout m ss w) = w_out w @ map (\<lambda>s. (s, m)) (filter (\<lambda>s. s \<in> set (w_open w)) ss)"
  by (induction ss arbitrary: w) (simp_all add: fanout_def send_def)

lemma close_sockets_frames [simp]:
  "w_db (fold (close_socket y) ss w) = w_db w" "w_hub (fold (close_socket y) ss w) = w_hub w"
  "w_ttl (fold (close_socket y) ss w) = w_ttl w" "w_closed (fold (close_socket y) ss w) = w_closed w"
  "w_open (fold (close_socket y) ss w) = filter (\<lambda>s. s \<notin> set ss) (w_open w)"
  by (induction ss arbitrary: w) (simp_all add: close_socket_def conj_commute)

lemma out_close_sockets: "set (w_out w) \<subseteq> set (w_out (fold (close_socket y) ss w))"
proof (induction ss arbitrary: w)
  case (Cons s ss)
  have "set (w_out w) \<subseteq> set (w_out (close_socket y s w))" by (auto simp: close_socket_def send_def)
  with Cons.IH [of "close_socket y s w"] show ?case by simp
qed simp

lemma audit_w_frames [simp]:
  "w_open (audit_w a w) = w_open w" "w_hub (audit_w a w) = w_hub w" "w_out (audit_w a w) = w_out w"
  "w_ttl (audit_w a w) = w_ttl w" "w_closed (audit_w a w) = w_closed w"
  "requests (w_db (audit_w a w)) = requests (w_db w)" "sessions (w_db (audit_w a w)) = sessions (w_db w)"
  by (simp_all add: audit_w_def add_audit_def)

lemma hub_get_upd:
  assumes "\<And>r. hr_id (f r) = hr_id r"
  shows "hub_get i (hub_upd sid f w) = map_option (\<lambda>r. if hr_id r = sid then f r else r) (hub_get i w)"
  unfolding hub_get_def hub_upd_frames by (rule find_update_where) (simp add: assms)

lemma hub_get_cong: "w_hub w = w_hub w' \<Longrightarrow> hub_get i w = hub_get i w'"
  by (simp add: hub_get_def)

lemma hub_get_SomeD: "hub_get i w = Some r \<Longrightarrow> r \<in> set (w_hub w) \<and> hr_id r = i"
  by (auto simp: hub_get_def dest: find_SomeD)

lemma hub_get_None: "hub_get i w = None \<longleftrightarrow> i \<notin> hr_id ` set (w_hub w)"
  by (auto simp: hub_get_def find_None_iff_all)

lemma update_hub_none: "i \<notin> hr_id ` set rs \<Longrightarrow> update_where (\<lambda>r. hr_id r = i) f rs = rs"
  by (rule update_where_none) auto

lemma filter_hub_none: "i \<notin> hr_id ` set rs \<Longrightarrow> filter (\<lambda>r. hr_id r \<noteq> i) rs = rs"
  by (auto simp: filter_id_conv)

section \<open>Ending\<close>

lemma end_hub_None: "hub_get sid w = None \<Longrightarrow> end_hub now fl sid reason extra w = (None, w)"
  by (simp add: end_hub_def)

lemma end_finish_requests [simp]: "requests (snd (end_finish now f r reason extra d)) = requests d"
  by (auto simp: end_finish_def Let_def endSession_def split: option.splits sum.splits prod.splits)

lemma end_hub_frames [simp]:
  "w_hub (snd (end_hub now fl sid reason extra w)) = filter (\<lambda>r. hr_id r \<noteq> sid) (w_hub w)"
  "w_ttl (snd (end_hub now fl sid reason extra w)) = w_ttl w"
  "requests (w_db (snd (end_hub now fl sid reason extra w))) = requests (w_db w)"
proof -
  show "w_hub (snd (end_hub now fl sid reason extra w)) = filter (\<lambda>r. hr_id r \<noteq> sid) (w_hub w)"
  proof (cases "hub_get sid w")
    case None
    then show ?thesis by (simp add: end_hub_None filter_hub_none hub_get_None)
  next
    case (Some r)
    then show ?thesis by (auto simp: end_hub_def Let_def end_sync_def hub_delete_def dest: hub_get_SomeD)
  qed
qed (auto simp: end_hub_def Let_def end_sync_def hub_delete_def split: option.splits)

lemma end_ids_frames [simp]:
  "w_hub (end_ids now fl reason ids w) = filter (\<lambda>r. hr_id r \<notin> set ids) (w_hub w)"
  "w_ttl (end_ids now fl reason ids w) = w_ttl w"
  "requests (w_db (end_ids now fl reason ids w)) = requests (w_db w)"
  unfolding end_ids_def by (induction ids arbitrary: w) (simp_all add: conj_commute)

text \<open>The row of a session that ends.\<close>

lemma end_finish_row:
  assumes "\<not> snd f" and "find_session d (hr_id r) = Some s" and "hr_id r \<noteq> []"
  obtains s' where "fst (end_finish now f r reason extra d) = Some s'"
    "find_session (snd (end_finish now f r reason extra d)) (hr_id r) = Some s'"
    "ses_status s' = end_status reason" "ses_endedAt s' = Some now" "ses_user s' = ses_user s"
proof -
  let ?rec = "\<lambda>s. s\<lparr>ses_recording := hr_recording r\<rparr>"
  let ?d1 = "if hr_recording r \<noteq> None \<and> fst f then update_session (hr_id r) ?rec d else d"
  let ?s1 = "if hr_recording r \<noteq> None \<and> fst f then ?rec s else s"
  have id0: "ses_id s = hr_id r" using assms(2) by (auto simp: find_session_def dest: find_SomeD)
  have s1: "find_session ?d1 (hr_id r) = Some ?s1" "ses_user ?s1 = ses_user s"
    using assms(2) id0 by (simp_all add: find_session_def update_session_def find_update_where)
  let ?p = "Some ((''endReason'', JStr reason) # extra)"
  let ?s = "close_row (end_status reason) now (ses_startedAt ?s1) ?p ?s1"
  have id1: "ses_id ?s1 = hr_id r" using id0 by simp
  have e: "endSession now (hr_id r) (end_status reason) ?p ?d1 =
      (Inr ?s, update_session (hr_id r) (close_row (end_status reason) now (ses_startedAt ?s1) ?p) ?d1)"
    using s1 assms(3) by (simp add: endSession_def end_status_def)
  show thesis
  proof (rule that [of ?s])
    show "fst (end_finish now f r reason extra d) = Some ?s"
      using assms(1) e by (simp add: end_finish_def Let_def)
    have "find_session (update_session (hr_id r) (close_row (end_status reason) now (ses_startedAt ?s1) ?p) ?d1) (hr_id r) = Some ?s"
      using s1 id1 by (simp add: find_session_update)
    then show "find_session (snd (end_finish now f r reason extra d)) (hr_id r) = Some ?s"
      using assms(1) e by (simp add: end_finish_def Let_def find_session_def add_audit_def)
  qed (simp_all add: s1(2), simp add: close_row_def s1(2))
qed

section \<open>The invariant\<close>

text \<open>
  Records have ids of their own; a replay buffer respects its bound; the detach timer is armed
  exactly while the session is marked detached, for the time to live from then on, and only when
  no socket is attached.
\<close>

definition rec_ok :: "int \<Rightarrow> hub_rec \<Rightarrow> bool" where
  "rec_ok ttl r \<longleftrightarrow>
     ring_ok (hr_buffer r) \<and> rb_max (hr_buffer r) = RING_BUFFER_MAX_BYTES \<and> distinct (hr_sockets r) \<and>
     hr_detachTimer r = map_option (\<lambda>t. t + ttl * 1000) (hr_detachedAt r) \<and>
     (hr_detachTimer r \<noteq> None \<longrightarrow> hr_sockets r = [])"

definition hub_ok :: "world \<Rightarrow> bool" where
  "hub_ok w \<longleftrightarrow> distinct (map hr_id (w_hub w)) \<and> (\<forall>r \<in> set (w_hub w). rec_ok (w_ttl w) r)"

locale hub_operation =
  fixes step :: "'a \<Rightarrow> world \<Rightarrow> world"
  assumes keeps_ok: "hub_ok w \<Longrightarrow> hub_ok (step x w)"
begin

lemma run_keeps_ok: "hub_ok w \<Longrightarrow> hub_ok (fold step xs w)"
  by (induction xs arbitrary: w) (simp_all add: keeps_ok)

end

lemma hub_ok_upd:
  assumes "hub_ok w" and "w_hub w' = update_where (\<lambda>r. hr_id r = sid) f (w_hub w)" and "w_ttl w' = w_ttl w"
    and "\<And>r. hr_id (f r) = hr_id r" and "\<And>r. r \<in> set (w_hub w) \<Longrightarrow> rec_ok (w_ttl w) r \<Longrightarrow> hr_id r = sid \<Longrightarrow> rec_ok (w_ttl w) (f r)"
  shows "hub_ok w'"
  using assms by (auto simp: hub_ok_def map_update_where set_update_where)

lemma hub_ok_filter:
  "hub_ok w \<Longrightarrow> w_hub w' = filter P (w_hub w) \<Longrightarrow> w_ttl w' = w_ttl w \<Longrightarrow> hub_ok w'"
  by (auto simp: hub_ok_def distinct_map_filter)

lemma hub_ok_same: "hub_ok w \<Longrightarrow> w_hub w' = w_hub w \<Longrightarrow> w_ttl w' = w_ttl w \<Longrightarrow> hub_ok w'"
  by (simp add: hub_ok_def)

lemma distinct_sock_add: "distinct ss \<Longrightarrow> distinct (sock_add s ss)"
  by (simp add: sock_add_def)

interpretation end_op: hub_operation "\<lambda>(now, fl, sid, reason, extra) w. snd (end_hub now fl sid reason extra w)"
  by unfold_locales (auto intro: hub_ok_filter)

interpretation end_ids_op: hub_operation "\<lambda>(now, fl, reason, ids) w. end_ids now fl reason ids w"
  by unfold_locales (auto intro: hub_ok_filter)

interpretation socket_op: hub_operation "\<lambda>(sid, ws) w. addSocket sid ws w"
  by unfold_locales
    (auto simp: addSocket_def rec_ok_def distinct_sock_add elim!: hub_ok_upd)

interpretation resize_op: hub_operation "\<lambda>(sid, rows, cols) w. resize sid rows cols w"
  by unfold_locales (auto simp: resize_def rec_ok_def elim!: hub_ok_upd)

interpretation data_op: hub_operation "\<lambda>(now, sid, chunk) w. on_data now sid chunk w"
proof (unfold_locales, clarsimp)
  fix w now sid chunk assume w: "hub_ok w"
  show "hub_ok (on_data now sid chunk w)"
  proof (cases "hub_get sid w")
    case None
    then show ?thesis using w by (simp add: on_data_def)
  next
    case (Some r)
    show ?thesis
      by (rule hub_ok_upd [OF w, where sid = sid and
            f = "\<lambda>r. r\<lparr>hr_lastActivity := now, hr_buffer := ring_push chunk (hr_buffer r)\<rparr>"])
        (simp_all add: on_data_def Some Let_def rec_ok_def ring_push_spec)
  qed
qed

interpretation write_op: hub_operation "\<lambda>(now, sid, bytes) w. write_in now sid bytes w"
proof (unfold_locales, clarsimp)
  fix w now sid bytes assume w: "hub_ok w"
  have "hub_ok (hub_upd sid (\<lambda>r. r\<lparr>hr_lastActivity := now\<rparr>) w)"
    by (rule hub_ok_upd [OF w, where sid = sid and f = "\<lambda>r. r\<lparr>hr_lastActivity := now\<rparr>"])
      (simp_all add: rec_ok_def)
  then show "hub_ok (write_in now sid bytes w)"
    using w by (auto simp: write_in_def hub_ok_def split: option.splits)
qed

lemma hub_ok_audit [simp]: "hub_ok (audit_w a w) \<longleftrightarrow> hub_ok w"
  by (simp add: hub_ok_def)

lemma hub_ok_send [simp]: "hub_ok (send m s w) \<longleftrightarrow> hub_ok w"
  by (simp add: hub_ok_def)

interpretation attach_op: hub_operation "\<lambda>(now, sid, ws, uid, oid, rows, cols) w. snd (attach now sid ws uid oid rows cols w)"
proof (unfold_locales, clarsimp)
  fix w now sid ws uid oid rows cols assume w: "hub_ok w"
  let ?f = "\<lambda>r. r\<lparr>hr_detachTimer := None, hr_detachedAt := None,
                  hr_sockets := sock_add ws (hr_sockets r), hr_lastActivity := now\<rparr>"
  have "hub_ok (hub_upd sid ?f w)"
    by (rule hub_ok_upd [OF w, where sid = sid and f = ?f]) (simp_all add: rec_ok_def distinct_sock_add)
  moreover then have "hub_ok (resize sid rows cols (hub_upd sid ?f w))"
    using resize_op.keeps_ok [of _ "(sid, rows, cols)"] by simp
  ultimately show "hub_ok (snd (attach now sid ws uid oid rows cols w))"
    using w by (simp add: attach_def Let_def split: sum.splits option.splits)
qed

interpretation detach_op: hub_operation "\<lambda>(now, sid, ws) w. detach now sid ws w"
proof (unfold_locales, clarsimp)
  fix w now sid ws assume w: "hub_ok w"
  show "hub_ok (detach now sid ws w)"
  proof (cases "hub_get sid w")
    case None
    then show ?thesis using w by (simp add: detach_def)
  next
    case (Some r)
    then have r: "r \<in> set (w_hub w)" "hr_id r = sid" by (auto dest: hub_get_SomeD)
    define rest where "rest = filter (\<lambda>s. s \<noteq> ws) (hr_sockets r)"
    have d: "distinct rest" using r w by (auto simp: hub_ok_def rec_ok_def rest_def)
    have e: "hr_sockets r = [] \<Longrightarrow> rest = []" by (simp add: rest_def)
    have only: "x = r" if "x \<in> set (w_hub w)" "hr_id x = sid" for x
      using that r w by (metis hub_ok_def distinct_map inj_on_eq_iff)
    let ?w1 = "hub_upd sid (\<lambda>r. r\<lparr>hr_sockets := rest\<rparr>) w"
    have w1: "hub_ok ?w1"
    proof (rule hub_ok_upd [OF w, where sid = sid and f = "\<lambda>r. r\<lparr>hr_sockets := rest\<rparr>"])
      fix x assume x: "x \<in> set (w_hub w)" "rec_ok (w_ttl w) x" "hr_id x = sid"
      have "x = r" by (rule only [OF x(1,3)])
      with x(2) d e show "rec_ok (w_ttl w) (x\<lparr>hr_sockets := rest\<rparr>)" by (simp add: rec_ok_def)
    qed simp_all
    have empty: "hr_sockets x = rest" if "x \<in> set (w_hub ?w1)" "hr_id x = sid" for x
    proof -
      from that(1) obtain y where y: "x = (if hr_id y = sid then y\<lparr>hr_sockets := rest\<rparr> else y)"
        by (auto elim: in_update_whereE)
      with that(2) show ?thesis by (cases "hr_id y = sid") simp_all
    qed
    let ?f = "\<lambda>r. r\<lparr>hr_detachedAt := Some now, hr_detachTimer := Some (now + w_ttl w * 1000)\<rparr>"
    have w2: "hub_ok (hub_upd sid ?f ?w1)" if "rest = []"
    proof (rule hub_ok_upd [OF w1, where sid = sid and f = ?f])
      fix x assume "x \<in> set (w_hub ?w1)" "rec_ok (w_ttl ?w1) x" "hr_id x = sid"
      with empty [of x] that show "rec_ok (w_ttl ?w1) (?f x)" by (simp add: rec_ok_def)
    qed simp_all
    show ?thesis
    proof (cases "ws \<in> set (hr_sockets r)")
      case False
      then show ?thesis using w Some by (simp add: detach_def)
    next
      case True
      then show ?thesis using w1 w2 Some
        by (cases "rest = []") (simp_all add: detach_def Let_def flip: rest_def)
    qed
  qed
qed

interpretation rename_op: hub_operation "\<lambda>(sid, uid, oid, label) w. snd (rename sid uid oid label w)"
proof (unfold_locales, clarsimp)
  fix w sid uid oid label assume w: "hub_ok w"
  let ?f = "\<lambda>r. r\<lparr>hr_meta := (hr_meta r)\<lparr>hm_label := js_slice 60 label\<rparr>\<rparr>"
  have "hub_ok (hub_upd sid ?f w)"
    by (rule hub_ok_upd [OF w, where sid = sid and f = ?f]) (simp_all add: rec_ok_def)
  then show "hub_ok (snd (rename sid uid oid label w))"
    using w by (auto simp: rename_def Let_def split: sum.splits)
qed

interpretation timer_op: hub_operation "\<lambda>(now, fl, sid) w. detach_timer_fires now fl sid w"
  by unfold_locales
    (auto simp: detach_timer_fires_def split: option.splits intro: end_op.keeps_ok [of _ "(_, _, _, _, _)", simplified])

lemma hub_ok_create:
  assumes "hub_ok w" and "hub_get (hp_id x) w = None"
  shows "hub_ok (snd (hub_create seal now x w))"
  using assms new_ring_ok [of RING_BUFFER_MAX_BYTES]
  by (simp add: hub_create_def Let_def hub_put_def hub_get_None hub_ok_def rec_ok_def)

section \<open>The expiry watcher\<close>

text \<open>What the database says of the request behind a session.\<close>

definition request_dead :: "int \<Rightarrow> db \<Rightarrow> hub_rec \<Rightarrow> bool" where
  "request_dead now d r =
     (case find_request d (hm_request (hr_meta r)) of None \<Rightarrow> False
      | Some ar \<Rightarrow> req_status ar \<in> {REVOKED, DENIED, EXPIRED} \<or>
          (case req_expiresAt ar of None \<Rightarrow> False | Some t \<Rightarrow> t \<le> now))"

definition refresh :: "db \<Rightarrow> hub_rec \<Rightarrow> hub_rec" where
  "refresh d r =
     (case find_request d (hm_request (hr_meta r)) of None \<Rightarrow> r
      | Some ar \<Rightarrow> (case req_expiresAt ar of None \<Rightarrow> r | Some t \<Rightarrow> r\<lparr>hr_arExpires := Some t\<rparr>))"

lemma refresh_keeps [simp]: "hr_id (refresh d r) = hr_id r" "hr_meta (refresh d r) = hr_meta r"
  "hr_buffer (refresh d r) = hr_buffer r" "hr_sockets (refresh d r) = hr_sockets r"
  "hr_detachTimer (refresh d r) = hr_detachTimer r" "hr_detachedAt (refresh d r) = hr_detachedAt r"
  by (simp_all add: refresh_def split: option.splits)

lemma find_request_cong: "requests d = requests d' \<Longrightarrow> find_request d i = find_request d' i"
  by (simp add: find_request_def)

lemma request_dead_cong: "requests d = requests d' \<Longrightarrow> request_dead now d r = request_dead now d' r"
  by (simp add: request_dead_def find_request_cong [of d d'])

lemma refresh_cong: "requests d = requests d' \<Longrightarrow> refresh d r = refresh d' r"
  by (simp add: refresh_def find_request_cong [of d d'])

definition check_step :: "int \<Rightarrow> db \<Rightarrow> id set \<Rightarrow> hub_rec list \<Rightarrow> hub_rec list" where
  "check_step now d I rs =
     map (\<lambda>r. if hr_id r \<in> I then refresh d r else r)
       (filter (\<lambda>r. \<not> (hr_id r \<in> I \<and> request_dead now d r)) rs)"

lemma check_step_dead:
  assumes "\<And>x. x \<in> set rs \<Longrightarrow> hr_id x = hr_id r \<Longrightarrow> hr_meta x = hr_meta r" and "request_dead now d r"
  shows "check_step now d {hr_id r} rs = filter (\<lambda>x. hr_id x \<noteq> hr_id r) rs"
proof -
  have "request_dead now d x" if "x \<in> set rs" "hr_id x = hr_id r" for x
    using assms(1) [OF that] assms(2) by (simp add: request_dead_def)
  then have "filter (\<lambda>x. \<not> (hr_id x \<in> {hr_id r} \<and> request_dead now d x)) rs = filter (\<lambda>x. hr_id x \<noteq> hr_id r) rs"
    by (intro filter_cong) auto
  then show ?thesis by (auto simp: check_step_def intro!: map_idI)
qed

lemma check_step_alive:
  assumes "\<And>x. x \<in> set rs \<Longrightarrow> hr_id x = hr_id r \<Longrightarrow> hr_meta x = hr_meta r" and "\<not> request_dead now d r"
  shows "check_step now d {hr_id r} rs =
    (case Option.bind (find_request d (hm_request (hr_meta r))) req_expiresAt of None \<Rightarrow> rs
     | Some t \<Rightarrow> update_where (\<lambda>x. hr_id x = hr_id r) (\<lambda>x. x\<lparr>hr_arExpires := Some t\<rparr>) rs)"
proof -
  have "\<not> request_dead now d x" if "x \<in> set rs" "hr_id x = hr_id r" for x
    using assms(1) [OF that] assms(2) by (simp add: request_dead_def)
  then have "filter (\<lambda>x. \<not> (hr_id x \<in> {hr_id r} \<and> request_dead now d x)) rs = rs"
    by (auto simp: filter_id_conv)
  moreover have "refresh d x = (case Option.bind (find_request d (hm_request (hr_meta r))) req_expiresAt of None \<Rightarrow> x
      | Some t \<Rightarrow> x\<lparr>hr_arExpires := Some t\<rparr>)" if "x \<in> set rs" "hr_id x = hr_id r" for x
    using assms(1) [OF that] by (simp add: refresh_def split: option.splits)
  ultimately show ?thesis
    by (cases "Option.bind (find_request d (hm_request (hr_meta r))) req_expiresAt")
      (auto simp: check_step_def update_where_def intro!: map_idI)
qed

lemma filter_update_where:
  assumes "\<And>x. hr_id (f x) = hr_id x"
  shows "filter (\<lambda>x. hr_id x \<noteq> i) (update_where (\<lambda>x. hr_id x = i) f rs) = filter (\<lambda>x. hr_id x \<noteq> i) rs"
  using assms by (induction rs) (auto simp: update_where_def)

lemma check_request_hub:
  assumes same: "\<And>x. x \<in> set (w_hub w) \<Longrightarrow> hr_id x = hr_id r \<Longrightarrow> hr_meta x = hr_meta r"
  shows "w_hub (check_request now fl r w) = check_step now (w_db w) {hr_id r} (w_hub w)"
proof (cases "has (hr_id r) w")
  case False
  then have n: "hr_id r \<notin> hr_id ` set (w_hub w)" by (simp add: has_def hub_get_None)
  then have "\<forall>x \<in> set (w_hub w). hr_id x \<noteq> hr_id r" by (metis image_eqI)
  then have "check_step now (w_db w) {hr_id r} (w_hub w) = w_hub w"
    unfolding check_step_def by (subst filter_True) (auto intro!: map_idI)
  with False show ?thesis by (simp add: check_request_def)
next
  case True
  have dead: "check_step now (w_db w) {hr_id r} (w_hub w) = filter (\<lambda>x. hr_id x \<noteq> hr_id r) (w_hub w)"
    if "request_dead now (w_db w) r"
    by (rule check_step_dead [OF same that])
  have alive: "check_step now (w_db w) {hr_id r} (w_hub w) =
      (case Option.bind (find_request (w_db w) (hm_request (hr_meta r))) req_expiresAt of None \<Rightarrow> w_hub w
       | Some t \<Rightarrow> update_where (\<lambda>x. hr_id x = hr_id r) (\<lambda>x. x\<lparr>hr_arExpires := Some t\<rparr>) (w_hub w))"
    if "\<not> request_dead now (w_db w) r"
    by (rule check_step_alive [OF same that])
  show ?thesis
  proof (cases "find_request (w_db w) (hm_request (hr_meta r))")
    case None
    with True alive show ?thesis by (simp add: check_request_def request_dead_def)
  next
    case (Some ar)
    have "request_dead now (w_db w) r \<longleftrightarrow> req_status ar \<in> {REVOKED, DENIED, EXPIRED} \<or>
        (\<exists>t. req_expiresAt ar = Some t \<and> t \<le> now)"
      using Some by (auto simp: request_dead_def split: option.splits)
    note rd = this
    show ?thesis
    proof (cases "request_dead now (w_db w) r")
      case True
      note D = dead [OF this]
      show ?thesis
      proof (cases "req_status ar \<in> {REVOKED, DENIED, EXPIRED}")
        case True
        then show ?thesis unfolding D check_request_def Some using \<open>has (hr_id r) w\<close> by simp
      next
        case False
        then obtain t where "req_expiresAt ar = Some t" "t \<le> now" using rd \<open>request_dead now (w_db w) r\<close> by blast
        then show ?thesis unfolding D check_request_def Some
          using \<open>has (hr_id r) w\<close> False by (simp add: Let_def filter_update_where)
      qed
    next
      case False
      note A = alive [OF this]
      have "req_status ar \<notin> {REVOKED, DENIED, EXPIRED}" using False rd by blast
      then show ?thesis unfolding A check_request_def Some
        using \<open>has (hr_id r) w\<close> False rd by (cases "req_expiresAt ar") (auto simp: Let_def)
    qed
  qed
qed

lemma check_request_frames [simp]:
  "requests (w_db (check_request now fl r w)) = requests (w_db w)"
  "w_ttl (check_request now fl r w) = w_ttl w"
  by (auto simp: check_request_def Let_def split: option.splits)

text \<open>All the sessions with a request, one after the other.\<close>

lemma check_step_meta:
  "x \<in> set (check_step now d I rs) \<Longrightarrow> \<exists>y \<in> set rs. hr_id y = hr_id x \<and> hr_meta y = hr_meta x"
  by (auto simp: check_step_def)

lemma check_step_refresh_dead: "request_dead now d (refresh d r) = request_dead now d r"
  by (simp add: request_dead_def)

lemma refresh_twice: "refresh d (refresh d r) = refresh d r"
  by (simp add: refresh_def split: option.splits)

lemma check_step_compose: "check_step now d J (check_step now d I rs) = check_step now d (I \<union> J) rs"
  by (induction rs) (auto simp: check_step_def check_step_refresh_dead refresh_twice)

lemma check_requests_hub:
  assumes "\<And>x r. x \<in> set (w_hub w) \<Longrightarrow> r \<in> set rs \<Longrightarrow> hr_id x = hr_id r \<Longrightarrow> hr_meta x = hr_meta r"
  shows "w_hub (fold (check_request now fl) rs w) = check_step now (w_db w) (hr_id ` set rs) (w_hub w)
    \<and> requests (w_db (fold (check_request now fl) rs w)) = requests (w_db w)
    \<and> w_ttl (fold (check_request now fl) rs w) = w_ttl w"
  using assms
proof (induction rs arbitrary: w)
  case Nil
  then show ?case by (simp add: check_step_def)
next
  case (Cons r rs)
  let ?w = "check_request now fl r w"
  have h: "w_hub ?w = check_step now (w_db w) {hr_id r} (w_hub w)"
    by (rule check_request_hub) (rule Cons.prems, simp_all)
  have "w_hub (fold (check_request now fl) rs ?w) = check_step now (w_db ?w) (hr_id ` set rs) (w_hub ?w)
    \<and> requests (w_db (fold (check_request now fl) rs ?w)) = requests (w_db ?w)
    \<and> w_ttl (fold (check_request now fl) rs ?w) = w_ttl ?w"
  proof (rule Cons.IH)
    fix x q assume "x \<in> set (w_hub ?w)" "q \<in> set rs" "hr_id x = hr_id q"
    moreover then obtain y where "y \<in> set (w_hub w)" "hr_id y = hr_id x" "hr_meta y = hr_meta x"
      using h check_step_meta by metis
    ultimately show "hr_meta x = hr_meta q" using Cons.prems [of y q] by simp
  qed
  moreover have "check_step now (w_db ?w) J ys = check_step now (w_db w) J ys" for J ys
  proof -
    have q: "requests (w_db ?w) = requests (w_db w)" by simp
    show ?thesis by (simp only: check_step_def request_dead_cong [OF q] refresh_cong [OF q])
  qed
  ultimately show ?case using h by (simp add: check_step_compose)
qed

definition watched :: "int \<Rightarrow> hub_rec list \<Rightarrow> id set" where
  "watched now rs = hr_id ` set (filter (\<lambda>r. \<not> cache_expired now r \<and> hm_request (hr_meta r) \<noteq> []) rs)"

lemma check_step_none: "check_step now d {} rs = rs"
  by (simp add: check_step_def)

lemma checkExpiries_hub:
  assumes "distinct (map hr_id (w_hub w))"
  shows "w_hub (checkExpiries now False fl w) =
      check_step now (w_db w) (watched now (w_hub w)) (filter (\<lambda>r. \<not> cache_expired now r) (w_hub w))"
    and "requests (w_db (checkExpiries now False fl w)) = requests (w_db w)"
    and "w_ttl (checkExpiries now False fl w) = w_ttl w"
proof -
  let ?E = "filter (cache_expired now) (w_hub w)"
  let ?A = "filter (\<lambda>r. \<not> cache_expired now r \<and> hm_request (hr_meta r) \<noteq> []) (w_hub w)"
  let ?w1 = "end_ids now fl ''expired'' (map hr_id ?E) w"
  have e: "hr_id r \<in> hr_id ` set ?E \<longleftrightarrow> cache_expired now r" if "r \<in> set (w_hub w)" for r
    using that assms by (auto simp: distinct_map dest: inj_onD)
  have h: "w_hub ?w1 = filter (\<lambda>r. \<not> cache_expired now r) (w_hub w)"
    unfolding end_ids_frames set_map by (rule filter_cong) (simp_all only: e)
  have q: "requests (w_db ?w1) = requests (w_db w)" by simp
  have c: "w_hub (fold (check_request now fl) ?A ?w1) = check_step now (w_db ?w1) (hr_id ` set ?A) (w_hub ?w1)
    \<and> requests (w_db (fold (check_request now fl) ?A ?w1)) = requests (w_db ?w1)
    \<and> w_ttl (fold (check_request now fl) ?A ?w1) = w_ttl ?w1"
  proof (rule check_requests_hub)
    fix x r assume "x \<in> set (w_hub ?w1)" "r \<in> set ?A" "hr_id x = hr_id r"
    then have "x = r" using assms by (auto simp: distinct_map dest: inj_onD)
    then show "hr_meta x = hr_meta r" by simp
  qed
  have s: "check_step now (w_db ?w1) J ys = check_step now (w_db w) J ys" for J ys
    by (simp only: check_step_def request_dead_cong [OF q] refresh_cong [OF q])
  have wa: "watched now (w_hub w) = hr_id ` set ?A" by (simp add: watched_def)
  have "w_hub (checkExpiries now False fl w) = check_step now (w_db w) (hr_id ` set ?A) (w_hub ?w1)
    \<and> requests (w_db (checkExpiries now False fl w)) = requests (w_db w)
    \<and> w_ttl (checkExpiries now False fl w) = w_ttl w"
    using c unfolding checkExpiries_def Let_def s
    by (cases "?A = []") (simp_all only: HOL.simp_thms if_True if_False list.set image_empty check_step_none
        end_ids_frames q)
  then show "w_hub (checkExpiries now False fl w) =
      check_step now (w_db w) (watched now (w_hub w)) (filter (\<lambda>r. \<not> cache_expired now r) (w_hub w))"
    "requests (w_db (checkExpiries now False fl w)) = requests (w_db w)"
    "w_ttl (checkExpiries now False fl w) = w_ttl w"
    by (simp_all only: wa h)
qed

end
