(* ===== verification/Terminal.thy ===== *)
theory Terminal
  imports HubProps
begin

text \<open>
  The parts of \<open>backend/src/services/terminalService.js\<close> that open and close sessions: the RDP
  tunnel's bookkeeping, the clean-up at boot, the administrator's force-close, and ending all
  sessions of a user.
\<close>

section \<open>The RDP tunnel\<close>

text \<open>\<open>Map.prototype.set\<close>, \<open>get\<close> and \<open>delete\<close>.\<close>

definition map_put :: "id \<Rightarrow> 'v \<Rightarrow> (id \<times> 'v) list \<Rightarrow> (id \<times> 'v) list" where
  "map_put k v m =
     (if k \<in> fst ` set m then map (\<lambda>p. if fst p = k then (k, v) else p) m else m @ [(k, v)])"

definition map_delete :: "id \<Rightarrow> (id \<times> 'v) list \<Rightarrow> (id \<times> 'v) list" where
  "map_delete k m = filter (\<lambda>p. fst p \<noteq> k) m"

record rdp_settings =
  rs_org :: id
  rs_user :: id
  rs_server :: id
  rs_request :: "id option"
  rs_guacId :: "string option"
  rs_recording :: "string option"

text \<open>
  \<open>on('open')\<close>: a session row, and both maps. \<open>dbFault\<close> is a failed insert.
\<close>

definition rdp_session_params :: "rdp_settings \<Rightarrow> session_params" where
  "rdp_session_params s =
     \<lparr>sp_org = rs_org s, sp_user = rs_user s, sp_server = Some (rs_server s), sp_certificate = None,
      sp_request = rs_request s, sp_type = Some RDP, sp_authMethod = [], sp_targetHost = None, sp_clientIp = None,
      sp_meta = Some (JObj [(''via'', JStr ''guacamole-lite''), (''guacId'', json_opt (rs_guacId s)),
        (''recordingId'', json_opt (rs_recording s))])\<rparr>"

definition rdp_open :: "bool \<Rightarrow> id \<Rightarrow> int \<Rightarrow> id \<Rightarrow> rdp_settings \<Rightarrow> world \<Rightarrow> world" where
  "rdp_open dbFault newId now conn s w =
     (if rs_org s = [] \<or> rs_server s = [] \<or> rs_user s = [] \<or> dbFault then w
      else case createSession newId now (rdp_session_params s) (w_db w) of
        (Inl _, _) \<Rightarrow> w
      | (Inr r, d) \<Rightarrow>
          w\<lparr>w_db := d, w_rdpByConn := map_put conn (ses_id r) (w_rdpByConn w),
            w_rdpConn := map_put (ses_id r) conn (w_rdpConn w)\<rparr>)"

text \<open>\<open>on('close')\<close>: an unknown connection is ignored; a failed write is logged only.\<close>

definition rdp_close :: "bool \<Rightarrow> int \<Rightarrow> id \<Rightarrow> world \<Rightarrow> world" where
  "rdp_close failed now conn w =
     (case map_of (w_rdpByConn w) conn of None \<Rightarrow> w
      | Some sid \<Rightarrow>
          let w1 = w\<lparr>w_rdpByConn := map_delete conn (w_rdpByConn w), w_rdpConn := map_delete sid (w_rdpConn w)\<rparr>
          in if failed then w1 else w1\<lparr>w_db := snd (endSession now sid SES_ENDED None (w_db w1))\<rparr>)"

text \<open>\<open>processConnectionSettings\<close> refuses an expired token (0 and a missing expiry mean none).\<close>

definition rdp_token_expired :: "int \<Rightarrow> int \<Rightarrow> bool" where
  "rdp_token_expired now expiration \<longleftrightarrow> expiration \<noteq> 0 \<and> now > expiration"

section \<open>Boot\<close>

text \<open>The SSH rows no live session stands behind are closed one by one.\<close>

definition orphaned :: "id \<Rightarrow> db \<Rightarrow> session_row list" where
  "orphaned oid d =
     filter (\<lambda>r. ses_status r = SES_ACTIVE \<and> ses_protocol r = SSH \<and> (oid = [] \<or> ses_org r = oid)) (sessions d)"

definition close_orphan :: "(id \<Rightarrow> bool) \<Rightarrow> int \<Rightarrow> id \<Rightarrow> nat \<times> world \<Rightarrow> nat \<times> world" where
  "close_orphan failed now sid acc = (case acc of (n, w) \<Rightarrow>
     if has sid w \<or> failed sid then (n, w)
     else case endSession now sid SES_ENDED (Some [(''endReason'', JStr ''server_restart'')]) (w_db w) of
       (Inl _, _) \<Rightarrow> (n, w)
     | (Inr _, d) \<Rightarrow> (n + 1, w\<lparr>w_db := d\<rparr>))"

definition reconcileOrphanedSessions :: "(id \<Rightarrow> bool) \<Rightarrow> int \<Rightarrow> id \<Rightarrow> world \<Rightarrow> nat \<times> world" where
  "reconcileOrphanedSessions failed now oid w =
     fold (close_orphan failed now) (map ses_id (orphaned oid (w_db w))) (0, w)"

section \<open>Force-close\<close>

definition terminateSession ::
    "int \<Rightarrow> faults \<Rightarrow> id \<Rightarrow> id \<Rightarrow> id option \<Rightarrow> world \<Rightarrow> session_row res \<times> world" where
  "terminateSession now fl oid sid by_user w =
     (if oid = [] then (Inl (api_error 400 ''orgId is required''), w)
      else case hub_get sid w of
        Some r \<Rightarrow>
          if hr_org r \<noteq> oid then (Inl (api_error 404 ''Session not found''), w)
          else (case end_hub now fl sid ''terminated'' [(''terminatedBy'', json_opt by_user)] w of
                  (None, w') \<Rightarrow> (Inl (api_error 409 ''Session is not active''), w')
                | (Some s, w') \<Rightarrow> (Inr s, w'))
      | None \<Rightarrow>
          if snd (fl sid) then (Inl DbError, w)
          else (case terminateRow now oid sid by_user (w_db w) of
                  (Inl e, _) \<Rightarrow> (Inl e, w)
                | (Inr s, d) \<Rightarrow>
                    let w1 = w\<lparr>w_db := d\<rparr>
                    in (Inr s, case map_of (w_rdpConn w) sid of
                          None \<Rightarrow> w1
                        | Some conn \<Rightarrow> w1\<lparr>w_rdpConn := map_delete sid (w_rdpConn w1),
                                          w_rdpClosed := w_rdpClosed w1 @ [conn]\<rparr>)))"

definition terminate_all :: "int \<Rightarrow> faults \<Rightarrow> id \<Rightarrow> id option \<Rightarrow> id list \<Rightarrow> nat \<times> world \<Rightarrow> nat \<times> world" where
  "terminate_all now fl oid by_user ids acc =
     fold (\<lambda>sid (n, w). case terminateSession now fl oid sid by_user w of
       (Inl _, w') \<Rightarrow> (n, w')
     | (Inr _, w') \<Rightarrow> (n + 1, w')) ids acc"

text \<open>\<open>P\<close> is the extra filter: of one server, one user or one access request.\<close>

definition terminateActiveSessionsFor ::
    "int \<Rightarrow> faults \<Rightarrow> id \<Rightarrow> (session_row \<Rightarrow> bool) \<Rightarrow> id option \<Rightarrow> world \<Rightarrow> nat \<times> world" where
  "terminateActiveSessionsFor now fl oid P by_user w =
     terminate_all now fl oid by_user
       (map ses_id (filter (\<lambda>r. ses_org r = oid \<and> ses_status r = SES_ACTIVE \<and> P r) (sessions (w_db w)))) (0, w)"

section \<open>Everything of a user\<close>

definition end_rdp_session :: "(id \<Rightarrow> bool) \<Rightarrow> int \<Rightarrow> string \<Rightarrow> id \<Rightarrow> nat \<times> world \<Rightarrow> nat \<times> world" where
  "end_rdp_session failed now reason sid acc = (case acc of (n, w) \<Rightarrow>
     let w1 = (case map_of (w_rdpConn w) sid of
                 None \<Rightarrow> w
               | Some conn \<Rightarrow> w\<lparr>w_rdpConn := map_delete sid (w_rdpConn w),
                               w_rdpByConn := filter (\<lambda>p. snd p \<noteq> sid) (w_rdpByConn w),
                               w_rdpClosed := w_rdpClosed w @ [conn]\<rparr>)
     in if failed sid then (n, w1)
        else case endSession now sid SES_TERMINATED (Some [(''endReason'', JStr reason)]) (w_db w1) of
          (Inl _, _) \<Rightarrow> (n, w1)
        | (Inr _, d) \<Rightarrow> (n + 1, w1\<lparr>w_db := d\<rparr>))"

definition active_rdp :: "id \<Rightarrow> id \<Rightarrow> db \<Rightarrow> session_row list" where
  "active_rdp oid uid d =
     filter (\<lambda>r. ses_org r = oid \<and> ses_user r = uid \<and> ses_status r = SES_ACTIVE \<and> ses_protocol r = RDP) (sessions d)"

definition endAllSessionsForUser ::
    "int \<Rightarrow> faults \<Rightarrow> bool \<Rightarrow> id \<Rightarrow> id \<Rightarrow> string \<Rightarrow> world \<Rightarrow> nat \<times> world" where
  "endAllSessionsForUser now fl lookupFault oid uid reason w =
     (case endAllForUser now fl uid oid reason w of (n, w1) \<Rightarrow>
        if lookupFault then (n, w1)
        else fold (end_rdp_session (\<lambda>i. snd (fl i)) now reason) (map ses_id (active_rdp oid uid (w_db w1))) (n, w1))"

section \<open>Lemmas\<close>

text \<open>
  Closing operations never reopen a row and never change what it belongs to.
\<close>

definition row_after :: "session_row \<Rightarrow> session_row \<Rightarrow> bool" where
  "row_after r r' \<longleftrightarrow>
     ses_id r' = ses_id r \<and> ses_org r' = ses_org r \<and> ses_user r' = ses_user r \<and> ses_server r' = ses_server r \<and>
     ses_request r' = ses_request r \<and> ses_protocol r' = ses_protocol r \<and>
     (ses_status r' = SES_ACTIVE \<longrightarrow> ses_status r = SES_ACTIVE)"

definition closes :: "db \<Rightarrow> db \<Rightarrow> bool" where
  "closes d d' \<longleftrightarrow> list_all2 row_after (sessions d) (sessions d')"

lemma row_after_refl [simp]: "row_after r r"
  by (simp add: row_after_def)

lemma closes_refl [simp]: "closes d d"
  by (simp add: closes_def list_all2_refl)

lemma closes_trans [trans]: "closes a b \<Longrightarrow> closes b c \<Longrightarrow> closes a c"
  unfolding closes_def by (rule list_all2_trans) (auto simp: row_after_def)

lemma closes_same: "sessions d' = sessions d \<Longrightarrow> closes d d'"
  by (simp add: closes_def list_all2_refl)

lemma closes_update: "(\<And>r. row_after r (f r)) \<Longrightarrow> closes d (update_session sid f d)"
  by (simp add: closes_def update_session_def update_where_def list_all2_map2 list_all2_same)

lemma close_row_after: "st \<noteq> SES_ACTIVE \<Longrightarrow> row_after r (close_row st now t p r)"
  by (simp add: row_after_def close_row_def)

lemma closes_close: "st \<noteq> SES_ACTIVE \<Longrightarrow> closes d (update_session sid (close_row st now t p) d)"
  by (simp add: closes_update close_row_after)

lemma closes_row:
  assumes "closes d d'" and "r' \<in> set (sessions d')"
  obtains r where "r \<in> set (sessions d)" "row_after r r'"
proof -
  from assms(2) obtain i where i: "i < length (sessions d')" "r' = sessions d' ! i" by (metis in_set_conv_nth)
  with assms(1) have "i < length (sessions d)" "row_after (sessions d ! i) r'"
    by (simp_all add: closes_def list_all2_conv_all_nth)
  with that show thesis by (metis nth_mem)
qed

lemma ball_update_where:
  "(\<forall>r \<in> set (update_where P f rs). Q r) \<longleftrightarrow> (\<forall>r \<in> set rs. Q (if P r then f r else r))"
  by (auto simp: update_where_def)

definition row_closed :: "id \<Rightarrow> db \<Rightarrow> bool" where
  "row_closed sid d \<longleftrightarrow> (\<forall>r \<in> set (sessions d). ses_id r = sid \<longrightarrow> ses_status r \<noteq> SES_ACTIVE)"

lemma closes_row_closed: "closes d d' \<Longrightarrow> row_closed sid d \<Longrightarrow> row_closed sid d'"
  by (auto simp: row_closed_def row_after_def elim!: closes_row)

lemma row_closed_close: "st \<noteq> SES_ACTIVE \<Longrightarrow> row_closed sid (update_session sid (close_row st now t p) d)"
  by (simp add: row_closed_def update_session_def ball_update_where)

lemma find_session_SomeD: "find_session d sid = Some s \<Longrightarrow> s \<in> set (sessions d) \<and> ses_id s = sid"
  by (auto simp: find_session_def dest: find_SomeD)

lemma endSession_cases:
  "(\<exists>e. endSession now sid st p d = (Inl e, d)) \<or>
   (st \<noteq> SES_ACTIVE \<and> (\<exists>s t. endSession now sid st p d = (Inr s, update_session sid (close_row st now t p) d)))"
  by (auto simp: endSession_def split: option.splits)

lemma endSession_closes: "closes d (snd (endSession now sid st p d))"
  by (auto simp: endSession_def closes_close split: option.splits)

lemma endSession_ok:
  assumes "find_session d sid = Some r" and "sid \<noteq> []" and "st \<noteq> SES_ACTIVE"
  shows "\<exists>s d'. endSession now sid st p d = (Inr s, d') \<and> row_closed sid d' \<and> ses_status s = st
    \<and> find_session d' sid = Some s"
  using assms find_session_SomeD [OF assms(1)]
  by (simp add: endSession_def row_closed_close find_session_update)

locale closing_operation =
  fixes step :: "'a \<Rightarrow> world \<Rightarrow> world"
  assumes step_closes: "closes (w_db w) (w_db (step x w))"
begin

lemma run_closes: "closes (w_db w) (w_db (fold step xs w))"
  by (induction xs arbitrary: w) (auto intro: closes_trans step_closes)

lemma stays_closed: "row_closed sid (w_db w) \<Longrightarrow> row_closed sid (w_db (fold step xs w))"
  by (rule closes_row_closed [OF run_closes])

end

lemma end_finish_closes: "closes d (snd (end_finish now f r reason extra d))"
proof -
  let ?d1 = "if hr_recording r \<noteq> None \<and> fst f
     then update_session (hr_id r) (\<lambda>s. s\<lparr>ses_recording := hr_recording r\<rparr>) d else d"
  have "closes d ?d1" by (simp add: closes_update row_after_def)
  also have "closes ?d1 (snd (endSession now (hr_id r) (end_status reason) (Some ((''endReason'', JStr reason) # extra)) ?d1))"
    by (rule endSession_closes)
  finally have "closes d (snd (endSession now (hr_id r) (end_status reason) (Some ((''endReason'', JStr reason) # extra)) ?d1))" .
  with \<open>closes d ?d1\<close> show ?thesis
    unfolding end_finish_def Let_def
    by (auto simp: closes_def add_audit_def split: prod.splits sum.splits)
qed

interpretation hub_end: closing_operation "\<lambda>(now, fl, sid, reason, extra) w. snd (end_hub now fl sid reason extra w)"
proof (unfold_locales, clarsimp)
  fix w now fl sid reason extra
  show "closes (w_db w) (w_db (snd (end_hub now fl sid reason extra w)))"
  proof (cases "hub_get sid w")
    case None
    then show ?thesis by (simp add: end_hub_None)
  next
    case (Some r)
    have "w_db (end_sync r reason w) = w_db w" by (simp add: end_sync_def Let_def hub_delete_def)
    with Some show ?thesis by (simp add: end_hub_def Let_def end_finish_closes)
  qed
qed

lemma terminateRow_closes: "closes d (snd (terminateRow now oid sid by_user d))"
  by (auto simp: terminateRow_def Let_def closes_close split: option.splits)

interpretation terminate: closing_operation "\<lambda>(now, fl, oid, sid, by_user) w. snd (terminateSession now fl oid sid by_user w)"
proof (unfold_locales, clarsimp)
  fix w now fl oid sid by_user
  have e: "closes (w_db w) (w_db (snd (end_hub now fl sid ''terminated'' [(''terminatedBy'', json_opt by_user)] w)))"
    using hub_end.step_closes [of w "(now, fl, sid, ''terminated'', [(''terminatedBy'', json_opt by_user)])"] by simp
  have t: "closes (w_db w) (snd (terminateRow now oid sid by_user (w_db w)))" by (rule terminateRow_closes)
  show "closes (w_db w) (w_db (snd (terminateSession now fl oid sid by_user w)))"
    using e t by (auto simp: terminateSession_def Let_def split: option.splits prod.splits sum.splits)
qed

interpretation tunnel_close: closing_operation "\<lambda>(failed, now, conn) w. rdp_close failed now conn w"
  by unfold_locales (auto simp: rdp_close_def Let_def endSession_closes split: option.splits)

lemma end_rdp_session_db:
  "w_db (snd (end_rdp_session failed now reason sid (n, w))) =
     (if failed sid then w_db w
      else snd (endSession now sid SES_TERMINATED (Some [(''endReason'', JStr reason)]) (w_db w)))"
  by (auto simp: end_rdp_session_def Let_def endSession_def split: option.splits)

interpretation rdp_end: closing_operation "\<lambda>(failed, now, reason, sid) w. snd (end_rdp_session failed now reason sid (n, w))"
  for n :: nat
  by unfold_locales (simp add: end_rdp_session_db endSession_closes split: prod.split)

end
