(* ===== verification/TerminalClaims.thy ===== *)
theory TerminalClaims
  imports Terminal Sample
begin

text \<open>
  The properties of live terminals: what a reattach replays, who may touch a session, how a
  session ends, what the expiry watcher guarantees, and what ending all sessions of a user leaves.
\<close>

section \<open>Sample world\<close>

definition m_ar :: hub_meta where
  "m_ar = \<lparr>hm_label = [], hm_host = ''sdev'', hm_port = 22, hm_user = ''deploy'', hm_authMethod = ''certificate'',
     hm_server = ''sdev'', hm_request = ''rq''\<rparr>"

definition sample_rec :: "id \<Rightarrow> id \<Rightarrow> nat list \<Rightarrow> hub_rec" where
  "sample_rec sid uid socks =
     \<lparr>hr_id = sid, hr_org = ''o'', hr_user = uid, hr_rows = 24, hr_cols = 80, hr_sockets = socks,
      hr_buffer = new_ring RING_BUFFER_MAX_BYTES, hr_recording = None, hr_meta = m_ar, hr_spec = None,
      hr_arExpires = Some 90000, hr_detachedAt = None, hr_detachTimer = None, hr_startedAt = 0, hr_lastActivity = 0,
      hr_destroyed = False\<rparr>"

definition sample_session :: "id \<Rightarrow> id \<Rightarrow> protocol \<Rightarrow> session_row" where
  "sample_session sid uid p =
     \<lparr>ses_id = sid, ses_org = ''o'', ses_user = uid, ses_server = Some ''sdev'', ses_request = Some ''rq'',
      ses_protocol = p, ses_authMethod = ''certificate'', ses_targetHost = None, ses_clientIp = None,
      ses_certificate = None, ses_status = SES_ACTIVE, ses_startedAt = 0, ses_endedAt = None,
      ses_durationSeconds = None, ses_meta = JNull, ses_recording = None\<rparr>"

definition sample_world :: world where
  "sample_world =
     \<lparr>w_db = sample_db\<lparr>sessions := [sample_session ''s1'' ''mem'' SSH, sample_session ''s2'' ''adm'' SSH,
                                  sample_session ''r1'' ''mem'' RDP]\<rparr>,
      w_ttl = 900, w_hub = [sample_rec ''s1'' ''mem'' [1], sample_rec ''s2'' ''adm'' [2]], w_open = [1, 2, 3],
      w_out = [], w_in = [], w_closed = [], w_recorded = [], w_rdpByConn = [(''c9'', ''r1'')],
      w_rdpConn = [(''r1'', ''c9'')], w_rdpClosed = []\<rparr>"

definition no_fault :: faults where
  "no_fault i = (False, False)"

lemma sample_gets:
  "hub_get ''s1'' sample_world = Some (sample_rec ''s1'' ''mem'' [1])"
  "hub_get ''s2'' sample_world = Some (sample_rec ''s2'' ''adm'' [2])"
  "find_session (w_db sample_world) ''s1'' = Some (sample_session ''s1'' ''mem'' SSH)"
  by (simp_all add: hub_get_def sample_world_def sample_rec_def find_session_def sample_session_def)

section \<open>Replay\<close>

definition feed :: "id \<Rightarrow> (int \<times> byte list) list \<Rightarrow> world \<Rightarrow> world" where
  "feed sid cs w = fold (\<lambda>(t, c). on_data t sid c) cs w"

lemma on_data_get:
  assumes "hub_get sid w = Some r"
  shows "\<exists>r'. hub_get sid (on_data t sid c w) = Some r' \<and> hr_buffer r' = ring_push c (hr_buffer r)
    \<and> hr_user r' = hr_user r \<and> hr_org r' = hr_org r \<and> w_open (on_data t sid c w) = w_open w"
proof -
  let ?w = "hub_upd sid (\<lambda>r. r\<lparr>hr_lastActivity := t, hr_buffer := ring_push c (hr_buffer r)\<rparr>) w"
  have h: "w_hub (on_data t sid c w) = w_hub ?w" "w_open (on_data t sid c w) = w_open w"
    using assms by (simp_all add: on_data_def Let_def)
  have "hub_get sid ?w = Some (r\<lparr>hr_lastActivity := t, hr_buffer := ring_push c (hr_buffer r)\<rparr>)"
    using assms hub_get_SomeD [OF assms] by (simp add: hub_get_upd)
  with h show ?thesis by (simp add: hub_get_def)
qed

lemma feed_get:
  assumes "hub_get sid w = Some r"
  shows "\<exists>r'. hub_get sid (feed sid cs w) = Some r' \<and> hr_buffer r' = fold ring_push (map snd cs) (hr_buffer r)
    \<and> hr_user r' = hr_user r \<and> hr_org r' = hr_org r \<and> w_open (feed sid cs w) = w_open w"
  using assms
proof (induction cs arbitrary: w r)
  case Nil
  then show ?case by (simp add: feed_def)
next
  case (Cons p cs)
  obtain t c where p: "p = (t, c)" by force
  from on_data_get [OF Cons.prems, of t c] obtain r1 where
    r1: "hub_get sid (on_data t sid c w) = Some r1" "hr_buffer r1 = ring_push c (hr_buffer r)"
      "hr_user r1 = hr_user r" "hr_org r1 = hr_org r" "w_open (on_data t sid c w) = w_open w" by blast
  from Cons.IH [OF r1(1)] r1 show ?case by (auto simp: feed_def p)
qed

lemma attach_out:
  assumes "hub_get sid w = Some r" and "hr_user r = uid" and "hr_org r = oid" and "ws \<in> set (w_open w)"
  shows "w_out (snd (attach now sid ws uid oid rows cols w)) = w_out w @
     (ws, WAttached sid (length (toBuffer (hr_buffer r)))) #
     (if toBuffer (hr_buffer r) = [] then [] else [(ws, WRaw (toBuffer (hr_buffer r)))])"
  using assms by (simp add: attach_def requireOwned_def Let_def send_def resize_def split: option.splits)

text \<open>A reattach replays recent output and nothing else: after any chunks of output, the owner's
  socket receives the announced number of bytes, they are the end of the session's output, at
  most 512 KB of it, all of it while the output fits, and every announced length is true.\<close>

theorem attach_replays_tail:
  assumes "hub_get sid w = Some r" and "hr_buffer r = new_ring RING_BUFFER_MAX_BYTES"
    and "hr_user r = uid" and "hr_org r = oid" and "ws \<in> set (w_open w)"
  shows "\<exists>b. w_out (snd (attach now sid ws uid oid rows cols (feed sid cs w))) =
      w_out (feed sid cs w) @ (ws, WAttached sid (length b)) # (if b = [] then [] else [(ws, WRaw b)])
    \<and> suffix b (concat (map snd cs)) \<and> length b \<le> 524288
    \<and> (length (concat (map snd cs)) \<le> 524288 \<longrightarrow> b = concat (map snd cs))"
proof -
  from feed_get [OF assms(1)] obtain r' where r': "hub_get sid (feed sid cs w) = Some r'"
    "hr_buffer r' = fold ring_push (map snd cs) (hr_buffer r)" "hr_user r' = uid" "hr_org r' = oid"
    "w_open (feed sid cs w) = w_open w" using assms(3,4) by blast
  let ?b = "toBuffer (hr_buffer r')"
  note R = ring_pushes [OF new_ring_ok(1) [of RING_BUFFER_MAX_BYTES], of "map snd cs", folded assms(2), folded r'(2)]
  have m: "rb_max (hr_buffer r) = 524288" "toBuffer (hr_buffer r) = []"
    by (simp_all add: assms(2) new_ring_ok RING_BUFFER_MAX_BYTES_def)
  have "length ?b \<le> 524288"
    using R m by (simp add: toBuffer_ok length_concat_total ring_ok_def)
  with R m attach_out [OF r'(1,3,4)] r'(5) assms(5) show ?thesis by (intro exI [of _ ?b]) simp
qed

lemma attach_replays_tail_witness:
  "\<exists>b. w_out (snd (attach 9 ''s1'' 3 ''mem'' ''o'' 0 0 (feed ''s1'' [(1, [104, 105]), (2, [33])] sample_world))) =
      w_out (feed ''s1'' [(1, [104, 105]), (2, [33])] sample_world) @ (3, WAttached ''s1'' 3) # [(3, WRaw b)]
    \<and> b = [104, 105, 33]"
proof -
  have "hr_buffer (sample_rec ''s1'' ''mem'' [1]) = new_ring RING_BUFFER_MAX_BYTES"
    "hr_user (sample_rec ''s1'' ''mem'' [1]) = ''mem''" "hr_org (sample_rec ''s1'' ''mem'' [1]) = ''o''"
    by (simp_all add: sample_rec_def)
  moreover have "3 \<in> set (w_open sample_world)" by (simp add: sample_world_def)
  ultimately show ?thesis
    using sample_gets(1) attach_replays_tail [of "''s1''" sample_world "sample_rec ''s1'' ''mem'' [1]" "''mem''" "''o''" 3 9 0 0
        "[(1, [104, 105]), (2, [33])]"] by auto
qed

section \<open>Ownership\<close>

lemma requireOwned_foreign:
  assumes "\<And>r. hub_get sid w = Some r \<Longrightarrow> hr_user r \<noteq> uid \<or> hr_org r \<noteq> oid"
  shows "\<exists>e. requireOwned sid uid oid w = Inl e"
  using assms by (auto simp: requireOwned_def split: option.splits)

text \<open>Sessions belong to one user of one organization: for anyone else attaching, renaming,
  closing, reading and duplicating all fail and change nothing, and the list of sessions shows
  only one's own.\<close>

theorem sessions_owner_only:
  assumes "\<And>r. hub_get sid w = Some r \<Longrightarrow> hr_user r \<noteq> uid \<or> hr_org r \<noteq> oid"
  shows "\<exists>e. attach now sid ws uid oid rows cols w = (Inl e, w) \<and> rename sid uid oid label w = (Inl e, w)
    \<and> closeOwned now fl sid uid oid w = (Inl e, w) \<and> getPublic sid uid oid w = Inl e
    \<and> getConnectSpec unseal sid uid oid w = Inl e
    \<and> (\<forall>p \<in> set (list_hub uid oid w). \<exists>r \<in> set (w_hub w). p = toPublicShape (w_ttl w) r \<and> hr_user r = uid \<and> hr_org r = oid)"
proof -
  obtain e where e: "requireOwned sid uid oid w = Inl e" using requireOwned_foreign assms by blast
  have "\<forall>p \<in> set (list_hub uid oid w). \<exists>r \<in> set (w_hub w). p = toPublicShape (w_ttl w) r \<and> hr_user r = uid \<and> hr_org r = oid"
    by (auto simp: list_hub_def)
  with e show ?thesis
    by (simp add: attach_def rename_def closeOwned_def getPublic_def getConnectSpec_def)
qed

lemma sessions_owner_only_witness:
  "\<exists>e. attach 9 ''s2'' 3 ''mem'' ''o'' 0 0 sample_world = (Inl e, sample_world)
    \<and> closeOwned 9 no_fault ''s2'' ''mem'' ''o'' sample_world = (Inl e, sample_world)"
proof -
  have "hr_user r \<noteq> ''mem'' \<or> hr_org r \<noteq> ''o''" if "hub_get ''s2'' sample_world = Some r" for r
  proof -
    from that have "r = sample_rec ''s2'' ''adm'' [2]" by (simp add: sample_gets)
    then show ?thesis by (simp add: sample_rec_def)
  qed
  from sessions_owner_only [OF this, where now = 9 and ws = 3 and rows = 0 and cols = 0 and fl = no_fault]
  show ?thesis by blast
qed

section \<open>Ending\<close>

lemma end_hub_effects:
  assumes "hub_get sid w = Some r" and "end_hub now fl sid reason extra w = (s, w')"
  shows "w_hub w' = filter (\<lambda>r. hr_id r \<noteq> sid) (w_hub w)" "w_open w' = filter (\<lambda>x. x \<notin> set (hr_sockets r)) (w_open w)"
    "sid \<in> set (w_closed w')" "ws \<in> set (hr_sockets r) \<Longrightarrow> ws \<in> set (w_open w) \<Longrightarrow> (ws, WEnded reason) \<in> set (w_out w')"
    "s = fst (end_finish now (fl sid) r reason extra (w_db w))" "w_db w' = snd (end_finish now (fl sid) r reason extra (w_db w))"
proof -
  have id: "hr_id r = sid" using hub_get_SomeD [OF assms(1)] by simp
  have w': "w' = (end_sync r reason w)\<lparr>w_db := snd (end_finish now (fl sid) r reason extra (w_db (end_sync r reason w)))\<rparr>"
    "s = fst (end_finish now (fl sid) r reason extra (w_db (end_sync r reason w)))"
    using assms by (auto simp: end_hub_def Let_def)
  have d: "w_db (end_sync r reason w) = w_db w" by (simp add: end_sync_def Let_def hub_delete_def)
  show "w_hub w' = filter (\<lambda>r. hr_id r \<noteq> sid) (w_hub w)" "w_open w' = filter (\<lambda>x. x \<notin> set (hr_sockets r)) (w_open w)"
    "sid \<in> set (w_closed w')" "s = fst (end_finish now (fl sid) r reason extra (w_db w))"
    "w_db w' = snd (end_finish now (fl sid) r reason extra (w_db w))"
    by (simp_all add: w' d, simp_all add: end_sync_def Let_def hub_delete_def id)
  assume "ws \<in> set (hr_sockets r)" "ws \<in> set (w_open w)"
  then have "(ws, WEnded reason) \<in> set (w_out (fanout (WEnded reason) (hr_sockets r) (hub_delete (hr_id r) w)))"
    by (simp add: w_out_fanout hub_delete_def)
  then show "(ws, WEnded reason) \<in> set (w_out w')"
    using out_close_sockets by (auto simp: w' end_sync_def Let_def)
qed

text \<open>Ending a session is complete and happens once: the record leaves the hub, every open
  socket of it is told the reason and closed, ssh2 is closed, the row is closed with the status
  the reason stands for (unless its write fails), and any later end of the same session, for
  whatever reason, changes nothing.\<close>

theorem end_once_and_complete:
  assumes "hub_get sid w = Some r" and "end_hub now fl sid reason extra w = (s, w')"
  shows "hub_get sid w' = None \<and> sid \<in> set (w_closed w')
    \<and> (\<forall>ws \<in> set (hr_sockets r). ws \<notin> set (w_open w') \<and> (ws \<in> set (w_open w) \<longrightarrow> (ws, WEnded reason) \<in> set (w_out w')))
    \<and> (\<forall>row. find_session (w_db w) sid = Some row \<longrightarrow> sid \<noteq> [] \<longrightarrow> \<not> snd (fl sid) \<longrightarrow>
         (\<exists>row'. s = Some row' \<and> find_session (w_db w') sid = Some row' \<and> ses_endedAt row' = Some now
            \<and> ses_status row' = (if reason = ''terminated'' \<or> reason = ''error'' then SES_TERMINATED else SES_ENDED)))
    \<and> end_hub now2 fl2 sid reason2 extra2 w' = (None, w')"
proof -
  note E = end_hub_effects [OF assms]
  have id: "hr_id r = sid" using hub_get_SomeD [OF assms(1)] by simp
  have gone: "hub_get sid w' = None" by (auto simp: hub_get_None E(1))
  have "\<exists>row'. s = Some row' \<and> find_session (w_db w') sid = Some row' \<and> ses_endedAt row' = Some now
      \<and> ses_status row' = (if reason = ''terminated'' \<or> reason = ''error'' then SES_TERMINATED else SES_ENDED)"
    if row: "find_session (w_db w) sid = Some row" "sid \<noteq> []" "\<not> snd (fl sid)" for row
  proof -
    have "find_session (w_db w) (hr_id r) = Some row" "hr_id r \<noteq> []" using row id by simp_all
    with row(3) obtain row' where "s = Some row'" "find_session (w_db w') (hr_id r) = Some row'"
      "ses_status row' = end_status reason" "ses_endedAt row' = Some now"
      using E(5,6) by (metis end_finish_row)
    then show ?thesis using id by (simp add: end_status_def TERMINATED_REASONS_def)
  qed
  with gone E(2,3,4) end_hub_None [OF gone] show ?thesis by auto
qed

lemma end_once_and_complete_witness:
  "\<exists>s w'. end_hub 5000 no_fault ''s1'' ''terminated'' [] sample_world = (s, w') \<and> hub_get ''s1'' w' = None
    \<and> (\<exists>row'. s = Some row' \<and> ses_status row' = SES_TERMINATED) \<and> end_hub 6000 no_fault ''s1'' ''exit'' [] w' = (None, w')"
proof -
  obtain s w' where e: "end_hub 5000 no_fault ''s1'' ''terminated'' [] sample_world = (s, w')" by force
  have "\<not> snd (no_fault ''s1'')" by (simp add: no_fault_def)
  with end_once_and_complete [OF sample_gets(1) e, of 6000 no_fault "''exit''" "[]"] sample_gets(3) e
  show ?thesis by auto
qed

section \<open>Every run of the hub\<close>

lemma rec_ok_refresh: "rec_ok ttl r \<Longrightarrow> rec_ok ttl (refresh d r)"
  by (simp add: rec_ok_def)

lemma hub_ok_check_step:
  assumes "distinct (map hr_id rs)" and "\<forall>r \<in> set rs. rec_ok ttl r"
  shows "distinct (map hr_id (check_step now d I rs)) \<and> (\<forall>r \<in> set (check_step now d I rs). rec_ok ttl r)"
proof -
  have "map hr_id (check_step now d I rs) = map hr_id (filter (\<lambda>r. \<not> (hr_id r \<in> I \<and> request_dead now d r)) rs)"
    by (simp add: check_step_def)
  moreover have "distinct \<dots>" using assms(1) by (rule distinct_map_filter)
  moreover have "\<forall>r \<in> set (check_step now d I rs). rec_ok ttl r"
    using assms(2) by (auto simp: check_step_def rec_ok_refresh)
  ultimately show ?thesis by simp
qed

lemma checkExpiries_ok:
  assumes "hub_ok w"
  shows "hub_ok (checkExpiries now f fl w)"
proof (cases f)
  case True
  then show ?thesis using end_ids_op.keeps_ok [OF assms, of "(now, fl, ''expired'', map hr_id (filter (cache_expired now) (w_hub w)))"]
    by (simp add: checkExpiries_def Let_def)
next
  case False
  have d: "distinct (map hr_id (w_hub w))" using assms by (simp add: hub_ok_def)
  let ?rs = "filter (\<lambda>r. \<not> cache_expired now r) (w_hub w)"
  have "distinct (map hr_id ?rs)" "\<forall>r \<in> set ?rs. rec_ok (w_ttl w) r"
    using assms by (auto simp: hub_ok_def distinct_map_filter)
  from hub_ok_check_step [OF this] show ?thesis
    using False by (simp add: hub_ok_def checkExpiries_hub [OF d])
qed

text \<open>
  The events of the hub in any order: requests of clients, output of shells, timers, the
  watcher, sockets that open and drop, and whatever the rest of the program does to the database.
\<close>

inductive hub_step :: "world \<Rightarrow> world \<Rightarrow> bool" where
  opened: "hub_get (hp_id x) w = None \<Longrightarrow> hub_step w (snd (hub_create seal now x w))"
| joined: "hub_step w (addSocket sid ws w)"
| attached: "hub_step w (snd (attach now sid ws uid oid rows cols w))"
| detached: "hub_step w (detach now sid ws w)"
| printed: "hub_step w (on_data now sid chunk w)"
| input: "hub_step w (write_in now sid bytes w)"
| resized: "hub_step w (resize sid rows cols w)"
| renamed: "hub_step w (snd (rename sid uid oid label w))"
| ended: "hub_step w (snd (end_hub now fl sid reason extra w))"
| timer: "hub_step w (detach_timer_fires now fl sid w)"
| watcher: "hub_step w (checkExpiries now f fl w)"
| connects: "hub_step w (w\<lparr>w_open := ws # w_open w\<rparr>)"
| drops: "hub_step w (w\<lparr>w_open := filter (\<lambda>s. s \<noteq> ws) (w_open w)\<rparr>)"
| elsewhere: "hub_step w (w\<lparr>w_db := d\<rparr>)"

inductive hub_reachable :: "world \<Rightarrow> bool" where
  start: "w_hub w = [] \<Longrightarrow> hub_reachable w"
| step: "hub_reachable w \<Longrightarrow> hub_step w w' \<Longrightarrow> hub_reachable w'"

lemma hub_step_ok: "hub_step w w' \<Longrightarrow> hub_ok w \<Longrightarrow> hub_ok w'"
proof (induction rule: hub_step.induct)
  case (joined w sid ws)
  then show ?case using socket_op.keeps_ok [of w "(sid, ws)"] by simp
next
  case (attached w now sid ws uid oid rows cols)
  then show ?case using attach_op.keeps_ok [of w "(now, sid, ws, uid, oid, rows, cols)"] by simp
next
  case (detached w now sid ws)
  then show ?case using detach_op.keeps_ok [of w "(now, sid, ws)"] by simp
next
  case (printed w now sid chunk)
  then show ?case using data_op.keeps_ok [of w "(now, sid, chunk)"] by simp
next
  case (input w now sid bytes)
  then show ?case using write_op.keeps_ok [of w "(now, sid, bytes)"] by simp
next
  case (resized w sid rows cols)
  then show ?case using resize_op.keeps_ok [of w "(sid, rows, cols)"] by simp
next
  case (renamed w sid uid oid label)
  then show ?case using rename_op.keeps_ok [of w "(sid, uid, oid, label)"] by simp
next
  case (ended w now fl sid reason extra)
  then show ?case using end_op.keeps_ok [of w "(now, fl, sid, reason, extra)"] by simp
next
  case (timer w now fl sid)
  then show ?case using timer_op.keeps_ok [of w "(now, fl, sid)"] by simp
qed (simp_all add: hub_ok_create checkExpiries_ok, simp_all add: hub_ok_def)

lemma hub_reachable_ok: "hub_reachable w \<Longrightarrow> hub_ok w"
  by (induction rule: hub_reachable.induct) (simp add: hub_ok_def, blast intro: hub_step_ok)

text \<open>C40: No detached terminal lives forever: in every state the hub can reach, a session marked
  detached has no socket and an armed timer, and once the time to live has passed since it was
  detached, the timer ends it; a session with a socket has no timer, so an attached terminal is
  never ended by one.\<close>

theorem detached_sessions_end:
  assumes "hub_reachable w" and "hub_get sid w = Some r"
  shows "(hr_detachedAt r = Some t \<and> t + w_ttl w * 1000 \<le> now \<longrightarrow>
            hr_sockets r = [] \<and> hub_get sid (detach_timer_fires now fl sid w) = None)
    \<and> (hr_sockets r \<noteq> [] \<longrightarrow> hr_detachTimer r = None \<and> detach_timer_fires now fl sid w = w)"
proof -
  have r: "rec_ok (w_ttl w) r" using hub_reachable_ok [OF assms(1)] hub_get_SomeD [OF assms(2)] by (auto simp: hub_ok_def)
  have "hr_sockets r = [] \<and> hub_get sid (detach_timer_fires now fl sid w) = None"
    if "hr_detachedAt r = Some t" "t + w_ttl w * 1000 \<le> now"
    using r that assms(2) by (auto simp: rec_ok_def detach_timer_fires_def hub_get_None)
  moreover have "hr_detachTimer r = None \<and> detach_timer_fires now fl sid w = w" if "hr_sockets r \<noteq> []"
    using r that assms(2) by (auto simp: rec_ok_def detach_timer_fires_def)
  ultimately show ?thesis by blast
qed

definition p_new :: hub_params where
  "p_new = \<lparr>hp_id = ''s1'', hp_org = ''o'', hp_user = ''mem'', hp_rows = 24, hp_cols = 80, hp_recording = None,
     hp_meta = m_ar, hp_spec = None, hp_arExpires = None\<rparr>"

lemma detached_sessions_end_witness:
  "\<exists>w r. hub_reachable w \<and> hub_get ''s1'' w = Some r \<and> hr_detachedAt r = Some 7
     \<and> hub_get ''s1'' (detach_timer_fires 900007 no_fault ''s1'' w) = None"
proof -
  let ?w0 = "sample_world\<lparr>w_hub := []\<rparr>"
  let ?w1 = "snd (hub_create (\<lambda>_. []) 0 p_new ?w0)"
  let ?w2 = "addSocket ''s1'' 1 ?w1" let ?w3 = "detach 7 ''s1'' 1 ?w2"
  have n: "hub_get (hp_id p_new) ?w0 = None" by (simp add: hub_get_def)
  have "hub_reachable ?w0" by (simp add: hub_reachable.start)
  then have "hub_reachable ?w1" using n by (blast intro: hub_reachable.step hub_step.opened)
  then have "hub_reachable ?w2" by (blast intro: hub_reachable.step hub_step.joined)
  then have w: "hub_reachable ?w3" by (blast intro: hub_reachable.step hub_step.detached)
  have l: "w_ttl ?w3 = 900" "\<exists>r. hub_get ''s1'' ?w3 = Some r \<and> hr_detachedAt r = Some 7"
    by (simp_all add: hub_create_def p_new_def hub_put_def hub_get_def addSocket_def detach_def sock_add_def Let_def
        update_where_def sample_world_def)
  then obtain r where r: "hub_get ''s1'' ?w3 = Some r" "hr_detachedAt r = Some 7" by blast
  from detached_sessions_end [OF w r(1), of 7 900007 no_fault] l(1) r w show ?thesis by auto
qed

section \<open>The expiry watcher\<close>

text \<open>C39: The expiry watcher leaves no terminal on a dead request: after one tick whose database read
  succeeds, every session still in the hub has an unexpired deadline, and the request behind it,
  if it exists, is neither revoked, denied nor expired and its own deadline lies ahead; and the
  tick ends no session whose deadline and request are still good.\<close>

theorem watcher_ends_dead_requests:
  assumes "hub_ok w"
  shows "(\<forall>r \<in> set (w_hub (checkExpiries now False fl w)).
            (\<forall>t. hr_arExpires r = Some t \<longrightarrow> now < t)
          \<and> (\<forall>ar. hm_request (hr_meta r) \<noteq> [] \<longrightarrow>
               find_request (w_db (checkExpiries now False fl w)) (hm_request (hr_meta r)) = Some ar \<longrightarrow>
               req_status ar \<in> {PENDING, APPROVED} \<and> (\<forall>t. req_expiresAt ar = Some t \<longrightarrow> now < t)))
    \<and> (\<forall>r \<in> set (w_hub w). \<not> cache_expired now r \<longrightarrow>
          (hm_request (hr_meta r) = [] \<or> \<not> request_dead now (w_db w) r) \<longrightarrow> has (hr_id r) (checkExpiries now False fl w))"
proof -
  let ?w = "checkExpiries now False fl w" and ?rs = "filter (\<lambda>r. \<not> cache_expired now r) (w_hub w)"
  have d: "distinct (map hr_id (w_hub w))" using assms by (simp add: hub_ok_def)
  note H = checkExpiries_hub [OF d, of now fl]
  have watched: "hr_id x \<in> watched now (w_hub w) \<longleftrightarrow> hm_request (hr_meta x) \<noteq> []" if "x \<in> set ?rs" for x
    using that d by (auto simp: watched_def distinct_map dest: inj_onD)
  have "(\<forall>t. hr_arExpires r = Some t \<longrightarrow> now < t) \<and> (\<forall>ar. hm_request (hr_meta r) \<noteq> [] \<longrightarrow>
      find_request (w_db ?w) (hm_request (hr_meta r)) = Some ar \<longrightarrow>
      req_status ar \<in> {PENDING, APPROVED} \<and> (\<forall>t. req_expiresAt ar = Some t \<longrightarrow> now < t))"
    if r: "r \<in> set (w_hub ?w)" for r
  proof -
    from r obtain x where x: "x \<in> set ?rs" "\<not> (hr_id x \<in> watched now (w_hub w) \<and> request_dead now (w_db w) x)"
      "r = (if hr_id x \<in> watched now (w_hub w) then refresh (w_db w) x else x)"
      unfolding H(1) check_step_def by auto
    have f: "find_request (w_db ?w) i = find_request (w_db w) i" for i by (rule find_request_cong) (rule H(2))
    have nc: "\<forall>t. hr_arExpires x = Some t \<longrightarrow> now < t" using x(1) by (auto simp: cache_expired_def)
    show ?thesis
    proof (cases "hm_request (hr_meta x) = []")
      case True
      then show ?thesis using x(3) nc watched [OF x(1)] by simp
    next
      case False
      then have nd: "\<not> request_dead now (w_db w) x" and r: "r = refresh (w_db w) x" using x(2,3) watched [OF x(1)] by auto
      have e: "\<forall>t. hr_arExpires r = Some t \<longrightarrow> now < t"
        using nd nc by (auto simp: r refresh_def request_dead_def split: option.splits)
      have "req_status ar \<in> {PENDING, APPROVED} \<and> (\<forall>t. req_expiresAt ar = Some t \<longrightarrow> now < t)"
        if "find_request (w_db w) (hm_request (hr_meta x)) = Some ar" for ar
        using nd that by (cases "req_status ar"; auto simp: request_dead_def split: option.splits)
      with e show ?thesis by (simp add: f r)
    qed
  qed
  moreover have "has (hr_id r) ?w" if r: "r \<in> set (w_hub w)" "\<not> cache_expired now r"
    "hm_request (hr_meta r) = [] \<or> \<not> request_dead now (w_db w) r" for r
  proof -
    have "r \<in> set ?rs" using r by simp
    moreover have "\<not> (hr_id r \<in> watched now (w_hub w) \<and> request_dead now (w_db w) r)" using r watched by auto
    ultimately have "(if hr_id r \<in> watched now (w_hub w) then refresh (w_db w) r else r) \<in> set (w_hub ?w)"
      unfolding H(1) check_step_def set_map by (intro imageI) simp
    moreover have "hr_id (if hr_id r \<in> watched now (w_hub w) then refresh (w_db w) r else r) = hr_id r" by simp
    ultimately have "hr_id r \<in> hr_id ` set (w_hub ?w)" by (metis image_eqI)
    then show ?thesis by (simp add: has_def hub_get_None)
  qed
  ultimately show ?thesis by blast
qed

lemma watcher_ends_dead_requests_witness:
  "hub_ok sample_world \<and> has ''s1'' (checkExpiries 100 False no_fault sample_world)"
proof
  show ok: "hub_ok sample_world"
    by (simp add: hub_ok_def rec_ok_def sample_world_def sample_rec_def new_ring_ok)
  have r: "sample_rec ''s1'' ''mem'' [1] \<in> set (w_hub sample_world)" by (simp add: sample_world_def)
  have "\<not> cache_expired 100 (sample_rec ''s1'' ''mem'' [1])" by (simp add: cache_expired_def sample_rec_def)
  moreover have "\<not> request_dead 100 (w_db sample_world) (sample_rec ''s1'' ''mem'' [1])"
    by (simp add: request_dead_def find_request_def sample_world_def sample_db_def empty_db_def)
  ultimately have "has (hr_id (sample_rec ''s1'' ''mem'' [1])) (checkExpiries 100 False no_fault sample_world)"
    using watcher_ends_dead_requests [OF ok, of 100 no_fault] r by blast
  then show "has ''s1'' (checkExpiries 100 False no_fault sample_world)" by (simp add: sample_rec_def)
qed

section \<open>Everything of a user\<close>

lemma update_session_other:
  assumes "r \<in> set (sessions d)" and "ses_id r \<noteq> sid"
  shows "r \<in> set (sessions (update_session sid f d))"
proof -
  have "(if ses_id r = sid then f r else r) \<in> (\<lambda>r. if ses_id r = sid then f r else r) ` set (sessions d)"
    using assms(1) by (rule imageI)
  then show ?thesis using assms(2) by (simp add: update_session_def update_where_def)
qed

lemma endSession_other:
  "r \<in> set (sessions d) \<Longrightarrow> ses_id r \<noteq> sid \<Longrightarrow> r \<in> set (sessions (snd (endSession now sid st p d)))"
  by (simp add: endSession_def update_session_other split: option.split)

lemma endSession_InlD: "endSession now sid st p d = (Inl e, d') \<Longrightarrow> d' = d"
  by (auto simp: endSession_def split: if_splits option.splits)

lemma end_finish_db:
  "sessions (snd (end_finish now f h reason extra d)) =
     (let d1 = (if hr_recording h \<noteq> None \<and> fst f
                then update_session (hr_id h) (\<lambda>s. s\<lparr>ses_recording := hr_recording h\<rparr>) d else d)
      in if snd f then sessions d1
         else sessions (snd (endSession now (hr_id h) (end_status reason) (Some ((''endReason'', JStr reason) # extra)) d1)))"
  by (auto simp: end_finish_def Let_def add_audit_def split: prod.split sum.split dest: endSession_InlD)

lemma end_finish_sessions_other:
  "r \<in> set (sessions d) \<Longrightarrow> ses_id r \<noteq> hr_id h \<Longrightarrow> r \<in> set (sessions (snd (end_finish now f h reason extra d)))"
  unfolding end_finish_db Let_def by (simp add: update_session_other endSession_other)

lemma end_hub_sessions_other:
  assumes "r \<in> set (sessions (w_db w))" and "\<not> has (ses_id r) w"
  shows "r \<in> set (sessions (w_db (snd (end_hub now fl sid reason extra w))))"
proof (cases "hub_get sid w")
  case None
  then show ?thesis using assms by (simp add: end_hub_None)
next
  case (Some h)
  then have "ses_id r \<noteq> hr_id h" using assms(2) hub_get_SomeD [OF Some] by (auto simp: has_def)
  moreover obtain s w' where e: "end_hub now fl sid reason extra w = (s, w')" by force
  ultimately show ?thesis using end_hub_effects(6) [OF Some e] assms(1) by (simp add: end_finish_sessions_other)
qed

lemma end_ids_sessions_other:
  "r \<in> set (sessions (w_db w)) \<Longrightarrow> \<not> has (ses_id r) w \<Longrightarrow> r \<in> set (sessions (w_db (end_ids now fl reason ids w)))"
proof (induction ids arbitrary: w)
  case (Cons i ids)
  have "\<not> has (ses_id r) (snd (end_hub now fl i reason [] w))" using Cons.prems(2) by (auto simp: has_def hub_get_None)
  with Cons end_hub_sessions_other [OF Cons.prems] show ?case by (simp add: end_ids_def)
qed (simp add: end_ids_def)

lemma end_ids_closes: "closes (w_db w) (w_db (end_ids now fl reason ids w))"
proof (induction ids arbitrary: w)
  case (Cons i ids)
  have "closes (w_db w) (w_db (snd (end_hub now fl i reason [] w)))"
    using hub_end.step_closes [of w "(now, fl, i, reason, [])"] by simp
  then show ?case using Cons.IH by (auto simp: end_ids_def intro: closes_trans)
qed (simp add: end_ids_def)

lemma end_hub_rdp [simp]:
  "w_rdpConn (snd (end_hub now fl sid reason extra w)) = w_rdpConn w"
proof -
  have "w_rdpConn (fold (close_socket y) ss v) = w_rdpConn v" for y ss v
    by (induction ss arbitrary: v) (simp_all add: close_socket_def send_def)
  moreover have "w_rdpConn (fanout m ss v) = w_rdpConn v" for m ss v
    by (induction ss arbitrary: v) (simp_all add: fanout_def send_def)
  ultimately show ?thesis by (simp add: end_hub_def end_sync_def hub_delete_def Let_def split: option.split)
qed

lemma end_rdp_frames [simp]:
  "w_hub (snd (end_rdp_session failed now reason sid acc)) = w_hub (snd acc)"
  "w_rdpConn (snd (end_rdp_session failed now reason sid acc)) = map_delete sid (w_rdpConn (snd acc))"
proof -
  have "map_of m sid = None \<Longrightarrow> map_delete sid m = m" for m :: "(id \<times> id) list"
    by (auto simp: map_delete_def filter_id_conv map_of_eq_None_iff)
  then show "w_rdpConn (snd (end_rdp_session failed now reason sid acc)) = map_delete sid (w_rdpConn (snd acc))"
    by (auto simp: end_rdp_session_def Let_def split: option.splits prod.splits sum.splits)
qed (auto simp: end_rdp_session_def Let_def split: option.splits prod.splits sum.splits)

lemma end_rdp_closes: "closes (w_db (snd acc)) (w_db (snd (end_rdp_session failed now reason sid acc)))"
  using end_rdp_session_db [of failed now reason sid "fst acc" "snd acc"] endSession_closes by simp

lemma end_rdp_row_closed:
  assumes "\<not> failed sid" and "sid \<noteq> []"
  shows "row_closed sid (w_db (snd (end_rdp_session failed now reason sid acc)))"
proof (cases "find_session (w_db (snd acc)) sid")
  case None
  then have "row_closed sid (w_db (snd acc))" by (auto simp: find_session_def find_None_iff_all row_closed_def)
  then show ?thesis by (rule closes_row_closed [OF end_rdp_closes])
next
  case (Some r)
  from endSession_ok [OF this assms(2), of SES_TERMINATED now "Some [(''endReason'', JStr reason)]"]
  show ?thesis using assms(1) end_rdp_session_db [of failed now reason sid "fst acc" "snd acc"] by auto
qed

lemma end_rdp_all:
  assumes "\<forall>i \<in> set ids. \<not> failed i \<and> i \<noteq> []"
  shows "closes (w_db (snd acc)) (w_db (snd (fold (end_rdp_session failed now reason) ids acc)))
    \<and> w_hub (snd (fold (end_rdp_session failed now reason) ids acc)) = w_hub (snd acc)
    \<and> (\<forall>i \<in> set ids. row_closed i (w_db (snd (fold (end_rdp_session failed now reason) ids acc)))
          \<and> map_of (w_rdpConn (snd (fold (end_rdp_session failed now reason) ids acc))) i = None)
    \<and> set (w_rdpConn (snd (fold (end_rdp_session failed now reason) ids acc))) \<subseteq> set (w_rdpConn (snd acc))"
  using assms
proof (induction ids arbitrary: acc)
  case (Cons i ids)
  let ?a = "end_rdp_session failed now reason i acc"
  let ?z = "fold (end_rdp_session failed now reason) ids ?a"
  from Cons.prems have c: "row_closed i (w_db (snd ?a))" by (simp add: end_rdp_row_closed)
  from Cons.IH [of ?a] Cons.prems have ih: "closes (w_db (snd ?a)) (w_db (snd ?z))" "w_hub (snd ?z) = w_hub (snd acc)"
    "\<forall>i \<in> set ids. row_closed i (w_db (snd ?z)) \<and> map_of (w_rdpConn (snd ?z)) i = None"
    "set (w_rdpConn (snd ?z)) \<subseteq> set (map_delete i (w_rdpConn (snd acc)))" by auto
  have "map_of (w_rdpConn (snd ?z)) i = None" using ih(4) by (auto simp: map_of_eq_None_iff map_delete_def)
  with ih closes_row_closed [OF ih(1) c] closes_trans [OF end_rdp_closes ih(1)] show ?case
    by (auto simp: map_delete_def)
qed simp

text \<open>Cutting a user off is complete: unless a write fails, ending all sessions of a user leaves no
  terminal of the user in the hub and no active RDP row of the user in the organization, closes
  the tunnel of each such row, leaves every other terminal alone and reopens nothing.\<close>

theorem user_sessions_all_end:
  assumes "endAllSessionsForUser now fl False oid uid reason w = (n, w')" and "oid \<noteq> []"
    and "\<forall>r \<in> set (sessions (w_db w)). ses_id r \<noteq> [] \<and> \<not> snd (fl (ses_id r))"
  shows "(\<forall>r \<in> set (w_hub w'). \<not> (hr_user r = uid \<and> hr_org r = oid))
    \<and> (\<forall>r \<in> set (sessions (w_db w')). ses_user r = uid \<and> ses_org r = oid \<and> ses_protocol r = RDP \<longrightarrow> ses_status r \<noteq> SES_ACTIVE)
    \<and> (\<forall>r \<in> set (active_rdp oid uid (w_db w)). \<not> has (ses_id r) w \<longrightarrow> map_of (w_rdpConn w') (ses_id r) = None)
    \<and> (distinct (map hr_id (w_hub w)) \<longrightarrow> w_hub w' = filter (\<lambda>r. \<not> (hr_user r = uid \<and> hr_org r = oid)) (w_hub w))
    \<and> closes (w_db w) (w_db w')"
proof -
  let ?mine = "\<lambda>r. hr_user r = uid \<and> (oid = [] \<or> hr_org r = oid)"
  let ?ids = "map hr_id (filter ?mine (w_hub w))"
  let ?w1 = "end_ids now fl reason ?ids w"
  let ?rows = "map ses_id (active_rdp oid uid (w_db ?w1))"
  let ?z = "fold (end_rdp_session (\<lambda>i. snd (fl i)) now reason) ?rows (length ?ids, ?w1)"
  have w': "w' = snd ?z" using assms(1) by (auto simp: endAllSessionsForUser_def endAllForUser_def Let_def)
  have c1: "closes (w_db w) (w_db ?w1)" by (rule end_ids_closes)
  have ids: "\<forall>i \<in> set ?rows. \<not> snd (fl i) \<and> i \<noteq> []"
    using assms(3) c1 by (auto simp: active_rdp_def row_after_def elim!: closes_row)
  note Z = end_rdp_all [OF ids, of "(length ?ids, ?w1)" now reason, simplified snd_conv, folded w']
  have hub: "w_hub w' = filter (\<lambda>r. hr_id r \<notin> set ?ids) (w_hub w)" using Z by simp
  have rdp: "ses_status r \<noteq> SES_ACTIVE"
    if r: "r \<in> set (sessions (w_db w'))" "ses_user r = uid" "ses_org r = oid" "ses_protocol r = RDP" for r
  proof
    assume a: "ses_status r = SES_ACTIVE"
    from Z r(1) obtain q where q: "q \<in> set (sessions (w_db ?w1))" "row_after q r" by (blast elim: closes_row)
    then have "q \<in> set (active_rdp oid uid (w_db ?w1))" using r a by (simp add: active_rdp_def row_after_def)
    then have "row_closed (ses_id q) (w_db w')" using Z by auto
    then show False using r(1) a q(2) by (simp add: row_closed_def row_after_def)
  qed
  have tun: "map_of (w_rdpConn w') (ses_id r) = None" if "r \<in> set (active_rdp oid uid (w_db w))" "\<not> has (ses_id r) w" for r
  proof -
    have "r \<in> set (active_rdp oid uid (w_db ?w1))"
      using that end_ids_sessions_other [of r w now fl reason ?ids] by (simp add: active_rdp_def)
    then show ?thesis using Z by auto
  qed
  have all: "w_hub w' = filter (\<lambda>r. \<not> (hr_user r = uid \<and> hr_org r = oid)) (w_hub w)" if "distinct (map hr_id (w_hub w))"
    unfolding hub using that assms(2) by (intro filter_cong) (auto simp: distinct_map dest: inj_onD)
  have none: "\<forall>r \<in> set (w_hub w'). \<not> (hr_user r = uid \<and> hr_org r = oid)" using hub by auto
  have "closes (w_db w) (w_db w')" using c1 Z closes_trans by blast
  with rdp tun all none show ?thesis by blast
qed

lemma user_sessions_all_end_witness:
  "\<exists>n w'. endAllSessionsForUser 5000 no_fault False ''o'' ''mem'' ''revoked'' sample_world = (n, w')
     \<and> map hr_id (w_hub w') = [''s2'']
     \<and> map_of (w_rdpConn w') ''r1'' = None"
proof -
  obtain n w' where e: "endAllSessionsForUser 5000 no_fault False ''o'' ''mem'' ''revoked'' sample_world = (n, w')" by force
  have h: "\<forall>r \<in> set (sessions (w_db sample_world)). ses_id r \<noteq> [] \<and> \<not> snd (no_fault (ses_id r))"
    "sample_session ''r1'' ''mem'' RDP \<in> set (active_rdp ''o'' ''mem'' (w_db sample_world))"
    "\<not> has (ses_id (sample_session ''r1'' ''mem'' RDP)) sample_world" "distinct (map hr_id (w_hub sample_world))"
    "map hr_id (filter (\<lambda>r. \<not> (hr_user r = ''mem'' \<and> hr_org r = ''o'')) (w_hub sample_world)) = [''s2'']"
    by (simp_all add: sample_world_def sample_session_def no_fault_def active_rdp_def has_def hub_get_def sample_rec_def)
  have o: "''o'' \<noteq> ([] :: id)" by simp
  note U = user_sessions_all_end [OF e o h(1)]
  have "map_of (w_rdpConn w') (ses_id (sample_session ''r1'' ''mem'' RDP)) = None" using U h(2,3) by blast
  then have r: "map_of (w_rdpConn w') ''r1'' = None" by (simp add: sample_session_def)
  have "w_hub w' = filter (\<lambda>r. \<not> (hr_user r = ''mem'' \<and> hr_org r = ''o'')) (w_hub sample_world)" using U h(4) by blast
  then have "map hr_id (w_hub w') = [''s2'']" using h(5) by (simp only:)
  with e r show ?thesis
    by - (rule exI [of _ n], rule exI [of _ w'], intro conjI)
qed

section \<open>The RDP tunnel after a force-close\<close>

lemma terminateRow_InrD:
  assumes "terminateRow now oid sid by_user d = (Inr s, d')"
  shows "\<exists>r p. find (\<lambda>r. ses_id r = sid \<and> ses_org r = oid) (sessions d) = Some r \<and> sid \<noteq> []
    \<and> s = close_row SES_TERMINATED now (ses_startedAt r) p r
    \<and> d' = update_session sid (close_row SES_TERMINATED now (ses_startedAt r) p) d"
proof (cases "find (\<lambda>r. ses_id r = sid \<and> ses_org r = oid) (sessions d)")
  case None
  then show ?thesis using assms by (simp add: terminateRow_def split: if_splits)
next
  case (Some r)
  let ?p = "Some [(''terminatedBy'', json_opt by_user), (''terminatedAt'', JNum now)]"
  have sid: "sid \<noteq> []" "oid \<noteq> []" using assms by (auto simp: terminateRow_def split: if_splits)
  have "ses_status r = SES_ACTIVE" using assms Some sid
    by (cases "ses_status r = SES_ACTIVE") (simp_all add: terminateRow_def)
  then have "s = close_row SES_TERMINATED now (ses_startedAt r) ?p r
      \<and> d' = update_session sid (close_row SES_TERMINATED now (ses_startedAt r) ?p) d"
    using assms Some sid unfolding terminateRow_def Let_def by simp
  with Some sid show ?thesis by blast
qed

text \<open>A force-closed RDP session does not stay recorded as force-closed: terminating it writes
  TERMINATED and drops only one of the tunnel's two maps, so when the closed connection reports
  its end, the close handler still finds the session and overwrites the row with ENDED.\<close>

theorem rdp_termination_overwritten:
  assumes "terminateSession now fl oid sid by_user w = (Inr s, w1)" and "\<not> has sid w"
    and "map_of (w_rdpByConn w) conn = Some sid"
  shows "ses_status s = SES_TERMINATED
    \<and> (\<exists>r. find_session (w_db (rdp_close False now2 conn w1)) sid = Some r \<and> ses_status r = SES_ENDED)"
proof -
  have hn: "hub_get sid w = None" using assms(2) by (simp add: has_def)
  obtain d where t: "terminateRow now oid sid by_user (w_db w) = (Inr s, d)" and w1: "w_db w1 = d" "w_rdpByConn w1 = w_rdpByConn w"
    using assms(1) hn by (auto simp: terminateSession_def Let_def split: if_splits prod.splits sum.splits option.splits)
  from terminateRow_InrD [OF t] obtain r p where r: "find (\<lambda>r. ses_id r = sid \<and> ses_org r = oid) (sessions (w_db w)) = Some r"
    "sid \<noteq> []" "s = close_row SES_TERMINATED now (ses_startedAt r) p r"
    "d = update_session sid (close_row SES_TERMINATED now (ses_startedAt r) p) (w_db w)" by blast
  have "find_session (w_db w) sid \<noteq> None"
    using find_SomeD [OF r(1)] by (auto simp: find_session_def find_None_iff_all)
  then obtain q where "find_session d sid = Some q" by (auto simp: r(4) find_session_update)
  from endSession_ok [OF this r(2), of SES_ENDED now2 None] w1 assms(3) r(3) show ?thesis
    by (auto simp: rdp_close_def Let_def)
qed

lemma rdp_termination_overwritten_witness:
  "\<exists>s w1. terminateSession 5000 no_fault ''o'' ''r1'' (Some ''adm'') sample_world = (Inr s, w1) \<and> ses_status s = SES_TERMINATED
     \<and> (\<exists>r. find_session (w_db (rdp_close False 5001 ''c9'' w1)) ''r1'' = Some r \<and> ses_status r = SES_ENDED)"
proof -
  have "\<exists>s w1. terminateSession 5000 no_fault ''o'' ''r1'' (Some ''adm'') sample_world = (Inr s, w1)"
    by (simp add: terminateSession_def hub_get_def sample_world_def sample_rec_def no_fault_def terminateRow_def
        sample_session_def Let_def)
  then obtain s w1 where t: "terminateSession 5000 no_fault ''o'' ''r1'' (Some ''adm'') sample_world = (Inr s, w1)" by blast
  have "\<not> has ''r1'' sample_world" "map_of (w_rdpByConn sample_world) ''c9'' = Some ''r1''"
    by (simp_all add: has_def hub_get_def sample_world_def sample_rec_def)
  from rdp_termination_overwritten [OF t this, of 5001] t show ?thesis by blast
qed

end
