(* ===== verification/Notify.thy ===== *)
theory Notify
  imports Terminal
begin

text \<open>
  Telling people (\<open>backend/src/config/notificationEvents.js\<close>, \<open>services/notificationService.js\<close>,
  \<open>services/notify/notifyService.js\<close>) and the one-time links mailed to approvers
  (\<open>services/inviteService.js\<close>). Chat delivery and the mail transport are I/O: what is handed to
  the chat dispatcher is a result of the model.
\<close>

section \<open>The catalogue of events\<close>

record event =
  evt_key :: string
  evt_type :: notification_type
  evt_severity :: string
  evt_chatSafe :: bool
  evt_chatDefault :: bool

definition evt :: "string \<Rightarrow> notification_type \<Rightarrow> string \<Rightarrow> bool \<Rightarrow> event" where
  "evt k t s dfl = \<lparr>evt_key = k, evt_type = t, evt_severity = s, evt_chatSafe = True, evt_chatDefault = dfl\<rparr>"

definition EVENTS :: "event list" where
  "EVENTS =
     [evt ''access_request.submitted'' ACCESS_REQUEST_SUBMITTED ''notice'' True,
      evt ''access_request.approved'' ACCESS_REQUEST_APPROVED ''info'' False,
      evt ''access_request.auto_approved'' ACCESS_REQUEST_APPROVED ''info'' False,
      evt ''access_request.prod_bypass'' ACCESS_REQUEST_APPROVED ''warning'' True,
      evt ''access_request.denied'' ACCESS_REQUEST_DENIED ''info'' False,
      evt ''access_request.revoked'' ACCESS_REQUEST_REVOKED ''notice'' False,
      evt ''access_request.expiring'' ACCESS_REQUEST_EXPIRING ''info'' False,
      evt ''access_request.expired'' ACCESS_REQUEST_EXPIRED ''info'' False,
      evt ''access_request.pending_expired'' ACCESS_REQUEST_EXPIRED ''notice'' False,
      evt ''break_glass.invoked'' BREAK_GLASS_INVOKED ''critical'' True,
      evt ''posture.finding'' POSTURE_FINDING ''warning'' True,
      evt ''directory_sync.alert'' DIRECTORY_SYNC ''warning'' True]"

definition getEvent :: "string \<Rightarrow> event option" where
  "getEvent k = find (\<lambda>e. evt_key e = k) EVENTS"

definition SEVERITIES :: "string list" where
  "SEVERITIES = [''info'', ''notice'', ''warning'', ''critical'']"

fun index_of :: "string \<Rightarrow> string list \<Rightarrow> nat option" where
  "index_of x [] = None"
| "index_of x (y # ys) = (if x = y then Some 0 else map_option Suc (index_of x ys))"

definition severityRank :: "string \<Rightarrow> nat" where
  "severityRank s = (case index_of s SEVERITIES of None \<Rightarrow> 0 | Some i \<Rightarrow> i)"

definition CHAT_SAFE_EVENT_KEYS :: "string list" where
  "CHAT_SAFE_EVENT_KEYS = map evt_key (filter evt_chatSafe EVENTS)"

definition CHAT_DEFAULT_EVENT_KEYS :: "string list" where
  "CHAT_DEFAULT_EVENT_KEYS = map evt_key (filter (\<lambda>e. evt_chatSafe e \<and> evt_chatDefault e) EVENTS)"

section \<open>Notifications\<close>

text \<open>\<open>notificationService.create\<close>; \<open>fault\<close> is a failed insert.\<close>

definition createNotification :: "bool \<Rightarrow> notification \<Rightarrow> db \<Rightarrow> unit res \<times> db" where
  "createNotification fault n d =
     (if ntf_org n = [] then (Inl (api_error 400 ''orgId is required''), d)
      else if ntf_user n = [] then (Inl (api_error 400 ''userId is required''), d)
      else if ntf_title n = [] then (Inl (api_error 400 ''title is required''), d)
      else if ntf_body n = [] then (Inl (api_error 400 ''body is required''), d)
      else if fault then (Inl DbError, d)
      else (Inr (), add_notification n d))"

record chat_input =
  ci_title :: "string option"
  ci_summary :: "string option"
  ci_fields :: "(string \<times> string) list"
  ci_url :: "string option"
  ci_context :: "(string \<times> string) list"

record chat_payload =
  cp_event :: string
  cp_title :: string
  cp_summary :: string
  cp_fields :: "(string \<times> string) list"
  cp_url :: "string option"
  cp_context :: "(string \<times> string) list"

record announcement =
  an_org :: id
  an_event :: string
  an_recipients :: "id list"
  an_title :: string
  an_body :: string
  an_meta :: json
  an_chat :: "chat_input option"

definition tell_one :: "(id \<Rightarrow> bool) \<Rightarrow> announcement \<Rightarrow> notification_type \<Rightarrow> id \<Rightarrow> nat \<times> db \<Rightarrow> nat \<times> db" where
  "tell_one fault a ty uid acc = (case acc of (n, d) \<Rightarrow>
     if uid = [] then (n, d)
     else case createNotification (fault uid) \<lparr>ntf_org = an_org a, ntf_user = uid, ntf_type = ty,
                 ntf_title = an_title a, ntf_body = an_body a, ntf_meta = an_meta a\<rparr> d of
       (Inl _, d') \<Rightarrow> (n, d')
     | (Inr _, d') \<Rightarrow> (n + 1, d'))"

definition payload_of :: "announcement \<Rightarrow> event \<Rightarrow> chat_input \<Rightarrow> chat_payload" where
  "payload_of a e c =
     \<lparr>cp_event = evt_key e, cp_title = (case ci_title c of None \<Rightarrow> an_title a | Some t \<Rightarrow> t),
      cp_summary = (case ci_summary c of None \<Rightarrow> an_body a | Some t \<Rightarrow> t), cp_fields = ci_fields c,
      cp_url = ci_url c, cp_context = ci_context c\<rparr>"

text \<open>
  The number of in-app rows, what went to the chat dispatcher, and the database. An unknown
  event key is logged and nothing happens; no failure escapes.
\<close>

definition notifyEvent :: "(id \<Rightarrow> bool) \<Rightarrow> announcement \<Rightarrow> db \<Rightarrow> (nat \<times> chat_payload option) \<times> db" where
  "notifyEvent fault a d =
     (case getEvent (an_event a) of None \<Rightarrow> ((0, None), d)
      | Some e \<Rightarrow>
          (case fold (tell_one fault a (evt_type e)) (an_recipients a) (0, d) of (n, d') \<Rightarrow>
             ((n, (case an_chat a of None \<Rightarrow> None
                   | Some c \<Rightarrow> if evt_chatSafe e then Some (payload_of a e c) else None)), d')))"

section \<open>One-time links\<close>

definition ACCESS_APPROVAL :: string where "ACCESS_APPROVAL = ''access_approval''"

definition createResourceToken :: "id \<Rightarrow> string \<Rightarrow> int \<Rightarrow> id \<Rightarrow> string \<Rightarrow> id \<Rightarrow> int \<Rightarrow> db \<Rightarrow> db" where
  "createResourceToken newId hash now uid ty rid ttlHours d =
     d\<lparr>tokens := tokens d @ [\<lparr>tok_id = newId, tok_user = uid, tok_type = ty, tok_hash = hash, tok_resource = Some rid,
        tok_expiresAt = now + ttlHours * 60 * 60 * 1000, tok_usedAt = None\<rparr>]\<rparr>"

text \<open>\<open>sha\<close> is SHA-256 in hexadecimal. With \<open>consume\<close> the first caller marks the token used.\<close>

definition getResourceToken ::
    "(string \<Rightarrow> string) \<Rightarrow> int \<Rightarrow> string \<Rightarrow> string \<Rightarrow> bool \<Rightarrow> db \<Rightarrow> user_token res \<times> db" where
  "getResourceToken sha now rawToken ty consume d =
     (if length rawToken \<noteq> 64 then (Inl (api_error 400 ''Invalid or expired link''), d)
      else case find (\<lambda>t. tok_hash t = sha rawToken) (tokens d) of
        None \<Rightarrow> (Inl (api_error 400 ''Invalid or expired link''), d)
      | Some t \<Rightarrow>
          if tok_type t \<noteq> ty then (Inl (api_error 400 ''Invalid or expired link''), d)
          else if tok_usedAt t \<noteq> None then (Inl (api_error 409 ''This link has already been used''), d)
          else if tok_expiresAt t < now then (Inl (api_error 410 ''This link has expired''), d)
          else if \<not> consume then (Inr t, d)
          else
            let unused = (\<lambda>r. tok_id r = tok_id t \<and> tok_usedAt r = None) in
            if count_where unused (tokens d) = 0
            then (Inl (api_error 409 ''This link has already been used''), d)
            else (Inr t, d\<lparr>tokens := update_where unused (\<lambda>r. r\<lparr>tok_usedAt := Some now\<rparr>) (tokens d)\<rparr>))"

section \<open>Lemmas\<close>

lemma createNotification_frame:
  "\<exists>ns. snd (createNotification f n d) = d\<lparr>notifications := notifications d @ ns\<rparr>"
  by (auto simp: createNotification_def add_notification_def intro: exI [of _ "[]"])

definition notified :: "db \<Rightarrow> db \<Rightarrow> bool" where
  "notified d d' \<longleftrightarrow> (\<exists>ns. d' = d\<lparr>notifications := notifications d @ ns\<rparr>)"

lemma notified_refl [simp]: "notified d d"
  by (auto simp: notified_def intro: exI [of _ "[]"])

lemma notified_trans: "notified a b \<Longrightarrow> notified b c \<Longrightarrow> notified a c"
  by (auto simp: notified_def)

lemma notified_create: "notified d (snd (createNotification f n d))"
  unfolding notified_def by (rule createNotification_frame)

lemma notified_frames:
  assumes "notified d d'"
  shows "requests d' = requests d" "certs d' = certs d" "sessions d' = sessions d" "users d' = users d"
    "audits d' = audits d" "tokens d' = tokens d" "servers d' = servers d" "policies d' = policies d" "roles d' = roles d"
  using assms by (auto simp: notified_def)

lemma tell_one_notified: "notified (snd acc) (snd (tell_one f a ty u acc))"
proof -
  obtain n d where acc: "acc = (n, d)" by force
  obtain r d' where "createNotification (f u) \<lparr>ntf_org = an_org a, ntf_user = u, ntf_type = ty,
      ntf_title = an_title a, ntf_body = an_body a, ntf_meta = an_meta a\<rparr> d = (r, d')" by force
  moreover then have "notified d d'" using notified_create by (metis snd_conv)
  ultimately show ?thesis by (simp add: tell_one_def acc split: sum.split)
qed

lemma notifyEvent_notified: "notified d (snd (notifyEvent f a d))"
proof -
  have "notified (snd acc) (snd (fold (tell_one f a ty) us acc))" for ty us acc
  proof (induction us arbitrary: acc)
    case (Cons u us)
    show ?case using notified_trans [OF tell_one_notified Cons.IH] by simp
  qed simp
  from this [of "(0, d)"] show ?thesis
    by (auto simp: notifyEvent_def split: option.split prod.split)
      (metis snd_conv)+
qed

end
