(* ===== verification/Access.thy ===== *)
theory Access
  imports Notify
begin

text \<open>
  Access requests (\<open>backend/src/services/accessRequestService.js\<close>): who may approve, submitting,
  reviewing, the credentials an approved request gives, revoking and expiring, and the reads.
\<close>

section \<open>Helpers\<close>

definition isServerOnboarded :: "server option \<Rightarrow> bool" where
  "isServerOnboarded so =
     (case so of None \<Rightarrow> False
      | Some s \<Rightarrow>
          srv_provision s = ''provisioned'' \<or> srv_protocol s = ProtoRdp \<or> srv_authMode s = AuthCredential \<or>
          truthy (srv_agentId s) \<or> srv_agentLastSeen s \<noteq> None)"

definition server_label :: "server \<Rightarrow> string" where
  "server_label s = or_else (srv_displayName s) (srv_hostname s)"

text \<open>The login of a server without one of its own is \<open>root\<close>.\<close>

definition legacy_user :: "server \<Rightarrow> string" where
  "legacy_user s = (if srv_sshUser s = [] then ''root'' else srv_sshUser s)"

definition request_audit :: "id \<Rightarrow> id option \<Rightarrow> string \<Rightarrow> id option \<Rightarrow> (string \<times> json) list \<Rightarrow> audit" where
  "request_audit oid actor act rid m =
     \<lparr>aud_org = oid, aud_actor = actor, aud_action = act, aud_resourceType = ''AccessRequest'',
      aud_resource = rid, aud_meta = JObj m\<rparr>"

section \<open>Who may approve\<close>

text \<open>The \<open>OR\<close> of the policy's approver routing; no filter at all selects nobody.\<close>

definition approver_matches :: "db \<Rightarrow> policy \<Rightarrow> user \<Rightarrow> bool" where
  "approver_matches d p u \<longleftrightarrow>
     (pol_approverUsers p \<noteq> [] \<and> usr_id u \<in> set (pol_approverUsers p)) \<or>
     (pol_approverRoles p \<noteq> [] \<and>
        (tier_name (usr_role u) \<in> set (filter (\<lambda>k. k \<in> set TIERS) (pol_approverRoles p)) \<or>
         holds (\<lambda>r. rol_key r \<in> set (pol_approverRoles p)) (find_role d (usr_roleId u)))) \<or>
     (truthy (pol_approverGroup p) \<and>
        (\<exists>m \<in> set (memberships d). mem_user m = usr_id u \<and> Some (mem_group m) = pol_approverGroup p))"

definition add_approver :: "id \<Rightarrow> user \<Rightarrow> (id \<times> user) list \<Rightarrow> (id \<times> user) list" where
  "add_approver requester u m = (if usr_id u \<noteq> [] \<and> usr_id u \<noteq> requester then map_put (usr_id u) u m else m)"

definition active_member :: "db \<Rightarrow> id \<Rightarrow> id \<Rightarrow> user option" where
  "active_member d uid oid =
     find (\<lambda>u. usr_id u = uid \<and> usr_org u = oid \<and> usr_status u = Active \<and> usr_deletedAt u = None) (users d)"

definition routed_approvers :: "db \<Rightarrow> id \<Rightarrow> policy option \<Rightarrow> user list" where
  "routed_approvers d oid po =
     (case po of None \<Rightarrow> []
      | Some p \<Rightarrow> filter (\<lambda>u. usr_org u = oid \<and> usr_status u = Active \<and> usr_deletedAt u = None
                      \<and> usr_kind u = Human \<and> approver_matches d p u) (users d))"

definition resolveApprovers :: "db \<Rightarrow> id \<Rightarrow> id \<Rightarrow> policy option \<Rightarrow> user option \<Rightarrow> user list" where
  "resolveApprovers d oid requester po manager =
     (let byId = fold (add_approver requester) (routed_approvers d oid po) []
      in map snd (case manager of
           Some m \<Rightarrow> if byId = [] \<and> active_member d (usr_id m) oid \<noteq> None then add_approver requester m byId else byId
         | None \<Rightarrow> byId))"

section \<open>Submitting\<close>

record submit_args =
  sa_org :: id
  sa_requester :: id
  sa_server :: id
  sa_reason :: string
  sa_duration :: int
  sa_principal :: string
  sa_protocol :: protocol
  sa_role :: string
  sa_permissions :: "string list"
  sa_scope :: scope

text \<open>
  What an operation takes from outside: a fresh row id, the clock, which notification writes
  fail, and per approver the row and hash of a fresh link token (\<open>None\<close>: its insert fails).
\<close>

record outside =
  ou_newId :: id
  ou_now :: int
  ou_notifyFault :: "id \<Rightarrow> bool"
  ou_token :: "id \<Rightarrow> (id \<times> string) option"
  ou_frontend :: string

definition submit_args_error :: "submit_args \<Rightarrow> err option" where
  "submit_args_error x =
     (if sa_org x = [] then Some (api_error 400 ''orgId is required'')
      else if sa_requester x = [] then Some (api_error 400 ''requesterId is required'')
      else if sa_server x = [] then Some (api_error 400 ''serverId is required'')
      else if sa_reason x = [] then Some (api_error 400 ''reason is required'')
      else if sa_duration x \<le> 0 then Some (api_error 400 ''requestedDuration must be a positive integer (seconds)'')
      else None)"

text \<open>\<open>srv_credential\<close> is the user name of the stored identity, if the server has one.\<close>

definition not_allowed_principal :: "string \<Rightarrow> string list \<Rightarrow> string" where
  "not_allowed_principal p allowed =
     ''Principal '' @ dq p @ '' is not allowed for this user. Allowed: '' @ join '', '' allowed @ ''.''"

definition submit_principal :: "db \<Rightarrow> submit_args \<Rightarrow> server \<Rightarrow> user \<Rightarrow> string res" where
  "submit_principal d x s u =
     (if sa_protocol x = RDP
      then Inr (or_else (or_opt (if srv_authMode s = AuthCredential then srv_credential s else None)
                  (or_opt (srv_rdpUsername s) (Some (sa_principal x)))) ''Administrator'')
      else if srv_authMode s = AuthCredential
      then (case srv_credential s of
              None \<Rightarrow> Inl (api_error 400 ''This server has no identity configured'')
            | Some n \<Rightarrow> Inr n)
      else
        let jit = (if findJitPolicyForUserServer d (sa_org x) (sa_requester x) (sa_server x) = None then None
                   else Some (jitPrincipalFor u));
            legacy = legacy_user s
        in if sa_principal x = [] then Inr (or_else jit legacy)
           else if ''access.choose_principal'' \<in> set (sa_permissions x) then Inr (sa_principal x)
           else
             let allowed = uniq (legacy # (case jit of None \<Rightarrow> [] | Some j \<Rightarrow> [j]))
             in if sa_principal x \<in> set allowed then Inr (sa_principal x)
                else Inl (api_error 403 (not_allowed_principal (sa_principal x) allowed)))"

definition new_request :: "outside \<Rightarrow> submit_args \<Rightarrow> string \<Rightarrow> request_status \<Rightarrow> request" where
  "new_request io x prin st =
     \<lparr>req_id = ou_newId io, req_org = sa_org x, req_requester = sa_requester x, req_reviewer = None,
      req_server = sa_server x, req_status = st, req_reason = sa_reason x, req_principal = prin,
      req_duration = sa_duration x, req_protocol = sa_protocol x, req_approvedDuration = None,
      req_approvedAt = None, req_deniedAt = None, req_deniedReason = None, req_expiresAt = None,
      req_revokedAt = None, req_revokedReason = None, req_certificate = None, req_breakGlass = False,
      req_createdAt = ou_now io, req_approvers = []\<rparr>"

text \<open>One link per approver that has an address; the mail itself is I/O.\<close>

definition sendApprovalEmails :: "outside \<Rightarrow> id \<Rightarrow> user list \<Rightarrow> db \<Rightarrow> db" where
  "sendApprovalEmails io rid approvers d =
     fold (\<lambda>a d. if usr_email a = [] then d
                 else case ou_token io (usr_id a) of None \<Rightarrow> d
                      | Some (tid, h) \<Rightarrow> createResourceToken tid h (ou_now io) (usr_id a) ACCESS_APPROVAL rid 24 d)
       approvers d"

definition request_url :: "outside \<Rightarrow> id \<Rightarrow> string" where
  "request_url io rid = ou_frontend io @ ''/access-requests?request='' @ rid"

definition submitted_announcement :: "outside \<Rightarrow> submit_args \<Rightarrow> server \<Rightarrow> user \<Rightarrow> string \<Rightarrow> user list \<Rightarrow> announcement" where
  "submitted_announcement io x s u prin approvers =
     \<lparr>an_org = sa_org x, an_event = ''access_request.submitted'', an_recipients = map usr_id approvers,
      an_title = ''New access request requires your review'',
      an_body = usr_name u @ '' is requesting '' @ protocol_name (sa_protocol x) @ '' access to '' @ server_label s @
        '' ('' @ env_name (srv_env s) @ ''). Reason: '' @ sa_reason x,
      an_meta = JObj [(''accessRequestId'', JStr (ou_newId io)), (''requesterId'', JStr (sa_requester x)),
        (''serverId'', JStr (sa_server x))],
      an_chat = Some \<lparr>ci_title = None, ci_summary = None,
        ci_fields = [(''Requester'', usr_name u), (''Server'', server_label s), (''Environment'', env_name (srv_env s)),
          (''Login as'', prin), (''Reason'', sa_reason x)],
        ci_url = Some (request_url io (ou_newId io)),
        ci_context = [(''environment'', env_name (srv_env s)), (''customerId'', srv_customer s),
          (''accessRequestId'', ou_newId io), (''serverName'', server_label s)]\<rparr>\<rparr>"

text \<open>The branch that needs approval: audit entry first, then everybody is told.\<close>

definition submit_pending :: "outside \<Rightarrow> submit_args \<Rightarrow> server \<Rightarrow> user \<Rightarrow> string \<Rightarrow> db \<Rightarrow> request res \<times> db" where
  "submit_pending io x s u prin d =
     (let pol = findApproverPolicy d (sa_org x) (sa_requester x) (sa_server x) (Some prin);
          approvers = resolveApprovers d (sa_org x) (sa_requester x) pol (Option.bind (usr_manager u) (find_user_id d))
      in case approvers of
        [] \<Rightarrow> (Inl (api_error 400 (''No approver is configured for this server. Assign the requester a manager, '' @
                 ''or set an approver group/role on the matching policy.'')), d)
      | a # _ \<Rightarrow>
          let r = (new_request io x prin PENDING)\<lparr>req_reviewer := Some (usr_id a), req_approvers := map usr_id approvers\<rparr>;
              d1 = add_audit (request_audit (sa_org x) (Some (sa_requester x)) ''access_request.submitted'' (Some (req_id r))
                     [(''serverId'', JStr (sa_server x)), (''environment'', JStr (env_name (srv_env s))),
                      (''protocol'', JStr (protocol_name (sa_protocol x))), (''status'', JStr ''PENDING''),
                      (''approverCount'', JNum (int (length approvers))),
                      (''approverPolicyId'', json_opt (map_option pol_id pol))]) (add_request r d);
              d2 = snd (notifyEvent (ou_notifyFault io) (submitted_announcement io x s u prin approvers) d1)
          in (Inr r, sendApprovalEmails io (req_id r) approvers d2))"

definition bypass_announcement :: "outside \<Rightarrow> submit_args \<Rightarrow> server \<Rightarrow> user \<Rightarrow> user list \<Rightarrow> announcement" where
  "bypass_announcement io x s u approvers =
     (let who = usr_name u @ '' ('' @ sa_role x @ '')''; dash = [CHR '' '', CHR 0xE2, CHR 0x80, CHR 0x94, CHR '' ''] in
      \<lparr>an_org = sa_org x, an_event = ''access_request.prod_bypass'', an_recipients = map usr_id approvers,
       an_title = ''Production access bypass'' @ dash @ usr_name u,
       an_body = who @ '' was auto-approved for '' @ protocol_name (sa_protocol x) @ '' access to '' @ server_label s @
         '' (prod) without review, because their role may skip production approval. Reason: '' @ sa_reason x,
       an_meta = JObj [(''accessRequestId'', JStr (ou_newId io)), (''requesterId'', JStr (sa_requester x)),
         (''serverId'', JStr (sa_server x)), (''bypass'', JBool True)],
       an_chat = Some \<lparr>ci_title = Some (''Production access taken without review'' @ dash @ usr_name u), ci_summary = None,
         ci_fields = [(''Who'', who), (''Server'', server_label s), (''Reason'', sa_reason x)],
         ci_url = Some (request_url io (ou_newId io)),
         ci_context = [(''environment'', env_name (srv_env s)), (''customerId'', srv_customer s)]\<rparr>\<rparr>)"

text \<open>
  The branch that approves at once. Here the requester is told before the audit entry is
  written, and that call is not guarded: if it fails, the request stays approved without one.
\<close>

definition approved_request :: "outside \<Rightarrow> submit_args \<Rightarrow> string \<Rightarrow> evaluation \<Rightarrow> request" where
  "approved_request io x prin ev =
     (let dur = (if ev_maxTtl ev > 0 then min (sa_duration x) (ev_maxTtl ev) else sa_duration x)
      in (new_request io x prin APPROVED)\<lparr>req_approvedDuration := Some dur, req_approvedAt := Some (ou_now io),
            req_expiresAt := Some (ou_now io + dur * 1000)\<rparr>)"

definition auto_approved_note :: "submit_args \<Rightarrow> server \<Rightarrow> request \<Rightarrow> notification" where
  "auto_approved_note x s r =
     \<lparr>ntf_org = sa_org x, ntf_user = sa_requester x, ntf_type = ACCESS_REQUEST_APPROVED,
      ntf_title = ''Your access request was automatically approved'',
      ntf_body = ''Access to '' @ server_label s @ '' ('' @ env_name (srv_env s) @ '') has been granted for '' @
        int_str (math_round_div (the (req_approvedDuration r)) 60) @ '' minutes.'',
      ntf_meta = JObj [(''accessRequestId'', JStr (req_id r)), (''serverId'', JStr (sa_server x)),
        (''expiresAt'', JNum (the (req_expiresAt r)))]\<rparr>"

definition bypass_recipients :: "submit_args \<Rightarrow> user \<Rightarrow> string \<Rightarrow> db \<Rightarrow> user list" where
  "bypass_recipients x u prin d =
     (let routed = resolveApprovers d (sa_org x) (sa_requester x)
            (findApproverPolicy d (sa_org x) (sa_requester x) (sa_server x) (Some prin))
            (Option.bind (usr_manager u) (find_user_id d))
      in if routed = [] then usersWithPermission d (sa_org x) ''access_requests.revoke_any'' (Some (sa_requester x))
         else routed)"

definition submit_approved :: "outside \<Rightarrow> submit_args \<Rightarrow> server \<Rightarrow> user \<Rightarrow> string \<Rightarrow> evaluation \<Rightarrow> db \<Rightarrow> request res \<times> db" where
  "submit_approved io x s u prin ev d =
     (let r = approved_request io x prin ev; d1 = add_request r d;
          common = [(''serverId'', JStr (sa_server x)), (''environment'', JStr (env_name (srv_env s))),
            (''protocol'', JStr (protocol_name (sa_protocol x))),
            (''effectiveDuration'', JNum (the (req_approvedDuration r))), (''policyId'', json_opt (ev_policyId ev))]
      in case createNotification (ou_notifyFault io (sa_requester x)) (auto_approved_note x s r) d1 of
        (Inl e, d2) \<Rightarrow> (Inl e, d2)
      | (Inr _, d2) \<Rightarrow>
          if ev_prodBypass ev
          then
            let d3 = add_audit (request_audit (sa_org x) (Some (sa_requester x)) ''access_request.prod_bypass'' (Some (req_id r))
                       (common @ [(''requesterRole'', JStr (sa_role x)), (''reason'', JStr (sa_reason x))])) d2
            in (Inr r, snd (notifyEvent (ou_notifyFault io) (bypass_announcement io x s u (bypass_recipients x u prin d3)) d3))
          else (Inr r, add_audit (request_audit (sa_org x) (Some (sa_requester x)) ''access_request.auto_approved''
                  (Some (req_id r)) common) d2))"

definition submit :: "outside \<Rightarrow> submit_args \<Rightarrow> db \<Rightarrow> request res \<times> db" where
  "submit io x d =
     (case submit_args_error x of Some e \<Rightarrow> (Inl e, d) | None \<Rightarrow>
      case find_server d (sa_server x) (sa_org x) of
        None \<Rightarrow> (Inl (api_error 404 ''Server not found''), d)
      | Some s \<Rightarrow>
      case assertServerInScope (sa_scope x) (Some s) of Inl e \<Rightarrow> (Inl e, d) | Inr _ \<Rightarrow>
      if \<not> isServerOnboarded (Some s)
      then (Inl (api_error 400 ''This server has not been onboarded yet, so access cannot be requested.''), d)
      else case find_user d (sa_requester x) (sa_org x) of
        None \<Rightarrow> (Inl (api_error 404 ''Requester not found''), d)
      | Some u \<Rightarrow>
      case submit_principal d x s u of Inl e \<Rightarrow> (Inl e, d) | Inr prin \<Rightarrow>
      case evaluate d (sa_org x) (sa_requester x) (sa_server x)
             (if sa_protocol x = RDP then None else Some prin) [] None of
        Inl e \<Rightarrow> (Inl e, d)
      | Inr ev \<Rightarrow>
          if ev_requiresApproval ev then submit_pending io x s u prin d
          else if \<not> ev_allowed ev
          then (Inl (api_error 403 (''Access denied by policy: '' @ (case ev_reason ev of None \<Rightarrow> ''null'' | Some m \<Rightarrow> m))), d)
          else submit_approved io x s u prin ev d)"

end
