(* ===== verification/Review.thy ===== *)
theory Review
  imports Access
begin

text \<open>
  Deciding access requests and what an approved one gives: \<open>review\<close>, \<open>generateSshCredentials\<close>
  and the \<open>.rdp\<close> file of \<open>accessRequestService.js\<close>, with the checks of \<open>rdpService.js\<close>. \<open>review\<close>
  is two definitions, the reads and checks before its conditional update and what follows, so
  that decisions of several approvers can be interleaved between them.
\<close>

section \<open>Review\<close>

datatype decision = Approve | Deny

record review_args =
  rv_request :: id
  rv_reviewer :: id
  rv_decision :: "decision option"
  rv_duration :: int
  rv_deniedReason :: "string option"
  rv_via :: string

text \<open>The approver set of a request, with the primary reviewer.\<close>

definition is_approver :: "id \<Rightarrow> request \<Rightarrow> bool" where
  "is_approver uid r \<longleftrightarrow> req_reviewer r = Some uid \<or> uid \<in> set (req_approvers r)"

definition review_read :: "review_args \<Rightarrow> db \<Rightarrow> request res" where
  "review_read x d =
     (if rv_request x = [] then Inl (api_error 400 ''requestId is required'')
      else if rv_reviewer x = [] then Inl (api_error 400 ''reviewerId is required'')
      else if rv_decision x = None then Inl (api_error 400 (''decision must be '' @ sq ''approve'' @ '' or '' @ sq ''deny''))
      else case find_request d (rv_request x) of
        None \<Rightarrow> Inl (api_error 404 ''Access request not found'')
      | Some ar \<Rightarrow>
          if \<not> is_approver (rv_reviewer x) ar
          then Inl (api_error 403 ''You are not an eligible approver for this request'')
          else if req_status ar \<noteq> PENDING
          then Inl (api_error 409 (''Request is not pending (current status: '' @ status_name (req_status ar) @ '')''))
          else if active_member d (rv_reviewer x) (req_org ar) = None
          then Inl (api_error 403 ''Your account can no longer approve requests'')
          else Inr ar)"

text \<open>Never longer than the matching policy allows.\<close>

definition review_duration :: "db \<Rightarrow> review_args \<Rightarrow> request \<Rightarrow> int" where
  "review_duration d x ar =
     (let dur = (if rv_duration x > 0 then rv_duration x else req_duration ar)
      in case findApproverPolicy d (req_org ar) (req_requester ar) (req_server ar)
                (if req_principal ar = [] then None else Some (req_principal ar)) of
           None \<Rightarrow> dur
         | Some p \<Rightarrow> if pol_maxDuration p > 0 \<and> dur > pol_maxDuration p then pol_maxDuration p else dur)"

definition approve_row :: "id \<Rightarrow> int \<Rightarrow> int \<Rightarrow> request \<Rightarrow> request" where
  "approve_row reviewer now dur r =
     r\<lparr>req_status := APPROVED, req_reviewer := Some reviewer, req_approvedDuration := Some dur,
       req_approvedAt := Some now, req_expiresAt := Some (now + dur * 1000)\<rparr>"

definition deny_row :: "id \<Rightarrow> int \<Rightarrow> string option \<Rightarrow> request \<Rightarrow> request" where
  "deny_row reviewer now reason r =
     r\<lparr>req_status := DENIED, req_reviewer := Some reviewer, req_deniedAt := Some now, req_deniedReason := reason\<rparr>"

definition env_json :: "server option \<Rightarrow> json" where
  "env_json s = json_opt (map_option (\<lambda>v. env_name (srv_env v)) s)"

text \<open>The requester is told; failures are logged only. A missing server is a failure too.\<close>

definition tell_requester :: "outside \<Rightarrow> request \<Rightarrow> notification_type \<Rightarrow> string \<Rightarrow> (string \<Rightarrow> string) \<Rightarrow>
     (string \<times> json) list \<Rightarrow> db \<Rightarrow> unit res \<times> db" where
  "tell_requester io ar ty title body m d =
     (case server_of d ar of None \<Rightarrow> (Inl TypeError, d)
      | Some s \<Rightarrow> createNotification (ou_notifyFault io (req_requester ar))
          \<lparr>ntf_org = req_org ar, ntf_user = req_requester ar, ntf_type = ty, ntf_title = title,
           ntf_body = body (server_label s), ntf_meta = JObj m\<rparr> d)"

definition decided :: "id \<Rightarrow> db \<Rightarrow> request res" where
  "decided rid d = (case find_request d rid of None \<Rightarrow> Inl TypeError | Some r \<Rightarrow> Inr r)"

definition just_decided :: err where
  "just_decided = api_error 409 ''Request is not pending (it was just decided by someone else)''"

definition review_approve :: "outside \<Rightarrow> review_args \<Rightarrow> request \<Rightarrow> db \<Rightarrow> request res \<times> db" where
  "review_approve io x ar d =
     (let dur = review_duration d x ar; now = ou_now io in
      case claim_request (rv_request x) (\<lambda>r. req_status r = PENDING) (approve_row (rv_reviewer x) now dur) d of
        (n, d1) \<Rightarrow>
          if n = 0 then (Inl just_decided, d1)
          else
            let d2 = add_audit (request_audit (req_org ar) (Some (rv_reviewer x)) ''access_request.approved'' (Some (rv_request x))
                       [(''duration'', JNum dur), (''expiresAt'', JNum (now + dur * 1000)), (''via'', JStr (rv_via x)),
                        (''environment'', env_json (server_of d ar))]) d1;
                d3 = snd (tell_requester io ar ACCESS_REQUEST_APPROVED ''Your access request was approved''
                       (\<lambda>s. ''Your request for '' @ s @ '' has been approved for '' @ int_str (math_round_div dur 60) @ '' minutes.'')
                       [(''accessRequestId'', JStr (rv_request x)), (''reviewerId'', JStr (rv_reviewer x)),
                        (''expiresAt'', JNum (now + dur * 1000))] d2)
            in (decided (rv_request x) d1, d3))"

definition review_deny :: "outside \<Rightarrow> review_args \<Rightarrow> request \<Rightarrow> db \<Rightarrow> request res \<times> db" where
  "review_deny io x ar d =
     (case claim_request (rv_request x) (\<lambda>r. req_status r = PENDING)
             (deny_row (rv_reviewer x) (ou_now io) (rv_deniedReason x)) d of
        (n, d1) \<Rightarrow>
          if n = 0 then (Inl just_decided, d1)
          else
            let d2 = add_audit (request_audit (req_org ar) (Some (rv_reviewer x)) ''access_request.denied'' (Some (rv_request x))
                       [(''deniedReason'', json_opt (rv_deniedReason x)), (''via'', JStr (rv_via x)),
                        (''environment'', env_json (server_of d ar))]) d1;
                d3 = snd (tell_requester io ar ACCESS_REQUEST_DENIED ''Your access request was denied''
                       (\<lambda>s. ''Your request for '' @ s @ '' was denied.'' @
                          (case rv_deniedReason x of None \<Rightarrow> [] | Some r \<Rightarrow> if r = [] then [] else '' Reason: '' @ r))
                       [(''accessRequestId'', JStr (rv_request x)), (''reviewerId'', JStr (rv_reviewer x)),
                        (''deniedReason'', json_opt (rv_deniedReason x))] d2)
            in (decided (rv_request x) d1, d3))"

text \<open>From the conditional update on, with the request as it was read.\<close>

definition review_decide :: "outside \<Rightarrow> review_args \<Rightarrow> request \<Rightarrow> db \<Rightarrow> request res \<times> db" where
  "review_decide io x ar d =
     (if rv_decision x = Some Approve then review_approve io x ar d else review_deny io x ar d)"

definition review :: "outside \<Rightarrow> review_args \<Rightarrow> db \<Rightarrow> request res \<times> db" where
  "review io x d = (case review_read x d of Inl e \<Rightarrow> (Inl e, d) | Inr ar \<Rightarrow> review_decide io x ar d)"

section \<open>SSH credentials\<close>

text \<open>\<open>/^[a-z_][a-z0-9_-]{0,31}$/\<close>\<close>

definition is_linux_user :: "string \<Rightarrow> bool" where
  "is_linux_user s =
     (case s of [] \<Rightarrow> False
      | c # cs \<Rightarrow>
          ((is_lower_alnum c \<and> \<not> (48 \<le> (of_char c :: nat) \<and> (of_char c :: nat) \<le> 57)) \<or> c = CHR ''_'') \<and> length cs \<le> 31 \<and>
          list_all (\<lambda>c. is_lower_alnum c \<or> c = CHR ''_'' \<or> c = CHR ''-'') cs)"

record credential_args =
  ca_request :: id
  ca_caller :: id
  ca_permissions :: "string list"
  ca_override :: string

text \<open>The request must be the caller's, approved, unexpired and have a minute left.\<close>

definition usable_request :: "db \<Rightarrow> int \<Rightarrow> id \<Rightarrow> id \<Rightarrow> request res" where
  "usable_request d now rid caller =
     (if rid = [] then Inl (api_error 400 ''requestId is required'')
      else if caller = [] then Inl (api_error 400 ''callerId is required'')
      else case find_request d rid of
        None \<Rightarrow> Inl (api_error 404 ''Access request not found'')
      | Some ar \<Rightarrow>
          if req_requester ar \<noteq> caller
          then Inl (api_error 403 ''Only the requester may download credentials for this request'')
          else if req_status ar \<noteq> APPROVED
          then Inl (api_error 409 (''Access request is not approved (status: '' @ status_name (req_status ar) @ '')''))
          else case req_expiresAt ar of
            None \<Rightarrow> Inl (api_error 410 ''Access request has expired'')
          | Some t \<Rightarrow> if t \<le> now then Inl (api_error 410 ''Access request has expired'') else Inr ar)"

definition primary_principal :: "db \<Rightarrow> credential_args \<Rightarrow> request \<Rightarrow> server \<Rightarrow> string \<Rightarrow> string res" where
  "primary_principal d x ar s legacy =
     (let ov = ca_override x in
      if ov = [] then Inr (req_principal ar)
      else if \<not> is_linux_user ov then Inl (api_error 400 ''principalOverride is not a valid Linux username'')
      else if ov \<in> {req_principal ar, legacy} then Inr ov
      else if ''access.choose_principal'' \<notin> set (ca_permissions x)
      then Inl (api_error 403 (''Principal '' @ dq ov @ '' is not allowed for this connection.''))
      else case evaluate d (req_org ar) (ca_caller x) (srv_id s) (Some ov) [] None of
        Inl e \<Rightarrow> Inl e
      | Inr ev \<Rightarrow>
          if ev_requiresApproval ev then Inl (api_error 403 (''Connecting as '' @ dq ov @ '' needs its own approved request.''))
          else if \<not> ev_allowed ev
          then Inl (api_error 403 (''Principal '' @ dq ov @ '' is not allowed by policy: '' @
                 (case ev_reason ev of None \<Rightarrow> ''null'' | Some m \<Rightarrow> m)))
          else Inr ov)"

record ssh_credentials =
  sc_privateKey :: string
  sc_certificate :: string
  sc_hostname :: string
  sc_address :: string
  sc_port :: int
  sc_username :: string
  sc_expiresAt :: "int option"
  sc_command :: string

definition request_cert :: "id \<Rightarrow> int \<Rightarrow> request \<Rightarrow> server \<Rightarrow> id \<Rightarrow> string list \<Rightarrow> string \<Rightarrow> int \<Rightarrow> string \<times> int \<times> id \<Rightarrow> certificate" where
  "request_cert newId now ar s caller principals pub remaining sgd = (case sgd of (sc, serial, ca) \<Rightarrow>
     \<lparr>cert_id = newId, cert_org = req_org ar, cert_serial = serial, cert_type = CERT_USER,
      cert_keyId = ''ar-'' @ req_id ar, cert_principals = principals, cert_publicKey = js_trim pub,
      cert_signed = sc, cert_validAfter = now, cert_validBefore = now + remaining * 1000,
      cert_status = CERT_ACTIVE, cert_issuedTo = Some caller, cert_issuedFor = Some (srv_id s),
      cert_revokedAt = None, cert_revokedBy = None, cert_via = ''access_request''\<rparr>)"

definition connect_command :: "string \<Rightarrow> server \<Rightarrow> string" where
  "connect_command prin s =
     ''ssh -i id_ed25519 -o CertificateFile=id_ed25519-cert.pub -o StrictHostKeyChecking=accept-new '' @ prin @ ''@'' @
     (if srv_ip s = [] then srv_hostname s else srv_ip s) @ '' -p '' @ int_str (srv_port s)"

text \<open>\<open>keys\<close> is the fresh Ed25519 pair of \<open>ssh-keygen\<close>, private and public.\<close>

definition generateSshCredentials ::
    "signer \<Rightarrow> (string \<times> string) res \<Rightarrow> id \<Rightarrow> int \<Rightarrow> credential_args \<Rightarrow> db \<Rightarrow> ssh_credentials res \<times> db" where
  "generateSshCredentials sg keys newId now x d =
     (case usable_request d now (ca_request x) (ca_caller x) of Inl e \<Rightarrow> (Inl e, d) | Inr ar \<Rightarrow>
      let remaining = math_floor_div (the (req_expiresAt ar) - now) 1000 in
      if remaining < 60
      then (Inl (api_error 410 ''Access request expires too soon to issue credentials (< 60s remaining)''), d)
      else case server_of d ar of None \<Rightarrow> (Inl TypeError, d) | Some s \<Rightarrow>
      let legacy = legacy_user s in
      case primary_principal d x ar s legacy of Inl e \<Rightarrow> (Inl e, d) | Inr prin \<Rightarrow>
      let principals = (if legacy \<noteq> prin then [prin, legacy] else [prin]) in
      case keys of Inl e \<Rightarrow> (Inl e, d) | Inr (priv, pub) \<Rightarrow>
      case signCertificate sg (req_org ar) (js_trim pub) principals remaining CERT_USER (''ar-'' @ ca_request x) [] [] of
        Inl e \<Rightarrow> (Inl e, d)
      | Inr sgd \<Rightarrow>
          let c = request_cert newId now ar s (ca_caller x) principals pub remaining sgd;
              d1 = update_request (ca_request x) (\<lambda>r. r\<lparr>req_certificate := Some newId\<rparr>) (add_cert c d);
              d2 = add_audit (request_audit (req_org ar) (Some (ca_caller x)) ''access_request.ssh_credentials_generated''
                     (Some (ca_request x)) [(''certId'', JStr newId), (''principal'', JStr prin),
                       (''principals'', JArr (map JStr principals)), (''remainingSeconds'', JNum remaining)]) d1
          in (Inr \<lparr>sc_privateKey = priv, sc_certificate = fst sgd, sc_hostname = srv_hostname s,
                   sc_address = (if srv_ip s = [] then srv_hostname s else srv_ip s), sc_port = srv_port s,
                   sc_username = prin, sc_expiresAt = req_expiresAt ar, sc_command = connect_command prin s\<rparr>, d2))"

end
