(* ===== verification/Lifecycle.thy ===== *)
theory Lifecycle
  imports Review
begin

text \<open>
  How access ends (\<open>accessRequestService.js\<close>): revoking, the two expiry jobs and the warning
  before expiry. They also close live sessions, so they work on the whole \<open>world\<close>. Each job
  reads its list of requests first and then updates them one by one; the list and the single
  update are definitions of their own, so that other steps can come in between.
\<close>

section \<open>Ending the sessions of a request\<close>

definition endSessionsForRequest :: "int \<Rightarrow> faults \<Rightarrow> bool \<Rightarrow> id \<Rightarrow> id \<Rightarrow> id option \<Rightarrow> world \<Rightarrow> nat \<times> world" where
  "endSessionsForRequest now fl lookupFault oid rid by_user w =
     (if lookupFault then (0, w)
      else terminateActiveSessionsFor now fl oid (\<lambda>r. ses_request r = Some rid) by_user w)"

definition on_db :: "(db \<Rightarrow> db) \<Rightarrow> world \<Rightarrow> world" where
  "on_db f w = w\<lparr>w_db := f (w_db w)\<rparr>"

text \<open>A certificate that is missing or already revoked is logged only.\<close>

definition revoke_linked :: "int \<Rightarrow> id option \<Rightarrow> id option \<Rightarrow> db \<Rightarrow> db" where
  "revoke_linked now cid by_user d =
     (if truthy cid then snd (revokeCertificate now (the cid) by_user d) else d)"

section \<open>Revoking\<close>

record revoke_args =
  rk_request :: id
  rk_org :: id
  rk_caller :: id
  rk_permissions :: "string list"
  rk_reason :: "string option"

definition revoke_row :: "int \<Rightarrow> string option \<Rightarrow> request \<Rightarrow> request" where
  "revoke_row now reason r = r\<lparr>req_status := REVOKED, req_revokedAt := Some now, req_revokedReason := reason\<rparr>"

definition revoke_read :: "revoke_args \<Rightarrow> db \<Rightarrow> request res" where
  "revoke_read x d =
     (if rk_request x = [] then Inl (api_error 400 ''requestId is required'')
      else if rk_org x = [] then Inl (api_error 400 ''orgId is required'')
      else if rk_caller x = [] then Inl (api_error 400 ''callerId is required'')
      else case find_request_in_org d (rk_request x) (rk_org x) of
        None \<Rightarrow> Inl (api_error 404 ''Access request not found'')
      | Some ar \<Rightarrow>
          if ''access_requests.revoke_any'' \<notin> set (rk_permissions x) \<and> \<not> is_approver (rk_caller x) ar
          then Inl (api_error 403 ''You do not have permission to revoke this access request'')
          else if req_status ar = REVOKED then Inl (api_error 409 ''Access request is already revoked'')
          else Inr ar)"

definition revoke_body :: "string \<Rightarrow> string option \<Rightarrow> string" where
  "revoke_body label reason =
     ''Your access to '' @ label @ '' was revoked.'' @
     (case reason of None \<Rightarrow> [] | Some r \<Rightarrow> if r = [] then [] else '' Reason: '' @ r)"

text \<open>
  The row, the certificate linked to it, the live sessions; then the requester is told,
  unguarded, and the audit entry comes last.
\<close>

definition revoke_apply :: "outside \<Rightarrow> faults \<Rightarrow> bool \<Rightarrow> revoke_args \<Rightarrow> request \<Rightarrow> world \<Rightarrow> request res \<times> world" where
  "revoke_apply io fl lookupFault x ar w =
     (let now = ou_now io; caller = rk_caller x;
          w1 = on_db (\<lambda>d. revoke_linked now (req_certificate ar) (Some caller)
                 (update_request (rk_request x) (revoke_row now (rk_reason x)) d)) w;
          w2 = snd (endSessionsForRequest now fl lookupFault (req_org ar) (rk_request x) (Some caller) w1)
      in case tell_requester io ar ACCESS_REQUEST_REVOKED ''Your access has been revoked''
                (\<lambda>s. revoke_body s (rk_reason x))
                [(''accessRequestId'', JStr (rk_request x)), (''revokedBy'', JStr caller), (''reason'', json_opt (rk_reason x))]
                (w_db w2) of
        (Inl e, _) \<Rightarrow> (Inl e, w2)
      | (Inr _, d3) \<Rightarrow>
          let d4 = add_audit (request_audit (req_org ar) (Some caller) ''access_request.revoked'' (Some (rk_request x))
                     [(''reason'', json_opt (rk_reason x)), (''certId'', json_opt (req_certificate ar))]) d3
          in (decided (rk_request x) d4, w2\<lparr>w_db := d4\<rparr>))"

definition revoke :: "outside \<Rightarrow> faults \<Rightarrow> bool \<Rightarrow> revoke_args \<Rightarrow> world \<Rightarrow> request res \<times> world" where
  "revoke io fl lookupFault x w =
     (case revoke_read x (w_db w) of Inl e \<Rightarrow> (Inl e, w) | Inr ar \<Rightarrow> revoke_apply io fl lookupFault x ar w)"

section \<open>Expiry\<close>

definition due_requests :: "int \<Rightarrow> db \<Rightarrow> request list" where
  "due_requests now d =
     filter (\<lambda>r. req_status r = APPROVED \<and> (case req_expiresAt r of None \<Rightarrow> False | Some t \<Rightarrow> t < now)) (requests d)"

definition expire_row :: "request \<Rightarrow> request" where
  "expire_row r = r\<lparr>req_status := EXPIRED\<rparr>"

text \<open>
  One request of the list, as it was read. The update is not conditional. \<open>uf\<close> is a failed
  update; the result says whether it was counted.
\<close>

definition expire_one ::
    "outside \<Rightarrow> (id \<Rightarrow> bool) \<Rightarrow> faults \<Rightarrow> bool \<Rightarrow> request \<Rightarrow> world \<Rightarrow> bool \<times> world" where
  "expire_one io uf fl lookupFault ar w =
     (if uf (req_id ar) then (False, w)
      else
        let now = ou_now io;
            w1 = on_db (\<lambda>d. revoke_linked now (req_certificate ar) None (update_request (req_id ar) expire_row d)) w;
            w2 = snd (endSessionsForRequest now fl lookupFault (req_org ar) (req_id ar) None w1)
        in case tell_requester io ar ACCESS_REQUEST_EXPIRED ''Your access has expired''
                  (\<lambda>s. ''Your access to '' @ s @ '' has expired.'') [(''accessRequestId'', JStr (req_id ar))] (w_db w2) of
             (Inl _, _) \<Rightarrow> (False, w2)
           | (Inr _, d3) \<Rightarrow> (True, w2\<lparr>w_db := d3\<rparr>))"

definition count_true :: "(request \<Rightarrow> 's \<Rightarrow> bool \<times> 's) \<Rightarrow> request \<Rightarrow> nat \<times> 's \<Rightarrow> nat \<times> 's" where
  "count_true step ar acc = (case acc of (n, w) \<Rightarrow> (case step ar w of (b, w') \<Rightarrow> (if b then n + 1 else n, w')))"

definition markExpired :: "outside \<Rightarrow> (id \<Rightarrow> bool) \<Rightarrow> faults \<Rightarrow> bool \<Rightarrow> world \<Rightarrow> nat \<times> world" where
  "markExpired io uf fl lookupFault w =
     fold (count_true (expire_one io uf fl lookupFault)) (due_requests (ou_now io) (w_db w)) (0, w)"

definition stale_requests :: "int \<Rightarrow> db \<Rightarrow> request list" where
  "stale_requests now d =
     filter (\<lambda>r. req_status r = PENDING \<and> req_createdAt r < now - 24 * 60 * 60 * 1000) (requests d)"

definition expire_pending_one :: "outside \<Rightarrow> (id \<Rightarrow> bool) \<Rightarrow> request \<Rightarrow> db \<Rightarrow> bool \<times> db" where
  "expire_pending_one io uf ar d =
     (if uf (req_id ar) then (False, d)
      else case tell_requester io ar ACCESS_REQUEST_EXPIRED ''Your pending access request has expired''
             (\<lambda>s. ''Your pending request for access to '' @ s @ '' was not reviewed within 24 hours and has expired.'')
             [(''accessRequestId'', JStr (req_id ar))] (update_request (req_id ar) expire_row d) of
        (r, d') \<Rightarrow> (is_ok r, d'))"

definition markPendingExpired :: "outside \<Rightarrow> (id \<Rightarrow> bool) \<Rightarrow> db \<Rightarrow> nat \<times> db" where
  "markPendingExpired io uf d =
     fold (count_true (expire_pending_one io uf)) (stale_requests (ou_now io) d) (0, d)"

section \<open>The warning before expiry\<close>

definition expiring_requests :: "int \<Rightarrow> db \<Rightarrow> request list" where
  "expiring_requests now d =
     filter (\<lambda>r. req_status r = APPROVED \<and>
       (case req_expiresAt r of None \<Rightarrow> False | Some t \<Rightarrow> now < t \<and> t \<le> now + 10 * 60 * 1000)) (requests d)"

definition already_warned :: "db \<Rightarrow> request \<Rightarrow> bool" where
  "already_warned d ar \<longleftrightarrow>
     (\<exists>n \<in> set (notifications d). ntf_user n = req_requester ar \<and> ntf_type n = ACCESS_REQUEST_EXPIRING \<and>
        json_get (ntf_meta n) ''requestId'' = Some (JStr (req_id ar)))"

text \<open>\<open>isoString\<close> prints an instant as \<open>toISOString\<close> does.\<close>

definition warn_one :: "(int \<Rightarrow> string) \<Rightarrow> outside \<Rightarrow> request \<Rightarrow> db \<Rightarrow> bool \<times> db" where
  "warn_one isoString io ar d =
     (if already_warned d ar then (False, d)
      else case tell_requester io ar ACCESS_REQUEST_EXPIRING ''Your access is expiring soon''
             (\<lambda>s. ''Your access to '' @ s @ '' expires at '' @ isoString (the (req_expiresAt ar)) @
                ''. Download credentials now if you still need them.'')
             [(''requestId'', JStr (req_id ar)), (''expiresAt'', JNum (the (req_expiresAt ar)))] d of
        (r, d') \<Rightarrow> (is_ok r, d'))"

definition notifyExpiringAccess :: "(int \<Rightarrow> string) \<Rightarrow> outside \<Rightarrow> db \<Rightarrow> nat \<times> db" where
  "notifyExpiringAccess isoString io d =
     fold (count_true (warn_one isoString io)) (expiring_requests (ou_now io) d) (0, d)"

end
