(* ===== verification/RequestReads.thy ===== *)
theory RequestReads
  imports Lifecycle
begin

text \<open>
  The reads of \<open>accessRequestService.js\<close>: one request with what the caller may do with it, the
  list with its tabs, and the intents the server pages ask for.
\<close>

section \<open>One request\<close>

text \<open>\<open>orderBy: { approvedAt: 'desc' }\<close>; the database puts rows without a value first.\<close>

definition by_approval :: "request list \<Rightarrow> request list" where
  "by_approval rs =
     sort_key (\<lambda>r. if req_approvedAt r = None then 0 else 1 :: nat)
       (sort_key (\<lambda>r. case req_approvedAt r of None \<Rightarrow> 0 | Some t \<Rightarrow> - t) rs)"

definition getActiveByServerForUser :: "db \<Rightarrow> int \<Rightarrow> id \<Rightarrow> id \<Rightarrow> id \<Rightarrow> request option" where
  "getActiveByServerForUser d now oid uid sid =
     first_opt (by_approval
       (filter (\<lambda>r. req_org r = oid \<and> req_requester r = uid \<and> req_server r = sid \<and> req_status r = APPROVED \<and>
          (case req_expiresAt r of None \<Rightarrow> False | Some t \<Rightarrow> now < t)) (requests d)))"

record viewer =
  vw_canReview :: bool
  vw_canRevoke :: bool

definition getRequestById :: "db \<Rightarrow> id \<Rightarrow> id \<Rightarrow> id \<Rightarrow> string list \<Rightarrow> scope \<Rightarrow> (request \<times> viewer) res" where
  "getRequestById d rid oid caller perms sc =
     (if rid = [] then Inl (api_error 400 ''requestId is required'')
      else if oid = [] then Inl (api_error 400 ''orgId is required'')
      else if caller = [] then Inl (api_error 400 ''callerId is required'')
      else case find_request_in_org d rid oid of
        None \<Rightarrow> Inl (api_error 404 ''Access request not found'')
      | Some ar \<Rightarrow>
          let isRequester = (req_requester ar = caller);
              isApprover = is_approver caller ar;
              viaAll = (''access_requests.view_all'' \<in> set perms)
          in if \<not> (viaAll \<or> isRequester \<or> isApprover)
             then Inl (api_error 403 ''You do not have permission to view this access request'')
             else case (if viaAll \<and> \<not> isRequester \<and> \<not> isApprover then assertServerInScope sc (server_of d ar) else Inr ()) of
               Inl e \<Rightarrow> Inl e
             | Inr _ \<Rightarrow>
                 Inr (ar, \<lparr>vw_canReview = (isApprover \<and> req_status ar = PENDING \<and> req_requester ar \<noteq> caller),
                          vw_canRevoke = (req_status ar = APPROVED \<and>
                            (''access_requests.revoke_any'' \<in> set perms \<or> isApprover))\<rparr>))"

section \<open>The list\<close>

datatype tab = TabMine | TabToReview | TabAll

record request_filters =
  rf_status :: "request_status option"
  rf_server :: id
  rf_requester :: id
  rf_reviewer :: id
  rf_customer :: id
  rf_protocol :: "protocol option"
  rf_env :: "environment option"
  rf_search :: string
  rf_from :: "int option"
  rf_to :: "int option"

definition tab_where :: "db \<Rightarrow> id \<Rightarrow> id \<Rightarrow> tab \<Rightarrow> scope \<Rightarrow> request \<Rightarrow> bool" where
  "tab_where d oid uid tb sc r \<longleftrightarrow>
     req_org r = oid \<and>
     (case tb of
        TabAll \<Rightarrow> relationScopeWhere sc (server_of d r)
      | TabToReview \<Rightarrow> req_status r = PENDING \<and> is_approver uid r
      | TabMine \<Rightarrow> req_requester r = uid)"

definition request_where :: "db \<Rightarrow> request_filters \<Rightarrow> request \<Rightarrow> bool" where
  "request_where d f r \<longleftrightarrow>
     (let sv = server_of d r; u = find_user_id d (req_requester r); q = js_trim (rf_search f) in
      (case rf_status f of None \<Rightarrow> True | Some st \<Rightarrow> req_status r = st) \<and>
      (rf_server f = [] \<or> req_server r = rf_server f) \<and>
      (rf_requester f = [] \<or> req_requester r = rf_requester f) \<and>
      (rf_reviewer f = [] \<or> is_approver (rf_reviewer f) r) \<and>
      (rf_customer f = [] \<or> holds (\<lambda>s. srv_customer s = rf_customer f) sv) \<and>
      (case rf_protocol f of None \<Rightarrow> True | Some p \<Rightarrow> req_protocol r = p) \<and>
      (case rf_env f of None \<Rightarrow> True | Some e \<Rightarrow> holds (\<lambda>s. srv_env s = e) sv) \<and>
      (q = [] \<or> contains_ci q (req_reason r) \<or> opt_contains q (map_option srv_hostname sv) \<or>
        opt_contains q (Option.bind sv srv_displayName) \<or> opt_contains q (map_option srv_ip sv) \<or>
        opt_contains q (map_option usr_name u) \<or> opt_contains q (map_option usr_email u)) \<and>
      (case rf_from f of None \<Rightarrow> True | Some t \<Rightarrow> t \<le> req_createdAt r) \<and>
      (case rf_to f of None \<Rightarrow> True | Some t \<Rightarrow> req_createdAt r \<le> t))"

datatype request_sort = ByCreated | ByStatus | ByDuration | ByServer

text \<open>The whitelist of \<open>buildOrderBy\<close>; a status sorts in the order of the enumeration.\<close>

fun status_rank :: "request_status \<Rightarrow> int" where
  "status_rank PENDING = 0"
| "status_rank APPROVED = 1"
| "status_rank DENIED = 2"
| "status_rank EXPIRED = 3"
| "status_rank REVOKED = 4"

text \<open>\<open>collate\<close> is the rank of a host name in the collation of the database.\<close>

definition request_key :: "(string \<Rightarrow> int) \<Rightarrow> db \<Rightarrow> request_sort \<Rightarrow> request \<Rightarrow> int" where
  "request_key collate d field r =
     (case field of
        ByStatus \<Rightarrow> status_rank (req_status r)
      | ByDuration \<Rightarrow> req_duration r
      | ByServer \<Rightarrow> (case server_of d r of None \<Rightarrow> 0 | Some s \<Rightarrow> collate (srv_hostname s))
      | ByCreated \<Rightarrow> req_createdAt r)"

text \<open>
  There is one sort column and no tie-breaker, so the database may return rows with equal keys in
  any order, and in another order the next time: \<open>ties\<close> is the order it happens to find the rows of
  this query in.
\<close>

definition order_requests ::
    "(string \<Rightarrow> int) \<Rightarrow> (request list \<Rightarrow> request list) \<Rightarrow> db \<Rightarrow> request_sort \<Rightarrow> bool \<Rightarrow> request list \<Rightarrow> request list" where
  "order_requests collate ties d field up rs = sort_key (\<lambda>r. (if up then 1 else - 1) * request_key collate d field r) (ties rs)"

record request_list =
  rl_items :: "request list"
  rl_total :: nat
  rl_page :: nat
  rl_limit :: nat

definition listRequests ::
    "(string \<Rightarrow> int) \<Rightarrow> (request list \<Rightarrow> request list) \<Rightarrow> db \<Rightarrow> id \<Rightarrow> id \<Rightarrow> string list \<Rightarrow> tab \<Rightarrow> request_filters \<Rightarrow> request_sort \<Rightarrow> bool \<Rightarrow>
     nat \<Rightarrow> nat \<Rightarrow> scope \<Rightarrow> request_list res" where
  "listRequests collate ties d oid uid perms tb f field up p n sc =
     (if oid = [] then Inl (api_error 400 ''orgId is required'')
      else if uid = [] then Inl (api_error 400 ''userId is required'')
      else if tb = TabAll \<and> ''access_requests.view_all'' \<notin> set perms
      then Inl (api_error 403 (''You don'' @ [CHR 0x27] @ ''t have permission to view all access requests''))
      else
        let rows = filter (\<lambda>r. tab_where d oid uid tb sc r \<and> request_where d f r) (requests d)
        in Inr \<lparr>rl_items = page_of (page_no p) (page_size n) (order_requests collate ties d field up rows),
                rl_total = length rows, rl_page = page_no p, rl_limit = page_size n\<rparr>)"

section \<open>Intents\<close>

record intent =
  in_hasActiveAccess :: bool
  in_activeRequestId :: "id option"
  in_hasPendingRequest :: bool
  in_preferredPrincipal :: string
  in_allowedPrincipals :: "string list"
  in_adminCanOverride :: bool
  in_protocol :: protocol
  in_requiresApproval :: bool
  in_isProduction :: bool
  in_jitEnabled :: bool
  in_breakGlass :: bool

definition pending_of :: "db \<Rightarrow> id \<Rightarrow> id \<Rightarrow> id \<Rightarrow> request option" where
  "pending_of d oid uid sid =
     find (\<lambda>r. req_org r = oid \<and> req_requester r = uid \<and> req_server r = sid \<and> req_status r = PENDING) (requests d)"

definition intent_of :: "db \<Rightarrow> int \<Rightarrow> id \<Rightarrow> string list \<Rightarrow> server \<Rightarrow> user \<Rightarrow> intent" where
  "intent_of d now oid perms s u =
     (let active = getActiveByServerForUser d now oid (usr_id u) (srv_id s);
          pending = pending_of d oid (usr_id u) (srv_id s);
          jitPolicy = findJitPolicyForUserServer d oid (usr_id u) (srv_id s);
          legacy = legacy_user s;
          jit = (if jitPolicy = None then None else Some (jitPrincipalFor u));
          isProd = (srv_env s = EnvProd)
      in \<lparr>in_hasActiveAccess = (active \<noteq> None), in_activeRequestId = map_option req_id active,
          in_hasPendingRequest = (pending \<noteq> None \<and> active = None),
          in_preferredPrincipal = or_else (or_opt (map_option req_principal active) jit) legacy,
          in_allowedPrincipals = (case jit of None \<Rightarrow> [legacy] | Some j \<Rightarrow> if j = legacy then [legacy] else [legacy, j]),
          in_adminCanOverride = (''access.choose_principal'' \<in> set perms),
          in_protocol = (if srv_protocol s = ProtoRdp then RDP else SSH),
          in_requiresApproval = (isProd \<and> \<not> canBypassProdApproval d oid perms),
          in_isProduction = isProd, in_jitEnabled = (jitPolicy \<noteq> None),
          in_breakGlass = (case active of None \<Rightarrow> False | Some r \<Rightarrow> req_breakGlass r)\<rparr>)"

definition getAccessIntent :: "db \<Rightarrow> int \<Rightarrow> id \<Rightarrow> id \<Rightarrow> string list \<Rightarrow> id \<Rightarrow> scope \<Rightarrow> intent res" where
  "getAccessIntent d now oid uid perms sid sc =
     (case find_server d sid oid of
        None \<Rightarrow> Inl (api_error 404 ''Server not found'')
      | Some s \<Rightarrow>
      case assertServerInScope sc (Some s) of Inl e \<Rightarrow> Inl e | Inr _ \<Rightarrow>
      case find_user d uid oid of
        None \<Rightarrow> Inl (api_error 404 ''User not found'')
      | Some u \<Rightarrow> Inr (intent_of d now oid perms s u))"

record bulk_intent =
  bi_hasActiveAccess :: bool
  bi_activeRequestId :: "id option"
  bi_hasPendingRequest :: bool
  bi_pendingRequestId :: "id option"
  bi_expiresAt :: "int option"
  bi_allowed :: bool
  bi_requiresApproval :: bool
  bi_isProduction :: bool
  bi_reason :: "string option"

definition default_intent :: bulk_intent where
  "default_intent = \<lparr>bi_hasActiveAccess = False, bi_activeRequestId = None, bi_hasPendingRequest = False,
     bi_pendingRequestId = None, bi_expiresAt = None, bi_allowed = False, bi_requiresApproval = False,
     bi_isProduction = False, bi_reason = None\<rparr>"

type_synonym intents = "(id \<times> bulk_intent) list"

text \<open>\<open>const entry = intents[k]; if (!entry) continue;\<close> and an update of the entry in place.\<close>

definition upd_intent :: "id \<Rightarrow> (bulk_intent \<Rightarrow> bulk_intent) \<Rightarrow> intents \<Rightarrow> intents" where
  "upd_intent k f m = map (\<lambda>p. if fst p = k then (k, f (snd p)) else p) m"

definition set_verdict :: "bulk_entry \<Rightarrow> bulk_intent \<Rightarrow> bulk_intent" where
  "set_verdict v e = e\<lparr>bi_allowed := be_allowed v, bi_requiresApproval := be_requiresApproval v,
     bi_isProduction := be_isProduction v, bi_reason := Some (be_reason v)\<rparr>"

definition set_active :: "request \<Rightarrow> bulk_intent \<Rightarrow> bulk_intent" where
  "set_active r e = (if bi_hasActiveAccess e then e
     else e\<lparr>bi_hasActiveAccess := True, bi_activeRequestId := Some (req_id r), bi_expiresAt := req_expiresAt r\<rparr>)"

definition set_pending :: "request \<Rightarrow> bulk_intent \<Rightarrow> bulk_intent" where
  "set_pending r e = (if bi_hasActiveAccess e \<or> bi_hasPendingRequest e then e
     else e\<lparr>bi_hasPendingRequest := True, bi_pendingRequestId := Some (req_id r)\<rparr>)"

definition getAccessIntentsBulk :: "db \<Rightarrow> int \<Rightarrow> id \<Rightarrow> id \<Rightarrow> id list \<Rightarrow> scope \<Rightarrow> intents res" where
  "getAccessIntentsBulk d now oid uid serverIds sc =
     (let ids = filter (\<lambda>i. i \<noteq> []) (uniq serverIds); start = map (\<lambda>i. (i, default_intent)) ids in
      if ids = [] then Inr start
      else if \<not> isUnscoped sc \<and>
         count_where (\<lambda>s. srv_org s = oid \<and> srv_id s \<in> set ids \<and> serverScopeWhere sc s) (servers d) \<noteq> length ids
      then Inl (api_error 404 ''Server not found'')
      else
        let mine = filter (\<lambda>r. req_org r = oid \<and> req_requester r = uid \<and> req_server r \<in> set ids) (requests d);
            active = by_approval (filter (\<lambda>r. req_status r = APPROVED \<and>
                       (case req_expiresAt r of None \<Rightarrow> False | Some t \<Rightarrow> now < t)) mine);
            pending = sort_key (\<lambda>r. - req_createdAt r) (filter (\<lambda>r. req_status r = PENDING) mine)
        in case evaluateBulk d oid uid ids of
             Inl e \<Rightarrow> Inl e
           | Inr verdicts \<Rightarrow>
               Inr (fold (\<lambda>r. upd_intent (req_server r) (set_pending r)) pending
                     (fold (\<lambda>r. upd_intent (req_server r) (set_active r)) active
                       (fold (\<lambda>v. upd_intent (fst v) (set_verdict (snd v))) verdicts start))))"

end
