(* ===== verification/Rdp.thy ===== *)
theory Rdp
  imports Review
begin

text \<open>
  What an approved RDP request gives (\<open>backend/src/services/rdpService.js\<close> and
  \<open>accessRequestService.generateRdpFile\<close>): the connection token of the browser and the
  downloaded \<open>.rdp\<close> file. Decryption of a stored password and the encryption of the token are
  arguments.
\<close>

section \<open>The connection token\<close>

definition rdpPortFor :: "server option \<Rightarrow> int" where
  "rdpPortFor so =
     (case so of None \<Rightarrow> 3389
      | Some s \<Rightarrow>
          (case srv_rdpPort s of
             Some p \<Rightarrow> if p \<noteq> 0 then p else if srv_protocol s = ProtoRdp \<and> srv_port s \<noteq> 0 then srv_port s else 3389
           | None \<Rightarrow> if srv_protocol s = ProtoRdp \<and> srv_port s \<noteq> 0 then srv_port s else 3389))"

text \<open>\<open>unseal\<close> is \<open>decrypt\<close> of \<open>utils/crypto.js\<close>, which may throw.\<close>

definition decryptRdpPassword :: "(string \<Rightarrow> string res) \<Rightarrow> server \<Rightarrow> string option res" where
  "decryptRdpPassword unseal s =
     (if truthy (srv_rdpPassword s)
      then (case unseal (the (srv_rdpPassword s)) of Inl e \<Rightarrow> Inl e | Inr p \<Rightarrow> Inr (Some p))
      else Inr None)"

text \<open>The identity that comes with the server row.\<close>

definition joined_credential :: "db \<Rightarrow> server \<Rightarrow> credential option" where
  "joined_credential d s =
     (case srv_credential s of None \<Rightarrow> None | Some i \<Rightarrow> find (\<lambda>c. cred_id c = i) (credentials d))"

definition resolveRdpCredentials :: "(string \<Rightarrow> string res) \<Rightarrow> db \<Rightarrow> server \<Rightarrow> (string \<times> string) res" where
  "resolveRdpCredentials unseal d s =
     (case (srv_authMode s, joined_credential d s) of
        (AuthCredential, Some c) \<Rightarrow>
          if truthy (cred_password c)
          then (case unseal (the (cred_password c)) of Inl e \<Rightarrow> Inl e | Inr p \<Rightarrow> Inr (cred_username c, p))
          else Inr (cred_username c, [])
      | _ \<Rightarrow>
          (case decryptRdpPassword unseal s of
             Inl e \<Rightarrow> Inl e
           | Inr p \<Rightarrow> Inr (or_else (srv_rdpUsername s) [], (case p of None \<Rightarrow> [] | Some q \<Rightarrow> q))))"

record guac_token =
  gt_hostname :: string
  gt_port :: string
  gt_username :: string
  gt_password :: string
  gt_expiration :: int
  gt_org :: id
  gt_server :: id
  gt_user :: id
  gt_request :: id

definition GUAC_TOKEN_TTL_MS :: int where "GUAC_TOKEN_TTL_MS = 5 * 60 * 1000"

definition buildRdpToken :: "(string \<Rightarrow> string res) \<Rightarrow> db \<Rightarrow> int \<Rightarrow> request \<Rightarrow> server \<Rightarrow> guac_token res" where
  "buildRdpToken unseal d now ar s =
     (case resolveRdpCredentials unseal d s of
        Inl e \<Rightarrow> Inl e
      | Inr (u, p) \<Rightarrow> Inr \<lparr>gt_hostname = (if srv_ip s = [] then srv_hostname s else srv_ip s),
          gt_port = int_str (rdpPortFor (Some s)), gt_username = u, gt_password = p,
          gt_expiration = now + GUAC_TOKEN_TTL_MS, gt_org = req_org ar, gt_server = srv_id s,
          gt_user = req_requester ar, gt_request = req_id ar\<rparr>)"

text \<open>The checks at redemption; the customer scope is looked at before anything else.\<close>

definition createConnectionForRequest ::
    "(string \<Rightarrow> string res) \<Rightarrow> int \<Rightarrow> id \<Rightarrow> scope \<Rightarrow> db \<Rightarrow> (server \<times> guac_token) res" where
  "createConnectionForRequest unseal now rid sc d =
     (case find_request d rid of
        None \<Rightarrow> Inl (api_error 404 ''Access request not found'')
      | Some ar \<Rightarrow>
      if \<not> relationScopeWhere sc (server_of d ar) then Inl (api_error 404 ''Access request not found'')
      else if req_status ar \<noteq> APPROVED
      then Inl (api_error 409 (''Access request is not approved (status: '' @ status_name (req_status ar) @ '')''))
      else if (case req_expiresAt ar of None \<Rightarrow> True | Some t \<Rightarrow> t \<le> now)
      then Inl (api_error 410 ''Access request has expired'')
      else if req_protocol ar \<noteq> RDP then Inl (api_error 400 ''Access request protocol is not RDP'')
      else case server_of d ar of
        None \<Rightarrow> Inl (api_error 404 ''Server not found on access request'')
      | Some s \<Rightarrow>
          if \<not> truthy (srv_rdpPassword s) \<and>
             \<not> (srv_authMode s = AuthCredential \<and> holds (\<lambda>c. truthy (cred_password c)) (joined_credential d s))
          then Inl (api_error 400 ''No RDP password configured for this server'')
          else (case buildRdpToken unseal d now ar s of Inl e \<Rightarrow> Inl e | Inr t \<Rightarrow> Inr (s, t)))"

section \<open>The file\<close>

text \<open>\<open>gateway\<close> is the trimmed \<open>RD_GATEWAY_HOST\<close>, empty when none is configured.\<close>

definition rdp_lines :: "(int \<Rightarrow> string) \<Rightarrow> string \<Rightarrow> request \<Rightarrow> server \<Rightarrow> string list" where
  "rdp_lines isoString gateway ar s =
     [''shellius-request-id:s:'' @ req_id ar, ''shellius-expires-at:s:'' @ isoString (the (req_expiresAt ar)), [],
      ''screen mode id:i:2'', ''use multimon:i:0'', ''desktopwidth:i:1920'', ''desktopheight:i:1080'',
      ''session bpp:i:32'', ''smart sizing:i:0'', ''displayconnectionbar:i:1'', [],
      ''full address:s:'' @ (if srv_ip s = [] then srv_hostname s else srv_ip s) @ '':'' @ int_str (rdpPortFor (Some s)),
      ''username:s:'' @ or_else (srv_rdpUsername s) (req_principal ar), []] @
     (if gateway \<noteq> []
      then [''gatewayhostname:s:'' @ gateway, ''gatewayusagemethod:i:1'', ''gatewaycredentialssource:i:4'',
            ''gatewayprofileusagemethod:i:1'']
      else [''gatewayusagemethod:i:0'']) @
     [[], ''authentication level:i:2'', ''prompt for credentials:i:0'', ''negotiate security layer:i:1'',
      ''enablecredsspsupport:i:1'', [], ''connection type:i:7'', ''networkautodetect:i:1'', ''bandwidthautodetect:i:1'',
      ''compression:i:1'', ''disable wallpaper:i:0'', ''allow font smoothing:i:1'', ''allow desktop composition:i:1'',
      ''disable full window drag:i:1'', ''disable menu anims:i:1'', ''disable themes:i:0'', ''bitmapcachepersistenable:i:1'',
      [], ''audiocapturemode:i:0'', ''videoplaybackmode:i:1'', ''keyboardhook:i:2'', ''redirectclipboard:i:1'',
      ''remoteapplicationmode:i:0'']"

record rdp_file =
  rdf_filename :: string
  rdf_content :: string
  rdf_expiresAt :: "int option"

definition crlf :: string where "crlf = [CHR 0x0D, CHR 0x0A]"

definition generateRdpFile ::
    "(string \<Rightarrow> string res) \<Rightarrow> (int \<Rightarrow> string) \<Rightarrow> string \<Rightarrow> int \<Rightarrow> id \<Rightarrow> id \<Rightarrow> scope \<Rightarrow> db \<Rightarrow> rdp_file res \<times> db" where
  "generateRdpFile unseal isoString gateway now rid caller sc d =
     (case usable_request d now rid caller of Inl e \<Rightarrow> (Inl e, d) | Inr ar \<Rightarrow>
      case createConnectionForRequest unseal now rid sc d of Inl e \<Rightarrow> (Inl e, d) | Inr (s, _) \<Rightarrow>
        (Inr \<lparr>rdf_filename = ''shellius-'' @ rid @ ''.rdp'', rdf_content = join crlf (rdp_lines isoString gateway ar s),
              rdf_expiresAt = req_expiresAt ar\<rparr>,
         add_audit (request_audit (req_org ar) (Some caller) ''access_request.rdp_file_generated'' (Some rid)
           [(''hostname'', JStr (srv_hostname s)), (''rdpPort'', JNum (rdpPortFor (Some s)))]) d))"

end
