(* ===== verification/AccessProps.thy ===== *)
theory AccessProps
  imports RequestReads Rdp
begin

text \<open>
  The lemmas about access requests: who can be an approver, what a submission leaves in the
  table, that a decision is taken once, and that no step changes whose request a row is.
\<close>

section \<open>Approvers\<close>

lemma map_put_snd: "set (map snd (map_put k v m)) \<subseteq> insert v (set (map snd m))"
  by (auto simp: map_put_def)

definition keyed_by_id :: "(id \<times> user) list \<Rightarrow> bool" where
  "keyed_by_id m \<longleftrightarrow> distinct (map fst m) \<and> (\<forall>(k, u) \<in> set m. k = usr_id u)"

lemma keyed_by_id_Nil [simp]: "keyed_by_id []"
  by (simp add: keyed_by_id_def)

lemma keyed_by_id_ids: "keyed_by_id m \<Longrightarrow> distinct (map usr_id (map snd m))"
proof -
  assume k: "keyed_by_id m"
  then have "map usr_id (map snd m) = map fst m" by (auto simp: keyed_by_id_def)
  with k show ?thesis by (simp add: keyed_by_id_def del: map_map)
qed

lemma keyed_by_id_add: "keyed_by_id m \<Longrightarrow> keyed_by_id (add_approver q u m)"
proof -
  assume k: "keyed_by_id m"
  show ?thesis
  proof (cases "map_of m (usr_id u)")
    case None
    with k show ?thesis
      by (auto simp: keyed_by_id_def add_approver_def map_put_def map_of_eq_None_iff)
  next
    case (Some v)
    have "map fst (map (\<lambda>p. if fst p = usr_id u then (usr_id u, u) else p) m) = map fst m" by (induction m) auto
    with k Some show ?thesis by (auto simp: keyed_by_id_def add_approver_def map_put_def simp del: map_map)
  qed
qed

lemma keyed_by_id_fold: "keyed_by_id m \<Longrightarrow> keyed_by_id (fold (add_approver q) us m)"
  by (induction us arbitrary: m) (auto intro: keyed_by_id_add)

lemma fold_add_approver:
  "set (map snd (fold (add_approver q) us m)) \<subseteq> set (map snd m) \<union> {u \<in> set us. usr_id u \<noteq> q}"
proof (induction us arbitrary: m)
  case (Cons u us)
  have "set (map snd (add_approver q u m)) \<subseteq> set (map snd m) \<union> {v. v = u \<and> usr_id u \<noteq> q}"
    using map_put_snd [of "usr_id u" u m] by (auto simp: add_approver_def)
  with Cons.IH [of "add_approver q u m"] show ?case by auto
qed simp

definition eligible_approver :: "db \<Rightarrow> id \<Rightarrow> id \<Rightarrow> id \<Rightarrow> bool" where
  "eligible_approver d oid requester uid \<longleftrightarrow>
     uid \<noteq> requester \<and> (\<exists>v \<in> set (users d). usr_id v = uid \<and> usr_org v = oid \<and> usr_status v = Active
       \<and> usr_deletedAt v = None)"

lemma active_member_SomeD:
  "active_member d uid oid = Some u \<Longrightarrow>
     u \<in> set (users d) \<and> usr_id u = uid \<and> usr_org u = oid \<and> usr_status u = Active \<and> usr_deletedAt u = None"
  by (auto simp: active_member_def dest: find_SomeD)

lemma resolveApprovers_eligible:
  assumes "u \<in> set (resolveApprovers d oid requester po manager)"
  shows "eligible_approver d oid requester (usr_id u)"
proof -
  define byId where "byId = fold (add_approver requester) (routed_approvers d oid po) []"
  have r: "eligible_approver d oid requester (usr_id v)" if "v \<in> set (map snd byId)" for v
    using that fold_add_approver [of requester "routed_approvers d oid po" "[]"]
    by (auto simp: byId_def routed_approvers_def eligible_approver_def split: option.splits)
  from assms have "u \<in> set (map snd (case manager of
      Some m \<Rightarrow> if byId = [] \<and> active_member d (usr_id m) oid \<noteq> None then add_approver requester m byId else byId
    | None \<Rightarrow> byId))"
    unfolding resolveApprovers_def Let_def byId_def [symmetric] by simp
  then consider "u \<in> set (map snd byId)"
    | m where "active_member d (usr_id m) oid \<noteq> None" "u \<in> set (map snd (add_approver requester m []))"
    by (auto split: option.splits if_splits)
  then show ?thesis
  proof cases
    case (2 m)
    then obtain v where v: "active_member d (usr_id m) oid = Some v" by auto
    from 2(2) have "u = m \<and> usr_id m \<noteq> requester" by (auto simp: add_approver_def map_put_def split: if_splits)
    with active_member_SomeD [OF v] show ?thesis by (auto simp: eligible_approver_def)
  qed (rule r)
qed

lemma resolveApprovers_distinct: "distinct (map usr_id (resolveApprovers d oid requester po manager))"
proof -
  have "keyed_by_id (fold (add_approver requester) us [])" for us
    by (rule keyed_by_id_fold) simp
  then show ?thesis
    unfolding resolveApprovers_def Let_def
    by (intro keyed_by_id_ids) (auto split: option.split intro: keyed_by_id_add)
qed

section \<open>Submission\<close>

lemma createResourceToken_frames [simp]:
  "requests (createResourceToken t h n u ty r l d) = requests d" "users (createResourceToken t h n u ty r l d) = users d"
  "certs (createResourceToken t h n u ty r l d) = certs d" "sessions (createResourceToken t h n u ty r l d) = sessions d"
  by (simp_all add: createResourceToken_def)

lemma sendApprovalEmails_frames [simp]:
  "requests (sendApprovalEmails io rid as d) = requests d"
  "certs (sendApprovalEmails io rid as d) = certs d"
  "sessions (sendApprovalEmails io rid as d) = sessions d"
proof -
  have "requests (fold (\<lambda>a d. if usr_email a = [] then d
                 else case ou_token io (usr_id a) of None \<Rightarrow> d
                      | Some (tid, h) \<Rightarrow> createResourceToken tid h (ou_now io) (usr_id a) ACCESS_APPROVAL rid 24 d) as d)
        = requests d \<and>
      certs (fold (\<lambda>a d. if usr_email a = [] then d
                 else case ou_token io (usr_id a) of None \<Rightarrow> d
                      | Some (tid, h) \<Rightarrow> createResourceToken tid h (ou_now io) (usr_id a) ACCESS_APPROVAL rid 24 d) as d)
        = certs d \<and>
      sessions (fold (\<lambda>a d. if usr_email a = [] then d
                 else case ou_token io (usr_id a) of None \<Rightarrow> d
                      | Some (tid, h) \<Rightarrow> createResourceToken tid h (ou_now io) (usr_id a) ACCESS_APPROVAL rid 24 d) as d)
        = sessions d"
    by (induction as arbitrary: d) (simp_all split: option.split prod.split)
  then show "requests (sendApprovalEmails io rid as d) = requests d" "certs (sendApprovalEmails io rid as d) = certs d"
    "sessions (sendApprovalEmails io rid as d) = sessions d"
    by (simp_all add: sendApprovalEmails_def)
qed

lemma notifyEvent_frames [simp]:
  "requests (snd (notifyEvent f a d)) = requests d" "certs (snd (notifyEvent f a d)) = certs d"
  "sessions (snd (notifyEvent f a d)) = sessions d" "users (snd (notifyEvent f a d)) = users d"
  "audits (snd (notifyEvent f a d)) = audits d"
  using notified_frames [OF notifyEvent_notified [of d f a]] by simp_all

lemma createNotification_frames [simp]:
  "requests (snd (createNotification f n d)) = requests d" "certs (snd (createNotification f n d)) = certs d"
  "sessions (snd (createNotification f n d)) = sessions d" "users (snd (createNotification f n d)) = users d"
  "servers (snd (createNotification f n d)) = servers d" "audits (snd (createNotification f n d)) = audits d"
  using notified_frames [OF notified_create [of d f n]] by simp_all

lemma db_frames [simp]:
  "sessions (add_audit a d) = sessions d" "users (add_audit a d) = users d" "servers (add_audit a d) = servers d"
  "sessions (add_request r d) = sessions d" "users (add_request r d) = users d" "servers (add_request r d) = servers d"
  "audits (add_audit a d) = audits d @ [a]" "audits (add_request r d) = audits d"
  "sessions (add_cert c d) = sessions d" "certs (add_cert c d) = certs d @ [c]" "users (add_cert c d) = users d"
  "servers (add_cert c d) = servers d" "audits (add_cert c d) = audits d"
  "sessions (update_request i f d) = sessions d" "users (update_request i f d) = users d"
  "servers (update_request i f d) = servers d" "audits (update_request i f d) = audits d"
  by (simp_all add: store_updates)

lemma submit_pending_ok:
  assumes "submit_pending io x s u prin d = (Inr r, d')"
  obtains approvers where
    "approvers = resolveApprovers d (sa_org x) (sa_requester x)
       (findApproverPolicy d (sa_org x) (sa_requester x) (sa_server x) (Some prin)) (Option.bind (usr_manager u) (find_user_id d))"
    "approvers \<noteq> []"
    "r = (new_request io x prin PENDING)\<lparr>req_reviewer := Some (usr_id (hd approvers)), req_approvers := map usr_id approvers\<rparr>"
    "requests d' = requests d @ [r]" "certs d' = certs d" "sessions d' = sessions d"
  using assms by (auto simp: submit_pending_def Let_def split: list.splits)

lemma submit_pending_err: "submit_pending io x s u prin d = (Inl e, d') \<Longrightarrow> d' = d"
  by (auto simp: submit_pending_def Let_def split: list.splits)

lemma submit_approved_frames:
  "requests (snd (submit_approved io x s u prin ev d)) = requests d @ [approved_request io x prin ev]"
  "certs (snd (submit_approved io x s u prin ev d)) = certs d"
  "sessions (snd (submit_approved io x s u prin ev d)) = sessions d"
proof -
  let ?c = "createNotification (ou_notifyFault io (sa_requester x)) (auto_approved_note x s (approved_request io x prin ev))
    (add_request (approved_request io x prin ev) d)"
  obtain y d2 where c: "?c = (y, d2)" by force
  have "requests d2 = requests d @ [approved_request io x prin ev]" "certs d2 = certs d" "sessions d2 = sessions d"
    using createNotification_frames(1-3) [of "ou_notifyFault io (sa_requester x)"
        "auto_approved_note x s (approved_request io x prin ev)" "add_request (approved_request io x prin ev) d"]
    by (simp_all add: c)
  then show "requests (snd (submit_approved io x s u prin ev d)) = requests d @ [approved_request io x prin ev]"
    "certs (snd (submit_approved io x s u prin ev d)) = certs d"
    "sessions (snd (submit_approved io x s u prin ev d)) = sessions d"
    by (simp_all add: submit_approved_def Let_def c split: sum.split)
qed

lemma submit_approved_ok:
  "submit_approved io x s u prin ev d = (Inr r, d') \<Longrightarrow> r = approved_request io x prin ev"
  by (auto simp: submit_approved_def Let_def split: prod.splits sum.splits if_splits)

lemma submit_success:
  assumes "submit io x d = (Inr r, d')"
  obtains s u prin ev where
    "submit_args_error x = None"
    "find_server d (sa_server x) (sa_org x) = Some s" "assertServerInScope (sa_scope x) (Some s) = Inr ()"
    "isServerOnboarded (Some s)" "find_user d (sa_requester x) (sa_org x) = Some u"
    "submit_principal d x s u = Inr prin"
    "evaluate d (sa_org x) (sa_requester x) (sa_server x) (if sa_protocol x = RDP then None else Some prin) [] None = Inr ev"
    "if ev_requiresApproval ev then submit_pending io x s u prin d = (Inr r, d')
     else ev_allowed ev \<and> submit_approved io x s u prin ev d = (Inr r, d')"
proof -
  from assms obtain s where s: "submit_args_error x = None" "find_server d (sa_server x) (sa_org x) = Some s"
    by (auto simp: submit_def split: option.splits)
  from assms s obtain y where y: "assertServerInScope (sa_scope x) (Some s) = Inr y" "isServerOnboarded (Some s)"
    by (auto simp: submit_def split: sum.splits if_splits)
  from assms s y obtain u where u: "find_user d (sa_requester x) (sa_org x) = Some u"
    by (auto simp: submit_def split: option.splits)
  from assms s y u obtain prin where p: "submit_principal d x s u = Inr prin"
    by (auto simp: submit_def split: sum.splits)
  from assms s y u p obtain ev where ev:
    "evaluate d (sa_org x) (sa_requester x) (sa_server x) (if sa_protocol x = RDP then None else Some prin) [] None = Inr ev"
    by (auto simp: submit_def split: sum.splits)
  from assms s y u p ev have "if ev_requiresApproval ev then submit_pending io x s u prin d = (Inr r, d')
     else ev_allowed ev \<and> submit_approved io x s u prin ev d = (Inr r, d')"
    by (auto simp: submit_def split: if_splits)
  with s y u p ev show thesis by (intro that) auto
qed

section \<open>Decisions\<close>

lemma tell_requester_notified: "notified d (snd (tell_requester io ar ty t b m d))"
  by (auto simp: tell_requester_def notified_create split: option.split)

lemma tell_requester_frames [simp]:
  "requests (snd (tell_requester io ar ty t b m d)) = requests d" "certs (snd (tell_requester io ar ty t b m d)) = certs d"
  "sessions (snd (tell_requester io ar ty t b m d)) = sessions d" "users (snd (tell_requester io ar ty t b m d)) = users d"
  "audits (snd (tell_requester io ar ty t b m d)) = audits d" "servers (snd (tell_requester io ar ty t b m d)) = servers d"
  using notified_frames [OF tell_requester_notified [of d io ar ty t b m]] by simp_all

text \<open>The row a decision writes, for either decision.\<close>

definition decided_row :: "outside \<Rightarrow> review_args \<Rightarrow> request \<Rightarrow> db \<Rightarrow> request \<Rightarrow> request" where
  "decided_row io x ar d =
     (if rv_decision x = Some Approve then approve_row (rv_reviewer x) (ou_now io) (review_duration d x ar)
      else deny_row (rv_reviewer x) (ou_now io) (rv_deniedReason x))"

definition undecided :: "id \<Rightarrow> request \<Rightarrow> bool" where
  "undecided i r \<longleftrightarrow> req_id r = i \<and> req_status r = PENDING"

lemma decided_row_keeps [simp]:
  "req_id (decided_row io x ar d r) = req_id r" "req_requester (decided_row io x ar d r) = req_requester r"
  "req_approvers (decided_row io x ar d r) = req_approvers r" "req_breakGlass (decided_row io x ar d r) = req_breakGlass r"
  "req_duration (decided_row io x ar d r) = req_duration r" "req_certificate (decided_row io x ar d r) = req_certificate r"
  "req_reviewer (decided_row io x ar d r) = Some (rv_reviewer x)"
  "req_status (decided_row io x ar d r) = (if rv_decision x = Some Approve then APPROVED else DENIED)"
  by (simp_all add: decided_row_def approve_row_def deny_row_def)

interpretation decided_update: keyed_update req_id "decided_row io x ar d" for io x ar d
  by unfold_locales simp

lemma review_decide_lost:
  "(\<forall>q \<in> set (requests d). \<not> undecided (rv_request x) q) \<Longrightarrow> review_decide io x ar d = (Inl just_decided, d)"
  by (auto simp: review_decide_def review_approve_def review_deny_def claim_request_def Let_def undecided_def
      count_where_pos update_where_none)

lemma review_decide_won:
  fixes io :: outside and ar :: request
  assumes "\<exists>q \<in> set (requests d). undecided (rv_request x) q"
  defines "u \<equiv> review_decide io x ar d"
  shows "requests (snd u) = update_where (undecided (rv_request x)) (decided_row io x ar d) (requests d)"
    and "certs (snd u) = certs d" and "sessions (snd u) = sessions d"
    and "fst u = decided (rv_request x) (snd u)" and "is_ok (fst u)"
proof -
  have n: "count_where (\<lambda>r. req_id r = rv_request x \<and> req_status r = PENDING) (requests d) \<noteq> 0"
    using assms(1) by (auto simp: count_where_pos undecided_def)
  have p: "undecided (rv_request x) = (\<lambda>r. req_id r = rv_request x \<and> req_status r = PENDING)"
    by (auto simp: undecided_def)
  show R: "requests (snd u) = update_where (undecided (rv_request x)) (decided_row io x ar d) (requests d)"
    and "certs (snd u) = certs d" and "sessions (snd u) = sessions d" and F: "fst u = decided (rv_request x) (snd u)"
    using n by (simp_all add: u_def review_decide_def review_approve_def review_deny_def claim_request_def Let_def
        decided_row_def p decided_def find_request_def)
  have "find_request (snd u) (rv_request x) \<noteq> None"
    unfolding find_request_def R decided_update.find_key
    using assms(1) by (auto simp: find_None_iff_all undecided_def)
  then show "is_ok (fst u)" by (auto simp: F decided_def)
qed

lemma review_decide_cases:
  obtains (lost) "\<forall>q \<in> set (requests d). \<not> undecided (rv_request x) q" "review_decide io x ar d = (Inl just_decided, d)"
  | (won) r d' where "review_decide io x ar d = (Inr r, d')"
      "\<exists>q \<in> set (requests d). undecided (rv_request x) q" "find_request d' (rv_request x) = Some r"
      "requests d' = update_where (undecided (rv_request x)) (decided_row io x ar d) (requests d)"
      "certs d' = certs d" "sessions d' = sessions d"
proof (cases "\<exists>q \<in> set (requests d). undecided (rv_request x) q")
  case True
  obtain r d' where u: "review_decide io x ar d = (Inr r, d')"
    using review_decide_won(5) [OF True, of io ar] by (metis is_ok_iff prod.collapse)
  have "decided (rv_request x) d' = Inr r" using review_decide_won(4) [OF True, of io ar] by (simp add: u)
  then have "find_request d' (rv_request x) = Some r" by (auto simp: decided_def split: option.splits)
  then show thesis using won [OF u True] review_decide_won(1-3) [OF True, of io ar] by (simp add: u)
next
  case False
  then show thesis using lost review_decide_lost by blast
qed

lemma review_read_ok:
  assumes "review_read x d = Inr ar"
  shows "find_request d (rv_request x) = Some ar \<and> req_id ar = rv_request x \<and> is_approver (rv_reviewer x) ar
    \<and> req_status ar = PENDING \<and> rv_decision x \<noteq> None
    \<and> (\<exists>u \<in> set (users d). usr_id u = rv_reviewer x \<and> usr_org u = req_org ar \<and> usr_status u = Active \<and> usr_deletedAt u = None)"
  using assms
  by (auto simp: review_read_def split: if_splits option.splits dest!: find_request_SomeD active_member_SomeD)

lemma review_duration_capped:
  assumes "findApproverPolicy d (req_org ar) (req_requester ar) (req_server ar)
      (if req_principal ar = [] then None else Some (req_principal ar)) = Some p" and "pol_maxDuration p > 0"
  shows "review_duration d x ar \<le> pol_maxDuration p"
  using assms by (simp add: review_duration_def Let_def)

lemma review_duration_pos: "0 < req_duration ar \<Longrightarrow> 0 < review_duration d x ar"
  by (auto simp: review_duration_def Let_def split: option.split)

section \<open>Credentials\<close>

lemma usable_request_ok:
  "usable_request d now rid caller = Inr ar \<Longrightarrow>
     find_request d rid = Some ar \<and> req_id ar = rid \<and> req_requester ar = caller \<and> req_status ar = APPROVED
     \<and> (\<exists>t. req_expiresAt ar = Some t \<and> now < t)"
  by (auto simp: usable_request_def split: if_splits option.splits dest: find_request_SomeD)

lemma signCertificate_ok:
  "signCertificate sg oid pub ps v ct k exts crits = Inr y \<Longrightarrow> \<exists>sc ca. y = (sc, sg_serial sg, ca) \<and> ps \<noteq> [] \<and> 0 < v"
  by (auto simp: signCertificate_def split: if_splits option.splits sum.splits)

lemma generateSshCredentials_ok:
  assumes "generateSshCredentials sg keys newId now x d = (Inr c, d')"
  obtains ar t s prin pub sgd where
    "usable_request d now (ca_request x) (ca_caller x) = Inr ar" "req_expiresAt ar = Some t"
    "60 \<le> math_floor_div (t - now) 1000" "server_of d ar = Some s"
    "primary_principal d x ar s (legacy_user s) = Inr prin"
    "sc_username c = prin" "fst (snd sgd) = sg_serial sg" "sc_certificate c = fst sgd"
    "certs d' = certs d @ [request_cert newId now ar s (ca_caller x)
        (if legacy_user s \<noteq> prin
         then [prin, legacy_user s] else [prin]) pub (math_floor_div (t - now) 1000) sgd]"
    "requests d' = update_where (\<lambda>r. req_id r = ca_request x) (\<lambda>r. r\<lparr>req_certificate := Some newId\<rparr>) (requests d)"
    "sessions d' = sessions d" "users d' = users d" "servers d' = servers d"
proof -
  from assms obtain ar where ar: "usable_request d now (ca_request x) (ca_caller x) = Inr ar"
    by (auto simp: generateSshCredentials_def split: sum.splits)
  from usable_request_ok [OF ar] obtain t where t: "req_expiresAt ar = Some t" by blast
  from assms ar t obtain s where s: "60 \<le> math_floor_div (t - now) 1000" "server_of d ar = Some s"
    by (auto simp: generateSshCredentials_def Let_def split: if_splits option.splits)
  from assms ar t s obtain prin where p: "primary_principal d x ar s (legacy_user s) = Inr prin"
    by (cases "primary_principal d x ar s (legacy_user s)") (auto simp: generateSshCredentials_def Let_def)
  from assms ar t s p obtain priv pub where k: "keys = Inr (priv, pub)"
    by (cases keys) (auto simp: generateSshCredentials_def Let_def)
  let ?ps = "if legacy_user s \<noteq> prin then [prin, legacy_user s] else [prin]"
  let ?g = "signCertificate sg (req_org ar) (js_trim pub) ?ps (math_floor_div (t - now) 1000) CERT_USER (''ar-'' @ ca_request x) [] []"
  from assms ar t s p k obtain sgd where g: "?g = Inr sgd"
    by (cases ?g) (auto simp: generateSshCredentials_def Let_def)
  from signCertificate_ok [OF g] have sg: "fst (snd sgd) = sg_serial sg" by auto
  have c: "c = \<lparr>sc_privateKey = priv, sc_certificate = fst sgd, sc_hostname = srv_hostname s,
      sc_address = (if srv_ip s = [] then srv_hostname s else srv_ip s), sc_port = srv_port s,
      sc_username = prin, sc_expiresAt = req_expiresAt ar, sc_command = connect_command prin s\<rparr>"
    using assms ar t s p k g by (simp add: generateSshCredentials_def Let_def)
  have d': "certs d' = certs d @ [request_cert newId now ar s (ca_caller x) ?ps pub (math_floor_div (t - now) 1000) sgd]"
    "requests d' = update_where (\<lambda>r. req_id r = ca_request x) (\<lambda>r. r\<lparr>req_certificate := Some newId\<rparr>) (requests d)"
    "sessions d' = sessions d" "users d' = users d" "servers d' = servers d"
    using assms ar t s p k g by (auto simp: generateSshCredentials_def Let_def)
  show thesis by (rule that [OF ar t s p _ sg _ d']) (simp_all add: c)
qed

lemma generateSshCredentials_tables:
  assumes "generateSshCredentials sg keys newId now x d = (Inr c, d')"
  shows "requests d' = update_where (\<lambda>r. req_id r = ca_request x) (\<lambda>r. r\<lparr>req_certificate := Some newId\<rparr>) (requests d)"
    "servers d' = servers d" "users d' = users d" "sessions d' = sessions d"
  by (rule generateSshCredentials_ok [OF assms], assumption)+

lemma primary_principal_ok:
  assumes "primary_principal d x ar s legacy = Inr prin"
  shows "prin \<in> {req_principal ar, legacy} \<or>
    (''access.choose_principal'' \<in> set (ca_permissions x) \<and> is_linux_user prin \<and>
     (\<exists>ev. evaluate d (req_org ar) (ca_caller x) (srv_id s) (Some prin) [] None = Inr ev \<and> ev_allowed ev \<and> \<not> ev_requiresApproval ev))"
  using assms by (auto simp: primary_principal_def Let_def split: if_splits sum.splits)

section \<open>Ending the sessions of a request\<close>

text \<open>What only sessions and the audit log see.\<close>

definition session_only :: "db \<Rightarrow> db \<Rightarrow> bool" where
  "session_only d d' \<longleftrightarrow> (\<exists>ss as. d' = d\<lparr>sessions := ss, audits := audits d @ as\<rparr>)"

lemma session_onlyI: "d' = d\<lparr>sessions := ss, audits := audits d @ as\<rparr> \<Longrightarrow> session_only d d'"
  by (auto simp: session_only_def)

lemma session_only_refl [simp]: "session_only d d"
  by (rule session_onlyI [where ss = "sessions d" and as = "[]"]) simp

lemma session_only_trans: "session_only a b \<Longrightarrow> session_only b c \<Longrightarrow> session_only a c"
  unfolding session_only_def by (elim exE) (intro exI, force)

lemma session_only_update: "session_only d (update_session i f d)"
  by (rule session_onlyI [where as = "[]"]) (simp add: update_session_def)

lemma session_only_audit: "session_only d (add_audit a d)"
  by (rule session_onlyI [where ss = "sessions d" and as = "[a]"]) (simp add: add_audit_def)

lemma session_only_end: "session_only d (snd (endSession now i st p d))"
  by (auto simp: endSession_def session_only_update split: option.split)

lemma session_only_frames:
  assumes "session_only d d'"
  shows "requests d' = requests d" "certs d' = certs d" "users d' = users d" "servers d' = servers d"
    "policies d' = policies d" "tokens d' = tokens d" "notifications d' = notifications d"
    "\<exists>as. audits d' = audits d @ as"
  using assms by (auto simp: session_only_def)

lemma session_only_end_finish: "session_only d (snd (end_finish now f r reason extra d))"
proof -
  let ?d1 = "if hr_recording r \<noteq> None \<and> fst f
     then update_session (hr_id r) (\<lambda>s. s\<lparr>ses_recording := hr_recording r\<rparr>) d else d"
  let ?e = "endSession now (hr_id r) (end_status reason) (Some ((''endReason'', JStr reason) # extra)) ?d1"
  have a: "session_only d ?d1" by (simp add: session_only_update)
  moreover have "session_only d (snd ?e)" using a session_only_end session_only_trans by blast
  ultimately have "session_only d (snd (if snd f then (None, ?d1)
      else case ?e of (Inr s, d2) \<Rightarrow> (Some s, d2) | (Inl _, d2) \<Rightarrow> (None, d2)))"
    by (auto split: prod.split sum.split)
  then show ?thesis
    unfolding end_finish_def Let_def snd_conv using session_only_audit session_only_trans by blast
qed

lemma session_only_end_hub: "session_only (w_db w) (w_db (snd (end_hub now fl sid reason extra w)))"
proof (cases "hub_get sid w")
  case None
  then show ?thesis by (simp add: end_hub_None)
next
  case (Some r)
  have "w_db (end_sync r reason w) = w_db w" by (simp add: end_sync_def Let_def hub_delete_def)
  with Some show ?thesis by (simp add: end_hub_def Let_def session_only_end_finish)
qed

lemma session_only_terminate: "session_only (w_db w) (w_db (snd (terminateSession now fl oid sid by_user w)))"
proof -
  have e: "session_only (w_db w) (w_db (snd (end_hub now fl sid ''terminated'' [(''terminatedBy'', json_opt by_user)] w)))"
    by (rule session_only_end_hub)
  have t: "session_only d (snd (terminateRow now oid sid by_user d))" for d
    by (auto simp: terminateRow_def Let_def session_only_update split: option.split)
  show ?thesis
    using e t [of "w_db w"] by (auto simp: terminateSession_def Let_def split: option.splits prod.splits sum.splits)
qed

definition terminate_ids :: "int \<Rightarrow> faults \<Rightarrow> id \<Rightarrow> id option \<Rightarrow> id list \<Rightarrow> world \<Rightarrow> world" where
  "terminate_ids now fl oid by_user ids w = fold (\<lambda>sid w. snd (terminateSession now fl oid sid by_user w)) ids w"

lemma snd_terminate_all:
  "snd (terminate_all now fl oid by_user ids acc) = terminate_ids now fl oid by_user ids (snd acc)"
  unfolding terminate_all_def terminate_ids_def
  by (induction ids arbitrary: acc) (auto split: prod.split sum.split)

lemma terminate_hub: "set (w_hub (snd (terminateSession now fl oid sid by_user w))) \<subseteq> set (w_hub w)"
proof (cases "hub_get sid w")
  case None
  then show ?thesis by (auto simp: terminateSession_def Let_def split: option.splits prod.splits sum.splits)
next
  case (Some r)
  let ?e = "end_hub now fl sid ''terminated'' [(''terminatedBy'', json_opt by_user)] w"
  have "set (w_hub (snd ?e)) \<subseteq> set (w_hub w)" by auto
  with Some show ?thesis by (cases ?e) (auto simp: terminateSession_def split: option.splits)
qed

lemma closes_ids: "closes d d' \<Longrightarrow> map ses_id (sessions d') = map ses_id (sessions d)"
  unfolding closes_def by (induction rule: list_all2_induct) (auto simp: row_after_def)

lemma find_both: "find P xs = Some x \<Longrightarrow> Q x \<Longrightarrow> find (\<lambda>y. P y \<and> Q y) xs = Some x"
  by (induction xs) (auto split: if_splits)

lemma row_closed_audit [simp]: "row_closed i (add_audit a d) = row_closed i d"
  by (simp add: row_closed_def)

lemma end_finish_closed:
  assumes "find_session d (hr_id h) = Some r" and "\<not> snd f" and "hr_id h \<noteq> []"
  shows "row_closed (hr_id h) (snd (end_finish now f h reason extra d))"
proof -
  let ?d1 = "if hr_recording h \<noteq> None \<and> fst f
     then update_session (hr_id h) (\<lambda>s. s\<lparr>ses_recording := hr_recording h\<rparr>) d else d"
  have "find_session ?d1 (hr_id h) \<noteq> None"
    using assms(1) find_session_SomeD [OF assms(1)]
    by (simp add: find_session_def update_session_def find_update_where)
  then obtain q where q: "find_session ?d1 (hr_id h) = Some q" by auto
  have "end_status reason \<noteq> SES_ACTIVE" by (simp add: end_status_def)
  from endSession_ok [OF q assms(3) this, of now "Some ((''endReason'', JStr reason) # extra)"]
  obtain s d' where "endSession now (hr_id h) (end_status reason) (Some ((''endReason'', JStr reason) # extra)) ?d1 = (Inr s, d')"
    "row_closed (hr_id h) d'" by blast
  with assms(2) show ?thesis by (simp add: end_finish_def Let_def)
qed

text \<open>Without a failed write, force-closing a session of the organization leaves its row closed.\<close>

lemma terminate_row_closed:
  assumes "r \<in> set (sessions (w_db w))" and "ses_id r \<noteq> []" "ses_org r = oid" "oid \<noteq> []"
    and "distinct (map ses_id (sessions (w_db w)))" and "\<not> snd (fl (ses_id r))"
    and "\<forall>h \<in> set (w_hub w). hr_id h = ses_id r \<longrightarrow> hr_org h = oid"
  shows "row_closed (ses_id r) (w_db (snd (terminateSession now fl oid (ses_id r) by_user w)))"
proof -
  let ?i = "ses_id r"
  have f: "find_session (w_db w) ?i = Some r"
    unfolding find_session_def by (rule find_unique) (use assms in auto)
  have f2: "find (\<lambda>s. ses_id s = ?i \<and> ses_org s = oid) (sessions (w_db w)) = Some r"
    using f assms(1,3,5) by (intro find_both) (auto simp: find_session_def)
  show ?thesis
  proof (cases "hub_get ?i w")
    case None
    have "row_closed ?i (snd (terminateRow now oid ?i by_user (w_db w)))"
    proof (cases "ses_status r = SES_ACTIVE")
      case True
      then show ?thesis using f2 assms(2,4) by (simp add: terminateRow_def Let_def row_closed_close)
    next
      case False
      then have "row_closed ?i (w_db w)"
        using assms(1,5) by (auto simp: row_closed_def distinct_map dest: inj_onD)
      then show ?thesis using f2 assms(2,4) False by (simp add: terminateRow_def)
    qed
    then show ?thesis using None assms(4,6)
      by (auto simp: terminateSession_def Let_def terminateRow_def split: option.splits prod.splits sum.splits)
  next
    case (Some h)
    have h: "hr_org h = oid" "hr_id h = ?i" using hub_get_SomeD [OF Some] assms(7) by auto
    have "find_session (w_db (end_sync h ''terminated'' w)) ?i = Some r"
      using f by (simp add: end_sync_def Let_def hub_delete_def)
    then have "row_closed ?i (snd (end_finish now (fl ?i) h ''terminated'' [(''terminatedBy'', json_opt by_user)]
        (w_db (end_sync h ''terminated'' w))))"
      using assms(2,6) end_finish_closed [of _ h r "fl ?i"] by (simp add: h)
    then show ?thesis using Some h assms(4)
      by (auto simp: terminateSession_def end_hub_def Let_def split: option.splits)
  qed
qed

text \<open>Session rows have ids of their own, and a live session belongs to the organization of its row.\<close>

definition sessions_ok :: "world \<Rightarrow> bool" where
  "sessions_ok w \<longleftrightarrow> distinct (map ses_id (sessions (w_db w))) \<and>
     (\<forall>r \<in> set (sessions (w_db w)). ses_id r \<noteq> [] \<and> (\<forall>h \<in> set (w_hub w). hr_id h = ses_id r \<longrightarrow> hr_org h = ses_org r))"

lemma sessions_ok_step:
  assumes "sessions_ok w" and "closes (w_db w) (w_db w')" and "set (w_hub w') \<subseteq> set (w_hub w)"
  shows "sessions_ok w'"
  using assms closes_ids [OF assms(2)]
  by (auto simp: sessions_ok_def row_after_def elim!: closes_row)

lemma terminate_closes: "closes (w_db w) (w_db (snd (terminateSession now fl oid sid by_user w)))"
  using terminate.step_closes [of w "(now, fl, oid, sid, by_user)"] by simp

definition no_write_fault :: "faults \<Rightarrow> bool" where
  "no_write_fault fl \<longleftrightarrow> (\<forall>i. \<not> snd (fl i))"

lemma terminate_run:
  assumes "sessions_ok w" and "oid \<noteq> []" and "no_write_fault fl"
  shows "closes (w_db w) (w_db (terminate_ids now fl oid by_user ids w)) \<and> session_only (w_db w) (w_db (terminate_ids now fl oid by_user ids w)) \<and> sessions_ok (terminate_ids now fl oid by_user ids w) \<and>
    (\<forall>r \<in> set (sessions (w_db w)). ses_org r = oid \<and> ses_id r \<in> set ids \<longrightarrow> row_closed (ses_id r) (w_db (terminate_ids now fl oid by_user ids w)))"
  using assms(1)
proof (induction ids arbitrary: w)
  case (Cons i ids)
  have step: "terminate_ids now fl oid by_user (i # ids) w = terminate_ids now fl oid by_user ids (snd (terminateSession now fl oid i by_user w))"
    by (simp add: terminate_ids_def)
  let ?w1 = "snd (terminateSession now fl oid i by_user w)"
  have ok: "sessions_ok ?w1" by (rule sessions_ok_step [OF Cons.prems terminate_closes terminate_hub])
  note IH = Cons.IH [OF ok]
  have c: "closes (w_db ?w1) (w_db (terminate_ids now fl oid by_user ids ?w1))"
    using IH by blast
  have "row_closed (ses_id r) (w_db (terminate_ids now fl oid by_user ids ?w1))"
    if r: "r \<in> set (sessions (w_db w))" "ses_org r = oid" "ses_id r \<in> set (i # ids)" for r
  proof (cases "ses_id r = i")
    case True
    have "row_closed (ses_id r) (w_db (snd (terminateSession now fl oid (ses_id r) by_user w)))"
      using Cons.prems r assms(2,3) by (intro terminate_row_closed) (auto simp: sessions_ok_def no_write_fault_def)
    with True show ?thesis using closes_row_closed [OF c] by simp
  next
    case False
    obtain q where q: "q \<in> set (sessions (w_db ?w1))" "ses_id q = ses_id r" "ses_org q = ses_org r"
    proof -
      from r(1) obtain k where k: "k < length (sessions (w_db w))" "r = sessions (w_db w) ! k" by (metis in_set_conv_nth)
      with terminate_closes [of w now fl oid i by_user] that [of "sessions (w_db ?w1) ! k"] show thesis
        by (auto simp: closes_def list_all2_conv_all_nth row_after_def)
    qed
    with False r IH show ?thesis by auto
  qed
  then show ?case
    using IH closes_trans [OF terminate_closes c] session_only_trans [OF session_only_terminate] unfolding step by auto
qed (simp add: terminate_ids_def)

lemma endSessionsForRequest_closed:
  fixes now :: int and rid :: id and by_user :: "id option"
  assumes "sessions_ok w" and "oid \<noteq> []" and "no_write_fault fl"
  defines "w' \<equiv> snd (endSessionsForRequest now fl False oid rid by_user w)"
  shows "closes (w_db w) (w_db w') \<and> session_only (w_db w) (w_db w') \<and> sessions_ok w' \<and>
    (\<forall>r \<in> set (sessions (w_db w')). ses_org r = oid \<and> ses_request r = Some rid \<longrightarrow> ses_status r \<noteq> SES_ACTIVE)"
proof -
  let ?ids = "map ses_id (filter (\<lambda>r. ses_org r = oid \<and> ses_status r = SES_ACTIVE \<and> ses_request r = Some rid) (sessions (w_db w)))"
  have w': "w' = terminate_ids now fl oid by_user ?ids w"
    by (simp add: w'_def endSessionsForRequest_def terminateActiveSessionsFor_def snd_terminate_all)
  note R = terminate_run [OF assms(1-3), of now by_user ?ids, folded w']
  have "ses_status r \<noteq> SES_ACTIVE" if r: "r \<in> set (sessions (w_db w'))" "ses_org r = oid" "ses_request r = Some rid" for r
  proof
    assume a: "ses_status r = SES_ACTIVE"
    from R r(1) obtain q where q: "q \<in> set (sessions (w_db w))" "row_after q r" by (blast elim: closes_row)
    then have "ses_id q \<in> set ?ids \<and> ses_org q = oid" using r a by (auto simp: row_after_def)
    then have "row_closed (ses_id q) (w_db w')" using R q(1) by blast
    then show False using r(1) a q(2) by (simp add: row_closed_def row_after_def)
  qed
  with R show ?thesis by blast
qed

lemma endSessionsForRequest_frames:
  "session_only (w_db w) (w_db (snd (endSessionsForRequest now fl lf oid rid by_user w)))"
  "closes (w_db w) (w_db (snd (endSessionsForRequest now fl lf oid rid by_user w)))"
proof -
  have "session_only (w_db w) (w_db (terminate_ids now fl oid by_user ids w)) \<and>
     closes (w_db w) (w_db (terminate_ids now fl oid by_user ids w))" for ids
    unfolding terminate_ids_def by (induction ids arbitrary: w)
      (auto intro: session_only_trans [OF session_only_terminate] closes_trans [OF terminate_closes])
  then show "session_only (w_db w) (w_db (snd (endSessionsForRequest now fl lf oid rid by_user w)))"
    "closes (w_db w) (w_db (snd (endSessionsForRequest now fl lf oid rid by_user w)))"
    by (simp_all add: endSessionsForRequest_def terminateActiveSessionsFor_def snd_terminate_all)
qed

interpretation expire_update: keyed_update req_id expire_row
  by unfold_locales (simp add: expire_row_def)

lemma expire_pending_requests:
  assumes "\<not> uf (req_id ar)"
  shows "requests (snd (expire_pending_one io uf ar d)) = requests (update_request (req_id ar) expire_row d)"
proof -
  let ?t = "tell_requester io ar ACCESS_REQUEST_EXPIRED ''Your pending access request has expired''
     (\<lambda>s. ''Your pending request for access to '' @ s @ '' was not reviewed within 24 hours and has expired.'')
     [(''accessRequestId'', JStr (req_id ar))] (update_request (req_id ar) expire_row d)"
  obtain y d' where t: "?t = (y, d')" by force
  have "requests d' = requests (update_request (req_id ar) expire_row d)"
    using tell_requester_frames(1) t by (metis snd_conv)
  with t assms show ?thesis unfolding expire_pending_one_def by simp
qed

section \<open>Revoking\<close>

lemma revokeCertificate_frames [simp]:
  "requests (snd (revokeCertificate now c b d)) = requests d" "sessions (snd (revokeCertificate now c b d)) = sessions d"
  "users (snd (revokeCertificate now c b d)) = users d" "servers (snd (revokeCertificate now c b d)) = servers d"
  by (auto simp: revokeCertificate_def update_cert_def add_audit_def split: option.split)

lemma revoke_linked_frames [simp]:
  "requests (revoke_linked now c b d) = requests d" "sessions (revoke_linked now c b d) = sessions d"
  "users (revoke_linked now c b d) = users d" "servers (revoke_linked now c b d) = servers d"
  by (simp_all add: revoke_linked_def)

lemma revoke_linked_certs:
  "certs (revoke_linked now co b d) =
     (if truthy co \<and> (\<exists>c. find_cert d (the co) = Some c \<and> cert_status c \<noteq> CERT_REVOKED)
      then update_where (\<lambda>c. cert_id c = the co) (\<lambda>c. c\<lparr>cert_status := CERT_REVOKED, cert_revokedAt := Some now, cert_revokedBy := b\<rparr>) (certs d)
      else certs d)"
  by (cases co) (auto simp: revoke_linked_def revokeCertificate_def update_cert_def split: option.split)

lemma revoke_linked_revokes:
  assumes "distinct (map cert_id (certs d))" and "c \<noteq> []"
  shows "\<forall>k \<in> set (certs (revoke_linked now (Some c) b d)). cert_id k = c \<longrightarrow> cert_status k = CERT_REVOKED"
proof (cases "\<exists>k. find_cert d c = Some k \<and> cert_status k \<noteq> CERT_REVOKED")
  case True
  then show ?thesis using assms(2) by (simp add: revoke_linked_certs ball_update_where)
next
  case False
  have "cert_status k = CERT_REVOKED" if "k \<in> set (certs d)" "cert_id k = c" for k
  proof -
    have "find_cert d c = Some k" unfolding find_cert_def by (rule find_unique [OF assms(1) that])
    with False show ?thesis by blast
  qed
  with False show ?thesis unfolding revoke_linked_certs by (auto split: if_splits)
qed

text \<open>A certificate other than the one linked is left as it is.\<close>

lemma revoke_linked_other:
  "k \<in> set (certs d) \<Longrightarrow> Some (cert_id k) \<noteq> co \<Longrightarrow> k \<in> set (certs (revoke_linked now co b d))"
  unfolding revoke_linked_certs update_where_def by (cases co) (auto simp: image_iff)

lemma revoke_read_ok:
  assumes "revoke_read x d = Inr ar"
  shows "find_request_in_org d (rk_request x) (rk_org x) = Some ar \<and> rk_org x \<noteq> [] \<and> rk_caller x \<noteq> [] \<and> req_status ar \<noteq> REVOKED
    \<and> (''access_requests.revoke_any'' \<in> set (rk_permissions x) \<or> is_approver (rk_caller x) ar)"
  using assms by (auto simp: revoke_read_def split: if_splits option.splits)

lemma revoke_ok:
  assumes "revoke io fl lf x w = (Inr r, w')"
  obtains ar w1 w2 where "revoke_read x (w_db w) = Inr ar"
    "w1 = on_db (\<lambda>d. revoke_linked (ou_now io) (req_certificate ar) (Some (rk_caller x))
        (update_request (rk_request x) (revoke_row (ou_now io) (rk_reason x)) d)) w"
    "w2 = snd (endSessionsForRequest (ou_now io) fl lf (req_org ar) (rk_request x) (Some (rk_caller x)) w1)"
    "requests (w_db w') = requests (w_db w2)" "certs (w_db w') = certs (w_db w2)" "sessions (w_db w') = sessions (w_db w2)"
    "users (w_db w') = users (w_db w2)"
    "audits (w_db w') = audits (w_db w2) @ [request_audit (req_org ar) (Some (rk_caller x)) ''access_request.revoked'' (Some (rk_request x))
       [(''reason'', json_opt (rk_reason x)), (''certId'', json_opt (req_certificate ar))]]"
    "find_request (w_db w') (rk_request x) = Some r"
proof -
  from assms obtain ar where ar: "revoke_read x (w_db w) = Inr ar" and ap: "revoke_apply io fl lf x ar w = (Inr r, w')"
    by (auto simp: revoke_def split: sum.splits)
  define w1 where "w1 = on_db (\<lambda>d. revoke_linked (ou_now io) (req_certificate ar) (Some (rk_caller x))
        (update_request (rk_request x) (revoke_row (ou_now io) (rk_reason x)) d)) w"
  define w2 where "w2 = snd (endSessionsForRequest (ou_now io) fl lf (req_org ar) (rk_request x) (Some (rk_caller x)) w1)"
  define t where "t = tell_requester io ar ACCESS_REQUEST_REVOKED ''Your access has been revoked'' (\<lambda>s. revoke_body s (rk_reason x))
      [(''accessRequestId'', JStr (rk_request x)), (''revokedBy'', JStr (rk_caller x)), (''reason'', json_opt (rk_reason x))] (w_db w2)"
  have T: "requests (snd t) = requests (w_db w2)" "certs (snd t) = certs (w_db w2)" "sessions (snd t) = sessions (w_db w2)"
    "users (snd t) = users (w_db w2)" "audits (snd t) = audits (w_db w2)" by (simp_all add: t_def)
  let ?a = "request_audit (req_org ar) (Some (rk_caller x)) ''access_request.revoked'' (Some (rk_request x))
       [(''reason'', json_opt (rk_reason x)), (''certId'', json_opt (req_certificate ar))]"
  have "(case t of (Inl e, _) \<Rightarrow> (Inl e, w2)
      | (Inr _, d3) \<Rightarrow> (decided (rk_request x) (add_audit ?a d3), w2\<lparr>w_db := add_audit ?a d3\<rparr>)) = (Inr r, w')"
    using ap by (simp only: revoke_apply_def Let_def w1_def w2_def t_def)
  then have "w' = w2\<lparr>w_db := add_audit ?a (snd t)\<rparr>" "decided (rk_request x) (add_audit ?a (snd t)) = Inr r"
    by (auto split: prod.splits sum.splits)
  then show thesis using T by (intro that [OF ar w1_def w2_def]) (auto simp: decided_def split: option.splits)
qed

lemma createNotification_ok:
  "\<not> f \<Longrightarrow> ntf_org n \<noteq> [] \<Longrightarrow> ntf_user n \<noteq> [] \<Longrightarrow> ntf_title n \<noteq> [] \<Longrightarrow> ntf_body n \<noteq> [] \<Longrightarrow>
     is_ok (fst (createNotification f n d))"
  by (simp add: createNotification_def)

lemma revoke_succeeds:
  assumes "revoke_read x (w_db w) = Inr ar" and "server_of (w_db w) ar \<noteq> None"
    and "\<not> ou_notifyFault io (req_requester ar)" and "req_requester ar \<noteq> []"
  shows "is_ok (fst (revoke io fl lf x w))"
proof -
  define w1 where "w1 = on_db (\<lambda>d. revoke_linked (ou_now io) (req_certificate ar) (Some (rk_caller x))
        (update_request (rk_request x) (revoke_row (ou_now io) (rk_reason x)) d)) w"
  define w2 where "w2 = snd (endSessionsForRequest (ou_now io) fl lf (req_org ar) (rk_request x) (Some (rk_caller x)) w1)"
  note so = session_only_frames [OF endSessionsForRequest_frames(1) [of w1 "ou_now io" fl lf "req_org ar" "rk_request x" "Some (rk_caller x)"], folded w2_def]
  have r: "find_request_in_org (w_db w) (rk_request x) (rk_org x) = Some ar" "rk_org x \<noteq> []"
    using revoke_read_ok [OF assms(1)] by auto
  obtain s where s: "server_of (w_db w2) ar = Some s"
    using assms(2) so(4) by (auto simp: server_of_def w1_def on_db_def)
  have o: "req_org ar \<noteq> []" using r find_request_in_org_SomeD by metis
  obtain y d3 where t: "tell_requester io ar ACCESS_REQUEST_REVOKED ''Your access has been revoked'' (\<lambda>s. revoke_body s (rk_reason x))
      [(''accessRequestId'', JStr (rk_request x)), (''revokedBy'', JStr (rk_caller x)), (''reason'', json_opt (rk_reason x))] (w_db w2)
      = (y, d3)" by force
  have q: "requests d3 = requests (w_db w2)" using tell_requester_frames(1) t by (metis snd_conv)
  have "is_ok (fst (y, d3))"
    unfolding t [symmetric] using s o assms(3,4) createNotification_ok by (simp add: tell_requester_def revoke_body_def)
  moreover have "is_ok (decided (rk_request x) (add_audit a d))" if "requests d = requests (w_db w2)" for a d
  proof -
    have "ar \<in> set (requests (w_db w))" "req_id ar = rk_request x" using find_request_in_org_SomeD [OF r(1)] by auto
    then have "revoke_row (ou_now io) (rk_reason x) ar \<in> set (requests (add_audit a d))"
      by (auto simp: that so(1) w1_def on_db_def update_where_def)
    moreover have "req_id (revoke_row (ou_now io) (rk_reason x) ar) = rk_request x"
      using \<open>req_id ar = rk_request x\<close> by (simp add: revoke_row_def)
    ultimately have "find_request (add_audit a d) (rk_request x) \<noteq> None"
      unfolding find_request_def find_None_iff_all by blast
    then show ?thesis by (auto simp: decided_def)
  qed
  ultimately show ?thesis
    using q by (cases y) (simp_all add: revoke_def assms(1) revoke_apply_def Let_def w1_def [symmetric] w2_def [symmetric] t)
qed

end
