(* ===== verification/AccessClaims.thy ===== *)
theory AccessClaims
  imports AccessProps TerminalClaims "HOL-Library.Multiset"
begin

text \<open>
  The properties of access requests: what a submission leaves, that a request is decided once and
  by an eligible approver, what its credentials are bounded by, and what revoking reaches.
\<close>

section \<open>Sample requests\<close>

text \<open>
  Production needs approval from everybody. The admin has a manager and asks for the production
  server; the member asks for the development one.
\<close>

definition access_db :: db where
  "access_db = sample_db\<lparr>
     orgs := [\<lparr>org_id = ''o'', org_settings = Some (JObj [(''access'', JObj [(''prodBypassEnabled'', JBool False)])])\<rparr>],
     users := [u_root, u_adm\<lparr>usr_manager := Some ''root''\<rparr>, u_mem, u_scp]\<rparr>"

definition sample_outside :: outside where
  "sample_outside = \<lparr>ou_newId = ''rq'', ou_now = 1000, ou_notifyFault = (\<lambda>_. False),
     ou_token = (\<lambda>u. Some (''t'' @ u, ''h'' @ u)), ou_frontend = ''https://s''\<rparr>"

definition ask_dev :: submit_args where
  "ask_dev = \<lparr>sa_org = ''o'', sa_requester = ''mem'', sa_server = ''sdev'', sa_reason = ''fix'', sa_duration = 7200,
     sa_principal = [], sa_protocol = SSH, sa_role = ''member'', sa_permissions = [], sa_scope = ScopeAll\<rparr>"

definition ask_prod :: submit_args where
  "ask_prod = ask_dev\<lparr>sa_requester := ''adm'', sa_server := ''sprd'', sa_role := ''admin''\<rparr>"

section \<open>Submitting\<close>




lemma createNotification_InlD: "createNotification f n d = (Inl e, d') \<Longrightarrow> d' = d"
  by (auto simp: createNotification_def split: if_splits)

lemma submit_approved_err:
  assumes "submit_approved io x s u prin ev d = (Inl e, d')"
  shows "d' = add_request (approved_request io x prin ev) d"
  using assms by (auto simp: submit_approved_def Let_def split: prod.splits sum.splits if_splits dest: createNotification_InlD)

text \<open>An error from a submission means that nothing was written, except in one case: when the
  policy allows the access at once and telling the requester fails, the caller gets an error
  although the approved request exists, and no audit entry records it.\<close>

theorem submit_error_effects:
  assumes "submit io x d = (Inl e, d')"
  shows "d' = d \<or> (\<exists>prin ev. d' = add_request (approved_request io x prin ev) d \<and> req_status (approved_request io x prin ev) = APPROVED
    \<and> audits d' = audits d \<and> ev_allowed ev \<and> \<not> ev_requiresApproval ev
    \<and> evaluate d (sa_org x) (sa_requester x) (sa_server x) (if sa_protocol x = RDP then None else Some prin) [] None = Inr ev)"
proof (cases "d' = d")
  case False
  with assms obtain s u prin ev where
    ev: "evaluate d (sa_org x) (sa_requester x) (sa_server x) (if sa_protocol x = RDP then None else Some prin) [] None = Inr ev"
    and b: "\<not> ev_requiresApproval ev" "ev_allowed ev" "submit_approved io x s u prin ev d = (Inl e, d')"
    by (auto simp: submit_def split: option.splits sum.splits if_splits dest: submit_pending_err)
  have "d' = add_request (approved_request io x prin ev) d" using submit_approved_err [OF b(3)] .
  moreover have "req_status (approved_request io x prin ev) = APPROVED" by (simp add: approved_request_def new_request_def Let_def)
  ultimately show ?thesis using ev b by (intro disjI2 exI [of _ prin] exI [of _ ev]) simp
qed simp

lemma submit_error_effects_witness:
  "\<exists>e d'. submit (sample_outside\<lparr>ou_notifyFault := \<lambda>_. True\<rparr>) ask_dev access_db = (Inl e, d')
     \<and> map req_status (requests d') = [APPROVED] \<and> audits d' = audits access_db"
proof -
  let ?s = "submit (sample_outside\<lparr>ou_notifyFault := \<lambda>_. True\<rparr>) ask_dev access_db"
  have "\<not> is_ok (fst ?s)" "map req_status (requests (snd ?s)) = [APPROVED]" "requests access_db = []" by code_simp+
  moreover then obtain e d' where s: "?s = (Inl e, d')" by (metis is_ok.simps(2) prod.collapse sum.exhaust)
  moreover have "d' = access_db \<or> audits d' = audits access_db" using submit_error_effects [OF s] by blast
  ultimately show ?thesis by auto
qed

section \<open>Reviewing\<close>

text \<open>C18: A request is decided once, by one of its approvers: of two approvers who both read it as
  pending, the one whose update comes first decides it; the other gets a conflict and changes
  nothing, and a review that reads it right afterwards is refused. An approval is for the duration the
  reviewer chose, or else the one asked for, capped by the policy that is found under the login name
  stored with the request. Where none is found under that name, as happens to remote-desktop
  requests, there is no cap.\<close>

theorem review_decides_once:
  assumes "review_read x1 d0 = Inr ar1" and "review_read x2 d0 = Inr ar2" and "rv_request x1 = rv_request x2"
    and "review_decide io1 x1 ar1 d = (Inr r, d1)" and "distinct (map req_id (requests d))"
  shows "is_approver (rv_reviewer x1) ar1
    \<and> (\<exists>q \<in> set (requests d). req_id q = rv_request x1 \<and> req_status q = PENDING \<and> r = decided_row io1 x1 ar1 d q
         \<and> requests d1 = update_where (\<lambda>p. p = q) (\<lambda>_. r) (requests d))
    \<and> req_status r = (if rv_decision x1 = Some Approve then APPROVED else DENIED)
    \<and> (rv_decision x1 = Some Approve \<longrightarrow> (\<exists>dur. req_approvedDuration r = Some dur \<and> req_expiresAt r = Some (ou_now io1 + dur * 1000)
         \<and> (case findApproverPolicy d (req_org ar1) (req_requester ar1) (req_server ar1)
                (if req_principal ar1 = [] then None else Some (req_principal ar1)) of
              None \<Rightarrow> dur = (if rv_duration x1 > 0 then rv_duration x1 else req_duration ar1)
            | Some p \<Rightarrow> dur \<le> (if rv_duration x1 > 0 then rv_duration x1 else req_duration ar1) \<and> (0 < pol_maxDuration p \<longrightarrow> dur \<le> pol_maxDuration p))))
    \<and> review_decide io2 x2 ar2 d1 = (Inl just_decided, d1)
    \<and> (\<forall>x. rv_request x = rv_request x1 \<longrightarrow> \<not> is_ok (review_read x d1))"
proof -
  from review_decide_cases [of d x1 io1 ar1] assms(4) obtain
    u: "\<exists>q \<in> set (requests d). undecided (rv_request x1) q"
    and fr: "find_request d1 (rv_request x1) = Some r"
    and R: "requests d1 = update_where (undecided (rv_request x1)) (decided_row io1 x1 ar1 d) (requests d)"
    by (metis Inl_Inr_False prod.inject sum.inject(2))
  from u obtain q where q: "q \<in> set (requests d)" "undecided (rv_request x1) q" by blast
  have "find (\<lambda>r. req_id r = rv_request x1) (requests d) = Some q"
    by (rule find_unique [OF assms(5) q(1)]) (use q(2) in \<open>simp add: undecided_def\<close>)
  then have r: "r = decided_row io1 x1 ar1 d q"
    using fr q(2) by (simp add: find_request_def R decided_update.find_key)
  have only: "undecided (rv_request x1) p \<longleftrightarrow> p = q" if "p \<in> set (requests d)" for p
    using that q assms(5) by (metis undecided_def distinct_map inj_onD)
  have R2: "requests d1 = update_where (\<lambda>p. p = q) (\<lambda>_. r) (requests d)"
    unfolding R update_where_def using only r by (intro map_cong) auto
  have none: "\<forall>p \<in> set (requests d1). \<not> undecided i p" if "i = rv_request x1" for i
    unfolding R that by (auto simp: ball_update_where undecided_def)
  have lost: "review_decide io2 x2 ar2 d1 = (Inl just_decided, d1)"
    by (rule review_decide_lost) (use none assms(3) in auto)
  have "\<not> is_ok (review_read x d1)" if "rv_request x = rv_request x1" for x
    using none that review_read_ok [of x d1] find_request_SomeD by (fastforce simp: is_ok_iff undecided_def)
  moreover have "is_approver (rv_reviewer x1) ar1" using review_read_ok [OF assms(1)] by blast
  moreover have "req_approvedDuration r = Some (review_duration d x1 ar1) \<and> req_expiresAt r = Some (ou_now io1 + review_duration d x1 ar1 * 1000)"
    if "rv_decision x1 = Some Approve" using that by (simp add: r decided_row_def approve_row_def)
  moreover have "case findApproverPolicy d (req_org ar1) (req_requester ar1) (req_server ar1)
        (if req_principal ar1 = [] then None else Some (req_principal ar1)) of
      None \<Rightarrow> review_duration d x1 ar1 = (if rv_duration x1 > 0 then rv_duration x1 else req_duration ar1)
    | Some p \<Rightarrow> review_duration d x1 ar1 \<le> (if rv_duration x1 > 0 then rv_duration x1 else req_duration ar1)
        \<and> (0 < pol_maxDuration p \<longrightarrow> review_duration d x1 ar1 \<le> pol_maxDuration p)"
    by (auto simp: review_duration_def Let_def split: option.split)
  ultimately show ?thesis
    using q r R2 lost by (auto simp: undecided_def)
qed

definition pending_db :: db where
  "pending_db = snd (submit sample_outside ask_prod access_db)"

definition approve_it :: "id \<Rightarrow> review_args" where
  "approve_it uid = \<lparr>rv_request = ''rq'', rv_reviewer = uid, rv_decision = Some Approve, rv_duration = 9000,
     rv_deniedReason = None, rv_via = ''app''\<rparr>"

lemma review_decides_once_witness:
  "\<exists>ar r d1. review_read (approve_it ''root'') pending_db = Inr ar
     \<and> review_decide sample_outside (approve_it ''root'') ar pending_db = (Inr r, d1) \<and> req_status r = APPROVED
     \<and> review_decide sample_outside (approve_it ''root'') ar d1 = (Inl just_decided, d1)"
proof -
  have "is_ok (review_read (approve_it ''root'') pending_db)" by code_simp
  then obtain ar where ar: "review_read (approve_it ''root'') pending_db = Inr ar" by (auto simp: is_ok_iff)
  have u: "\<exists>q \<in> set (requests pending_db). undecided (rv_request (approve_it ''root'')) q" by code_simp
  obtain r d1 where r: "review_decide sample_outside (approve_it ''root'') ar pending_db = (Inr r, d1)"
    using review_decide_won(5) [OF u, of sample_outside ar] by (metis is_ok_iff prod.collapse)
  have d: "distinct (map req_id (requests pending_db))" by code_simp
  have "rv_decision (approve_it ''root'') = Some Approve" by (simp add: approve_it_def)
  with review_decides_once [OF ar ar refl r d, of sample_outside] ar r show ?thesis by auto
qed

section \<open>Credentials\<close>

text \<open>C22: Credentials are handed out only to the requester of an approved request with at least a
  minute left. The certificate is active, for that user and server, expires with the request at the
  latest, and names no login but the requested one and the server's own, or one the policy allows at
  once to somebody who may choose a login. The request is linked to it.\<close>

theorem credentials_follow_request:
  assumes "generateSshCredentials sg keys newId now x d = (Inr c, d')"
  shows "\<exists>ar t s k. find_request d (ca_request x) = Some ar \<and> req_requester ar = ca_caller x \<and> req_status ar = APPROVED
    \<and> req_expiresAt ar = Some t \<and> now + 60000 \<le> t \<and> server_of d ar = Some s
    \<and> certs d' = certs d @ [k] \<and> cert_id k = newId \<and> cert_status k = CERT_ACTIVE \<and> cert_issuedTo k = Some (ca_caller x)
    \<and> cert_issuedFor k = Some (srv_id s) \<and> cert_validAfter k = now \<and> cert_validBefore k \<le> t
    \<and> sc_username c \<in> set (cert_principals k) \<and> sc_certificate c = cert_signed k
    \<and> (\<forall>p \<in> set (cert_principals k). p \<in> {req_principal ar, legacy_user s} \<or>
         (''access.choose_principal'' \<in> set (ca_permissions x) \<and>
          (\<exists>ev. evaluate d (req_org ar) (ca_caller x) (srv_id s) (Some p) [] None = Inr ev \<and> ev_allowed ev \<and> \<not> ev_requiresApproval ev)))
    \<and> requests d' = update_where (\<lambda>r. req_id r = ca_request x) (\<lambda>r. r\<lparr>req_certificate := Some newId\<rparr>) (requests d)
    \<and> sessions d' = sessions d"
proof -
  from generateSshCredentials_ok [OF assms] obtain ar t s prin pub sgd where
    ar: "usable_request d now (ca_request x) (ca_caller x) = Inr ar" "req_expiresAt ar = Some t"
    and m: "60 \<le> math_floor_div (t - now) 1000" "server_of d ar = Some s"
    and p: "primary_principal d x ar s (legacy_user s) = Inr prin" "sc_username c = prin" "sc_certificate c = fst sgd"
    and C: "certs d' = certs d @ [request_cert newId now ar s (ca_caller x)
        (if legacy_user s \<noteq> prin then [prin, legacy_user s] else [prin]) pub (math_floor_div (t - now) 1000) sgd]"
    and R: "requests d' = update_where (\<lambda>r. req_id r = ca_request x) (\<lambda>r. r\<lparr>req_certificate := Some newId\<rparr>) (requests d)"
      "sessions d' = sessions d" by metis
  let ?k = "request_cert newId now ar s (ca_caller x)
        (if legacy_user s \<noteq> prin then [prin, legacy_user s] else [prin]) pub (math_floor_div (t - now) 1000) sgd"
  have k: "cert_id ?k = newId" "cert_status ?k = CERT_ACTIVE" "cert_issuedTo ?k = Some (ca_caller x)"
    "cert_issuedFor ?k = Some (srv_id s)" "cert_validAfter ?k = now" "cert_signed ?k = fst sgd"
    "set (cert_principals ?k) = {prin, legacy_user s}" "cert_validBefore ?k = now + math_floor_div (t - now) 1000 * 1000"
    by (auto simp: request_cert_def split: prod.split)
  have b: "now + 60000 \<le> t" "now + math_floor_div (t - now) 1000 * 1000 \<le> t"
    using math_floor_div_bounds [of 1000 "t - now"] m(1) by auto
  show ?thesis
    using usable_request_ok [OF ar(1)] ar(2) m b k p(2,3) primary_principal_ok [OF p(1)] C R
    by (intro exI [of _ ar] exI [of _ t] exI [of _ s] exI [of _ ?k]) auto
qed

definition granted :: request where
  "granted = (new_request sample_outside ask_dev ''deploy'' APPROVED)\<lparr>req_approvedDuration := Some 3600, req_approvedAt := Some 1000,
     req_expiresAt := Some 3601000\<rparr>"

definition dev_db :: db where
  "dev_db = empty_db\<lparr>users := [u_adm, u_mem], servers := [s_dev], requests := [granted]\<rparr>"

definition test_signer :: "int \<Rightarrow> signer" where
  "test_signer n = \<lparr>sg_caKey = Some ''ca'', sg_serial = n, sg_caPath = ''ca'', sg_pubPath = ''pub'',
     sg_keygen = (\<lambda>_. Inr ''cert'')\<rparr>"

definition get_creds :: credential_args where
  "get_creds = \<lparr>ca_request = ''rq'', ca_caller = ''mem'', ca_permissions = [], ca_override = []\<rparr>"

lemma credentials_follow_request_witness:
  "\<exists>c d' k. generateSshCredentials (test_signer 7) (Inr (''priv'', ''pub'')) ''ct'' 5000 get_creds dev_db = (Inr c, d')
     \<and> certs d' = [k] \<and> cert_validBefore k \<le> 3601000"
proof -
  have "is_ok (fst (generateSshCredentials (test_signer 7) (Inr (''priv'', ''pub'')) ''ct'' 5000 get_creds dev_db))" by code_simp
  then obtain c d' where g: "generateSshCredentials (test_signer 7) (Inr (''priv'', ''pub'')) ''ct'' 5000 get_creds dev_db = (Inr c, d')"
    by (metis is_ok_iff prod.collapse)
  have "certs dev_db = []" "map_option req_expiresAt (find_request dev_db (ca_request get_creds)) = Some (Some 3601000)" by code_simp+
  with credentials_follow_request [OF g] g show ?thesis by auto
qed

section \<open>Revoking\<close>

lemma find_in_org:
  assumes "find_request_in_org d rid oid = Some ar" and "distinct (map req_id (requests d))"
  shows "find_request d rid = Some ar \<and> req_org ar = oid \<and> ar \<in> set (requests d) \<and> req_id ar = rid"
proof -
  have m: "ar \<in> set (requests d)" "req_id ar = rid" "req_org ar = oid" using find_request_in_org_SomeD [OF assms(1)] by auto
  then show ?thesis using find_unique [OF assms(2) m(1,2)] by (simp add: find_request_def)
qed

interpretation revoke_update: keyed_update req_id "revoke_row now reason" for now reason
  by unfold_locales (simp add: revoke_row_def)

text \<open>C27: A revocation that succeeds is complete, unless a database call fails: the caller may
  revoke or is an approver of the request, its row is REVOKED, the certificate it is linked to is
  revoked, none of its sessions is still active, and the audit log ends with the entry.\<close>

theorem revoke_closes_everything:
  assumes "revoke io fl False x w = (Inr r, w')" and "sessions_ok w" and "no_write_fault fl"
    and "distinct (map req_id (requests (w_db w)))" and "distinct (map cert_id (certs (w_db w)))"
  shows "(\<exists>ar. find_request (w_db w) (rk_request x) = Some ar \<and> req_org ar = rk_org x \<and> req_status ar \<noteq> REVOKED
      \<and> r = revoke_row (ou_now io) (rk_reason x) ar
      \<and> (''access_requests.revoke_any'' \<in> set (rk_permissions x) \<or> is_approver (rk_caller x) ar)
      \<and> (\<forall>c k. req_certificate ar = Some c \<and> c \<noteq> [] \<and> k \<in> set (certs (w_db w')) \<and> cert_id k = c \<longrightarrow> cert_status k = CERT_REVOKED))
    \<and> requests (w_db w') = update_where (\<lambda>q. req_id q = rk_request x) (revoke_row (ou_now io) (rk_reason x)) (requests (w_db w))
    \<and> (\<forall>s \<in> set (sessions (w_db w')). ses_org s = rk_org x \<and> ses_request s = Some (rk_request x) \<longrightarrow> ses_status s \<noteq> SES_ACTIVE)
    \<and> aud_action (last (audits (w_db w'))) = ''access_request.revoked'' \<and> aud_actor (last (audits (w_db w'))) = Some (rk_caller x)"
proof -
  from revoke_ok [OF assms(1)] obtain ar w1 w2 where ar: "revoke_read x (w_db w) = Inr ar"
    and w1: "w1 = on_db (\<lambda>d. revoke_linked (ou_now io) (req_certificate ar) (Some (rk_caller x))
        (update_request (rk_request x) (revoke_row (ou_now io) (rk_reason x)) d)) w"
    and w2: "w2 = snd (endSessionsForRequest (ou_now io) fl False (req_org ar) (rk_request x) (Some (rk_caller x)) w1)"
    and f: "requests (w_db w') = requests (w_db w2)" "certs (w_db w') = certs (w_db w2)" "sessions (w_db w') = sessions (w_db w2)"
      "audits (w_db w') = audits (w_db w2) @ [request_audit (req_org ar) (Some (rk_caller x)) ''access_request.revoked'' (Some (rk_request x))
         [(''reason'', json_opt (rk_reason x)), (''certId'', json_opt (req_certificate ar))]]"
      "find_request (w_db w') (rk_request x) = Some r" by metis
  note rd = revoke_read_ok [OF ar]
  then have a: "find_request (w_db w) (rk_request x) = Some ar" "req_org ar = rk_org x"
    using find_in_org [OF _ assms(4)] by blast+
  have s1: "sessions (w_db w1) = sessions (w_db w)" "w_hub w1 = w_hub w" by (simp_all add: w1 on_db_def)
  have "sessions_ok w1" using assms(2) by (simp add: sessions_ok_def s1)
  note E = endSessionsForRequest_closed [OF this _ assms(3), of "req_org ar" "ou_now io" "rk_request x" "Some (rk_caller x)", folded w2]
  have o: "req_org ar \<noteq> []" using rd a(2) by simp
  have so: "requests (w_db w2) = requests (w_db w1)" "certs (w_db w2) = certs (w_db w1)"
    using E [OF o] session_only_frames(1,2) by blast+
  have R: "requests (w_db w') = update_where (\<lambda>q. req_id q = rk_request x) (revoke_row (ou_now io) (rk_reason x)) (requests (w_db w))"
    by (simp add: f so w1 on_db_def)
  have "find_request (w_db w') (rk_request x) = Some (revoke_row (ou_now io) (rk_reason x) ar)"
    using a(1) find_request_SomeD [OF a(1)] by (simp add: find_request_def R revoke_update.find_key)
  with f(5) have r: "r = revoke_row (ou_now io) (rk_reason x) ar" by simp
  have C: "cert_status k = CERT_REVOKED" if "req_certificate ar = Some c" "c \<noteq> []" "k \<in> set (certs (w_db w'))" "cert_id k = c" for c k
    using that revoke_linked_revokes [of "update_request (rk_request x) (revoke_row (ou_now io) (rk_reason x)) (w_db w)" c
        "ou_now io" "Some (rk_caller x)"] assms(5) by (simp add: f so w1 on_db_def)
  show ?thesis
    using a rd r R C E [OF o] f(3,4) by (auto simp: request_audit_def intro!: exI [of _ ar])
qed

definition linked_db :: db where
  "linked_db = dev_db\<lparr>requests := [granted\<lparr>req_certificate := Some ''ct''\<rparr>],
     certs := [request_cert ''ct'' 5000 granted s_dev ''mem'' [''deploy''] ''pub'' 3596 (''cert'', 7, ''ca'')]\<rparr>"

definition access_world :: "db \<Rightarrow> world" where
  "access_world d =
     \<lparr>w_db = d\<lparr>sessions := [sample_session ''s1'' ''mem'' SSH, sample_session ''r1'' ''mem'' RDP]\<rparr>,
      w_ttl = 900, w_hub = [], w_open = [], w_out = [], w_in = [], w_closed = [], w_recorded = [],
      w_rdpByConn = [(''c9'', ''r1'')], w_rdpConn = [(''r1'', ''c9'')], w_rdpClosed = []\<rparr>"

definition revoke_it :: revoke_args where
  "revoke_it = \<lparr>rk_request = ''rq'', rk_org = ''o'', rk_caller = ''adm'', rk_permissions = [''access_requests.revoke_any''],
     rk_reason = Some ''left''\<rparr>"

lemma no_fault_writes [simp]: "no_write_fault no_fault"
  by (simp add: no_write_fault_def no_fault_def)

lemma revoke_closes_everything_witness:
  "\<exists>r w'. revoke sample_outside no_fault False revoke_it (access_world linked_db) = (Inr r, w')
     \<and> req_status r = REVOKED \<and> map cert_status (certs (w_db w')) = [CERT_REVOKED]
     \<and> (\<forall>s \<in> set (sessions (w_db w')). ses_org s = ''o'' \<and> ses_request s = Some ''rq'' \<longrightarrow> ses_status s \<noteq> SES_ACTIVE)"
proof -
  let ?w = "access_world linked_db"
  let ?u = "revoke sample_outside no_fault False revoke_it ?w"
  have ok: "is_ok (fst ?u)" "map cert_status (certs (w_db (snd ?u))) = [CERT_REVOKED]" by code_simp+
  then obtain r w' where u: "?u = (Inr r, w')" by (metis is_ok_iff prod.collapse)
  have h: "sessions_ok ?w" "distinct (map req_id (requests (w_db ?w)))" "distinct (map cert_id (certs (w_db ?w)))" by code_simp+
  have k: "rk_org revoke_it = ''o''" "rk_request revoke_it = ''rq''" by (simp_all add: revoke_it_def)
  note R = revoke_closes_everything [OF u h(1) no_fault_writes h(2,3), unfolded k]
  have "req_status r = REVOKED" using R by (auto simp: revoke_row_def)
  with R ok(2) u show ?thesis by auto
qed

lemma verify_unlinked:
  assumes "js_bigint serial = Some (cert_serial k)" and "serial \<noteq> []" and "prin \<noteq> []"
    and "find (\<lambda>c. cert_serial c = cert_serial k) (certs d) = Some k"
    and "\<forall>r \<in> set (requests d). req_certificate r \<noteq> Some (cert_id k)"
    and "cert_error cu (clk 0) prin agent d k = None"
  shows "vf_valid (fst (verify cu clk False af serial prin agent d))"
proof -
  have "find (\<lambda>r. req_certificate r = Some (cert_id k)) (requests d) = None" using assms(5) by (simp add: find_None_iff_all)
  then show ?thesis using assms by (simp add: verify_def Let_def)
qed

interpretation cert_revoke: keyed_update cert_serial
  "\<lambda>c. c\<lparr>cert_status := CERT_REVOKED, cert_revokedAt := Some now, cert_revokedBy := b\<rparr>" for now b
  by unfold_locales simp

lemma find_append_new: "\<forall>x \<in> set xs. \<not> P x \<Longrightarrow> P y \<Longrightarrow> find P (xs @ y # ys) = Some y"
  by (induction xs) auto

text \<open>Revoking an access request does not revoke every certificate issued for it: a request whose
  credentials were downloaded twice is linked to the newer certificate only, so after a successful
  revocation the earlier one is still active, no request names it, and a host that asks about it is
  told it is valid for as long as the checks on the certificate itself pass.\<close>

theorem revoke_misses_earlier_certificate:
  assumes g1: "generateSshCredentials sg1 keys1 n1 t1 x d = (Inr c1, d1)"
    and g2: "generateSshCredentials sg2 keys2 n2 t2 x d1 = (Inr c2, d2)" and ne: "n1 \<noteq> n2"
    and rv: "revoke io fl lf y w = (Inr r, w')" and w: "w_db w = d2" "rk_request y = ca_request x"
    and fresh: "\<forall>r \<in> set (requests d). req_certificate r \<noteq> Some n1"
      "\<forall>c \<in> set (certs d). cert_serial c \<noteq> sg_serial sg1"
  shows "\<exists>k \<in> set (certs (w_db w')). cert_id k = n1 \<and> cert_serial k = sg_serial sg1 \<and> cert_status k = CERT_ACTIVE
    \<and> (\<forall>q \<in> set (requests (w_db w')). req_certificate q \<noteq> Some n1)
    \<and> (\<forall>cu clk af serial prin agent. js_bigint serial = Some (sg_serial sg1) \<and> serial \<noteq> [] \<and> prin \<noteq> []
         \<and> cert_error cu (clk 0) prin agent (w_db w') k = None \<longrightarrow> vf_valid (fst (verify cu clk False af serial prin agent (w_db w'))))"
proof -
  from generateSshCredentials_ok [OF g1] obtain ar1 s1 p1 pub1 ps1 v1 sgd1 where
    k1: "fst (snd sgd1) = sg_serial sg1" "certs d1 = certs d @ [request_cert n1 t1 ar1 s1 (ca_caller x) ps1 pub1 v1 sgd1]"
    and R1: "requests d1 = update_where (\<lambda>r. req_id r = ca_request x) (\<lambda>r. r\<lparr>req_certificate := Some n1\<rparr>) (requests d)" by metis
  from generateSshCredentials_ok [OF g2] obtain k2 where k2: "certs d2 = certs d1 @ [k2]"
    and R2: "requests d2 = update_where (\<lambda>r. req_id r = ca_request x) (\<lambda>r. r\<lparr>req_certificate := Some n2\<rparr>) (requests d1)" by metis
  define k where "k = request_cert n1 t1 ar1 s1 (ca_caller x) ps1 pub1 v1 sgd1"
  have k: "cert_id k = n1" "cert_serial k = sg_serial sg1" "cert_status k = CERT_ACTIVE"
    using k1(1) by (auto simp: k_def request_cert_def split: prod.split)
  have fk: "find (\<lambda>c. cert_serial c = sg_serial sg1) (certs d2) = Some k"
    using fresh(2) k(2) by (simp add: k2 k1(2) k_def [symmetric] find_append_new)
  have link: "req_certificate q = Some n2" if "q \<in> set (requests d2)" "req_id q = ca_request x" for q
    using that by (auto simp: R2 elim!: in_update_whereE split: if_splits)
  have nolink: "\<forall>q \<in> set (requests d2). req_certificate q \<noteq> Some n1"
    unfolding R2 R1 ball_update_where using fresh(1) ne by (auto simp: ball_update_where)
  from revoke_ok [OF rv] obtain ar w1 w2 where ar: "revoke_read y (w_db w) = Inr ar"
    and w1: "w1 = on_db (\<lambda>d. revoke_linked (ou_now io) (req_certificate ar) (Some (rk_caller y))
        (update_request (rk_request y) (revoke_row (ou_now io) (rk_reason y)) d)) w"
    and w2: "w2 = snd (endSessionsForRequest (ou_now io) fl lf (req_org ar) (rk_request y) (Some (rk_caller y)) w1)"
    and f: "requests (w_db w') = requests (w_db w2)" "certs (w_db w') = certs (w_db w2)" by metis
  have "req_certificate ar = Some n2"
    using revoke_read_ok [OF ar] find_request_in_org_SomeD link w by metis
  then have C: "certs (w_db w') = certs (revoke_linked (ou_now io) (Some n2) (Some (rk_caller y))
        (update_request (rk_request y) (revoke_row (ou_now io) (rk_reason y)) d2))"
    using session_only_frames(2) [OF endSessionsForRequest_frames(1)] by (simp add: f w2 w1 on_db_def w)
  have R: "requests (w_db w') = update_where (\<lambda>q. req_id q = rk_request y) (revoke_row (ou_now io) (rk_reason y)) (requests d2)"
    using session_only_frames(1) [OF endSessionsForRequest_frames(1)] by (simp add: f w2 w1 on_db_def w)
  have F: "find (\<lambda>c. cert_serial c = cert_serial k) (certs (w_db w')) = Some k"
    using fk k ne by (simp add: C revoke_linked_certs cert_revoke.find_key)
  have N: "\<forall>q \<in> set (requests (w_db w')). req_certificate q \<noteq> Some (cert_id k)"
    unfolding R using nolink k(1) by (simp add: ball_update_where revoke_row_def)
  have "k \<in> set (certs (w_db w'))" using find_SomeD [OF F] by blast
  then show ?thesis using verify_unlinked [OF _ _ _ F N] N k by (intro bexI [of _ k]) auto
qed

lemma sample_credentials:
  assumes "find_request d ''rq'' = Some ar" and "req_requester ar = ''mem''" "req_status ar = APPROVED"
    "req_expiresAt ar = Some 3601000" "req_principal ar = ''deploy''" "req_org ar = ''o''" "server_of d ar = Some s_dev"
  shows "is_ok (fst (generateSshCredentials (test_signer n) (Inr (''priv'', ''pub'')) cid 5000 get_creds d))"
proof -
  have "js_trim ''pub'' \<noteq> []" "legacy_user s_dev = ''deploy''" by code_simp+
  then show ?thesis
    using assms by (simp add: generateSshCredentials_def usable_request_def get_creds_def primary_principal_def Let_def
        test_signer_def signCertificate_def math_floor_div_def)
qed

lemma revoke_misses_earlier_certificate_witness:
  "\<exists>x1 d1 x2 d2 r w'. generateSshCredentials (test_signer 7) (Inr (''priv'', ''pub'')) ''c1'' 5000 get_creds dev_db = (Inr x1, d1)
     \<and> generateSshCredentials (test_signer 8) (Inr (''priv'', ''pub'')) ''c2'' 5000 get_creds d1 = (Inr x2, d2)
     \<and> revoke sample_outside no_fault False revoke_it ((access_world d2)\<lparr>w_db := d2\<rparr>) = (Inr r, w')
     \<and> (\<exists>k \<in> set (certs (w_db w')). cert_id k = ''c1'' \<and> cert_status k = CERT_ACTIVE)"
proof -
  have d: "find_request dev_db ''rq'' = Some granted" "server_of dev_db granted = Some s_dev" "requests dev_db = [granted]"
    by (simp_all add: find_request_def dev_db_def granted_def new_request_def sample_outside_def server_of_def ask_dev_def
        s_dev_def mk_server_def)
  have gr: "req_requester granted = ''mem''" "req_status granted = APPROVED" "req_expiresAt granted = Some 3601000"
    "req_principal granted = ''deploy''" "req_org granted = ''o''" "req_id granted = ''rq''" "req_server granted = ''sdev''"
    by (simp_all add: granted_def new_request_def ask_dev_def sample_outside_def)
  obtain x1 d1 where g1: "generateSshCredentials (test_signer 7) (Inr (''priv'', ''pub'')) ''c1'' 5000 get_creds dev_db = (Inr x1, d1)"
    using sample_credentials [OF d(1) gr(1-5) d(2)] by (metis is_ok_iff prod.collapse)
  let ?l = "\<lambda>c. granted\<lparr>req_certificate := Some c\<rparr>"
  have k: "ca_request get_creds = ''rq''" by (simp add: get_creds_def)
  have d1: "requests d1 = [?l ''c1'']" "servers d1 = servers dev_db"
    using generateSshCredentials_tables [OF g1] d(3) gr(6) by (simp_all add: k update_where_def)
  have f1: "find_request d1 ''rq'' = Some (?l ''c1'')" "server_of d1 (?l ''c1'') = Some s_dev"
    using d(2) gr by (simp_all add: find_request_def d1 server_of_def)
  obtain x2 d2 where g2: "generateSshCredentials (test_signer 8) (Inr (''priv'', ''pub'')) ''c2'' 5000 get_creds d1 = (Inr x2, d2)"
    using sample_credentials [OF f1(1) _ _ _ _ _ f1(2), of 8 "''c2''"] gr by (auto simp: is_ok_iff) (metis prod.collapse)
  have d2: "requests d2 = [?l ''c2'']" "servers d2 = servers dev_db"
    using generateSshCredentials_tables [OF g2] d1 gr(6) by (simp_all add: k update_where_def)
  let ?w = "(access_world d2)\<lparr>w_db := d2\<rparr>"
  have rd: "revoke_read revoke_it (w_db ?w) = Inr (?l ''c2'')"
    using gr d2(1) by (simp add: revoke_read_def revoke_it_def find_request_in_org_def)
  have p: "server_of (w_db ?w) (?l ''c2'') \<noteq> None" "\<not> ou_notifyFault sample_outside (req_requester (?l ''c2''))"
    "req_requester (?l ''c2'') \<noteq> []"
    using d(2) d2 gr by (simp_all add: server_of_def sample_outside_def)
  obtain r w' where rv: "revoke sample_outside no_fault False revoke_it ?w = (Inr r, w')"
    using revoke_succeeds [OF rd p, of no_fault False] by (metis is_ok_iff prod.collapse)
  have fresh: "\<forall>r \<in> set (requests dev_db). req_certificate r \<noteq> Some ''c1''" "\<forall>c \<in> set (certs dev_db). cert_serial c \<noteq> sg_serial (test_signer 7)"
    by (simp_all add: d(3) granted_def new_request_def) (simp add: dev_db_def empty_db_def)
  have e: "''c1'' \<noteq> ''c2''" "w_db ?w = d2" "rk_request revoke_it = ca_request get_creds" by (simp_all add: revoke_it_def k)
  from revoke_misses_earlier_certificate [OF g1 g2 e(1) rv e(2,3) fresh] g1 g2 rv show ?thesis by blast
qed

section \<open>The expiry job and a decision\<close>

text \<open>The job that expires unanswered requests can undo an approval: it updates each request of
  the list it read without looking at the status again, so a request approved after the list was
  read becomes EXPIRED, although the approval is recorded and its own deadline has not come.\<close>

theorem pending_expiry_overwrites_approval:
  assumes "ar \<in> set (stale_requests (ou_now io) d)" and "review_decide io1 x ar d = (Inr r, d1)"
    and "rv_request x = req_id ar" and "rv_decision x = Some Approve" and "\<not> uf (req_id ar)"
    and "distinct (map req_id (requests d))"
  shows "req_status r = APPROVED \<and> req_expiresAt r \<noteq> None \<and> find_request d1 (req_id ar) = Some r
    \<and> find_request (snd (expire_pending_one io uf ar d1)) (req_id ar) = Some (r\<lparr>req_status := EXPIRED\<rparr>)"
proof -
  from review_decide_cases [of d x io1 ar] assms(2) obtain
    fr: "find_request d1 (rv_request x) = Some r"
    and R: "requests d1 = update_where (undecided (rv_request x)) (decided_row io1 x ar d) (requests d)"
    by (metis Inl_Inr_False prod.inject sum.inject(2))
  have ar: "ar \<in> set (requests d)" "req_status ar = PENDING" using assms(1) by (simp_all add: stale_requests_def)
  have "find (\<lambda>q. req_id q = rv_request x) (requests d) = Some ar"
    by (rule find_unique [OF assms(6) ar(1)]) (simp add: assms(3))
  then have r: "r = decided_row io1 x ar d ar"
    using fr ar(2) assms(3) by (simp add: find_request_def R decided_update.find_key undecided_def)
  have st: "req_status r = APPROVED" "req_expiresAt r \<noteq> None"
    using assms(4) by (simp_all add: r decided_row_def approve_row_def)
  have "find_request (update_request (req_id ar) expire_row d1) (req_id ar) = Some (expire_row r)"
    using fr assms(3) find_request_SomeD [OF fr] by (simp add: find_request_def expire_update.find_key)
  moreover have "requests (snd (expire_pending_one io uf ar d1)) = requests (update_request (req_id ar) expire_row d1)"
    by (rule expire_pending_requests) (rule assms(5))
  ultimately have "find_request (snd (expire_pending_one io uf ar d1)) (req_id ar) = Some (expire_row r)"
    using find_request_cong by metis
  then show ?thesis using fr assms(3) st by (simp add: expire_row_def)
qed

definition late :: outside where
  "late = sample_outside\<lparr>ou_now := 90000000\<rparr>"

definition waiting :: request where
  "waiting = (new_request sample_outside ask_prod ''deploy'' PENDING)\<lparr>req_reviewer := Some ''root'', req_approvers := [''root'']\<rparr>"

definition waiting_db :: db where
  "waiting_db = access_db\<lparr>requests := [waiting]\<rparr>"

lemma pending_expiry_overwrites_approval_witness:
  "\<exists>r d1. review_decide late (approve_it ''root'') waiting waiting_db = (Inr r, d1)
     \<and> find_request (snd (expire_pending_one late (\<lambda>_. False) waiting d1)) ''rq'' = Some (r\<lparr>req_status := EXPIRED\<rparr>)
     \<and> req_status r = APPROVED"
proof -
  have u: "\<exists>q \<in> set (requests waiting_db). undecided (rv_request (approve_it ''root'')) q" by code_simp
  obtain r d1 where r: "review_decide late (approve_it ''root'') waiting waiting_db = (Inr r, d1)"
    using review_decide_won(5) [OF u, of late waiting] by (metis is_ok_iff prod.collapse)
  have i: "req_id waiting = ''rq''" "rv_request (approve_it ''root'') = req_id waiting" "rv_decision (approve_it ''root'') = Some Approve"
    "\<not> (\<lambda>_ :: id. False) (req_id waiting)"
    by (simp_all add: waiting_def new_request_def sample_outside_def approve_it_def)
  have m: "waiting \<in> set (stale_requests (ou_now late) waiting_db)"
    by (simp add: stale_requests_def waiting_db_def waiting_def new_request_def late_def sample_outside_def)
  have d: "distinct (map req_id (requests waiting_db))" by (simp add: waiting_db_def)
  from pending_expiry_overwrites_approval [where uf = "\<lambda>_. False", OF m r i(2,3,4) d] r show ?thesis by (auto simp: i(1))
qed

section \<open>Production\<close>

lemma submit_shape:
  assumes "find_server d (sa_server x) (sa_org x) = Some s"
  shows "(\<exists>e. submit io x d = (Inl e, d)) \<or> (\<exists>u prin. submit io x d = submit_pending io x s u prin d) \<or>
     (\<exists>u prin p ev. submit io x d = submit_approved io x s u prin ev d \<and> ev_allowed ev \<and> \<not> ev_requiresApproval ev \<and>
        evaluate d (sa_org x) (sa_requester x) (sa_server x) p [] None = Inr ev)"
  by (simp add: submit_def assms split: option.split sum.split) blast

lemma submit_rows:
  assumes "find_server d (sa_server x) (sa_org x) = Some s" and "r \<in> set (requests (snd (submit io x d)))" and "r \<notin> set (requests d)"
  shows "req_server r = sa_server x \<and> req_requester r = sa_requester x \<and>
     (req_status r = PENDING \<or> req_status r = APPROVED \<and>
        (\<exists>p ev. evaluate d (sa_org x) (sa_requester x) (sa_server x) p [] None = Inr ev \<and> ev_allowed ev \<and> \<not> ev_requiresApproval ev))"
  using submit_shape [OF assms(1), of io]
proof (elim disjE exE conjE)
  fix u prin
  assume p: "submit io x d = submit_pending io x s u prin d"
  obtain y d' where y: "submit_pending io x s u prin d = (y, d')" by force
  show ?thesis
  proof (cases y)
    case (Inl e)
    then show ?thesis using submit_pending_err [of io x s u prin d e d'] y p assms(2,3) by simp
  next
    case (Inr q)
    obtain as :: "user list" where "requests d' = requests d @ [q]"
      "q = (new_request io x prin PENDING)\<lparr>req_reviewer := Some (usr_id (hd as)), req_approvers := map usr_id as\<rparr>"
      by (rule submit_pending_ok [OF y [unfolded Inr]]) (rule that)
    then have "requests d' = requests d @ [q]" "req_status q = PENDING" "req_server q = sa_server x" "req_requester q = sa_requester x"
      by (simp_all add: new_request_def)
    then show ?thesis using p y assms(2,3) by auto
  qed
next
  fix u prin p ev
  assume "submit io x d = submit_approved io x s u prin ev d" and ev: "ev_allowed ev" "\<not> ev_requiresApproval ev"
    "evaluate d (sa_org x) (sa_requester x) (sa_server x) p [] None = Inr ev"
  then have "r = approved_request io x prin ev" using assms(2,3) by (simp add: submit_approved_frames)
  then show ?thesis using ev by (auto simp: approved_request_def new_request_def Let_def)
qed (use assms(2,3) in simp)

text \<open>C1: Asking for access to a production server never gives it at once, whatever the flags of the
  matching policy say, unless the requester's role holds \<open>access.prod_bypass\<close> and the organization's
  switch is on: the organization-wide evaluation does not return an approval without review, and
  the row a submission leaves is pending or there is none, also when the submission fails half way.
  (Emergency access is the other way onto a production server; it has rules of its own.)\<close>

theorem prod_needs_bypass:
  assumes "find_server d (sa_server x) (sa_org x) = Some s" and "srv_env s = EnvProd"
  shows "(\<forall>prin ev. evaluate d (sa_org x) (sa_requester x) (sa_server x) prin [] None = Inr ev \<and> ev_allowed ev \<and> \<not> ev_requiresApproval ev \<longrightarrow>
        ''access.prod_bypass'' \<in> set (si_permissions (loadSubject d (sa_requester x) (sa_org x))) \<and> isProdBypassEnabled d (sa_org x))
    \<and> (\<forall>r \<in> set (requests (snd (submit io x d))) - set (requests d).
        req_server r = sa_server x \<and> req_requester r = sa_requester x \<and>
        (req_status r = PENDING \<or> req_status r = APPROVED
           \<and> ''access.prod_bypass'' \<in> set (si_permissions (loadSubject d (sa_requester x) (sa_org x))) \<and> isProdBypassEnabled d (sa_org x)))"
proof (intro conjI ballI allI impI)
  fix r
  assume "r \<in> set (requests (snd (submit io x d))) - set (requests d)"
  then have r: "r \<in> set (requests (snd (submit io x d)))" "r \<notin> set (requests d)" by blast+
  note R = submit_rows [OF assms(1) r]
  show "req_server r = sa_server x" "req_requester r = sa_requester x" using R by blast+
  show "req_status r = PENDING \<or> req_status r = APPROVED
      \<and> ''access.prod_bypass'' \<in> set (si_permissions (loadSubject d (sa_requester x) (sa_org x))) \<and> isProdBypassEnabled d (sa_org x)"
    using R evaluate_prod_guard [OF _ assms(1) _ _ assms(2)] by blast
qed (use evaluate_prod_guard [OF _ assms(1) _ _ assms(2)] in blast)+

lemma prod_needs_bypass_witness:
  "\<exists>r. requests (snd (submit sample_outside ask_prod sample_db)) = [r] \<and> req_status r = APPROVED
     \<and> ''access.prod_bypass'' \<in> set (si_permissions (loadSubject sample_db ''adm'' ''o'')) \<and> isProdBypassEnabled sample_db ''o''
     \<and> map req_status (requests (snd (submit sample_outside ask_prod access_db))) = [PENDING]"
proof -
  have s: "find_server sample_db (sa_server ask_prod) (sa_org ask_prod) = Some s_prod" "srv_env s_prod = EnvProd" by code_simp+
  have e: "requests sample_db = []" by code_simp
  have st: "map req_status (requests (snd (submit sample_outside ask_prod sample_db))) = [APPROVED]"
    "map req_status (requests (snd (submit sample_outside ask_prod access_db))) = [PENDING]" by code_simp+
  then obtain r where r: "requests (snd (submit sample_outside ask_prod sample_db)) = [r]" "req_status r = APPROVED" by auto
  have "sa_org ask_prod = ''o''" "sa_requester ask_prod = ''adm''" by (simp_all add: ask_prod_def ask_dev_def)
  with prod_needs_bypass [OF s, of sample_outside] r st(2) e show ?thesis by auto
qed

section \<open>Reading\<close>

lemma page_of_mem:
  assumes "0 < ps"
  shows "x \<in> set xs \<longleftrightarrow> (\<exists>p > 0. x \<in> set (page_of p ps xs))"
proof
  assume "x \<in> set xs"
  moreover have "concat (map (\<lambda>p. page_of (Suc p) ps xs) [0..<length xs]) = xs"
    using assms by (simp add: pages_concat)
  ultimately have "x \<in> set (concat (map (\<lambda>p. page_of (Suc p) ps xs) [0..<length xs]))" by simp
  then show "\<exists>p > 0. x \<in> set (page_of p ps xs)" by auto
next
  assume "\<exists>p > 0. x \<in> set (page_of p ps xs)"
  then show "x \<in> set xs" by (auto simp: page_of_def dest: in_set_takeD in_set_dropD)
qed

lemma set_order_requests: "mset (ties rs) = mset rs \<Longrightarrow> set (order_requests collate ties d field up rs) = set rs"
  unfolding order_requests_def set_sort by (rule mset_eq_setD)

text \<open>With distinct sort keys the order the database finds the rows in does not matter.\<close>

lemma order_requests_unique:
  assumes "mset (t rs) = mset rs" "mset (t' rs) = mset rs" and "distinct rs" and "inj_on (request_key collate d field) (set rs)"
  shows "order_requests collate t d field up rs = order_requests collate t' d field up rs"
proof -
  let ?k = "\<lambda>r. (if up then 1 else - 1) * request_key collate d field r"
  have s: "set (t rs) = set rs" "set (t' rs) = set rs" "distinct (t rs)" "distinct (t' rs)"
    using mset_eq_setD [OF assms(1)] mset_eq_setD [OF assms(2)] mset_eq_imp_distinct_iff [OF assms(1)]
      mset_eq_imp_distinct_iff [OF assms(2)] assms(3) by blast+
  have i: "inj_on ?k (set rs)" using assms(4) by (auto simp: inj_on_def)
  show ?thesis unfolding order_requests_def
    by (rule map_sorted_distinct_set_unique [of ?k]) (use s i in \<open>simp_all add: distinct_map\<close>)
qed

text \<open>C38: The list and the single read agree: every page a caller lists has at most a hundred rows,
  all of the tab and the filters, and the number of matching rows; and every row of the tab can be
  opened by the same caller with the same permissions and scope: listed as waiting for the caller's
  review, it is shown as reviewable unless it is the caller's own. The pages together hold every
  matching row if no two of these have the same sort key, or if the database happens to return equal
  ones in the same order each time; there is no tie-breaker, so otherwise a row can be missed.\<close>

theorem list_and_get_agree:
  assumes "distinct (map req_id (requests d))" and "\<forall>r \<in> set (requests d). req_id r \<noteq> []"
    and "listRequests collate (ties 1) d oid uid perms tb f field up 1 n sc = Inr l"
    and "\<forall>p rs. mset (ties p rs) = mset rs"
  shows "(\<forall>p > 0. \<exists>l. listRequests collate (ties p) d oid uid perms tb f field up p n sc = Inr l \<and> length (rl_items l) \<le> 100
           \<and> rl_total l = card {r \<in> set (requests d). tab_where d oid uid tb sc r \<and> request_where d f r}
           \<and> set (rl_items l) \<subseteq> {r \<in> set (requests d). tab_where d oid uid tb sc r \<and> request_where d f r})
    \<and> (\<forall>r. r \<in> set (requests d) \<and> tab_where d oid uid tb sc r \<longrightarrow>
         (\<exists>v. getRequestById d (req_id r) oid uid perms sc = Inr (r, v) \<and>
            (tb = TabToReview \<longrightarrow> vw_canReview v = (req_requester r \<noteq> uid))))
    \<and> ((\<forall>p. ties p = ties 1) \<or> inj_on (request_key collate d field) {r \<in> set (requests d). tab_where d oid uid tb sc r \<and> request_where d f r} \<longrightarrow>
       (\<forall>r \<in> set (requests d). tab_where d oid uid tb sc r \<and> request_where d f r \<longrightarrow>
         (\<exists>p > 0. \<exists>l. listRequests collate (ties p) d oid uid perms tb f field up p n sc = Inr l \<and> r \<in> set (rl_items l))))"
proof -
  let ?rows = "filter (\<lambda>r. tab_where d oid uid tb sc r \<and> request_where d f r) (requests d)"
  let ?o = "\<lambda>p :: nat. order_requests collate (ties p) d field up ?rows"
  have ok: "oid \<noteq> []" "uid \<noteq> []" "tb = TabAll \<longrightarrow> ''access_requests.view_all'' \<in> set perms"
    using assms(3) by (auto simp: listRequests_def split: if_splits)
  have L: "listRequests collate (ties p) d oid uid perms tb f field up p n sc =
      Inr \<lparr>rl_items = page_of p (page_size n) (?o p), rl_total = length ?rows, rl_page = p, rl_limit = page_size n\<rparr>" if "p > 0" for p
    using ok that by (simp add: listRequests_def page_no_def Let_def)
  have b: "0 < page_size n" "page_size n \<le> 100" using page_size_bounds [of n] by auto
  have dr: "distinct ?rows" using assms(1) by (simp add: distinct_map)
  have so: "set (?o p) = set ?rows" for p by (rule set_order_requests) (simp add: assms(4))
  have len: "length (page_of p (page_size n) (?o p)) \<le> 100" for p
    using b(2) length_page_of [of p "page_size n" "?o p"] by linarith
  have sub: "set (page_of p (page_size n) (?o p)) \<subseteq> set ?rows" for p
    using so [of p] by (auto simp: page_of_def dest: in_set_takeD in_set_dropD)
  have cd: "length ?rows = card {r \<in> set (requests d). tab_where d oid uid tb sc r \<and> request_where d f r}"
    using distinct_card [OF dr] by simp
  have 1: "\<forall>p > 0. \<exists>l. listRequests collate (ties p) d oid uid perms tb f field up p n sc = Inr l \<and> length (rl_items l) \<le> 100
      \<and> rl_total l = card {r \<in> set (requests d). tab_where d oid uid tb sc r \<and> request_where d f r}
      \<and> set (rl_items l) \<subseteq> {r \<in> set (requests d). tab_where d oid uid tb sc r \<and> request_where d f r}"
    using len sub cd by (auto simp: L)
  have 2: "\<exists>p > 0. \<exists>l. listRequests collate (ties p) d oid uid perms tb f field up p n sc = Inr l \<and> r \<in> set (rl_items l)"
    if t: "(\<forall>p. ties p = ties 1) \<or> inj_on (request_key collate d field) {r \<in> set (requests d). tab_where d oid uid tb sc r \<and> request_where d f r}"
      and r: "r \<in> set (requests d)" "tab_where d oid uid tb sc r \<and> request_where d f r" for r
  proof -
    have eq: "?o p = ?o 1" for p
      using t
    proof
      assume "\<forall>p. ties p = ties 1"
      then have "ties p = ties 1" by (rule spec)
      then show ?thesis by (rule arg_cong)
    next
      assume "inj_on (request_key collate d field) {r \<in> set (requests d). tab_where d oid uid tb sc r \<and> request_where d f r}"
      then have "inj_on (request_key collate d field) (set ?rows)" by simp
      with dr show ?thesis by (intro order_requests_unique) (rule assms(4) [THEN spec, THEN spec])+
    qed
    have "r \<in> set (?o 1)" unfolding so [of 1] using r by simp
    from iffD1 [OF page_of_mem [OF b(1)] this] obtain p where p: "p > 0" "r \<in> set (page_of p (page_size n) (?o 1))" by (elim exE conjE)
    define l where "l = \<lparr>rl_items = page_of p (page_size n) (?o p), rl_total = length ?rows, rl_page = p, rl_limit = page_size n\<rparr>"
    have "r \<in> set (rl_items l)" unfolding l_def request_list.select_convs eq [of p] by (rule p(2))
    with L [OF p(1), folded l_def] p(1) show ?thesis by blast
  qed
  have 3: "\<exists>v. getRequestById d (req_id r) oid uid perms sc = Inr (r, v) \<and> (tb = TabToReview \<longrightarrow> vw_canReview v = (req_requester r \<noteq> uid))"
    if r: "r \<in> set (requests d)" "tab_where d oid uid tb sc r" for r
  proof -
    have o: "req_org r = oid" using r(2) by (simp add: tab_where_def)
    have "find_request_in_org d (req_id r) oid = Some r"
      unfolding find_request_in_org_def using o
      by (intro find_both find_unique [OF assms(1) r(1)]) auto
    moreover have "relationScopeWhere sc (server_of d r) \<Longrightarrow> assertServerInScope sc (server_of d r) = Inr ()"
      by (cases sc) (auto split: option.splits)
    ultimately show ?thesis
      using r ok assms(2) by (cases tb) (auto simp: getRequestById_def Let_def tab_where_def split: sum.splits)
  qed
  from 1 2 3 show ?thesis by blast
qed

lemma list_and_get_agree_witness:
  "\<exists>v. getRequestById waiting_db ''rq'' ''o'' ''root'' [] (ScopeCustomers []) = Inr (waiting, v) \<and> vw_canReview v"
proof -
  let ?f = "\<lparr>rf_status = None, rf_server = [], rf_requester = [], rf_reviewer = [], rf_customer = [], rf_protocol = None,
    rf_env = None, rf_search = [], rf_from = None, rf_to = None\<rparr>"
  have w: "req_id waiting = ''rq''" "req_org waiting = ''o''" "req_status waiting = PENDING" "is_approver ''root'' waiting"
    "req_requester waiting = ''adm''"
    by (simp_all add: waiting_def new_request_def sample_outside_def ask_prod_def ask_dev_def is_approver_def)
  obtain l where l: "listRequests (\<lambda>_. 0) id waiting_db ''o'' ''root'' [] TabToReview ?f ByCreated True 1 25 (ScopeCustomers []) = Inr l"
    by (simp add: listRequests_def Let_def)
  have h: "distinct (map req_id (requests waiting_db))" "\<forall>r \<in> set (requests waiting_db). req_id r \<noteq> []"
    "waiting \<in> set (requests waiting_db)"
    by (simp_all add: waiting_db_def w)
  have t: "tab_where waiting_db ''o'' ''root'' TabToReview (ScopeCustomers []) waiting" by (simp add: tab_where_def w)
  have p: "\<forall>p :: nat. \<forall>rs. mset (id rs :: request list) = mset rs" by simp
  from list_and_get_agree [where ties = "\<lambda>_. id", OF h(1,2) l p]
  have "r \<in> set (requests waiting_db) \<and> tab_where waiting_db ''o'' ''root'' TabToReview (ScopeCustomers []) r \<longrightarrow>
      (\<exists>v. getRequestById waiting_db (req_id r) ''o'' ''root'' [] (ScopeCustomers []) = Inr (r, v) \<and>
         vw_canReview v = (req_requester r \<noteq> ''root''))" for r by blast
  from this [of waiting] t h(3) w(1,5) show ?thesis by auto
qed

text \<open>
  Two requests with the same duration, one on a page: if the database returns equal rows in the
  other order for the second page, the first request stands on both and the second on none.
\<close>

lemma ties_can_hide_a_request:
  "(let d = waiting_db\<lparr>requests := [waiting, waiting\<lparr>req_id := ''rq2''\<rparr>]\<rparr>;
        f = \<lparr>rf_status = None, rf_server = [], rf_requester = [], rf_reviewer = [], rf_customer = [], rf_protocol = None,
              rf_env = None, rf_search = [], rf_from = None, rf_to = None\<rparr>;
        page = (\<lambda>ties p. case listRequests (\<lambda>_. 0) ties d ''o'' ''root'' [] TabToReview f ByDuration True p 1 (ScopeCustomers []) of
           Inr l \<Rightarrow> map req_id (rl_items l) | Inl e \<Rightarrow> [])
    in page id 1 = [''rq''] \<and> page rev 2 = [''rq''])"
  by code_simp

end
