(* ===== verification/Redis.thy ===== *)
theory Redis
  imports Store
begin

text \<open>
  What the code uses of Redis: counters and values under a key, each with an optional deadline
  in milliseconds after which the key is gone. Counters and values never share a key (their
  prefixes differ), so they are two tables. \<open>'v\<close> is what the code stores under a key, before it
  is encrypted and printed.
\<close>

section \<open>Commands\<close>

record 'v redis =
  rd_num :: "(string \<times> nat \<times> int option) list"
  rd_obj :: "(string \<times> 'v \<times> int option) list"

definition alive :: "int \<Rightarrow> int option \<Rightarrow> bool" where
  "alive now dl = (case dl of None \<Rightarrow> True | Some t \<Rightarrow> now < t)"

definition live_entry :: "int \<Rightarrow> string \<Rightarrow> (string \<times> 'a \<times> int option) list \<Rightarrow> ('a \<times> int option) option" where
  "live_entry now k m = (case map_of m k of None \<Rightarrow> None | Some (v, dl) \<Rightarrow> if alive now dl then Some (v, dl) else None)"

definition put_entry :: "string \<Rightarrow> 'a \<Rightarrow> int option \<Rightarrow> (string \<times> 'a \<times> int option) list \<Rightarrow> (string \<times> 'a \<times> int option) list" where
  "put_entry k v dl m = (k, v, dl) # filter (\<lambda>p. fst p \<noteq> k) m"

definition drop_entry :: "string \<Rightarrow> (string \<times> 'a \<times> int option) list \<Rightarrow> (string \<times> 'a \<times> int option) list" where
  "drop_entry k m = filter (\<lambda>p. fst p \<noteq> k) m"

definition redis_get :: "int \<Rightarrow> string \<Rightarrow> 'v redis \<Rightarrow> 'v option" where
  "redis_get now k s = map_option fst (live_entry now k (rd_obj s))"

definition redis_count :: "int \<Rightarrow> string \<Rightarrow> 'v redis \<Rightarrow> nat option" where
  "redis_count now k s = map_option fst (live_entry now k (rd_num s))"

definition redis_set :: "int \<Rightarrow> string \<Rightarrow> 'v \<Rightarrow> int \<Rightarrow> 'v redis \<Rightarrow> 'v redis" where
  "redis_set now k v ttlSec s = s\<lparr>rd_obj := put_entry k v (Some (now + ttlSec * 1000)) (rd_obj s)\<rparr>"

definition redis_del :: "string \<Rightarrow> 'v redis \<Rightarrow> 'v redis" where
  "redis_del k s = s\<lparr>rd_num := drop_entry k (rd_num s), rd_obj := drop_entry k (rd_obj s)\<rparr>"

text \<open>\<open>INCR\<close> keeps a deadline; a missing counter starts at 0 without one.\<close>

definition redis_incr :: "int \<Rightarrow> string \<Rightarrow> 'v redis \<Rightarrow> nat \<times> 'v redis" where
  "redis_incr now k s =
     (case live_entry now k (rd_num s) of
        None \<Rightarrow> (1, s\<lparr>rd_num := put_entry k 1 None (rd_num s)\<rparr>)
      | Some (n, dl) \<Rightarrow> (n + 1, s\<lparr>rd_num := put_entry k (n + 1) dl (rd_num s)\<rparr>))"

definition redis_expire :: "int \<Rightarrow> string \<Rightarrow> int \<Rightarrow> 'v redis \<Rightarrow> 'v redis" where
  "redis_expire now k ttlSec s =
     (case live_entry now k (rd_num s) of
        None \<Rightarrow> s
      | Some (n, _) \<Rightarrow> s\<lparr>rd_num := put_entry k n (Some (now + ttlSec * 1000)) (rd_num s)\<rparr>)"

text \<open>The usual pair: \<open>incr\<close>, and a deadline when the counter is new.\<close>

definition incr_window :: "int \<Rightarrow> string \<Rightarrow> int \<Rightarrow> 'v redis \<Rightarrow> nat \<times> 'v redis" where
  "incr_window now k ttlSec s =
     (case redis_incr now k s of (n, s1) \<Rightarrow> (n, if n = 1 then redis_expire now k ttlSec s1 else s1))"

section \<open>Lemmas\<close>

lemma map_of_filter_key: "map_of (filter (\<lambda>p. fst p \<noteq> k) m) k' = (if k' = k then None else map_of m k')"
  by (induction m) auto

lemma live_entry_put [simp]:
  "live_entry now k' (put_entry k v dl m) = (if k' = k then (if alive now dl then Some (v, dl) else None) else live_entry now k' m)"
  by (simp add: live_entry_def put_entry_def map_of_filter_key)

lemma live_entry_drop [simp]: "live_entry now k' (drop_entry k m) = (if k' = k then None else live_entry now k' m)"
  by (simp add: live_entry_def drop_entry_def map_of_filter_key)

lemma redis_get_set [simp]:
  "redis_get t k' (redis_set now k v ttl s) = (if k' = k then (if t < now + ttl * 1000 then Some v else None) else redis_get t k' s)"
  by (simp add: redis_get_def redis_set_def alive_def)

lemma redis_get_del [simp]: "redis_get t k' (redis_del k s) = (if k' = k then None else redis_get t k' s)"
  by (simp add: redis_get_def redis_del_def)

lemma redis_count_del [simp]: "redis_count t k' (redis_del k s) = (if k' = k then None else redis_count t k' s)"
  by (simp add: redis_count_def redis_del_def)

lemma rd_obj_incr_window [simp]: "rd_obj (snd (incr_window now k ttl s)) = rd_obj s"
  by (auto simp: incr_window_def redis_incr_def redis_expire_def split: option.split)

lemma redis_get_incr [simp]: "redis_get t k' (snd (incr_window now k ttl s)) = redis_get t k' s"
  by (simp add: redis_get_def)

lemma fst_incr_window: "fst (incr_window now k ttl s) = (case redis_count now k s of None \<Rightarrow> 1 | Some n \<Rightarrow> n + 1)"
  by (auto simp: incr_window_def redis_incr_def redis_count_def split: option.split)

end
