(* ===== verification/Mfa.thy ===== *)
theory Mfa
  imports Redis
begin

text \<open>
  Second factors (\<open>backend/src/services/mfaService.js\<close>): authenticator enrolment, e-mailed
  codes, backup codes, and the attempt limits of a sign-in challenge. The authenticator check,
  SHA-256 and the encryption of secrets at rest are parameters; the signed challenge token and
  the mail itself are not modelled, only whether the mail was delivered.
\<close>

section \<open>What is outside\<close>

text \<open>
  \<open>me_totp code secret\<close> is \<open>authenticator.check\<close>, which depends on the time of the call;
  \<open>me_seal\<close> and \<open>me_unseal\<close> are \<open>encrypt\<close> and \<open>decrypt\<close>.
\<close>

record mfa_env =
  me_totp :: "string \<Rightarrow> string \<Rightarrow> bool"
  me_sha :: "string \<Rightarrow> string"
  me_seal :: "string \<Rightarrow> string"
  me_unseal :: "string \<Rightarrow> string res"

definition EMAIL_OTP_TYPE :: string where "EMAIL_OTP_TYPE = ''mfa_email_otp''"
definition EMAIL_OTP_TTL_MS :: int where "EMAIL_OTP_TTL_MS = 10 * 60 * 1000"
definition CHALLENGE_TTL_SEC :: int where "CHALLENGE_TTL_SEC = 5 * 60"
definition MFA_MAX_ATTEMPTS :: nat where "MFA_MAX_ATTEMPTS = 5"
definition EMAIL_OTP_MAX_SENDS_PER_CHALLENGE :: nat where "EMAIL_OTP_MAX_SENDS_PER_CHALLENGE = 3"
definition USER_THROTTLE_MAX :: nat where "USER_THROTTLE_MAX = 15"
definition USER_THROTTLE_WINDOW_SEC :: int where "USER_THROTTLE_WINDOW_SEC = 15 * 60"
definition SELF_OTP_COOLDOWN_SEC :: int where "SELF_OTP_COOLDOWN_SEC = 30"
definition SELF_OTP_MAX_PER_WINDOW :: nat where "SELF_OTP_MAX_PER_WINDOW = 5"
definition SELF_OTP_WINDOW_SEC :: int where "SELF_OTP_WINDOW_SEC = 15 * 60"

text \<open>\<open>user.update({ where: { id } })\<close>\<close>

definition update_user_row :: "id \<Rightarrow> (user \<Rightarrow> user) \<Rightarrow> db \<Rightarrow> db" where
  "update_user_row uid f d = d\<lparr>users := update_where (\<lambda>u. usr_id u = uid) f (users d)\<rparr>"

section \<open>Status\<close>

definition PREFERABLE_METHODS :: "string list" where
  "PREFERABLE_METHODS = [''totp'', ''email'']"

definition method_enabled :: "user \<Rightarrow> string \<Rightarrow> bool" where
  "method_enabled u m = (if m = ''totp'' then usr_totpEnabled u else usr_emailOtp u)"

definition preferredMethod :: "user \<Rightarrow> string option" where
  "preferredMethod u =
     (let enabled = filter (method_enabled u) PREFERABLE_METHODS in
      case usr_mfaPreferred u of
        Some p \<Rightarrow> if p \<in> set enabled then Some p else first_opt enabled
      | None \<Rightarrow> first_opt enabled)"

text \<open>\<open>sort\<close> on two methods only moves the preferred one to the front.\<close>

definition availableMethods :: "user \<Rightarrow> string list" where
  "availableMethods u =
     (let m = (if usr_totpEnabled u then [''totp''] else []) @ (if usr_emailOtp u then [''email''] else []);
          m' = (case preferredMethod u of None \<Rightarrow> m | Some p \<Rightarrow> if hd m = p then m else p # filter (\<lambda>x. x \<noteq> p) m)
      in m' @ (if usr_backupCodes u = [] then [] else [''backup'']))"

definition hasFactor :: "user \<Rightarrow> bool" where
  "hasFactor u \<longleftrightarrow> usr_totpEnabled u \<or> usr_emailOtp u \<or> usr_backupCodes u \<noteq> []"

record mfa_status =
  ms_enrolled :: bool
  ms_totpEnabled :: bool
  ms_emailEnabled :: bool
  ms_totpPending :: bool
  ms_backupCodesRemaining :: nat
  ms_enrolledAt :: "int option"
  ms_preferredMethod :: "string option"

definition userMfaStatus :: "user \<Rightarrow> mfa_status" where
  "userMfaStatus u = \<lparr>ms_enrolled = (usr_totpEnabled u \<or> usr_emailOtp u), ms_totpEnabled = usr_totpEnabled u,
     ms_emailEnabled = usr_emailOtp u, ms_totpPending = truthy (usr_totpPending u),
     ms_backupCodesRemaining = length (usr_backupCodes u), ms_enrolledAt = usr_mfaEnrolledAt u,
     ms_preferredMethod = preferredMethod u\<rparr>"

definition setPreferredMethod :: "user \<Rightarrow> string \<Rightarrow> db \<Rightarrow> string res \<times> db" where
  "setPreferredMethod u m d =
     (if m \<notin> set PREFERABLE_METHODS then (Inl (api_error 400 ''Choose authenticator or email''), d)
      else if \<not> method_enabled u m then (Inl (api_error 400 ''That method is not set up on your account''), d)
      else (Inr m, update_user_row (usr_id u) (\<lambda>r. r\<lparr>usr_mfaPreferred := Some m\<rparr>) d))"

section \<open>Backup codes\<close>

text \<open>\<open>BACKUP_ALPHABET[bytes[i] % length]\<close>, in three groups of four.\<close>

definition BACKUP_ALPHABET :: string where "BACKUP_ALPHABET = ''ABCDEFGHJKLMNPQRSTUVWXYZ23456789''"

definition backup_code :: "nat list \<Rightarrow> string" where
  "backup_code bytes =
     (let s = map (\<lambda>b. BACKUP_ALPHABET ! (b mod length BACKUP_ALPHABET)) bytes
      in take 4 s @ ''-'' @ take 4 (drop 4 s) @ ''-'' @ take 4 (drop 8 s))"

definition upper_char :: "char \<Rightarrow> char" where
  "upper_char c = (let n = of_char c :: nat in if 97 \<le> n \<and> n \<le> 122 then char_of (n - 32) else c)"

definition is_upper_alnum :: "char \<Rightarrow> bool" where
  "is_upper_alnum c = (let n = of_char c :: nat in 48 \<le> n \<and> n \<le> 57 \<or> 65 \<le> n \<and> n \<le> 90)"

definition normalizeBackupCode :: "string \<Rightarrow> string" where
  "normalizeBackupCode s = filter is_upper_alnum (map upper_char s)"

definition hashBackupCode :: "mfa_env \<Rightarrow> string \<Rightarrow> string" where
  "hashBackupCode e s = me_sha e (normalizeBackupCode s)"

text \<open>\<open>rnd\<close> is twelve random bytes per code.\<close>

definition generateBackupCodes :: "nat list list \<Rightarrow> string list" where
  "generateBackupCodes rnd = map backup_code rnd"

definition regenerateBackupCodes :: "mfa_env \<Rightarrow> nat list list \<Rightarrow> user \<Rightarrow> db \<Rightarrow> string list \<times> db" where
  "regenerateBackupCodes e rnd u d =
     (let codes = generateBackupCodes rnd
      in (codes, update_user_row (usr_id u) (\<lambda>r. r\<lparr>usr_backupCodes := map (hashBackupCode e) codes\<rparr>) d))"

text \<open>The stored list is replaced by the one the caller read, less the code.\<close>

definition verifyBackupCode :: "mfa_env \<Rightarrow> user \<Rightarrow> string \<Rightarrow> db \<Rightarrow> bool \<times> db" where
  "verifyBackupCode e u code d =
     (let h = hashBackupCode e code in
      if h \<notin> set (usr_backupCodes u) then (False, d)
      else (True, update_user_row (usr_id u) (\<lambda>r. r\<lparr>usr_backupCodes := filter (\<lambda>c. c \<noteq> h) (usr_backupCodes u)\<rparr>) d))"

section \<open>Authenticator\<close>

definition beginTotpEnroll :: "mfa_env \<Rightarrow> string \<Rightarrow> user \<Rightarrow> db \<Rightarrow> string \<times> db" where
  "beginTotpEnroll e secret u d =
     (secret, update_user_row (usr_id u) (\<lambda>r. r\<lparr>usr_totpPending := Some (me_seal e secret)\<rparr>) d)"

text \<open>Backup codes are made only for a user who has none.\<close>

definition confirmTotpEnroll :: "mfa_env \<Rightarrow> int \<Rightarrow> nat list list \<Rightarrow> user \<Rightarrow> string \<Rightarrow> db \<Rightarrow> string list option res \<times> db" where
  "confirmTotpEnroll e now rnd u code d =
     (if \<not> truthy (usr_totpPending u) then (Inl (api_error 400 ''Start TOTP setup first''), d)
      else case me_unseal e (the (usr_totpPending u)) of
        Inl er \<Rightarrow> (Inl er, d)
      | Inr secret \<Rightarrow>
          if \<not> me_totp e (js_trim code) secret then (Inl (api_error 400 ''Invalid authenticator code''), d)
          else
            let codes = (if usr_backupCodes u = [] then Some (generateBackupCodes rnd) else None)
            in (Inr codes, update_user_row (usr_id u) (\<lambda>r. r\<lparr>usr_totpSecret := Some (me_seal e secret), usr_totpEnabled := True,
                  usr_totpPending := None,
                  usr_mfaEnrolledAt := (case usr_mfaEnrolledAt u of None \<Rightarrow> Some now | Some t \<Rightarrow> Some t),
                  usr_backupCodes := (case codes of None \<Rightarrow> usr_backupCodes r | Some cs \<Rightarrow> map (hashBackupCode e) cs)\<rparr>) d))"

definition verifyTotp :: "mfa_env \<Rightarrow> user \<Rightarrow> string \<Rightarrow> bool" where
  "verifyTotp e u code =
     (if \<not> usr_totpEnabled u \<or> \<not> truthy (usr_totpSecret u) then False
      else case me_unseal e (the (usr_totpSecret u)) of Inl _ \<Rightarrow> False | Inr secret \<Rightarrow> me_totp e (js_trim code) secret)"

section \<open>E-mailed codes\<close>

definition enableEmailOtp :: "int \<Rightarrow> user \<Rightarrow> db \<Rightarrow> db" where
  "enableEmailOtp now u d =
     update_user_row (usr_id u) (\<lambda>r. r\<lparr>usr_emailOtp := True,
       usr_mfaEnrolledAt := (case usr_mfaEnrolledAt u of None \<Rightarrow> Some now | Some t \<Rightarrow> Some t)\<rparr>) d"

text \<open>\<open>String(n).padStart(6, '0')\<close>\<close>

definition pad6 :: "nat \<Rightarrow> string" where
  "pad6 n = (let s = nat_str n in replicate (6 - length s) (CHR ''0'') @ s)"

definition drop_otp :: "id \<Rightarrow> db \<Rightarrow> db" where
  "drop_otp uid d = d\<lparr>tokens := filter (\<lambda>t. \<not> (tok_user t = uid \<and> tok_type t = EMAIL_OTP_TYPE)) (tokens d)\<rparr>"

definition otp_hash :: "mfa_env \<Rightarrow> id \<Rightarrow> string \<Rightarrow> string" where
  "otp_hash e uid code = me_sha e (uid @ '':'' @ code)"

text \<open>The random number, the id of the token row, the clock and whether the mail arrives.\<close>

record otp_send =
  os_number :: nat
  os_tokenId :: id
  os_now :: int
  os_delivered :: bool

definition not_delivered :: err where
  "not_delivered = ApiError 503 (''We couldn'' @ [CHR 0x27] @ ''t send the email. Use another sign-in method, or ask an administrator to check '' @
     ''the email (SMTP) settings.'') (Some ''EMAIL_NOT_DELIVERED'')"

definition dispatchEmailOtp :: "mfa_env \<Rightarrow> otp_send \<Rightarrow> user \<Rightarrow> db \<Rightarrow> unit res \<times> db" where
  "dispatchEmailOtp e s u d =
     (let d1 = drop_otp (usr_id u) d;
          d2 = d1\<lparr>tokens := tokens d1 @ [\<lparr>tok_id = os_tokenId s, tok_user = usr_id u, tok_type = EMAIL_OTP_TYPE,
                 tok_hash = otp_hash e (usr_id u) (pad6 (os_number s)), tok_resource = None,
                 tok_expiresAt = os_now s + EMAIL_OTP_TTL_MS, tok_usedAt = None\<rparr>]\<rparr>
      in if os_delivered s then (Inr (), d2) else (Inl not_delivered, drop_otp (usr_id u) d2))"

definition sendEmailOtp :: "mfa_env \<Rightarrow> otp_send \<Rightarrow> user \<Rightarrow> id option \<Rightarrow> 'v redis \<Rightarrow> db \<Rightarrow> (bool res \<times> db) \<times> 'v redis" where
  "sendEmailOtp e s u jti rs d =
     (case (if truthy jti then incr_window (os_now s) (''mfa:otp:send:'' @ the jti) CHALLENGE_TTL_SEC rs else (0, rs)) of
        (n, rs1) \<Rightarrow>
          if truthy jti \<and> n > EMAIL_OTP_MAX_SENDS_PER_CHALLENGE then ((Inr False, d), rs1)
          else (case dispatchEmailOtp e s u d of
                  (Inl er, d1) \<Rightarrow> ((Inl er, d1), rs1)
                | (Inr _, d1) \<Rightarrow> ((Inr True, d1), rs1)))"

text \<open>The cooldown key holds the text \<open>1\<close>; here it is a counter.\<close>

definition sendSelfServiceEmailOtp :: "mfa_env \<Rightarrow> otp_send \<Rightarrow> user \<Rightarrow> 'v redis \<Rightarrow> db \<Rightarrow> (bool res \<times> db) \<times> 'v redis" where
  "sendSelfServiceEmailOtp e s u rs d =
     (let cool = ''mfa:otp:selfcooldown:'' @ usr_id u; now = os_now s in
      if redis_count now cool rs \<noteq> None then ((Inr False, d), rs)
      else case incr_window now (''mfa:otp:selfwindow:'' @ usr_id u) SELF_OTP_WINDOW_SEC rs of
        (n, rs1) \<Rightarrow>
          if n > SELF_OTP_MAX_PER_WINDOW then ((Inr False, d), rs1)
          else
            let rs2 = snd (incr_window now cool SELF_OTP_COOLDOWN_SEC rs1)
            in (case dispatchEmailOtp e s u d of
                  (Inl er, d1) \<Rightarrow> ((Inl er, d1), rs2)
                | (Inr _, d1) \<Rightarrow> ((Inr True, d1), rs2)))"

definition verifyEmailOtp :: "mfa_env \<Rightarrow> int \<Rightarrow> user \<Rightarrow> string \<Rightarrow> db \<Rightarrow> bool \<times> db" where
  "verifyEmailOtp e now u code d =
     (let h = otp_hash e (usr_id u) (js_trim code) in
      case find (\<lambda>t. tok_user t = usr_id u \<and> tok_type t = EMAIL_OTP_TYPE \<and> tok_hash t = h \<and> tok_usedAt t = None) (tokens d) of
        None \<Rightarrow> (False, d)
      | Some t \<Rightarrow>
          if tok_expiresAt t < now then (False, d)
          else (True, d\<lparr>tokens := update_where (\<lambda>r. tok_id r = tok_id t) (\<lambda>r. r\<lparr>tok_usedAt := Some now\<rparr>) (tokens d)\<rparr>))"

section \<open>Any factor, and the limits\<close>

definition verifyFactor :: "mfa_env \<Rightarrow> int \<Rightarrow> user \<Rightarrow> string \<Rightarrow> string \<Rightarrow> db \<Rightarrow> bool \<times> db" where
  "verifyFactor e now u m code d =
     (if m = ''totp'' then (verifyTotp e u code, d)
      else if m = ''email'' then verifyEmailOtp e now u code d
      else if m = ''backup'' then verifyBackupCode e u code d
      else (False, d))"

definition disableMfa :: "id \<Rightarrow> db \<Rightarrow> db" where
  "disableMfa uid d = update_user_row uid (\<lambda>r. r\<lparr>usr_totpEnabled := False, usr_emailOtp := False, usr_totpSecret := None,
     usr_totpPending := None, usr_backupCodes := [], usr_mfaEnrolledAt := None\<rparr>) d"

definition attempts_key :: "id \<Rightarrow> string" where "attempts_key jti = ''mfa:attempts:'' @ jti"

text \<open>Whether the challenge is burned, and the attempts left.\<close>

definition recordChallengeFailure :: "int \<Rightarrow> id \<Rightarrow> 'v redis \<Rightarrow> (bool \<times> nat) \<times> 'v redis" where
  "recordChallengeFailure now jti rs =
     (case incr_window now (attempts_key jti) CHALLENGE_TTL_SEC rs of
        (n, rs1) \<Rightarrow> ((MFA_MAX_ATTEMPTS \<le> n, MFA_MAX_ATTEMPTS - n), rs1))"

definition isChallengeBurned :: "int \<Rightarrow> id \<Rightarrow> 'v redis \<Rightarrow> bool" where
  "isChallengeBurned now jti rs =
     (case redis_count now (attempts_key jti) rs of None \<Rightarrow> False | Some n \<Rightarrow> MFA_MAX_ATTEMPTS \<le> n)"

definition clearChallengeAttempts :: "id \<Rightarrow> 'v redis \<Rightarrow> 'v redis" where
  "clearChallengeAttempts jti rs = redis_del (attempts_key jti) rs"

definition isUserThrottled :: "int \<Rightarrow> id \<Rightarrow> 'v redis \<Rightarrow> bool \<times> 'v redis" where
  "isUserThrottled now uid rs =
     (case incr_window now (''mfa:userattempts:'' @ uid) USER_THROTTLE_WINDOW_SEC rs of (n, rs1) \<Rightarrow> (USER_THROTTLE_MAX < n, rs1))"

section \<open>Lemmas\<close>

interpretation user_codes: keyed_update usr_id "\<lambda>r. r\<lparr>usr_backupCodes := cs\<rparr>" for cs
  by unfold_locales simp

lemma preferred_is_enabled: "preferredMethod u = Some m \<Longrightarrow> m \<in> set PREFERABLE_METHODS \<and> method_enabled u m"
  by (auto simp: preferredMethod_def Let_def split: option.splits if_splits dest: first_opt_Some_in)

lemma preferredMethod_cases:
  "preferredMethod u =
     (if usr_totpEnabled u \<and> usr_emailOtp u then (if usr_mfaPreferred u = Some ''email'' then Some ''email'' else Some ''totp'')
      else if usr_totpEnabled u then Some ''totp'' else if usr_emailOtp u then Some ''email'' else None)"
  by (cases "usr_totpEnabled u"; cases "usr_emailOtp u"; cases "usr_mfaPreferred u")
    (simp_all add: preferredMethod_def PREFERABLE_METHODS_def method_enabled_def Let_def)

lemma availableMethods_cases:
  "availableMethods u =
     (if usr_totpEnabled u \<and> usr_emailOtp u
      then (if usr_mfaPreferred u = Some ''email'' then [''email'', ''totp''] else [''totp'', ''email''])
      else (if usr_totpEnabled u then [''totp''] else []) @ (if usr_emailOtp u then [''email''] else [])) @
     (if usr_backupCodes u = [] then [] else [''backup''])"
  by (cases "usr_totpEnabled u"; cases "usr_emailOtp u") (simp_all add: availableMethods_def preferredMethod_cases Let_def)

lemma preferred_first: "preferredMethod u = Some m \<Longrightarrow> hd (availableMethods u) = m"
  by (simp add: availableMethods_cases preferredMethod_cases split: if_splits)

lemma hasFactor_iff: "hasFactor u \<longleftrightarrow> availableMethods u \<noteq> []"
  by (simp add: hasFactor_def availableMethods_cases)

text \<open>A factor that is not enrolled never verifies.\<close>

lemma verifyFactor_frames:
  "requests (snd (verifyFactor e now u m c d)) = requests d" "servers (snd (verifyFactor e now u m c d)) = servers d"
  "policies (snd (verifyFactor e now u m c d)) = policies d" "orgs (snd (verifyFactor e now u m c d)) = orgs d"
  "certs (snd (verifyFactor e now u m c d)) = certs d" "sessions (snd (verifyFactor e now u m c d)) = sessions d"
  by (auto simp: verifyFactor_def verifyEmailOtp_def verifyBackupCode_def update_user_row_def Let_def split: option.split)

text \<open>Two checks that read the same row both accept one backup code.\<close>

lemma backup_code_twice:
  assumes "hashBackupCode e code \<in> set (usr_backupCodes u)"
  shows "fst (verifyBackupCode e u code d) \<and> fst (verifyBackupCode e u code (snd (verifyBackupCode e u code d)))"
  using assms by (simp add: verifyBackupCode_def Let_def)

text \<open>Read again in between, a code is accepted once.\<close>

lemma backup_code_once:
  assumes "verifyBackupCode e u code d = (True, d1)" and "u1 \<in> set (users d1)" "usr_id u1 = usr_id u"
  shows "fst (verifyBackupCode e u1 code d1) = False"
  using assms by (auto simp: verifyBackupCode_def Let_def update_user_row_def set_update_where split: if_splits)

end
