(* ===== verification/BreakGlass.thy ===== *)
theory BreakGlass
  imports Lifecycle Mfa
begin

text \<open>
  Emergency access to production (\<open>accessRequestService.js\<close>): \<open>startBreakGlass\<close> checks the
  request and stores a challenge in Redis, \<open>verifyBreakGlass\<close> checks everything again with the
  second factor and creates the approved request. The challenge is kept as a record; that its
  stored text can no longer be decrypted is an argument.
\<close>

section \<open>The challenge\<close>

record challenge =
  ch_user :: id
  ch_org :: id
  ch_server :: id
  ch_hostname :: string
  ch_env :: environment
  ch_reason :: string
  ch_ttl :: int
  ch_method :: string
  ch_policy :: id
  ch_policyName :: string
  ch_max :: int
  ch_ip :: "string option"
  ch_agent :: "string option"
  ch_createdAt :: int

record bg_state =
  bs_db :: db
  bs_redis :: "challenge redis"

definition BREAK_GLASS_CHALLENGE_TTL_SEC :: int where "BREAK_GLASS_CHALLENGE_TTL_SEC = 5 * 60"
definition BREAK_GLASS_MAX_ATTEMPTS :: nat where "BREAK_GLASS_MAX_ATTEMPTS = 5"
definition challenge_key :: "id \<Rightarrow> string" where "challenge_key cid = ''breakglass:challenge:'' @ cid"
definition tries_key :: "id \<Rightarrow> string" where "tries_key cid = ''breakglass:attempts:'' @ cid"

text \<open>\<open>split('@')\<close>: the parts before and after the first at sign, up to the next one.\<close>

definition maskEmail :: "string \<Rightarrow> string" where
  "maskEmail email =
     (let u = takeWhile (\<lambda>c. c \<noteq> CHR ''@'') email;
          d = takeWhile (\<lambda>c. c \<noteq> CHR ''@'') (drop (length u + 1) email)
      in if d = [] then email else js_slice 2 u @ ''***@'' @ d)"

definition burnBreakGlassChallenge :: "id \<Rightarrow> 'v redis \<Rightarrow> 'v redis" where
  "burnBreakGlassChallenge cid rs = redis_del (tries_key cid) (redis_del (challenge_key cid) rs)"

definition coded :: "nat \<Rightarrow> string \<Rightarrow> string \<Rightarrow> err" where
  "coded n m c = ApiError n m (Some c)"

definition assertBreakGlassProdAllowed :: "db \<Rightarrow> id \<Rightarrow> server \<Rightarrow> unit res" where
  "assertBreakGlassProdAllowed d oid s =
     (if srv_env s = EnvProd \<and> \<not> isProdBypassEnabled d oid
      then Inl (coded 403 ''Your organization requires approval for all production access, including break-glass''
             ''BREAK_GLASS_PROD_BYPASS_DISABLED'')
      else Inr ())"

definition active_break_glass :: "int \<Rightarrow> id \<Rightarrow> id \<Rightarrow> request \<Rightarrow> bool" where
  "active_break_glass now oid sid r \<longleftrightarrow>
     req_org r = oid \<and> req_server r = sid \<and> req_breakGlass r \<and> req_status r = APPROVED \<and>
     holds (\<lambda>t. now < t) (req_expiresAt r)"

definition assertNoActiveBreakGlass :: "(int \<Rightarrow> string) \<Rightarrow> int \<Rightarrow> db \<Rightarrow> id \<Rightarrow> id \<Rightarrow> unit res" where
  "assertNoActiveBreakGlass isoString now d oid sid =
     (case find (active_break_glass now oid sid) (requests d) of
        None \<Rightarrow> Inr ()
      | Some r \<Rightarrow> Inl (coded 409 (''Break-glass access to this server is already active until '' @
                   isoString (the (req_expiresAt r)) @ ''.'') ''BREAK_GLASS_ALREADY_ACTIVE''))"

section \<open>Start\<close>

record bg_args =
  ba_org :: id
  ba_invoker :: id
  ba_permissions :: "string list"
  ba_server :: id
  ba_reason :: string
  ba_duration :: int
  ba_method :: string
  ba_scope :: scope
  ba_ip :: "string option"
  ba_agent :: "string option"

record bg_started =
  bt_challenge :: id
  bt_method :: string
  bt_emailHint :: "string option"
  bt_expiresIn :: int

definition bg_ttl :: "int \<Rightarrow> int \<Rightarrow> int" where
  "bg_ttl wanted maxd = max 300 (min wanted maxd)"

text \<open>Only an authenticator or e-mail; e-mail when nothing is enrolled.\<close>

definition bg_methods :: "user \<Rightarrow> string list" where
  "bg_methods u =
     (let enrolled = filter (\<lambda>m. m \<noteq> ''backup'') (availableMethods u)
      in if enrolled = [] then [''email''] else enrolled)"

definition bg_method :: "string \<Rightarrow> user \<Rightarrow> string res" where
  "bg_method m u =
     (if m = [] then Inr (hd (bg_methods u))
      else if m \<notin> set (bg_methods u)
      then Inl (coded 400 (''That verification method isn'' @ [CHR 0x27] @ ''t available for your account.'') ''BREAK_GLASS_METHOD_UNAVAILABLE'')
      else Inr m)"

definition bg_no_permission :: err where
  "bg_no_permission = api_error 403 (''You don'' @ [CHR 0x27] @ ''t have permission to use break-glass access'')"

text \<open>Everything before the code is sent: the server, the policy, the invoker and the method.\<close>

definition bg_start_checks :: "(int \<Rightarrow> string) \<Rightarrow> int \<Rightarrow> bg_args \<Rightarrow> db \<Rightarrow> (server \<times> policy \<times> user \<times> string) res" where
  "bg_start_checks isoString now x d =
     (if ''access.break_glass'' \<notin> set (ba_permissions x) then Inl bg_no_permission
      else if length (js_trim (ba_reason x)) < 20 then Inl (api_error 400 ''reason must be at least 20 characters'')
      else case find_server d (ba_server x) (ba_org x) of
        None \<Rightarrow> Inl (api_error 404 ''Server not found'')
      | Some s \<Rightarrow>
      case assertServerInScope (ba_scope x) (Some s) of Inl e \<Rightarrow> Inl e | Inr _ \<Rightarrow>
      case assertBreakGlassProdAllowed d (ba_org x) s of Inl e \<Rightarrow> Inl e | Inr _ \<Rightarrow>
      case findBreakGlassPolicy d (ba_org x) (ba_invoker x) (ba_server x) of
        None \<Rightarrow> Inl (coded 403 ''No break-glass policy authorizes emergency access to this server for you.'' ''BREAK_GLASS_NOT_AUTHORIZED'')
      | Some p \<Rightarrow>
      case assertNoActiveBreakGlass isoString now d (ba_org x) (ba_server x) of Inl e \<Rightarrow> Inl e | Inr _ \<Rightarrow>
      case find_user d (ba_invoker x) (ba_org x) of
        None \<Rightarrow> Inl (api_error 404 ''Invoker not found'')
      | Some u \<Rightarrow>
      case bg_method (ba_method x) u of Inl e \<Rightarrow> Inl e | Inr m \<Rightarrow> Inr (s, p, u, m))"

definition opt_json :: "string option \<Rightarrow> json" where
  "opt_json x = (case x of None \<Rightarrow> JNull | Some s \<Rightarrow> JStr s)"

definition bg_challenge :: "int \<Rightarrow> bg_args \<Rightarrow> server \<Rightarrow> policy \<Rightarrow> string \<Rightarrow> challenge" where
  "bg_challenge now x s p m =
     \<lparr>ch_user = ba_invoker x, ch_org = ba_org x, ch_server = ba_server x, ch_hostname = srv_hostname s, ch_env = srv_env s,
      ch_reason = js_trim (ba_reason x),
      ch_ttl = bg_ttl (if ba_duration x = 0 then pol_maxDuration p else ba_duration x) (pol_maxDuration p),
      ch_method = m, ch_policy = pol_id p, ch_policyName = pol_name p, ch_max = pol_maxDuration p,
      ch_ip = ba_ip x, ch_agent = ba_agent x, ch_createdAt = now\<rparr>"

definition startBreakGlass ::
    "(int \<Rightarrow> string) \<Rightarrow> mfa_env \<Rightarrow> otp_send \<Rightarrow> id \<Rightarrow> bg_args \<Rightarrow> bg_state \<Rightarrow> bg_started res \<times> bg_state" where
  "startBreakGlass isoString e snd_otp cid x st =
     (let now = os_now snd_otp; d = bs_db st in
      case bg_start_checks isoString now x d of Inl er \<Rightarrow> (Inl er, st) | Inr (s, p, u, m) \<Rightarrow>
      case (if m = ''email'' then sendEmailOtp e snd_otp u (Some cid) (bs_redis st) d else ((Inr True, d), bs_redis st)) of
        ((Inl er, d1), rs1) \<Rightarrow> (Inl er, \<lparr>bs_db = d1, bs_redis = rs1\<rparr>)
      | ((Inr _, d1), rs1) \<Rightarrow>
          let c = bg_challenge now x s p m;
              a = request_audit (ba_org x) (Some (ba_invoker x)) ''access_request.break_glass.started'' None
                    [(''serverId'', JStr (ba_server x)), (''serverHostname'', JStr (srv_hostname s)),
                     (''environment'', JStr (env_name (srv_env s))), (''reason'', JStr (ch_reason c)), (''policyId'', JStr (pol_id p)),
                     (''policyName'', JStr (pol_name p)), (''method'', JStr m), (''durationSeconds'', JNum (ch_ttl c)),
                     (''ip'', opt_json (ba_ip x)), (''userAgent'', opt_json (ba_agent x)), (''severity'', JStr ''HIGH'')]
          in (Inr \<lparr>bt_challenge = cid, bt_method = m,
                   bt_emailHint = (if m = ''email'' then Some (maskEmail (usr_email u)) else None),
                   bt_expiresIn = BREAK_GLASS_CHALLENGE_TTL_SEC\<rparr>,
              \<lparr>bs_db = add_audit a d1,
               bs_redis = redis_set now (challenge_key cid) c BREAK_GLASS_CHALLENGE_TTL_SEC rs1\<rparr>))"

section \<open>Verify\<close>

record bv_args =
  bv_org :: id
  bv_invoker :: id
  bv_permissions :: "string list"
  bv_challenge :: id
  bv_code :: string
  bv_ip :: "string option"
  bv_agent :: "string option"

definition bg_expired :: err where
  "bg_expired = coded 401 (''This break-glass verification has expired '' @ [CHR 0xE2, CHR 0x80, CHR 0x94] @ '' start again.'')
     ''BREAK_GLASS_CHALLENGE_EXPIRED''"

definition bg_too_many :: err where
  "bg_too_many = coded 429 (''Too many attempts '' @ [CHR 0xE2, CHR 0x80, CHR 0x94] @ '' start again.'') ''BREAK_GLASS_TOO_MANY_ATTEMPTS''"

definition bg_invalid_code :: err where
  "bg_invalid_code = coded 401 ''Invalid verification code'' ''BREAK_GLASS_INVALID_CODE''"

definition bg_not_valid :: err where
  "bg_not_valid = coded 403 (''Break-glass authorization for this server is no longer valid '' @ [CHR 0xE2, CHR 0x80, CHR 0x94] @
     '' start again.'') ''BREAK_GLASS_NOT_AUTHORIZED''"

definition bg_failed :: "bv_args \<Rightarrow> challenge \<Rightarrow> server \<Rightarrow> string \<Rightarrow> (string \<times> json) list \<Rightarrow> db \<Rightarrow> db" where
  "bg_failed x c s reason extra d =
     add_audit (request_audit (bv_org x) (Some (bv_invoker x)) ''access_request.break_glass.verify_failed'' None
       ([(''serverId'', JStr (ch_server c)), (''serverHostname'', JStr (srv_hostname s)), (''environment'', JStr (env_name (srv_env s))),
         (''method'', JStr (ch_method c)), (''failureReason'', JStr reason)] @ extra @
        [(''ip'', opt_json (bv_ip x)), (''userAgent'', opt_json (bv_agent x)), (''severity'', JStr ''HIGH'')])) d"

definition active_invoker :: "db \<Rightarrow> id \<Rightarrow> id \<Rightarrow> user option" where
  "active_invoker d uid oid = find (\<lambda>u. usr_id u = uid \<and> usr_org u = oid \<and> usr_status u = Active) (users d)"

text \<open>
  Everything before the code is looked at. A refusal may burn the challenge and leave an audit
  entry; \<open>readable\<close> says that the stored challenge can be decrypted.
\<close>

definition bg_refuse :: "id \<Rightarrow> (db \<Rightarrow> db) \<Rightarrow> err \<Rightarrow> bg_state \<Rightarrow> 'a res \<times> bg_state" where
  "bg_refuse cid f er st = (Inl er, \<lparr>bs_db = f (bs_db st), bs_redis = burnBreakGlassChallenge cid (bs_redis st)\<rparr>)"

definition bg_check ::
    "(int \<Rightarrow> string) \<Rightarrow> bool \<Rightarrow> int \<Rightarrow> bv_args \<Rightarrow> bg_state \<Rightarrow> (challenge \<times> user \<times> server \<times> policy) res \<times> bg_state" where
  "bg_check isoString readable now x st =
     (let d = bs_db st; rs = bs_redis st; cid = bv_challenge x in
      if ''access.break_glass'' \<notin> set (bv_permissions x) then (Inl bg_no_permission, st)
      else if cid = [] then (Inl bg_expired, st)
      else if BREAK_GLASS_MAX_ATTEMPTS \<le> (case redis_count now (tries_key cid) rs of None \<Rightarrow> 0 | Some n \<Rightarrow> n)
      then bg_refuse cid id bg_too_many st
      else case redis_get now (challenge_key cid) rs of None \<Rightarrow> (Inl bg_expired, st) | Some c \<Rightarrow>
      if \<not> readable then bg_refuse cid id bg_expired st
      else if ch_user c \<noteq> bv_invoker x \<or> ch_org c \<noteq> bv_org x then (Inl bg_expired, st)
      else case active_invoker d (bv_invoker x) (bv_org x) of None \<Rightarrow> bg_refuse cid id bg_expired st | Some u \<Rightarrow>
      case find_server d (ch_server c) (bv_org x) of
        None \<Rightarrow> bg_refuse cid id (api_error 404 ''Server not found'') st
      | Some s \<Rightarrow>
      case assertBreakGlassProdAllowed d (bv_org x) s of
        Inl er \<Rightarrow> bg_refuse cid (bg_failed x c s ''org_prod_bypass_disabled'' []) er st
      | Inr _ \<Rightarrow>
      case findBreakGlassPolicy d (bv_org x) (bv_invoker x) (ch_server c) of
        None \<Rightarrow> bg_refuse cid (bg_failed x c s ''policy_no_longer_matches'' []) bg_not_valid st
      | Some p \<Rightarrow>
      case assertNoActiveBreakGlass isoString now d (bv_org x) (ch_server c) of
        Inl er \<Rightarrow> bg_refuse cid (bg_failed x c s ''already_active'' []) er st
      | Inr _ \<Rightarrow> (Inr (c, u, s, p), st))"

text \<open>A wrong code is counted; the fifth burns the challenge.\<close>

definition bg_wrong_code :: "int \<Rightarrow> bv_args \<Rightarrow> challenge \<Rightarrow> server \<Rightarrow> bg_state \<Rightarrow> request res \<times> bg_state" where
  "bg_wrong_code now x c s st =
     (let cid = bv_challenge x in
      case incr_window now (tries_key cid) BREAK_GLASS_CHALLENGE_TTL_SEC (bs_redis st) of (n, rs1) \<Rightarrow>
        let burned = BREAK_GLASS_MAX_ATTEMPTS \<le> n;
            d1 = bg_failed x c s ''invalid_code''
                   [(''attemptsRemaining'', JNum (int (BREAK_GLASS_MAX_ATTEMPTS - n))), (''burned'', JBool burned)] (bs_db st)
        in if burned then (Inl bg_too_many, \<lparr>bs_db = d1, bs_redis = burnBreakGlassChallenge cid rs1\<rparr>)
           else (Inl bg_invalid_code, \<lparr>bs_db = d1, bs_redis = rs1\<rparr>))"

definition bg_request :: "outside \<Rightarrow> bv_args \<Rightarrow> challenge \<Rightarrow> server \<Rightarrow> policy \<Rightarrow> request" where
  "bg_request io x c s p =
     (let ttl = bg_ttl (ch_ttl c) (pol_maxDuration p) in
      \<lparr>req_id = ou_newId io, req_org = bv_org x, req_requester = bv_invoker x, req_reviewer = Some (bv_invoker x),
       req_server = ch_server c, req_status = APPROVED, req_reason = ch_reason c, req_principal = legacy_user s,
       req_duration = ttl, req_protocol = SSH, req_approvedDuration = Some ttl, req_approvedAt = Some (ou_now io),
       req_deniedAt = None, req_deniedReason = None, req_expiresAt = Some (ou_now io + ttl * 1000),
       req_revokedAt = None, req_revokedReason = None, req_certificate = None, req_breakGlass = True,
       req_createdAt = ou_now io, req_approvers = []\<rparr>)"

definition method_label :: "string \<Rightarrow> string" where
  "method_label m = (if m = ''totp'' then ''an authenticator app code'' else ''an emailed one-time code'')"

definition bg_announcement :: "(int \<Rightarrow> string) \<Rightarrow> outside \<Rightarrow> bv_args \<Rightarrow> challenge \<Rightarrow> user \<Rightarrow> server \<Rightarrow> request \<Rightarrow> user list \<Rightarrow> announcement" where
  "bg_announcement isoString io x c u s r admins =
     (let until = isoString (the (req_expiresAt r)) in
      \<lparr>an_org = bv_org x, an_event = ''break_glass.invoked'', an_recipients = map usr_id admins,
       an_title = ''[Break-glass] access invoked on '' @ server_label s,
       an_body = usr_name u @ '' invoked break-glass access to '' @ server_label s @ '' ('' @ env_name (srv_env s) @
         ''), verified with '' @ method_label (ch_method c) @ ''. Reason: '' @ js_slice 160 (ch_reason c),
       an_meta = JObj [(''accessRequestId'', JStr (req_id r)), (''invokerId'', JStr (bv_invoker x)), (''serverId'', JStr (ch_server c)),
         (''expiresAt'', JStr until), (''method'', JStr (ch_method c))],
       an_chat = Some \<lparr>ci_title = None, ci_summary = None,
         ci_fields = [(''Who'', usr_name u), (''Server'', server_label s), (''Environment'', env_name (srv_env s)),
           (''Verified with'', method_label (ch_method c)), (''Expires'', until), (''Reason'', ch_reason c)],
         ci_url = Some (request_url io (req_id r)),
         ci_context = [(''environment'', env_name (srv_env s)), (''customerId'', srv_customer s)]\<rparr>\<rparr>)"

text \<open>The challenge goes first, then the request and its audit entry; the administrators are told last.\<close>

definition bg_grant ::
    "(int \<Rightarrow> string) \<Rightarrow> outside \<Rightarrow> bv_args \<Rightarrow> challenge \<Rightarrow> user \<Rightarrow> server \<Rightarrow> policy \<Rightarrow> bg_state \<Rightarrow> request res \<times> bg_state" where
  "bg_grant isoString io x c u s p st =
     (let rs1 = burnBreakGlassChallenge (bv_challenge x) (bs_redis st);
          r = bg_request io x c s p;
          d1 = add_audit (request_audit (bv_org x) (Some (bv_invoker x)) ''access_request.break_glass.granted'' (Some (req_id r))
                 [(''serverId'', JStr (ch_server c)), (''serverHostname'', JStr (srv_hostname s)),
                  (''environment'', JStr (env_name (srv_env s))), (''reason'', JStr (ch_reason c)),
                  (''durationSeconds'', JNum (req_duration r)), (''expiresAt'', JStr (isoString (the (req_expiresAt r)))),
                  (''policyId'', JStr (pol_id p)), (''policyName'', JStr (pol_name p)), (''method'', JStr (ch_method c)),
                  (''ip'', opt_json (bv_ip x)), (''userAgent'', opt_json (bv_agent x)), (''severity'', JStr ''HIGH'')])
                 (add_request r (bs_db st));
          admins = usersWithPermission d1 (bv_org x) ''access_requests.revoke_any'' None
      in (Inr r, \<lparr>bs_db = snd (notifyEvent (ou_notifyFault io) (bg_announcement isoString io x c u s r admins) d1), bs_redis = rs1\<rparr>))"

definition verifyBreakGlass ::
    "(int \<Rightarrow> string) \<Rightarrow> mfa_env \<Rightarrow> bool \<Rightarrow> outside \<Rightarrow> bv_args \<Rightarrow> bg_state \<Rightarrow> request res \<times> bg_state" where
  "verifyBreakGlass isoString e readable io x st =
     (case bg_check isoString readable (ou_now io) x st of
        (Inl er, st1) \<Rightarrow> (Inl er, st1)
      | (Inr (c, u, s, p), st1) \<Rightarrow>
          (case verifyFactor e (ou_now io) u (ch_method c) (bv_code x) (bs_db st1) of
             (False, d1) \<Rightarrow> bg_wrong_code (ou_now io) x c s (st1\<lparr>bs_db := d1\<rparr>)
           | (True, d1) \<Rightarrow> bg_grant isoString io x c u s p (st1\<lparr>bs_db := d1\<rparr>)))"

text \<open>The old endpoint.\<close>

definition createBreakGlass :: "request res" where
  "createBreakGlass = Inl (coded 410 (''This endpoint has been retired. Use POST /api/access-requests/break-glass/start followed by '' @
     ''POST /api/access-requests/break-glass/verify '' @ [CHR 0xE2, CHR 0x80, CHR 0x94] @ '' break-glass now requires step-up verification.'')
     ''BREAK_GLASS_ENDPOINT_RETIRED'')"

end
