(* ===== verification/BreakGlassClaims.thy ===== *)
theory BreakGlassClaims
  imports BreakGlass AccessProps Sample
begin

text \<open>
  The properties of break-glass: what a grant requires and leaves, and how many codes can be
  tried against one challenge.
\<close>

section \<open>Lemmas\<close>

lemma bg_refuse_Inl [simp]: "bg_refuse cid f er st \<noteq> (Inr y, st')"
  by (simp add: bg_refuse_def)

lemma assertNoActive_ok:
  "assertNoActiveBreakGlass isoString now d oid sid = Inr y \<longleftrightarrow> (\<forall>r \<in> set (requests d). \<not> active_break_glass now oid sid r)"
  by (auto simp: assertNoActiveBreakGlass_def find_None_iff_all split: option.split dest: find_SomeD)

lemma assertProd_ok:
  "assertBreakGlassProdAllowed d oid s = Inr y \<longleftrightarrow> (srv_env s = EnvProd \<longrightarrow> isProdBypassEnabled d oid)"
  by (simp add: assertBreakGlassProdAllowed_def)

lemma bg_check_ok:
  assumes "bg_check isoString rd now x st = (Inr (c, u, s, p), st')"
  shows "st' = st \<and> rd \<and> ''access.break_glass'' \<in> set (bv_permissions x) \<and> bv_challenge x \<noteq> []
    \<and> redis_get now (challenge_key (bv_challenge x)) (bs_redis st) = Some c
    \<and> (case redis_count now (tries_key (bv_challenge x)) (bs_redis st) of None \<Rightarrow> 0 | Some n \<Rightarrow> n) < BREAK_GLASS_MAX_ATTEMPTS
    \<and> ch_user c = bv_invoker x \<and> ch_org c = bv_org x
    \<and> active_invoker (bs_db st) (bv_invoker x) (bv_org x) = Some u
    \<and> find_server (bs_db st) (ch_server c) (bv_org x) = Some s
    \<and> (srv_env s = EnvProd \<longrightarrow> isProdBypassEnabled (bs_db st) (bv_org x))
    \<and> findBreakGlassPolicy (bs_db st) (bv_org x) (bv_invoker x) (ch_server c) = Some p
    \<and> (\<forall>r \<in> set (requests (bs_db st)). \<not> active_break_glass now (bv_org x) (ch_server c) r)"
  using assms
  by (auto simp: bg_check_def Let_def not_le split: if_splits option.splits sum.splits simp: assertNoActive_ok assertProd_ok)

text \<open>A check that refuses leaves the state of Redis alone, or burns the challenge.\<close>

lemma bg_check_refused:
  assumes "bg_check isoString rd now x st = (Inl er, st')"
  shows "bs_redis st' = bs_redis st \<or> bs_redis st' = burnBreakGlassChallenge (bv_challenge x) (bs_redis st)"
    and "requests (bs_db st') = requests (bs_db st)"
  using assms
  by (auto simp: bg_check_def Let_def bg_refuse_def bg_failed_def split: if_splits option.splits sum.splits)

lemma bg_request_fields [simp]:
  "req_status (bg_request io x c s p) = APPROVED" "req_breakGlass (bg_request io x c s p)"
  "req_requester (bg_request io x c s p) = bv_invoker x" "req_server (bg_request io x c s p) = ch_server c"
  "req_approvedDuration (bg_request io x c s p) = Some (bg_ttl (ch_ttl c) (pol_maxDuration p))"
  "req_expiresAt (bg_request io x c s p) = Some (ou_now io + bg_ttl (ch_ttl c) (pol_maxDuration p) * 1000)"
  "req_principal (bg_request io x c s p) = legacy_user s"
  by (simp_all add: bg_request_def Let_def)

lemma bg_ttl_bounds: "300 \<le> bg_ttl t m \<and> bg_ttl t m \<le> max 300 m"
  by (simp add: bg_ttl_def)

lemma bg_wrong_code_Inl: "bg_wrong_code now x c s st \<noteq> (Inr r, st')"
  by (auto simp: bg_wrong_code_def Let_def split: prod.splits if_splits)

lemma key_neq [simp]: "challenge_key a \<noteq> tries_key b" "tries_key b \<noteq> challenge_key a"
  by (simp_all add: challenge_key_def tries_key_def)

lemma burn_get [simp]: "redis_get t (challenge_key cid) (burnBreakGlassChallenge cid rs) = None"
  by (simp add: burnBreakGlassChallenge_def)

section \<open>A grant\<close>

text \<open>C20: Break-glass access is granted only to somebody who may use it, on a live challenge started by
  the same user of the same organization with fewer than five wrong codes so far, with the second
  factor verified, while a break-glass policy for that server still matches, no other break-glass
  access to it is running and production is open to break-glass. The access lasts between five
  minutes and the policy's limit, or five minutes where that limit is shorter, and the challenge is
  used up: no later call with it succeeds.\<close>

theorem break_glass_grant:
  assumes "verifyBreakGlass isoString e rd io x st = (Inr r, st')"
  shows "''access.break_glass'' \<in> set (bv_permissions x)
    \<and> (\<exists>c u s p. redis_get (ou_now io) (challenge_key (bv_challenge x)) (bs_redis st) = Some c
         \<and> ch_user c = bv_invoker x \<and> ch_org c = bv_org x
         \<and> (case redis_count (ou_now io) (tries_key (bv_challenge x)) (bs_redis st) of None \<Rightarrow> 0 | Some n \<Rightarrow> n) < 5
         \<and> u \<in> set (users (bs_db st)) \<and> usr_id u = bv_invoker x \<and> usr_status u = Active
         \<and> fst (verifyFactor e (ou_now io) u (ch_method c) (bv_code x) (bs_db st))
         \<and> find_server (bs_db st) (ch_server c) (bv_org x) = Some s
         \<and> (srv_env s = EnvProd \<longrightarrow> isProdBypassEnabled (bs_db st) (bv_org x))
         \<and> findBreakGlassPolicy (bs_db st) (bv_org x) (bv_invoker x) (ch_server c) = Some p
         \<and> (\<forall>q \<in> set (requests (bs_db st)). \<not> active_break_glass (ou_now io) (bv_org x) (ch_server c) q)
         \<and> r = bg_request io x c s p \<and> requests (bs_db st') = requests (bs_db st) @ [r]
         \<and> (\<exists>ttl. req_expiresAt r = Some (ou_now io + ttl * 1000) \<and> 300 \<le> ttl \<and> ttl \<le> max 300 (pol_maxDuration p)))
    \<and> (\<forall>io2 x2 d2. bv_challenge x2 = bv_challenge x \<longrightarrow>
         \<not> is_ok (fst (verifyBreakGlass isoString e rd io2 x2 (st'\<lparr>bs_db := d2\<rparr>))))"
proof -
  obtain y st1 where y: "bg_check isoString rd (ou_now io) x st = (y, st1)" by force
  with assms obtain c u s p where ck: "bg_check isoString rd (ou_now io) x st = (Inr (c, u, s, p), st1)"
    by (cases y) (auto simp: verifyBreakGlass_def)
  note C = bg_check_ok [OF ck]
  obtain ok d1 where v: "verifyFactor e (ou_now io) u (ch_method c) (bv_code x) (bs_db st) = (ok, d1)" by force
  from assms ck C v have ok: "ok" "bg_grant isoString io x c u s p (st\<lparr>bs_db := d1\<rparr>) = (Inr r, st')"
    by (auto simp: verifyBreakGlass_def bg_wrong_code_Inl split: bool.splits)
  have rq: "requests d1 = requests (bs_db st)" using verifyFactor_frames(1) v by (metis snd_conv)
  have r: "r = bg_request io x c s p" "requests (bs_db st') = requests (bs_db st) @ [r]"
    "bs_redis st' = burnBreakGlassChallenge (bv_challenge x) (bs_redis st)"
    using ok(2) rq by (auto simp: bg_grant_def Let_def)
  have u: "u \<in> set (users (bs_db st)) \<and> usr_id u = bv_invoker x \<and> usr_status u = Active"
    using C by (auto simp: active_invoker_def dest: find_SomeD)
  have ex: "\<exists>ttl. req_expiresAt r = Some (ou_now io + ttl * 1000) \<and> 300 \<le> ttl \<and> ttl \<le> max 300 (pol_maxDuration p)"
    using bg_ttl_bounds by (auto simp: r(1))
  have "\<not> is_ok (fst (verifyBreakGlass isoString e rd io2 x2 (st'\<lparr>bs_db := d2\<rparr>)))" if "bv_challenge x2 = bv_challenge x" for io2 x2 d2
  proof -
    have "bg_check isoString rd (ou_now io2) x2 (st'\<lparr>bs_db := d2\<rparr>) \<noteq> (Inr z, st2)" for z st2
      using bg_check_ok [of isoString rd "ou_now io2" x2 "st'\<lparr>bs_db := d2\<rparr>"] that r(3) by (cases z) auto
    then show ?thesis by (auto simp: verifyBreakGlass_def split: prod.split sum.split)
  qed
  then show ?thesis
    using C u v ok(1) r ex
    by (intro conjI exI [of _ c] exI [of _ u] exI [of _ s] exI [of _ p]) (auto simp: BREAK_GLASS_MAX_ATTEMPTS_def)
qed

definition bg_env :: mfa_env where
  "bg_env = \<lparr>me_totp = (\<lambda>c s. c = ''123456''), me_sha = (\<lambda>s. s), me_seal = (\<lambda>s. s), me_unseal = Inr\<rparr>"

definition bg_iso :: "int \<Rightarrow> string" where "bg_iso t = ''t''"

definition bg_send :: otp_send where
  "bg_send = \<lparr>os_number = 7, os_tokenId = ''tk'', os_now = 0, os_delivered = True\<rparr>"

definition bg_outside :: "int \<Rightarrow> outside" where
  "bg_outside t = \<lparr>ou_newId = ''bg'', ou_now = t, ou_notifyFault = (\<lambda>_. False), ou_token = (\<lambda>_. None), ou_frontend = []\<rparr>"

definition bg_ask :: bg_args where
  "bg_ask = \<lparr>ba_org = ''o'', ba_invoker = ''mem'', ba_permissions = [''access.break_glass''], ba_server = ''sprd'',
     ba_reason = ''database down, restore'', ba_duration = 600, ba_method = [], ba_scope = ScopeAll, ba_ip = None, ba_agent = None\<rparr>"

definition bg_reply :: "string \<Rightarrow> bv_args" where
  "bg_reply code = \<lparr>bv_org = ''o'', bv_invoker = ''mem'', bv_permissions = [''access.break_glass''], bv_challenge = ''ch'',
     bv_code = code, bv_ip = None, bv_agent = None\<rparr>"

definition bg_state0 :: bg_state where
  "bg_state0 = \<lparr>bs_db = sample_db, bs_redis = \<lparr>rd_num = [], rd_obj = []\<rparr>\<rparr>"

definition bg_sample_challenge :: challenge where
  "bg_sample_challenge = bg_challenge 0 bg_ask s_prod p_brk ''totp''"

definition bg_state1 :: bg_state where
  "bg_state1 = bg_state0\<lparr>bs_redis := redis_set 0 (challenge_key ''ch'') bg_sample_challenge 300 (bs_redis bg_state0)\<rparr>"

lemma break_glass_grant_witness:
  "\<exists>r st'. verifyBreakGlass bg_iso bg_env True (bg_outside 1000) (bg_reply ''123456'') bg_state1 = (Inr r, st')
     \<and> req_expiresAt r = Some 601000
     \<and> \<not> is_ok (fst (verifyBreakGlass bg_iso bg_env True (bg_outside 2000) (bg_reply ''123456'') st'))"
proof -
  let ?v = "verifyBreakGlass bg_iso bg_env True (bg_outside 1000) (bg_reply ''123456'') bg_state1"
  have "is_ok (fst ?v)" "map req_expiresAt (requests (bs_db (snd ?v))) = [Some 601000]" "requests (bs_db bg_state1) = []" by code_simp+
  moreover then obtain r st' where v: "?v = (Inr r, st')" by (metis is_ok_iff prod.collapse)
  moreover have k: "bv_challenge (bg_reply ''123456'') = bv_challenge (bg_reply ''123456'')" by (rule refl)
  have "\<not> is_ok (fst (verifyBreakGlass bg_iso bg_env True (bg_outside 2000) (bg_reply ''123456'') (st'\<lparr>bs_db := bs_db st'\<rparr>)))"
    "requests (bs_db st') = requests (bs_db bg_state1) @ [r]"
    using break_glass_grant [OF v] k by blast+
  ultimately show ?thesis by auto
qed

section \<open>How many codes\<close>

text \<open>
  The codes that are really compared with the second factor, over a series of calls for one
  challenge; the database may be any at each call.
\<close>

fun codes_tested :: "(int \<Rightarrow> string) \<Rightarrow> mfa_env \<Rightarrow> (bool \<times> outside \<times> bv_args \<times> db) list \<Rightarrow> challenge redis \<Rightarrow> nat" where
  "codes_tested isoString e [] rs = 0"
| "codes_tested isoString e ((rd, io, x, d) # xs) rs =
     (let st = \<lparr>bs_db = d, bs_redis = rs\<rparr>
      in (if is_ok (fst (bg_check isoString rd (ou_now io) x st)) then 1 else 0) +
         codes_tested isoString e xs (bs_redis (snd (verifyBreakGlass isoString e rd io x st))))"

text \<open>
  The challenge is gone, or \<open>n\<close> wrong codes are counted and the counter outlives the challenge.
\<close>

definition tries_ok :: "id \<Rightarrow> int \<Rightarrow> nat \<Rightarrow> 'v redis \<Rightarrow> bool" where
  "tries_ok cid dl n rs \<longleftrightarrow>
     map_of (rd_obj rs) (challenge_key cid) = None \<or>
     ((\<exists>c. map_of (rd_obj rs) (challenge_key cid) = Some (c, Some dl)) \<and> n < 5 \<and>
      (if n = 0 then map_of (rd_num rs) (tries_key cid) = None
       else \<exists>t. map_of (rd_num rs) (tries_key cid) = Some (n, Some t) \<and> dl \<le> t))"

lemma burned_gone [simp]: "map_of (rd_obj (burnBreakGlassChallenge cid rs)) (challenge_key cid) = None"
  unfolding map_of_eq_None_iff by (auto simp: burnBreakGlassChallenge_def redis_del_def drop_entry_def)

lemma burned_tries_ok: "tries_ok cid dl n (burnBreakGlassChallenge cid rs)"
  by (simp add: tries_ok_def)

lemma gone_not_tested:
  "map_of (rd_obj rs) (challenge_key (bv_challenge x)) = None \<Longrightarrow>
     \<not> is_ok (fst (bg_check isoString rd now x \<lparr>bs_db = d, bs_redis = rs\<rparr>))"
  using bg_check_ok [of isoString rd now x "\<lparr>bs_db = d, bs_redis = rs\<rparr>"]
  by (auto simp: is_ok_iff redis_get_def live_entry_def) (metis option.distinct(1) prod.collapse)

lemma wrong_code_tries_ok:
  assumes "tries_ok cid (t0 + 300000) n rs" and "redis_get now (challenge_key cid) rs = Some c" and "t0 \<le> now"
    and "bv_challenge x = cid"
  shows "n < 5 \<and> tries_ok cid (t0 + 300000) (n + 1) (bs_redis (snd (bg_wrong_code now x c' s \<lparr>bs_db = d, bs_redis = rs\<rparr>)))"
proof -
  from assms(2) have m: "map_of (rd_obj rs) (challenge_key cid) \<noteq> None" by (auto simp: redis_get_def live_entry_def split: option.splits)
  with assms(1) obtain c0 where c0: "map_of (rd_obj rs) (challenge_key cid) = Some (c0, Some (t0 + 300000))" "n < 5"
    and T: "if n = 0 then map_of (rd_num rs) (tries_key cid) = None
       else \<exists>t. map_of (rd_num rs) (tries_key cid) = Some (n, Some t) \<and> t0 + 300000 \<le> t"
    by (auto simp: tries_ok_def)
  have now: "now < t0 + 300000" using assms(2) c0 by (auto simp: redis_get_def live_entry_def alive_def split: if_splits)
  let ?i = "incr_window now (tries_key cid) 300 rs"
  have I: "fst ?i = n + 1" "rd_obj (snd ?i) = rd_obj rs"
    "\<exists>t. map_of (rd_num (snd ?i)) (tries_key cid) = Some (n + 1, Some t) \<and> t0 + 300000 \<le> t"
    using T now assms(3)
    by (auto simp: incr_window_def redis_incr_def redis_expire_def live_entry_def alive_def put_entry_def split: if_splits)
  obtain k rs1 where i: "?i = (k, rs1)" by force
  have "tries_ok cid (t0 + 300000) (n + 1) (bs_redis (snd (bg_wrong_code now x c' s \<lparr>bs_db = d, bs_redis = rs\<rparr>)))"
  proof (cases "5 \<le> k")
    case True
    then show ?thesis
      using i assms(4) by (simp add: bg_wrong_code_def Let_def BREAK_GLASS_MAX_ATTEMPTS_def BREAK_GLASS_CHALLENGE_TTL_SEC_def burned_tries_ok)
  next
    case False
    then show ?thesis
      using i I c0 assms(4) by (simp add: bg_wrong_code_def Let_def BREAK_GLASS_MAX_ATTEMPTS_def BREAK_GLASS_CHALLENGE_TTL_SEC_def tries_ok_def)
  qed
  with c0 show ?thesis by blast
qed

lemma codes_tested_bound:
  assumes "tries_ok cid (t0 + 300000) n rs" and "\<forall>(rd, io, x, d) \<in> set xs. bv_challenge x = cid \<and> t0 \<le> ou_now io"
  shows "codes_tested isoString e xs rs \<le> (if map_of (rd_obj rs) (challenge_key cid) = None then 0 else 5 - n)"
  using assms
proof (induction xs arbitrary: n rs)
  case (Cons a xs)
  obtain rd io x d where a: "a = (rd, io, x, d)" by (cases a)
  let ?st = "\<lparr>bs_db = d, bs_redis = rs\<rparr>"
  let ?v = "verifyBreakGlass isoString e rd io x ?st"
  have x: "bv_challenge x = cid" "t0 \<le> ou_now io"
    and rest: "\<forall>(rd, io, x, d) \<in> set xs. bv_challenge x = cid \<and> t0 \<le> ou_now io" using Cons.prems(2) by (auto simp: a)
  note IH = Cons.IH [OF _ rest]
  obtain y st1 where y: "bg_check isoString rd (ou_now io) x ?st = (y, st1)" by force
  have burned: "codes_tested isoString e xs (burnBreakGlassChallenge cid rs') = 0" for rs'
    using IH [OF burned_tries_ok] by simp
  show ?case
  proof (cases y)
    case (Inl er)
    then have "bs_redis (snd ?v) = rs \<or> bs_redis (snd ?v) = burnBreakGlassChallenge cid rs"
      using bg_check_refused(1) [of isoString rd "ou_now io" x ?st er st1] y x by (simp add: verifyBreakGlass_def)
    then show ?thesis using IH [OF Cons.prems(1)] burned y Inl by (auto simp: a Let_def)
  next
    case (Inr q)
    obtain c u s p where q: "q = (c, u, s, p)" by (cases q)
    have ck: "bg_check isoString rd (ou_now io) x ?st = (Inr (c, u, s, p), st1)" using y Inr q by simp
    note C = bg_check_ok [OF ck]
    have g: "redis_get (ou_now io) (challenge_key cid) rs = Some c" using C x by simp
    then have there: "map_of (rd_obj rs) (challenge_key cid) \<noteq> None" by (auto simp: redis_get_def live_entry_def split: option.splits)
    obtain ok d1 where v: "verifyFactor e (ou_now io) u (ch_method c) (bv_code x) d = (ok, d1)" by force
    note W = wrong_code_tries_ok [OF Cons.prems(1) g x(2,1), of c s d1]
    have "codes_tested isoString e xs (bs_redis (snd ?v)) \<le> 4 - n"
    proof (cases ok)
      case True
      then have "bs_redis (snd ?v) = burnBreakGlassChallenge cid rs"
        using ck C v x by (simp add: verifyBreakGlass_def bg_grant_def Let_def)
      then show ?thesis by (simp add: burned)
    next
      case False
      then have "bs_redis (snd ?v) = bs_redis (snd (bg_wrong_code (ou_now io) x c s \<lparr>bs_db = d1, bs_redis = rs\<rparr>))"
        using ck C v by (simp add: verifyBreakGlass_def)
      then show ?thesis using IH [OF conjunct2 [OF W]] by (simp split: if_splits)
    qed
    then show ?thesis using conjunct1 [OF W] there ck by (simp add: a Let_def)
  qed
qed simp

lemma sendEmailOtp_redis:
  "rd_obj (snd (sendEmailOtp e s u (Some cid) rs d)) = rd_obj rs"
  "map_of (rd_num rs) (tries_key c) = None \<Longrightarrow> map_of (rd_num (snd (sendEmailOtp e s u (Some cid) rs d))) (tries_key c) = None"
proof -
  have k: "tries_key c \<noteq> ''mfa:otp:send:'' @ cid" by (simp add: tries_key_def)
  have "snd (sendEmailOtp e s u (Some cid) rs d) \<in> {rs, snd (incr_window (os_now s) (''mfa:otp:send:'' @ cid) CHALLENGE_TTL_SEC rs)}"
    by (auto simp: sendEmailOtp_def split: prod.splits sum.splits)
  moreover have "map_of (rd_num (snd (incr_window t (''mfa:otp:send:'' @ cid) l rs))) (tries_key c) = map_of (rd_num rs) (tries_key c)" for t l
    using k by (auto simp: incr_window_def redis_incr_def redis_expire_def put_entry_def map_of_filter_key split: option.split)
  ultimately show "rd_obj (snd (sendEmailOtp e s u (Some cid) rs d)) = rd_obj rs"
    "map_of (rd_num rs) (tries_key c) = None \<Longrightarrow> map_of (rd_num (snd (sendEmailOtp e s u (Some cid) rs d))) (tries_key c) = None"
    by auto
qed

text \<open>C35: At most five codes are ever compared with the second factor for one challenge, whatever the
  calls are, whoever makes them and whatever happens to the database between them: the counter of
  wrong codes lives at least as long as the challenge, the fifth wrong code burns the challenge,
  and so does the right one. The calls run one after the other.\<close>

theorem break_glass_attempts_bounded:
  assumes "startBreakGlass isoString e so cid b st = (Inr s, st1)"
    and "map_of (rd_num (bs_redis st)) (tries_key cid) = None"
    and "\<forall>(rd, io, x, d) \<in> set xs. bv_challenge x = cid \<and> os_now so \<le> ou_now io"
  shows "codes_tested isoString e xs (bs_redis st1) \<le> 5"
proof -
  from assms(1) obtain sv p u m where ck: "bg_start_checks isoString (os_now so) b (bs_db st) = Inr (sv, p, u, m)"
    by (auto simp: startBreakGlass_def Let_def split: sum.splits)
  obtain z d1 rs1 where z: "(if m = ''email'' then sendEmailOtp e so u (Some cid) (bs_redis st) (bs_db st)
      else ((Inr True, bs_db st), bs_redis st)) = ((z, d1), rs1)" by (metis prod.collapse)
  then have n: "map_of (rd_num rs1) (tries_key cid) = None"
    using sendEmailOtp_redis(2) [OF assms(2), of e so u cid "bs_db st"] assms(2) by (auto split: if_splits)
  have "bs_redis st1 = redis_set (os_now so) (challenge_key cid) (bg_challenge (os_now so) b sv p m) BREAK_GLASS_CHALLENGE_TTL_SEC rs1"
    using assms(1) ck z by (auto simp: startBreakGlass_def Let_def split: sum.splits)
  then have "tries_ok cid (os_now so + 300000) 0 (bs_redis st1)"
    using n by (auto simp: tries_ok_def redis_set_def put_entry_def BREAK_GLASS_CHALLENGE_TTL_SEC_def)
  from codes_tested_bound [OF this assms(3), of isoString e] show ?thesis by (auto split: if_splits)
qed

lemma break_glass_attempts_bounded_witness:
  "\<exists>s st1. startBreakGlass bg_iso bg_env bg_send ''ch'' bg_ask bg_state0 = (Inr s, st1)
     \<and> codes_tested bg_iso bg_env (replicate 7 (True, bg_outside 1000, bg_reply ''000000'', sample_db)) (bs_redis st1) \<le> 5"
proof -
  have "is_ok (fst (startBreakGlass bg_iso bg_env bg_send ''ch'' bg_ask bg_state0))" by code_simp
  then obtain s st1 where s: "startBreakGlass bg_iso bg_env bg_send ''ch'' bg_ask bg_state0 = (Inr s, st1)"
    by (metis is_ok_iff prod.collapse)
  have n: "map_of (rd_num (bs_redis bg_state0)) (tries_key ''ch'') = None" by (simp add: bg_state0_def)
  have "\<forall>(rd, io, x, d) \<in> set (replicate 7 (True, bg_outside 1000, bg_reply ''000000'', sample_db)).
      bv_challenge x = ''ch'' \<and> os_now bg_send \<le> ou_now io"
    by (simp add: bg_reply_def bg_send_def bg_outside_def)
  from break_glass_attempts_bounded [OF s n this] s show ?thesis by blast
qed

end
