(* ===== verification/AuditTrail.thy ===== *)
theory AuditTrail
  imports Store
begin

text \<open>
  Audit entries written through \<open>auditService.log\<close> (\<open>backend/src/services/auditService.js\<close>) and
  the redaction of their metadata (\<open>backend/src/utils/logger.js\<close>). The address of the client is
  a column of its own and is left out; a failed insert is swallowed by the code.
\<close>

section \<open>Redaction\<close>

definition REDACTED :: string where "REDACTED = ''[REDACTED]''"
definition MAX_DEPTH :: nat where "MAX_DEPTH = 6"

text \<open>\<open>/pass|secret|token|ticket|authoriz|cookie|privatekey|passphrase/i\<close>\<close>

definition SENSITIVE_FIELD :: "string list" where
  "SENSITIVE_FIELD = [''pass'', ''secret'', ''token'', ''ticket'', ''authoriz'', ''cookie'', ''privatekey'', ''passphrase'']"

text \<open>\<open>/^(.*key)?(id|type|fingerprint|algorithm|pair|pairid)$/i\<close>; a dot matches no line break.\<close>

definition KEY_FIELD_SUFFIXES :: "string list" where
  "KEY_FIELD_SUFFIXES = [''id'', ''type'', ''fingerprint'', ''algorithm'', ''pair'', ''pairid'']"

definition key_field_allowed :: "string \<Rightarrow> bool" where
  "key_field_allowed f =
     (let s = lower f in
      \<exists>x \<in> set KEY_FIELD_SUFFIXES. suffix x s \<and>
        (let p = take (length s - length x) s in
         p = [] \<or> suffix ''key'' p \<and> CHR 0x0A \<notin> set p \<and> CHR 0x0D \<notin> set p))"

definition isSensitiveKey :: "string \<Rightarrow> bool" where
  "isSensitiveKey f =
     (if \<exists>x \<in> set SENSITIVE_FIELD. contains_ci x f then True
      else if contains_ci ''key'' f then \<not> contains_ci ''publickey'' f \<and> \<not> key_field_allowed f
      else False)"

fun redactValue :: "nat \<Rightarrow> json \<Rightarrow> json" where
  "redactValue n (JArr xs) = (if n > MAX_DEPTH then JArr xs else JArr (map (redactValue (n + 1)) xs))"
| "redactValue n (JObj kvs) =
     (if n > MAX_DEPTH then JObj kvs
      else JObj (map (\<lambda>p. (fst p, if isSensitiveKey (fst p) then JStr REDACTED else redactValue (n + 1) (snd p))) kvs))"
| "redactValue n v = v"

section \<open>Entries\<close>

text \<open>The user agent, when there is one, becomes a field of the metadata; then all of it is redacted.\<close>

definition merged_meta :: "json option \<Rightarrow> string option \<Rightarrow> json" where
  "merged_meta m ua =
     (if truthy ua then json_put (case m of None \<Rightarrow> JObj [] | Some JNull \<Rightarrow> JObj [] | Some j \<Rightarrow> j) ''userAgent'' (JStr (the ua))
      else case m of None \<Rightarrow> JNull | Some j \<Rightarrow> j)"

definition auditLog :: "id \<Rightarrow> id option \<Rightarrow> string \<Rightarrow> string \<Rightarrow> id option \<Rightarrow> json option \<Rightarrow> string option \<Rightarrow> db \<Rightarrow> db" where
  "auditLog oid actor action rtype rid m ua d =
     add_audit \<lparr>aud_org = oid, aud_actor = actor, aud_action = action, aud_resourceType = rtype, aud_resource = rid,
       aud_meta = redactValue 0 (merged_meta m ua)\<rparr> d"

section \<open>Lemmas\<close>

text \<open>The value at a path of field names and array positions.\<close>

datatype step = Field string | Index nat

fun json_at :: "step list \<Rightarrow> json \<Rightarrow> json option" where
  "json_at [] v = Some v"
| "json_at (Field k # p) (JObj kvs) = (case map_of kvs k of None \<Rightarrow> None | Some v \<Rightarrow> json_at p v)"
| "json_at (Index i # p) (JArr xs) = (if i < length xs then json_at p (xs ! i) else None)"
| "json_at (_ # p) v = None"

definition clean_step :: "step \<Rightarrow> bool" where
  "clean_step s = (case s of Field k \<Rightarrow> \<not> isSensitiveKey k | Index _ \<Rightarrow> True)"

lemma map_of_map_snd: "map_of (map (\<lambda>p. (fst p, f (fst p) (snd p))) kvs) k = map_option (f k) (map_of kvs k)"
  by (induction kvs) auto

text \<open>Below a path of harmless names the value is redacted in turn, as deep as the code looks.\<close>

lemma redact_path:
  "n + length p \<le> Suc MAX_DEPTH \<Longrightarrow> \<forall>s \<in> set p. clean_step s \<Longrightarrow>
     json_at p (redactValue n v) = map_option (redactValue (n + length p)) (json_at p v)"
proof (induction p v arbitrary: n rule: json_at.induct)
  case (2 k p kvs)
  then show ?case
    by (auto simp: map_of_map_snd [where f = "\<lambda>k v. if isSensitiveKey k then JStr REDACTED else redactValue (n + 1) v", simplified]
      clean_step_def split: option.split)
qed auto


lemma audit_frames [simp]:
  "users (auditLog oid a ac rt ri m ua d) = users d" "requests (auditLog oid a ac rt ri m ua d) = requests d"
  "certs (auditLog oid a ac rt ri m ua d) = certs d" "sessions (auditLog oid a ac rt ri m ua d) = sessions d"
  "refreshTokens (auditLog oid a ac rt ri m ua d) = refreshTokens d" "apiTokens (auditLog oid a ac rt ri m ua d) = apiTokens d"
  "deviceRequests (auditLog oid a ac rt ri m ua d) = deviceRequests d" "tokens (auditLog oid a ac rt ri m ua d) = tokens d"
  "roles (auditLog oid a ac rt ri m ua d) = roles d" "orgs (auditLog oid a ac rt ri m ua d) = orgs d"
  "userScopes (auditLog oid a ac rt ri m ua d) = userScopes d" "memberships (auditLog oid a ac rt ri m ua d) = memberships d"
  "groups (auditLog oid a ac rt ri m ua d) = groups d" "groupScopes (auditLog oid a ac rt ri m ua d) = groupScopes d"
  "customers (auditLog oid a ac rt ri m ua d) = customers d" "servers (auditLog oid a ac rt ri m ua d) = servers d"
  "policies (auditLog oid a ac rt ri m ua d) = policies d"
  by (simp_all add: auditLog_def add_audit_def)

end
