(* ===== verification/Auth.thy ===== *)
theory Auth
  imports AuditTrail Mfa Terminal
begin

text \<open>
  Signing in and staying signed in (\<open>backend/src/services/authService.js\<close>), the challenge token
  of the second factor (\<open>mfaService.js\<close>) and the check of an access token on each request
  (\<open>backend/src/middleware/auth.js\<close>). Password hashing, SHA-256 and the signing of tokens are
  parameters; what a token says is a record.
\<close>

section \<open>What is outside\<close>

record access_claims =
  ac_user :: id
  ac_org :: id
  ac_role :: tier
  ac_email :: string
  ac_fid :: id
  ac_typ :: string
  ac_iat :: "int option"

record refresh_claims =
  rc_user :: id
  rc_token :: id
  rc_fid :: id

record mfa_claims =
  mp_typ :: string
  mp_user :: id
  mp_org :: id
  mp_jti :: id

text \<open>
  \<open>ae_verify\<dots>\<close> is \<open>jwt.verify\<close> at the time of the call: signature, expiry and payload. The
  thresholds are \<open>config.auth\<close>.
\<close>

record auth_env =
  ae_mfa :: mfa_env
  ae_sha :: "string \<Rightarrow> string"
  ae_compare :: "string \<Rightarrow> string \<Rightarrow> bool"
  ae_signAccess :: "access_claims \<Rightarrow> string"
  ae_verifyAccess :: "string \<Rightarrow> access_claims option"
  ae_signRefresh :: "refresh_claims \<Rightarrow> string"
  ae_verifyRefresh :: "string \<Rightarrow> refresh_claims option"
  ae_signMfa :: "mfa_claims \<Rightarrow> string"
  ae_verifyMfa :: "string \<Rightarrow> mfa_claims option"
  ae_threshold :: nat
  ae_lockMinutes :: int
  ae_absoluteTtl :: int
  ae_graceMs :: int

text \<open>The caller, the clock and the random values one operation draws.\<close>

record call =
  cl_now :: int
  cl_ip :: "string option"
  cl_agent :: "string option"
  cl_fid :: id
  cl_tokenId :: id
  cl_rowId :: id
  cl_jti :: id

definition REFRESH_TTL_MS :: int where "REFRESH_TTL_MS = 7 * 24 * 60 * 60 * 1000"

definition hashToken :: "auth_env \<Rightarrow> string \<Rightarrow> string" where
  "hashToken e t = ae_sha e t"

definition generateAccessToken :: "auth_env \<Rightarrow> int \<Rightarrow> user \<Rightarrow> id \<Rightarrow> string" where
  "generateAccessToken e now u fid =
     ae_signAccess e \<lparr>ac_user = usr_id u, ac_org = usr_org u, ac_role = usr_role u, ac_email = usr_email u, ac_fid = fid,
       ac_typ = ''access'', ac_iat = Some (math_floor_div now 1000)\<rparr>"

definition generateRefreshToken :: "auth_env \<Rightarrow> id \<Rightarrow> id \<Rightarrow> id \<Rightarrow> string" where
  "generateRefreshToken e uid tid fid = ae_signRefresh e \<lparr>rc_user = uid, rc_token = tid, rc_fid = fid\<rparr>"

definition verifyAccessToken :: "auth_env \<Rightarrow> string \<Rightarrow> access_claims option" where
  "verifyAccessToken e t =
     (case ae_verifyAccess e t of None \<Rightarrow> None | Some c \<Rightarrow> if ac_typ c \<noteq> ''access'' then None else Some c)"

section \<open>Errors and views\<close>

definition invalidCredentials :: err where
  "invalidCredentials = ApiError 401 ''Invalid email or password'' (Some ''INVALID_CREDENTIALS'')"

definition lockedError :: err where
  "lockedError = ApiError 423 ''Account is locked due to too many failed sign-in attempts'' (Some ''ACCOUNT_LOCKED'')"

definition ssoRequiredLoginError :: err where
  "ssoRequiredLoginError = ApiError 401 (''Password sign-in didn'' @ [CHR 0x27] @ (dashed ''t work. Your organization signs in with single sign-on'' ''use your SSO provider. If you'') @
     [CHR 0x27] @ ''re allowed to use a password, check it and try again.'') (Some ''SSO_REQUIRED'')"

text \<open>\<open>split('@')\<close>: what stands before the first sign, and between it and the next.\<close>

definition mask_email :: "string \<Rightarrow> string" where
  "mask_email email =
     (let u = takeWhile (\<lambda>c. c \<noteq> CHR ''@'') email;
          rest = dropWhile (\<lambda>c. c \<noteq> CHR ''@'') email;
          dom = takeWhile (\<lambda>c. c \<noteq> CHR ''@'') (drop 1 rest)
      in if dom = [] then email else js_slice 2 u @ ''***@'' @ dom)"

record user_view =
  uv_id :: id
  uv_email :: string
  uv_name :: string
  uv_role :: tier
  uv_status :: user_status
  uv_org :: id
  uv_roleInfo :: "role option"
  uv_permissions :: "string list"
  uv_personalVault :: bool
  uv_scope :: scope

definition assigned_role :: "db \<Rightarrow> user \<Rightarrow> role option" where
  "assigned_role d u =
     (case usr_roleId u of None \<Rightarrow> None | Some rid \<Rightarrow> find (\<lambda>r. rol_id r = rid \<and> rol_org r = usr_org u) (roles d))"

definition userDto :: "db \<Rightarrow> user \<Rightarrow> user_view" where
  "userDto d u =
     (let r = assigned_role d u in
      \<lparr>uv_id = usr_id u, uv_email = usr_email u, uv_name = usr_name u, uv_role = usr_role u, uv_status = usr_status u,
       uv_org = usr_org u, uv_roleInfo = r, uv_permissions = permissionsForUser u r,
       uv_personalVault = vaultEnabledFromSettings (org_settings_of d (usr_org u)), uv_scope = resolveScope d (Some u)\<rparr>)"

section \<open>Lockout\<close>

definition account_locked :: "int \<Rightarrow> user \<Rightarrow> bool" where
  "account_locked now u = (case usr_lockedUntil u of None \<Rightarrow> False | Some t \<Rightarrow> now < t)"

definition recordFailedLogin :: "auth_env \<Rightarrow> call \<Rightarrow> user \<Rightarrow> db \<Rightarrow> db" where
  "recordFailedLogin e c u d =
     (let n = usr_failedLogins u + 1; locked = ae_threshold e \<le> n;
          d1 = update_user_row (usr_id u) (\<lambda>r. r\<lparr>usr_failedLogins := (if locked then 0 else n), usr_lastFailedLogin := Some (cl_now c),
                 usr_lockedUntil := (if locked then Some (cl_now c + ae_lockMinutes e * 60 * 1000) else usr_lockedUntil r)\<rparr>) d
      in if locked then auditLog (usr_org u) (Some (usr_id u)) ''auth.account_locked'' ''User'' (Some (usr_id u)) None (cl_agent c) d1
         else d1)"

definition resetFailedLogin :: "user \<Rightarrow> db \<Rightarrow> db" where
  "resetFailedLogin u d =
     (if usr_failedLogins u \<noteq> 0 \<or> usr_lockedUntil u \<noteq> None
      then update_user_row (usr_id u) (\<lambda>r. r\<lparr>usr_failedLogins := 0, usr_lockedUntil := None\<rparr>) d else d)"

section \<open>Refresh-token families\<close>

definition revoke_tokens :: "int \<Rightarrow> (refresh_token \<Rightarrow> bool) \<Rightarrow> db \<Rightarrow> db" where
  "revoke_tokens now P d =
     d\<lparr>refreshTokens := update_where (\<lambda>t. P t \<and> rt_revokedAt t = None) (\<lambda>t. t\<lparr>rt_revokedAt := Some now\<rparr>) (refreshTokens d)\<rparr>"

definition revokeFamily :: "int \<Rightarrow> id option \<Rightarrow> db \<Rightarrow> db" where
  "revokeFamily now f d = (if truthy f then revoke_tokens now (\<lambda>t. rt_family t = f) d else d)"

definition revokeAllFamiliesForUser :: "int \<Rightarrow> id \<Rightarrow> db \<Rightarrow> db" where
  "revokeAllFamiliesForUser now uid d = revoke_tokens now (\<lambda>t. rt_user t = uid) d"

definition revokeOtherFamilies :: "int \<Rightarrow> id \<Rightarrow> id option \<Rightarrow> db \<Rightarrow> nat \<times> db" where
  "revokeOtherFamilies now uid keep d =
     (let rows = filter (\<lambda>t. rt_user t = uid \<and> rt_revokedAt t = None) (refreshTokens d);
          fams = uniq (filter (\<lambda>f. truthy f \<and> f \<noteq> keep) (map rt_family rows))
      in (length fams, fold (revokeFamily now) fams d))"

text \<open>Whole seconds, as the issue time of an access token is.\<close>

definition bumpSessionsValidFrom :: "int \<Rightarrow> id \<Rightarrow> db \<Rightarrow> db" where
  "bumpSessionsValidFrom now uid d =
     update_user_row uid (\<lambda>u. u\<lparr>usr_sessionsFrom := Some (math_floor_div now 1000 * 1000)\<rparr>) d"

text \<open>The live terminals end last; what goes wrong there is logged and swallowed.\<close>

definition revokeAllSessions :: "int \<Rightarrow> faults \<Rightarrow> bool \<Rightarrow> id \<Rightarrow> id \<Rightarrow> string \<Rightarrow> world \<Rightarrow> world" where
  "revokeAllSessions now fl lookupFault uid oid reason w =
     (let d1 = bumpSessionsValidFrom now uid (revokeAllFamiliesForUser now uid (w_db w)); w1 = w\<lparr>w_db := d1\<rparr>
      in if oid = [] then w1 else snd (endAllSessionsForUser now fl lookupFault oid uid reason w1))"

definition cleanupOldRevoked :: "int \<Rightarrow> id \<Rightarrow> db \<Rightarrow> db" where
  "cleanupOldRevoked now f d =
     (if f = [] then d
      else d\<lparr>refreshTokens := filter (\<lambda>t. \<not> (rt_family t = Some f \<and> holds (\<lambda>r. r < now - 24 * 60 * 60 * 1000) (rt_revokedAt t))) (refreshTokens d)\<rparr>)"

section \<open>Issuing a session\<close>

record session_pair =
  sp_access :: string
  sp_refresh :: string
  sp_user :: user_view

definition session_token :: "auth_env \<Rightarrow> call \<Rightarrow> user \<Rightarrow> string \<Rightarrow> refresh_token" where
  "session_token e c u client =
     \<lparr>rt_id = cl_rowId c, rt_user = usr_id u, rt_hash = hashToken e (generateRefreshToken e (usr_id u) (cl_tokenId c) (cl_fid c)),
      rt_client = client, rt_ip = cl_ip c, rt_agent = cl_agent c, rt_expiresAt = cl_now c + REFRESH_TTL_MS, rt_createdAt = cl_now c,
      rt_family = Some (cl_fid c), rt_startedAt = cl_now c, rt_lastUsedAt = Some (cl_now c), rt_revokedAt = None, rt_replacedBy = None\<rparr>"

definition issueSession :: "auth_env \<Rightarrow> call \<Rightarrow> user \<Rightarrow> string \<Rightarrow> db \<Rightarrow> session_pair \<times> db" where
  "issueSession e c u client d =
     (let d1 = d\<lparr>refreshTokens := refreshTokens d @ [session_token e c u client]\<rparr>;
          d2 = update_user_row (usr_id u) (\<lambda>r. r\<lparr>usr_lastLoginAt := Some (cl_now c)\<rparr>) d1
      in (\<lparr>sp_access = generateAccessToken e (cl_now c) u (cl_fid c),
           sp_refresh = generateRefreshToken e (usr_id u) (cl_tokenId c) (cl_fid c), sp_user = userDto d2 u\<rparr>, d2))"

section \<open>The second factor\<close>

definition issueMfaToken :: "auth_env \<Rightarrow> id \<Rightarrow> user \<Rightarrow> string" where
  "issueMfaToken e jti u = ae_signMfa e \<lparr>mp_typ = ''mfa_challenge'', mp_user = usr_id u, mp_org = usr_org u, mp_jti = jti\<rparr>"

definition verifyMfaToken :: "auth_env \<Rightarrow> string \<Rightarrow> mfa_claims option" where
  "verifyMfaToken e t =
     (case ae_verifyMfa e t of None \<Rightarrow> None | Some p \<Rightarrow> if mp_typ p \<noteq> ''mfa_challenge'' then None else Some p)"

record mfa_challenge =
  mg_token :: string
  mg_methods :: "string list"
  mg_hint :: string

definition mfaGate :: "auth_env \<Rightarrow> call \<Rightarrow> user \<Rightarrow> mfa_challenge option" where
  "mfaGate e c u =
     (let ms = availableMethods u in
      if ms = [] then None
      else Some \<lparr>mg_token = issueMfaToken e (cl_jti c) u, mg_methods = ms, mg_hint = mask_email (usr_email u)\<rparr>)"

section \<open>Login\<close>

datatype login_result = Challenged mfa_challenge | SignedIn session_pair

definition login_candidates :: "string \<Rightarrow> db \<Rightarrow> user list" where
  "login_candidates email d =
     filter (\<lambda>u. usr_email u = lower (js_trim email) \<and> usr_status u \<noteq> Deleted \<and> usr_kind u = Human) (users d)"

text \<open>The first account whose password fits; accounts that are locked are passed over.\<close>

definition matches_password :: "auth_env \<Rightarrow> int \<Rightarrow> string \<Rightarrow> user \<Rightarrow> bool" where
  "matches_password e now pw u = (\<not> account_locked now u \<and> ae_compare e pw (the (usr_passwordHash u)))"

definition blocked_login :: "auth_env \<Rightarrow> call \<Rightarrow> user \<Rightarrow> db \<Rightarrow> login_result res \<times> db" where
  "blocked_login e c u d =
     (if account_locked (cl_now c) u then (Inl lockedError, d)
      else (Inl ssoRequiredLoginError,
            auditLog (usr_org u) None ''auth.sso_required_blocked'' ''User'' (Some (usr_id u))
              (Some (JObj [(''context'', JStr ''password_login'')])) (cl_agent c) (recordFailedLogin e c u d)))"

definition failed_login :: "auth_env \<Rightarrow> call \<Rightarrow> string \<Rightarrow> user list \<Rightarrow> db \<Rightarrow> login_result res \<times> db" where
  "failed_login e c email us d =
     (if \<exists>u \<in> set us. account_locked (cl_now c) u then (Inl lockedError, d)
      else
        let d1 = fold (recordFailedLogin e c) us d; p = hd us;
            d2 = auditLog (usr_org p) None ''auth.login_failed'' ''User'' (Some (usr_id p))
                   (Some (JObj [(''email'', JStr (lower (js_trim email)))])) (cl_agent c) d1
        in (Inl (if ssoRequiredFromSettings (org_settings_of d2 (usr_org p)) then ssoRequiredLoginError else invalidCredentials), d2))"

definition accepted_login :: "auth_env \<Rightarrow> call \<Rightarrow> user \<Rightarrow> db \<Rightarrow> login_result res \<times> db" where
  "accepted_login e c u d =
     (if usr_status u \<noteq> Active then (Inl (ApiError 403 ''Account is disabled'' (Some ''ACCOUNT_DISABLED'')), d)
      else
        let d1 = auditLog (usr_org u) (Some (usr_id u)) ''auth.login'' ''User'' (Some (usr_id u)) None (cl_agent c) (resetFailedLogin u d)
        in case mfaGate e c u of
             Some g \<Rightarrow> (Inr (Challenged g), d1)
           | None \<Rightarrow> (case issueSession e c u ''web'' d1 of (s, d2) \<Rightarrow> (Inr (SignedIn s), d2)))"

definition login :: "auth_env \<Rightarrow> call \<Rightarrow> string \<Rightarrow> string \<Rightarrow> db \<Rightarrow> login_result res \<times> db" where
  "login e c email pw d =
     (let withHash = filter (\<lambda>u. truthy (usr_passwordHash u)) (login_candidates email d);
          blocked = filter (\<lambda>u. passwordSignInBlocked d (Some u)) withHash;
          open_ones = filter (\<lambda>u. \<not> passwordSignInBlocked d (Some u)) withHash
      in if withHash = [] then (Inl invalidCredentials, d)
         else if open_ones = [] then blocked_login e c (hd blocked) d
         else case find (matches_password e (cl_now c) pw) open_ones of
                None \<Rightarrow> failed_login e c email open_ones d
              | Some u \<Rightarrow> accepted_login e c u d)"

definition mfa_expired :: err where
  "mfa_expired = ApiError 401 (dashed ''MFA session expired'' ''sign in again'') (Some ''MFA_CHALLENGE_EXPIRED'')"

definition mfa_too_many :: err where
  "mfa_too_many = ApiError 429 (dashed ''Too many attempts'' ''sign in again'') (Some ''MFA_TOO_MANY_ATTEMPTS'')"

definition completeMfaLogin :: "auth_env \<Rightarrow> call \<Rightarrow> string \<Rightarrow> string \<Rightarrow> string \<Rightarrow> 'v redis \<Rightarrow> db \<Rightarrow> (session_pair res \<times> db) \<times> 'v redis" where
  "completeMfaLogin e c token m code rs d =
     (case verifyMfaToken e token of None \<Rightarrow> ((Inl mfa_expired, d), rs) | Some p \<Rightarrow>
      if isChallengeBurned (cl_now c) (mp_jti p) rs then ((Inl mfa_too_many, d), rs)
      else case find_user_id d (mp_user p) of None \<Rightarrow> ((Inl mfa_expired, d), rs) | Some u \<Rightarrow>
      if usr_status u \<noteq> Active \<or> usr_org u \<noteq> mp_org p then ((Inl mfa_expired, d), rs)
      else case isUserThrottled (cl_now c) (usr_id u) rs of (thr, rs1) \<Rightarrow>
      if thr then ((Inl mfa_too_many, d), rs1)
      else case verifyFactor (ae_mfa e) (cl_now c) u m code d of
        (False, d1) \<Rightarrow>
          (case recordChallengeFailure (cl_now c) (mp_jti p) rs1 of ((burned, _), rs2) \<Rightarrow>
             ((Inl (if burned then mfa_too_many else ApiError 401 ''Invalid verification code'' (Some ''MFA_INVALID'')),
               auditLog (usr_org u) (Some (usr_id u)) ''auth.mfa_failed'' ''User'' (Some (usr_id u))
                 (Some (JObj [(''method'', JStr m)])) (cl_agent c) d1), rs2))
      | (True, d1) \<Rightarrow>
          (case issueSession e c u ''web'' d1 of (s, d2) \<Rightarrow> ((Inr s, d2), clearChallengeAttempts (mp_jti p) rs1)))"

record login_state =
  ls_hasPassword :: bool
  ls_ssoLinked :: bool
  ls_ssoRequired :: bool

definition getLoginState :: "string \<Rightarrow> id \<Rightarrow> db \<Rightarrow> login_state" where
  "getLoginState email oid d =
     (let us = login_candidates email d;
          orgSso = oid \<noteq> [] \<and> ssoRequiredFromSettings (org_settings_of d oid);
          usable = filter (\<lambda>u. \<not> passwordSignInBlocked d (Some u)) us;
          linked = (\<exists>u \<in> set us. truthy (usr_ssoProvider u))
      in if orgSso then \<lparr>ls_hasPassword = False, ls_ssoLinked = False, ls_ssoRequired = True\<rparr>
         else if us = [] then \<lparr>ls_hasPassword = False, ls_ssoLinked = False, ls_ssoRequired = orgSso\<rparr>
         else if usable = [] then \<lparr>ls_hasPassword = False, ls_ssoLinked = linked, ls_ssoRequired = True\<rparr>
         else \<lparr>ls_hasPassword = (\<exists>u \<in> set usable. truthy (usr_passwordHash u)), ls_ssoLinked = linked, ls_ssoRequired = False\<rparr>)"

end
