(* ===== verification/AuthTokens.thy ===== *)
theory AuthTokens
  imports Auth
begin

text \<open>
  Staying signed in: rotation of refresh tokens, signing out and the list of devices
  (\<open>backend/src/services/authService.js\<close>), and the check of the access token on every request
  (\<open>backend/src/middleware/auth.js\<close>, \<open>requestUser.js\<close>).
\<close>

section \<open>Refresh\<close>

text \<open>
  The reads and checks, with what they revoke on the way, and the transaction that rotates the
  token. Two requests can both pass the first before either does the second.
\<close>

definition refresh_error :: "string \<Rightarrow> err" where
  "refresh_error m = api_error 401 m"

definition find_refresh :: "auth_env \<Rightarrow> string \<Rightarrow> db \<Rightarrow> refresh_token option" where
  "find_refresh e t d = find (\<lambda>r. rt_hash r = hashToken e t) (refreshTokens d)"

definition refresh_reused :: "call \<Rightarrow> refresh_token \<Rightarrow> db \<Rightarrow> db" where
  "refresh_reused c r d =
     (let d1 = (if truthy (rt_family r) then revokeFamily (cl_now c) (rt_family r) d
                else d\<lparr>refreshTokens := filter (\<lambda>t. rt_user t \<noteq> rt_user r) (refreshTokens d)\<rparr>)
      in case find_user_id d1 (rt_user r) of
           None \<Rightarrow> d1
         | Some u \<Rightarrow> if usr_org u = [] then d1
                     else auditLog (usr_org u) (Some (rt_user r)) ''auth.refresh_reuse'' ''User'' (Some (rt_user r)) None (cl_agent c) d1)"

definition refresh_check :: "auth_env \<Rightarrow> call \<Rightarrow> string \<Rightarrow> db \<Rightarrow> (refresh_token \<times> user) res \<times> db" where
  "refresh_check e c t d =
     (let now = cl_now c in
      if ae_verifyRefresh e t = None then (Inl (refresh_error ''Invalid or expired refresh token''), d)
      else case find_refresh e t d of None \<Rightarrow> (Inl (refresh_error ''Invalid refresh token''), d) | Some r \<Rightarrow>
      (case rt_revokedAt r of
         Some rv \<Rightarrow>
           if now - rv \<le> ae_graceMs e then (Inl (api_error 409 ''Refresh token already rotated; retry''), d)
           else (Inl (refresh_error ''Invalid refresh token''), refresh_reused c r d)
       | None \<Rightarrow>
           if rt_expiresAt r < now
           then (Inl (refresh_error ''Refresh token expired''),
                 d\<lparr>refreshTokens := update_where (\<lambda>x. rt_id x = rt_id r) (\<lambda>x. x\<lparr>rt_revokedAt := Some now\<rparr>) (refreshTokens d)\<rparr>)
           else if now - rt_startedAt r > ae_absoluteTtl e
           then (Inl (refresh_error (dashed ''Session expired'' ''please sign in again'')), revokeFamily now (rt_family r) d)
           else case find_user_id d (rt_user r) of
             None \<Rightarrow> (Inl (refresh_error ''Account is not active''), d)
           | Some u \<Rightarrow>
               if usr_status u \<noteq> Active then (Inl (refresh_error ''Account is not active''), d)
               else if holds (\<lambda>f. rt_startedAt r < f) (usr_sessionsFrom u)
               then (Inl (ApiError 401 (dashed ''Session has been revoked'' ''please sign in again'') (Some ''SESSION_REVOKED'')),
                     revokeFamily now (rt_family r) d)
               else (Inr (r, u), d)))"

definition refresh_family :: "call \<Rightarrow> refresh_token \<Rightarrow> id" where
  "refresh_family c r = or_else (rt_family r) (cl_fid c)"

definition rotated_token :: "auth_env \<Rightarrow> call \<Rightarrow> refresh_token \<Rightarrow> user \<Rightarrow> refresh_token" where
  "rotated_token e c r u =
     \<lparr>rt_id = cl_rowId c, rt_user = usr_id u,
      rt_hash = hashToken e (generateRefreshToken e (usr_id u) (cl_tokenId c) (refresh_family c r)),
      rt_client = (if rt_client r = [] then ''web'' else rt_client r), rt_ip = cl_ip c, rt_agent = cl_agent c,
      rt_expiresAt = cl_now c + REFRESH_TTL_MS, rt_createdAt = cl_now c, rt_family = Some (refresh_family c r),
      rt_startedAt = rt_startedAt r, rt_lastUsedAt = Some (cl_now c), rt_revokedAt = None, rt_replacedBy = None\<rparr>"

definition refresh_rotate :: "auth_env \<Rightarrow> call \<Rightarrow> refresh_token \<Rightarrow> user \<Rightarrow> db \<Rightarrow> (string \<times> string) \<times> db" where
  "refresh_rotate e c r u d =
     (let n = rotated_token e c r u; fid = refresh_family c r;
          d1 = d\<lparr>refreshTokens := update_where (\<lambda>x. rt_id x = rt_id r)
                 (\<lambda>x. x\<lparr>rt_revokedAt := Some (cl_now c), rt_replacedBy := Some (rt_id n)\<rparr>) (refreshTokens d @ [n])\<rparr>
      in ((generateAccessToken e (cl_now c) u fid, generateRefreshToken e (usr_id u) (cl_tokenId c) fid), d1))"

text \<open>\<open>swept\<close>: whether the cleanup started at the end got through.\<close>

definition refresh :: "auth_env \<Rightarrow> call \<Rightarrow> bool \<Rightarrow> string \<Rightarrow> db \<Rightarrow> (string \<times> string) res \<times> db" where
  "refresh e c swept t d =
     (case refresh_check e c t d of
        (Inl er, d1) \<Rightarrow> (Inl er, d1)
      | (Inr (r, u), d1) \<Rightarrow>
          (case refresh_rotate e c r u d1 of
             (p, d2) \<Rightarrow> (Inr p, if swept then cleanupOldRevoked (cl_now c) (refresh_family c r) d2 else d2)))"

section \<open>Signing out\<close>

definition logout :: "auth_env \<Rightarrow> int \<Rightarrow> string \<Rightarrow> db \<Rightarrow> db" where
  "logout e now t d =
     (if t = [] then d
      else case find_refresh e t d of
        None \<Rightarrow> d
      | Some r \<Rightarrow> if truthy (rt_family r) then revokeFamily now (rt_family r) d
                  else d\<lparr>refreshTokens := filter (\<lambda>x. rt_hash x \<noteq> hashToken e t) (refreshTokens d)\<rparr>)"

definition revokeSessionForUser :: "int \<Rightarrow> id \<Rightarrow> id \<Rightarrow> db \<Rightarrow> unit res \<times> db" where
  "revokeSessionForUser now uid f d =
     (if \<not> (\<exists>t \<in> set (refreshTokens d). rt_user t = uid \<and> rt_family t = Some f) then (Inl (api_error 404 ''Session not found''), d)
      else (Inr (), revokeFamily now (Some f) d))"

definition revokeOtherSessionsForUser :: "int \<Rightarrow> id \<Rightarrow> id option \<Rightarrow> db \<Rightarrow> nat \<times> db" where
  "revokeOtherSessionsForUser = revokeOtherFamilies"

record device =
  dv_id :: id
  dv_client :: string
  dv_ip :: "string option"
  dv_agent :: "string option"
  dv_createdAt :: int
  dv_lastUsedAt :: int
  dv_expiresAt :: int
  dv_current :: bool

definition used_at :: "refresh_token \<Rightarrow> int" where
  "used_at t = (case rt_lastUsedAt t of None \<Rightarrow> rt_createdAt t | Some x \<Rightarrow> x)"

definition family_key :: "refresh_token \<Rightarrow> id" where
  "family_key t = or_else (rt_family t) (rt_id t)"

text \<open>The map from families to their most recently used token, in the order families first appear.\<close>

definition put_family :: "refresh_token \<Rightarrow> (id \<times> refresh_token) list \<Rightarrow> (id \<times> refresh_token) list" where
  "put_family t m =
     (case map_of m (family_key t) of
        None \<Rightarrow> m @ [(family_key t, t)]
      | Some x \<Rightarrow> if used_at t > used_at x then map (\<lambda>p. if fst p = family_key t then (fst p, t) else p) m else m)"

definition listSessions :: "int \<Rightarrow> id \<Rightarrow> id option \<Rightarrow> db \<Rightarrow> device list" where
  "listSessions now uid cur d =
     (let rows = sort_key (\<lambda>t. - rt_startedAt t)
                   (filter (\<lambda>t. rt_user t = uid \<and> rt_revokedAt t = None \<and> now < rt_expiresAt t) (refreshTokens d))
      in map (\<lambda>p. case p of (f, t) \<Rightarrow>
           \<lparr>dv_id = f, dv_client = rt_client t, dv_ip = rt_ip t, dv_agent = rt_agent t, dv_createdAt = rt_startedAt t,
            dv_lastUsedAt = used_at t, dv_expiresAt = rt_expiresAt t, dv_current = (Some f = cur)\<rparr>)
         (fold put_family rows []))"

section \<open>The access token of a request\<close>

record http_req =
  hr_method :: string
  hr_url :: string
  hr_authorization :: "string option"
  hr_ip :: "string option"

definition url_path :: "http_req \<Rightarrow> string" where
  "url_path q = takeWhile (\<lambda>c. c \<noteq> CHR ''?'') (hr_url q)"

definition isMfaSetupAllowlisted :: "http_req \<Rightarrow> bool" where
  "isMfaSetupAllowlisted q =
     (let url = url_path q; m = hr_method q in
      prefix ''/api/mfa'' url \<or> (url = ''/api/settings/mfa/public'' \<and> m = ''GET'') \<or> (url = ''/api/auth/me'' \<and> m = ''GET'') \<or>
      (url = ''/api/auth/logout'' \<and> m = ''POST'') \<or> (url = ''/api/auth/refresh'' \<and> m = ''POST'') \<or>
      (url = ''/api/auth/sessions'' \<and> m = ''GET''))"

text \<open>\<open>req.user\<close> and \<open>req.scope\<close>, and for an API token which one it was.\<close>

record req_user =
  ru_id :: id
  ru_org :: id
  ru_tier :: tier
  ru_roleId :: "id option"
  ru_roleKey :: string
  ru_permissions :: "string list"
  ru_email :: string
  ru_kind :: user_kind
  ru_fid :: "id option"
  ru_scope :: scope
  ru_token :: "id option"

definition relation_role :: "db \<Rightarrow> user \<Rightarrow> role option" where
  "relation_role d u = find_role d (usr_roleId u)"

definition hydrateRequestUser :: "db \<Rightarrow> user \<Rightarrow> id option \<Rightarrow> string list option \<Rightarrow> req_user" where
  "hydrateRequestUser d u fid perms =
     \<lparr>ru_id = usr_id u, ru_org = usr_org u, ru_tier = usr_role u, ru_roleId = usr_roleId u,
      ru_roleKey = (case relation_role d u of None \<Rightarrow> tier_name (usr_role u) | Some r \<Rightarrow> if rol_key r = [] then tier_name (usr_role u) else rol_key r),
      ru_permissions = (case perms of None \<Rightarrow> permissionsForUser u (relation_role d u) | Some ps \<Rightarrow> ps),
      ru_email = usr_email u, ru_kind = usr_kind u, ru_fid = fid, ru_scope = resolveScope d (Some u), ru_token = None\<rparr>"

definition session_revoked :: err where
  "session_revoked = ApiError 401 (dashed ''Session has been revoked'' ''please sign in again'') (Some ''SESSION_REVOKED'')"

definition token_required :: err where
  "token_required = api_error 401 ''Authentication token required''"

text \<open>\<open>header.split(' ')[1]\<close> of a header that starts with \<open>Bearer\<close> and a space.\<close>

definition bearer_token :: "string \<Rightarrow> string" where
  "bearer_token h = takeWhile (\<lambda>c. c \<noteq> CHR '' '') (drop 7 h)"

text \<open>\<open>enforced\<close>: what the organization's second-factor policy says, \<open>None\<close> when it cannot be read.\<close>

definition authenticate :: "auth_env \<Rightarrow> bool option \<Rightarrow> http_req \<Rightarrow> db \<Rightarrow> req_user res" where
  "authenticate e enforced q d =
     (case hr_authorization q of None \<Rightarrow> Inl token_required | Some h \<Rightarrow>
      if \<not> prefix ''Bearer '' h then Inl token_required
      else case verifyAccessToken e (bearer_token h) of None \<Rightarrow> Inl (api_error 401 ''Invalid or expired token'') | Some cl \<Rightarrow>
      if ac_user cl = [] \<or> ac_org cl = [] then Inl (api_error 401 ''Invalid or expired token'')
      else case find_user_id d (ac_user cl) of None \<Rightarrow> Inl session_revoked | Some u \<Rightarrow>
      if usr_org u \<noteq> ac_org cl \<or> usr_status u \<noteq> Active then Inl session_revoked
      else if usr_kind u = Service then Inl session_revoked
      else if holds (\<lambda>f. holds (\<lambda>i. i * 1000 < f) (ac_iat cl)) (usr_sessionsFrom u) then Inl session_revoked
      else if enforced = Some True \<and> \<not> hasFactor u \<and> \<not> isMfaSetupAllowlisted q
      then Inl (ApiError 403 ''Your organization requires MFA setup before you can continue'' (Some ''MFA_SETUP_REQUIRED''))
      else Inr (hydrateRequestUser d u (Some (ac_fid cl)) None))"

end
