(* ===== verification/Users.thy ===== *)
theory Users
  imports AuthTokens PolicyAdmin
begin

text \<open>
  User accounts (\<open>backend/src/services/userService.js\<close>): creating, editing, disabling and
  deleting them, the manager tree, customer scope and group membership, and cutting off
  everything a disabled account could still reach. A password hash is a parameter.
\<close>

section \<open>Lists and views\<close>

definition status_text :: "user_status \<Rightarrow> string" where
  "status_text s = (case s of Active \<Rightarrow> ''active'' | Invited \<Rightarrow> ''invited'' | Suspended \<Rightarrow> ''suspended''
     | Deactivated \<Rightarrow> ''deactivated'' | PendingVerification \<Rightarrow> ''pending_verification'' | Deleted \<Rightarrow> ''deleted'')"

definition scope_text :: "access_scope \<Rightarrow> string" where
  "scope_text s = (case s of SCOPE_ALL \<Rightarrow> ''ALL'' | SCOPE_CUSTOMERS \<Rightarrow> ''CUSTOMERS'')"

record user_filters =
  uf_page :: nat
  uf_pageSize :: nat
  uf_role :: "tier option"
  uf_roleId :: "id option"
  uf_status :: "user_status option"
  uf_manager :: "id option"
  uf_search :: string
  uf_locked :: "bool option"
  uf_loginFrom :: "int option"
  uf_loginTo :: "int option"
  uf_scope :: "access_scope option"
  uf_group :: "id option"

text \<open>People only. A status filter replaces the default one, which leaves out deleted accounts.\<close>

definition user_where :: "int \<Rightarrow> id \<Rightarrow> user_filters \<Rightarrow> db \<Rightarrow> user \<Rightarrow> bool" where
  "user_where now oid f d u \<longleftrightarrow>
     usr_org u = oid \<and> usr_kind u = Human \<and>
     (case uf_status f of None \<Rightarrow> usr_status u \<noteq> Deleted | Some s \<Rightarrow> usr_status u = s) \<and>
     (case uf_role f of None \<Rightarrow> True | Some t \<Rightarrow> usr_role u = t) \<and>
     (truthy (uf_roleId f) \<longrightarrow> usr_roleId u = uf_roleId f) \<and>
     (truthy (uf_manager f) \<longrightarrow> usr_manager u = uf_manager f) \<and>
     (case uf_scope f of None \<Rightarrow> True | Some s \<Rightarrow> usr_scope u = s) \<and>
     (truthy (uf_group f) \<longrightarrow> (\<exists>m \<in> set (memberships d). mem_user m = usr_id u \<and> Some (mem_group m) = uf_group f)) \<and>
     (case uf_locked f of None \<Rightarrow> True | Some b \<Rightarrow> account_locked now u = b) \<and>
     (case uf_loginFrom f of None \<Rightarrow> True | Some t \<Rightarrow> holds (\<lambda>l. t \<le> l) (usr_lastLoginAt u)) \<and>
     (case uf_loginTo f of None \<Rightarrow> True | Some t \<Rightarrow> holds (\<lambda>l. l \<le> t) (usr_lastLoginAt u)) \<and>
     (uf_search f \<noteq> [] \<longrightarrow> contains_ci (uf_search f) (usr_name u) \<or> contains_ci (uf_search f) (usr_email u))"

text \<open>\<open>ordered\<close> is the result of the \<open>orderBy\<close>; the columns it may name change nothing else.\<close>

definition listUsers :: "(user list \<Rightarrow> user list) \<Rightarrow> int \<Rightarrow> id \<Rightarrow> user_filters \<Rightarrow> db \<Rightarrow> user list \<times> nat" where
  "listUsers ordered now oid f d =
     (let rows = filter (user_where now oid f d) (users d)
      in (page_of (page_no (uf_page f)) (page_size (uf_pageSize f)) (ordered rows), length rows))"

definition user_not_found :: err where
  "user_not_found = api_error 404 ''User not found''"

definition permission_denied :: "string \<Rightarrow> err" where
  "permission_denied m = ApiError 403 m (Some ''PERMISSION_DENIED'')"

section \<open>Who may manage whom\<close>

text \<open>\<open>actor\<close> is missing for trusted internal callers.\<close>

definition may :: "actor option \<Rightarrow> string \<Rightarrow> bool" where
  "may a p = (case a of None \<Rightarrow> True | Some x \<Rightarrow> hasPermission (act_permissions x) p)"

definition role_of_target :: "db \<Rightarrow> id \<Rightarrow> user \<Rightarrow> role option" where
  "role_of_target d oid u =
     (case usr_roleId u of None \<Rightarrow> None | Some rid \<Rightarrow> find_role_in_org d rid oid)"

text \<open>A user without a role counts as one with the tier and no permissions.\<close>

definition bare_role :: "id \<Rightarrow> user \<Rightarrow> role" where
  "bare_role oid u = \<lparr>rol_id = [], rol_org = oid, rol_key = [], rol_name = [], rol_description = None, rol_base = usr_role u,
     rol_permissions = [], rol_isSystem = False, rol_catalogVersion = 0\<rparr>"

definition assertCanManageUser :: "db \<Rightarrow> id \<Rightarrow> actor option \<Rightarrow> user \<Rightarrow> string \<Rightarrow> unit res" where
  "assertCanManageUser d oid a u what =
     (case a of None \<Rightarrow> Inr ()
      | Some x \<Rightarrow> if usr_id u = act_user x then Inr ()
          else assertCanActOnRole x (Some (case role_of_target d oid u of Some r \<Rightarrow> r | None \<Rightarrow> bare_role oid u)) what)"

definition activeSuperAdminCount :: "db \<Rightarrow> id \<Rightarrow> id \<Rightarrow> nat" where
  "activeSuperAdminCount d oid except =
     count_where (\<lambda>u. usr_org u = oid \<and> usr_role u = SuperAdmin \<and> usr_status u = Active \<and> usr_deletedAt u = None \<and> usr_id u \<noteq> except) (users d)"

definition superAdminCount :: "db \<Rightarrow> id \<Rightarrow> nat" where
  "superAdminCount d oid = count_where (\<lambda>u. usr_org u = oid \<and> usr_role u = SuperAdmin \<and> usr_status u \<noteq> Deleted) (users d)"

text \<open>The role a request names, by id or key first, by tier otherwise; \<open>None\<close> when it names none.\<close>

definition requestedRole :: "db \<Rightarrow> id \<Rightarrow> string option \<Rightarrow> string option \<Rightarrow> role option res" where
  "requestedRole d oid roleId role =
     (let ref = or_else roleId (or_else role []) in
      if ref = [] then Inr None
      else case resolveRole d oid ref of None \<Rightarrow> Inl (api_error 400 ''Unknown role'') | Some r \<Rightarrow> Inr (Some r))"

section \<open>Scope and group grants\<close>

text \<open>
  What the caller may not see does not exist here: the caller's own scope is part of the lookup.
\<close>

definition validateScopeGrant :: "db \<Rightarrow> id \<Rightarrow> actor option \<Rightarrow> scope \<Rightarrow> access_scope \<Rightarrow> id list \<Rightarrow> id list res" where
  "validateScopeGrant d oid a caller sc ids =
     (if \<not> may a ''users.assign_scope'' then Inl (permission_denied ''You don't have permission to assign customer scope'')
      else
        let want = (if sc = SCOPE_CUSTOMERS then uniq ids else []);
            found = filter (\<lambda>c. cus_id c \<in> set want \<and> cus_org c = oid \<and> customerScopeWhere caller c) (customers d)
        in if want \<noteq> [] \<and> length found \<noteq> length want then Inl (api_error 404 ''One or more customers not found'')
           else Inr want)"

definition validateGroupIds :: "db \<Rightarrow> id \<Rightarrow> actor option \<Rightarrow> id list \<Rightarrow> grp list res" where
  "validateGroupIds d oid a ids =
     (if \<not> may a ''groups.manage'' then Inl (permission_denied ''You don't have permission to change group membership'')
      else
        let want = uniq ids; found = filter (\<lambda>g. grp_id g \<in> set want \<and> grp_org g = oid) (groups d)
        in if want = [] then Inr []
           else if length found \<noteq> length want then Inl (api_error 404 ''One or more groups not found'')
           else Inr found)"

definition actor_id :: "actor option \<Rightarrow> id option" where
  "actor_id a = map_option act_user a"

definition group_briefs :: "grp list \<Rightarrow> json" where
  "group_briefs gs = JArr (map (\<lambda>g. JObj [(''id'', JStr (grp_id g)), (''name'', JStr (grp_name g))]) gs)"

definition group_rows :: "id \<Rightarrow> actor option \<Rightarrow> grp list \<Rightarrow> membership list" where
  "group_rows uid a gs = map (\<lambda>g. \<lparr>mem_group = grp_id g, mem_user = uid, mem_addedBy = actor_id a\<rparr>) gs"

definition groups_audit :: "id \<Rightarrow> actor option \<Rightarrow> id \<Rightarrow> grp list \<Rightarrow> grp list \<Rightarrow> string option \<Rightarrow> db \<Rightarrow> db" where
  "groups_audit oid a uid added removed ua d =
     (if a = None then d
      else auditLog oid (actor_id a) ''user.groups.updated'' ''User'' (Some uid)
             (Some (JObj [(''added'', group_briefs added), (''removed'', group_briefs removed)])) ua d)"

definition applyGroupMembership :: "id \<Rightarrow> id \<Rightarrow> id list \<Rightarrow> actor option \<Rightarrow> string option \<Rightarrow> db \<Rightarrow> grp list res \<times> db" where
  "applyGroupMembership oid uid ids a ua d =
     (case validateGroupIds d oid a ids of Inl er \<Rightarrow> (Inl er, d) | Inr gs \<Rightarrow>
        let here = (\<lambda>m. mem_user m = uid \<and> (\<exists>g \<in> set (groups d). grp_id g = mem_group m \<and> grp_org g = oid));
            before = List.map_filter (\<lambda>m. find (\<lambda>g. grp_id g = mem_group m) (groups d)) (filter here (memberships d));
            added = filter (\<lambda>g. grp_id g \<notin> grp_id ` set before) gs;
            removed = filter (\<lambda>g. grp_id g \<notin> grp_id ` set gs) before;
            d1 = d\<lparr>memberships := filter (\<lambda>m. \<not> here m) (memberships d) @ group_rows uid a gs\<rparr>
        in (Inr gs, if added \<noteq> [] \<or> removed \<noteq> [] then groups_audit oid a uid added removed ua d1 else d1))"

definition set_scope_rows :: "id \<Rightarrow> id list \<Rightarrow> db \<Rightarrow> db" where
  "set_scope_rows uid ids d =
     d\<lparr>userScopes := filter (\<lambda>r. scr_owner r \<noteq> uid) (userScopes d) @ map (\<lambda>c. \<lparr>scr_owner = uid, scr_customer = c\<rparr>) ids\<rparr>"

definition customer_briefs :: "db \<Rightarrow> id list \<Rightarrow> json" where
  "customer_briefs d ids = JArr (map (\<lambda>c. JObj [(''id'', JStr (cus_id c)), (''name'', JStr (cus_name c))])
     (List.map_filter (\<lambda>i. find (\<lambda>c. cus_id c = i) (customers d)) ids))"

definition assignUserScope :: "id \<Rightarrow> id \<Rightarrow> access_scope \<Rightarrow> id list \<Rightarrow> actor option \<Rightarrow> scope \<Rightarrow> string option \<Rightarrow> db \<Rightarrow> id list res \<times> db" where
  "assignUserScope oid uid sc ids a caller ua d =
     (if actor_id a = Some uid then (Inl (api_error 403 ''You cannot change your own customer scope''), d)
      else case find_user d uid oid of None \<Rightarrow> (Inl user_not_found, d) | Some u \<Rightarrow>
      if usr_role u = SuperAdmin
      then (Inl (api_error 400 (dashed ''Super admins are never scoped'' ''they always see the whole organization'')), d)
      else case validateScopeGrant d oid a caller sc ids of Inl er \<Rightarrow> (Inl er, d) | Inr want \<Rightarrow>
        let before = map scr_customer (filter (\<lambda>r. scr_owner r = uid) (userScopes d));
            d1 = set_scope_rows uid want (update_user_row uid (\<lambda>r. r\<lparr>usr_scope := sc\<rparr>) d)
        in (Inr want,
            if a = None then d1
            else auditLog oid (actor_id a) ''user.scope.updated'' ''User'' (Some uid)
                   (Some (JObj [(''accessScope'', JStr (scope_text sc)), (''before'', customer_briefs d before),
                     (''after'', customer_briefs d want)])) ua d1))"

section \<open>Creating a user\<close>

record new_user_data =
  nu_email :: string
  nu_name :: string
  nu_password :: "string option"
  nu_manager :: "id option"
  nu_status :: "user_status option"
  nu_role :: "string option"
  nu_roleId :: "string option"
  nu_scope :: "access_scope option"
  nu_customers :: "id list"
  nu_groups :: "id list option"

definition blank_user :: "id \<Rightarrow> id \<Rightarrow> string \<Rightarrow> string \<Rightarrow> role \<Rightarrow> user" where
  "blank_user newId oid email name r =
     \<lparr>usr_id = newId, usr_org = oid, usr_email = email, usr_name = name, usr_role = rol_base r, usr_roleId = Some (rol_id r),
      usr_status = Active, usr_kind = Human, usr_scope = SCOPE_ALL, usr_manager = None, usr_deletedAt = None, usr_jitUid = None,
      usr_totpEnabled = False, usr_totpSecret = None, usr_totpPending = None, usr_emailOtp = False, usr_backupCodes = [],
      usr_mfaEnrolledAt = None, usr_mfaPreferred = None, usr_passwordHash = None, usr_failedLogins = 0, usr_lastFailedLogin = None,
      usr_lockedUntil = None, usr_lastLoginAt = None, usr_sessionsFrom = None, usr_ssoProvider = None, usr_ssoSub = None, usr_avatarUrl = None,
      usr_sshKey = None, usr_passwordChangedAt = None, usr_preferences = JObj [], usr_description = None\<rparr>"

definition email_taken :: "db \<Rightarrow> id \<Rightarrow> string \<Rightarrow> bool" where
  "email_taken d oid email = (\<exists>u \<in> set (users d). usr_org u = oid \<and> usr_email u = email)"

text \<open>A system role that is missing is created by a sync of all of them.\<close>

definition ensured_role :: "(string \<Rightarrow> id) \<Rightarrow> id \<Rightarrow> tier \<Rightarrow> db \<Rightarrow> role option \<times> db" where
  "ensured_role fresh oid t d =
     (case getSystemRole d oid t of
        Some r \<Rightarrow> (Some r, d)
      | None \<Rightarrow> let d1 = syncSystemRoles fresh oid d in (getSystemRole d1 oid t, d1))"

text \<open>The role to give and the checks of the grant.\<close>

definition create_role :: "db \<Rightarrow> id \<Rightarrow> role option \<Rightarrow> new_user_data \<Rightarrow> actor option \<Rightarrow> role res" where
  "create_role d oid om x a =
     (case om of None \<Rightarrow> Inl TypeError | Some member \<Rightarrow>
      case requestedRole d oid (nu_roleId x) (nu_role x) of Inl er \<Rightarrow> Inl er | Inr ro \<Rightarrow>
        let r = (case ro of None \<Rightarrow> member | Some r \<Rightarrow> r) in
        case a of None \<Rightarrow> Inr r
        | Some y \<Rightarrow>
            if rol_id r = rol_id member then Inr r
            else if \<not> hasPermission (act_permissions y) ''users.assign_role''
            then Inl (permission_denied ''You don't have permission to assign roles'')
            else case assertCanActOnRole y (Some r) ''assign this role'' of Inl er \<Rightarrow> Inl er | Inr _ \<Rightarrow> Inr r)"

definition create_scope :: "db \<Rightarrow> id \<Rightarrow> new_user_data \<Rightarrow> role \<Rightarrow> actor option \<Rightarrow> scope \<Rightarrow> id list res" where
  "create_scope d oid x r a caller =
     (case nu_scope x of None \<Rightarrow> Inr []
      | Some sc \<Rightarrow>
          if rol_base r = SuperAdmin \<and> sc = SCOPE_CUSTOMERS
          then Inl (api_error 400 (dashed ''Super admins are never scoped'' ''they always see the whole organization''))
          else validateScopeGrant d oid a caller sc (nu_customers x))"

definition create_row :: "(string \<Rightarrow> string) \<Rightarrow> id \<Rightarrow> id \<Rightarrow> new_user_data \<Rightarrow> role \<Rightarrow> user" where
  "create_row hash newId oid x r =
     (blank_user newId oid (nu_email x) (nu_name x) r)
       \<lparr>usr_passwordHash := (if truthy (nu_password x) then Some (hash (the (nu_password x))) else None),
        usr_status := (case nu_status x of Some s \<Rightarrow> s | None \<Rightarrow> if truthy (nu_password x) then Active else Invited),
        usr_manager := (if truthy (nu_manager x) then nu_manager x else None),
        usr_scope := (case nu_scope x of None \<Rightarrow> SCOPE_ALL | Some s \<Rightarrow> s)\<rparr>"

definition create_checks :: "db \<Rightarrow> id \<Rightarrow> role option \<Rightarrow> new_user_data \<Rightarrow> actor option \<Rightarrow> scope \<Rightarrow> (role \<times> id list \<times> grp list) res" where
  "create_checks d oid om x a caller =
     (case create_role d oid om x a of Inl er \<Rightarrow> Inl er | Inr r \<Rightarrow>
      if truthy (nu_manager x) \<and> find_user d (the (nu_manager x)) oid = None
      then Inl (api_error 400 ''Manager not found in organization'')
      else case create_scope d oid x r a caller of Inl er \<Rightarrow> Inl er | Inr ids \<Rightarrow>
      case (case nu_groups x of None \<Rightarrow> Inr [] | Some gids \<Rightarrow> validateGroupIds d oid a gids) of Inl er \<Rightarrow> Inl er | Inr gs \<Rightarrow>
      if email_taken d oid (nu_email x) then Inl (api_error 409 ''Email already exists in organization'')
      else Inr (r, ids, gs))"

definition createUser ::
    "(string \<Rightarrow> string) \<Rightarrow> (string \<Rightarrow> id) \<Rightarrow> id \<Rightarrow> id \<Rightarrow> new_user_data \<Rightarrow> actor option \<Rightarrow> scope \<Rightarrow> string option \<Rightarrow> db \<Rightarrow> user res \<times> db" where
  "createUser hash fresh newId oid x a caller ua d =
     (if nu_email x = [] \<or> nu_name x = [] then (Inl (api_error 400 ''email and name are required''), d)
      else case ensured_role fresh oid Member d of (om, d0) \<Rightarrow>
      case create_checks d0 oid om x a caller of
        Inl er \<Rightarrow> (Inl er, d0)
      | Inr (r, ids, gs) \<Rightarrow>
          let u = create_row hash newId oid x r;
              d1 = d0\<lparr>users := users d0 @ [u],
                      userScopes := userScopes d0 @ map (\<lambda>c. \<lparr>scr_owner = newId, scr_customer = c\<rparr>) ids,
                      memberships := memberships d0 @ group_rows newId a gs\<rparr>
          in (Inr u, if gs = [] then d1 else groups_audit oid a newId gs [] ua d1))"

text \<open>Self-registration: the caller has checked that it is open, and hashed the password.\<close>

definition createPendingUser :: "(string \<Rightarrow> id) \<Rightarrow> id \<Rightarrow> int \<Rightarrow> id \<Rightarrow> string \<Rightarrow> string \<Rightarrow> string \<Rightarrow> db \<Rightarrow> user res \<times> db" where
  "createPendingUser fresh newId now oid email name passwordHash d =
     (case ensured_role fresh oid Member d of
        (None, d0) \<Rightarrow> (Inl TypeError, d0)
      | (Some r, d0) \<Rightarrow>
          if email_taken d0 oid email then (Inl (api_error 409 ''Email already exists in organization''), d0)
          else
            let u = (blank_user newId oid email name r)\<lparr>usr_role := Member, usr_passwordHash := Some passwordHash,
                  usr_status := PendingVerification, usr_passwordChangedAt := Some now\<rparr>
            in (Inr u, d0\<lparr>users := users d0 @ [u]\<rparr>))"

definition markEmailVerified :: "id \<Rightarrow> db \<Rightarrow> unit res \<times> db" where
  "markEmailVerified uid d =
     (case find_user_id d uid of
        None \<Rightarrow> (Inl user_not_found, d)
      | Some u \<Rightarrow>
          if usr_status u \<noteq> PendingVerification then (Inl (api_error 400 ''Account is not pending verification''), d)
          else (Inr (), update_user_row uid (\<lambda>r. r\<lparr>usr_status := Active\<rparr>) d))"

section \<open>The manager tree\<close>

text \<open>
  \<open>wouldCreateCycle\<close> climbs from the new manager; it stops at a user it has seen, one that does
  not exist, or the top. The users it has not seen yet grow fewer.
\<close>

function climb :: "db \<Rightarrow> id \<Rightarrow> id \<Rightarrow> id list \<Rightarrow> id option \<Rightarrow> bool" where
  "climb d oid uid seen cur =
     (case cur of
        None \<Rightarrow> False
      | Some c \<Rightarrow>
          if c = [] then False
          else if c = uid then True
          else if c \<in> set seen then False
          else case find_user d c oid of None \<Rightarrow> False | Some m \<Rightarrow> climb d oid uid (c # seen) (usr_manager m))"
  by pat_completeness auto

lemma unseen_fewer:
  assumes "find_user d c oid = Some m" and "c \<notin> set seen"
  shows "length (filter (\<lambda>u. usr_id u \<notin> set (c # seen)) (users d)) < length (filter (\<lambda>u. usr_id u \<notin> set seen) (users d))"
proof -
  have m: "m \<in> set (users d)" "usr_id m = c" using find_user_SomeD [OF assms(1)] by auto
  have "filter (\<lambda>u. usr_id u \<notin> set (c # seen)) (users d) = filter (\<lambda>u. usr_id u \<noteq> c) (filter (\<lambda>u. usr_id u \<notin> set seen) (users d))"
    by (auto intro: filter_cong)
  also have "length \<dots> < length (filter (\<lambda>u. usr_id u \<notin> set seen) (users d))"
    by (rule length_filter_less [of m]) (use m assms(2) in auto)
  finally show ?thesis .
qed

termination climb
  by (relation "measure (\<lambda>(d, oid, uid, seen, cur). length (filter (\<lambda>u. usr_id u \<notin> set seen) (users d)))")
    (use unseen_fewer in auto)

declare climb.simps [simp del]

definition wouldCreateCycle :: "db \<Rightarrow> id \<Rightarrow> id \<Rightarrow> id \<Rightarrow> bool" where
  "wouldCreateCycle d oid uid newManager = climb d oid uid [] (Some newManager)"

end
