(* ===== verification/ApiTokens.thy ===== *)
theory ApiTokens
  imports AuthTokens
begin

text \<open>
  API tokens: their form (\<open>backend/src/utils/apiToken.js\<close>), issuing, rotating and revoking them
  (\<open>backend/src/services/apiTokenService.js\<close>), and what a request with one may do
  (\<open>backend/src/middleware/apiTokenAuth.js\<close>, \<open>auth.js\<close>). SHA-256 and the random part are
  parameters.
\<close>

section \<open>The form of a token\<close>

definition PERSONAL_TOKEN_PREFIX :: string where "PERSONAL_TOKEN_PREFIX = ''shp_''"
definition SERVICE_TOKEN_PREFIX :: string where "SERVICE_TOKEN_PREFIX = ''shs_''"
definition API_TOKEN_PREFIXES :: "string list" where
  "API_TOKEN_PREFIXES = [PERSONAL_TOKEN_PREFIX, SERVICE_TOKEN_PREFIX]"
definition DISPLAY_CHARS :: nat where "DISPLAY_CHARS = 8"

record minted =
  mt_token :: string
  mt_hash :: string
  mt_prefix :: string

definition generateApiToken :: "(string \<Rightarrow> string) \<Rightarrow> string \<Rightarrow> string \<Rightarrow> minted" where
  "generateApiToken sha rnd kind =
     (let lead = (if kind = ''service'' then SERVICE_TOKEN_PREFIX else PERSONAL_TOKEN_PREFIX); t = lead @ rnd
      in \<lparr>mt_token = t, mt_hash = sha t, mt_prefix = take (length lead + DISPLAY_CHARS) t\<rparr>)"

definition looksLikeApiToken :: "string \<Rightarrow> bool" where
  "looksLikeApiToken s = (\<exists>p \<in> set API_TOKEN_PREFIXES. prefix p s)"

definition kindOfToken :: "string \<Rightarrow> string option" where
  "kindOfToken s =
     (if prefix SERVICE_TOKEN_PREFIX s then Some ''service'' else if prefix PERSONAL_TOKEN_PREFIX s then Some ''personal'' else None)"

section \<open>The service\<close>

definition DEFAULT_EXPIRY_DAYS :: int where "DEFAULT_EXPIRY_DAYS = 90"

text \<open>\<open>API_TOKEN_MAX_DAYS\<close> and \<open>API_TOKEN_MAX_PER_USER\<close>.\<close>

record token_limits =
  tl_maxDays :: int
  tl_maxPerUser :: nat

definition expiryFrom :: "token_limits \<Rightarrow> int \<Rightarrow> int option \<Rightarrow> int res" where
  "expiryFrom lim now days =
     (let n = (case days of None \<Rightarrow> DEFAULT_EXPIRY_DAYS | Some x \<Rightarrow> x) in
      if n < 1 then Inl (api_error 400 ''Expiry must be at least one day'')
      else if n > tl_maxDays lim then Inl (api_error 400 (''Tokens can last at most '' @ int_str (tl_maxDays lim) @ '' days''))
      else Inr (now + n * 24 * 60 * 60 * 1000))"

fun normalizeScopes_from :: "string list \<Rightarrow> string list \<Rightarrow> string list res" where
  "normalizeScopes_from out [] = Inr out"
| "normalizeScopes_from out (raw # xs) =
     (let key = js_trim raw in
      if key = [] then normalizeScopes_from out xs
      else if \<not> isPermission key then Inl (api_error 400 (''Unknown permission: '' @ key))
      else if key \<in> set NON_DELEGABLE_PERMISSIONS
      then Inl (ApiError 400 (sq key @ '' can't be given to an API token'' @ dashed [] ''it stays something a person does'')
                  (Some ''PERMISSION_NOT_DELEGABLE''))
      else normalizeScopes_from (if key \<in> set out then out else out @ [key]) xs)"

definition normalizeScopes :: "string list \<Rightarrow> string list res" where
  "normalizeScopes xs = normalizeScopes_from [] xs"

definition assertRoom :: "token_limits \<Rightarrow> db \<Rightarrow> id \<Rightarrow> unit res" where
  "assertRoom lim d uid =
     (if tl_maxPerUser lim \<le> count_where (\<lambda>t. at_user t = uid \<and> at_revokedAt t = None) (apiTokens d)
      then Inl (api_error 409 (''That identity already has '' @ nat_str (tl_maxPerUser lim) @ '' active tokens'' @ dashed [] ''revoke one first''))
      else Inr ())"

record token_args =
  ta_user :: id
  ta_kind :: string
  ta_name :: string
  ta_description :: "string option"
  ta_scopes :: "string list"
  ta_days :: "int option"

definition token_checks :: "token_limits \<Rightarrow> int \<Rightarrow> id \<Rightarrow> token_args \<Rightarrow> db \<Rightarrow> (string list \<times> int) res" where
  "token_checks lim now oid x d =
     (if js_trim (ta_name x) = [] then Inl (api_error 400 ''Name is required'')
      else case find_user d (ta_user x) oid of None \<Rightarrow> Inl (api_error 404 ''User not found'') | Some u \<Rightarrow>
      if usr_status u \<noteq> Active then Inl (api_error 409 ''That identity is not active'')
      else if ta_kind x = ''service'' \<and> usr_kind u \<noteq> Service then Inl (api_error 400 ''Not a service account'')
      else if ta_kind x = ''personal'' \<and> usr_kind u \<noteq> Human then Inl (api_error 400 ''Not a person'')
      else case assertRoom lim d (ta_user x) of Inl er \<Rightarrow> Inl er | Inr _ \<Rightarrow>
      case normalizeScopes (ta_scopes x) of Inl er \<Rightarrow> Inl er | Inr ss \<Rightarrow>
      case expiryFrom lim now (ta_days x) of Inl er \<Rightarrow> Inl er | Inr t \<Rightarrow> Inr (ss, t))"

definition new_token :: "(string \<Rightarrow> string) \<Rightarrow> string \<Rightarrow> id \<Rightarrow> int \<Rightarrow> id \<Rightarrow> token_args \<Rightarrow> string list \<Rightarrow> int \<Rightarrow> id option \<Rightarrow> api_token" where
  "new_token sha rnd newId now oid x ss expires creator =
     (let m = generateApiToken sha rnd (ta_kind x) in
      \<lparr>at_id = newId, at_org = oid, at_user = ta_user x, at_kind = ta_kind x, at_name = js_trim (ta_name x),
       at_description = (if truthy (ta_description x) then Some (js_trim (the (ta_description x))) else None),
       at_hash = mt_hash m, at_prefix = mt_prefix m, at_scopes = ss, at_expiresAt = expires, at_lastUsedAt = None,
       at_lastUsedIp = None, at_revokedAt = None, at_revokedBy = None, at_revokedReason = None, at_rotatedAt = None,
       at_createdBy = creator, at_createdAt = now\<rparr>)"

text \<open>The plain text of the token, once, and its row.\<close>

definition createToken ::
    "(int \<Rightarrow> string) \<Rightarrow> token_limits \<Rightarrow> (string \<Rightarrow> string) \<Rightarrow> string \<Rightarrow> id \<Rightarrow> int \<Rightarrow> id \<Rightarrow> token_args \<Rightarrow> id option \<Rightarrow> db
       \<Rightarrow> (string \<times> api_token) res \<times> db" where
  "createToken isoString lim sha rnd newId now oid x creator d =
     (case token_checks lim now oid x d of Inl er \<Rightarrow> (Inl er, d) | Inr (ss, expires) \<Rightarrow>
        let t = new_token sha rnd newId now oid x ss expires creator
        in (Inr (mt_token (generateApiToken sha rnd (ta_kind x)), t),
            auditLog oid creator ''api_token.create'' ''ApiToken'' (Some newId)
              (Some (JObj [(''name'', JStr (at_name t)), (''kind'', JStr (at_kind t)), (''forUserId'', JStr (at_user t)),
                (''scopes'', JArr (map JStr ss)), (''expiresAt'', JStr (isoString expires))])) None
              (d\<lparr>apiTokens := apiTokens d @ [t]\<rparr>)))"

text \<open>Live ones first by the time of their revocation (a missing one sorts last), then the newest.\<close>

definition listForUser :: "id \<Rightarrow> id \<Rightarrow> db \<Rightarrow> api_token list" where
  "listForUser oid uid d =
     (let rows = sort_key (\<lambda>t. - at_createdAt t) (filter (\<lambda>t. at_org t = oid \<and> at_user t = uid) (apiTokens d));
          revoked = filter (\<lambda>t. at_revokedAt t \<noteq> None) rows
      in sort_key (\<lambda>t. the (at_revokedAt t)) revoked @ filter (\<lambda>t. at_revokedAt t = None) rows)"

definition loadOwned :: "id \<Rightarrow> id \<Rightarrow> id option \<Rightarrow> db \<Rightarrow> api_token res" where
  "loadOwned oid tid uid d =
     (case find (\<lambda>t. at_id t = tid \<and> at_org t = oid \<and> (truthy uid \<longrightarrow> Some (at_user t) = uid)) (apiTokens d) of
        None \<Rightarrow> Inl (api_error 404 ''Token not found'') | Some t \<Rightarrow> Inr t)"

definition update_token :: "id \<Rightarrow> (api_token \<Rightarrow> api_token) \<Rightarrow> db \<Rightarrow> db" where
  "update_token tid f d = d\<lparr>apiTokens := update_where (\<lambda>t. at_id t = tid) f (apiTokens d)\<rparr>"

definition token_audit :: "id \<Rightarrow> id option \<Rightarrow> string \<Rightarrow> api_token \<Rightarrow> (string \<times> json) list \<Rightarrow> db \<Rightarrow> db" where
  "token_audit oid creator action t extra d =
     auditLog oid creator action ''ApiToken'' (Some (at_id t))
       (Some (JObj ([(''name'', JStr (at_name t)), (''kind'', JStr (at_kind t)), (''forUserId'', JStr (at_user t))] @ extra))) None d"

definition rotateToken :: "(string \<Rightarrow> string) \<Rightarrow> string \<Rightarrow> int \<Rightarrow> id \<Rightarrow> id \<Rightarrow> id option \<Rightarrow> id option \<Rightarrow> db \<Rightarrow> string res \<times> db" where
  "rotateToken sha rnd now oid tid uid creator d =
     (case loadOwned oid tid uid d of Inl er \<Rightarrow> (Inl er, d) | Inr t \<Rightarrow>
      if at_revokedAt t \<noteq> None then (Inl (api_error 409 ''That token has been revoked''), d)
      else
        let m = generateApiToken sha rnd (at_kind t)
        in (Inr (mt_token m), token_audit oid creator ''api_token.rotate'' t []
              (update_token (at_id t) (\<lambda>r. r\<lparr>at_hash := mt_hash m, at_prefix := mt_prefix m, at_rotatedAt := Some now,
                 at_lastUsedAt := None, at_lastUsedIp := None\<rparr>) d)))"

definition revokeToken :: "int \<Rightarrow> id \<Rightarrow> id \<Rightarrow> id option \<Rightarrow> string option \<Rightarrow> id option \<Rightarrow> db \<Rightarrow> unit res \<times> db" where
  "revokeToken now oid tid uid reason by_user d =
     (case loadOwned oid tid uid d of Inl er \<Rightarrow> (Inl er, d) | Inr t \<Rightarrow>
      if at_revokedAt t \<noteq> None then (Inr (), d)
      else (Inr (), token_audit oid by_user ''api_token.revoke'' t [(''reason'', case reason of None \<Rightarrow> JNull | Some r \<Rightarrow> JStr r)]
              (update_token (at_id t) (\<lambda>r. r\<lparr>at_revokedAt := Some now, at_revokedBy := by_user, at_revokedReason := reason\<rparr>) d)))"

definition revokeAllTokens :: "int \<Rightarrow> id \<Rightarrow> id \<Rightarrow> string \<Rightarrow> id option \<Rightarrow> db \<Rightarrow> nat \<times> db" where
  "revokeAllTokens now oid uid reason by_user d =
     (let mine = (\<lambda>t. at_org t = oid \<and> at_user t = uid \<and> at_revokedAt t = None)
      in (count_where mine (apiTokens d),
          d\<lparr>apiTokens := update_where mine (\<lambda>t. t\<lparr>at_revokedAt := Some now, at_revokedBy := by_user, at_revokedReason := Some reason\<rparr>) (apiTokens d)\<rparr>))"

section \<open>A request with a token\<close>

definition FORBIDDEN_PREFIXES :: "string list" where
  "FORBIDDEN_PREFIXES = [''/api/auth'', ''/api/mfa'', ''/api/settings/mfa'', ''/api/auth/sso'', ''/api/vault'', ''/api/terminal'',
     ''/api/tokens'', ''/api/service-accounts'']"

definition ALLOWED_EXACT :: "(string \<times> string) list" where
  "ALLOWED_EXACT = [(''GET'', ''/api/auth/me'')]"

definition isForbiddenPath :: "http_req \<Rightarrow> bool" where
  "isForbiddenPath q =
     (let path = url_path q in
      if (hr_method q, path) \<in> set ALLOWED_EXACT then False
      else \<exists>p \<in> set FORBIDDEN_PREFIXES. path = p \<or> prefix (p @ ''/'') path)"

definition bearerOf :: "http_req \<Rightarrow> string" where
  "bearerOf q = (case hr_authorization q of None \<Rightarrow> [] | Some h \<Rightarrow> if prefix ''Bearer '' h then js_trim (drop 7 h) else [])"

definition effectivePermissions :: "user \<Rightarrow> role option \<Rightarrow> string list \<Rightarrow> string list" where
  "effectivePermissions u r scopes =
     (let live = permissionsForUser u r; granted = (if scopes \<noteq> [] then filter (\<lambda>k. k \<in> set live) scopes else live)
      in filter (\<lambda>k. k \<notin> set NON_DELEGABLE_PERMISSIONS) granted)"

definition LAST_USED_THROTTLE_MS :: int where "LAST_USED_THROTTLE_MS = 60000"

definition token_error :: "string \<Rightarrow> string \<Rightarrow> err" where
  "token_error m code = ApiError 401 m (Some code)"

definition live_token :: "(string \<Rightarrow> string) \<Rightarrow> int \<Rightarrow> string \<Rightarrow> db \<Rightarrow> (api_token \<times> user) res" where
  "live_token sha now raw d =
     (case find (\<lambda>t. at_hash t = sha raw) (apiTokens d) of
        None \<Rightarrow> Inl (token_error ''Invalid API token'' ''TOKEN_INVALID'')
      | Some t \<Rightarrow>
          if at_revokedAt t \<noteq> None then Inl (token_error ''This API token has been revoked'' ''TOKEN_REVOKED'')
          else if at_expiresAt t \<le> now then Inl (token_error ''This API token has expired'' ''TOKEN_EXPIRED'')
          else case find_user_id d (at_user t) of
            None \<Rightarrow> Inl (token_error ''The identity behind this token is no longer active'' ''TOKEN_PRINCIPAL_INACTIVE'')
          | Some u \<Rightarrow>
              if usr_org u \<noteq> at_org t \<or> usr_status u \<noteq> Active
              then Inl (token_error ''The identity behind this token is no longer active'' ''TOKEN_PRINCIPAL_INACTIVE'')
              else Inr (t, u))"

text \<open>\<open>recorded\<close>: whether the update of the last use got through.\<close>

definition apiTokenAuth :: "(string \<Rightarrow> string) \<Rightarrow> bool \<Rightarrow> int \<Rightarrow> http_req \<Rightarrow> db \<Rightarrow> req_user res \<times> db" where
  "apiTokenAuth sha recorded now q d =
     (let raw = bearerOf q in
      if \<not> looksLikeApiToken raw then (Inl token_required, d)
      else if isForbiddenPath q
      then (Inl (ApiError 403 ''This endpoint cannot be used with an API token'' (Some ''TOKEN_NOT_ALLOWED_HERE'')), d)
      else case live_token sha now raw d of Inl er \<Rightarrow> (Inl er, d) | Inr (t, u) \<Rightarrow>
        let ru = (hydrateRequestUser d u None (Some (effectivePermissions u (relation_role d u) (at_scopes t))))\<lparr>ru_token := Some (at_id t)\<rparr>;
            stale = (case at_lastUsedAt t of None \<Rightarrow> True | Some l \<Rightarrow> now - l > LAST_USED_THROTTLE_MS)
        in (Inr ru, if stale \<and> recorded
                    then update_token (at_id t) (\<lambda>r. r\<lparr>at_lastUsedAt := Some now, at_lastUsedIp := hr_ip q\<rparr>) d else d))"

text \<open>Every router mounts this one.\<close>

definition bearerAuth :: "auth_env \<Rightarrow> bool option \<Rightarrow> bool \<Rightarrow> int \<Rightarrow> http_req \<Rightarrow> db \<Rightarrow> req_user res \<times> db" where
  "bearerAuth e enforced recorded now q d =
     (case hr_authorization q of
        Some h \<Rightarrow> if prefix ''Bearer '' h \<and> looksLikeApiToken (js_trim (drop 7 h)) then apiTokenAuth (ae_sha e) recorded now q d
                  else (authenticate e enforced q d, d)
      | None \<Rightarrow> (authenticate e enforced q d, d))"

section \<open>Guards of a route\<close>

definition requirePermission :: "string list \<Rightarrow> req_user option \<Rightarrow> unit res" where
  "requirePermission keys u =
     (case u of None \<Rightarrow> Inl (api_error 401 ''Authentication required'')
      | Some x \<Rightarrow> if \<forall>k \<in> set keys. k \<in> set (ru_permissions x) then Inr ()
                  else Inl (ApiError 403 ''You don't have permission to do this'' (Some ''PERMISSION_DENIED'')))"

definition requireAnyPermission :: "string list \<Rightarrow> req_user option \<Rightarrow> unit res" where
  "requireAnyPermission keys u =
     (case u of None \<Rightarrow> Inl (api_error 401 ''Authentication required'')
      | Some x \<Rightarrow> if \<exists>k \<in> set keys. k \<in> set (ru_permissions x) then Inr ()
                  else Inl (ApiError 403 ''You don't have permission to do this'' (Some ''PERMISSION_DENIED'')))"

definition actorFromReq :: "req_user \<Rightarrow> actor" where
  "actorFromReq u = \<lparr>act_user = ru_id u, act_roleId = ru_roleId u, act_tier = ru_tier u, act_permissions = ru_permissions u\<rparr>"

end
