(* ===== verification/UserEdits.thy ===== *)
theory UserEdits
  imports Users ApiTokens
begin

text \<open>
  Changing and removing accounts (\<open>backend/src/services/userService.js\<close>): edits with their
  guards, unlocking, signing a user out, cutting off all access, deletion with its cascades,
  and the self-service operations.
\<close>

section \<open>Cutting off access\<close>

record cut_counts =
  cc_requests :: nat
  cc_certs :: nat
  cc_tokens :: nat

definition standing_request :: "id \<Rightarrow> id \<Rightarrow> request \<Rightarrow> bool" where
  "standing_request oid uid r = (req_requester r = uid \<and> req_org r = oid \<and> req_status r \<in> {PENDING, APPROVED})"

definition standing_cert :: "id \<Rightarrow> id \<Rightarrow> certificate \<Rightarrow> bool" where
  "standing_cert oid uid k = (cert_issuedTo k = Some uid \<and> cert_org k = oid \<and> cert_status k = CERT_ACTIVE)"

definition cut_rows :: "int \<Rightarrow> id \<Rightarrow> id \<Rightarrow> string \<Rightarrow> id option \<Rightarrow> db \<Rightarrow> db" where
  "cut_rows now oid uid reason by_user d =
     d\<lparr>requests := update_where (standing_request oid uid)
         (\<lambda>r. r\<lparr>req_status := REVOKED, req_revokedAt := Some now, req_revokedReason := Some reason\<rparr>) (requests d),
       certs := update_where (standing_cert oid uid)
         (\<lambda>k. k\<lparr>cert_status := CERT_REVOKED, cert_revokedAt := Some now,
            cert_revokedBy := Some (case by_user of None \<Rightarrow> uid | Some b \<Rightarrow> b)\<rparr>) (certs d)\<rparr>"

definition revokeAllAccessFor ::
    "int \<Rightarrow> faults \<Rightarrow> bool \<Rightarrow> id \<Rightarrow> id \<Rightarrow> string \<Rightarrow> string \<Rightarrow> id option \<Rightarrow> world \<Rightarrow> cut_counts \<times> world" where
  "revokeAllAccessFor now fl lookupFault oid uid reason sessionReason by_user w =
     (case revokeAllTokens now oid uid reason by_user (w_db w) of (n, d1) \<Rightarrow>
        (\<lparr>cc_requests = count_where (standing_request oid uid) (requests d1),
          cc_certs = count_where (standing_cert oid uid) (certs d1), cc_tokens = n\<rparr>,
         revokeAllSessions now fl lookupFault uid oid sessionReason (w\<lparr>w_db := cut_rows now oid uid reason by_user d1\<rparr>)))"

section \<open>Editing\<close>

text \<open>
  What a request may carry; a nullable column that is sent is \<open>Some None\<close> when it is sent as null.
  \<open>ue_order\<close> is the order in which the object holds its keys (\<open>Object.keys\<close>).
\<close>

record user_edit =
  ue_name :: "string option"
  ue_email :: "string option"
  ue_avatar :: "string option option"
  ue_role :: "string option"
  ue_roleId :: "string option"
  ue_status :: "user_status option"
  ue_manager :: "id option option"
  ue_password :: "string option"
  ue_groups :: "id list option"
  ue_order :: "string list"

definition present :: "string \<Rightarrow> 'a option \<Rightarrow> string list" where
  "present k x = (case x of None \<Rightarrow> [] | Some _ \<Rightarrow> [k])"

definition other_fields :: "user_edit \<Rightarrow> string list" where
  "other_fields x =
     present ''email'' (ue_email x) @ present ''avatarUrl'' (ue_avatar x) @ present ''role'' (ue_role x) @
     present ''roleId'' (ue_roleId x) @ present ''status'' (ue_status x) @ present ''managerId'' (ue_manager x) @
     present ''password'' (ue_password x) @ present ''groupIds'' (ue_groups x)"

text \<open>The keys with a value other than \<open>name\<close>, in the order of the object; each key that has a value is in it.\<close>

definition foreign_fields :: "user_edit \<Rightarrow> string list" where
  "foreign_fields x =
     (let sent = other_fields x
      in filter (\<lambda>k. k \<in> set sent) (ue_order x) @ filter (\<lambda>k. k \<notin> set (ue_order x)) sent)"

lemma set_foreign_fields: "set (foreign_fields x) = set (other_fields x)"
  by (auto simp: foreign_fields_def Let_def)

text \<open>The columns an update writes; \<open>None\<close> leaves one alone.\<close>

record user_patch =
  up_name :: "string option"
  up_email :: "string option"
  up_avatar :: "string option option"
  up_role :: "role option"
  up_status :: "user_status option"
  up_manager :: "id option option"
  up_hash :: "string option"

definition empty_patch :: user_patch where
  "empty_patch = \<lparr>up_name = None, up_email = None, up_avatar = None, up_role = None, up_status = None, up_manager = None, up_hash = None\<rparr>"

definition set_opt :: "'a option \<Rightarrow> ('a \<Rightarrow> user \<Rightarrow> user) \<Rightarrow> user \<Rightarrow> user" where
  "set_opt x f u = (case x of None \<Rightarrow> u | Some v \<Rightarrow> f v u)"

definition apply_patch :: "user_patch \<Rightarrow> user \<Rightarrow> user" where
  "apply_patch p u =
     set_opt (up_hash p) (\<lambda>v u. u\<lparr>usr_passwordHash := Some v\<rparr>)
    (set_opt (up_manager p) (\<lambda>v u. u\<lparr>usr_manager := v\<rparr>)
    (set_opt (up_status p) (\<lambda>v u. u\<lparr>usr_status := v\<rparr>)
    (set_opt (up_role p) (\<lambda>r u. u\<lparr>usr_roleId := Some (rol_id r), usr_role := rol_base r\<rparr>)
    (set_opt (up_avatar p) (\<lambda>v u. u\<lparr>usr_avatarUrl := v\<rparr>)
    (set_opt (up_email p) (\<lambda>v u. u\<lparr>usr_email := v\<rparr>)
    (set_opt (up_name p) (\<lambda>v u. u\<lparr>usr_name := v\<rparr>) u))))))"

definition is_self :: "actor option \<Rightarrow> id \<Rightarrow> bool" where
  "is_self a uid = (actor_id a = Some uid)"

definition cannot_change :: "string \<Rightarrow> err" where
  "cannot_change field = permission_denied (''You don't have permission to change '' @ sq field)"

definition needs :: "actor option \<Rightarrow> string \<Rightarrow> string \<Rightarrow> unit res" where
  "needs a k field = (if may a k then Inr () else Inl (cannot_change field))"

text \<open>A field that is sent and differs from the stored one.\<close>

definition changed :: "'a option \<Rightarrow> 'a \<Rightarrow> 'a option" where
  "changed new old = (case new of None \<Rightarrow> None | Some v \<Rightarrow> if v = old then None else Some v)"

definition edit_guard :: "db \<Rightarrow> id \<Rightarrow> user \<Rightarrow> user_edit \<Rightarrow> actor option \<Rightarrow> unit res" where
  "edit_guard d oid u x a =
     (if is_self a (usr_id u) \<and> foreign_fields x \<noteq> []
      then Inl (api_error 403 (''You cannot change '' @ sq (hd (foreign_fields x)) @ '' on your own account here''))
      else case (if a \<noteq> None \<and> \<not> is_self a (usr_id u) then assertCanManageUser d oid a u ''edit this user'' else Inr ()) of
        Inl er \<Rightarrow> Inl er
      | Inr _ \<Rightarrow>
          if ue_password x \<noteq> None \<and> a \<noteq> None
          then Inl (api_error 400 (''Passwords can't be set for other users'' @ dashed [] ''send a password reset link instead''))
          else Inr ())"

definition edit_fields :: "user \<Rightarrow> user_edit \<Rightarrow> actor option \<Rightarrow> user_patch res" where
  "edit_fields u x a =
     (let n = changed (ue_name x) (usr_name u); m = changed (ue_email x) (usr_email u); v = changed (ue_avatar x) (usr_avatarUrl u);
          ok = (\<lambda>f c. if c \<and> \<not> is_self a (usr_id u) then needs a ''users.update'' f else Inr ()) in
      case ok ''name'' (n \<noteq> None) of Inl er \<Rightarrow> Inl er | Inr _ \<Rightarrow>
      case ok ''email'' (m \<noteq> None) of Inl er \<Rightarrow> Inl er | Inr _ \<Rightarrow>
      case ok ''avatarUrl'' (v \<noteq> None) of Inl er \<Rightarrow> Inl er | Inr _ \<Rightarrow>
        Inr (empty_patch\<lparr>up_name := n, up_email := m, up_avatar := v\<rparr>))"

definition edit_role :: "db \<Rightarrow> id \<Rightarrow> user \<Rightarrow> user_edit \<Rightarrow> actor option \<Rightarrow> role option res" where
  "edit_role d oid u x a =
     (case requestedRole d oid (ue_roleId x) (ue_role x) of Inl er \<Rightarrow> Inl er | Inr None \<Rightarrow> Inr None | Inr (Some r) \<Rightarrow>
      if Some (rol_id r) = usr_roleId u then Inr None
      else case needs a ''users.assign_role'' ''role'' of Inl er \<Rightarrow> Inl er | Inr _ \<Rightarrow>
      case (case a of None \<Rightarrow> Inr () | Some y \<Rightarrow> assertCanActOnRole y (Some r) ''assign this role'') of Inl er \<Rightarrow> Inl er | Inr _ \<Rightarrow>
      if usr_role u = SuperAdmin \<and> rol_base r \<noteq> SuperAdmin \<and> usr_status u = Active \<and> activeSuperAdminCount d oid (usr_id u) = 0
      then Inl (api_error 409 (dashed ''This is the only active super admin'' ''make someone else super admin first''))
      else Inr (Some r))"

definition edit_status :: "db \<Rightarrow> id \<Rightarrow> user \<Rightarrow> user_edit \<Rightarrow> actor option \<Rightarrow> user_status option res" where
  "edit_status d oid u x a =
     (case changed (ue_status x) (usr_status u) of None \<Rightarrow> Inr None | Some s \<Rightarrow>
      case needs a ''users.suspend'' ''status'' of Inl er \<Rightarrow> Inl er | Inr _ \<Rightarrow>
      if usr_role u = SuperAdmin \<and> usr_status u = Active \<and> activeSuperAdminCount d oid (usr_id u) = 0
      then Inl (api_error 409 (dashed ''This is the only active super admin'' ''it cannot be suspended''))
      else Inr (Some s))"

definition edit_manager :: "db \<Rightarrow> id \<Rightarrow> user \<Rightarrow> user_edit \<Rightarrow> actor option \<Rightarrow> id option option res" where
  "edit_manager d oid u x a =
     (case ue_manager x of None \<Rightarrow> Inr None | Some m \<Rightarrow>
      case (case m of None \<Rightarrow> Inr ()
            | Some i \<Rightarrow>
                if i = usr_id u then Inl (api_error 400 ''User cannot be their own manager'')
                else if find_user d i oid = None then Inl (api_error 400 ''Manager not found in organization'')
                else if wouldCreateCycle d oid (usr_id u) i then Inl (api_error 400 ''Circular manager reference detected'')
                else Inr ()) of
        Inl er \<Rightarrow> Inl er
      | Inr _ \<Rightarrow>
          if m = usr_manager u then Inr None
          else case (if is_self a (usr_id u) then Inr () else needs a ''users.update'' ''managerId'') of
            Inl er \<Rightarrow> Inl er | Inr _ \<Rightarrow> Inr (Some m))"

text \<open>The checks of an edit in the order of the code, and the columns it writes.\<close>

definition user_patch_of :: "(string \<Rightarrow> string) \<Rightarrow> db \<Rightarrow> id \<Rightarrow> user \<Rightarrow> user_edit \<Rightarrow> actor option \<Rightarrow> user_patch res" where
  "user_patch_of hash d oid u x a =
     (case edit_guard d oid u x a of Inl er \<Rightarrow> Inl er | Inr _ \<Rightarrow>
      case edit_fields u x a of Inl er \<Rightarrow> Inl er | Inr p \<Rightarrow>
      case edit_role d oid u x a of Inl er \<Rightarrow> Inl er | Inr r \<Rightarrow>
      case edit_status d oid u x a of Inl er \<Rightarrow> Inl er | Inr s \<Rightarrow>
      case edit_manager d oid u x a of Inl er \<Rightarrow> Inl er | Inr m \<Rightarrow>
        Inr (p\<lparr>up_role := r, up_status := s, up_manager := m,
               up_hash := (if truthy (ue_password x) \<and> a = None then Some (hash (the (ue_password x))) else None)\<rparr>))"

definition from_to :: "json \<Rightarrow> json \<Rightarrow> json" where
  "from_to a b = JObj [(''from'', a), (''to'', b)]"

definition opt_str :: "string option \<Rightarrow> json" where
  "opt_str x = (case x of None \<Rightarrow> JNull | Some s \<Rightarrow> JStr s)"

definition edit_changes :: "db \<Rightarrow> user \<Rightarrow> user_patch \<Rightarrow> (string \<times> json) list" where
  "edit_changes d u p =
     (case up_name p of None \<Rightarrow> [] | Some v \<Rightarrow> [(''name'', from_to (JStr (usr_name u)) (JStr v))]) @
     (case up_email p of None \<Rightarrow> [] | Some v \<Rightarrow> [(''email'', from_to (JStr (usr_email u)) (JStr v))]) @
     (case up_avatar p of None \<Rightarrow> [] | Some _ \<Rightarrow> [(''avatarUrl'', JBool True)]) @
     (case up_role p of None \<Rightarrow> [] | Some r \<Rightarrow> [(''role'', from_to
        (JStr (case relation_role d u of None \<Rightarrow> tier_name (usr_role u) | Some q \<Rightarrow> if rol_name q = [] then tier_name (usr_role u) else rol_name q))
        (JStr (rol_name r)))]) @
     (case up_status p of None \<Rightarrow> [] | Some s \<Rightarrow> [(''status'', from_to (JStr (status_text (usr_status u))) (JStr (status_text s)))]) @
     (case up_manager p of None \<Rightarrow> [] | Some m \<Rightarrow> [(''managerId'', from_to (opt_str (usr_manager u)) (opt_str m))])"

definition edit_action :: "user_patch \<Rightarrow> string" where
  "edit_action p = (if up_role p \<noteq> None then ''user.role_changed'' else if up_status p \<noteq> None then ''user.status_changed'' else ''user.updated'')"

text \<open>The unique e-mail is checked by the database only, after the groups have been replaced.\<close>

definition email_conflict :: "db \<Rightarrow> id \<Rightarrow> id \<Rightarrow> user_patch \<Rightarrow> bool" where
  "email_conflict d oid uid p =
     (case up_email p of None \<Rightarrow> False | Some m \<Rightarrow> \<exists>u \<in> set (users d). usr_org u = oid \<and> usr_email u = m \<and> usr_id u \<noteq> uid)"

text \<open>What follows the write: a disabled account loses everything, a new role or status ends the sessions.\<close>

definition edit_follow_up :: "int \<Rightarrow> faults \<Rightarrow> bool \<Rightarrow> id \<Rightarrow> id \<Rightarrow> user_patch \<Rightarrow> actor option \<Rightarrow> world \<Rightarrow> world" where
  "edit_follow_up now fl lf oid uid p a w =
     (case up_status p of
        Some s \<Rightarrow>
          if isDisabledStatus s
          then snd (revokeAllAccessFor now fl lf oid uid (''Account '' @ status_text s) ''account_disabled'' (actor_id a) w)
          else revokeAllSessions now fl lf uid oid ''account_disabled'' w
      | None \<Rightarrow> if up_role p \<noteq> None then revokeAllSessions now fl lf uid oid ''role_changed'' w else w)"

definition updateUser ::
    "(string \<Rightarrow> string) \<Rightarrow> int \<Rightarrow> faults \<Rightarrow> bool \<Rightarrow> id \<Rightarrow> id \<Rightarrow> user_edit \<Rightarrow> actor option \<Rightarrow> string option \<Rightarrow> world \<Rightarrow> user res \<times> world" where
  "updateUser hash now fl lf oid uid x a ua w =
     (let d = w_db w in
      case find_user d uid oid of None \<Rightarrow> (Inl user_not_found, w) | Some u \<Rightarrow>
      case user_patch_of hash d oid u x a of Inl er \<Rightarrow> (Inl er, w) | Inr p \<Rightarrow>
      case (case ue_groups x of None \<Rightarrow> (Inr [], d) | Some gids \<Rightarrow> applyGroupMembership oid uid gids a ua d) of
        (Inl er, d1) \<Rightarrow> (Inl er, w\<lparr>w_db := d1\<rparr>)
      | (Inr _, d1) \<Rightarrow>
          if p = empty_patch then (Inr u, w\<lparr>w_db := d1\<rparr>)
          else if email_conflict d1 oid uid p then (Inl DbError, w\<lparr>w_db := d1\<rparr>)
          else
            let d2 = update_user_row uid (apply_patch p) d1; changes = edit_changes d u p;
                d3 = (if a \<noteq> None \<and> changes \<noteq> []
                      then auditLog oid (actor_id a) (edit_action p) ''User'' (Some uid) (Some (JObj [(''changes'', JObj changes)])) ua d2
                      else d2)
            in (Inr (apply_patch p u), edit_follow_up now fl lf oid uid p a (w\<lparr>w_db := d3\<rparr>)))"

section \<open>Administration of one account\<close>

definition unlockUser :: "id \<Rightarrow> id \<Rightarrow> actor option \<Rightarrow> db \<Rightarrow> unit res \<times> db" where
  "unlockUser oid uid a d =
     (case find_user d uid oid of None \<Rightarrow> (Inl user_not_found, d) | Some u \<Rightarrow>
      case assertCanManageUser d oid a u ''unlock this user'' of Inl er \<Rightarrow> (Inl er, d) | Inr _ \<Rightarrow>
        (Inr (), update_user_row uid (\<lambda>r. r\<lparr>usr_failedLogins := 0, usr_lockedUntil := None\<rparr>) d))"

definition adminRevokeSessions :: "int \<Rightarrow> faults \<Rightarrow> bool \<Rightarrow> id \<Rightarrow> id \<Rightarrow> actor option \<Rightarrow> world \<Rightarrow> unit res \<times> world" where
  "adminRevokeSessions now fl lf oid uid a w =
     (case find_user (w_db w) uid oid of None \<Rightarrow> (Inl user_not_found, w) | Some u \<Rightarrow>
      case assertCanManageUser (w_db w) oid a u ''sign this user out'' of Inl er \<Rightarrow> (Inl er, w) | Inr _ \<Rightarrow>
        (Inr (), revokeAllSessions now fl lf uid oid ''admin_revoked'' w))"

record user_impact =
  ui_isLastSuperAdmin :: bool
  ui_activeSessions :: nat
  ui_reports :: "id list"
  ui_pendingRequests :: nat
  ui_groupMemberships :: nat
  ui_activeCertificates :: nat
  ui_policyReferences :: nat
  ui_availableManagers :: "id list"

definition getUserDeleteImpact :: "id \<Rightarrow> id \<Rightarrow> db \<Rightarrow> user_impact res" where
  "getUserDeleteImpact oid uid d =
     (case find_user d uid oid of None \<Rightarrow> Inl user_not_found | Some u \<Rightarrow>
        Inr \<lparr>ui_isLastSuperAdmin = (usr_role u = SuperAdmin \<and> superAdminCount d oid \<le> 1),
             ui_activeSessions = count_where (\<lambda>s. ses_org s = oid \<and> ses_user s = uid \<and> ses_status s = SES_ACTIVE) (sessions d),
             ui_reports = map usr_id (filter (\<lambda>r. usr_org r = oid \<and> usr_manager r = Some uid) (users d)),
             ui_pendingRequests = count_where (standing_request oid uid) (requests d),
             ui_groupMemberships = count_where (\<lambda>m. mem_user m = uid) (memberships d),
             ui_activeCertificates = count_where (standing_cert oid uid) (certs d),
             ui_policyReferences = sum_list (map (\<lambda>p. count_where (\<lambda>s. sub_type s = USER \<and> sub_id s = uid) (pol_subjects p)) (policies d)),
             ui_availableManagers = map usr_id (filter (\<lambda>r. usr_org r = oid \<and> usr_status r \<noteq> Deleted \<and> usr_id r \<noteq> uid \<and> usr_kind r = Human) (users d))\<rparr>)"

section \<open>Deleting an account\<close>

text \<open>
  What the database does when a row of \<open>users\<close> goes (\<open>onDelete\<close> in the schema): sessions, requests,
  memberships, scopes, notifications, tokens and the vault go with it; references from
  certificates, audit entries, reviews and managers become null.
\<close>

definition forget :: "id \<Rightarrow> id option \<Rightarrow> id option" where
  "forget uid x = (if x = Some uid then None else x)"

definition delete_user_row :: "id \<Rightarrow> db \<Rightarrow> db" where
  "delete_user_row uid d =
     (let gone = req_id ` set (filter (\<lambda>r. req_requester r = uid) (requests d)) in
      d\<lparr>users := map (\<lambda>u. u\<lparr>usr_manager := forget uid (usr_manager u)\<rparr>) (filter (\<lambda>u. usr_id u \<noteq> uid) (users d)),
        memberships := map (\<lambda>m. m\<lparr>mem_addedBy := forget uid (mem_addedBy m)\<rparr>) (filter (\<lambda>m. mem_user m \<noteq> uid) (memberships d)),
        userScopes := filter (\<lambda>r. scr_owner r \<noteq> uid) (userScopes d),
        requests := map (\<lambda>r. r\<lparr>req_reviewer := forget uid (req_reviewer r), req_approvers := filter (\<lambda>a. a \<noteq> uid) (req_approvers r)\<rparr>)
                      (filter (\<lambda>r. req_requester r \<noteq> uid) (requests d)),
        certs := map (\<lambda>k. k\<lparr>cert_issuedTo := forget uid (cert_issuedTo k), cert_revokedBy := forget uid (cert_revokedBy k)\<rparr>) (certs d),
        notifications := filter (\<lambda>n. ntf_user n \<noteq> uid) (notifications d),
        audits := map (\<lambda>a. a\<lparr>aud_actor := forget uid (aud_actor a)\<rparr>) (audits d),
        sessions := map (\<lambda>s. s\<lparr>ses_request := (case ses_request s of Some i \<Rightarrow> if i \<in> gone then None else Some i | None \<Rightarrow> None)\<rparr>)
                      (filter (\<lambda>s. ses_user s \<noteq> uid) (sessions d)),
        tokens := filter (\<lambda>t. tok_user t \<noteq> uid) (tokens d),
        refreshTokens := filter (\<lambda>t. rt_user t \<noteq> uid) (refreshTokens d),
        apiTokens := map (\<lambda>t. t\<lparr>at_createdBy := forget uid (at_createdBy t), at_revokedBy := forget uid (at_revokedBy t)\<rparr>)
                       (filter (\<lambda>t. at_user t \<noteq> uid) (apiTokens d)),
        deviceRequests := map (\<lambda>r. r\<lparr>dr_user := forget uid (dr_user r)\<rparr>) (deviceRequests d),
        personalHosts := filter (\<lambda>h. ph_owner h \<noteq> uid) (personalHosts d),
        credentials := filter (\<lambda>c. cred_owner c \<noteq> Some uid) (credentials d),
        sshKeys := filter (\<lambda>k. key_owner k \<noteq> Some uid) (sshKeys d),
        identities := filter (\<lambda>i. idn_user i \<noteq> uid) (identities d)\<rparr>)"

definition drop_vault :: "id \<Rightarrow> id \<Rightarrow> db \<Rightarrow> db" where
  "drop_vault oid uid d =
     d\<lparr>personalHosts := filter (\<lambda>h. \<not> (ph_org h = oid \<and> ph_owner h = uid)) (personalHosts d),
       credentials := filter (\<lambda>c. \<not> (cred_org c = oid \<and> cred_owner c = Some uid)) (credentials d),
       sshKeys := filter (\<lambda>k. \<not> (key_org k = oid \<and> key_owner k = Some uid)) (sshKeys d)\<rparr>"

text \<open>Direct reports move to the named manager, whoever that is in the tree below.\<close>

definition reassign_reports :: "id \<Rightarrow> id \<Rightarrow> id \<Rightarrow> db \<Rightarrow> db" where
  "reassign_reports oid uid target d =
     (if target = [] then d
      else d\<lparr>users := update_where (\<lambda>u. usr_org u = oid \<and> usr_manager u = Some uid) (\<lambda>u. u\<lparr>usr_manager := Some target\<rparr>) (users d)\<rparr>)"

definition delete_guard :: "db \<Rightarrow> id \<Rightarrow> id \<Rightarrow> id \<Rightarrow> actor option \<Rightarrow> unit res" where
  "delete_guard d oid uid target a =
     (case find_user d uid oid of None \<Rightarrow> Inl user_not_found | Some u \<Rightarrow>
      case assertCanManageUser d oid a u ''delete this user'' of Inl er \<Rightarrow> Inl er | Inr _ \<Rightarrow>
      if usr_role u = SuperAdmin \<and> superAdminCount d oid \<le> 1
      then Inl (api_error 409 ''Cannot delete the only super_admin in the organization'')
      else if target \<noteq> [] \<and> target = uid then Inl (api_error 400 ''Cannot reassign reports to the user being deleted'')
      else if target \<noteq> [] \<and> \<not> holds (\<lambda>t. usr_status t \<noteq> Deleted) (find (\<lambda>t. usr_id t = target \<and> usr_org t = oid \<and> usr_status t \<noteq> Deleted) (users d))
      then Inl (api_error 400 ''Reassignment target manager not found'')
      else Inr ())"

definition deleteUser :: "int \<Rightarrow> faults \<Rightarrow> bool \<Rightarrow> id \<Rightarrow> id \<Rightarrow> id \<Rightarrow> id option \<Rightarrow> actor option \<Rightarrow> world \<Rightarrow> unit res \<times> world" where
  "deleteUser now fl lf oid uid target caller a w =
     (case delete_guard (w_db w) oid uid target a of Inl er \<Rightarrow> (Inl er, w) | Inr _ \<Rightarrow>
        let w1 = snd (terminateActiveSessionsFor now fl oid (\<lambda>r. ses_user r = uid) caller w);
            w2 = snd (revokeAllAccessFor now fl lf oid uid ''User deleted'' ''account_deleted'' caller w1);
            d3 = snd (cleanupPolicySubjects USER uid (reassign_reports oid uid target (w_db w2)))
        in (Inr (), w2\<lparr>w_db := delete_user_row uid (drop_vault oid uid d3)\<rparr>))"

definition softDeleteSelf :: "int \<Rightarrow> faults \<Rightarrow> bool \<Rightarrow> id \<Rightarrow> id \<Rightarrow> world \<Rightarrow> unit res \<times> world" where
  "softDeleteSelf now fl lf oid uid w =
     (case find_user (w_db w) uid oid of None \<Rightarrow> (Inl user_not_found, w) | Some u \<Rightarrow>
      if usr_status u = Deleted then (Inl (api_error 409 ''Account is already deleted''), w)
      else if usr_role u = SuperAdmin \<and> superAdminCount (w_db w) oid \<le> 1
      then (Inl (api_error 409 ''Cannot delete the only super_admin in the organization''), w)
      else
        let w1 = snd (revokeAllAccessFor now fl lf oid uid ''User deleted account'' ''account_deleted'' None w);
            d1 = w_db w1; d2 = d1\<lparr>refreshTokens := filter (\<lambda>t. rt_user t \<noteq> uid) (refreshTokens d1)\<rparr>
        in (Inr (), w1\<lparr>w_db := update_user_row uid (\<lambda>r. r\<lparr>usr_status := Deleted, usr_deletedAt := Some now\<rparr>) d2\<rparr>))"

section \<open>Self-service\<close>

definition SSH_PREFIXES :: "string list" where
  "SSH_PREFIXES = [''ssh-rsa '', ''ssh-ed25519 '', ''ecdsa-sha2-'']"

text \<open>\<open>split(/\s+/)\<close> of a trimmed text: its second part, if any.\<close>

definition second_word :: "string \<Rightarrow> string" where
  "second_word s = takeWhile (\<lambda>c. \<not> is_ws c) (dropWhile is_ws (dropWhile (\<lambda>c. \<not> is_ws c) s))"

definition uploadSshKey :: "id \<Rightarrow> id \<Rightarrow> string \<Rightarrow> db \<Rightarrow> unit res \<times> db" where
  "uploadSshKey oid uid key d =
     (let t = js_trim key in
      if length t < 20 \<or> 8192 < length t then (Inl (api_error 400 ''Invalid SSH key length''), d)
      else if \<not> (\<exists>p \<in> set SSH_PREFIXES. prefix p t) then (Inl (api_error 400 ''Unsupported SSH key type''), d)
      else if second_word t = [] then (Inl (api_error 400 ''Invalid SSH key format''), d)
      else case find_user d uid oid of None \<Rightarrow> (Inl user_not_found, d)
      | Some _ \<Rightarrow> (Inr (), update_user_row uid (\<lambda>r. r\<lparr>usr_sshKey := Some t\<rparr>) d))"

definition removeSshKey :: "id \<Rightarrow> id \<Rightarrow> db \<Rightarrow> unit res \<times> db" where
  "removeSshKey oid uid d =
     (case find_user d uid oid of None \<Rightarrow> (Inl user_not_found, d)
      | Some _ \<Rightarrow> (Inr (), update_user_row uid (\<lambda>r. r\<lparr>usr_sshKey := None\<rparr>) d))"

text \<open>\<open>ordered\<close> sorts by name.\<close>

definition getDirectReports :: "(user list \<Rightarrow> user list) \<Rightarrow> id \<Rightarrow> id \<Rightarrow> db \<Rightarrow> user list" where
  "getDirectReports ordered oid mgr d = ordered (filter (\<lambda>u. usr_org u = oid \<and> usr_manager u = Some mgr) (users d))"

definition updateProfile :: "id \<Rightarrow> string \<Rightarrow> db \<Rightarrow> unit res \<times> db" where
  "updateProfile uid name d =
     (case find_user_id d uid of None \<Rightarrow> (Inl user_not_found, d)
      | Some _ \<Rightarrow> (Inr (), update_user_row uid (\<lambda>r. r\<lparr>usr_name := name\<rparr>) d))"

text \<open>\<open>parsed\<close> is what \<open>utils/avatar.js\<close> makes of the data URL.\<close>

definition setAvatar :: "id \<Rightarrow> string res \<Rightarrow> db \<Rightarrow> unit res \<times> db" where
  "setAvatar uid parsed d =
     (case find_user_id d uid of None \<Rightarrow> (Inl user_not_found, d)
      | Some _ \<Rightarrow> (case parsed of Inl er \<Rightarrow> (Inl er, d) | Inr url \<Rightarrow> (Inr (), update_user_row uid (\<lambda>r. r\<lparr>usr_avatarUrl := Some url\<rparr>) d)))"

definition clearAvatar :: "id \<Rightarrow> db \<Rightarrow> unit res \<times> db" where
  "clearAvatar uid d =
     (case find_user_id d uid of None \<Rightarrow> (Inl user_not_found, d)
      | Some _ \<Rightarrow> (Inr (), update_user_row uid (\<lambda>r. r\<lparr>usr_avatarUrl := None\<rparr>) d))"

definition changePassword ::
    "auth_env \<Rightarrow> (string \<Rightarrow> string) \<Rightarrow> call \<Rightarrow> faults \<Rightarrow> bool \<Rightarrow> id \<Rightarrow> string \<Rightarrow> string \<Rightarrow> world \<Rightarrow> (string \<times> string) res \<times> world" where
  "changePassword e hash c fl lf uid cur new w =
     (case find_user_id (w_db w) uid of None \<Rightarrow> (Inl user_not_found, w) | Some u \<Rightarrow>
      if \<not> truthy (usr_passwordHash u)
      then (Inl (api_error 400 (dashed ''This account has no password yet'' ''set one from your profile instead'')), w)
      else if \<not> ae_compare e cur (the (usr_passwordHash u)) then (Inl (api_error 400 ''Current password is incorrect''), w)
      else
        let f = (\<lambda>r. r\<lparr>usr_passwordHash := Some (hash new), usr_passwordChangedAt := Some (cl_now c)\<rparr>);
            w1 = revokeAllSessions (cl_now c) fl lf uid (usr_org u) ''password_changed'' (w\<lparr>w_db := update_user_row uid f (w_db w)\<rparr>)
        in case issueSession e c (f u) ''web'' (w_db w1) of
             (s, d2) \<Rightarrow> (Inr (sp_access s, sp_refresh s), w1\<lparr>w_db := d2\<rparr>))"

definition ALLOWED_PREF_KEYS :: "string list" where
  "ALLOWED_PREF_KEYS = [''emailNotifications'', ''expiringSoonAlerts'']"

definition getPreferences :: "id \<Rightarrow> db \<Rightarrow> json res" where
  "getPreferences uid d =
     (case find_user_id d uid of None \<Rightarrow> Inl user_not_found
      | Some u \<Rightarrow> Inr (if json_is_object (Some (usr_preferences u)) then usr_preferences u else JObj []))"

fun put_all :: "(string \<times> json) list \<Rightarrow> json \<Rightarrow> json" where
  "put_all [] j = j"
| "put_all ((k, v) # kvs) j = put_all kvs (json_put j k v)"

definition updatePreferences :: "id \<Rightarrow> json \<Rightarrow> db \<Rightarrow> json res \<times> db" where
  "updatePreferences uid x d =
     (case getPreferences uid d of Inl er \<Rightarrow> (Inl er, d) | Inr cur \<Rightarrow>
        let patch = List.map_filter (\<lambda>k. map_option (Pair k) (json_get x k)) ALLOWED_PREF_KEYS; merged = put_all patch cur
        in (Inr merged, update_user_row uid (\<lambda>r. r\<lparr>usr_preferences := merged\<rparr>) d))"

section \<open>Why an account sees what it sees\<close>

datatype scope_reason = UserAll | GroupAll | ScopeUnion | ScopeEmpty

record scope_sources =
  sx_direct :: "id list"
  sx_groups :: "(id \<times> access_scope \<times> id list) list"

definition scope_sources_of :: "id \<Rightarrow> id \<Rightarrow> db \<Rightarrow> scope_sources" where
  "scope_sources_of oid uid d =
     \<lparr>sx_direct = map scr_customer (filter (\<lambda>r. scr_owner r = uid) (userScopes d)),
      sx_groups = map (\<lambda>g. (grp_id g, grp_scope g, map scr_customer (filter (\<lambda>r. scr_owner r = grp_id g) (groupScopes d))))
                    (filter (\<lambda>g. grp_org g = oid) (user_groups d uid))\<rparr>"

definition getEffectiveScope :: "id \<Rightarrow> id \<Rightarrow> db \<Rightarrow> (scope \<times> scope_reason \<times> scope_sources) res" where
  "getEffectiveScope oid uid d =
     (case find_user d uid oid of None \<Rightarrow> Inl user_not_found | Some u \<Rightarrow>
        let src = scope_sources_of oid uid d in
        if usr_role u = SuperAdmin \<or> usr_scope u \<noteq> SCOPE_CUSTOMERS then Inr (ScopeAll, UserAll, src)
        else if \<exists>g \<in> set (sx_groups src). fst (snd g) = SCOPE_ALL then Inr (ScopeAll, GroupAll, src)
        else
          let ids = uniq (sx_direct src @ concat (map (\<lambda>g. snd (snd g)) (filter (\<lambda>g. fst (snd g) = SCOPE_CUSTOMERS) (sx_groups src))))
          in Inr (ScopeCustomers ids, if ids = [] then ScopeEmpty else ScopeUnion, src))"

end
