(* ===== verification/Tenancy.thy ===== *)
theory Tenancy
  imports Users
begin

text \<open>
  Groups (\<open>backend/src/services/groupService.js\<close>) and customers
  (\<open>backend/src/services/customerService.js\<close>): membership, the customer scope a group adds to
  its members, and the deletion of either with what depends on it.
\<close>

section \<open>Groups\<close>

definition group_not_found :: err where
  "group_not_found = api_error 404 ''Group not found''"

definition find_group :: "db \<Rightarrow> id \<Rightarrow> id \<Rightarrow> grp option" where
  "find_group d gid oid = find (\<lambda>g. grp_id g = gid \<and> grp_org g = oid) (groups d)"

definition update_group :: "id \<Rightarrow> (grp \<Rightarrow> grp) \<Rightarrow> db \<Rightarrow> db" where
  "update_group gid f d = d\<lparr>groups := update_where (\<lambda>g. grp_id g = gid) f (groups d)\<rparr>"

definition name_taken :: "db \<Rightarrow> id \<Rightarrow> id \<Rightarrow> string \<Rightarrow> bool" where
  "name_taken d oid except name = (\<exists>g \<in> set (groups d). grp_org g = oid \<and> grp_name g = name \<and> grp_id g \<noteq> except)"

text \<open>\<open>ordered\<close> sorts by name; the number is the count of members.\<close>

definition listGroups :: "(grp list \<Rightarrow> grp list) \<Rightarrow> id \<Rightarrow> db \<Rightarrow> (grp \<times> nat) list" where
  "listGroups ordered oid d =
     map (\<lambda>g. (g, count_where (\<lambda>m. mem_group m = grp_id g) (memberships d))) (ordered (filter (\<lambda>g. grp_org g = oid) (groups d)))"

definition getGroup :: "id \<Rightarrow> id \<Rightarrow> db \<Rightarrow> (grp \<times> membership list \<times> id list) res" where
  "getGroup oid gid d =
     (case find_group d gid oid of None \<Rightarrow> Inl group_not_found
      | Some g \<Rightarrow> Inr (g, filter (\<lambda>m. mem_group m = gid) (memberships d),
                       map scr_customer (filter (\<lambda>r. scr_owner r = gid) (groupScopes d))))"

definition createGroup :: "id \<Rightarrow> id \<Rightarrow> string \<Rightarrow> string option \<Rightarrow> db \<Rightarrow> grp res \<times> db" where
  "createGroup newId oid name descr d =
     (if name = [] then (Inl (api_error 400 ''name is required''), d)
      else if name_taken d oid [] name then (Inl (api_error 409 ''Group name already exists''), d)
      else
        let g = \<lparr>grp_id = newId, grp_org = oid, grp_name = name, grp_scope = SCOPE_CUSTOMERS,
                 grp_description = (if truthy descr then descr else None)\<rparr>
        in (Inr g, d\<lparr>groups := groups d @ [g]\<rparr>))"

definition updateGroup :: "id \<Rightarrow> id \<Rightarrow> string option \<Rightarrow> string option option \<Rightarrow> db \<Rightarrow> unit res \<times> db" where
  "updateGroup oid gid name descr d =
     (case find_group d gid oid of None \<Rightarrow> (Inl group_not_found, d) | Some _ \<Rightarrow>
      if holds (name_taken d oid gid) name then (Inl (api_error 409 ''Group name already exists''), d)
      else (Inr (), update_group gid (\<lambda>g. g\<lparr>grp_name := (case name of None \<Rightarrow> grp_name g | Some n \<Rightarrow> n),
                grp_description := (case descr of None \<Rightarrow> grp_description g | Some x \<Rightarrow> x)\<rparr>) d))"

text \<open>A policy is left empty when the group is its only subject.\<close>

record group_impact =
  gi_members :: nat
  gi_policies :: "(id \<times> string \<times> bool) list"
  gi_leftEmpty :: nat

definition getGroupDeleteImpact :: "id \<Rightarrow> id \<Rightarrow> db \<Rightarrow> group_impact res" where
  "getGroupDeleteImpact oid gid d =
     (case find_group d gid oid of None \<Rightarrow> Inl group_not_found | Some _ \<Rightarrow>
        let ps = map (\<lambda>p. (pol_id p, pol_name p, length (pol_subjects p) \<le> 1))
                   (filter (\<lambda>p. pol_org p = oid \<and> (\<exists>s \<in> set (pol_subjects p). sub_type s = GROUP \<and> sub_id s = gid)) (policies d))
        in Inr \<lparr>gi_members = count_where (\<lambda>m. mem_group m = gid) (memberships d), gi_policies = ps,
                gi_leftEmpty = count_where (\<lambda>p. snd (snd p)) ps\<rparr>)"

definition deleteGroup :: "id \<Rightarrow> id \<Rightarrow> db \<Rightarrow> unit res \<times> db" where
  "deleteGroup oid gid d =
     (case find_group d gid oid of None \<Rightarrow> (Inl group_not_found, d) | Some _ \<Rightarrow>
        let d1 = snd (cleanupPolicySubjects GROUP gid d)
        in (Inr (), d1\<lparr>groups := filter (\<lambda>g. grp_id g \<noteq> gid) (groups d1),
                       memberships := filter (\<lambda>m. mem_group m \<noteq> gid) (memberships d1),
                       groupScopes := filter (\<lambda>r. scr_owner r \<noteq> gid) (groupScopes d1)\<rparr>))"

definition is_member :: "db \<Rightarrow> id \<Rightarrow> id \<Rightarrow> bool" where
  "is_member d gid uid = (\<exists>m \<in> set (memberships d). mem_group m = gid \<and> mem_user m = uid)"

definition addMember :: "id \<Rightarrow> id \<Rightarrow> id \<Rightarrow> id option \<Rightarrow> db \<Rightarrow> membership res \<times> db" where
  "addMember oid gid uid addedBy d =
     (case find_group d gid oid of None \<Rightarrow> (Inl group_not_found, d) | Some _ \<Rightarrow>
      case find_user d uid oid of None \<Rightarrow> (Inl (api_error 404 ''User not found in organization''), d) | Some _ \<Rightarrow>
      if is_member d gid uid then (Inl (api_error 409 ''User is already a member''), d)
      else
        let m = \<lparr>mem_group = gid, mem_user = uid, mem_addedBy = (if truthy addedBy then addedBy else None)\<rparr>
        in (Inr m, d\<lparr>memberships := memberships d @ [m]\<rparr>))"

definition removeMember :: "id \<Rightarrow> id \<Rightarrow> id \<Rightarrow> db \<Rightarrow> unit res \<times> db" where
  "removeMember oid gid uid d =
     (case find_group d gid oid of None \<Rightarrow> (Inl group_not_found, d) | Some _ \<Rightarrow>
      if \<not> is_member d gid uid then (Inl (api_error 404 ''Membership not found''), d)
      else (Inr (), d\<lparr>memberships := filter (\<lambda>m. \<not> (mem_group m = gid \<and> mem_user m = uid)) (memberships d)\<rparr>))"

definition getUserGroups :: "id \<Rightarrow> id \<Rightarrow> db \<Rightarrow> grp list" where
  "getUserGroups oid uid d = filter (\<lambda>g. grp_org g = oid) (user_groups d uid)"

text \<open>Which customers exist for the caller; the same answer for those it may not see.\<close>

definition grantable_customers :: "db \<Rightarrow> id \<Rightarrow> scope \<Rightarrow> id list \<Rightarrow> customer list" where
  "grantable_customers d oid caller want =
     filter (\<lambda>c. cus_id c \<in> set want \<and> cus_org c = oid \<and> customerScopeWhere caller c) (customers d)"

definition assignGroupScope :: "id \<Rightarrow> id \<Rightarrow> access_scope \<Rightarrow> id list \<Rightarrow> actor option \<Rightarrow> scope \<Rightarrow> string option \<Rightarrow> db \<Rightarrow> id list res \<times> db" where
  "assignGroupScope oid gid sc ids a caller ua d =
     (if \<not> may a ''users.assign_scope'' then (Inl (permission_denied ''You don't have permission to assign customer scope''), d)
      else case find_group d gid oid of None \<Rightarrow> (Inl group_not_found, d) | Some g \<Rightarrow>
        let want = (if sc = SCOPE_CUSTOMERS then uniq ids else []) in
        if want \<noteq> [] \<and> length (grantable_customers d oid caller want) \<noteq> length want
        then (Inl (api_error 404 ''One or more customers not found''), d)
        else
          let before = map scr_customer (filter (\<lambda>r. scr_owner r = gid) (groupScopes d));
              d1 = update_group gid (\<lambda>x. x\<lparr>grp_scope := sc\<rparr>) d;
              d2 = d1\<lparr>groupScopes := filter (\<lambda>r. scr_owner r \<noteq> gid) (groupScopes d1) @ map (\<lambda>c. \<lparr>scr_owner = gid, scr_customer = c\<rparr>) want\<rparr>
          in (Inr want,
              if a = None then d2
              else auditLog oid (actor_id a) ''group.scope.updated'' ''Group'' (Some gid)
                     (Some (JObj [(''accessScope'', JObj [(''from'', JStr (scope_text (grp_scope g))), (''to'', JStr (scope_text sc))]),
                       (''before'', customer_briefs d before),
                       (''after'', customer_briefs d (map cus_id (grantable_customers d oid caller want)))])) ua d2))"

section \<open>Customers\<close>

definition customer_not_found :: err where
  "customer_not_found = api_error 404 ''Customer not found''"

definition is_slug_char :: "char \<Rightarrow> bool" where
  "is_slug_char c = (is_lower_alnum c \<or> c = CHR ''-'')"

text \<open>\<open>/^[a-z0-9-]{3,30}$/\<close>\<close>

definition SLUG_RE :: "string \<Rightarrow> bool" where
  "SLUG_RE s = (3 \<le> length s \<and> length s \<le> 30 \<and> (\<forall>c \<in> set s. is_slug_char c))"

text \<open>Runs of blanks, then runs of hyphens, become one hyphen; one is dropped at either end.\<close>

fun collapse :: "(char \<Rightarrow> bool) \<Rightarrow> bool \<Rightarrow> string \<Rightarrow> string" where
  "collapse P run [] = []"
| "collapse P run (c # cs) =
     (if P c then (if run then collapse P True cs else CHR ''-'' # collapse P True cs) else c # collapse P False cs)"

definition drop_one :: "char \<Rightarrow> string \<Rightarrow> string" where
  "drop_one c s = (case s of [] \<Rightarrow> [] | x # xs \<Rightarrow> if x = c then xs else s)"

definition customer_slug :: "string \<Rightarrow> string" where
  "customer_slug name =
     (let s1 = filter (\<lambda>c. is_lower_alnum c \<or> is_ws c \<or> c = CHR ''-'') (js_trim (lower name));
          s2 = collapse (\<lambda>c. c = CHR ''-'') False (collapse is_ws False s1)
      in take 30 (rev (drop_one (CHR ''-'') (rev (drop_one (CHR ''-'') s2)))))"

definition find_customer :: "db \<Rightarrow> id \<Rightarrow> id \<Rightarrow> scope \<Rightarrow> customer option" where
  "find_customer d cid oid sc = find (\<lambda>c. cus_id c = cid \<and> cus_org c = oid \<and> customerScopeWhere sc c) (customers d)"

definition servers_of :: "db \<Rightarrow> id \<Rightarrow> id \<Rightarrow> server list" where
  "servers_of d oid cid = filter (\<lambda>s. srv_org s = oid \<and> srv_customer s = cid) (servers d)"

record customer_filters =
  cf_page :: nat
  cf_pageSize :: nat
  cf_search :: string
  cf_active :: "bool option"
  cf_hasServers :: "bool option"

definition customer_where :: "id \<Rightarrow> scope \<Rightarrow> customer_filters \<Rightarrow> db \<Rightarrow> customer \<Rightarrow> bool" where
  "customer_where oid sc f d c \<longleftrightarrow>
     cus_org c = oid \<and> customerScopeWhere sc c \<and>
     (cf_search f \<noteq> [] \<longrightarrow> contains_ci (cf_search f) (cus_name c) \<or> contains_ci (cf_search f) (cus_slug c)) \<and>
     (case cf_active f of None \<Rightarrow> True | Some b \<Rightarrow> cus_isActive c = b) \<and>
     (case cf_hasServers f of None \<Rightarrow> True | Some b \<Rightarrow> (\<exists>s \<in> set (servers d). srv_customer s = cus_id c) = b)"

definition listCustomers :: "(customer list \<Rightarrow> customer list) \<Rightarrow> id \<Rightarrow> customer_filters \<Rightarrow> scope \<Rightarrow> db \<Rightarrow> customer list \<times> nat" where
  "listCustomers ordered oid f sc d =
     (let rows = filter (customer_where oid sc f d) (customers d)
      in (page_of (page_no (cf_page f)) (page_size (cf_pageSize f)) (ordered rows), length rows))"

definition getCustomer :: "id \<Rightarrow> id \<Rightarrow> scope \<Rightarrow> db \<Rightarrow> (customer \<times> nat) res" where
  "getCustomer oid cid sc d =
     (case find_customer d cid oid sc of None \<Rightarrow> Inl customer_not_found
      | Some c \<Rightarrow> Inr (c, count_where (\<lambda>s. srv_customer s = cid) (servers d)))"

definition createCustomer :: "id \<Rightarrow> id \<Rightarrow> string \<Rightarrow> string option \<Rightarrow> string option \<Rightarrow> scope \<Rightarrow> id option \<Rightarrow> db \<Rightarrow> customer res \<times> db" where
  "createCustomer newId oid name sl descr sc creator d =
     (if name = [] then (Inl (api_error 400 ''name is required''), d)
      else
        let s = (if truthy sl then js_trim (lower (the sl)) else customer_slug name) in
        if \<not> SLUG_RE s then (Inl (api_error 400 ''slug must be 3-30 characters, lowercase letters, numbers and hyphens only''), d)
        else if \<exists>c \<in> set (customers d). cus_org c = oid \<and> cus_slug c = s then (Inl (api_error 409 ''Customer slug already exists''), d)
        else
          let c = \<lparr>cus_id = newId, cus_org = oid, cus_name = name, cus_slug = s,
                   cus_description = (if truthy descr then descr else None), cus_isActive = True\<rparr>;
              own = (if \<not> isUnscoped sc \<and> truthy creator then [\<lparr>scr_owner = the creator, scr_customer = newId\<rparr>] else [])
          in (Inr c, d\<lparr>customers := customers d @ [c], userScopes := userScopes d @ own\<rparr>))"

definition updateCustomer :: "id \<Rightarrow> id \<Rightarrow> string option \<Rightarrow> string option option \<Rightarrow> bool option \<Rightarrow> scope \<Rightarrow> db \<Rightarrow> unit res \<times> db" where
  "updateCustomer oid cid name descr active sc d =
     (case find_customer d cid oid sc of None \<Rightarrow> (Inl customer_not_found, d) | Some _ \<Rightarrow>
        (Inr (), d\<lparr>customers := update_where (\<lambda>c. cus_id c = cid)
            (\<lambda>c. c\<lparr>cus_name := (case name of None \<Rightarrow> cus_name c | Some n \<Rightarrow> n),
                   cus_description := (case descr of None \<Rightarrow> cus_description c | Some x \<Rightarrow> x),
                   cus_isActive := (case active of None \<Rightarrow> cus_isActive c | Some b \<Rightarrow> b)\<rparr>) (customers d)\<rparr>))"

definition customerDeleteImpact :: "id \<Rightarrow> id \<Rightarrow> scope \<Rightarrow> db \<Rightarrow> (id list \<times> id list) res" where
  "customerDeleteImpact oid cid sc d =
     (case find_customer d cid oid sc of None \<Rightarrow> Inl customer_not_found | Some _ \<Rightarrow>
        Inr (map srv_id (servers_of d oid cid), map pol_id (filter (\<lambda>p. pol_org p = oid \<and> pol_customer p = Some cid) (policies d))))"

datatype strategy = Reassign | Remove | Unchosen

record customer_deletion =
  xd_servers :: strategy
  xd_target :: id
  xd_policies :: strategy
  xd_policyTarget :: id

text \<open>
  The two steps before the row goes, each of its own: what the first has written stays when the
  second refuses.
\<close>

definition settle_servers :: "id \<Rightarrow> id \<Rightarrow> customer_deletion \<Rightarrow> scope \<Rightarrow> db \<Rightarrow> unit res \<times> db" where
  "settle_servers oid cid x sc d =
     (if \<not> (\<exists>s \<in> set (servers d). srv_customer s = cid) then (Inr (), d)
      else case xd_servers x of
        Reassign \<Rightarrow>
          if xd_target x = [] \<or> xd_target x = cid
          then (Inl (api_error 400 ''A different target customer is required to reassign servers''), d)
          else if find_customer d (xd_target x) oid sc = None then (Inl (api_error 400 ''Target customer not found''), d)
          else (Inr (), d\<lparr>servers := update_where (\<lambda>s. srv_customer s = cid \<and> srv_org s = oid) (\<lambda>s. s\<lparr>srv_customer := xd_target x\<rparr>) (servers d)\<rparr>)
      | Remove \<Rightarrow> (Inr (), d)
      | Unchosen \<Rightarrow> (Inl (api_error 409 ''Customer has servers; choose to reassign or delete them.''), d))"

definition settle_policies :: "id \<Rightarrow> id \<Rightarrow> customer_deletion \<Rightarrow> scope \<Rightarrow> db \<Rightarrow> unit res \<times> db" where
  "settle_policies oid cid x sc d =
     (let mine = (\<lambda>p. pol_org p = oid \<and> pol_customer p = Some cid) in
      case xd_policies x of
        Remove \<Rightarrow> (Inr (), d\<lparr>policies := filter (\<lambda>p. \<not> mine p) (policies d)\<rparr>)
      | Reassign \<Rightarrow>
          let target = (if xd_policyTarget x = [] then xd_target x else xd_policyTarget x) in
          if target = [] \<or> target = cid
          then (Inl (api_error 400 ''A different target customer is required to reassign policies''), d)
          else if find_customer d target oid sc = None then (Inl (api_error 400 ''Target customer not found for policies''), d)
          else (Inr (), d\<lparr>policies := update_where mine (\<lambda>p. p\<lparr>pol_customer := Some target\<rparr>) (policies d)\<rparr>)
      | Unchosen \<Rightarrow> (Inr (), d\<lparr>policies := update_where mine (\<lambda>p. p\<lparr>pol_active := False\<rparr>) (policies d)\<rparr>))"

text \<open>
  What goes with the row: its servers with their requests and sessions, and every scope row that
  names it; policies and certificates lose the reference.
\<close>

definition delete_customer_row :: "id \<Rightarrow> db \<Rightarrow> db" where
  "delete_customer_row cid d =
     (let gone = srv_id ` set (filter (\<lambda>s. srv_customer s = cid) (servers d));
          lost = req_id ` set (filter (\<lambda>r. req_server r \<in> gone) (requests d)) in
      d\<lparr>customers := filter (\<lambda>c. cus_id c \<noteq> cid) (customers d),
        servers := filter (\<lambda>s. srv_customer s \<noteq> cid) (servers d),
        requests := filter (\<lambda>r. req_server r \<notin> gone) (requests d),
        sessions := map (\<lambda>s. s\<lparr>ses_request := (case ses_request s of Some i \<Rightarrow> if i \<in> lost then None else Some i | None \<Rightarrow> None)\<rparr>)
          (filter (\<lambda>s. case ses_server s of None \<Rightarrow> True | Some i \<Rightarrow> i \<notin> gone) (sessions d)),
        certs := map (\<lambda>k. k\<lparr>cert_issuedFor := (case cert_issuedFor k of None \<Rightarrow> None | Some i \<Rightarrow> if i \<in> gone then None else Some i)\<rparr>) (certs d),
        policies := map (\<lambda>p. p\<lparr>pol_customer := (if pol_customer p = Some cid then None else pol_customer p)\<rparr>) (policies d),
        userScopes := filter (\<lambda>r. scr_customer r \<noteq> cid) (userScopes d),
        groupScopes := filter (\<lambda>r. scr_customer r \<noteq> cid) (groupScopes d)\<rparr>)"

definition deleteCustomer :: "id \<Rightarrow> id \<Rightarrow> customer_deletion \<Rightarrow> scope \<Rightarrow> db \<Rightarrow> unit res \<times> db" where
  "deleteCustomer oid cid x sc d =
     (case find_customer d cid oid sc of None \<Rightarrow> (Inl customer_not_found, d) | Some _ \<Rightarrow>
      case settle_servers oid cid x sc d of (Inl er, d1) \<Rightarrow> (Inl er, d1) | (Inr _, d1) \<Rightarrow>
      case settle_policies oid cid x sc d1 of (Inl er, d2) \<Rightarrow> (Inl er, d2) | (Inr _, d2) \<Rightarrow>
        (Inr (), delete_customer_row cid d2))"

definition getCustomerStats :: "id \<Rightarrow> id \<Rightarrow> scope \<Rightarrow> db \<Rightarrow> ((environment \<Rightarrow> nat) \<times> nat) res" where
  "getCustomerStats oid cid sc d =
     (case find_customer d cid oid sc of None \<Rightarrow> Inl customer_not_found | Some _ \<Rightarrow>
        Inr (\<lambda>e. count_where (\<lambda>s. srv_env s = e) (servers_of d oid cid), length (servers_of d oid cid)))"

end
