(* ===== verification/ServiceAccounts.thy ===== *)
theory ServiceAccounts
  imports Tenancy UserEdits "HOL-Library.Char_ord" "HOL-Library.List_Lexorder"
begin

text \<open>
  Machine identities (\<open>backend/src/services/serviceAccountService.js\<close>), the device flow of the
  terminal client (\<open>deviceAuthService.js\<close>) and the one-time links of invitations and password
  resets (\<open>inviteService.js\<close>).
\<close>

section \<open>Service accounts\<close>

definition SERVICE_EMAIL_DOMAIN :: string where "SERVICE_EMAIL_DOMAIN = ''service.invalid''"

text \<open>\<open>replace(/[^a-z0-9]+/g, '-').replace(/^-|-$/g, '').slice(0, 40) || 'service'\<close>\<close>

definition service_slug :: "string \<Rightarrow> string" where
  "service_slug name =
     (let s = collapse (\<lambda>c. \<not> is_lower_alnum c) False (lower name);
          t = take 40 (rev (drop_one (CHR ''-'') (rev (drop_one (CHR ''-'') s))))
      in if t = [] then ''service'' else t)"

definition serviceEmailFor :: "string \<Rightarrow> string \<Rightarrow> string" where
  "serviceEmailFor name sfx = ''svc-'' @ service_slug name @ ''-'' @ sfx @ ''@'' @ SERVICE_EMAIL_DOMAIN"

definition no_service_account :: err where
  "no_service_account = api_error 404 ''Service account not found''"

definition find_service :: "db \<Rightarrow> id \<Rightarrow> id \<Rightarrow> user option" where
  "find_service d i oid = find (\<lambda>u. usr_id u = i \<and> usr_org u = oid \<and> usr_kind u = Service) (users d)"

definition resolveAssignableRole :: "db \<Rightarrow> id \<Rightarrow> string \<Rightarrow> actor option \<Rightarrow> role res" where
  "resolveAssignableRole d oid ref a =
     (case resolveRole d oid ref of None \<Rightarrow> Inl (api_error 400 ''Role not found'') | Some r \<Rightarrow>
      if rol_base r = SuperAdmin
      then Inl (ApiError 400 ''A service account can never be a super admin'' (Some ''ROLE_NOT_ASSIGNABLE''))
      else case (case a of None \<Rightarrow> Inr () | Some x \<Rightarrow> assertCanActOnRole x (Some r) ''give a service account this role'') of
        Inl er \<Rightarrow> Inl er | Inr _ \<Rightarrow> Inr r)"

text \<open>Unlike the grants to people, this one does not look at the caller's own scope.\<close>

definition normalizeScope :: "db \<Rightarrow> id \<Rightarrow> access_scope \<Rightarrow> id list \<Rightarrow> id list res" where
  "normalizeScope d oid sc ids =
     (let want = (if sc = SCOPE_CUSTOMERS then uniq ids else []) in
      if sc = SCOPE_CUSTOMERS \<and> want = []
      then Inl (api_error 400 ''Choose at least one customer, or give the account access to all of them'')
      else if want \<noteq> [] \<and> count_where (\<lambda>c. cus_id c \<in> set want \<and> cus_org c = oid) (customers d) \<noteq> length want
      then Inl (api_error 400 ''One of those customers does not exist'')
      else Inr want)"

record service_data =
  sd_name :: string
  sd_description :: "string option"
  sd_role :: string
  sd_scope :: access_scope
  sd_customers :: "id list"

definition createServiceAccount :: "id \<Rightarrow> string \<Rightarrow> id \<Rightarrow> service_data \<Rightarrow> actor option \<Rightarrow> db \<Rightarrow> user res \<times> db" where
  "createServiceAccount newId sfx oid x a d =
     (let name = js_trim (sd_name x) in
      if name = [] then (Inl (api_error 400 ''Name is required''), d)
      else case resolveAssignableRole d oid (sd_role x) a of Inl er \<Rightarrow> (Inl er, d) | Inr r \<Rightarrow>
      case normalizeScope d oid (sd_scope x) (sd_customers x) of Inl er \<Rightarrow> (Inl er, d) | Inr ids \<Rightarrow>
      if email_taken d oid (serviceEmailFor name sfx) then (Inl DbError, d)
      else
        let u = (blank_user newId oid (serviceEmailFor name sfx) name r)\<lparr>usr_kind := Service, usr_scope := sd_scope x,
                  usr_description := (if truthy (sd_description x) then Some (js_trim (the (sd_description x))) else None)\<rparr>;
            d1 = d\<lparr>users := users d @ [u], userScopes := userScopes d @ map (\<lambda>c. \<lparr>scr_owner = newId, scr_customer = c\<rparr>) ids\<rparr>
        in (Inr u, auditLog oid (actor_id a) ''service_account.create'' ''User'' (Some newId)
              (Some (JObj [(''name'', JStr name), (''role'', JStr (rol_name r)), (''accessScope'', JStr (scope_text (sd_scope x))),
                (''customerIds'', JArr (map JStr ids))])) None d1))"

record service_edit =
  se_name :: "string option"
  se_description :: "string option option"
  se_role :: "string option"
  se_status :: "user_status option"
  se_scope :: "access_scope option"
  se_customers :: "id list"

definition service_role :: "db \<Rightarrow> id \<Rightarrow> user \<Rightarrow> service_edit \<Rightarrow> actor option \<Rightarrow> role option res" where
  "service_role d oid u x a =
     (case se_role x of None \<Rightarrow> Inr None | Some ref \<Rightarrow>
      if Some ref = usr_roleId u then Inr None
      else case (case (relation_role d u, a) of (Some r, Some y) \<Rightarrow> assertCanActOnRole y (Some r) ''change this service account'' | _ \<Rightarrow> Inr ()) of
        Inl er \<Rightarrow> Inl er
      | Inr _ \<Rightarrow> (case resolveAssignableRole d oid ref a of Inl er \<Rightarrow> Inl er | Inr r \<Rightarrow> Inr (Some r)))"

definition service_patch :: "db \<Rightarrow> id \<Rightarrow> user \<Rightarrow> service_edit \<Rightarrow> actor option \<Rightarrow> ((user \<Rightarrow> user) \<times> id list option \<times> role option \<times> user_status option) res" where
  "service_patch d oid u x a =
     (if holds (\<lambda>n. js_trim n = []) (se_name x) then Inl (api_error 400 ''Name is required'')
      else case service_role d oid u x a of Inl er \<Rightarrow> Inl er | Inr r \<Rightarrow>
        let st = changed (se_status x) (usr_status u) in
        if holds (\<lambda>s. s \<notin> {Active, Deactivated}) st then Inl (api_error 400 ''A service account is either active or deactivated'')
        else case (case se_scope x of None \<Rightarrow> Inr None | Some sc \<Rightarrow>
               (case normalizeScope d oid sc (se_customers x) of Inl er \<Rightarrow> Inl er | Inr ids \<Rightarrow> Inr (Some ids))) of
          Inl er \<Rightarrow> Inl er
        | Inr ids \<Rightarrow>
            Inr (\<lambda>v. set_opt (se_scope x) (\<lambda>s v. v\<lparr>usr_scope := s\<rparr>)
                    (set_opt st (\<lambda>s v. v\<lparr>usr_status := s\<rparr>)
                    (set_opt r (\<lambda>q v. v\<lparr>usr_roleId := Some (rol_id q), usr_role := rol_base q\<rparr>)
                    (set_opt (se_description x) (\<lambda>t v. v\<lparr>usr_description := (if truthy t then Some (js_trim (the t)) else None)\<rparr>)
                    (set_opt (se_name x) (\<lambda>n v. v\<lparr>usr_name := js_trim n\<rparr>) v)))), ids, r, st))"

text \<open>\<open>ids.join() !== existing.sort().join()\<close>: the new customers are compared as they were sent.\<close>

definition scope_differs :: "db \<Rightarrow> user \<Rightarrow> access_scope \<Rightarrow> id list \<Rightarrow> bool" where
  "scope_differs d u sc ids =
     (sc \<noteq> usr_scope u \<or> join '','' ids \<noteq> join '','' (sort (map scr_customer (filter (\<lambda>r. scr_owner r = usr_id u) (userScopes d)))))"

definition service_changes :: "db \<Rightarrow> user \<Rightarrow> service_edit \<Rightarrow> id list option \<Rightarrow> role option \<Rightarrow> user_status option \<Rightarrow> (string \<times> json) list" where
  "service_changes d u x ids r st =
     (case se_name x of None \<Rightarrow> [] | Some n \<Rightarrow> [(''name'', from_to (JStr (usr_name u)) (JStr (js_trim n)))]) @
     (case r of None \<Rightarrow> [] | Some q \<Rightarrow> [(''role'', from_to (opt_str (map_option rol_name (relation_role d u))) (JStr (rol_name q)))]) @
     (case st of None \<Rightarrow> [] | Some s \<Rightarrow> [(''status'', from_to (JStr (status_text (usr_status u))) (JStr (status_text s)))]) @
     (case (se_scope x, ids) of
        (Some sc, Some cs) \<Rightarrow> if scope_differs d u sc cs then [(''accessScope'', from_to (JStr (scope_text (usr_scope u))) (JStr (scope_text sc)))] else []
      | _ \<Rightarrow> [])"

definition updateServiceAccount :: "int \<Rightarrow> id \<Rightarrow> id \<Rightarrow> service_edit \<Rightarrow> actor option \<Rightarrow> db \<Rightarrow> unit res \<times> db" where
  "updateServiceAccount now oid i x a d =
     (case find_service d i oid of None \<Rightarrow> (Inl no_service_account, d) | Some u \<Rightarrow>
      case service_patch d oid u x a of Inl er \<Rightarrow> (Inl er, d) | Inr (f, ids, r, st) \<Rightarrow>
        let d1 = (case ids of None \<Rightarrow> d | Some cs \<Rightarrow> set_scope_rows i cs d);
            d2 = update_user_row i f d1;
            changes = service_changes d u x ids r st;
            d3 = (if changes = [] then d2
                  else auditLog oid (actor_id a) (if r \<noteq> None then ''service_account.role_changed'' else ''service_account.update'') ''User'' (Some i)
                    (Some (JObj [(''name'', JStr (usr_name (f u))), (''changes'', JObj changes)])) None d2)
        in (Inr (), if st = Some Deactivated then snd (revokeAllTokens now oid i ''Service account deactivated'' (actor_id a) d3) else d3))"

definition act_on_service :: "db \<Rightarrow> user \<Rightarrow> actor option \<Rightarrow> string \<Rightarrow> unit res" where
  "act_on_service d u a what =
     (case (relation_role d u, a) of (Some r, Some y) \<Rightarrow> assertCanActOnRole y (Some r) what | _ \<Rightarrow> Inr ())"

text \<open>The audit entry comes first: deleting the row takes its name out of every other entry.\<close>

definition removeServiceAccount :: "id \<Rightarrow> id \<Rightarrow> actor option \<Rightarrow> db \<Rightarrow> unit res \<times> db" where
  "removeServiceAccount oid i a d =
     (case find_service d i oid of None \<Rightarrow> (Inl no_service_account, d) | Some u \<Rightarrow>
      case act_on_service d u a ''delete this service account'' of Inl er \<Rightarrow> (Inl er, d) | Inr _ \<Rightarrow>
        (Inr (), delete_user_row i
          (auditLog oid (actor_id a) ''service_account.delete'' ''User'' (Some i)
             (Some (JObj [(''name'', JStr (usr_name u)), (''role'', opt_str (map_option rol_name (relation_role d u)))])) None d)))"

definition issueServiceToken ::
    "(int \<Rightarrow> string) \<Rightarrow> token_limits \<Rightarrow> (string \<Rightarrow> string) \<Rightarrow> string \<Rightarrow> id \<Rightarrow> int \<Rightarrow> id \<Rightarrow> id \<Rightarrow> token_args \<Rightarrow> actor option \<Rightarrow> db
       \<Rightarrow> (string \<times> api_token) res \<times> db" where
  "issueServiceToken isoString lim sha rnd newId now oid i x a d =
     (case find_service d i oid of None \<Rightarrow> (Inl no_service_account, d) | Some u \<Rightarrow>
      if usr_status u \<noteq> Active then (Inl (api_error 409 ''That service account is not active''), d)
      else case act_on_service d u a ''issue a token for this service account'' of Inl er \<Rightarrow> (Inl er, d) | Inr _ \<Rightarrow>
        createToken isoString lim sha rnd newId now oid (x\<lparr>ta_user := i, ta_kind := ''service''\<rparr>) (actor_id a) d)"

definition revokeServiceToken :: "int \<Rightarrow> id \<Rightarrow> id \<Rightarrow> id \<Rightarrow> actor option \<Rightarrow> db \<Rightarrow> unit res \<times> db" where
  "revokeServiceToken now oid i tid a d =
     (case find_service d i oid of None \<Rightarrow> (Inl no_service_account, d) | Some u \<Rightarrow>
      case act_on_service d u a (''revoke this service account'' @ [CHR 0xE2, CHR 0x80, CHR 0x99] @ ''s tokens'') of Inl er \<Rightarrow> (Inl er, d) | Inr _ \<Rightarrow>
        revokeToken now oid tid (Some i) (Some ''Revoked by an administrator'') (actor_id a) d)"

section \<open>Device flow\<close>

definition DEVICE_TTL_MS :: int where "DEVICE_TTL_MS = 15 * 60 * 1000"
definition DEFAULT_INTERVAL :: int where "DEFAULT_INTERVAL = 5"

definition generateUserCode :: "nat list \<Rightarrow> string" where
  "generateUserCode bytes = map (\<lambda>b. BACKUP_ALPHABET ! (b mod length BACKUP_ALPHABET)) (take 8 bytes)"

text \<open>The first of five draws whose code is free.\<close>

definition pick_user_code :: "db \<Rightarrow> nat list list \<Rightarrow> string option" where
  "pick_user_code d draws = find (\<lambda>c. \<forall>r \<in> set (deviceRequests d). dr_userCode r \<noteq> c) (map generateUserCode (take 5 draws))"

text \<open>\<open>oid\<close> is the organization of the slug, if there is one.\<close>

definition createDeviceRequest ::
    "(string \<Rightarrow> string) \<Rightarrow> id \<Rightarrow> string \<Rightarrow> nat list list \<Rightarrow> int \<Rightarrow> id option \<Rightarrow> string \<Rightarrow> string \<Rightarrow> db \<Rightarrow> device_request res \<times> db" where
  "createDeviceRequest sha newId deviceCode draws now oid client sc d =
     (case oid of None \<Rightarrow> (Inl (api_error 404 ''Organization not found''), d) | Some o1 \<Rightarrow>
      case pick_user_code d draws of None \<Rightarrow> (Inl (api_error 500 ''Failed to generate unique user code''), d) | Some c \<Rightarrow>
        let r = \<lparr>dr_id = newId, dr_deviceCode = sha deviceCode, dr_userCode = c, dr_client = (if client = [] then ''shellius-tui'' else client),
                 dr_scope = sc, dr_org = o1, dr_user = None, dr_status = DevPending, dr_interval = DEFAULT_INTERVAL,
                 dr_expiresAt = now + DEVICE_TTL_MS, dr_lastPollAt = None\<rparr>
        in (Inr r, d\<lparr>deviceRequests := deviceRequests d @ [r]\<rparr>))"

definition update_device :: "id \<Rightarrow> (device_request \<Rightarrow> device_request) \<Rightarrow> db \<Rightarrow> db" where
  "update_device i f d = d\<lparr>deviceRequests := update_where (\<lambda>r. dr_id r = i) f (deviceRequests d)\<rparr>"

text \<open>\<open>(now - lastPollAt) / 1000 < interval\<close>\<close>

definition polls_too_fast :: "int \<Rightarrow> device_request \<Rightarrow> bool" where
  "polls_too_fast now r = holds (\<lambda>l. now - l < dr_interval r * 1000) (dr_lastPollAt r)"

definition pollDeviceRequest :: "auth_env \<Rightarrow> call \<Rightarrow> string \<Rightarrow> db \<Rightarrow> session_pair res \<times> db" where
  "pollDeviceRequest e c code d =
     (let now = cl_now c in
      case find (\<lambda>r. dr_deviceCode r = ae_sha e code) (deviceRequests d) of None \<Rightarrow> (Inl (api_error 400 ''invalid_grant''), d) | Some r \<Rightarrow>
      if dr_status r = DevExpired then (Inl (api_error 410 ''expired_token''), d)
      else if dr_expiresAt r < now then (Inl (api_error 410 ''expired_token''), update_device (dr_id r) (\<lambda>x. x\<lparr>dr_status := DevExpired\<rparr>) d)
      else if polls_too_fast now r then (Inl (api_error 429 ''slow_down''), d)
      else
        let d1 = update_device (dr_id r) (\<lambda>x. x\<lparr>dr_lastPollAt := Some now\<rparr>) d in
        case dr_status r of
          DevDenied \<Rightarrow> (Inl (api_error 403 ''access_denied''), d1)
        | DevPending \<Rightarrow> (Inl (api_error 428 ''authorization_pending''), d1)
        | DevExpired \<Rightarrow> (Inl (api_error 400 ''invalid_grant''), d1)
        | DevApproved \<Rightarrow>
            (if \<not> truthy (dr_user r) then (Inl (api_error 500 ''approved request missing user''), d1)
             else case find_user_id d1 (the (dr_user r)) of None \<Rightarrow> (Inl (api_error 403 ''access_denied''), d1) | Some u \<Rightarrow>
             if usr_status u \<noteq> Active then (Inl (api_error 403 ''access_denied''), d1)
             else case issueSession e c u ''tui'' d1 of
               (s, d2) \<Rightarrow> (Inr s, d2\<lparr>deviceRequests := filter (\<lambda>x. dr_id x \<noteq> dr_id r) (deviceRequests d2)\<rparr>)))"

definition find_device :: "db \<Rightarrow> string \<Rightarrow> device_request option" where
  "find_device d code = find (\<lambda>r. dr_userCode r = map upper_char code) (deviceRequests d)"

definition approveDeviceRequest :: "int \<Rightarrow> string \<Rightarrow> id \<Rightarrow> db \<Rightarrow> unit res \<times> db" where
  "approveDeviceRequest now code uid d =
     (case find_device d code of None \<Rightarrow> (Inl (api_error 404 ''Device request not found''), d) | Some r \<Rightarrow>
      if dr_status r \<noteq> DevPending then (Inl (api_error 400 ''Device request is not pending''), d)
      else if dr_expiresAt r < now then (Inl (api_error 410 ''Device request expired''), d)
      else case find_user_id d uid of None \<Rightarrow> (Inl (api_error 401 ''User not found''), d) | Some u \<Rightarrow>
      if usr_org u \<noteq> dr_org r then (Inl (api_error 403 ''Org mismatch''), d)
      else (Inr (), update_device (dr_id r) (\<lambda>x. x\<lparr>dr_status := DevApproved, dr_user := Some uid\<rparr>) d))"

definition denyDeviceRequest :: "string \<Rightarrow> id \<Rightarrow> db \<Rightarrow> unit res \<times> db" where
  "denyDeviceRequest code uid d =
     (case find_device d code of None \<Rightarrow> (Inl (api_error 404 ''Device request not found''), d) | Some r \<Rightarrow>
      if dr_status r \<noteq> DevPending then (Inl (api_error 400 ''Device request is not pending''), d)
      else if holds (\<lambda>u. usr_org u = dr_org r) (find_user_id d uid)
      then (Inr (), update_device (dr_id r) (\<lambda>x. x\<lparr>dr_status := DevDenied, dr_user := Some uid\<rparr>) d)
      else (Inl (api_error 403 ''Org mismatch''), d))"

section \<open>Invitations and password resets\<close>

text \<open>\<open>expiresAt: now\<close> on every unused token of the kind.\<close>

definition revokeLinks :: "int \<Rightarrow> id \<Rightarrow> string \<Rightarrow> db \<Rightarrow> db" where
  "revokeLinks now uid ty d =
     d\<lparr>tokens := update_where (\<lambda>t. tok_user t = uid \<and> tok_type t = ty \<and> tok_usedAt t = None \<and> now < tok_expiresAt t)
        (\<lambda>t. t\<lparr>tok_expiresAt := now\<rparr>) (tokens d)\<rparr>"

definition createInvite :: "id \<Rightarrow> string \<Rightarrow> int \<Rightarrow> id \<Rightarrow> string \<Rightarrow> int \<Rightarrow> db \<Rightarrow> db" where
  "createInvite newId hash now uid ty ttlHours d =
     (let d1 = revokeLinks now uid ty d
      in d1\<lparr>tokens := tokens d1 @ [\<lparr>tok_id = newId, tok_user = uid, tok_type = ty, tok_hash = hash, tok_resource = None,
           tok_expiresAt = now + ttlHours * 60 * 60 * 1000, tok_usedAt = None\<rparr>]\<rparr>)"

definition verifyWithoutConsuming :: "(string \<Rightarrow> string) \<Rightarrow> int \<Rightarrow> string \<Rightarrow> string \<Rightarrow> db \<Rightarrow> user_token res" where
  "verifyWithoutConsuming sha now rawToken ty d =
     (if length rawToken \<noteq> 64 then Inl (api_error 400 ''Invalid or expired token'')
      else case find (\<lambda>t. tok_hash t = sha rawToken) (tokens d) of None \<Rightarrow> Inl (api_error 400 ''Invalid or expired token'') | Some t \<Rightarrow>
      if tok_type t \<noteq> ty then Inl (api_error 400 ''Invalid or expired token'')
      else if tok_usedAt t \<noteq> None then Inl (api_error 400 ''Token has already been used'')
      else if tok_expiresAt t < now then Inl (api_error 400 ''Token has expired'')
      else Inr t)"

text \<open>The checks, and the unconditional update; \<open>getResourceToken\<close> updates only an unused token.\<close>

definition verifyAndConsume :: "(string \<Rightarrow> string) \<Rightarrow> int \<Rightarrow> string \<Rightarrow> string \<Rightarrow> db \<Rightarrow> user_token res \<times> db" where
  "verifyAndConsume sha now rawToken ty d =
     (case verifyWithoutConsuming sha now rawToken ty d of Inl er \<Rightarrow> (Inl er, d)
      | Inr t \<Rightarrow> (Inr t, d\<lparr>tokens := update_where (\<lambda>x. tok_id x = tok_id t) (\<lambda>x. x\<lparr>tok_usedAt := Some now\<rparr>) (tokens d)\<rparr>))"

end
