(* ===== verification/AuthClaims.thy ===== *)
theory AuthClaims
  imports ServiceAccounts Sample
begin

text \<open>
  The properties of signing in: every factor is checked, guessing is bounded, refresh tokens
  rotate one at a time, and signing out everywhere leaves nothing.
\<close>

section \<open>Signing in\<close>

lemma update_user_row_frames [simp]:
  "refreshTokens (update_user_row i f d) = refreshTokens d" "roles (update_user_row i f d) = roles d"
  "orgs (update_user_row i f d) = orgs d" "apiTokens (update_user_row i f d) = apiTokens d"
  "requests (update_user_row i f d) = requests d" "certs (update_user_row i f d) = certs d"
  "sessions (update_user_row i f d) = sessions d" "memberships (update_user_row i f d) = memberships d"
  "userScopes (update_user_row i f d) = userScopes d" "deviceRequests (update_user_row i f d) = deviceRequests d"
  "users (update_user_row i f d) = update_where (\<lambda>u. usr_id u = i) f (users d)" "tokens (update_user_row i f d) = tokens d"
  by (simp_all add: update_user_row_def)

lemma verifyFactor_tokens: "refreshTokens (snd (verifyFactor e now u m c d)) = refreshTokens d"
  by (auto simp: verifyFactor_def verifyEmailOtp_def verifyBackupCode_def Let_def split: option.split)

lemma resetFailedLogin_tokens [simp]: "refreshTokens (resetFailedLogin u d) = refreshTokens d"
  by (simp add: resetFailedLogin_def)

lemma issueSession_effect:
  "refreshTokens (snd (issueSession e c u client d)) = refreshTokens d @ [session_token e c u client]"
  by (simp add: issueSession_def Let_def)

lemma mfaGate_None: "mfaGate e c u = None \<longleftrightarrow> \<not> hasFactor u"
  by (simp add: mfaGate_def Let_def hasFactor_iff)

lemma mfaGate_Some: "mfaGate e c u = Some g \<Longrightarrow> hasFactor u \<and> mg_methods g = availableMethods u"
  by (auto simp: mfaGate_def Let_def hasFactor_iff split: if_splits)

lemma accepted_login_Inr:
  assumes "accepted_login e c u d = (Inr res, d')"
  shows "usr_status u = Active \<and>
    (case res of Challenged g \<Rightarrow> hasFactor u \<and> mg_methods g = availableMethods u \<and> refreshTokens d' = refreshTokens d
     | SignedIn s \<Rightarrow> \<not> hasFactor u \<and> refreshTokens d' = refreshTokens d @ [session_token e c u ''web''])"
proof -
  have a: "usr_status u = Active" using assms by (simp add: accepted_login_def split: if_splits)
  define d1 where "d1 = auditLog (usr_org u) (Some (usr_id u)) ''auth.login'' ''User'' (Some (usr_id u)) None (cl_agent c) (resetFailedLogin u d)"
  have t: "refreshTokens d1 = refreshTokens d" by (simp add: d1_def)
  show ?thesis
  proof (cases "mfaGate e c u")
    case None
    then have "res = SignedIn (fst (issueSession e c u ''web'' d1)) \<and> d' = snd (issueSession e c u ''web'' d1)"
      using assms a by (simp add: accepted_login_def d1_def split: prod.splits)
    then show ?thesis using a None t by (simp add: issueSession_effect mfaGate_None)
  next
    case (Some g)
    then have "res = Challenged g \<and> d' = d1" using assms a by (simp add: accepted_login_def d1_def)
    then show ?thesis using a mfaGate_Some [OF Some] t by simp
  qed
qed

lemma login_Inr:
  assumes "login e c email pw d = (Inr res, d')"
  obtains u where "u \<in> set (login_candidates email d)" "truthy (usr_passwordHash u)" "\<not> passwordSignInBlocked d (Some u)"
    "matches_password e (cl_now c) pw u" "accepted_login e c u d = (Inr res, d')"
  using assms
  by (auto simp: login_def Let_def failed_login_def blocked_login_def split: if_splits option.splits dest!: find_SomeD)

lemma completeMfaLogin_Inr:
  assumes "completeMfaLogin e c token m code rs d = ((Inr s, d1), rs1)"
  obtains p u where "verifyMfaToken e token = Some p" "\<not> isChallengeBurned (cl_now c) (mp_jti p) rs"
    "find_user_id d (mp_user p) = Some u" "usr_status u = Active" "usr_org u = mp_org p"
    "fst (verifyFactor (ae_mfa e) (cl_now c) u m code d)"
    "d1 = snd (issueSession e c u ''web'' (snd (verifyFactor (ae_mfa e) (cl_now c) u m code d)))"
  using assms
  by (auto simp: completeMfaLogin_def split: option.splits if_splits prod.splits bool.splits) 

text \<open>C3: Nobody gets a session with a password alone unless they have no second factor. Login
  succeeds only for an active human account that is not locked, that may use a password here and
  whose password fits; with a factor enrolled it hands out a challenge that lists the account's
  factors and no session. The challenge becomes a session only while it is valid and not burned,
  for the same active account, and with a factor that verifies.\<close>

theorem sign_in_needs_every_factor:
  "(login e c email pw d = (Inr res, d') \<longrightarrow>
      (\<exists>u \<in> set (users d). usr_email u = lower (js_trim email) \<and> usr_kind u = Human \<and> usr_status u = Active
         \<and> \<not> account_locked (cl_now c) u \<and> \<not> passwordSignInBlocked d (Some u) \<and> holds (ae_compare e pw) (usr_passwordHash u)
         \<and> (case res of
              Challenged g \<Rightarrow> hasFactor u \<and> mg_methods g = availableMethods u \<and> refreshTokens d' = refreshTokens d
            | SignedIn s \<Rightarrow> \<not> hasFactor u \<and> refreshTokens d' = refreshTokens d @ [session_token e c u ''web''])))
   \<and> (completeMfaLogin e c token m code rs d0 = ((Inr s, d1), rs1) \<longrightarrow>
      (\<exists>p u. verifyMfaToken e token = Some p \<and> \<not> isChallengeBurned (cl_now c) (mp_jti p) rs
         \<and> u \<in> set (users d0) \<and> usr_id u = mp_user p \<and> usr_org u = mp_org p \<and> usr_status u = Active
         \<and> fst (verifyFactor (ae_mfa e) (cl_now c) u m code d0)
         \<and> refreshTokens d1 = refreshTokens d0 @ [session_token e c u ''web'']))"
proof (intro conjI impI)
  assume "login e c email pw d = (Inr res, d')"
  then obtain u where u: "u \<in> set (login_candidates email d)" "truthy (usr_passwordHash u)" "\<not> passwordSignInBlocked d (Some u)"
    "matches_password e (cl_now c) pw u" "accepted_login e c u d = (Inr res, d')"
    by (rule login_Inr)
  then show "\<exists>u \<in> set (users d). usr_email u = lower (js_trim email) \<and> usr_kind u = Human \<and> usr_status u = Active
      \<and> \<not> account_locked (cl_now c) u \<and> \<not> passwordSignInBlocked d (Some u) \<and> holds (ae_compare e pw) (usr_passwordHash u)
      \<and> (case res of
           Challenged g \<Rightarrow> hasFactor u \<and> mg_methods g = availableMethods u \<and> refreshTokens d' = refreshTokens d
         | SignedIn s \<Rightarrow> \<not> hasFactor u \<and> refreshTokens d' = refreshTokens d @ [session_token e c u ''web''])"
    using accepted_login_Inr [OF u(5)]
    by (intro bexI [of _ u]) (auto simp: login_candidates_def matches_password_def truthy_iff holds_iff)
next
  assume "completeMfaLogin e c token m code rs d0 = ((Inr s, d1), rs1)"
  then obtain p u where "verifyMfaToken e token = Some p" "\<not> isChallengeBurned (cl_now c) (mp_jti p) rs"
    "find_user_id d0 (mp_user p) = Some u" "usr_status u = Active" "usr_org u = mp_org p"
    "fst (verifyFactor (ae_mfa e) (cl_now c) u m code d0)"
    "d1 = snd (issueSession e c u ''web'' (snd (verifyFactor (ae_mfa e) (cl_now c) u m code d0)))"
    by (rule completeMfaLogin_Inr)
  moreover from this(3) have "u \<in> set (users d0) \<and> usr_id u = mp_user p" by (auto simp: find_user_id_def dest: find_SomeD)
  ultimately show "\<exists>p u. verifyMfaToken e token = Some p \<and> \<not> isChallengeBurned (cl_now c) (mp_jti p) rs
      \<and> u \<in> set (users d0) \<and> usr_id u = mp_user p \<and> usr_org u = mp_org p \<and> usr_status u = Active
      \<and> fst (verifyFactor (ae_mfa e) (cl_now c) u m code d0) \<and> refreshTokens d1 = refreshTokens d0 @ [session_token e c u ''web'']"
    by (auto simp: issueSession_effect verifyFactor_tokens)
qed

text \<open>A small world of its own: tokens are signed by writing them down.\<close>

definition sample_auth :: auth_env where
  "sample_auth =
     \<lparr>ae_mfa = \<lparr>me_totp = (\<lambda>c k. c = k), me_sha = (\<lambda>s. s), me_seal = (\<lambda>s. s), me_unseal = Inr\<rparr>,
      ae_sha = (\<lambda>s. s), ae_compare = (\<lambda>p h. p = h), ae_signAccess = ac_fid, ae_verifyAccess = (\<lambda>t. None),
      ae_signRefresh = (\<lambda>c. rc_token c), ae_verifyRefresh = (\<lambda>t. Some \<lparr>rc_user = [], rc_token = t, rc_fid = []\<rparr>),
      ae_signMfa = mp_user, ae_verifyMfa = (\<lambda>t. Some \<lparr>mp_typ = ''mfa_challenge'', mp_user = t, mp_org = ''o'', mp_jti = ''j''\<rparr>),
      ae_threshold = 5, ae_lockMinutes = 15, ae_absoluteTtl = 2592000000, ae_graceMs = 10000\<rparr>"

definition call_at :: "int \<Rightarrow> string \<Rightarrow> call" where
  "call_at t n = \<lparr>cl_now = t, cl_ip = None, cl_agent = None, cl_fid = ''f'' @ n, cl_tokenId = ''t'' @ n, cl_rowId = ''r'' @ n, cl_jti = ''j'' @ n\<rparr>"

definition u_pw :: user where
  "u_pw = (mk_user ''mem'' Member SCOPE_ALL)\<lparr>usr_passwordHash := Some ''right'', usr_totpEnabled := False\<rparr>"

definition auth_db :: db where
  "auth_db = empty_db\<lparr>users := [u_pw, (mk_user ''adm'' Admin SCOPE_ALL)\<lparr>usr_passwordHash := Some ''pw''\<rparr>]\<rparr>"

lemma sign_in_needs_every_factor_witness:
  "\<exists>s d1 g d2. login sample_auth (call_at 1000 ''1'') ''Mem@x'' ''right'' auth_db = (Inr (SignedIn s), d1)
     \<and> refreshTokens d1 = [session_token sample_auth (call_at 1000 ''1'') u_pw ''web'']
     \<and> login sample_auth (call_at 1000 ''1'') ''adm@x'' ''pw'' auth_db = (Inr (Challenged g), d2) \<and> refreshTokens d2 = []"
proof -
  let ?c = "call_at 1000 ''1''"
  have k: "(case fst (login sample_auth ?c ''Mem@x'' ''right'' auth_db) of Inr (SignedIn _) \<Rightarrow> True | _ \<Rightarrow> False)"
    "(case fst (login sample_auth ?c ''adm@x'' ''pw'' auth_db) of Inr (Challenged _) \<Rightarrow> True | _ \<Rightarrow> False)" by code_simp+
  from k(1) obtain s d1 where s: "login sample_auth ?c ''Mem@x'' ''right'' auth_db = (Inr (SignedIn s), d1)"
    by (auto split: sum.splits login_result.splits) (metis prod.collapse)
  from k(2) obtain g d2 where g: "login sample_auth ?c ''adm@x'' ''pw'' auth_db = (Inr (Challenged g), d2)"
    by (auto split: sum.splits login_result.splits) (metis prod.collapse)
  have em: "lower (js_trim ''Mem@x'') = ''mem@x''" "lower (js_trim ''adm@x'') = ''adm@x''" "refreshTokens auth_db = []" by code_simp+
  have us: "\<forall>u \<in> set (users auth_db). usr_email u = ''mem@x'' \<longrightarrow> u = u_pw" by (simp add: auth_db_def u_pw_def mk_user_def)
  note S = sign_in_needs_every_factor [of sample_auth ?c _ _ _ _ _ undefined undefined undefined undefined undefined undefined undefined undefined]
  have "refreshTokens d1 = [session_token sample_auth ?c u_pw ''web'']" using S s em us by fastforce
  moreover have "refreshTokens d2 = []" using S g em by fastforce
  ultimately show ?thesis using s g by blast
qed

section \<open>Guessing\<close>

text \<open>Whether an attempt gets as far as comparing the password of the account.\<close>

definition compared :: "int \<Rightarrow> string \<Rightarrow> id \<Rightarrow> db \<Rightarrow> bool" where
  "compared now email uid d =
     (\<exists>u \<in> set (login_candidates email d). usr_id u = uid \<and> truthy (usr_passwordHash u) \<and> \<not> passwordSignInBlocked d (Some u)
        \<and> \<not> account_locked now u)"

fun guesses :: "auth_env \<Rightarrow> string \<Rightarrow> id \<Rightarrow> (call \<times> string) list \<Rightarrow> db \<Rightarrow> nat" where
  "guesses e email uid [] d = 0"
| "guesses e email uid ((c, pw) # xs) d =
     (if compared (cl_now c) email uid d then 1 else 0) + guesses e email uid xs (snd (login e c email pw d))"

lemma login_candidates_update:
  assumes "\<And>u. usr_email (f u) = usr_email u \<and> usr_status (f u) = usr_status u \<and> usr_kind (f u) = usr_kind u"
  shows "login_candidates email (update_user_row i f d) = update_where (\<lambda>u. usr_id u = i) f (login_candidates email d)"
  unfolding login_candidates_def update_user_row_def
  using assms by (simp add: update_where_def filter_map o_def if_distrib cong: if_cong) 

lemma login_candidates_audit [simp]: "login_candidates email (auditLog a b c f g h i d) = login_candidates email d"
  by (simp add: login_candidates_def)

text \<open>What one wrong password does to the only account of an address.\<close>

lemma wrong_password:
  assumes one: "login_candidates email d = [u]" and "truthy (usr_passwordHash u)" and "\<not> passwordSignInBlocked d (Some u)"
    and "\<not> ae_compare e pw (the (usr_passwordHash u))"
  shows "login e c email pw d = failed_login e c email [u] d"
  using assms by (simp add: login_def matches_password_def)

lemma locked_refused: "login_candidates email d = [u] \<Longrightarrow> truthy (usr_passwordHash u) \<Longrightarrow> \<not> passwordSignInBlocked d (Some u) \<Longrightarrow>
    account_locked (cl_now c) u \<Longrightarrow> login e c email pw d = (Inl lockedError, d)"
  by (simp add: login_def matches_password_def failed_login_def)

definition failed_row :: "auth_env \<Rightarrow> call \<Rightarrow> user \<Rightarrow> user" where
  "failed_row e c u =
     (let n = usr_failedLogins u + 1; locked = ae_threshold e \<le> n
      in u\<lparr>usr_failedLogins := (if locked then 0 else n), usr_lastFailedLogin := Some (cl_now c),
           usr_lockedUntil := (if locked then Some (cl_now c + ae_lockMinutes e * 60 * 1000) else usr_lockedUntil u)\<rparr>)"

lemma recordFailedLogin_same [simp]:
  "roles (recordFailedLogin e c u d) = roles d" "orgs (recordFailedLogin e c u d) = orgs d"
  by (simp_all add: recordFailedLogin_def Let_def)

lemma recordFailedLogin_candidates:
  assumes "login_candidates email d = [u]"
  shows "login_candidates email (recordFailedLogin e c u d) = [failed_row e c u]"
  by (simp add: recordFailedLogin_def Let_def login_candidates_update assms update_where_def failed_row_def)

lemma passwordSignInBlocked_cong:
  "roles d' = roles d \<Longrightarrow> orgs d' = orgs d \<Longrightarrow> usr_org v = usr_org u \<Longrightarrow> usr_roleId v = usr_roleId u \<Longrightarrow> usr_role v = usr_role u \<Longrightarrow>
   passwordSignInBlocked d' (Some v) = passwordSignInBlocked d (Some u)"
  by (simp add: passwordSignInBlocked_def org_settings_of_def find_org_def find_role_in_org_def permissionsForUser_def split: option.split)

lemma failed_login_after:
  assumes "login_candidates email d = [u]" and "\<not> account_locked (cl_now c) u"
  shows "login_candidates email (snd (failed_login e c email [u] d)) = [failed_row e c u]"
    and "roles (snd (failed_login e c email [u] d)) = roles d" and "orgs (snd (failed_login e c email [u] d)) = orgs d"
  using recordFailedLogin_candidates [OF assms(1), of e c] assms(2) by (simp_all add: failed_login_def Let_def)

lemma guesses_bounded:
  assumes "login_candidates email d = [u]" and "truthy (usr_passwordHash u)" and "\<not> passwordSignInBlocked d (Some u)" and "0 < ae_threshold e"
    and "\<forall>(c, pw) \<in> set xs. \<not> ae_compare e pw (the (usr_passwordHash u)) \<and> t \<le> cl_now c \<and> cl_now c < t + ae_lockMinutes e * 60 * 1000"
  shows "guesses e email (usr_id u) xs d \<le>
    (if holds (\<lambda>l. t + ae_lockMinutes e * 60 * 1000 \<le> l) (usr_lockedUntil u) then 0 else max 1 (ae_threshold e - usr_failedLogins u))"
  using assms
proof (induction xs arbitrary: d u)
  case (Cons x xs)
  obtain c pw where x: "x = (c, pw)" by (cases x)
  have now: "t \<le> cl_now c" "cl_now c < t + ae_lockMinutes e * 60 * 1000" and wrong: "\<not> ae_compare e pw (the (usr_passwordHash u))"
    using Cons.prems(5) x by auto
  show ?case
  proof (cases "account_locked (cl_now c) u")
    case True
    have "login e c email pw d = (Inl lockedError, d)" by (rule locked_refused [OF Cons.prems(1-3) True])
    moreover have "\<not> compared (cl_now c) email (usr_id u) d" using True Cons.prems(1) by (simp add: compared_def)
    ultimately show ?thesis using Cons.IH [OF Cons.prems(1-4)] Cons.prems(5) x by simp
  next
    case False
    let ?u = "failed_row e c u" and ?d = "snd (failed_login e c email [u] d)"
    have f: "usr_id ?u = usr_id u" "usr_passwordHash ?u = usr_passwordHash u" "usr_org ?u = usr_org u" "usr_roleId ?u = usr_roleId u" "usr_role ?u = usr_role u"
      by (simp_all add: failed_row_def Let_def)
    note A = failed_login_after [OF Cons.prems(1) False]
    have "guesses e email (usr_id ?u) xs ?d \<le>
        (if holds (\<lambda>l. t + ae_lockMinutes e * 60 * 1000 \<le> l) (usr_lockedUntil ?u) then 0 else max 1 (ae_threshold e - usr_failedLogins ?u))"
      by (rule Cons.IH) (use A f Cons.prems passwordSignInBlocked_cong [OF A(2,3) f(3-5)] in auto)
    moreover have "\<not> holds (\<lambda>l. t + ae_lockMinutes e * 60 * 1000 \<le> l) (usr_lockedUntil u)"
      using False now(2) by (auto simp: account_locked_def holds_iff split: option.splits)
    ultimately show ?thesis
      using now f(1) x wrong_password [OF Cons.prems(1-3) wrong, of c]
      by (auto simp: failed_row_def Let_def split: if_splits)
  qed
qed simp

text \<open>C24: However many wrong passwords are tried one after the other on the only account of an address within
  the lockout time, at most the threshold of them are ever compared with its password; and while the
  account is locked, not even the right password signs in or changes anything. (Tries at the same moment
  read the same count of failures, so together they count once: the bound is for tries in sequence.)\<close>

theorem lockout_bounds_guesses:
  assumes "login_candidates email d = [u]" and "truthy (usr_passwordHash u)" and "\<not> passwordSignInBlocked d (Some u)" and "0 < ae_threshold e"
    and "\<forall>(c, pw) \<in> set xs. \<not> ae_compare e pw (the (usr_passwordHash u)) \<and> t \<le> cl_now c \<and> cl_now c < t + ae_lockMinutes e * 60 * 1000"
  shows "guesses e email (usr_id u) xs d \<le> ae_threshold e
    \<and> (account_locked (cl_now c') u \<longrightarrow> login e c' email pw' d = (Inl lockedError, d))"
  using guesses_bounded [OF assms] locked_refused [OF assms(1-3), of c' e pw'] assms(4)
  by (auto split: if_splits)

lemma lockout_bounds_guesses_witness:
  "guesses sample_auth ''mem@x'' ''mem'' (map (\<lambda>i. (call_at (1000 + int i) [], ''wrong'')) [0..<9]) auth_db = 5 \<and> (5 :: nat) \<le> ae_threshold sample_auth"
proof -
  let ?xs = "map (\<lambda>i. (call_at (1000 + int i) [], ''wrong'')) [0..<9]"
  have "guesses sample_auth ''mem@x'' ''mem'' ?xs auth_db = 5" by code_simp
  moreover have "login_candidates ''mem@x'' auth_db = [u_pw]" by code_simp
  moreover have "truthy (usr_passwordHash u_pw)" "\<not> passwordSignInBlocked auth_db (Some u_pw)" "0 < ae_threshold sample_auth" "usr_id u_pw = ''mem''" by code_simp+
  moreover have "\<forall>(c, pw) \<in> set ?xs. \<not> ae_compare sample_auth pw (the (usr_passwordHash u_pw)) \<and> 1000 \<le> cl_now c \<and> cl_now c < 1000 + ae_lockMinutes sample_auth * 60 * 1000"
    by (auto simp: sample_auth_def call_at_def u_pw_def)
  ultimately show ?thesis using lockout_bounds_guesses [of "''mem@x''" auth_db u_pw sample_auth ?xs 1000] by simp
qed

end
