(* ===== verification/TokenClaims.thy ===== *)
theory TokenClaims
  imports AuthClaims
begin

text \<open>
  The properties of refresh tokens: every operation on them keeps the families well formed, a
  token used twice ends its family, and what happens when two requests refresh at once.
\<close>

section \<open>Well-formed families\<close>

text \<open>
  Row ids are unique; the tokens of a family belong to one account and one sign-in, and at most
  one of them is live; none was made later than the absolute lifetime after that sign-in.
\<close>

definition kin :: "refresh_token \<Rightarrow> refresh_token \<Rightarrow> bool" where
  "kin a b = (rt_user a = rt_user b \<and> rt_startedAt a = rt_startedAt b \<and> (rt_revokedAt a = None \<and> rt_revokedAt b = None \<longrightarrow> a = b))"

definition families_ok :: "auth_env \<Rightarrow> refresh_token list \<Rightarrow> bool" where
  "families_ok e ts =
     (distinct (map rt_id ts) \<and> (\<forall>t \<in> set ts. rt_createdAt t - rt_startedAt t \<le> max 0 (ae_absoluteTtl e))
      \<and> (\<forall>a \<in> set ts. \<forall>b \<in> set ts. \<forall>f. rt_family a = Some f \<longrightarrow> rt_family b = Some f \<longrightarrow> kin a b))"

text \<open>Rows are only revoked or removed.\<close>

definition revoked_from :: "refresh_token \<Rightarrow> refresh_token \<Rightarrow> bool" where
  "revoked_from t t' = (t' = t \<or> (\<exists>n p. t' = t\<lparr>rt_revokedAt := Some n, rt_replacedBy := p\<rparr>))"

definition shrinks :: "refresh_token list \<Rightarrow> refresh_token list \<Rightarrow> bool" where
  "shrinks ts ts' =
     ((distinct (map rt_id ts) \<longrightarrow> distinct (map rt_id ts')) \<and> (\<forall>t' \<in> set ts'. \<exists>t \<in> set ts. revoked_from t t'))"

lemma revoked_from_refl [simp]: "revoked_from t t"
  by (simp add: revoked_from_def)

lemma revoked_from_trans: "revoked_from t u \<Longrightarrow> revoked_from u v \<Longrightarrow> revoked_from t v"
  unfolding revoked_from_def by (elim disjE exE) (simp_all, blast+)

lemma revoked_from_fields:
  "revoked_from t t' \<Longrightarrow> rt_family t' = rt_family t \<and> rt_user t' = rt_user t \<and> rt_startedAt t' = rt_startedAt t
     \<and> rt_createdAt t' = rt_createdAt t \<and> rt_id t' = rt_id t \<and> (rt_revokedAt t' = None \<longrightarrow> t' = t)"
  by (auto simp: revoked_from_def)

lemma shrinks_subset: "set ts' \<subseteq> set ts \<Longrightarrow> (distinct (map rt_id ts) \<Longrightarrow> distinct (map rt_id ts')) \<Longrightarrow> shrinks ts ts'"
  unfolding shrinks_def using revoked_from_refl by blast

lemma shrinks_refl [simp]: "shrinks ts ts"
  by (rule shrinks_subset) auto

lemma shrinks_trans: "shrinks a b \<Longrightarrow> shrinks b c \<Longrightarrow> shrinks a c"
  unfolding shrinks_def by (meson revoked_from_trans)

lemma shrinks_filter [simp]: "shrinks ts (filter P ts)"
  by (rule shrinks_subset) (auto simp: distinct_map_filter)

lemma shrinks_update:
  assumes "\<And>t. revoked_from t (f t)" shows "shrinks ts (update_where P f ts)"
proof -
  have "map rt_id (update_where P f ts) = map rt_id ts" by (rule map_update_where) (simp add: revoked_from_fields [OF assms])
  moreover have "\<forall>t' \<in> set (update_where P f ts). \<exists>t \<in> set ts. revoked_from t t'"
    by (auto simp: set_update_where intro: assms revoked_from_refl)
  ultimately show ?thesis by (simp add: shrinks_def)
qed

lemma shrinks_revoked [simp]: "shrinks ts (update_where P (\<lambda>t. t\<lparr>rt_revokedAt := Some now\<rparr>) ts)"
  by (rule shrinks_update) (simp add: revoked_from_def, metis refresh_token.update_convs(13) refresh_token.surjective)

lemma family_kin:
  "families_ok e ts \<Longrightarrow> a \<in> set ts \<Longrightarrow> b \<in> set ts \<Longrightarrow> rt_family a = Some f \<Longrightarrow> rt_family b = Some f \<Longrightarrow> kin a b"
  by (simp add: families_ok_def)

lemma kin_revoked: "kin x y \<Longrightarrow> revoked_from x a \<Longrightarrow> revoked_from y b \<Longrightarrow> kin a b"
  using revoked_from_fields [of x a] revoked_from_fields [of y b] unfolding kin_def by metis

lemma shrinks_ok:
  assumes sh: "shrinks ts ts'" and ok: "families_ok e ts" shows "families_ok e ts'"
  unfolding families_ok_def
proof (intro conjI ballI allI impI, goal_cases)
  case 1 show ?case using assms by (simp add: shrinks_def families_ok_def)
next
  case (2 t)
  then obtain x where "x \<in> set ts" "revoked_from x t" using sh unfolding shrinks_def by blast
  then show ?case using ok revoked_from_fields [of x t] by (simp add: families_ok_def)
next
  case (3 a b f)
  obtain x y where xy: "x \<in> set ts" "revoked_from x a" "y \<in> set ts" "revoked_from y b" using sh 3(1,2) unfolding shrinks_def by blast
  have "rt_family x = Some f" "rt_family y = Some f" using 3(3,4) revoked_from_fields [OF xy(2)] revoked_from_fields [OF xy(4)] by simp_all
  then show ?case using kin_revoked [OF family_kin [OF ok xy(1,3)] xy(2,4)] by simp
qed

text \<open>A new token joins its family when the tokens of the family that are there are its owner's, of its
  sign-in and no longer live.\<close>

lemma families_ok_snoc:
  assumes "families_ok e ts" and "rt_id n \<notin> rt_id ` set ts" and "rt_createdAt n - rt_startedAt n \<le> max 0 (ae_absoluteTtl e)"
    and "\<forall>t \<in> set ts. rt_family t = rt_family n \<longrightarrow> rt_user t = rt_user n \<and> rt_startedAt t = rt_startedAt n \<and> rt_revokedAt t \<noteq> None"
  shows "families_ok e (ts @ [n])"
proof -
  have "kin a b" if "a \<in> set (ts @ [n])" "b \<in> set (ts @ [n])" "rt_family a = Some f" "rt_family b = Some f" for a b f
  proof (cases "a = n \<or> b = n")
    case True then show ?thesis using that assms(4) by (auto simp: kin_def)
  next
    case False then show ?thesis using that family_kin [OF assms(1)] by simp
  qed
  then show ?thesis using assms(1-3) by (simp add: families_ok_def)
qed

section \<open>The operations\<close>

text \<open>An operation keeps the families well formed where its guard, the freshness of what it draws, holds.\<close>

locale token_operation =
  fixes e :: auth_env and guard :: "'a \<Rightarrow> db \<Rightarrow> bool" and run :: "'a \<Rightarrow> db \<Rightarrow> db"
  assumes run_ok: "guard x d \<Longrightarrow> families_ok e (refreshTokens d) \<Longrightarrow> families_ok e (refreshTokens (run x d))"
begin

lemma runs_ok:
  "families_ok e (refreshTokens d) \<Longrightarrow> (\<forall>i < length xs. guard (xs ! i) (fold run (take i xs) d)) \<Longrightarrow>
   families_ok e (refreshTokens (fold run xs d))"
proof (induction xs arbitrary: d)
  case (Cons x xs)
  have "guard x d" using Cons.prems(2) by force
  moreover have "\<forall>i < length xs. guard (xs ! i) (fold run (take i xs) (run x d))"
    using Cons.prems(2) by (metis Suc_less_eq fold_simps(2) length_Cons nth_Cons_Suc take_Suc_Cons)
  ultimately show ?case using Cons.IH [of "run x d"] Cons.prems(1) run_ok by simp
qed simp

end

locale token_removal =
  fixes run :: "'a \<Rightarrow> db \<Rightarrow> db"
  assumes run_shrinks: "shrinks (refreshTokens d) (refreshTokens (run x d))"

sublocale token_removal \<subseteq> token_operation e "\<lambda>_ _. True" run for e
  by unfold_locales (rule shrinks_ok [OF run_shrinks])

definition fresh_call :: "call \<Rightarrow> db \<Rightarrow> bool" where
  "fresh_call c d = (\<forall>t \<in> set (refreshTokens d). rt_id t \<noteq> cl_rowId c \<and> rt_family t \<noteq> Some (cl_fid c))"

lemma revoke_tokens_shrinks [simp]: "shrinks (refreshTokens d) (refreshTokens (revoke_tokens now P d))"
  by (simp add: revoke_tokens_def)

lemma revokeFamily_shrinks [simp]: "shrinks (refreshTokens d) (refreshTokens (revokeFamily now f d))"
  by (simp add: revokeFamily_def)

lemma refresh_reused_shrinks [simp]: "shrinks (refreshTokens d) (refreshTokens (refresh_reused c r d))"
  by (simp add: refresh_reused_def Let_def split: option.split)

lemma refresh_check_shrinks: "shrinks (refreshTokens d) (refreshTokens (snd (refresh_check e c t d)))"
  by (auto simp: refresh_check_def Let_def split: option.split)

lemma cleanup_shrinks [simp]: "shrinks (refreshTokens d) (refreshTokens (cleanupOldRevoked now f d))"
  by (simp add: cleanupOldRevoked_def)

lemma fold_shrinks: "shrinks (refreshTokens d) (refreshTokens (fold (revokeFamily now) fs d))"
  by (induction fs arbitrary: d) (auto intro: shrinks_trans [OF revokeFamily_shrinks])

interpretation logout_op: token_removal "\<lambda>(now, t). logout e now t" for e
  by unfold_locales (auto simp: logout_def split: option.split)

interpretation revoke_one_op: token_removal "\<lambda>(now, uid, f) d. snd (revokeSessionForUser now uid f d)"
  by unfold_locales (auto simp: revokeSessionForUser_def)

interpretation revoke_others_op: token_removal "\<lambda>(now, uid, keep) d. snd (revokeOtherSessionsForUser now uid keep d)"
  by unfold_locales (auto simp: revokeOtherSessionsForUser_def revokeOtherFamilies_def Let_def fold_shrinks)

interpretation revoke_all_op: token_removal "\<lambda>(now, uid). revokeAllFamiliesForUser now uid"
  by unfold_locales (auto simp: revokeAllFamiliesForUser_def)

interpretation issue_op: token_operation e "\<lambda>(c, u, client) d. fresh_call c d" "\<lambda>(c, u, client) d. snd (issueSession e c u client d)" for e
proof (unfold_locales, clarify)
  fix c u client d assume "fresh_call c d" "families_ok e (refreshTokens d)"
  then show "families_ok e (refreshTokens (snd (issueSession e c u client d)))"
    unfolding issueSession_effect by (intro families_ok_snoc) (auto simp: fresh_call_def session_token_def)
qed

text \<open>The checks a token passes before it is rotated.\<close>

lemma refresh_check_Inr:
  assumes "refresh_check e c t d = (Inr (r, u), d')"
  shows "d' = d \<and> find_refresh e t d = Some r \<and> rt_revokedAt r = None \<and> cl_now c \<le> rt_expiresAt r
    \<and> cl_now c - rt_startedAt r \<le> ae_absoluteTtl e \<and> find_user_id d (rt_user r) = Some u \<and> usr_status u = Active
    \<and> \<not> holds (\<lambda>f. rt_startedAt r < f) (usr_sessionsFrom u)"
  using assms by (auto simp: refresh_check_def Let_def split: option.splits if_splits)

lemma rotate_ok:
  assumes "families_ok e (refreshTokens d)" and "fresh_call c d" and "r \<in> set (refreshTokens d)" and "rt_revokedAt r = None"
    and "usr_id u = rt_user r" and "cl_now c - rt_startedAt r \<le> ae_absoluteTtl e"
  shows "families_ok e (refreshTokens (snd (refresh_rotate e c r u d)))"
proof -
  let ?n = "rotated_token e c r u"
  let ?f = "\<lambda>x. x\<lparr>rt_revokedAt := Some (cl_now c), rt_replacedBy := Some (rt_id ?n)\<rparr>"
  let ?ts = "update_where (\<lambda>x. rt_id x = rt_id r) ?f (refreshTokens d)"
  have n: "rt_id ?n = cl_rowId c" "rt_user ?n = rt_user r" "rt_startedAt ?n = rt_startedAt r" "rt_createdAt ?n = cl_now c"
    "rt_family ?n = Some (refresh_family c r)" using assms(5) by (simp_all add: rotated_token_def)
  have "refreshTokens (snd (refresh_rotate e c r u d)) = ?ts @ [?n]"
    using assms(2,3) n by (auto simp: refresh_rotate_def Let_def update_where_append update_where_def fresh_call_def)
  moreover have sh: "shrinks (refreshTokens d) ?ts" by (rule shrinks_update) (auto simp: revoked_from_def)
  moreover have "rt_revokedAt t \<noteq> None \<and> rt_user t = rt_user r \<and> rt_startedAt t = rt_startedAt r"
    if t: "t \<in> set ?ts" "rt_family t = Some (refresh_family c r)" for t
  proof -
    obtain x where x: "x \<in> set (refreshTokens d)" "t = (if rt_id x = rt_id r then ?f x else x)" using t(1) by (auto simp: set_update_where)
    then have fam: "rt_family x = Some (refresh_family c r)" using t(2) by (simp split: if_splits)
    then have same: "rt_family x = rt_family r"
      using x(1) assms(2) by (cases "rt_family r") (auto simp: refresh_family_def fresh_call_def split: if_splits)
    then have k: "rt_user x = rt_user r" "rt_startedAt x = rt_startedAt r" "rt_revokedAt x = None \<longrightarrow> x = r"
      using family_kin [OF assms(1) x(1) assms(3) fam] fam assms(4) by (simp_all add: kin_def)
    show ?thesis
    proof (cases "rt_id x = rt_id r")
      case True then show ?thesis using k x(2) by simp
    next
      case False then show ?thesis using k x(2) by auto
    qed
  qed
  moreover have "rt_id ?n \<notin> rt_id ` set ?ts" using assms(2) n(1) by (auto simp: set_update_where fresh_call_def)
  moreover have "rt_createdAt ?n - rt_startedAt ?n \<le> max 0 (ae_absoluteTtl e)" using assms(6) n by simp
  ultimately show ?thesis using n families_ok_snoc [OF shrinks_ok [OF sh assms(1)], of ?n] by simp
qed

interpretation refresh_op: token_operation e "\<lambda>(c, swept, t) d. fresh_call c d" "\<lambda>(c, swept, t) d. snd (refresh e c swept t d)" for e
proof (unfold_locales, clarify)
  fix c swept t d assume fr: "fresh_call c d" and ok: "families_ok e (refreshTokens d)"
  show "families_ok e (refreshTokens (snd (refresh e c swept t d)))"
  proof (cases "refresh_check e c t d")
    case (Pair res d1)
    show ?thesis
    proof (cases res)
      case (Inl er)
      then have "snd (refresh e c swept t d) = snd (refresh_check e c t d)" using Pair by (simp add: refresh_def)
      then show ?thesis using shrinks_ok [OF refresh_check_shrinks ok] by simp
    next
      case (Inr p)
      obtain r u where p: "p = (r, u)" by (cases p)
      note C = refresh_check_Inr [OF Pair [unfolded Inr p]]
      have "families_ok e (refreshTokens (snd (refresh_rotate e c r u d)))"
        by (rule rotate_ok [OF ok fr]) (use C in \<open>auto simp: find_refresh_def find_user_id_def dest: find_SomeD\<close>)
      then show ?thesis using Pair Inr p C shrinks_ok [OF cleanup_shrinks]
        by (auto simp: refresh_def split: prod.split)
    qed
  qed
qed

section \<open>Claims\<close>

text \<open>The operations on refresh tokens, one after the other, with anything in between that leaves their table alone.\<close>

inductive session_step :: "auth_env \<Rightarrow> db \<Rightarrow> db \<Rightarrow> bool" for e where
  sign_in: "fresh_call c d \<Longrightarrow> session_step e d (snd (issueSession e c u client d))"
| rotate: "fresh_call c d \<Longrightarrow> session_step e d (snd (refresh e c swept t d))"
| sign_out: "session_step e d (logout e now t d)"
| revoke_one: "session_step e d (snd (revokeSessionForUser now uid f d))"
| revoke_others: "session_step e d (snd (revokeOtherSessionsForUser now uid keep d))"
| revoke_all: "session_step e d (revokeAllFamiliesForUser now uid d)"
| elsewhere: "refreshTokens d' = refreshTokens d \<Longrightarrow> session_step e d d'"

lemma session_step_ok: "session_step e d d' \<Longrightarrow> families_ok e (refreshTokens d) \<Longrightarrow> families_ok e (refreshTokens d')"
proof (induction rule: session_step.induct)
  case (sign_in c d u client) then show ?case using issue_op.run_ok [where x = "(c, u, client)" and d = d] by simp
next
  case (rotate c d swept t) then show ?case using refresh_op.run_ok [where x = "(c, swept, t)" and d = d] by simp
next
  case (sign_out d now t) then show ?case using logout_op.run_ok [where x = "(now, t)" and d = d] by simp
next
  case (revoke_one d now uid f) then show ?case using revoke_one_op.run_ok [where x = "(now, uid, f)" and d = d] by simp
next
  case (revoke_others d now uid keep) then show ?case using revoke_others_op.run_ok [where x = "(now, uid, keep)" and d = d] by simp
next
  case (revoke_all d now uid) then show ?case using revoke_all_op.run_ok [where x = "(now, uid)" and d = d] by simp
qed simp

text \<open>C8: Whatever signs in, refreshes and signs out, in any order and one at a time, a sign-in never has
  more than one live refresh token, all its tokens belong to one account and keep the time of the
  sign-in, and none is minted later than the absolute lifetime after it.\<close>

theorem one_live_token_per_family:
  assumes "(session_step e)\<^sup>*\<^sup>* d d'" and "families_ok e (refreshTokens d)"
  shows "families_ok e (refreshTokens d')"
  using assms by (induction rule: rtranclp_induct) (auto intro: session_step_ok)

lemma one_live_token_per_family_witness:
  "\<exists>d. (session_step sample_auth)\<^sup>*\<^sup>* auth_db d \<and> families_ok sample_auth (refreshTokens d) \<and> map rt_revokedAt (refreshTokens d) = [Some 5000, None]"
proof -
  let ?d1 = "snd (issueSession sample_auth (call_at 1000 ''1'') u_pw ''web'' auth_db)"
  let ?d2 = "snd (refresh sample_auth (call_at 5000 ''2'') False ''t1'' ?d1)"
  have "session_step sample_auth auth_db ?d1" by (rule sign_in) code_simp
  moreover have "session_step sample_auth ?d1 ?d2" by (rule rotate) code_simp
  ultimately have st: "(session_step sample_auth)\<^sup>*\<^sup>* auth_db ?d2" by (meson r_into_rtranclp rtranclp_trans)
  have "families_ok sample_auth (refreshTokens auth_db)" by (simp add: auth_db_def empty_db_def families_ok_def)
  moreover have "map rt_revokedAt (refreshTokens ?d2) = [Some 5000, None]" by code_simp
  ultimately show ?thesis by (intro exI [of _ ?d2] conjI st one_live_token_per_family [OF st])
qed

text \<open>C23: A rotated or revoked token presented again is refused. Within the grace time that is all;
  after it, every token of its family is revoked (or, for a token from before families, all tokens
  of the account are deleted), and the tokens of other families stay as they are.\<close>

theorem refresh_reuse_ends_family:
  assumes "ae_verifyRefresh e t \<noteq> None" and "find_refresh e t d = Some r" and "rt_revokedAt r = Some v"
  shows "if cl_now c - v \<le> ae_graceMs e
    then refresh e c swept t d = (Inl (api_error 409 ''Refresh token already rotated; retry''), d)
    else fst (refresh e c swept t d) = Inl (refresh_error ''Invalid refresh token'')
      \<and> (\<forall>x \<in> set (refreshTokens (snd (refresh e c swept t d))).
           (if truthy (rt_family r) then rt_family x = rt_family r \<longrightarrow> rt_revokedAt x \<noteq> None else rt_user x \<noteq> rt_user r))
      \<and> (truthy (rt_family r) \<longrightarrow> filter (\<lambda>x. rt_family x \<noteq> rt_family r) (refreshTokens (snd (refresh e c swept t d)))
           = filter (\<lambda>x. rt_family x \<noteq> rt_family r) (refreshTokens d))"
proof (cases "cl_now c - v \<le> ae_graceMs e")
  case True
  then show ?thesis using assms by (auto simp: refresh_def refresh_check_def Let_def)
next
  case False
  then have r: "refresh e c swept t d = (Inl (refresh_error ''Invalid refresh token''), refresh_reused c r d)"
    using assms by (auto simp: refresh_def refresh_check_def Let_def)
  have ts: "refreshTokens (refresh_reused c r d) = (if truthy (rt_family r) then refreshTokens (revokeFamily (cl_now c) (rt_family r) d)
      else filter (\<lambda>t. rt_user t \<noteq> rt_user r) (refreshTokens d))"
    by (simp add: refresh_reused_def Let_def split: option.split)
  have other: "filter (\<lambda>x. rt_family x \<noteq> f) (update_where (\<lambda>x. rt_family x = f \<and> rt_revokedAt x = None) (\<lambda>x. x\<lparr>rt_revokedAt := Some n\<rparr>) ts)
      = filter (\<lambda>x. rt_family x \<noteq> f) ts" for f n ts by (induction ts) (auto simp: update_where_def)
  show ?thesis using False by (auto simp: r ts revokeFamily_def revoke_tokens_def set_update_where other)
qed

lemma refresh_reuse_ends_family_witness:
  "\<exists>d r. find_refresh sample_auth ''t1'' d = Some r \<and> rt_revokedAt r = Some 5000 \<and> map rt_revokedAt (refreshTokens d) = [Some 5000, None]
     \<and> (\<forall>x \<in> set (refreshTokens (snd (refresh sample_auth (call_at 60000 ''3'') True ''t1'' d))). rt_revokedAt x \<noteq> None)"
proof -
  let ?d = "snd (refresh sample_auth (call_at 5000 ''2'') False ''t1'' (snd (issueSession sample_auth (call_at 1000 ''1'') u_pw ''web'' auth_db)))"
  let ?d' = "snd (refresh sample_auth (call_at 60000 ''3'') True ''t1'' ?d)"
  have "holds (\<lambda>r. rt_revokedAt r = Some 5000 \<and> rt_family r = Some ''f1'') (find_refresh sample_auth ''t1'' ?d)" by code_simp
  then obtain r where r: "find_refresh sample_auth ''t1'' ?d = Some r" "rt_revokedAt r = Some 5000" "rt_family r = Some ''f1''"
    by (auto simp: holds_iff)
  have "ae_verifyRefresh sample_auth ''t1'' \<noteq> None" "\<not> cl_now (call_at 60000 ''3'') - 5000 \<le> ae_graceMs sample_auth" by code_simp+
  then have "\<forall>x \<in> set (refreshTokens ?d'). rt_family x = Some ''f1'' \<longrightarrow> rt_revokedAt x \<noteq> None"
    using refresh_reuse_ends_family [of sample_auth "''t1''" ?d r 5000 "call_at 60000 ''3''" True] r by simp
  moreover have "\<forall>x \<in> set (refreshTokens ?d'). rt_family x = Some ''f1''" by code_simp
  moreover have "map rt_revokedAt (refreshTokens ?d) = [Some 5000, None]" by code_simp
  ultimately show ?thesis by (intro exI [of _ ?d] exI [of _ r] conjI r(1,2)) blast+
qed

text \<open>The check of a token and its rotation are separate: two requests that both pass the check with the
  same token both get a new one, and the family then has two live tokens.\<close>

theorem concurrent_refresh_two_live:
  assumes "refresh_check e c1 t d = (Inr (r, u), d1)" and "refresh_check e c2 t d = (Inr (r, u), d2)"
    and "fresh_call c1 d" and "fresh_call c2 d" and "cl_rowId c1 \<noteq> cl_rowId c2" and "truthy (rt_family r)"
  shows "\<exists>a \<in> set (refreshTokens (snd (refresh_rotate e c2 r u (snd (refresh_rotate e c1 r u d))))).
    \<exists>b \<in> set (refreshTokens (snd (refresh_rotate e c2 r u (snd (refresh_rotate e c1 r u d))))).
      rt_id a \<noteq> rt_id b \<and> rt_family a = rt_family r \<and> rt_family b = rt_family r \<and> rt_revokedAt a = None \<and> rt_revokedAt b = None"
proof -
  have r: "r \<in> set (refreshTokens d)" using refresh_check_Inr [OF assms(1)] by (auto simp: find_refresh_def dest: find_SomeD)
  have f: "rt_family r = Some (refresh_family c r)" for c using assms(6) by (auto simp: refresh_family_def truthy_iff)
  have n: "rt_id (rotated_token e c r u) = cl_rowId c" "rt_revokedAt (rotated_token e c r u) = None"
    "rt_family (rotated_token e c r u) = rt_family r" for c by (simp_all add: rotated_token_def f [of c, symmetric])
  have "rotated_token e c1 r u \<in> set (refreshTokens (snd (refresh_rotate e c2 r u (snd (refresh_rotate e c1 r u d)))))"
    "rotated_token e c2 r u \<in> set (refreshTokens (snd (refresh_rotate e c2 r u (snd (refresh_rotate e c1 r u d)))))"
    using r n assms(3,4) by (auto simp: refresh_rotate_def Let_def update_where_append update_where_def fresh_call_def)
  then show ?thesis using n assms(5) by (intro bexI [of _ "rotated_token e c1 r u"] bexI [of _ "rotated_token e c2 r u"]) simp_all
qed

lemma concurrent_refresh_two_live_witness:
  "\<exists>d r u. refresh_check sample_auth (call_at 5000 ''2'') ''t1'' d = (Inr (r, u), d)
     \<and> (\<exists>a \<in> set (refreshTokens (snd (refresh_rotate sample_auth (call_at 5001 ''3'') r u (snd (refresh_rotate sample_auth (call_at 5000 ''2'') r u d))))).
         rt_revokedAt a = None)"
proof -
  let ?d = "snd (issueSession sample_auth (call_at 1000 ''1'') u_pw ''web'' auth_db)"
  have "case fst (refresh_check sample_auth (call_at 5000 ''2'') ''t1'' ?d) of Inr (r, u) \<Rightarrow> truthy (rt_family r) | _ \<Rightarrow> False" by code_simp
  then obtain r u d1 where 1: "refresh_check sample_auth (call_at 5000 ''2'') ''t1'' ?d = (Inr (r, u), d1)" "truthy (rt_family r)"
    by (cases "refresh_check sample_auth (call_at 5000 ''2'') ''t1'' ?d") (auto split: sum.splits)
  have "fst (refresh_check sample_auth (call_at 5001 ''3'') ''t1'' ?d) = fst (refresh_check sample_auth (call_at 5000 ''2'') ''t1'' ?d)" by code_simp
  then obtain d2 where 2: "refresh_check sample_auth (call_at 5001 ''3'') ''t1'' ?d = (Inr (r, u), d2)"
    using 1 by (cases "refresh_check sample_auth (call_at 5001 ''3'') ''t1'' ?d") auto
  have fr: "fresh_call (call_at 5000 ''2'') ?d" "fresh_call (call_at 5001 ''3'') ?d" "cl_rowId (call_at 5000 ''2'') \<noteq> cl_rowId (call_at 5001 ''3'')" by code_simp+
  show ?thesis using concurrent_refresh_two_live [OF 1(1) 2 fr 1(2)] 1(1) refresh_check_Inr [OF 1(1)] by blast
qed

end
