(* ===== verification/UserProps.thy ===== *)
theory UserProps
  imports UserEdits AccessProps TerminalClaims TokenClaims
begin

text \<open>
  Lemmas on account operations: what ending all sessions of a user leaves alone, what an edit
  writes, and what cutting a user off removes.
\<close>

section \<open>Ending every session\<close>

lemma session_only_more:
  assumes "session_only d d'"
  shows "refreshTokens d' = refreshTokens d" "apiTokens d' = apiTokens d" "roles d' = roles d" "orgs d' = orgs d"
    "memberships d' = memberships d" "groups d' = groups d" "userScopes d' = userScopes d" "deviceRequests d' = deviceRequests d"
  using assms by (auto simp: session_only_def)

lemma session_only_end_ids: "session_only (w_db w) (w_db (end_ids now fl reason ids w))"
  unfolding end_ids_def
proof (induction ids arbitrary: w)
  case (Cons i ids)
  show ?case using session_only_trans [OF session_only_end_hub Cons.IH] by simp
qed simp

lemma session_only_end_rdp: "session_only (w_db (snd acc)) (w_db (snd (fold (end_rdp_session failed now reason) ids acc)))"
proof (induction ids arbitrary: acc)
  case (Cons i ids)
  have "session_only (w_db (snd acc)) (w_db (snd (end_rdp_session failed now reason i acc)))"
    using end_rdp_session_db [of failed now reason i "fst acc" "snd acc"] session_only_end by simp
  then show ?case using Cons.IH [of "end_rdp_session failed now reason i acc"] session_only_trans by simp
qed simp

lemma session_only_endAll: "session_only (w_db w) (w_db (snd (endAllSessionsForUser now fl lf oid uid reason w)))"
  unfolding endAllSessionsForUser_def endAllForUser_def Let_def
  using session_only_trans [OF session_only_end_ids session_only_end_rdp [of "(_, end_ids now fl reason _ w)", unfolded snd_conv]] session_only_end_ids
  by (simp add: case_prod_beta) 

text \<open>What \<open>revokeAllSessions\<close> does besides ending terminals: the refresh tokens and the time before which
  access tokens no longer count.\<close>

definition signed_out :: "int \<Rightarrow> id \<Rightarrow> db \<Rightarrow> db" where
  "signed_out now uid d = bumpSessionsValidFrom now uid (revokeAllFamiliesForUser now uid d)"

lemma revokeAllSessions_only: "session_only (signed_out now uid (w_db w)) (w_db (revokeAllSessions now fl lf uid oid reason w))"
  using session_only_endAll [of "w\<lparr>w_db := signed_out now uid (w_db w)\<rparr>"]
  by (simp add: revokeAllSessions_def Let_def signed_out_def)

lemma signed_out_frames [simp]:
  "requests (signed_out now uid d) = requests d" "certs (signed_out now uid d) = certs d" "apiTokens (signed_out now uid d) = apiTokens d"
  "sessions (signed_out now uid d) = sessions d" "memberships (signed_out now uid d) = memberships d"
  "users (signed_out now uid d) = update_where (\<lambda>u. usr_id u = uid) (\<lambda>u. u\<lparr>usr_sessionsFrom := Some (math_floor_div now 1000 * 1000)\<rparr>) (users d)"
  "refreshTokens (signed_out now uid d) =
     update_where (\<lambda>t. rt_user t = uid \<and> rt_revokedAt t = None) (\<lambda>t. t\<lparr>rt_revokedAt := Some now\<rparr>) (refreshTokens d)"
  by (simp_all add: signed_out_def bumpSessionsValidFrom_def revokeAllFamiliesForUser_def revoke_tokens_def)

section \<open>Cut off\<close>

text \<open>Nothing of the account is left to use: no request or certificate stands, no token is live, no
  terminal or desktop session runs, and no request to the API is accepted as coming from it.\<close>

definition rows_cut :: "id \<Rightarrow> id \<Rightarrow> db \<Rightarrow> bool" where
  "rows_cut oid uid d =
     ((\<forall>r \<in> set (requests d). \<not> standing_request oid uid r) \<and> (\<forall>k \<in> set (certs d). \<not> standing_cert oid uid k)
      \<and> (\<forall>t \<in> set (apiTokens d). at_org t = oid \<and> at_user t = uid \<longrightarrow> at_revokedAt t \<noteq> None)
      \<and> (\<forall>t \<in> set (refreshTokens d). rt_user t = uid \<longrightarrow> rt_revokedAt t \<noteq> None))"

definition sessions_cut :: "id \<Rightarrow> id \<Rightarrow> world \<Rightarrow> bool" where
  "sessions_cut oid uid w =
     ((\<forall>r \<in> set (w_hub w). \<not> (hr_user r = uid \<and> hr_org r = oid))
      \<and> (\<forall>r \<in> set (sessions (w_db w)). ses_user r = uid \<and> ses_org r = oid \<and> ses_protocol r = RDP \<longrightarrow> ses_status r \<noteq> SES_ACTIVE))"

text \<open>The assumption on the writes: none of the rows of sessions fails to be written.\<close>

definition writes_succeed :: "faults \<Rightarrow> world \<Rightarrow> bool" where
  "writes_succeed fl w = (\<forall>r \<in> set (sessions (w_db w)). ses_id r \<noteq> [] \<and> \<not> snd (fl (ses_id r)))"

lemma revokeAllSessions_cut:
  assumes "oid \<noteq> []" and "writes_succeed fl w"
  shows "sessions_cut oid uid (revokeAllSessions now fl False uid oid reason w)"
proof -
  let ?w = "w\<lparr>w_db := signed_out now uid (w_db w)\<rparr>"
  obtain n w' where e: "endAllSessionsForUser now fl False oid uid reason ?w = (n, w')" by force
  have "\<forall>r \<in> set (sessions (w_db ?w)). ses_id r \<noteq> [] \<and> \<not> snd (fl (ses_id r))" using assms(2) by (simp add: writes_succeed_def)
  note U = user_sessions_all_end [OF e assms(1) this]
  have "revokeAllSessions now fl False uid oid reason w = w'"
    using e assms(1) by (simp add: revokeAllSessions_def Let_def signed_out_def)
  then show ?thesis using U by (simp add: sessions_cut_def)
qed

lemma cut_rows_frames [simp]:
  "users (cut_rows now oid uid reason b d) = users d" "sessions (cut_rows now oid uid reason b d) = sessions d"
  "apiTokens (cut_rows now oid uid reason b d) = apiTokens d" "refreshTokens (cut_rows now oid uid reason b d) = refreshTokens d"
  by (simp_all add: cut_rows_def)

lemma update_where_clears:
  assumes "\<And>r. P r \<Longrightarrow> \<not> P (f r)" shows "\<forall>r \<in> set (update_where P f rs). \<not> P r"
  using assms by (auto simp: set_update_where)

lemma cut_rows_tables:
  "\<exists>f. requests (cut_rows now oid uid reason b d) = update_where (standing_request oid uid) f (requests d) \<and> (\<forall>r. req_status (f r) = REVOKED)"
  "\<exists>f. certs (cut_rows now oid uid reason b d) = update_where (standing_cert oid uid) f (certs d) \<and> (\<forall>k. cert_status (f k) = CERT_REVOKED)"
  by (rule exI, simp add: cut_rows_def, rule conjI, rule refl, simp)+

lemma cut_rows_cut:
  "\<forall>r \<in> set (requests (cut_rows now oid uid reason b d)). \<not> standing_request oid uid r"
  "\<forall>k \<in> set (certs (cut_rows now oid uid reason b d)). \<not> standing_cert oid uid k"
  using cut_rows_tables(1) [of now oid uid reason b d] cut_rows_tables(2) [of now oid uid reason b d]
  by (elim exE conjE, simp only:, intro update_where_clears, simp add: standing_request_def standing_cert_def)+

lemma revokeAllTokens_cut:
  "\<forall>t \<in> set (apiTokens (snd (revokeAllTokens now oid uid reason b d))). \<not> (at_org t = oid \<and> at_user t = uid \<and> at_revokedAt t = None)"
proof -
  have "apiTokens (snd (revokeAllTokens now oid uid reason b d)) = update_where (\<lambda>t. at_org t = oid \<and> at_user t = uid \<and> at_revokedAt t = None)
      (\<lambda>t. t\<lparr>at_revokedAt := Some now, at_revokedBy := b, at_revokedReason := Some reason\<rparr>) (apiTokens d)"
    by (simp add: revokeAllTokens_def Let_def)
  then show ?thesis by (simp only:) (rule update_where_clears, simp)
qed

lemma signed_out_cut: "\<forall>t \<in> set (refreshTokens (signed_out now uid d)). \<not> (rt_user t = uid \<and> rt_revokedAt t = None)"
  unfolding signed_out_frames by (rule update_where_clears) simp

lemma revokeAllTokens_frames [simp]:
  "users (snd (revokeAllTokens now oid uid reason b d)) = users d" "sessions (snd (revokeAllTokens now oid uid reason b d)) = sessions d"
  "requests (snd (revokeAllTokens now oid uid reason b d)) = requests d" "certs (snd (revokeAllTokens now oid uid reason b d)) = certs d"
  by (simp_all add: revokeAllTokens_def Let_def)

lemma revokeAllAccess_result:
  assumes "oid \<noteq> []" and "writes_succeed fl w"
  and w'_def: "w' = snd (revokeAllAccessFor now fl False oid uid reason sr b w)"
  shows "rows_cut oid uid (w_db w')" "sessions_cut oid uid w'"
    "users (w_db w') = update_where (\<lambda>u. usr_id u = uid) (\<lambda>u. u\<lparr>usr_sessionsFrom := Some (math_floor_div now 1000 * 1000)\<rparr>) (users (w_db w))"
proof -
  let ?d1 = "cut_rows now oid uid reason b (snd (revokeAllTokens now oid uid reason b (w_db w)))"
  let ?w1 = "w\<lparr>w_db := ?d1\<rparr>"
  have w': "w' = revokeAllSessions now fl False uid oid sr ?w1"
    unfolding w'_def revokeAllAccessFor_def by (simp add: case_prod_beta)
  have so: "session_only (signed_out now uid ?d1) (w_db w')" unfolding w' using revokeAllSessions_only [of now uid ?w1] by simp
  show "sessions_cut oid uid w'" unfolding w' by (rule revokeAllSessions_cut) (use assms in \<open>simp_all add: writes_succeed_def\<close>)
  show "users (w_db w') = update_where (\<lambda>u. usr_id u = uid) (\<lambda>u. u\<lparr>usr_sessionsFrom := Some (math_floor_div now 1000 * 1000)\<rparr>) (users (w_db w))"
    unfolding session_only_frames(3) [OF so] by simp
  let ?d0 = "snd (revokeAllTokens now oid uid reason b (w_db w))"
  have f: "apiTokens (w_db w') = apiTokens ?d0" "requests (w_db w') = requests ?d1" "certs (w_db w') = certs ?d1"
    "refreshTokens (w_db w') = refreshTokens (signed_out now uid ?d1)"
    unfolding session_only_frames(1,2) [OF so] session_only_more(1,2) [OF so] by simp_all
  show "rows_cut oid uid (w_db w')"
    unfolding rows_cut_def f
    using revokeAllTokens_cut [where oid = oid and uid = uid and now = now and reason = reason and b = b and d = "w_db w"] signed_out_cut [where uid = uid and now = now and d = ?d1] by (intro conjI cut_rows_cut) auto
qed

section \<open>What an edit writes\<close>

lemma applyGroupMembership_frames [simp]:
  "users (snd (applyGroupMembership oid uid ids a ua d)) = users d" "sessions (snd (applyGroupMembership oid uid ids a ua d)) = sessions d"
  by (simp_all add: applyGroupMembership_def groups_audit_def Let_def split: sum.split)

lemma set_opt_None [simp]: "set_opt None f u = u"
  by (simp add: set_opt_def)

lemma apply_empty [simp]: "apply_patch empty_patch u = u"
  by (simp add: apply_patch_def empty_patch_def)

lemma update_where_same [simp]: "update_where P (\<lambda>x. x) rs = rs"
  by (simp add: update_where_def)

text \<open>A successful edit passed its checks, wrote the patch and went on to the follow-up.\<close>

lemma updateUser_Inr:
  assumes "updateUser hash now fl lf oid uid x a ua w = (Inr v, w')"
  obtains u p d where "find_user (w_db w) uid oid = Some u" "user_patch_of hash (w_db w) oid u x a = Inr p" "v = apply_patch p u"
    "users d = update_where (\<lambda>u. usr_id u = uid) (apply_patch p) (users (w_db w))" "sessions d = sessions (w_db w)"
    "w' = edit_follow_up now fl lf oid uid p a (w\<lparr>w_db := d\<rparr>)"
proof -
  obtain u where u: "find_user (w_db w) uid oid = Some u" using assms by (cases "find_user (w_db w) uid oid") (simp_all add: updateUser_def)
  obtain p where p: "user_patch_of hash (w_db w) oid u x a = Inr p"
    using assms u by (cases "user_patch_of hash (w_db w) oid u x a") (simp_all add: updateUser_def)
  define g where "g = (case ue_groups x of None \<Rightarrow> (Inr [], w_db w) | Some gids \<Rightarrow> applyGroupMembership oid uid gids a ua (w_db w))"
  have g: "users (snd g) = users (w_db w)" "sessions (snd g) = sessions (w_db w)" by (simp_all add: g_def split: option.split)
  obtain gs where gs: "fst g = Inr gs" using assms u p by (auto simp: updateUser_def g_def [symmetric] split: sum.splits prod.splits)
  obtain dg where G: "g = (Inr gs, dg)" using gs by (cases g) auto
  have run: "updateUser hash now fl lf oid uid x a ua w = (case (Inr gs, dg) of (Inl er, d1) \<Rightarrow> (Inl er, w\<lparr>w_db := d1\<rparr>)
      | (Inr _, d1) \<Rightarrow>
          if p = empty_patch then (Inr u, w\<lparr>w_db := d1\<rparr>)
          else if email_conflict d1 oid uid p then (Inl DbError, w\<lparr>w_db := d1\<rparr>)
          else
            let d2 = update_user_row uid (apply_patch p) d1; changes = edit_changes (w_db w) u p;
                d3 = (if a \<noteq> None \<and> changes \<noteq> []
                      then auditLog oid (actor_id a) (edit_action p) ''User'' (Some uid) (Some (JObj [(''changes'', JObj changes)])) ua d2
                      else d2)
            in (Inr (apply_patch p u), edit_follow_up now fl lf oid uid p a (w\<lparr>w_db := d3\<rparr>)))"
    by (simp add: updateUser_def u p g_def [symmetric] G Let_def)
  show ?thesis
  proof (cases "p = empty_patch")
    case True
    then have "v = u" "w' = w\<lparr>w_db := dg\<rparr>" using assms unfolding run by simp_all
    moreover have "edit_follow_up now fl lf oid uid empty_patch a z = z" for z by (simp add: edit_follow_up_def empty_patch_def)
    moreover have "update_where (\<lambda>u. usr_id u = uid) (apply_patch empty_patch) us = us" for us by (simp add: update_where_def map_idI)
    ultimately show ?thesis using that [OF u p, of "dg"] True g G by simp
  next
    case False
    define d2 where "d2 = update_user_row uid (apply_patch p) (dg)"
    define d3 where "d3 = (if a \<noteq> None \<and> edit_changes (w_db w) u p \<noteq> []
        then auditLog oid (actor_id a) (edit_action p) ''User'' (Some uid) (Some (JObj [(''changes'', JObj (edit_changes (w_db w) u p))])) ua d2 else d2)"
    have "\<not> email_conflict (dg) oid uid p"
using assms False unfolding run by auto
    then have "v = apply_patch p u \<and> w' = edit_follow_up now fl lf oid uid p a (w\<lparr>w_db := d3\<rparr>)"
      using assms False unfolding run by (auto simp: Let_def d3_def d2_def)
    moreover have "users d3 = update_where (\<lambda>u. usr_id u = uid) (apply_patch p) (users (w_db w))" "sessions d3 = sessions (w_db w)"
      using g G by (simp_all add: d3_def d2_def)
    ultimately show ?thesis using that [OF u p] by blast
  qed
qed

lemma revokeAllSessions_users:
  "users (w_db (revokeAllSessions now fl lf uid oid reason w)) =
     update_where (\<lambda>u. usr_id u = uid) (\<lambda>u. u\<lparr>usr_sessionsFrom := Some (math_floor_div now 1000 * 1000)\<rparr>) (users (w_db w))"
  using session_only_frames(3) [OF revokeAllSessions_only [of now uid w fl lf oid reason]] by simp

lemma revokeAllAccess_users:
  "users (w_db (snd (revokeAllAccessFor now fl lf oid uid reason sr b w))) =
     update_where (\<lambda>u. usr_id u = uid) (\<lambda>u. u\<lparr>usr_sessionsFrom := Some (math_floor_div now 1000 * 1000)\<rparr>) (users (w_db w))"
  by (simp add: revokeAllAccessFor_def case_prod_beta revokeAllSessions_users)

lemma edit_follow_up_users:
  "\<exists>f. (\<forall>u. f u = u \<or> (\<exists>t. f u = u\<lparr>usr_sessionsFrom := t\<rparr>)) \<and> users (w_db (edit_follow_up now fl lf oid uid p a w)) = map f (users (w_db w))"
proof -
  let ?f = "\<lambda>u. if usr_id u = uid then u\<lparr>usr_sessionsFrom := Some (math_floor_div now 1000 * 1000)\<rparr> else u"
  have "users (w_db (edit_follow_up now fl lf oid uid p a w)) \<in> {users (w_db w), map ?f (users (w_db w))}"
    by (auto simp: edit_follow_up_def revokeAllSessions_users revokeAllAccess_users update_where_def split: option.split)
  then show ?thesis
  proof (elim insertE)
    assume "users (w_db (edit_follow_up now fl lf oid uid p a w)) = users (w_db w)"
    then show ?thesis by (intro exI [of _ "\<lambda>u. u"]) simp
  next
    assume "users (w_db (edit_follow_up now fl lf oid uid p a w)) = map ?f (users (w_db w))"
    then show ?thesis by (intro exI [of _ ?f]) auto
  qed simp
qed

section \<open>What a deletion does to the other accounts\<close>

lemma session_only_terminate_all: "session_only (w_db (snd acc)) (w_db (snd (terminate_all now fl oid b ids acc)))"
  unfolding snd_terminate_all terminate_ids_def
proof (induction ids arbitrary: acc)
  case (Cons i ids)
  show ?case using session_only_trans [OF session_only_terminate Cons.IH [of "(0, _)", unfolded snd_conv]] by simp
qed simp

text \<open>Their manager, where it was the deleted account, is the named one or none.\<close>

definition handed_over :: "id \<Rightarrow> id \<Rightarrow> id \<Rightarrow> user \<Rightarrow> user" where
  "handed_over oid uid target u =
     (if target \<noteq> [] \<and> usr_org u = oid \<and> usr_manager u = Some uid then u\<lparr>usr_manager := Some target\<rparr>
      else u\<lparr>usr_manager := forget uid (usr_manager u)\<rparr>)"

lemma deleteUser_users:
  assumes "deleteUser now fl lf oid uid target caller a w = (Inr (), w')"
  shows "users (w_db w') = map (handed_over oid uid target) (filter (\<lambda>u. usr_id u \<noteq> uid) (users (w_db w)))" "target \<noteq> uid \<or> target = []"
    "delete_guard (w_db w) oid uid target a = Inr ()"
proof -
  show g: "delete_guard (w_db w) oid uid target a = Inr ()"
    using assms by (cases "delete_guard (w_db w) oid uid target a") (simp_all add: deleteUser_def)
  show t: "target \<noteq> uid \<or> target = []" using g by (auto simp: delete_guard_def split: option.splits sum.splits if_splits)
  define w1 where "w1 = snd (terminateActiveSessionsFor now fl oid (\<lambda>r. ses_user r = uid) caller w)"
  define w2 where "w2 = snd (revokeAllAccessFor now fl lf oid uid ''User deleted'' ''account_deleted'' caller w1)"
  have w': "w' = w2\<lparr>w_db := delete_user_row uid (drop_vault oid uid (snd (cleanupPolicySubjects USER uid (reassign_reports oid uid target (w_db w2)))))\<rparr>"
    using assms g by (simp add: deleteUser_def Let_def w1_def w2_def)
  have "session_only (w_db w) (w_db w1)"
    unfolding w1_def terminateActiveSessionsFor_def using session_only_terminate_all [of "(0, w)"] by simp
  then have u1: "users (w_db w1) = users (w_db w)" by (rule session_only_frames(3))
  have u2: "filter (\<lambda>u. usr_id u \<noteq> uid) (map h (users (w_db w2))) = map h (filter (\<lambda>u. usr_id u \<noteq> uid) (users (w_db w)))"
    if "\<And>u. usr_id (h u) = usr_id u" for h :: "user \<Rightarrow> user"
  proof -
    have "filter (\<lambda>u. usr_id u \<noteq> uid) (update_where (\<lambda>u. usr_id u = uid) (usr_sessionsFrom_update k) us) = filter (\<lambda>u. usr_id u \<noteq> uid) us"
      for k and us :: "user list" by (induction us) (simp_all add: update_where_def)
    then show ?thesis by (simp add: w2_def revokeAllAccess_users u1 filter_map o_def that)
  qed
  have "users (w_db w') = map (\<lambda>u. u\<lparr>usr_manager := forget uid (usr_manager u)\<rparr>)
      (filter (\<lambda>u. usr_id u \<noteq> uid) (users (reassign_reports oid uid target (w_db w2))))"
    by (simp add: w' delete_user_row_def drop_vault_def Let_def cleanupPolicySubjects_def)
  also have "\<dots> = map (handed_over oid uid target) (filter (\<lambda>u. usr_id u \<noteq> uid) (users (w_db w)))"
    using t u2 [of "\<lambda>u. u"] u2 [of "\<lambda>u. if usr_org u = oid \<and> usr_manager u = Some uid then u\<lparr>usr_manager := Some target\<rparr> else u"]
    by (auto simp: reassign_reports_def update_where_def handed_over_def forget_def)
  finally show "users (w_db w') = map (handed_over oid uid target) (filter (\<lambda>u. usr_id u \<noteq> uid) (users (w_db w)))" .
qed

end
