(* ===== verification/Net.thy ===== *)
theory Net
  imports Prelude
begin

text \<open>
  Host names and addresses: what the code takes from Node's \<open>net.isIP\<close>, the checks on targets
  of \<open>backend/src/services/quickConnectService.js\<close>, and the guard of
  \<open>backend/src/services/sshConnect.js\<close> that resolves a target once and refuses addresses no one
  should reach through Shellius. Name resolution is an argument.
\<close>

section \<open>Texts\<close>

fun split_by :: "(char \<Rightarrow> bool) \<Rightarrow> string \<Rightarrow> string list" where
  "split_by P [] = [[]]"
| "split_by P (x # xs) =
     (if P x then [] # split_by P xs else (case split_by P xs of [] \<Rightarrow> [[x]] | y # ys \<Rightarrow> (x # y) # ys))"

abbreviation split_on :: "char \<Rightarrow> string \<Rightarrow> string list" where
  "split_on c \<equiv> split_by (\<lambda>x. x = c)"

definition is_digit :: "char \<Rightarrow> bool" where
  "is_digit c = (let n = of_char c :: nat in 48 \<le> n \<and> n \<le> 57)"

definition is_hex :: "char \<Rightarrow> bool" where
  "is_hex c = (is_digit c \<or> (let n = of_char (lower_char c) :: nat in 97 \<le> n \<and> n \<le> 102))"

definition is_alnum :: "char \<Rightarrow> bool" where
  "is_alnum c = is_lower_alnum (lower_char c)"

definition hex_digit :: "char \<Rightarrow> nat" where
  "hex_digit c = (let n = of_char (lower_char c) :: nat in if n \<le> 57 then n - 48 else n - 87)"

definition dec_value :: "string \<Rightarrow> nat" where
  "dec_value s = foldl (\<lambda>n c. 10 * n + (of_char c - 48)) 0 s"

definition hex_value :: "string \<Rightarrow> nat" where
  "hex_value s = foldl (\<lambda>n c. 16 * n + hex_digit c) 0 s"

section \<open>Addresses as \<open>net.isIP\<close> reads them\<close>

text \<open>Four decimal numbers up to 255 without leading zeros.\<close>

definition is_octet :: "string \<Rightarrow> bool" where
  "is_octet s = (s \<noteq> [] \<and> length s \<le> 3 \<and> (\<forall>c \<in> set s. is_digit c) \<and> (length s = 1 \<or> hd s \<noteq> CHR ''0'') \<and> dec_value s \<le> 255)"

definition isIPv4 :: "string \<Rightarrow> bool" where
  "isIPv4 s = (let ps = split_on (CHR ''.'') s in length ps = 4 \<and> (\<forall>p \<in> set ps. is_octet p))"

definition octets :: "string \<Rightarrow> nat list" where
  "octets s = map dec_value (split_on (CHR ''.'') s)"

definition v4_value :: "string \<Rightarrow> nat" where
  "v4_value s = foldl (\<lambda>n o'. 256 * n + o') 0 (octets s)"

text \<open>
  Eight groups of up to four hexadecimal digits; one run of zero groups may be written \<open>::\<close>, the
  last two groups as an IPv4 address, and a zone may follow after \<open>%\<close>.
\<close>

definition is_seg :: "string \<Rightarrow> bool" where
  "is_seg s = (s \<noteq> [] \<and> length s \<le> 4 \<and> (\<forall>c \<in> set s. is_hex c))"

definition v6_part :: "bool \<Rightarrow> string \<Rightarrow> nat list option" where
  "v6_part tail s =
     (if s = [] then Some []
      else let ps = split_on (CHR '':'') s in
        if \<forall>p \<in> set ps. is_seg p then Some (map hex_value ps)
        else if tail \<and> (\<forall>p \<in> set (butlast ps). is_seg p) \<and> isIPv4 (last ps)
        then Some (map hex_value (butlast ps) @ [v4_value (last ps) div 65536, v4_value (last ps) mod 65536])
        else None)"

fun split_dc :: "string \<Rightarrow> (string \<times> string) option" where
  "split_dc (a # b # xs) =
     (if a = CHR '':'' \<and> b = CHR '':'' then Some ([], xs)
      else case split_dc (b # xs) of None \<Rightarrow> None | Some (l, r) \<Rightarrow> Some (a # l, r))"
| "split_dc _ = None"

definition zone_ok :: "string \<Rightarrow> bool" where
  "zone_ok z = (z = [] \<or> (2 \<le> length z \<and> (\<forall>c \<in> set (tl z). is_alnum c \<or> c \<in> {CHR ''-'', CHR ''.'', CHR '':''})))"

definition v6_groups :: "string \<Rightarrow> nat list option" where
  "v6_groups s =
     (let a = takeWhile (\<lambda>c. c \<noteq> CHR ''%'') s; z = dropWhile (\<lambda>c. c \<noteq> CHR ''%'') s in
      if \<not> zone_ok z then None
      else case split_dc a of
        None \<Rightarrow> (case v6_part True a of None \<Rightarrow> None | Some gs \<Rightarrow> if length gs = 8 then Some gs else None)
      | Some (l, r) \<Rightarrow>
          (case (v6_part False l, v6_part True r) of
             (Some ls, Some rs) \<Rightarrow>
               if length ls + length rs \<le> 7 then Some (ls @ replicate (8 - length ls - length rs) 0 @ rs) else None
           | _ \<Rightarrow> None))"

definition isIPv6 :: "string \<Rightarrow> bool" where
  "isIPv6 s = (v6_groups s \<noteq> None)"

definition v6_value :: "string \<Rightarrow> nat" where
  "v6_value s = (case v6_groups s of None \<Rightarrow> 0 | Some gs \<Rightarrow> foldl (\<lambda>n g. 65536 * n + g) 0 gs)"

definition isIP :: "string \<Rightarrow> nat" where
  "isIP s = (if isIPv4 s then 4 else if isIPv6 s then 6 else 0)"

section \<open>Names\<close>

text \<open>\<open>HOSTNAME_RE\<close>: labels of up to 63 letters, digits and inner hyphens, separated by dots.\<close>

definition is_label :: "string \<Rightarrow> bool" where
  "is_label s = (s \<noteq> [] \<and> length s \<le> 63 \<and> (\<forall>c \<in> set s. is_alnum c \<or> c = CHR ''-'') \<and> is_alnum (hd s) \<and> is_alnum (last s))"

definition HOSTNAME_RE :: "string \<Rightarrow> bool" where
  "HOSTNAME_RE s = (\<forall>p \<in> set (split_on (CHR ''.'') s). is_label p)"

definition USERNAME_RE :: "string \<Rightarrow> bool" where
  "USERNAME_RE s = (s \<noteq> [] \<and> length s \<le> 64 \<and> (\<forall>c \<in> set s. is_alnum c \<or> c \<in> {CHR ''.'', CHR ''_'', CHR ''-''}))"

definition isValidHost :: "string \<Rightarrow> bool" where
  "isValidHost h =
     (if h = [] \<or> (\<exists>c \<in> set h. is_ws c) then False
      else if isIP h \<noteq> 0 then True
      else HOSTNAME_RE h \<and> length h \<le> 253)"

section \<open>The target guard\<close>

datatype ip_class = Loopback | Unspecified | LinkLocal | Multicast | PrivateNet | PublicNet

fun ip_class_name :: "ip_class \<Rightarrow> string" where
  "ip_class_name Loopback = ''loopback''"
| "ip_class_name Unspecified = ''unspecified''"
| "ip_class_name LinkLocal = ''linklocal''"
| "ip_class_name Multicast = ''multicast''"
| "ip_class_name PrivateNet = ''private''"
| "ip_class_name PublicNet = ''public''"

definition classifyIpv4 :: "string \<Rightarrow> ip_class" where
  "classifyIpv4 ip =
     (let a = octets ip in
      if a ! 0 = 127 then Loopback
      else if a ! 0 = 0 then Unspecified
      else if a ! 0 = 169 \<and> a ! 1 = 254 then LinkLocal
      else if 224 \<le> a ! 0 \<and> a ! 0 \<le> 239 then Multicast
      else if a ! 0 = 255 \<and> a ! 1 = 255 \<and> a ! 2 = 255 \<and> a ! 3 = 255 then Multicast
      else if a ! 0 = 10 then PrivateNet
      else if a ! 0 = 172 \<and> 16 \<le> a ! 1 \<and> a ! 1 \<le> 31 then PrivateNet
      else if a ! 0 = 192 \<and> a ! 1 = 168 then PrivateNet
      else PublicNet)"

definition classifyIp :: "string \<Rightarrow> ip_class" where
  "classifyIp ip =
     (if isIP ip = 4 then classifyIpv4 ip
      else if isIP ip = 6 then
        (let l = lower ip in
         if l = ''::'' \<or> l = ''0:0:0:0:0:0:0:0'' then Unspecified
         else if l = ''::1'' \<or> l = ''0:0:0:0:0:0:0:1'' then Loopback
         else if prefix ''::ffff:'' l \<and> isIP (drop 7 l) = 4 then classifyIpv4 (drop 7 l)
         else if prefix ''fe'' l \<and> 3 \<le> length l \<and> l ! 2 \<in> {CHR ''8'', CHR ''9'', CHR ''a'', CHR ''b''} then LinkLocal
         else if prefix ''ff'' l then Multicast
         else if prefix ''fc'' l \<or> prefix ''fd'' l then PrivateNet
         else PublicNet)
      else PublicNet)"

text \<open>\<open>dns\<close> is \<open>dns.lookup\<close> with its time limit: the addresses, or the text of its error.\<close>

type_synonym resolver = "string \<Rightarrow> string + string list"

definition allowed_target :: "bool \<Rightarrow> string \<Rightarrow> bool" where
  "allowed_target loopbackAllowed a =
     (classifyIp a = Loopback \<and> loopbackAllowed \<or> classifyIp a \<in> {PublicNet, PrivateNet})"

definition resolveTarget :: "resolver \<Rightarrow> bool \<Rightarrow> string \<Rightarrow> (string \<times> string list) res" where
  "resolveTarget dns loopbackAllowed host =
     (if host = [] then Inl (api_error 400 ''host is required'')
      else case (if isIP host \<noteq> 0 then Inr [host] else dns host) of
        Inl m \<Rightarrow> Inl (ApiError 400 (''Could not resolve host '' @ dq host @ '': '' @ m) (Some ''DNS_RESOLUTION_FAILED''))
      | Inr addresses \<Rightarrow>
          if addresses = [] then Inl (ApiError 400 (''Could not resolve host '' @ dq host) (Some ''DNS_RESOLUTION_FAILED''))
          else case find (\<lambda>a. \<not> allowed_target loopbackAllowed a) addresses of
            Some a \<Rightarrow> Inl (ApiError 403 (''Target host '' @ dq host @ '' resolves to a disallowed address ('' @
                        dashed a (ip_class_name (classifyIp a)) @ '').'') (Some ''TARGET_NOT_ALLOWED''))
          | None \<Rightarrow> Inr (hd addresses, addresses))"

end
