(* ===== verification/Outbound.thy ===== *)
theory Outbound
  imports Net Users
begin

text \<open>
  The one outbound SSH engine (\<open>backend/src/services/sshConnect.js\<close>): which authentication
  attempts a connection may make and in which order, how they answer what the server still
  accepts, the host key rule, and the secrets of a stored identity. The transport (\<open>ssh2\<close>), key
  parsing and base64 are arguments.
\<close>

section \<open>Certificates\<close>

definition js_words :: "string \<Rightarrow> string list" where
  "js_words s = filter (\<lambda>p. p \<noteq> []) (split_by is_ws s)"

definition CERT_BASE_ALGO :: "(string \<times> string) list" where
  "CERT_BASE_ALGO =
     [(''ssh-ed25519-cert-v01@openssh.com'', ''ssh-ed25519''),
      (''ecdsa-sha2-nistp256-cert-v01@openssh.com'', ''ecdsa-sha2-nistp256''),
      (''ecdsa-sha2-nistp384-cert-v01@openssh.com'', ''ecdsa-sha2-nistp384''),
      (''ecdsa-sha2-nistp521-cert-v01@openssh.com'', ''ecdsa-sha2-nistp521'')]"

definition RSA_CERT_TYPE :: string where "RSA_CERT_TYPE = ''ssh-rsa-cert-v01@openssh.com''"

definition RSA_SIG_VARIANTS :: "string list" where "RSA_SIG_VARIANTS = [''rsa-sha2-512'', ''rsa-sha2-256'']"

text \<open>
  What the engine takes from outside: \<open>ke_parse\<close> is the key parser of \<open>ssh2\<close> (whether the key is
  a private one, or the text of its error), \<open>ke_decode64\<close> is \<open>Buffer.from(_, 'base64')\<close>.
\<close>

record key_env =
  ke_parse :: "string \<Rightarrow> string option \<Rightarrow> string + bool"
  ke_decode64 :: "string \<Rightarrow> string"

definition malformed_certificate :: err where
  "malformed_certificate = api_error 400 ''Malformed certificate text''"

text \<open>The algorithm name, and the base algorithms a signature may be made with.\<close>

definition parseCertificateText :: "key_env \<Rightarrow> string \<Rightarrow> (string \<times> string list) res" where
  "parseCertificateText e t =
     (case js_words t of
        algo # b64 # _ \<Rightarrow>
          (if map_of CERT_BASE_ALGO algo = None \<and> algo \<noteq> RSA_CERT_TYPE
           then Inl (ApiError 400 (''Unsupported certificate type: '' @ algo) (Some ''CERT_UNSUPPORTED_TYPE''))
           else if ke_decode64 e b64 = [] then Inl malformed_certificate
           else Inr (algo, if algo = RSA_CERT_TYPE then RSA_SIG_VARIANTS else [the (map_of CERT_BASE_ALGO algo)]))
      | _ \<Rightarrow> Inl malformed_certificate)"

section \<open>Authentication attempts\<close>

datatype ssh_secret = CertifiedKey string "string option" string string | PlainKey string "string option" | Password string | Prompted

record attempt =
  sa_type :: string
  sa_user :: string
  sa_secret :: ssh_secret
  sa_rsaAlgo :: "string option"

text \<open>Certificate, base algorithm: checked with the key before it is queued.\<close>

definition buildCertifiedKey :: "key_env \<Rightarrow> string \<Rightarrow> string option \<Rightarrow> string \<Rightarrow> string \<Rightarrow> ssh_secret res" where
  "buildCertifiedKey e pk pass cert base =
     (case ke_parse e pk pass of
        Inl m \<Rightarrow>
          Inl (ApiError 400
            (if contains_ci ''passphrase'' m
             then ''Private key is encrypted and requires a passphrase, or the passphrase is incorrect''
             else ''Could not parse private key: '' @ m) (Some ''KEY_PASSPHRASE_INVALID''))
      | Inr private_key \<Rightarrow>
          if \<not> private_key then Inl (api_error 400 ''certificate auth requires a private key, not a public key'')
          else case parseCertificateText e cert of Inl er \<Rightarrow> Inl er | Inr _ \<Rightarrow> Inr (CertifiedKey pk pass cert base))"

record connect_args =
  co_host :: string
  co_port :: int
  co_username :: string
  co_password :: "string option"
  co_privateKey :: "string option"
  co_passphrase :: "string option"
  co_certificate :: "string option"
  co_expected :: "string option"

fun certified_attempts :: "key_env \<Rightarrow> connect_args \<Rightarrow> bool \<Rightarrow> string list \<Rightarrow> attempt list res" where
  "certified_attempts e c rsa [] = Inr []"
| "certified_attempts e c rsa (b # bs) =
     (case buildCertifiedKey e (the (co_privateKey c)) (co_passphrase c) (the (co_certificate c)) b of Inl er \<Rightarrow> Inl er
      | Inr k \<Rightarrow> (case certified_attempts e c rsa bs of Inl er \<Rightarrow> Inl er
          | Inr rest \<Rightarrow> Inr (\<lparr>sa_type = ''publickey'', sa_user = co_username c, sa_secret = k,
                              sa_rsaAlgo = (if rsa then Some b else None)\<rparr> # rest)))"

definition buildAuthQueue :: "key_env \<Rightarrow> connect_args \<Rightarrow> attempt list res" where
  "buildAuthQueue e c =
     (case (if truthy (co_certificate c) \<and> truthy (co_privateKey c)
            then (case parseCertificateText e (the (co_certificate c)) of Inl er \<Rightarrow> Inl er
                  | Inr (algo, bases) \<Rightarrow> certified_attempts e c (algo = RSA_CERT_TYPE) bases)
            else Inr []) of Inl er \<Rightarrow> Inl er
      | Inr cs \<Rightarrow>
          Inr (cs @
            (if truthy (co_privateKey c)
             then [\<lparr>sa_type = ''publickey'', sa_user = co_username c, sa_secret = PlainKey (the (co_privateKey c)) (co_passphrase c), sa_rsaAlgo = None\<rparr>]
             else []) @
            (if truthy (co_password c)
             then [\<lparr>sa_type = ''password'', sa_user = co_username c, sa_secret = Password (the (co_password c)), sa_rsaAlgo = None\<rparr>,
                   \<lparr>sa_type = ''keyboard-interactive'', sa_user = co_username c, sa_secret = Prompted, sa_rsaAlgo = None\<rparr>]
             else [])))"

text \<open>The next attempt whose type the server still accepts, and what is left of the queue.\<close>

fun pickNextAuth :: "attempt list \<Rightarrow> string list \<Rightarrow> attempt option \<times> attempt list" where
  "pickNextAuth [] authsLeft = (None, [])"
| "pickNextAuth (a # q) authsLeft =
     (if authsLeft \<noteq> [] \<and> sa_type a \<notin> set authsLeft then pickNextAuth q authsLeft else (Some a, q))"

text \<open>The two RSA certificate attempts in the order the server prefers, in the places they had.\<close>

fun index_in :: "string list \<Rightarrow> string \<Rightarrow> nat" where
  "index_in [] a = 0"
| "index_in (x # xs) a = (if x = a then 0 else Suc (index_in xs a))"

fun refill :: "attempt list \<Rightarrow> attempt list \<Rightarrow> attempt list" where
  "refill [] es = []"
| "refill (a # q) es =
     (if sa_rsaAlgo a = None then a # refill q es
      else case es of [] \<Rightarrow> a # refill q [] | x # xs \<Rightarrow> x # refill q xs)"

definition reorderRsaCertAttempts :: "attempt list \<Rightarrow> string list \<Rightarrow> attempt list" where
  "reorderRsaCertAttempts q algs =
     (let es = filter (\<lambda>a. sa_rsaAlgo a \<noteq> None) q in
      if algs = [] \<or> length es < 2 then q
      else refill q (sort_key (\<lambda>a. index_in algs (the (sa_rsaAlgo a))) es))"

text \<open>
  The dialogue of \<open>connectSsh\<close> with a server that answers the attempts made so far: it accepts
  (\<open>None\<close>), or names the methods it still takes. The result says whether it was let in, and every
  attempt the server saw.
\<close>

lemma pickNextAuth_shorter: "pickNextAuth q ms = (Some a, q') \<Longrightarrow> length q' < length q"
  by (induction q ms rule: pickNextAuth.induct) (auto split: if_splits)

function dialogue :: "(attempt list \<Rightarrow> string list option) \<Rightarrow> attempt list \<Rightarrow> string list \<Rightarrow> attempt list \<Rightarrow> bool \<times> attempt list" where
  "dialogue server tried left q =
     (case pickNextAuth q left of
        (None, _) \<Rightarrow> (False, tried)
      | (Some a, q') \<Rightarrow>
          (case server (tried @ [a]) of
             None \<Rightarrow> (True, tried @ [a])
           | Some ms \<Rightarrow> dialogue server (tried @ [a]) ms q'))"
  by pat_completeness auto
termination
  by (relation "measure (\<lambda>(s, t, l, q). length q)") (auto dest!: pickNextAuth_shorter [OF sym])

declare dialogue.simps [simp del]

definition connect_args_error :: "connect_args \<Rightarrow> err option" where
  "connect_args_error c =
     (if co_host c = [] then Some (api_error 400 ''host is required'')
      else if co_username c = [] then Some (api_error 400 ''username is required'')
      else if \<not> truthy (co_password c) \<and> \<not> truthy (co_privateKey c)
      then Some (api_error 400 ''Either a password or a private key is required'')
      else if truthy (co_certificate c) \<and> \<not> truthy (co_privateKey c)
      then Some (api_error 400 ''certificate requires a matching privateKey'')
      else None)"

text \<open>What a keyboard-interactive prompt is answered with.\<close>

definition answer_prompts :: "string \<Rightarrow> string list \<Rightarrow> string list" where
  "answer_prompts pw ps = map (\<lambda>p. if length ps = 1 \<or> contains_ci ''password'' p then pw else []) ps"

text \<open>The host verifier runs before any attempt is made; \<open>sigAlgs\<close> is what the server announced.\<close>

definition host_verified :: "connect_args \<Rightarrow> string option \<Rightarrow> bool" where
  "host_verified c fp =
     (case fp of None \<Rightarrow> False | Some f \<Rightarrow> \<not> (truthy (co_expected c) \<and> co_expected c \<noteq> Some f))"

definition connectSsh ::
    "key_env \<Rightarrow> string option \<Rightarrow> string list \<Rightarrow> (attempt list \<Rightarrow> string list option) \<Rightarrow> connect_args \<Rightarrow> (bool \<times> attempt list) res" where
  "connectSsh e fp sigAlgs server c =
     (case connect_args_error c of Some er \<Rightarrow> Inl er | None \<Rightarrow>
      case buildAuthQueue e c of Inl er \<Rightarrow> Inl er | Inr q \<Rightarrow>
      if \<not> host_verified c fp then Inr (False, [])
      else Inr (dialogue server [] [] (reorderRsaCertAttempts q sigAlgs)))"

text \<open>How an error of the transport is told to the user.\<close>

record ssh_error =
  se_code :: string
  se_level :: string
  se_message :: "string option"

text \<open>The pattern for \<open>timed out\<close>, with or without the \<open>d\<close> and blanks, ignoring case.\<close>

definition timeout_here :: "string \<Rightarrow> bool" where
  "timeout_here s =
     (let r = drop 4 s; t = (if prefix ''d'' r then drop 1 r else r)
      in prefix ''time'' s \<and> prefix ''out'' (dropWhile is_ws t))"

fun says_timeout :: "string \<Rightarrow> bool" where
  "says_timeout [] = False"
| "says_timeout (c # cs) = (timeout_here (c # cs) \<or> says_timeout cs)"

definition mapSshError :: "ssh_error \<Rightarrow> string \<Rightarrow> int \<Rightarrow> err" where
  "mapSshError e host port =
     (let m = or_else (se_message e) [];
          hp = host @ '':'' @ int_str port in
      ApiError 502
       (if se_code e \<in> {''ENOTFOUND'', ''EAI_AGAIN''} then ''DNS lookup failed for '' @ host @ ''.''
        else if se_code e = ''ECONNREFUSED'' then ''Connection refused at '' @ hp @ ''.''
        else if se_code e \<in> {''EHOSTUNREACH'', ''ENETUNREACH''} then host @ '' is not reachable.''
        else if se_code e = ''ETIMEDOUT'' \<or> says_timeout (lower m) then ''Timed out connecting to '' @ hp @ ''.''
        else if se_level e = ''client-authentication'' \<or> contains_ci ''all configured authentication methods failed'' m
        then ''SSH authentication failed at '' @ host @ ''.''
        else if se_code e = ''HOST_KEY_MISMATCH'' \<or> contains_ci ''host denied'' m
        then ''Host key verification failed for '' @ host @ ''.''
        else dashed (''SSH error connecting to '' @ hp) (or_else (se_message e) ''unknown error''))
       (Some ''SSH_CONNECT_FAILED''))"

section \<open>Stored identities\<close>

text \<open>The identity of a server with its key, \<open>included\<close> with the row by the caller or looked up.\<close>

definition server_credential :: "db \<Rightarrow> bool \<Rightarrow> server \<Rightarrow> credential option" where
  "server_credential d included s =
     (case srv_credential s of None \<Rightarrow> None
      | Some i \<Rightarrow>
          if included then find (\<lambda>c. cred_id c = i) (credentials d)
          else find (\<lambda>c. cred_id c = i \<and> cred_org c = srv_org s \<and> cred_owner c = None) (credentials d))"

definition key_of :: "db \<Rightarrow> credential \<Rightarrow> ssh_key option" where
  "key_of d c = (case cred_sshKey c of None \<Rightarrow> None | Some i \<Rightarrow> find (\<lambda>k. key_id k = i) (sshKeys d))"

text \<open>\<open>unseal\<close> is \<open>decrypt\<close> of \<open>utils/crypto.js\<close>.\<close>

definition opt_unseal :: "(string \<Rightarrow> string res) \<Rightarrow> string option \<Rightarrow> string option res" where
  "opt_unseal unseal x =
     (if truthy x then (case unseal (the x) of Inl e \<Rightarrow> Inl e | Inr p \<Rightarrow> Inr (Some p)) else Inr None)"

record identity_secrets =
  is_password :: "string option"
  is_privateKey :: "string option"
  is_passphrase :: "string option"
  is_certificate :: "string option"

definition unsealed :: "(string \<Rightarrow> string res) \<Rightarrow> credential \<Rightarrow> ssh_key option \<Rightarrow> identity_secrets res" where
  "unsealed unseal c ko =
     (case (if cred_authType c \<in> {''password'', ''key_password''} then opt_unseal unseal (cred_password c) else Inr None) of
        Inl e \<Rightarrow> Inl e
      | Inr pw \<Rightarrow>
          (if ko = None \<or> cred_authType c \<notin> {''key'', ''key_password''}
           then Inr \<lparr>is_password = pw, is_privateKey = None, is_passphrase = None, is_certificate = None\<rparr>
           else case unseal (key_private (the ko)) of Inl e \<Rightarrow> Inl e | Inr pk \<Rightarrow>
                case opt_unseal unseal (key_passphrase (the ko)) of Inl e \<Rightarrow> Inl e | Inr pp \<Rightarrow>
                  Inr \<lparr>is_password = pw, is_privateKey = Some pk, is_passphrase = pp,
                       is_certificate = (if truthy (key_certificate (the ko)) then key_certificate (the ko) else None)\<rparr>))"

definition resolveServerAuth :: "(string \<Rightarrow> string res) \<Rightarrow> bool \<Rightarrow> server option \<Rightarrow> db \<Rightarrow> connect_args res" where
  "resolveServerAuth unseal included so d =
     (case so of None \<Rightarrow> Inl (api_error 404 ''Server not found'') | Some s \<Rightarrow>
      if srv_authMode s \<noteq> AuthCredential then Inl (api_error 400 ''Server is not in credential auth mode'')
      else case server_credential d included s of
        None \<Rightarrow> Inl (api_error 400 ''This server has no identity (Credential) configured'')
      | Some c \<Rightarrow>
          (case unsealed unseal c (key_of d c) of Inl e \<Rightarrow> Inl e
           | Inr x \<Rightarrow>
               if \<not> truthy (is_password x) \<and> \<not> truthy (is_privateKey x)
               then Inl (api_error 400 ''This identity has no usable password or key configured'')
               else Inr \<lparr>co_host = (if srv_ip s = [] then srv_hostname s else srv_ip s),
                         co_port = (if srv_port s = 0 then 22 else srv_port s), co_username = cred_username c,
                         co_password = is_password x, co_privateKey = is_privateKey x, co_passphrase = is_passphrase x,
                         co_certificate = is_certificate x, co_expected = None\<rparr>))"

section \<open>Host keys\<close>

text \<open>The first key seen is pinned; another one is refused until the pin is reset.\<close>

definition checkAndPinHostKey :: "int \<Rightarrow> server \<Rightarrow> string \<times> string \<Rightarrow> db \<Rightarrow> bool res \<times> db" where
  "checkAndPinHostKey now s hk d =
     (if \<not> truthy (srv_hostKey s)
      then (Inr True, d\<lparr>servers := update_where (\<lambda>x. srv_id x = srv_id s)
              (\<lambda>x. x\<lparr>srv_hostKey := Some (fst hk), srv_hostKeyAlg := Some (snd hk), srv_hostKeyPinnedAt := Some now\<rparr>) (servers d)\<rparr>)
      else if srv_hostKey s \<noteq> Some (fst hk)
      then (Inl (ApiError 409
              (dashed (''Host key mismatch for '' @ or_else (Some (srv_hostname s)) (srv_id s) @ '': expected '' @ the (srv_hostKey s) @
                 '', got '' @ fst hk @ ''. The host key changed'')
                 ''this could indicate a MITM attack or a reinstalled host. An admin must reset the pinned key to proceed.'')
              (Some ''HOST_KEY_MISMATCH'')), d)
      else (Inr False, d))"

end
