(* ===== verification/Keystore.thy ===== *)
theory Keystore
  imports Outbound
begin

text \<open>
  Stored keys and identities (\<open>backend/src/services/keystoreService.js\<close>). A row without owner
  belongs to the organization, one with an owner to that user's vault; every operation is told
  which of the two it works on and sees only rows of that scope. Key generation and parsing
  (\<open>utils/sshKeys.js\<close>) and sealing (\<open>utils/crypto.js\<close>) are arguments; new row ids and random
  suffixes too.
\<close>

section \<open>Keys from outside\<close>

record key_info =
  ki_type :: string
  ki_bits :: "nat option"
  ki_public :: string
  ki_private :: string
  ki_fingerprint :: string
  ki_comment :: "string option"
  ki_format :: string

record key_kit =
  kt_generate :: "string \<Rightarrow> nat option \<Rightarrow> string option \<Rightarrow> string option \<Rightarrow> key_info res"
  kt_normalize :: "string \<Rightarrow> string option \<Rightarrow> key_info res"
  kt_certified :: "string \<Rightarrow> string res"
  kt_samePublic :: "key_info \<Rightarrow> string \<Rightarrow> bool"
  kt_seal :: "string \<Rightarrow> string"
  kt_unseal :: "string \<Rightarrow> string res"

definition seal_opt :: "key_kit \<Rightarrow> string option \<Rightarrow> string option" where
  "seal_opt kt x = (if truthy x then Some (kt_seal kt (the x)) else None)"

section \<open>Scopes and names\<close>

text \<open>An absent and an empty owner are the organization.\<close>

definition owner_of :: "id option \<Rightarrow> id option" where
  "owner_of o' = (if truthy o' then o' else None)"

definition scopeOf :: "id option \<Rightarrow> string" where
  "scopeOf o' = (if truthy o' then ''personal'' else ''org'')"

definition key_named :: "db \<Rightarrow> id \<Rightarrow> id option \<Rightarrow> string \<Rightarrow> id option \<Rightarrow> bool" where
  "key_named d oid own name except =
     (\<exists>k \<in> set (sshKeys d). key_org k = oid \<and> key_owner k = own \<and> key_name k = name \<and> Some (key_id k) \<noteq> except)"

definition cred_named :: "db \<Rightarrow> id \<Rightarrow> id option \<Rightarrow> string \<Rightarrow> id option \<Rightarrow> bool" where
  "cred_named d oid own name except =
     (\<exists>c \<in> set (credentials d). cred_org c = oid \<and> cred_owner c = own \<and> cred_name c = name \<and> Some (cred_id c) \<noteq> except)"

definition name_clash :: "string \<Rightarrow> string \<Rightarrow> id option \<Rightarrow> err" where
  "name_clash what name own =
     api_error 409 (what @ '' named '' @ dq name @ '' already exists'' @ (if truthy own then '' in your vault'' else []))"

definition assertKeyNameFree :: "db \<Rightarrow> id \<Rightarrow> id option \<Rightarrow> string \<Rightarrow> id option \<Rightarrow> unit res" where
  "assertKeyNameFree d oid own name except =
     (if name \<noteq> [] \<and> key_named d oid (owner_of own) name except then Inl (name_clash ''A key'' name own) else Inr ())"

definition assertCredentialNameFree :: "db \<Rightarrow> id \<Rightarrow> id option \<Rightarrow> string \<Rightarrow> id option \<Rightarrow> unit res" where
  "assertCredentialNameFree d oid own name except =
     (if name \<noteq> [] \<and> cred_named d oid (owner_of own) name except then Inl (name_clash ''An identity'' name own) else Inr ())"

definition find_key :: "db \<Rightarrow> id \<Rightarrow> id \<Rightarrow> id option \<Rightarrow> ssh_key option" where
  "find_key d i oid own = find (\<lambda>k. key_id k = i \<and> key_org k = oid \<and> key_owner k = own) (sshKeys d)"

definition find_credential :: "db \<Rightarrow> id \<Rightarrow> id \<Rightarrow> id option \<Rightarrow> credential option" where
  "find_credential d i oid own = find (\<lambda>c. cred_id c = i \<and> cred_org c = oid \<and> cred_owner c = own) (credentials d)"

definition key_not_found :: err where "key_not_found = api_error 404 ''Key not found''"
definition identity_not_found :: err where "identity_not_found = api_error 404 ''Identity not found''"

definition credentials_of_key :: "db \<Rightarrow> id \<Rightarrow> credential list" where
  "credentials_of_key d i = filter (\<lambda>c. cred_sshKey c = Some i) (credentials d)"

definition servers_of_credential :: "db \<Rightarrow> id \<Rightarrow> server list" where
  "servers_of_credential d i = filter (\<lambda>s. srv_credential s = Some i) (servers d)"

section \<open>What callers see\<close>

record key_view =
  kv_id :: id
  kv_scope :: string
  kv_name :: string
  kv_type :: string
  kv_public :: string
  kv_fingerprint :: string
  kv_source :: string
  kv_hasPassphrase :: bool
  kv_exportedAt :: "int option"
  kv_credentials :: nat

definition toSshKeyDTO :: "ssh_key \<Rightarrow> nat \<Rightarrow> key_view" where
  "toSshKeyDTO k n =
     \<lparr>kv_id = key_id k, kv_scope = scopeOf (key_owner k), kv_name = key_name k, kv_type = key_type k, kv_public = key_public k,
      kv_fingerprint = key_fingerprint k, kv_source = key_source k, kv_hasPassphrase = truthy (key_passphrase k),
      kv_exportedAt = key_exportedAt k, kv_credentials = n\<rparr>"

record credential_view =
  cv_id :: id
  cv_scope :: string
  cv_name :: string
  cv_username :: string
  cv_authType :: string
  cv_hasPassword :: bool
  cv_key :: "(id \<times> string \<times> string) option"
  cv_servers :: nat

definition toCredentialDTO :: "db \<Rightarrow> credential \<Rightarrow> nat \<Rightarrow> credential_view" where
  "toCredentialDTO d c n =
     \<lparr>cv_id = cred_id c, cv_scope = scopeOf (cred_owner c), cv_name = cred_name c, cv_username = cred_username c,
      cv_authType = cred_authType c, cv_hasPassword = truthy (cred_password c),
      cv_key = map_option (\<lambda>k. (key_id k, key_name k, key_fingerprint k)) (key_of d c), cv_servers = n\<rparr>"

definition listKeys :: "(ssh_key list \<Rightarrow> ssh_key list) \<Rightarrow> id \<Rightarrow> id option \<Rightarrow> string \<Rightarrow> db \<Rightarrow> key_view list" where
  "listKeys newestFirst oid own search d =
     map (\<lambda>k. toSshKeyDTO k (length (credentials_of_key d (key_id k))))
       (newestFirst (filter (\<lambda>k. key_org k = oid \<and> key_owner k = own \<and>
          (search = [] \<or> contains_ci search (key_name k) \<or> opt_contains search (key_comment k) \<or> contains_ci search (key_fingerprint k)))
        (sshKeys d)))"

definition listCredentials ::
    "(credential list \<Rightarrow> credential list) \<Rightarrow> id \<Rightarrow> id option \<Rightarrow> string \<Rightarrow> scope \<Rightarrow> db \<Rightarrow> credential_view list" where
  "listCredentials newestFirst oid own search sc d =
     map (\<lambda>c. toCredentialDTO d c (length (filter (serverScopeWhere sc) (servers_of_credential d (cred_id c)))))
       (newestFirst (filter (\<lambda>c. cred_org c = oid \<and> cred_owner c = own \<and>
          (search = [] \<or> contains_ci search (cred_name c) \<or> contains_ci search (cred_username c) \<or> opt_contains search (cred_description c)))
        (credentials d)))"

definition getCredential :: "id \<Rightarrow> id \<Rightarrow> id option \<Rightarrow> scope \<Rightarrow> db \<Rightarrow> (credential_view \<times> id list) res" where
  "getCredential oid i own sc d =
     (case find_credential d i oid own of None \<Rightarrow> Inl identity_not_found | Some c \<Rightarrow>
        let ss = filter (serverScopeWhere sc) (servers_of_credential d i) in Inr (toCredentialDTO d c (length ss), map srv_id ss))"

section \<open>Keys\<close>

text \<open>The unique index over (organization, owner, name) binds personal rows only.\<close>

definition createSshKeyRow :: "ssh_key \<Rightarrow> db \<Rightarrow> ssh_key res \<times> db" where
  "createSshKeyRow k d =
     (if key_owner k \<noteq> None \<and> key_named d (key_org k) (key_owner k) (key_name k) None
      then (Inl (name_clash ''A key'' (key_name k) None), d)
      else (Inr k, d\<lparr>sshKeys := sshKeys d @ [k]\<rparr>))"

record key_args =
  ka_name :: string
  ka_description :: "string option"
  ka_type :: string
  ka_bits :: "nat option"
  ka_comment :: "string option"
  ka_passphrase :: "string option"
  ka_private :: string
  ka_public :: string
  ka_certificate :: string

definition new_key :: "key_kit \<Rightarrow> id \<Rightarrow> id \<Rightarrow> id option \<Rightarrow> id option \<Rightarrow> key_args \<Rightarrow> key_info \<Rightarrow> string \<Rightarrow> ssh_key" where
  "new_key kt newId oid by_user own x i source =
     \<lparr>key_id = newId, key_org = oid, key_name = ka_name x, key_description = or_none (ka_description x), key_type = ki_type i,
      key_bits = ki_bits i, key_public = ki_public i, key_private = kt_seal kt (ki_private i),
      key_passphrase = seal_opt kt (ka_passphrase x), key_fingerprint = ki_fingerprint i, key_comment = or_none (ki_comment i),
      key_source = source, key_format = Some (ki_format i), key_certificate = None, key_createdBy = or_none by_user,
      key_owner = own, key_exportedAt = None\<rparr>"

definition key_audit :: "id \<Rightarrow> id option \<Rightarrow> string \<Rightarrow> ssh_key \<Rightarrow> (string \<times> json) list \<Rightarrow> db \<Rightarrow> db" where
  "key_audit oid a action k m d = auditLog oid a action ''SshKey'' (Some (key_id k)) (Some (JObj ((''name'', JStr (key_name k)) # m))) None d"

definition generateKey :: "key_kit \<Rightarrow> id \<Rightarrow> id \<Rightarrow> key_args \<Rightarrow> id option \<Rightarrow> id option \<Rightarrow> db \<Rightarrow> key_view res \<times> db" where
  "generateKey kt newId oid x by_user own d =
     (if ka_name x = [] then (Inl (api_error 400 ''name is required''), d)
      else case assertKeyNameFree d oid own (ka_name x) None of Inl er \<Rightarrow> (Inl er, d) | Inr _ \<Rightarrow>
      case kt_generate kt (ka_type x) (ka_bits x) (ka_comment x) (ka_passphrase x) of Inl er \<Rightarrow> (Inl er, d) | Inr i \<Rightarrow>
      case createSshKeyRow ((new_key kt newId oid by_user own x i ''generated'')\<lparr>key_format := Some ''openssh''\<rparr>) d of
        (Inl er, d1) \<Rightarrow> (Inl er, d1)
      | (Inr k, d1) \<Rightarrow>
          (Inr (toSshKeyDTO k 0),
           key_audit oid by_user ''keystore.key.generate'' k
             [(''keyType'', JStr (key_type k)), (''fingerprint'', JStr (key_fingerprint k)), (''scope'', JStr (scopeOf (key_owner k)))] d1))"

definition validateCertificateForKey :: "key_kit \<Rightarrow> string \<Rightarrow> string \<Rightarrow> string \<Rightarrow> string option res" where
  "validateCertificateForKey kt cert fp what =
     (if cert = [] then Inr None
      else case kt_certified kt cert of Inl er \<Rightarrow> Inl er | Inr f \<Rightarrow>
        if f \<noteq> fp then Inl (ApiError 400 (''This certificate does not certify '' @ what) (Some ''CERT_KEY_MISMATCH'')) else Inr (Some cert))"

definition importKey :: "key_kit \<Rightarrow> id \<Rightarrow> id \<Rightarrow> key_args \<Rightarrow> id option \<Rightarrow> id option \<Rightarrow> db \<Rightarrow> key_view res \<times> db" where
  "importKey kt newId oid x by_user own d =
     (if ka_name x = [] then (Inl (api_error 400 ''name is required''), d)
      else case assertKeyNameFree d oid own (ka_name x) None of Inl er \<Rightarrow> (Inl er, d) | Inr _ \<Rightarrow>
      case kt_normalize kt (ka_private x) (ka_passphrase x) of Inl er \<Rightarrow> (Inl er, d) | Inr i \<Rightarrow>
      if ka_public x \<noteq> [] \<and> \<not> kt_samePublic kt i (ka_public x)
      then (Inl (ApiError 400 ''The supplied public key does not match the private key'' (Some ''KEY_PUBLIC_MISMATCH'')), d)
      else case validateCertificateForKey kt (ka_certificate x) (ki_fingerprint i) ''the supplied key'' of Inl er \<Rightarrow> (Inl er, d) | Inr cert \<Rightarrow>
      case createSshKeyRow ((new_key kt newId oid by_user own x i ''imported'')\<lparr>key_certificate := cert\<rparr>) d of
        (Inl er, d1) \<Rightarrow> (Inl er, d1)
      | (Inr k, d1) \<Rightarrow>
          (Inr (toSshKeyDTO k 0),
           key_audit oid by_user ''keystore.key.import'' k
             [(''keyType'', JStr (key_type k)), (''fingerprint'', JStr (key_fingerprint k)),
              (''originalFormat'', JStr (ki_format i)), (''scope'', JStr (scopeOf (key_owner k)))] d1))"

definition update_key :: "id \<Rightarrow> (ssh_key \<Rightarrow> ssh_key) \<Rightarrow> db \<Rightarrow> db" where
  "update_key i f d = d\<lparr>sshKeys := update_where (\<lambda>k. key_id k = i) f (sshKeys d)\<rparr>"

text \<open>A field that is not sent is \<open>None\<close>; a nullable one sent as null is \<open>Some None\<close>.\<close>

record key_edit =
  ke_name :: "string option"
  ke_description :: "string option option"
  ke_comment :: "string option option"
  ke_certificate :: "string option option"

definition edit_key :: "key_edit \<Rightarrow> string option option \<Rightarrow> ssh_key \<Rightarrow> ssh_key" where
  "edit_key x cert k =
     k\<lparr>key_name := (case ke_name x of None \<Rightarrow> key_name k | Some n \<Rightarrow> n),
       key_description := (case ke_description x of None \<Rightarrow> key_description k | Some v \<Rightarrow> v),
       key_comment := (case ke_comment x of None \<Rightarrow> key_comment k | Some v \<Rightarrow> v),
       key_certificate := (case cert of None \<Rightarrow> key_certificate k | Some v \<Rightarrow> v)\<rparr>"

definition updateKey :: "key_kit \<Rightarrow> id \<Rightarrow> id \<Rightarrow> key_edit \<Rightarrow> id option \<Rightarrow> db \<Rightarrow> key_view res \<times> db" where
  "updateKey kt oid i x own d =
     (case find_key d i oid own of None \<Rightarrow> (Inl key_not_found, d) | Some k \<Rightarrow>
      case (if ke_name x \<noteq> None \<and> ke_name x \<noteq> Some (key_name k)
            then assertKeyNameFree d oid own (the (ke_name x)) (Some i) else Inr ()) of Inl er \<Rightarrow> (Inl er, d) | Inr _ \<Rightarrow>
      case (case ke_certificate x of None \<Rightarrow> Inr None | Some None \<Rightarrow> Inr (Some None)
            | Some (Some c) \<Rightarrow>
                (case kt_certified kt c of Inl er \<Rightarrow> Inl er | Inr f \<Rightarrow>
                   if f \<noteq> key_fingerprint k
                   then Inl (ApiError 400 ''This certificate does not certify this key'' (Some ''CERT_KEY_MISMATCH''))
                   else Inr (Some (Some c)))) of Inl er \<Rightarrow> (Inl er, d) | Inr cert \<Rightarrow>
      (Inr (toSshKeyDTO (edit_key x cert k) (length (credentials_of_key d i))), update_key i (edit_key x cert) d))"

definition deleteKey :: "id \<Rightarrow> id \<Rightarrow> id option \<Rightarrow> db \<Rightarrow> unit res \<times> db" where
  "deleteKey oid i own d =
     (case find_key d i oid own of None \<Rightarrow> (Inl key_not_found, d) | Some k \<Rightarrow>
      if credentials_of_key d i \<noteq> []
      then (Inl (ApiError 409 ''This key is referenced by one or more identities'' (Some ''KEY_IN_USE'')), d)
      else (Inr (), d\<lparr>sshKeys := filter (\<lambda>k. key_id k \<noteq> i) (sshKeys d)\<rparr>))"

definition exportKey :: "key_kit \<Rightarrow> int \<Rightarrow> id \<Rightarrow> id \<Rightarrow> id \<Rightarrow> id option \<Rightarrow> db \<Rightarrow> string res \<times> db" where
  "exportKey kt now oid i actorId own d =
     (case find_key d i oid own of None \<Rightarrow> (Inl key_not_found, d) | Some k \<Rightarrow>
      case kt_unseal kt (key_private k) of Inl er \<Rightarrow> (Inl er, d) | Inr pk \<Rightarrow>
        (Inr pk,
         key_audit oid (Some actorId) ''keystore.key.export'' k
           [(''fingerprint'', JStr (key_fingerprint k)), (''scope'', JStr (scopeOf (key_owner k))),
            (''severity'', JStr (if truthy own then ''MEDIUM'' else ''HIGH''))]
           (update_key i (\<lambda>k. k\<lparr>key_exportedAt := Some now\<rparr>) d)))"

section \<open>Identities\<close>

datatype new_key_args = GenerateKey string "nat option" "string option" | UseKey string "string option" | NoKeyMaterial

definition key_material :: "key_kit \<Rightarrow> string \<Rightarrow> new_key_args \<Rightarrow> (key_info \<times> string option \<times> string \<times> string) res" where
  "key_material kt name nk =
     (case nk of
        GenerateKey ty bits pass \<Rightarrow>
          (case kt_generate kt ty bits (Some (name @ '' key'')) pass of Inl er \<Rightarrow> Inl er
           | Inr i \<Rightarrow> Inr (i, or_none pass, ''generated'', ''openssh''))
      | UseKey pk pass \<Rightarrow>
          (case kt_normalize kt pk pass of Inl er \<Rightarrow> Inl er | Inr i \<Rightarrow> Inr (i, or_none pass, ''imported'', ki_format i))
      | NoKeyMaterial \<Rightarrow> Inl (api_error 400 ''newKey must be either { generate: true, ... } or { privateKey, passphrase? }''))"

text \<open>Up to three inserts: a name that is free, then with a random suffix.\<close>

definition suffixed :: "string \<Rightarrow> string \<Rightarrow> string" where
  "suffixed n h = n @ '' ('' @ h @ '')''"

fun insert_first :: "ssh_key \<Rightarrow> string list \<Rightarrow> db \<Rightarrow> ssh_key res \<times> db" where
  "insert_first k [] d = (Inl DbError, d)"
| "insert_first k (n # ns) d =
     (case createSshKeyRow (k\<lparr>key_name := n\<rparr>) d of (Inr r, d1) \<Rightarrow> (Inr r, d1) | (Inl _, _) \<Rightarrow> insert_first k ns d)"

definition resolveNewKey ::
    "key_kit \<Rightarrow> id \<Rightarrow> string list \<Rightarrow> id \<Rightarrow> string \<Rightarrow> new_key_args \<Rightarrow> id option \<Rightarrow> id option \<Rightarrow> db \<Rightarrow> ssh_key res \<times> db" where
  "resolveNewKey kt newId hexes oid name nk by_user own d =
     (case key_material kt name nk of Inl er \<Rightarrow> (Inl er, d) | Inr (i, pass, source, format) \<Rightarrow>
        let base = name @ '' key'';
            n = (if key_named d oid own base None then suffixed base (hexes ! 0) else base);
            k = (new_key kt newId oid by_user own
                   \<lparr>ka_name = n, ka_description = None, ka_type = [], ka_bits = None, ka_comment = None, ka_passphrase = pass,
                    ka_private = [], ka_public = [], ka_certificate = []\<rparr> i source)\<lparr>key_format := Some format\<rparr>
        in insert_first k [n, suffixed n (hexes ! 1), suffixed n (hexes ! 2)] d)"

definition AUTH_TYPES :: "string list" where "AUTH_TYPES = [''password'', ''key'', ''key_password'']"

definition validateAuthMaterial :: "string \<Rightarrow> bool \<Rightarrow> bool \<Rightarrow> unit res" where
  "validateAuthMaterial ty hasPassword hasKey =
     (if ty \<notin> set AUTH_TYPES then Inl (api_error 400 (''authType must be one of: '' @ join '', '' AUTH_TYPES))
      else if ty = ''password'' \<and> \<not> hasPassword then Inl (api_error 400 ''password is required for authType \"password\"'')
      else if ty = ''key'' \<and> \<not> hasKey then Inl (api_error 400 ''sshKeyId or newKey is required for authType \"key\"'')
      else if ty = ''key_password'' \<and> (\<not> hasKey \<or> \<not> hasPassword)
      then Inl (api_error 400 ''authType \"key_password\" requires both a key (sshKeyId/newKey) and a password'')
      else Inr ())"

record credential_data =
  cd_name :: string
  cd_description :: "string option"
  cd_username :: string
  cd_authType :: string
  cd_password :: "string option"
  cd_sshKey :: "id option"
  cd_newKey :: "new_key_args option"
  cd_tags :: "string list"

text \<open>Only a key of the same scope may be named.\<close>

definition no_such_key :: "id option \<Rightarrow> err" where
  "no_such_key own = api_error 400 (if truthy own then ''sshKeyId not found in your vault'' else ''sshKeyId not found in organization'')"

definition chosen_key ::
    "key_kit \<Rightarrow> id \<Rightarrow> string list \<Rightarrow> id \<Rightarrow> string \<Rightarrow> id option \<Rightarrow> new_key_args option \<Rightarrow> id option \<Rightarrow> id option \<Rightarrow> db \<Rightarrow> id option res \<times> db" where
  "chosen_key kt newId hexes oid name kid nk by_user own d =
     (case nk of
        Some n \<Rightarrow> (case resolveNewKey kt newId hexes oid name n by_user own d of
                     (Inl er, d1) \<Rightarrow> (Inl er, d1) | (Inr k, d1) \<Rightarrow> (Inr (Some (key_id k)), d1))
      | None \<Rightarrow> if truthy kid \<and> find_key d (the kid) oid own = None then (Inl (no_such_key own), d) else (Inr (or_none kid), d))"

definition new_credential :: "key_kit \<Rightarrow> id \<Rightarrow> id \<Rightarrow> credential_data \<Rightarrow> id option \<Rightarrow> id option \<Rightarrow> id option \<Rightarrow> credential" where
  "new_credential kt newId oid x kid by_user own =
     \<lparr>cred_id = newId, cred_org = oid, cred_name = cd_name x, cred_description = or_none (cd_description x),
      cred_username = cd_username x, cred_authType = cd_authType x, cred_password = seal_opt kt (cd_password x),
      cred_sshKey = kid, cred_tags = cd_tags x, cred_createdBy = or_none by_user, cred_owner = own, cred_lastUsedAt = None\<rparr>"

definition credential_audit :: "id \<Rightarrow> id option \<Rightarrow> string \<Rightarrow> credential \<Rightarrow> (string \<times> json) list \<Rightarrow> db \<Rightarrow> db" where
  "credential_audit oid a action c m d =
     auditLog oid a action ''Credential'' (Some (cred_id c)) (Some (JObj ((''name'', JStr (cred_name c)) # m))) None d"

definition createCredential ::
    "key_kit \<Rightarrow> id \<Rightarrow> id \<Rightarrow> string list \<Rightarrow> id \<Rightarrow> credential_data \<Rightarrow> id option \<Rightarrow> id option \<Rightarrow> db \<Rightarrow> credential res \<times> db" where
  "createCredential kt newId newKeyId hexes oid x by_user own d =
     (if cd_name x = [] then (Inl (api_error 400 ''name is required''), d)
      else if cd_username x = [] then (Inl (api_error 400 ''username is required''), d)
      else case validateAuthMaterial (cd_authType x) (truthy (cd_password x)) (truthy (cd_sshKey x) \<or> cd_newKey x \<noteq> None) of
        Inl er \<Rightarrow> (Inl er, d) | Inr _ \<Rightarrow>
      case assertCredentialNameFree d oid own (cd_name x) None of Inl er \<Rightarrow> (Inl er, d) | Inr _ \<Rightarrow>
      case chosen_key kt newKeyId hexes oid (cd_name x) (cd_sshKey x) (cd_newKey x) by_user own d of
        (Inl er, d1) \<Rightarrow> (Inl er, d1)
      | (Inr kid, d1) \<Rightarrow>
          let c = new_credential kt newId oid x kid by_user own in
          (Inr c,
           credential_audit oid by_user ''keystore.credential.create'' c
             [(''username'', JStr (cred_username c)), (''authType'', JStr (cred_authType c)), (''scope'', JStr (scopeOf (cred_owner c)))]
             (d1\<lparr>credentials := credentials d1 @ [c]\<rparr>)))"

record credential_edit =
  ce_name :: "string option"
  ce_description :: "string option option"
  ce_username :: "string option"
  ce_authType :: "string option"
  ce_password :: "string option"
  ce_clearPassword :: bool
  ce_sshKey :: "id option option"
  ce_newKey :: "new_key_args option"
  ce_tags :: "string list option"

definition edit_credential :: "key_kit \<Rightarrow> credential_edit \<Rightarrow> id option option \<Rightarrow> credential \<Rightarrow> credential" where
  "edit_credential kt x kid c =
     c\<lparr>cred_name := (case ce_name x of None \<Rightarrow> cred_name c | Some v \<Rightarrow> v),
       cred_description := (case ce_description x of None \<Rightarrow> cred_description c | Some v \<Rightarrow> v),
       cred_username := (case ce_username x of None \<Rightarrow> cred_username c | Some v \<Rightarrow> v),
       cred_authType := (case ce_authType x of None \<Rightarrow> cred_authType c | Some v \<Rightarrow> v),
       cred_tags := (case ce_tags x of None \<Rightarrow> cred_tags c | Some v \<Rightarrow> v),
       cred_password := (if ce_clearPassword x then None else if truthy (ce_password x) then seal_opt kt (ce_password x) else cred_password c),
       cred_sshKey := (case kid of None \<Rightarrow> cred_sshKey c | Some v \<Rightarrow> v)\<rparr>"

definition update_credential :: "id \<Rightarrow> (credential \<Rightarrow> credential) \<Rightarrow> db \<Rightarrow> db" where
  "update_credential i f d = d\<lparr>credentials := update_where (\<lambda>c. cred_id c = i) f (credentials d)\<rparr>"

definition updateCredential ::
    "key_kit \<Rightarrow> id \<Rightarrow> string list \<Rightarrow> id \<Rightarrow> id \<Rightarrow> credential_edit \<Rightarrow> id option \<Rightarrow> id option \<Rightarrow> db \<Rightarrow> credential res \<times> db" where
  "updateCredential kt newKeyId hexes oid i x a own d =
     (case find_credential d i oid own of None \<Rightarrow> (Inl identity_not_found, d) | Some c \<Rightarrow>
      case (if ce_name x \<noteq> None \<and> ce_name x \<noteq> Some (cred_name c)
            then assertCredentialNameFree d oid own (the (ce_name x)) (Some i) else Inr ()) of Inl er \<Rightarrow> (Inl er, d) | Inr _ \<Rightarrow>
      case validateAuthMaterial (if truthy (ce_authType x) then the (ce_authType x) else cred_authType c)
             (\<not> ce_clearPassword x \<and> (truthy (ce_password x) \<or> truthy (cred_password c)))
             (ce_newKey x \<noteq> None \<or> truthy (case ce_sshKey x of None \<Rightarrow> cred_sshKey c | Some v \<Rightarrow> v)) of
        Inl er \<Rightarrow> (Inl er, d) | Inr _ \<Rightarrow>
      case (if ce_newKey x = None \<and> ce_sshKey x = None then (Inr None, d)
            else case chosen_key kt newKeyId hexes oid (or_else (ce_name x) (cred_name c))
                   (case ce_sshKey x of None \<Rightarrow> None | Some v \<Rightarrow> v) (ce_newKey x) a own d of
              (Inl er, d1) \<Rightarrow> (Inl er, d1) | (Inr k, d1) \<Rightarrow> (Inr (Some k), d1)) of
        (Inl er, d1) \<Rightarrow> (Inl er, d1)
      | (Inr kid, d1) \<Rightarrow>
          let c1 = edit_credential kt x kid c in
          (Inr c1,
           credential_audit oid a ''keystore.credential.update'' c1 [(''scope'', JStr (scopeOf (cred_owner c1)))]
             (update_credential i (edit_credential kt x kid) d1)))"

text \<open>Deleting one: the references of servers and of hosts to it become null.\<close>

definition drop_reference :: "id \<Rightarrow> id option \<Rightarrow> id option" where
  "drop_reference i x = (if x = Some i then None else x)"

definition delete_credential_row :: "id \<Rightarrow> db \<Rightarrow> db" where
  "delete_credential_row i d =
     d\<lparr>credentials := filter (\<lambda>c. cred_id c \<noteq> i) (credentials d),
       servers := map (\<lambda>s. s\<lparr>srv_credential := drop_reference i (srv_credential s),
                             srv_sudoCredential := drop_reference i (srv_sudoCredential s)\<rparr>) (servers d),
       personalHosts := map (\<lambda>h. h\<lparr>ph_credential := drop_reference i (ph_credential h)\<rparr>) (personalHosts d)\<rparr>"

definition deleteCredential :: "id \<Rightarrow> id \<Rightarrow> bool \<Rightarrow> id option \<Rightarrow> id option \<Rightarrow> db \<Rightarrow> unit res \<times> db" where
  "deleteCredential oid i force own a d =
     (case find_credential d i oid own of None \<Rightarrow> (Inl identity_not_found, d) | Some c \<Rightarrow>
      if servers_of_credential d i \<noteq> [] \<and> \<not> force
      then (Inl (ApiError 409 ''This identity is assigned to one or more servers'' (Some ''CREDENTIAL_IN_USE'')), d)
      else
        let d1 = d\<lparr>servers := update_where (\<lambda>s. srv_org s = oid \<and> srv_credential s = Some i)
                     (\<lambda>s. s\<lparr>srv_credential := None, srv_authMode := AuthCertificate\<rparr>) (servers d)\<rparr>
        in (Inr (),
            credential_audit oid a ''keystore.credential.delete'' c [(''forced'', JBool force), (''scope'', JStr (scopeOf (cred_owner c)))]
              (delete_credential_row i d1)))"

section \<open>From the vault to the organization\<close>

definition moveKeyToOrg :: "id \<Rightarrow> id \<Rightarrow> id \<Rightarrow> db \<Rightarrow> unit res \<times> db" where
  "moveKeyToOrg oid i own d =
     (case find_key d i oid (Some own) of None \<Rightarrow> (Inl key_not_found, d) | Some k \<Rightarrow>
      if credentials_of_key d i \<noteq> []
      then (Inl (ApiError 409 (dashed ''Personal identities use this key''
             ''move those identities instead (their key moves with them) or switch them to another key first'') (Some ''KEY_IN_USE'')), d)
      else case assertKeyNameFree d oid None (key_name k) None of Inl er \<Rightarrow> (Inl er, d) | Inr _ \<Rightarrow>
        (Inr (), key_audit oid (Some own) ''keystore.key.move_to_org'' k [(''fingerprint'', JStr (key_fingerprint k))]
           (update_key i (\<lambda>k. k\<lparr>key_owner := None\<rparr>) d)))"

definition moveCredentialToOrg :: "id \<Rightarrow> id \<Rightarrow> id \<Rightarrow> db \<Rightarrow> unit res \<times> db" where
  "moveCredentialToOrg oid i own d =
     (case find_credential d i oid (Some own) of None \<Rightarrow> (Inl identity_not_found, d) | Some c \<Rightarrow>
      let ko = key_of d c in
      if holds (\<lambda>k. 1 < length (credentials_of_key d (key_id k))) ko
      then (Inl (ApiError 409 (dashed (''Other identities in your vault also use the key '' @ dq (key_name (the ko)))
             ''give this identity its own key first'') (Some ''KEY_SHARED'')), d)
      else case assertCredentialNameFree d oid None (cred_name c) None of Inl er \<Rightarrow> (Inl er, d) | Inr _ \<Rightarrow>
      case (case ko of None \<Rightarrow> Inr () | Some k \<Rightarrow> assertKeyNameFree d oid None (key_name k) None) of Inl er \<Rightarrow> (Inl er, d) | Inr _ \<Rightarrow>
        (Inr (), credential_audit oid (Some own) ''keystore.credential.move_to_org'' c
           [(''username'', JStr (cred_username c)), (''keyMoved'', (case ko of None \<Rightarrow> JNull | Some k \<Rightarrow> JStr (key_id k)))]
           (update_credential i (\<lambda>c. c\<lparr>cred_owner := None\<rparr>)
              (case ko of None \<Rightarrow> d | Some k \<Rightarrow> update_key (key_id k) (\<lambda>k. k\<lparr>key_owner := None\<rparr>) d))))"

section \<open>Use\<close>

definition visible_credential :: "db \<Rightarrow> id \<Rightarrow> id \<Rightarrow> id \<Rightarrow> credential option" where
  "visible_credential d i oid uid =
     find (\<lambda>c. cred_id c = i \<and> cred_org c = oid \<and> (cred_owner c = None \<or> cred_owner c = Some uid)) (credentials d)"

definition resolveCredentialAuth :: "(string \<Rightarrow> string res) \<Rightarrow> db \<Rightarrow> credential \<Rightarrow> identity_secrets res" where
  "resolveCredentialAuth unseal d c = unsealed unseal c (key_of d c)"

definition vault_on :: "db \<Rightarrow> id \<Rightarrow> bool" where
  "vault_on d oid = vaultEnabledFromSettings (org_settings_of d oid)"

definition resolveCredentialForActor :: "(string \<Rightarrow> string res) \<Rightarrow> id \<Rightarrow> actor \<Rightarrow> id \<Rightarrow> db \<Rightarrow> (credential \<times> identity_secrets) res" where
  "resolveCredentialForActor unseal oid a i d =
     (case visible_credential d i oid (act_user a) of None \<Rightarrow> Inl identity_not_found | Some c \<Rightarrow>
      if truthy (cred_owner c) \<and> \<not> vault_on d oid
      then Inl (ApiError 403 ''The personal vault is turned off for this organization'' (Some ''VAULT_DISABLED''))
      else if truthy (cred_owner c) \<and> \<not> hasPermission (act_permissions a) ''vault.use''
      then Inl (permission_denied ''Your role does not permit using your personal vault'')
      else if \<not> truthy (cred_owner c) \<and> \<not> hasPermission (act_permissions a) ''keystore.view''
      then Inl (permission_denied ''Your role does not permit using stored identities'')
      else case resolveCredentialAuth unseal d c of Inl er \<Rightarrow> Inl er | Inr x \<Rightarrow> Inr (c, x))"

end
