(* ===== verification/QuickConnect.thy ===== *)
theory QuickConnect
  imports Keystore Redis
begin

text \<open>
  Ad-hoc SSH connections (\<open>backend/src/services/quickConnectService.js\<close>): who may open one and
  with which identity, the guards on the target, the single-use ticket in Redis that carries the
  connection to the terminal, the history of past connections, and saving a target as a server.
  A ticket is stored encrypted; the model keeps its content.
\<close>

section \<open>Settings\<close>

definition loadQuickConnectSettings :: "db \<Rightarrow> id \<Rightarrow> bool" where
  "loadQuickConnectSettings d oid =
     (case json_get (section_of ''quickConnect'' (org_settings_of d oid)) ''enabled'' of None \<Rightarrow> True | Some j \<Rightarrow> json_truthy (Some j))"

record quick_settings =
  qs_enabled :: bool
  qs_allowed :: bool
  qs_storedIdentity :: bool
  qs_personalIdentity :: bool
  qs_saveServer :: bool

definition getSettings :: "db \<Rightarrow> id \<Rightarrow> actor \<Rightarrow> quick_settings" where
  "getSettings d oid a =
     (let has = hasPermission (act_permissions a); enabled = loadQuickConnectSettings d oid; allowed = (enabled \<and> has ''quick_connect.use'') in
      \<lparr>qs_enabled = enabled, qs_allowed = allowed, qs_storedIdentity = (allowed \<and> has ''quick_connect.use_stored_identity''),
       qs_personalIdentity = (allowed \<and> vault_on d oid \<and> has ''vault.use''), qs_saveServer = has ''quick_connect.save_server''\<rparr>)"

definition updateSettings :: "id \<Rightarrow> bool \<Rightarrow> id \<Rightarrow> db \<Rightarrow> bool \<times> db" where
  "updateSettings oid enabled actorId d =
     (let st = org_settings_of d oid;
          previous = drop_key ''minRole'' (section_of ''quickConnect'' st);
          st1 = json_put (if json_is_object st then the st else JObj []) ''quickConnect'' (json_put previous ''enabled'' (JBool enabled))
      in (enabled,
          auditLog oid (Some actorId) ''quick_connect.settings.update'' ''Organization'' (Some oid)
            (Some (JObj [(''enabled'', JBool enabled)])) None (update_settings oid st1 d)))"

section \<open>Guards on the target\<close>

text \<open>The addresses of production host names, kept for five minutes, or one when there are none.\<close>

type_synonym dns_cache = "(string \<times> string list \<times> int) list"

definition PROD_DNS_TTL_MS :: int where "PROD_DNS_TTL_MS = 5 * 60 * 1000"
definition PROD_DNS_NEGATIVE_TTL_MS :: int where "PROD_DNS_NEGATIVE_TTL_MS = 60 * 1000"

definition resolveProdHostname :: "int \<Rightarrow> resolver \<Rightarrow> string \<Rightarrow> dns_cache \<Rightarrow> string list \<times> dns_cache" where
  "resolveProdHostname now dns h cache =
     (let ips = (case dns h of Inl _ \<Rightarrow> [] | Inr r \<Rightarrow> r);
          fresh = (ips, (h, ips, now + (if ips \<noteq> [] then PROD_DNS_TTL_MS else PROD_DNS_NEGATIVE_TTL_MS)) # cache)
      in case map_of cache h of None \<Rightarrow> fresh | Some (known, expires) \<Rightarrow> if now < expires then (known, cache) else fresh)"

definition prod_host_error :: "string \<Rightarrow> err" where
  "prod_host_error how =
     ApiError 403 (''This host '' @ how @ '' '' @ dashed ''a production server'' ''use the access request flow instead of Quick Connect.'')
       (Some ''PROD_HOST_REQUIRES_APPROVAL'')"

definition prod_servers :: "db \<Rightarrow> id \<Rightarrow> server list" where
  "prod_servers d oid = filter (\<lambda>s. srv_org s = oid \<and> srv_env s = EnvProd) (servers d)"

definition is_named :: "string \<Rightarrow> server \<Rightarrow> bool" where
  "is_named host s = (srv_ip s \<noteq> [] \<and> srv_ip s = host \<or> srv_hostname s \<noteq> [] \<and> lower (srv_hostname s) = lower host)"

text \<open>\<open>prodDns\<close> answers what \<open>resolveProdHostname\<close> gives for a host name at this moment.\<close>

definition prod_addresses :: "(string \<Rightarrow> string list) \<Rightarrow> server \<Rightarrow> string list" where
  "prod_addresses prodDns s =
     (if srv_hostname s = [] then [] else if isIP (srv_hostname s) \<noteq> 0 then [srv_hostname s] else prodDns (srv_hostname s))"

definition assertNotProdHost :: "(string \<Rightarrow> string list) \<Rightarrow> db \<Rightarrow> id \<Rightarrow> string \<Rightarrow> string list \<Rightarrow> unit res" where
  "assertNotProdHost prodDns d oid host ips =
     (let prods = prod_servers d oid in
      if prods = [] then Inr ()
      else if \<exists>s \<in> set prods. is_named host s then Inl (prod_host_error ''is'')
      else if ips = [] then Inr ()
      else if \<exists>s \<in> set prods. srv_ip s \<noteq> [] \<and> srv_ip s \<in> set ips then Inl (prod_host_error ''resolves to'')
      else if \<exists>s \<in> set prods. \<exists>ip \<in> set (prod_addresses prodDns s). ip \<in> set ips then Inl (prod_host_error ''resolves to'')
      else Inr ())"

definition denied_by_policy :: "evaluation \<Rightarrow> bool" where
  "denied_by_policy e = (\<not> ev_allowed e \<and> truthy (ev_policyId e) \<and> prefix ''Denied by policy'' (or_else (ev_reason e) []))"

fun check_denied :: "db \<Rightarrow> id \<Rightarrow> id \<Rightarrow> server list \<Rightarrow> unit res" where
  "check_denied d oid uid [] = Inr ()"
| "check_denied d oid uid (s # ss) =
     (case evaluate d oid uid (srv_id s) None [] None of Inl er \<Rightarrow> Inl er
      | Inr e \<Rightarrow>
          if denied_by_policy e
          then Inl (ApiError 403 (''A policy denies you access to '' @ srv_hostname s) (Some ''QUICK_CONNECT_DENIED_BY_POLICY''))
          else check_denied d oid uid ss)"

definition matching_servers :: "db \<Rightarrow> id \<Rightarrow> string list \<Rightarrow> server list" where
  "matching_servers d oid candidates =
     filter (\<lambda>s. srv_org s = oid \<and> (srv_ip s \<in> set candidates \<or> lower (srv_hostname s) \<in> set (map lower candidates))) (servers d)"

definition assertNotDeniedHost :: "db \<Rightarrow> id \<Rightarrow> id \<Rightarrow> string \<Rightarrow> string list \<Rightarrow> unit res" where
  "assertNotDeniedHost d oid uid host ips = check_denied d oid uid (take 20 (matching_servers d oid (host # ips)))"

section \<open>Tickets\<close>

record auth_body =
  ab_type :: string
  ab_password :: string
  ab_privateKey :: string
  ab_passphrase :: string
  ab_credential :: id

definition validateAuthShape :: "auth_body option \<Rightarrow> unit res" where
  "validateAuthShape ao =
     (case ao of None \<Rightarrow> Inl (api_error 400 ''auth is required'') | Some a \<Rightarrow>
      if ab_type a = ''password''
      then (if ab_password a = [] then Inl (api_error 400 ''auth.password is required for auth.type \"password\"'') else Inr ())
      else if ab_type a = ''key''
      then (if ab_privateKey a = [] then Inl (api_error 400 ''auth.privateKey is required for auth.type \"key\"'') else Inr ())
      else if ab_type a = ''credential''
      then (if ab_credential a = [] then Inl (api_error 400 ''auth.credentialId is required for auth.type \"credential\"'') else Inr ())
      else Inl (api_error 400 ''auth.type must be one of: password, key, credential''))"

datatype via = ViaQuickConnect | ViaPersonalHost

fun via_name :: "via \<Rightarrow> string" where
  "via_name ViaQuickConnect = ''quick_connect''"
| "via_name ViaPersonalHost = ''personal_host''"

record ticket =
  tk_org :: id
  tk_user :: id
  tk_host :: string
  tk_ip :: string
  tk_port :: int
  tk_username :: "string option"
  tk_auth :: auth_body
  tk_expected :: "string option"
  tk_via :: via
  tk_personalHost :: "id option"

record quick_env =
  qe_kit :: key_kit
  qe_dns :: resolver
  qe_loopback :: bool
  qe_prodDns :: "string \<Rightarrow> string list"

record target =
  tg_host :: string
  tg_port :: "int option"
  tg_username :: string
  tg_auth :: "auth_body option"
  tg_expected :: "string option"

definition TICKET_TTL_SECONDS :: int where "TICKET_TTL_SECONDS = 60"

definition ticket_key :: "string \<Rightarrow> string" where "ticket_key t = ''qc:ticket:'' @ t"

definition quick_forbidden :: "string \<Rightarrow> err" where
  "quick_forbidden m = ApiError 403 m (Some ''QUICK_CONNECT_FORBIDDEN'')"

definition vault_disabled :: err where
  "vault_disabled = ApiError 403 ''The personal vault is turned off for this organization'' (Some ''VAULT_DISABLED'')"

definition entry_allowed :: "db \<Rightarrow> id \<Rightarrow> actor \<Rightarrow> via \<Rightarrow> unit res" where
  "entry_allowed d oid a v =
     (if v = ViaPersonalHost then
        (if \<not> vault_on d oid then Inl vault_disabled
         else if \<not> hasPermission (act_permissions a) ''vault.hosts'' then Inl (permission_denied ''Your role does not permit My hosts'')
         else Inr ())
      else if \<not> qs_enabled (getSettings d oid a)
      then Inl (ApiError 403 ''Quick Connect is disabled for this organization'' (Some ''QUICK_CONNECT_DISABLED''))
      else if \<not> qs_allowed (getSettings d oid a) then Inl (quick_forbidden ''Your role does not permit Quick Connect'')
      else Inr ())"

text \<open>The user name and the secrets a ticket will carry.\<close>

definition ticket_login :: "quick_env \<Rightarrow> db \<Rightarrow> id \<Rightarrow> actor \<Rightarrow> string \<Rightarrow> auth_body \<Rightarrow> (string option \<times> auth_body) res" where
  "ticket_login e d oid a username b =
     (if ab_type b = ''credential'' then
        (case visible_credential d (ab_credential b) oid (act_user a) of
           None \<Rightarrow> Inl (api_error 404 ''auth.credentialId not found in organization'')
         | Some c \<Rightarrow>
             if truthy (cred_owner c) \<and> (\<not> vault_on d oid \<or> \<not> hasPermission (act_permissions a) ''vault.use'')
             then Inl (quick_forbidden ''Your role does not permit using your personal vault'')
             else if \<not> truthy (cred_owner c) \<and> \<not> hasPermission (act_permissions a) ''quick_connect.use_stored_identity''
             then Inl (quick_forbidden ''Your role does not permit using stored identities in Quick Connect'')
             else Inr (Some (if username = [] then cred_username c else username), b))
      else if username = [] \<or> \<not> USERNAME_RE username
      then Inl (api_error 400 ''username is required and must be a valid SSH username'')
      else if ab_type b = ''key'' then
        (case kt_normalize (qe_kit e) (ab_privateKey b) (if ab_passphrase b = [] then None else Some (ab_passphrase b)) of
           Inl er \<Rightarrow> Inl er
         | Inr i \<Rightarrow> Inr (Some username, b\<lparr>ab_privateKey := ki_private i\<rparr>))
      else Inr (Some username, b))"

definition target_port :: "int option \<Rightarrow> int" where
  "target_port p = (case p of None \<Rightarrow> 22 | Some n \<Rightarrow> if n = 0 then 22 else n)"

definition createTicket ::
    "quick_env \<Rightarrow> int \<Rightarrow> string \<Rightarrow> id \<Rightarrow> actor \<Rightarrow> target \<Rightarrow> via \<Rightarrow> id option \<Rightarrow> ticket redis \<Rightarrow> db \<Rightarrow> string res \<times> ticket redis \<times> db" where
  "createTicket e now fresh oid a x v ph rs d =
     (case entry_allowed d oid a v of Inl er \<Rightarrow> (Inl er, rs, d) | Inr _ \<Rightarrow>
      if \<not> isValidHost (tg_host x) then (Inl (api_error 400 ''host must be a valid hostname, IPv4, or IPv6 address''), rs, d)
      else if target_port (tg_port x) < 1 \<or> 65535 < target_port (tg_port x)
      then (Inl (api_error 400 ''port must be between 1 and 65535''), rs, d)
      else case validateAuthShape (tg_auth x) of Inl er \<Rightarrow> (Inl er, rs, d) | Inr _ \<Rightarrow>
      case ticket_login e d oid a (tg_username x) (the (tg_auth x)) of Inl er \<Rightarrow> (Inl er, rs, d) | Inr (username, auth) \<Rightarrow>
      case resolveTarget (qe_dns e) (qe_loopback e) (tg_host x) of Inl er \<Rightarrow> (Inl er, rs, d) | Inr (ip, ips) \<Rightarrow>
      case assertNotProdHost (qe_prodDns e) d oid (tg_host x) ips of Inl er \<Rightarrow> (Inl er, rs, d) | Inr _ \<Rightarrow>
      case assertNotDeniedHost d oid (act_user a) (tg_host x) ips of Inl er \<Rightarrow> (Inl er, rs, d) | Inr _ \<Rightarrow>
        (Inr fresh,
         redis_set now (ticket_key fresh)
           \<lparr>tk_org = oid, tk_user = act_user a, tk_host = tg_host x, tk_ip = ip, tk_port = target_port (tg_port x),
            tk_username = username, tk_auth = auth, tk_expected = or_none (tg_expected x), tk_via = v, tk_personalHost = ph\<rparr>
           TICKET_TTL_SECONDS rs,
         auditLog oid (Some (act_user a)) ''quick_connect.ticket'' ''QuickConnect'' None
           (Some (JObj ([(''host'', JStr (tg_host x)), (''port'', JNum (target_port (tg_port x))),
              (''username'', (case username of None \<Rightarrow> JNull | Some u \<Rightarrow> JStr u)),
              (''authType'', JStr (ab_type auth)), (''via'', JStr (via_name v))] @
              (if truthy ph then [(''personalHostId'', JStr (the ph))] else [])))) None d))"

record quick_connection =
  qn_host :: string
  qn_port :: int
  qn_expected :: "string option"
  qn_username :: "string option"
  qn_secrets :: identity_secrets
  qn_displayHost :: string
  qn_auth :: auth_body
  qn_via :: via
  qn_personalHost :: "id option"

definition str_opt :: "string \<Rightarrow> string option" where
  "str_opt s = (if s = [] then None else Some s)"

text \<open>
  The secrets of a redeemed ticket. For a stored identity the certificate of its key is taken
  whatever the type of the identity is.
\<close>

definition ticket_secrets :: "(string \<Rightarrow> string res) \<Rightarrow> db \<Rightarrow> id \<Rightarrow> id \<Rightarrow> ticket \<Rightarrow> (string option \<times> identity_secrets) res" where
  "ticket_secrets unseal d oid uid t =
     (let b = tk_auth t in
      if ab_type b = ''password''
      then Inr (tk_username t, \<lparr>is_password = Some (ab_password b), is_privateKey = None, is_passphrase = None, is_certificate = None\<rparr>)
      else if ab_type b = ''key''
      then Inr (tk_username t, \<lparr>is_password = str_opt (ab_password b), is_privateKey = Some (ab_privateKey b),
                                is_passphrase = str_opt (ab_passphrase b), is_certificate = None\<rparr>)
      else if ab_type b = ''credential''
      then (case visible_credential d (ab_credential b) oid uid of
              None \<Rightarrow> Inl (api_error 404 ''The identity used for this Quick Connect no longer exists'')
            | Some c \<Rightarrow>
                (case resolveCredentialAuth unseal d c of Inl er \<Rightarrow> Inl er
                 | Inr x \<Rightarrow> Inr (Some (or_else (tk_username t) (cred_username c)),
                     x\<lparr>is_certificate := (case key_of d c of None \<Rightarrow> None | Some k \<Rightarrow> or_none (key_certificate k))\<rparr>)))
      else Inr (None, \<lparr>is_password = None, is_privateKey = None, is_passphrase = None, is_certificate = None\<rparr>))"

definition consumeTicket :: "(string \<Rightarrow> string res) \<Rightarrow> int \<Rightarrow> string \<Rightarrow> id \<Rightarrow> id \<Rightarrow> ticket redis \<Rightarrow> db \<Rightarrow> quick_connection res \<times> ticket redis" where
  "consumeTicket unseal now t uid oid rs d =
     (if t = [] then (Inl (api_error 400 ''ticket is required''), rs)
      else case redis_get now (ticket_key t) rs of
        None \<Rightarrow> (Inl (ApiError 410 ''Quick Connect ticket is invalid or has expired'' (Some ''TICKET_EXPIRED'')), redis_del (ticket_key t) rs)
      | Some p \<Rightarrow>
          (if tk_user p \<noteq> uid \<or> tk_org p \<noteq> oid
           then Inl (api_error 403 ''This Quick Connect ticket does not belong to your session'')
           else case ticket_secrets unseal d oid uid p of Inl er \<Rightarrow> Inl er
             | Inr (username, x) \<Rightarrow>
                 Inr \<lparr>qn_host = (if tk_ip p = [] then tk_host p else tk_ip p), qn_port = tk_port p, qn_expected = or_none (tk_expected p),
                      qn_username = username, qn_secrets = x, qn_displayHost = tk_host p, qn_auth = tk_auth p,
                      qn_via = tk_via p, qn_personalHost = tk_personalHost p\<rparr>,
           redis_del (ticket_key t) rs))"

text \<open>A duplicate of a live session: a personal host must still be the caller's.\<close>

definition createTicketFromSpec ::
    "quick_env \<Rightarrow> int \<Rightarrow> string \<Rightarrow> id \<Rightarrow> actor \<Rightarrow> target \<Rightarrow> via \<Rightarrow> id option \<Rightarrow> ticket redis \<Rightarrow> db \<Rightarrow> string res \<times> ticket redis \<times> db" where
  "createTicketFromSpec e now fresh oid a x v ph rs d =
     (if v = ViaPersonalHost \<and>
         \<not> (\<exists>h \<in> set (personalHosts d). ph_id h = or_else ph [] \<and> ph_org h = oid \<and> ph_owner h = act_user a)
      then (Inl (ApiError 409 ''This host is no longer in My hosts'' (Some ''CANNOT_DUPLICATE'')), rs, d)
      else createTicket e now fresh oid a x v ph rs d)"

section \<open>History\<close>

definition HISTORY_RETENTION_MS :: int where "HISTORY_RETENTION_MS = 7 * 24 * 60 * 60 * 1000"

record history_args =
  hg_org :: id
  hg_user :: id
  hg_host :: string
  hg_port :: int
  hg_username :: string
  hg_authType :: string
  hg_credential :: "id option"
  hg_server :: "id option"
  hg_session :: "id option"
  hg_status :: string
  hg_error :: "string option"

definition same_target :: "history_args \<Rightarrow> quick_entry \<Rightarrow> bool" where
  "same_target x r = (qh_user r = hg_user x \<and> qh_host r = hg_host x \<and> qh_port r = hg_port x \<and> qh_username r = hg_username x)"

definition recordHistory :: "id \<Rightarrow> int \<Rightarrow> history_args \<Rightarrow> db \<Rightarrow> db" where
  "recordHistory newId now x d =
     (if hg_org x = [] \<or> hg_user x = [] \<or> hg_host x = [] \<or> hg_port x = 0 \<or> hg_username x = [] \<or> hg_authType x = [] then d
      else
        let isNew = (hg_status x = ''connected'' \<and> truthy (hg_session x));
            er = (if hg_status x = ''failed'' then map_option (take 500) (or_none (hg_error x)) else None);
            status = (if hg_status x = [] then ''connected'' else hg_status x) in
        if \<exists>r \<in> set (quickHistory d). same_target x r
        then d\<lparr>quickHistory := update_where (same_target x)
               (\<lambda>r. r\<lparr>qh_authType := hg_authType x, qh_credential := or_none (hg_credential x), qh_server := or_none (hg_server x),
                      qh_session := or_none (hg_session x), qh_status := status, qh_error := er, qh_connectedAt := now,
                      qh_count := qh_count r + (if isNew then 1 else 0)\<rparr>) (quickHistory d)\<rparr>
        else d\<lparr>quickHistory := quickHistory d @
               [\<lparr>qh_id = newId, qh_org = hg_org x, qh_user = hg_user x, qh_host = hg_host x, qh_port = hg_port x,
                 qh_username = hg_username x, qh_authType = hg_authType x, qh_credential = or_none (hg_credential x),
                 qh_server = or_none (hg_server x), qh_session = or_none (hg_session x), qh_status = status, qh_error = er,
                 qh_count = (if isNew then 1 else 0), qh_connectedAt = now\<rparr>]\<rparr>)"

text \<open>Each entry with its identity and its server, null when it is gone or not the caller's.\<close>

definition listHistory :: "int \<Rightarrow> id \<Rightarrow> id \<Rightarrow> nat \<Rightarrow> db \<Rightarrow> (quick_entry \<times> credential option \<times> server option) list" where
  "listHistory now oid uid limit d =
     map (\<lambda>r. (r,
        Option.bind (or_none (qh_credential r)) (\<lambda>i. visible_credential d i oid uid),
        Option.bind (or_none (qh_server r)) (\<lambda>i. find_server d i oid)))
      (take (min (max (if limit = 0 then 10 else limit) 1) 100)
        (sort_key (\<lambda>r. - qh_connectedAt r)
          (filter (\<lambda>r. qh_org r = oid \<and> qh_user r = uid \<and> now - HISTORY_RETENTION_MS \<le> qh_connectedAt r) (quickHistory d))))"

definition find_entry :: "db \<Rightarrow> id \<Rightarrow> id \<Rightarrow> id \<Rightarrow> quick_entry option" where
  "find_entry d i oid uid = find (\<lambda>r. qh_id r = i \<and> qh_org r = oid \<and> qh_user r = uid) (quickHistory d)"

definition deleteHistory :: "id \<Rightarrow> id \<Rightarrow> id \<Rightarrow> db \<Rightarrow> unit res \<times> db" where
  "deleteHistory oid uid i d =
     (if find_entry d i oid uid = None then (Inl (api_error 404 ''Quick Connect history entry not found''), d)
      else (Inr (), d\<lparr>quickHistory := filter (\<lambda>r. qh_id r \<noteq> i) (quickHistory d)\<rparr>))"

definition clearHistory :: "id \<Rightarrow> id \<Rightarrow> db \<Rightarrow> nat \<times> db" where
  "clearHistory oid uid d =
     (let mine = (\<lambda>r. qh_org r = oid \<and> qh_user r = uid)
      in (count_where mine (quickHistory d), d\<lparr>quickHistory := filter (\<lambda>r. \<not> mine r) (quickHistory d)\<rparr>))"

definition secret_required :: "string \<Rightarrow> err" where
  "secret_required m = ApiError 409 (dashed m ''reconnect from the Quick Connect dialog.'') (Some ''SECRET_REQUIRED'')"

definition reconnectFromHistory ::
    "quick_env \<Rightarrow> int \<Rightarrow> string \<Rightarrow> id \<Rightarrow> actor \<Rightarrow> id \<Rightarrow> ticket redis \<Rightarrow> db \<Rightarrow> string res \<times> ticket redis \<times> db" where
  "reconnectFromHistory e now fresh oid a i rs d =
     (case find_entry d i oid (act_user a) of None \<Rightarrow> (Inl (api_error 404 ''Quick Connect history entry not found''), rs, d) | Some r \<Rightarrow>
      if qh_authType r \<noteq> ''credential'' \<or> \<not> truthy (qh_credential r)
      then (Inl (secret_required ''This Quick Connect used a one-off password or key that was never stored''), rs, d)
      else if visible_credential d (the (qh_credential r)) oid (act_user a) = None
      then (Inl (secret_required ''The identity used for this connection no longer exists''), rs, d)
      else createTicket e now fresh oid a
        \<lparr>tg_host = qh_host r, tg_port = Some (qh_port r), tg_username = qh_username r,
         tg_auth = Some \<lparr>ab_type = ''credential'', ab_password = [], ab_privateKey = [], ab_passphrase = [], ab_credential = the (qh_credential r)\<rparr>,
         tg_expected = None\<rparr> ViaQuickConnect None rs d)"

end
