(* ===== verification/AgentStatus.thy ===== *)
theory AgentStatus
  imports Net Store
begin

text \<open>
  What a host runs and whether it works (\<open>backend/src/services/serverAgentStatus.js\<close>,
  \<open>postureCollectorState.js\<close>, the two predicates of \<open>bulkBootstrapService.js\<close> and
  \<open>utils/postureCollectorVersion.js\<close>). The newest posture snapshot of a server and the collect
  interval of the organization are arguments.
\<close>

section \<open>The SSH agent\<close>

definition canInstallOn :: "server \<Rightarrow> bool" where
  "canInstallOn s = (srv_osType s \<noteq> Some ''windows'' \<and> srv_protocol s \<in> {ProtoSsh, ProtoBoth})"

definition isBootstrapped :: "server \<Rightarrow> bool" where
  "isBootstrapped s = (srv_provision s = ''provisioned'' \<or> truthy (srv_agentId s))"

definition HEARTBEAT_STALE_MS :: int where "HEARTBEAT_STALE_MS = 10 * 60 * 1000"

datatype trust_state = TrustHealthy | LegacyToken | TrustStale | NoHeartbeat | Installing | InstallFailed | TrustNotInstalled | IdentityAuth | TrustNotApplicable

definition sshTrustStatus :: "int \<Rightarrow> server \<Rightarrow> trust_state" where
  "sshTrustStatus now s =
     (if \<not> canInstallOn s then TrustNotApplicable
      else if srv_provision s = ''provisioning'' then Installing
      else if \<not> isBootstrapped s then
        (if srv_provision s = ''failed'' then InstallFailed
         else if srv_authMode s = AuthCredential then IdentityAuth
         else TrustNotInstalled)
      else case srv_agentLastSeen s of
        None \<Rightarrow> NoHeartbeat
      | Some seen \<Rightarrow>
          if seen = 0 then NoHeartbeat
          else if HEARTBEAT_STALE_MS < now - seen then TrustStale
          else if \<not> truthy (srv_agentTokenHash s) then LegacyToken
          else TrustHealthy)"

section \<open>The posture collector\<close>

record snapshot =
  sn_receivedAt :: int
  sn_ok :: bool
  sn_version :: "string option"

datatype collector_state =
  CollectorNotApplicable | CollectorNotInstalled | Rejected | AwaitingReport | CollectorStale | Degraded | Reporting | Outdated

definition staleThresholdMs :: "int \<Rightarrow> int" where
  "staleThresholdMs interval = 3 * (if interval = 0 then 300 else interval) * 1000"

definition after_all :: "int \<Rightarrow> int option list \<Rightarrow> bool" where
  "after_all t xs = (\<forall>x \<in> set xs. case x of None \<Rightarrow> True | Some u \<Rightarrow> u < t)"

definition classifyCollector :: "int \<Rightarrow> int \<Rightarrow> server \<Rightarrow> snapshot option \<Rightarrow> collector_state" where
  "classifyCollector interval now s latest =
     (let received = map_option sn_receivedAt latest; threshold = staleThresholdMs interval in
      if \<not> canInstallOn s then CollectorNotApplicable
      else if holds (\<lambda>t. after_all t [received, srv_postureInstalledAt s]) (srv_postureRejectedAt s)
      then (if threshold < now - the (srv_postureRejectedAt s) then (if received \<noteq> None then CollectorStale else CollectorNotInstalled)
            else Rejected)
      else if holds (\<lambda>t. after_all t [received]) (srv_postureInstalledAt s)
      then (if now - the (srv_postureInstalledAt s) \<le> threshold then AwaitingReport else CollectorStale)
      else case latest of
        None \<Rightarrow> CollectorNotInstalled
      | Some n \<Rightarrow> if threshold < now - sn_receivedAt n then CollectorStale else if \<not> sn_ok n then Degraded else Reporting)"

text \<open>The leading number of a part of a version, as \<open>parseInt(_, 10) || 0\<close>.\<close>

definition leading_number :: "string \<Rightarrow> int" where
  "leading_number s =
     (let t = dropWhile is_ws s in
      if t \<noteq> [] \<and> hd t = CHR ''-'' then - int (dec_value (takeWhile is_digit (tl t)))
      else int (dec_value (takeWhile is_digit (if t \<noteq> [] \<and> hd t = CHR ''+'' then tl t else t))))"

definition version_parts :: "string \<Rightarrow> int list" where
  "version_parts s = map leading_number (split_by (\<lambda>c. c \<in> {CHR ''.'', CHR ''+'', CHR ''-''}) s)"

fun older_parts :: "int list \<Rightarrow> int list \<Rightarrow> bool" where
  "older_parts [] [] = False"
| "older_parts (x # xs) [] = (if x \<noteq> 0 then x < 0 else older_parts xs [])"
| "older_parts [] (y # ys) = (if y \<noteq> 0 then 0 < y else older_parts [] ys)"
| "older_parts (x # xs) (y # ys) = (if x \<noteq> y then x < y else older_parts xs ys)"

definition isOlderCollector :: "string option \<Rightarrow> string option \<Rightarrow> bool" where
  "isOlderCollector current shipped =
     (if \<not> truthy shipped then False
      else if \<not> truthy current then True
      else older_parts (version_parts (the current)) (version_parts (the shipped)))"

definition collectorStatus :: "string option \<Rightarrow> int \<Rightarrow> int \<Rightarrow> server \<Rightarrow> snapshot option \<Rightarrow> collector_state" where
  "collectorStatus shipped interval now s latest =
     (let st = classifyCollector interval now s latest in
      if st = Reporting \<and> isOlderCollector (Option.bind latest sn_version) shipped then Outdated else st)"

record fleet =
  fl_snapshot :: "id \<Rightarrow> snapshot option"
  fl_interval :: int
  fl_shipped :: "string option"

definition statusesFor :: "fleet \<Rightarrow> int \<Rightarrow> server \<Rightarrow> trust_state \<times> collector_state" where
  "statusesFor f now s = (sshTrustStatus now s, collectorStatus (fl_shipped f) (fl_interval f) now s (fl_snapshot f (srv_id s)))"

definition filterIdsByStatus :: "fleet \<Rightarrow> int \<Rightarrow> trust_state option \<Rightarrow> collector_state option \<Rightarrow> server list \<Rightarrow> id list" where
  "filterIdsByStatus f now t c rows =
     map srv_id (filter (\<lambda>s. (case t of None \<Rightarrow> True | Some x \<Rightarrow> fst (statusesFor f now s) = x) \<and>
                             (case c of None \<Rightarrow> True | Some x \<Rightarrow> snd (statusesFor f now s) = x)) rows)"

end
