(* ===== verification/GroupTree.thy ===== *)
theory GroupTree
  imports Net "HOL-Library.Product_Lexorder"
begin

text \<open>
  The nested groups of a list (\<open>backend/src/utils/groupTree.js\<close>): counted rows are folded into a
  tree over the requested levels. A row is its values by level and how many rows it stands for.
\<close>

definition NONE :: string where "NONE = ''__none__''"
definition MAX_GROUP_LEVELS :: nat where "MAX_GROUP_LEVELS = 3"

fun take_levels :: "string list \<Rightarrow> nat \<Rightarrow> string list \<Rightarrow> string list \<Rightarrow> string list" where
  "take_levels allowed n acc [] = acc"
| "take_levels allowed n acc (k # ks) =
     (let acc1 = (if k \<noteq> [] \<and> k \<in> set allowed \<and> k \<notin> set acc then acc @ [k] else acc)
      in if n \<le> length acc1 then acc1 else take_levels allowed n acc1 ks)"

definition parseGroupBy :: "string \<Rightarrow> string list \<Rightarrow> string list" where
  "parseGroupBy raw allowed = take_levels allowed MAX_GROUP_LEVELS [] (map js_trim (split_on (CHR '','') raw))"

text \<open>A level: its name, how its values are shown, and a fixed order of some of them.\<close>

record dim =
  dm_key :: string
  dm_label :: "string \<Rightarrow> string"
  dm_order :: "string list"

type_synonym counted = "(string \<Rightarrow> string option) \<times> nat"

definition valueKey :: "string option \<Rightarrow> string" where
  "valueKey v = (if truthy v then the v else NONE)"

datatype group_node = Group (gn_dim: string) (gn_value: string) (gn_label: string) (gn_count: nat) (gn_children: "group_node list option")

definition row_value :: "dim \<Rightarrow> counted \<Rightarrow> string" where
  "row_value dm r = valueKey (fst r (dm_key dm))"

definition bucket :: "dim \<Rightarrow> string \<Rightarrow> counted list \<Rightarrow> counted list" where
  "bucket dm v rows = filter (\<lambda>r. row_value dm r = v) rows"

text \<open>Values with a fixed place first, then the others, \<open>NONE\<close> last; \<open>collate\<close> is the order of \<open>localeCompare\<close>.\<close>

fun place :: "string list \<Rightarrow> string \<Rightarrow> nat option" where
  "place [] v = None"
| "place (x # xs) v = (if x = v then Some 0 else map_option Suc (place xs v))"

definition node_rank :: "dim \<Rightarrow> string \<Rightarrow> nat" where
  "node_rank dm v =
     (if v = NONE then 2 ^ 53 - 1 else case place (dm_order dm) v of None \<Rightarrow> 2 ^ 53 - 2 | Some i \<Rightarrow> i)"

definition node_key :: "(string \<Rightarrow> nat) \<Rightarrow> dim \<Rightarrow> group_node \<Rightarrow> nat \<times> int \<times> nat" where
  "node_key collate dm g = (node_rank dm (gn_value g), - int (gn_count g), collate (gn_label g))"

fun level :: "(string \<Rightarrow> nat) \<Rightarrow> counted list \<Rightarrow> dim list \<Rightarrow> group_node list" where
  "level collate rows [] = []"
| "level collate rows (dm # dms) =
     sort_key (node_key collate dm)
       (map (\<lambda>v. let members = bucket dm v rows in
               Group (dm_key dm) v (dm_label dm v) (sum_list (map snd members))
                 (if dms = [] then None else Some (level collate members dms)))
          (uniq (map (row_value dm) rows)))"

definition buildGroupTree :: "(string \<Rightarrow> nat) \<Rightarrow> counted list \<Rightarrow> dim list \<Rightarrow> group_node list" where
  "buildGroupTree = level"

fun countGroups :: "group_node \<Rightarrow> nat" where
  "countGroups (Group _ _ _ _ None) = 1"
| "countGroups (Group _ _ _ _ (Some gs)) = 1 + sum_list (map countGroups gs)"

end
