(* ===== verification/Servers.thy ===== *)
theory Servers
  imports QuickConnect AgentStatus GroupTree Tenancy
begin

text \<open>
  Server administration (\<open>backend/src/services/serverService.js\<close>), the saved sudo password of a
  server (\<open>serverSudoService.js\<close>) and saving an ad-hoc target as a server
  (\<open>quickConnectService.saveAsServer\<close>). Columns that only describe a cloud instance are left out.
\<close>

section \<open>Finding servers\<close>

definition server_not_found :: err where "server_not_found = api_error 404 ''Server not found''"

definition scoped_server :: "db \<Rightarrow> id \<Rightarrow> id \<Rightarrow> scope \<Rightarrow> server option" where
  "scoped_server d sid oid sc = find (\<lambda>s. srv_id s = sid \<and> srv_org s = oid \<and> serverScopeWhere sc s) (servers d)"

text \<open>A filter on a column: not sent, a value, or \<open>__none__\<close>.\<close>

datatype 'a wanted = Any | Empty | Is 'a

fun required_is :: "'a wanted \<Rightarrow> 'a \<Rightarrow> bool" where
  "required_is Any v = True"
| "required_is Empty v = False"
| "required_is (Is x) v = (v = x)"

fun nullable_is :: "string wanted \<Rightarrow> string option \<Rightarrow> bool" where
  "nullable_is Any v = True"
| "nullable_is Empty v = (\<not> truthy v)"
| "nullable_is (Is x) v = (v = Some x)"

record server_filters =
  vf_customer :: "id wanted"
  vf_env :: "environment wanted"
  vf_health :: "string wanted"
  vf_cloud :: "string wanted"
  vf_search :: string
  vf_active :: "bool wanted"
  vf_trust :: "trust_state wanted"
  vf_collector :: "collector_state wanted"
  vf_protocol :: "server_protocol wanted"
  vf_os :: "string wanted"
  vf_checkedFrom :: "int option"
  vf_checkedTo :: "int option"

definition buildServerWhere :: "id \<Rightarrow> server_filters \<Rightarrow> scope \<Rightarrow> server \<Rightarrow> bool" where
  "buildServerWhere oid f sc s \<longleftrightarrow>
     srv_org s = oid \<and> serverScopeWhere sc s \<and>
     required_is (vf_customer f) (srv_customer s) \<and> required_is (vf_env f) (srv_env s) \<and>
     required_is (vf_health f) (srv_health s) \<and> required_is (vf_protocol f) (srv_protocol s) \<and>
     nullable_is (vf_cloud f) (srv_cloudProvider s) \<and> nullable_is (vf_os f) (srv_osType s) \<and>
     required_is (vf_active f) (srv_isActive s) \<and>
     (case vf_checkedFrom f of None \<Rightarrow> True | Some t \<Rightarrow> holds (\<lambda>c. t \<le> c) (srv_lastHealthCheck s)) \<and>
     (case vf_checkedTo f of None \<Rightarrow> True | Some t \<Rightarrow> holds (\<lambda>c. c \<le> t) (srv_lastHealthCheck s)) \<and>
     (vf_search f = [] \<or> contains_ci (vf_search f) (srv_hostname s) \<or> opt_contains (vf_search f) (srv_displayName s) \<or>
      contains_ci (vf_search f) (srv_ip s))"

fun state_wanted :: "'a wanted \<Rightarrow> 'a option" where
  "state_wanted (Is x) = Some x"
| "state_wanted _ = None"

definition resolveServerWhere :: "fleet \<Rightarrow> int \<Rightarrow> id \<Rightarrow> server_filters \<Rightarrow> scope \<Rightarrow> db \<Rightarrow> server list" where
  "resolveServerWhere fl now oid f sc d =
     (let rows = filter (buildServerWhere oid f sc) (servers d); t = state_wanted (vf_trust f); c = state_wanted (vf_collector f) in
      if vf_trust f = Empty \<or> vf_collector f = Empty then []
      else if t = None \<and> c = None then rows
      else filter (\<lambda>s. srv_id s \<in> set (filterIdsByStatus fl now t c rows)) rows)"

definition listServers ::
    "(server list \<Rightarrow> server list) \<Rightarrow> fleet \<Rightarrow> int \<Rightarrow> nat \<Rightarrow> nat \<Rightarrow> id \<Rightarrow> server_filters \<Rightarrow> scope \<Rightarrow> db \<Rightarrow> server list \<times> nat" where
  "listServers ordered fl now page per oid f sc d =
     (let rows = resolveServerWhere fl now oid f sc d in (page_of (page_no page) (page_size per) (ordered rows), length rows))"

definition listServerGroups ::
    "(string \<Rightarrow> nat) \<Rightarrow> (server \<Rightarrow> string \<Rightarrow> string option) \<Rightarrow> fleet \<Rightarrow> int \<Rightarrow> id \<Rightarrow> server_filters \<Rightarrow> scope \<Rightarrow> dim list \<Rightarrow> db \<Rightarrow> group_node list" where
  "listServerGroups collate shown fl now oid f sc dims d =
     buildGroupTree collate (map (\<lambda>s. (shown s, 1)) (resolveServerWhere fl now oid f sc d)) dims"

definition listOsTypes :: "(string list \<Rightarrow> string list) \<Rightarrow> id \<Rightarrow> scope \<Rightarrow> db \<Rightarrow> string list" where
  "listOsTypes ordered oid sc d =
     filter (\<lambda>os. os \<noteq> []) (ordered (remdups (concat
       (map (\<lambda>s. if srv_org s = oid \<and> serverScopeWhere sc s then (case srv_osType s of None \<Rightarrow> [] | Some os \<Rightarrow> [os]) else [])
         (servers d)))))"

definition getServer :: "fleet \<Rightarrow> int \<Rightarrow> id \<Rightarrow> id \<Rightarrow> scope \<Rightarrow> db \<Rightarrow> (server \<times> trust_state \<times> collector_state) res" where
  "getServer fl now oid sid sc d =
     (case scoped_server d sid oid sc of None \<Rightarrow> Inl server_not_found | Some s \<Rightarrow> Inr (s, statusesFor fl now s))"

definition getServersByLabel :: "id \<Rightarrow> json list \<Rightarrow> scope \<Rightarrow> db \<Rightarrow> server list" where
  "getServersByLabel oid labels sc d =
     filter (\<lambda>s. srv_org s = oid \<and> serverScopeWhere sc s \<and> set labels \<subseteq> set (array_or_empty (Some (srv_labels s)))) (servers d)"

section \<open>Identities and addresses\<close>

definition validateIp :: "string \<Rightarrow> bool" where
  "validateIp ip = (ip \<noteq> [] \<and> isIP ip \<noteq> 0)"

definition bad_ip :: err where "bad_ip = api_error 400 ''ipAddress must be a valid IPv4 or IPv6 address''"

text \<open>An address may be missing only on a server without a fixed one.\<close>

definition check_ip :: "bool \<Rightarrow> string \<Rightarrow> unit res" where
  "check_ip isDynamic ip =
     (if isDynamic then (if ip \<noteq> [] \<and> \<not> validateIp ip then Inl bad_ip else Inr ())
      else if \<not> validateIp ip then Inl bad_ip else Inr ())"

definition no_such_credential :: err where
  "no_such_credential = api_error 400 ''credentialId not found in organization''"

text \<open>
  What to write: a mode and an identity, each only when it changes. An empty identity passes here
  and is refused by the foreign key when the row is written.
\<close>

definition validateAuthMode :: "db \<Rightarrow> id \<Rightarrow> auth_mode option \<Rightarrow> id option option \<Rightarrow> (auth_mode option \<times> id option option) res" where
  "validateAuthMode d oid mode cred =
     (let known = (\<lambda>i. find_credential d i oid None \<noteq> None); c = (case cred of None \<Rightarrow> None | Some v \<Rightarrow> v) in
      case mode of
        Some AuthCredential \<Rightarrow>
          (if \<not> truthy c then Inl (api_error 400 ''credentialId is required when authMode is \"credential\"'')
           else if \<not> known (the c) then Inl no_such_credential
           else Inr (Some AuthCredential, Some c))
      | Some AuthCertificate \<Rightarrow> Inr (Some AuthCertificate, Some None)
      | None \<Rightarrow> if truthy c \<and> \<not> known (the c) then Inl no_such_credential else Inr (None, cred))"

section \<open>Editing\<close>

record server_data =
  sv_hostname :: "string option"
  sv_displayName :: "string option option"
  sv_description :: "string option option"
  sv_ip :: "string option option"
  sv_dynamicIp :: "bool option"
  sv_port :: "int option"
  sv_protocol :: "server_protocol option"
  sv_env :: "environment option"
  sv_labels :: "json option"
  sv_osType :: "string option option"
  sv_osVersion :: "string option option"
  sv_cloudProvider :: "string option option"
  sv_sshUser :: "string option"
  sv_rdpUsername :: "string option option"
  sv_isActive :: "bool option"
  sv_authMode :: "auth_mode option"
  sv_credential :: "id option option"
  sv_rdpPassword :: string

definition sent :: "'a option \<Rightarrow> 'a \<Rightarrow> 'a" where
  "sent x old = (case x of None \<Rightarrow> old | Some v \<Rightarrow> v)"

text \<open>The columns written as they were sent; address, mode and identity are decided before.\<close>

definition write_columns ::
    "(string \<Rightarrow> string) \<Rightarrow> server_data \<Rightarrow> string option \<Rightarrow> auth_mode option \<Rightarrow> id option option \<Rightarrow> server \<Rightarrow> server" where
  "write_columns seal x ip mode cred s =
     s\<lparr>srv_hostname := sent (sv_hostname x) (srv_hostname s), srv_displayName := sent (sv_displayName x) (srv_displayName s),
       srv_description := sent (sv_description x) (srv_description s), srv_ip := sent ip (srv_ip s),
       srv_dynamicIp := sent (sv_dynamicIp x) (srv_dynamicIp s), srv_port := sent (sv_port x) (srv_port s),
       srv_protocol := sent (sv_protocol x) (srv_protocol s), srv_env := sent (sv_env x) (srv_env s),
       srv_labels := sent (sv_labels x) (srv_labels s), srv_osType := sent (sv_osType x) (srv_osType s),
       srv_osVersion := sent (sv_osVersion x) (srv_osVersion s), srv_cloudProvider := sent (sv_cloudProvider x) (srv_cloudProvider s),
       srv_sshUser := sent (sv_sshUser x) (srv_sshUser s), srv_rdpUsername := sent (sv_rdpUsername x) (srv_rdpUsername s),
       srv_isActive := sent (sv_isActive x) (srv_isActive s), srv_authMode := sent mode (srv_authMode s),
       srv_credential := sent cred (srv_credential s),
       srv_rdpPassword := (if sv_rdpPassword x = [] then srv_rdpPassword s else Some (seal (sv_rdpPassword x)))\<rparr>"

text \<open>The defaults of the table.\<close>

definition blank_server :: "id \<Rightarrow> id \<Rightarrow> id \<Rightarrow> string \<Rightarrow> server" where
  "blank_server newId oid cid hostname =
     \<lparr>srv_id = newId, srv_org = oid, srv_customer = cid, srv_hostname = hostname, srv_displayName = None, srv_ip = [], srv_port = 22,
      srv_protocol = ProtoSsh, srv_env = EnvDev, srv_labels = JArr [], srv_agentId = None, srv_agentLastSeen = None,
      srv_sshUser = ''root'', srv_rdpUsername = None, srv_authMode = AuthCertificate, srv_credential = None, srv_sudoCredential = None,
      srv_rdpPort = None, srv_rdpPassword = None, srv_isActive = True, srv_provision = ''pending'', srv_description = None,
      srv_dynamicIp = False, srv_osType = None, srv_osVersion = None, srv_cloudProvider = None, srv_health = ''unknown'',
      srv_lastHealthCheck = None, srv_hostKey = None, srv_hostKeyAlg = None, srv_hostKeyPinnedAt = None, srv_provisionError = None,
      srv_agentTokenHash = None, srv_postureRejectedAt = None, srv_postureInstalledAt = None\<rparr>"

definition sent_ip :: "server_data \<Rightarrow> string" where
  "sent_ip x = js_trim (or_else (case sv_ip x of None \<Rightarrow> None | Some v \<Rightarrow> v) [])"

definition createServer :: "(string \<Rightarrow> string) \<Rightarrow> id \<Rightarrow> id \<Rightarrow> id \<Rightarrow> server_data \<Rightarrow> scope \<Rightarrow> db \<Rightarrow> server res \<times> db" where
  "createServer seal newId oid cid x sc d =
     (if cid = [] then (Inl (api_error 400 ''customerId is required''), d)
      else case assertCustomerInScope sc cid of Inl er \<Rightarrow> (Inl er, d) | Inr _ \<Rightarrow>
      if \<not> (\<exists>c \<in> set (customers d). cus_id c = cid \<and> cus_org c = oid)
      then (Inl (api_error 400 ''Customer not found in organization''), d)
      else if \<not> truthy (sv_hostname x) then (Inl (api_error 400 ''hostname is required''), d)
      else case check_ip (sv_dynamicIp x = Some True) (sent_ip x) of Inl er \<Rightarrow> (Inl er, d) | Inr _ \<Rightarrow>
      case validateAuthMode d oid (sv_authMode x) (sv_credential x) of Inl er \<Rightarrow> (Inl er, d) | Inr (mode, cred) \<Rightarrow>
      if cred = Some (Some []) then (Inl DbError, d)
      else
        let s = write_columns seal x (Some (sent_ip x)) mode cred (blank_server newId oid cid (the (sv_hostname x)))
        in (Inr s, d\<lparr>servers := servers d @ [s]\<rparr>))"

definition update_server :: "id \<Rightarrow> (server \<Rightarrow> server) \<Rightarrow> db \<Rightarrow> db" where
  "update_server sid f d = d\<lparr>servers := update_where (\<lambda>s. srv_id s = sid) f (servers d)\<rparr>"

text \<open>The address is checked when it is sent, against the kind of address the server will have.\<close>

definition update_ip :: "server_data \<Rightarrow> server \<Rightarrow> string option res" where
  "update_ip x s =
     (if sv_ip x = None then Inr None
      else case check_ip (case sv_dynamicIp x of None \<Rightarrow> srv_dynamicIp s | Some b \<Rightarrow> b) (sent_ip x) of
        Inl er \<Rightarrow> Inl er | Inr _ \<Rightarrow> Inr (Some (sent_ip x)))"

definition updateServer :: "(string \<Rightarrow> string) \<Rightarrow> id \<Rightarrow> id \<Rightarrow> server_data \<Rightarrow> scope \<Rightarrow> db \<Rightarrow> server res \<times> db" where
  "updateServer seal oid sid x sc d =
     (case scoped_server d sid oid sc of None \<Rightarrow> (Inl server_not_found, d) | Some s \<Rightarrow>
      case update_ip x s of Inl er \<Rightarrow> (Inl er, d) | Inr ip \<Rightarrow>
      case validateAuthMode d oid (sv_authMode x) (sv_credential x) of Inl er \<Rightarrow> (Inl er, d) | Inr (mode, cred) \<Rightarrow>
      if cred = Some (Some []) then (Inl DbError, d)
      else
        let f = write_columns seal x ip mode cred in (Inr (f s), update_server sid f d))"

definition clear_host_key :: "server \<Rightarrow> server" where
  "clear_host_key s = s\<lparr>srv_hostKey := None, srv_hostKeyAlg := None, srv_hostKeyPinnedAt := None\<rparr>"

definition resetServerHostKey :: "id \<Rightarrow> id \<Rightarrow> scope \<Rightarrow> db \<Rightarrow> server res \<times> db" where
  "resetServerHostKey oid sid sc d =
     (case scoped_server d sid oid sc of None \<Rightarrow> (Inl server_not_found, d) | Some s \<Rightarrow>
        (Inr (clear_host_key s), update_server sid clear_host_key d))"

definition updateConnectionIp :: "id \<Rightarrow> id \<Rightarrow> string \<Rightarrow> scope \<Rightarrow> db \<Rightarrow> server res \<times> db" where
  "updateConnectionIp oid sid ip sc d =
     (case scoped_server d sid oid sc of None \<Rightarrow> (Inl server_not_found, d) | Some s \<Rightarrow>
      if \<not> srv_dynamicIp s then (Inl (api_error 400 ''This server does not have a changeable IP''), d)
      else if \<not> validateIp ip then (Inl bad_ip, d)
      else (Inr (s\<lparr>srv_ip := ip\<rparr>), update_server sid (\<lambda>s. s\<lparr>srv_ip := ip\<rparr>) d))"

record bulk_patch =
  bp_env :: "environment option"
  bp_protocol :: "server_protocol option"
  bp_osType :: "string option option"
  bp_osVersion :: "string option option"
  bp_sshUser :: "string option"
  bp_isActive :: "bool option"
  bp_customer :: "id option"

definition empty_bulk :: "bulk_patch \<Rightarrow> bool" where
  "empty_bulk p \<longleftrightarrow> bp_env p = None \<and> bp_protocol p = None \<and> bp_osType p = None \<and> bp_osVersion p = None \<and>
     bp_sshUser p = None \<and> bp_isActive p = None \<and> bp_customer p = None"

definition bulk_write :: "bulk_patch \<Rightarrow> server \<Rightarrow> server" where
  "bulk_write p s =
     s\<lparr>srv_env := sent (bp_env p) (srv_env s), srv_protocol := sent (bp_protocol p) (srv_protocol s),
       srv_osType := sent (bp_osType p) (srv_osType s), srv_osVersion := sent (bp_osVersion p) (srv_osVersion s),
       srv_sshUser := sent (bp_sshUser p) (srv_sshUser s), srv_isActive := sent (bp_isActive p) (srv_isActive s),
       srv_customer := sent (bp_customer p) (srv_customer s)\<rparr>"

definition bulkUpdate :: "id \<Rightarrow> id list \<Rightarrow> bulk_patch \<Rightarrow> scope \<Rightarrow> db \<Rightarrow> nat res \<times> db" where
  "bulkUpdate oid ids p sc d =
     (if ids = [] then (Inl (api_error 400 ''serverIds must be a non-empty array''), d)
      else if empty_bulk p then (Inl (api_error 400 ''No updatable fields provided''), d)
      else case (if truthy (bp_customer p) then assertCustomerInScope sc (the (bp_customer p)) else Inr ()) of Inl er \<Rightarrow> (Inl er, d) | Inr _ \<Rightarrow>
      if truthy (bp_customer p) \<and> \<not> (\<exists>c \<in> set (customers d). cus_id c = the (bp_customer p) \<and> cus_org c = oid)
      then (Inl (api_error 400 ''Customer not found in organization''), d)
      else
        let hit = (\<lambda>s. srv_id s \<in> set ids \<and> srv_org s = oid \<and> serverScopeWhere sc s) in
        if bp_customer p = Some [] \<and> (\<exists>s \<in> set (servers d). hit s) then (Inl DbError, d)
        else (Inr (count_where hit (servers d)), d\<lparr>servers := update_where hit (bulk_write p) (servers d)\<rparr>))"

definition bulkUpdateEnvironment :: "id \<Rightarrow> id list \<Rightarrow> environment option \<Rightarrow> scope \<Rightarrow> db \<Rightarrow> nat res \<times> db" where
  "bulkUpdateEnvironment oid ids e sc d =
     bulkUpdate oid ids \<lparr>bp_env = e, bp_protocol = None, bp_osType = None, bp_osVersion = None, bp_sshUser = None, bp_isActive = None, bp_customer = None\<rparr> sc d"

section \<open>Deleting\<close>

record server_impact =
  vi_cloud :: bool
  vi_active :: nat
  vi_sessions :: nat
  vi_pending :: nat
  vi_certs :: nat

definition getServerDeleteImpact :: "id \<Rightarrow> id \<Rightarrow> scope \<Rightarrow> db \<Rightarrow> server_impact res" where
  "getServerDeleteImpact oid sid sc d =
     (case scoped_server d sid oid sc of None \<Rightarrow> Inl server_not_found | Some s \<Rightarrow>
        Inr \<lparr>vi_cloud = truthy (srv_cloudProvider s),
             vi_active = count_where (\<lambda>r. ses_org r = oid \<and> ses_server r = Some sid \<and> ses_status r = SES_ACTIVE) (sessions d),
             vi_sessions = count_where (\<lambda>r. ses_org r = oid \<and> ses_server r = Some sid) (sessions d),
             vi_pending = count_where (\<lambda>r. req_org r = oid \<and> req_server r = sid \<and> req_status r \<in> {PENDING, APPROVED}) (requests d),
             vi_certs = count_where (\<lambda>k. cert_org k = oid \<and> cert_issuedFor k = Some sid) (certs d)\<rparr>)"

text \<open>Requests and sessions go with the row; certificates and sessions of other servers lose the reference.\<close>

definition delete_server_row :: "id \<Rightarrow> db \<Rightarrow> db" where
  "delete_server_row sid d =
     (let lost = req_id ` set (filter (\<lambda>r. req_server r = sid) (requests d)) in
      d\<lparr>servers := filter (\<lambda>s. srv_id s \<noteq> sid) (servers d),
        requests := filter (\<lambda>r. req_server r \<noteq> sid) (requests d),
        sessions := map (\<lambda>s. s\<lparr>ses_request := (case ses_request s of Some i \<Rightarrow> if i \<in> lost then None else Some i | None \<Rightarrow> None)\<rparr>)
          (filter (\<lambda>s. ses_server s \<noteq> Some sid) (sessions d)),
        certs := map (\<lambda>k. k\<lparr>cert_issuedFor := drop_reference sid (cert_issuedFor k)\<rparr>) (certs d)\<rparr>)"

definition deleteServer :: "int \<Rightarrow> faults \<Rightarrow> id \<Rightarrow> id \<Rightarrow> id option \<Rightarrow> scope \<Rightarrow> world \<Rightarrow> unit res \<times> world" where
  "deleteServer now fl oid sid caller sc w =
     (case scoped_server (w_db w) sid oid sc of None \<Rightarrow> (Inl server_not_found, w) | Some _ \<Rightarrow>
        let w1 = snd (terminateActiveSessionsFor now fl oid (\<lambda>r. ses_server r = Some sid) caller w)
        in (Inr (), w1\<lparr>w_db := delete_server_row sid (w_db w1)\<rparr>))"

end
