(* ===== verification/AccessMachine.thy ===== *)
theory AccessMachine
  imports BreakGlassClaims AccessClaims UserProps Tenancy Servers ServiceAccounts
begin

text \<open>
  Access requests as a state machine. Every operation that reads a request and writes it later
  is two steps, so that other operations can come in between: a review or a revocation works on
  the row it read, an expiry job on the list it read, a break-glass grant on the checks it made.
  Accounts, servers and customers that are cut off or deleted take requests with them. The abstract
  machine knows of each request only whether it is still to come, which status it has, or that it is gone.
\<close>

section \<open>Well-formed rows\<close>

definition request_ok :: "request \<Rightarrow> bool" where
  "request_ok r \<longleftrightarrow>
     0 < req_duration r \<and> req_requester r \<notin> set (req_approvers r) \<and>
     (req_breakGlass r \<longleftrightarrow> req_reviewer r = Some (req_requester r)) \<and>
     (case req_status r of
        PENDING \<Rightarrow> \<not> req_breakGlass r \<and> req_approvedAt r = None \<and> req_expiresAt r = None
      | APPROVED \<Rightarrow> (case (req_approvedAt r, req_approvedDuration r) of
            (Some t, Some dur) \<Rightarrow> 0 < dur \<and> req_expiresAt r = Some (t + dur * 1000) | _ \<Rightarrow> False)
      | DENIED \<Rightarrow> req_deniedAt r \<noteq> None
      | REVOKED \<Rightarrow> req_revokedAt r \<noteq> None
      | EXPIRED \<Rightarrow> True)"

text \<open>\<open>used\<close> are the ids the table ever had: ids are drawn at random, and none comes back.\<close>

definition table_ok :: "id set \<Rightarrow> request list \<Rightarrow> bool" where
  "table_ok used rs \<longleftrightarrow> distinct (map req_id rs) \<and> req_id ` set rs \<subseteq> used \<and> (\<forall>r \<in> set rs. request_ok r)"

section \<open>The abstract machine\<close>

datatype phase = Unknown | Live request_status | Gone

inductive phase_step :: "phase \<Rightarrow> phase \<Rightarrow> bool" where
  stays: "phase_step p p"
| opened: "s = PENDING \<or> s = APPROVED \<Longrightarrow> phase_step Unknown (Live s)"
| decided: "s = APPROVED \<or> s = DENIED \<Longrightarrow> phase_step (Live PENDING) (Live s)"
| closed: "s' = EXPIRED \<or> s' = REVOKED \<Longrightarrow> phase_step (Live s) (Live s')"
| removed: "phase_step (Live s) Gone"

inductive_cases phase_stepE: "phase_step p p'"

text \<open>One step of the whole: every request moves by one step of its own, or stays.\<close>

definition lifecycle_step :: "(id \<Rightarrow> phase) \<Rightarrow> (id \<Rightarrow> phase) \<Rightarrow> bool" where
  "lifecycle_step p p' \<longleftrightarrow> (\<forall>i. phase_step (p i) (p' i))"

definition phase_of :: "id set \<Rightarrow> request list \<Rightarrow> id \<Rightarrow> phase" where
  "phase_of used rs i =
     (case find (\<lambda>r. req_id r = i) rs of Some r \<Rightarrow> Live (req_status r) | None \<Rightarrow> if i \<in> used then Gone else Unknown)"

definition over :: "phase \<Rightarrow> bool" where
  "over p \<longleftrightarrow> p \<in> {Live DENIED, Live EXPIRED, Live REVOKED, Gone}"

lemma phase_step_over: "phase_step p p' \<Longrightarrow> over p \<Longrightarrow> over p'"
  by (auto elim!: phase_stepE simp: over_def)

lemma lifecycle_over: "lifecycle_step\<^sup>*\<^sup>* p p' \<Longrightarrow> over (p i) \<Longrightarrow> over (p' i)"
  by (induction rule: rtranclp_induct) (auto simp: lifecycle_step_def intro: phase_step_over)

section \<open>What an operation may do to the table\<close>

definition status_move :: "request_status \<Rightarrow> request_status \<Rightarrow> bool" where
  "status_move s s' \<longleftrightarrow> s' = s \<or> s = PENDING \<and> s' \<in> {APPROVED, DENIED} \<or> s' \<in> {EXPIRED, REVOKED}"

lemma status_move_phase: "status_move s s' \<Longrightarrow> phase_step (Live s) (Live s')"
  by (auto simp: status_move_def intro: phase_step.intros)

definition row_move :: "request \<Rightarrow> request \<Rightarrow> bool" where
  "row_move r r' \<longleftrightarrow> req_id r' = req_id r \<and> req_requester r' = req_requester r \<and>
     status_move (req_status r) (req_status r') \<and> (request_ok r \<longrightarrow> request_ok r')"

definition new_row :: "id set \<Rightarrow> request \<Rightarrow> bool" where
  "new_row used r \<longleftrightarrow> req_id r \<notin> used \<and> req_status r \<in> {PENDING, APPROVED} \<and> request_ok r"

text \<open>A new row at the end, or rows dropped and the others rewritten.\<close>

definition table_step :: "id set \<Rightarrow> request list \<Rightarrow> request list \<Rightarrow> bool" where
  "table_step used rs rs' \<longleftrightarrow> (\<exists>r. new_row used r \<and> rs' = rs @ [r]) \<or>
     (\<exists>Q g. rs' = map g (filter Q rs) \<and> (\<forall>r \<in> set rs. Q r \<longrightarrow> row_move r (g r)))"

lemma row_move_refl [simp]: "row_move r r"
  by (simp add: row_move_def status_move_def)

lemma table_step_append: "new_row used r \<Longrightarrow> table_step used rs (rs @ [r])"
  by (auto simp: table_step_def)

lemma table_step_map: "(\<And>r. r \<in> set rs \<Longrightarrow> Q r \<Longrightarrow> row_move r (g r)) \<Longrightarrow> table_step used rs (map g (filter Q rs))"
  unfolding table_step_def by blast

lemma table_step_update: "(\<And>r. r \<in> set rs \<Longrightarrow> P r \<Longrightarrow> row_move r (f r)) \<Longrightarrow> table_step used rs (update_where P f rs)"
  using table_step_map [of rs "\<lambda>_. True" "\<lambda>r. if P r then f r else r"] by (simp add: update_where_def)

lemma table_step_filter: "table_step used rs (filter Q rs)"
  using table_step_map [of rs Q "\<lambda>r. r"] by simp

lemma table_step_refl [simp]: "table_step used rs rs"
  using table_step_filter [of used rs "\<lambda>_. True"] by simp

lemma map_filter_ids:
  assumes "\<forall>r \<in> set rs. Q r \<longrightarrow> row_move r (g r)"
  shows "map req_id (map g (filter Q rs)) = map req_id (filter Q rs)"
  using assms by (auto simp: row_move_def)

lemma table_step_ok:
  assumes "table_ok used rs" and "table_step used rs rs'"
  shows "table_ok (used \<union> req_id ` set rs') rs'"
  using assms(2) unfolding table_step_def
proof (elim disjE exE conjE)
  fix Q g
  assume rs': "rs' = map g (filter Q rs)" and m: "\<forall>r \<in> set rs. Q r \<longrightarrow> row_move r (g r)"
  have "distinct (map req_id rs')" using assms(1) unfolding rs' map_filter_ids [OF m] by (simp add: table_ok_def distinct_map_filter)
  then show ?thesis using assms(1) m by (auto simp: table_ok_def row_move_def rs')
qed (use assms(1) in \<open>auto simp: table_ok_def new_row_def\<close>)

lemma find_key_none: "x \<notin> k ` set rs \<Longrightarrow> find (\<lambda>r. k r = x) rs = None"
  by (induction rs) auto

lemma find_snoc: "find Q (rs @ [r]) = (case find Q rs of Some q \<Rightarrow> Some q | None \<Rightarrow> if Q r then Some r else None)"
  by (induction rs) auto

lemma find_map_filter:
  assumes "distinct (map req_id rs)" and "\<forall>r \<in> set rs. Q r \<longrightarrow> row_move r (g r)"
  shows "find (\<lambda>r. req_id r = i) (map g (filter Q rs)) =
     (case find (\<lambda>r. req_id r = i) rs of None \<Rightarrow> None | Some q \<Rightarrow> if Q q then Some (g q) else None)"
  using assms
proof (induction rs)
  case (Cons r rs)
  have "find (\<lambda>r. req_id r = i) rs = None" if "req_id r = i" using Cons.prems(1) that by (intro find_key_none) auto
  then show ?case using Cons by (auto simp: row_move_def)
qed simp

lemma table_step_refines:
  assumes "table_ok used rs" and "table_step used rs rs'"
  shows "lifecycle_step (phase_of used rs) (phase_of (used \<union> req_id ` set rs') rs')"
  unfolding lifecycle_step_def
proof
  fix i
  have u: "req_id ` set rs \<subseteq> used" "distinct (map req_id rs)" using assms(1) by (simp_all add: table_ok_def)
  show "phase_step (phase_of used rs i) (phase_of (used \<union> req_id ` set rs') rs' i)"
    using assms(2) unfolding table_step_def
  proof (elim disjE exE conjE)
    fix r
    assume r: "new_row used r" "rs' = rs @ [r]"
    show ?thesis
    proof (cases "i = req_id r")
      case True
      have "i \<notin> used" using r(1) True by (simp add: new_row_def)
      moreover have "find (\<lambda>r. req_id r = i) rs = None" using u(1) calculation by (intro find_key_none) auto
      ultimately show ?thesis using r True by (auto simp: phase_of_def find_snoc new_row_def intro: phase_step.opened)
    next
      case False
      then have "phase_of (used \<union> req_id ` set rs') rs' i = phase_of used rs i"
        using r(2) u(1) by (auto simp: phase_of_def find_snoc split: option.split)
      then show ?thesis by (simp add: phase_step.stays)
    qed
  next
    fix Q g
    assume rs': "rs' = map g (filter Q rs)" and m: "\<forall>r \<in> set rs. Q r \<longrightarrow> row_move r (g r)"
    have "req_id ` set rs' = req_id ` set (filter Q rs)"
      using arg_cong [OF map_filter_ids [OF m], of set] by (simp add: rs' image_image)
    then have e: "used \<union> req_id ` set rs' = used" using u(1) by auto
    note f = find_map_filter [OF u(2) m, of i, folded rs']
    show ?thesis
    proof (cases "find (\<lambda>r. req_id r = i) rs")
      case None
      then show ?thesis using f e by (simp add: phase_of_def phase_step.stays)
    next
      case (Some q)
      then have q: "q \<in> set rs" "req_id q = i" by (auto dest: find_SomeD)
      then have "i \<in> used" using u(1) by auto
      then show ?thesis
        using f e Some m q by (cases "Q q") (auto simp: phase_of_def row_move_def intro: status_move_phase phase_step.removed)
    qed
  qed
qed

section \<open>The contract of an operation\<close>

text \<open>\<open>tbl\<close> is the table of requests in the state the operation works on, \<open>pre\<close> what holds when it runs.\<close>

locale request_operation =
  fixes tbl :: "'s \<Rightarrow> request list" and step :: "'a \<Rightarrow> 's \<Rightarrow> 's" and pre :: "'a \<Rightarrow> id set \<Rightarrow> request list \<Rightarrow> bool"
  assumes moves: "table_ok used (tbl s) \<Longrightarrow> pre a used (tbl s) \<Longrightarrow> table_step used (tbl s) (tbl (step a s))"
begin

lemma keeps_ok: "table_ok used (tbl s) \<Longrightarrow> pre a used (tbl s) \<Longrightarrow> table_ok (used \<union> req_id ` set (tbl (step a s))) (tbl (step a s))"
  by (rule table_step_ok [OF _ moves])

lemma refines:
  "table_ok used (tbl s) \<Longrightarrow> pre a used (tbl s) \<Longrightarrow>
     lifecycle_step (phase_of used (tbl s)) (phase_of (used \<union> req_id ` set (tbl (step a s))) (tbl (step a s)))"
  by (rule table_step_refines [OF _ moves])

end

text \<open>An operation that rewrites rows in place or drops them, with no condition of its own.\<close>

locale row_rewrite =
  fixes tbl :: "'s \<Rightarrow> request list" and step :: "'a \<Rightarrow> 's \<Rightarrow> 's" and keep :: "'a \<Rightarrow> request \<Rightarrow> bool" and rewrite :: "'a \<Rightarrow> request \<Rightarrow> request"
  assumes writes: "tbl (step a s) = tbl s \<or> tbl (step a s) = map (rewrite a) (filter (keep a) (tbl s))"
    and row_moves: "keep a r \<Longrightarrow> row_move r (rewrite a r)"
begin

lemma rewrite_step: "table_step used (tbl s) (tbl (step a s))"
  using writes [of a s] table_step_map [of "tbl s" "keep a" "rewrite a" used] row_moves by auto

end

sublocale row_rewrite \<subseteq> request_operation tbl step "\<lambda>_ _ _. True"
  by unfold_locales (rule rewrite_step)

text \<open>A snapshot an operation still works on: its id was in the table, and a row that has it is the same requester's.\<close>

definition snapshot_ok :: "id set \<Rightarrow> request list \<Rightarrow> request \<Rightarrow> bool" where
  "snapshot_ok used rs ar \<longleftrightarrow> 0 < req_duration ar \<and> req_id ar \<in> used \<and>
     (\<forall>q \<in> set rs. req_id q = req_id ar \<longrightarrow> req_requester q = req_requester ar)"

definition review_ok :: "id set \<Rightarrow> request list \<Rightarrow> review_args \<times> request \<Rightarrow> bool" where
  "review_ok used rs p \<longleftrightarrow> snapshot_ok used rs (snd p) \<and> rv_request (fst p) = req_id (snd p) \<and> rv_reviewer (fst p) \<noteq> req_requester (snd p)"

lemma snapshot_ok_step:
  assumes "table_step used rs rs'" and "snapshot_ok used rs ar"
  shows "snapshot_ok (used \<union> req_id ` set rs') rs' ar"
  using assms unfolding table_step_def
proof (elim disjE exE conjE)
  fix Q g
  assume "rs' = map g (filter Q rs)" and "\<forall>r \<in> set rs. Q r \<longrightarrow> row_move r (g r)"
  then show ?thesis using assms(2) by (auto simp: snapshot_ok_def row_move_def)
qed (auto simp: snapshot_ok_def new_row_def)

lemma review_ok_step: "table_step used rs rs' \<Longrightarrow> review_ok used rs p \<Longrightarrow> review_ok (used \<union> req_id ` set rs') rs' p"
  by (auto simp: review_ok_def intro: snapshot_ok_step)

lemma review_read_snapshot:
  assumes "table_ok used (requests d)" and "review_read x d = Inr ar"
  shows "review_ok used (requests d) (x, ar)"
proof -
  note R = review_read_ok [OF assms(2)]
  have m: "ar \<in> set (requests d)" using R find_request_SomeD by blast
  then have ok: "request_ok ar" using assms(1) by (simp add: table_ok_def)
  have "req_requester q = req_requester ar" if "q \<in> set (requests d)" "req_id q = req_id ar" for q
    using assms(1) m that by (metis distinct_map inj_onD table_ok_def)
  moreover have "req_id ar \<in> used" using assms(1) m by (auto simp: table_ok_def)
  ultimately show ?thesis using R ok
    by (auto simp: review_ok_def snapshot_ok_def is_approver_def request_ok_def)
qed

section \<open>The operations keep the contract\<close>

lemma submit_result:
  assumes "\<And>e. P (Inl e, d)" and "\<And>s u prin. submit_args_error x = None \<Longrightarrow> P (submit_pending io x s u prin d)"
    and "\<And>s u prin ev. submit_args_error x = None \<Longrightarrow> P (submit_approved io x s u prin ev d)"
  shows "P (submit io x d)"
  unfolding submit_def by (auto simp: assms split: option.split sum.split)

lemma approved_request_ok:
  assumes "submit_args_error x = None"
  shows "request_ok (approved_request io x prin ev)"
proof -
  have "0 < sa_duration x" using assms by (auto simp: submit_args_error_def split: if_splits)
  then show ?thesis by (simp add: request_ok_def approved_request_def new_request_def Let_def)
qed

lemma pending_request_ok:
  assumes "submit_args_error x = None" and "submit_pending io x s u prin d = (Inr r, d')"
  shows "request_ok r \<and> req_status r = PENDING \<and> req_id r = ou_newId io \<and> requests d' = requests d @ [r]"
proof -
  have t: "0 < sa_duration x" using assms(1) by (auto simp: submit_args_error_def split: if_splits)
  from submit_pending_ok [OF assms(2)] obtain as where as: "as = resolveApprovers d (sa_org x) (sa_requester x)
       (findApproverPolicy d (sa_org x) (sa_requester x) (sa_server x) (Some prin)) (Option.bind (usr_manager u) (find_user_id d))"
    "as \<noteq> []" and r: "r = (new_request io x prin PENDING)\<lparr>req_reviewer := Some (usr_id (hd as)), req_approvers := map usr_id as\<rparr>"
    and R: "requests d' = requests d @ [r]" by metis
  have "usr_id a \<noteq> sa_requester x" if "a \<in> set as" for a
    using resolveApprovers_eligible [of a] that as(1) by (auto simp: eligible_approver_def)
  then have "sa_requester x \<notin> usr_id ` set as" "usr_id (hd as) \<noteq> sa_requester x" using as(2) by (metis imageE, metis list.set_sel(1))
  then show ?thesis using t as(2) R by (simp add: r request_ok_def new_request_def)
qed

lemma approved_request_id [simp]: "req_id (approved_request io x prin ev) = ou_newId io" "req_status (approved_request io x prin ev) = APPROVED"
  by (simp_all add: approved_request_def new_request_def Let_def)

interpretation submitting: request_operation requests "\<lambda>(io :: outside, x) d. snd (submit io x d)" "\<lambda>(io, x) used rs. ou_newId io \<notin> used"
proof (unfold_locales, clarify)
  fix used and io :: outside and x and d :: db
  assume fresh: "ou_newId io \<notin> used"
  show "table_step used (requests d) (requests (snd (submit io x d)))"
  proof (rule submit_result)
    fix s u prin
    assume a: "submit_args_error x = None"
    obtain res d' where p: "submit_pending io x s u prin d = (res, d')" by force
    show "table_step used (requests d) (requests (snd (submit_pending io x s u prin d)))"
    proof (cases res)
      case (Inl e)
      then have "d' = d" using submit_pending_err [of io x s u prin d e d'] p by simp
      then show ?thesis by (simp add: p)
    next
      case (Inr r)
      then show ?thesis using pending_request_ok [OF a] p fresh by (auto intro: table_step_append simp: new_row_def)
    qed
  next
    fix s u prin ev
    assume "submit_args_error x = None"
    then have "new_row used (approved_request io x prin ev)" using fresh by (simp add: new_row_def approved_request_ok)
    then show "table_step used (requests d) (requests (snd (submit_approved io x s u prin ev d)))"
      by (simp add: submit_approved_frames table_step_append)
  qed simp
qed

lemma decided_row_move:
  assumes "review_ok used rs (x, ar)" and "r \<in> set rs" "undecided (rv_request x) r"
  shows "row_move r (decided_row io x ar d r)"
proof -
  have i: "req_id r = req_id ar" and p: "req_status r = PENDING" using assms(1,3) by (simp_all add: review_ok_def undecided_def)
  have q: "req_requester r = req_requester ar" using assms(1,2) i by (simp add: review_ok_def snapshot_ok_def)
  have "0 < review_duration d x ar" using assms(1) review_duration_pos by (simp add: review_ok_def snapshot_ok_def)
  moreover have "rv_reviewer x \<noteq> req_requester r" using assms(1) q by (simp add: review_ok_def)
  ultimately have "request_ok (decided_row io x ar d r)" if "request_ok r"
    using that p by (auto simp: request_ok_def decided_row_def approve_row_def deny_row_def)
  then show ?thesis using p by (auto simp: row_move_def status_move_def)
qed

interpretation reviewing: request_operation requests "\<lambda>(io :: outside, x, ar) d. snd (review_decide io x ar d)" "\<lambda>(io, x, ar) used rs. review_ok used rs (x, ar)"
proof (unfold_locales, clarify)
  fix used and io :: outside and x ar and d :: db
  assume ok: "review_ok used (requests d) (x, ar)"
  show "table_step used (requests d) (requests (snd (review_decide io x ar d)))"
  proof (cases rule: review_decide_cases [of d x io ar])
    case (won r d')
    have "table_step used (requests d) (update_where (undecided (rv_request x)) (decided_row io x ar d) (requests d))"
      using decided_row_move [OF ok] by (rule table_step_update)
    then show ?thesis using won by simp
  qed simp
qed

lemma row_move_end [simp]: "row_move r (revoke_row now reason r)" "row_move r (expire_row r)"
  "row_move r (r\<lparr>req_certificate := c\<rparr>)"
  by (auto simp: row_move_def status_move_def request_ok_def revoke_row_def expire_row_def split: request_status.splits option.splits)

lemma generate_requests:
  "requests (snd (generateSshCredentials sg keys newId now x d)) = requests d \<or>
   requests (snd (generateSshCredentials sg keys newId now x d)) =
     update_where (\<lambda>r. req_id r = ca_request x) (\<lambda>r. r\<lparr>req_certificate := Some newId\<rparr>) (requests d)"
proof (cases "generateSshCredentials sg keys newId now x d")
  case (Pair res d')
  then show ?thesis
  proof (cases res)
    case (Inr c)
    then show ?thesis using generateSshCredentials_tables(1) Pair by simp
  next
    case (Inl e)
    then have "d' = d" using Pair
      by (auto simp: generateSshCredentials_def Let_def split: sum.splits option.splits if_splits prod.splits)
    then show ?thesis using Pair by simp
  qed
qed

text \<open>Rewriting one row, by its id.\<close>

definition at_id :: "id \<Rightarrow> (request \<Rightarrow> request) \<Rightarrow> request \<Rightarrow> request" where
  "at_id i f r = (if req_id r = i then f r else r)"

lemma update_by_id: "update_where (\<lambda>r. req_id r = i) f rs = map (at_id i f) (filter (\<lambda>_. True) rs)"
  by (simp add: update_where_def at_id_def)

lemma row_move_at_id: "(\<And>r. row_move r (f r)) \<Longrightarrow> row_move r (at_id i f r)"
  by (simp add: at_id_def)

interpretation issuing: row_rewrite requests "\<lambda>(sg, keys, newId, now, x) d. snd (generateSshCredentials sg keys newId now x d)"
  "\<lambda>_ _. True" "\<lambda>(sg :: signer, keys :: (string \<times> string) res, newId :: id, now :: int, x). at_id (ca_request x) (\<lambda>r. r\<lparr>req_certificate := Some newId\<rparr>)"
proof (unfold_locales, goal_cases)
  case (1 a s)
  then show ?case using generate_requests by (cases a) (auto simp: update_by_id)
next
  case (2 a r)
  then show ?case by (cases a) (simp add: row_move_at_id)
qed

lemma revoke_apply_requests:
  "requests (w_db (snd (revoke_apply io fl lf x ar w))) =
     update_where (\<lambda>q. req_id q = rk_request x) (revoke_row (ou_now io) (rk_reason x)) (requests (w_db w))"
proof -
  define w1 where "w1 = on_db (\<lambda>d. revoke_linked (ou_now io) (req_certificate ar) (Some (rk_caller x))
        (update_request (rk_request x) (revoke_row (ou_now io) (rk_reason x)) d)) w"
  define w2 where "w2 = snd (endSessionsForRequest (ou_now io) fl lf (req_org ar) (rk_request x) (Some (rk_caller x)) w1)"
  obtain y d3 where t: "tell_requester io ar ACCESS_REQUEST_REVOKED ''Your access has been revoked'' (\<lambda>s. revoke_body s (rk_reason x))
      [(''accessRequestId'', JStr (rk_request x)), (''revokedBy'', JStr (rk_caller x)), (''reason'', json_opt (rk_reason x))] (w_db w2)
      = (y, d3)" by force
  have "requests d3 = requests (w_db w2)" using tell_requester_frames(1) t by (metis snd_conv)
  moreover have "requests (w_db w2) = requests (w_db w1)" unfolding w2_def using session_only_frames(1) [OF endSessionsForRequest_frames(1)] by simp
  ultimately show ?thesis unfolding revoke_apply_def Let_def w1_def [symmetric] w2_def [symmetric] t by (cases y) (simp_all add: w1_def on_db_def)
qed

interpretation revoking: row_rewrite "\<lambda>w. requests (w_db w)" "\<lambda>(io, fl, lf, x, ar) w. snd (revoke_apply io fl lf x ar w)"
  "\<lambda>_ _. True" "\<lambda>(io :: outside, fl :: faults, lf :: bool, x, ar :: request). at_id (rk_request x) (revoke_row (ou_now io) (rk_reason x))"
  by unfold_locales (auto simp: revoke_apply_requests update_by_id row_move_at_id)

lemma expire_one_requests:
  "requests (w_db (snd (expire_one io uf fl lf ar w))) =
     (if uf (req_id ar) then requests (w_db w) else update_where (\<lambda>q. req_id q = req_id ar) expire_row (requests (w_db w)))"
proof -
  define w1 where "w1 = on_db (\<lambda>d. revoke_linked (ou_now io) (req_certificate ar) None (update_request (req_id ar) expire_row d)) w"
  define w2 where "w2 = snd (endSessionsForRequest (ou_now io) fl lf (req_org ar) (req_id ar) None w1)"
  obtain y d3 where t: "tell_requester io ar ACCESS_REQUEST_EXPIRED ''Your access has expired''
      (\<lambda>s. ''Your access to '' @ s @ '' has expired.'') [(''accessRequestId'', JStr (req_id ar))] (w_db w2) = (y, d3)" by force
  have "requests d3 = requests (w_db w2)" using tell_requester_frames(1) t by (metis snd_conv)
  moreover have "requests (w_db w2) = requests (w_db w1)" unfolding w2_def using session_only_frames(1) [OF endSessionsForRequest_frames(1)] by simp
  ultimately show ?thesis unfolding expire_one_def Let_def w1_def [symmetric] w2_def [symmetric] t by (cases y) (simp_all add: w1_def on_db_def)
qed

interpretation expiring: row_rewrite "\<lambda>w. requests (w_db w)" "\<lambda>(io, uf, fl, lf, ar) w. snd (expire_one io uf fl lf ar w)"
  "\<lambda>_ _. True" "\<lambda>(io :: outside, uf :: id \<Rightarrow> bool, fl :: faults, lf :: bool, ar). at_id (req_id ar) expire_row"
  by unfold_locales (auto simp: expire_one_requests update_by_id row_move_at_id)

interpretation expiring_pending: row_rewrite requests "\<lambda>(io, uf, ar) d. snd (expire_pending_one io uf ar d)"
  "\<lambda>_ _. True" "\<lambda>(io :: outside, uf :: id \<Rightarrow> bool, ar). at_id (req_id ar) expire_row"
proof (unfold_locales, goal_cases)
  case (1 a s)
  obtain io uf ar where a: "a = (io, uf, ar)" by (cases a)
  show ?case
    using expire_pending_requests [where uf = uf and ar = ar and io = io and d = s]
    by (cases "uf (req_id ar)") (simp_all add: a expire_pending_one_def update_by_id)
next
  case (2 a r)
  then show ?case by (cases a) (simp add: row_move_at_id)
qed

lemma bg_grant_requests:
  "requests (bs_db (snd (bg_grant isoString io x c u s p st))) = requests (bs_db st) @ [bg_request io x c s p]"
  by (simp add: bg_grant_def Let_def)

interpretation granting: request_operation "\<lambda>st. requests (bs_db st)"
  "\<lambda>(isoString, io, x, c, u, s, p) st. snd (bg_grant isoString io x c u s p st)"
  "\<lambda>(isoString :: int \<Rightarrow> string, io, x :: bv_args, c :: challenge, u :: user, s :: server, p :: policy) used rs. ou_newId io \<notin> used"
proof (unfold_locales, clarify)
  fix used and isoString :: "int \<Rightarrow> string" and io :: outside and x :: bv_args and c :: challenge and u :: user and s :: server and p :: policy and st :: bg_state
  assume "ou_newId io \<notin> used"
  moreover have "0 < bg_ttl (ch_ttl c) (pol_maxDuration p)" by (simp add: bg_ttl_def)
  ultimately have "new_row used (bg_request io x c s p)"
    by (simp add: new_row_def request_ok_def bg_request_def Let_def)
  then show "table_step used (requests (bs_db st)) (requests (bs_db (snd (bg_grant isoString io x c u s p st))))"
    by (simp add: bg_grant_requests table_step_append)
qed

text \<open>Cutting an account off, and what goes with the rows of accounts, servers and customers.\<close>

definition cut_row :: "int \<Rightarrow> id \<Rightarrow> id \<Rightarrow> string \<Rightarrow> request \<Rightarrow> request" where
  "cut_row now oid uid reason r =
     (if standing_request oid uid r then r\<lparr>req_status := REVOKED, req_revokedAt := Some now, req_revokedReason := Some reason\<rparr> else r)"

lemma cut_requests:
  "requests (w_db (snd (revokeAllAccessFor now fl lf oid uid reason sr b w))) = map (cut_row now oid uid reason) (filter (\<lambda>_. True) (requests (w_db w)))"
proof -
  have "requests (w_db (revokeAllSessions now fl lf uid oid sr v)) = requests (w_db v)" for v
    using session_only_frames(1) [OF revokeAllSessions_only [of now uid v fl lf oid sr]] by simp
  moreover have "requests (snd (revokeAllTokens now oid uid reason b d)) = requests d" for d
    by (simp add: revokeAllTokens_def Let_def)
  ultimately show ?thesis
    by (simp add: revokeAllAccessFor_def case_prod_beta cut_rows_def update_where_def cut_row_def)
qed

interpretation cutting: row_rewrite "\<lambda>w. requests (w_db w)" "\<lambda>(now, fl, lf, oid, uid, reason, sr, b) w. snd (revokeAllAccessFor now fl lf oid uid reason sr b w)"
  "\<lambda>_ _. True" "\<lambda>(now :: int, fl :: faults, lf :: bool, oid, uid, reason, sr :: string, b :: id option). cut_row now oid uid reason"
proof (unfold_locales, goal_cases)
  case (1 a w)
  show ?case by (simp add: cut_requests split: prod.split)
next
  case (2 a r)
  have "row_move r (cut_row now oid uid reason r)" for now oid uid reason
    by (auto simp: cut_row_def row_move_def status_move_def request_ok_def split: request_status.splits option.splits)
  then show ?case by (simp split: prod.split)
qed

interpretation losing_user: row_rewrite requests "\<lambda>uid d. delete_user_row uid d" "\<lambda>uid r. req_requester r \<noteq> uid"
  "\<lambda>uid r. r\<lparr>req_reviewer := forget uid (req_reviewer r), req_approvers := filter (\<lambda>a. a \<noteq> uid) (req_approvers r)\<rparr>"
proof (unfold_locales, goal_cases)
  case (1 uid d)
  then show ?case by (simp add: delete_user_row_def Let_def)
next
  case (2 uid r)
  then show ?case by (auto simp: row_move_def status_move_def request_ok_def forget_def split: request_status.splits option.splits)
qed

interpretation losing_server: row_rewrite requests "\<lambda>sid d. delete_server_row sid d" "\<lambda>sid r. req_server r \<noteq> sid" "\<lambda>_ r. r"
  by unfold_locales (simp_all add: delete_server_row_def Let_def)

interpretation losing_customer: request_operation requests delete_customer_row "\<lambda>_ _ _. True"
  by unfold_locales (simp add: delete_customer_row_def Let_def table_step_filter)

section \<open>The machine\<close>

text \<open>
  The system with the operations under way: reviews, revocations and break-glass grants that
  have read and checked but not written, and what is left of the lists of the two expiry jobs.
  \<open>mc_used\<close> are the ids the table of requests ever had.
\<close>

record machine =
  mc_world :: world
  mc_redis :: "challenge redis"
  mc_used :: "id set"
  mc_reviews :: "(review_args \<times> request) list"
  mc_revokes :: "(revoke_args \<times> request) list"
  mc_due :: "request list"
  mc_stale :: "request list"
  mc_grants :: "(bv_args \<times> challenge \<times> user \<times> server \<times> policy) list"

definition mc_db :: "machine \<Rightarrow> db" where
  "mc_db m = w_db (mc_world m)"

definition put_world :: "world \<Rightarrow> machine \<Rightarrow> machine" where
  "put_world w m = m\<lparr>mc_world := w, mc_used := mc_used m \<union> req_id ` set (requests (w_db w))\<rparr>"

definition with_db :: "db \<Rightarrow> machine \<Rightarrow> machine" where
  "with_db d m = put_world ((mc_world m)\<lparr>w_db := d\<rparr>) m"

definition with_bg :: "bg_state \<Rightarrow> machine \<Rightarrow> machine" where
  "with_bg st m = (with_db (bs_db st) m)\<lparr>mc_redis := bs_redis st\<rparr>"

definition mc_bg :: "machine \<Rightarrow> bg_state" where
  "mc_bg m = \<lparr>bs_db = mc_db m, bs_redis = mc_redis m\<rparr>"

text \<open>
  New rows get ids that were never used (they are drawn at random). The database refuses an update
  of a row that is gone, and a row that names an account or a server that is gone: such a write
  fails and changes no request. The last rule is everything that leaves the table of requests alone;
  the operations on accounts, servers and customers that do not are shown below to be runs of this relation.
\<close>

inductive access_step :: "machine \<Rightarrow> machine \<Rightarrow> bool" where
  submits: "ou_newId io \<notin> mc_used m \<Longrightarrow> access_step m (with_db (snd (submit io x (mc_db m))) m)"
| review_reads: "review_read x (mc_db m) = Inr ar \<Longrightarrow> access_step m (m\<lparr>mc_reviews := (x, ar) # mc_reviews m\<rparr>)"
| review_writes: "(x, ar) \<in> set (mc_reviews m) \<Longrightarrow> find_user_id (mc_db m) (rv_reviewer x) \<noteq> None \<Longrightarrow>
     access_step m (with_db (snd (review_decide io x ar (mc_db m))) m)"
| issues: "access_step m (with_db (snd (generateSshCredentials sg keys newId now x (mc_db m))) m)"
| revoke_reads: "revoke_read x (mc_db m) = Inr ar \<Longrightarrow> access_step m (m\<lparr>mc_revokes := (x, ar) # mc_revokes m\<rparr>)"
| revoke_writes: "(x, ar) \<in> set (mc_revokes m) \<Longrightarrow> find_request (mc_db m) (rk_request x) \<noteq> None \<Longrightarrow>
     access_step m (put_world (snd (revoke_apply io fl lf x ar (mc_world m))) m)"
| due_reads: "access_step m (m\<lparr>mc_due := due_requests now (mc_db m)\<rparr>)"
| due_writes: "mc_due m = ar # ars \<Longrightarrow> find_request (mc_db m) (req_id ar) = None \<longrightarrow> uf (req_id ar) \<Longrightarrow>
     access_step m ((put_world (snd (expire_one io uf fl lf ar (mc_world m))) m)\<lparr>mc_due := ars\<rparr>)"
| stale_reads: "access_step m (m\<lparr>mc_stale := stale_requests now (mc_db m)\<rparr>)"
| stale_writes: "mc_stale m = ar # ars \<Longrightarrow> find_request (mc_db m) (req_id ar) = None \<longrightarrow> uf (req_id ar) \<Longrightarrow>
     access_step m ((with_db (snd (expire_pending_one io uf ar (mc_db m))) m)\<lparr>mc_stale := ars\<rparr>)"
| glass_starts: "access_step m (with_bg (snd (startBreakGlass isoString e so cid b (mc_bg m))) m)"
| glass_refuses: "bg_check isoString rd now x (mc_bg m) = (Inl er, st) \<Longrightarrow> access_step m (with_bg st m)"
| glass_checks: "bg_check isoString rd now x (mc_bg m) = (Inr q, st) \<Longrightarrow>
     access_step m (m\<lparr>mc_grants := (x, q) # mc_grants m\<rparr>)"
| glass_fails: "(x, c, u, s, p) \<in> set (mc_grants m) \<Longrightarrow> verifyFactor e now u (ch_method c) (bv_code x) (mc_db m) = (False, d) \<Longrightarrow>
     access_step m (with_bg (snd (bg_wrong_code now x c s ((mc_bg m)\<lparr>bs_db := d\<rparr>))) m)"
| glass_grants: "(x, c, u, s, p) \<in> set (mc_grants m) \<Longrightarrow> verifyFactor e now u (ch_method c) (bv_code x) (mc_db m) = (True, d) \<Longrightarrow>
     ou_newId io \<notin> mc_used m \<Longrightarrow> find_user_id d (bv_invoker x) \<noteq> None \<Longrightarrow> \<exists>v \<in> set (servers d). srv_id v = ch_server c \<Longrightarrow>
     access_step m (with_bg (snd (bg_grant isoString io x c u s p ((mc_bg m)\<lparr>bs_db := d\<rparr>))) m)"
| cuts: "access_step m (put_world (snd (revokeAllAccessFor now fl lf oid uid reason sr b (mc_world m))) m)"
| loses_user: "access_step m (with_db (delete_user_row uid (mc_db m)) m)"
| loses_server: "access_step m (with_db (delete_server_row sid (mc_db m)) m)"
| loses_customer: "access_step m (with_db (delete_customer_row cid (mc_db m)) m)"
| others: "requests (w_db w) = requests (mc_db m) \<Longrightarrow> access_step m ((put_world w m)\<lparr>mc_redis := rs\<rparr>)"

inductive_cases access_stepE: "access_step m m'"

definition machine_start :: "machine \<Rightarrow> bool" where
  "machine_start m \<longleftrightarrow> requests (mc_db m) = [] \<and> mc_reviews m = []"

inductive access_reachable :: "machine \<Rightarrow> bool" where
  start: "machine_start m \<Longrightarrow> access_reachable m"
| step: "access_reachable m \<Longrightarrow> access_step m m' \<Longrightarrow> access_reachable m'"

section \<open>The invariant\<close>

definition machine_ok :: "machine \<Rightarrow> bool" where
  "machine_ok m \<longleftrightarrow> table_ok (mc_used m) (requests (mc_db m)) \<and> (\<forall>p \<in> set (mc_reviews m). review_ok (mc_used m) (requests (mc_db m)) p)"

text \<open>The phases of the requests.\<close>

definition phases :: "machine \<Rightarrow> id \<Rightarrow> phase" where
  "phases m = phase_of (mc_used m) (requests (mc_db m))"

lemma machine_frames [simp]:
  "mc_db (put_world w m) = w_db w" "mc_reviews (put_world w m) = mc_reviews m"
  "mc_used (put_world w m) = mc_used m \<union> req_id ` set (requests (w_db w))" "mc_world (put_world w m) = w"
  "mc_db (with_db d m) = d" "mc_reviews (with_db d m) = mc_reviews m" "mc_used (with_db d m) = mc_used m \<union> req_id ` set (requests d)"
  "mc_db (with_bg st m) = bs_db st" "mc_reviews (with_bg st m) = mc_reviews m"
  "mc_used (with_bg st m) = mc_used m \<union> req_id ` set (requests (bs_db st))"
  "mc_db (m\<lparr>mc_reviews := rv\<rparr>) = mc_db m" "mc_db (m\<lparr>mc_revokes := rk\<rparr>) = mc_db m"
  "mc_db (m\<lparr>mc_due := du\<rparr>) = mc_db m" "mc_db (m\<lparr>mc_stale := du\<rparr>) = mc_db m" "mc_db (m\<lparr>mc_grants := g\<rparr>) = mc_db m"
  "mc_db (m\<lparr>mc_redis := rs\<rparr>) = mc_db m" "bs_db (mc_bg m) = mc_db m"
  by (simp_all add: mc_db_def put_world_def with_db_def with_bg_def mc_bg_def)

lemma startBreakGlass_requests: "requests (bs_db (snd (startBreakGlass isoString e so cid b st))) = requests (bs_db st)"
proof -
  have d: "requests (snd (dispatchEmailOtp e so u d)) = requests d" for u d
    by (auto simp: dispatchEmailOtp_def drop_otp_def Let_def)
  have "requests (snd (fst (sendEmailOtp e so u (Some cid) rs d))) = requests d" for u d and rs :: "challenge redis"
    using d [of u d] by (auto simp: sendEmailOtp_def split: prod.split sum.split)
  then have s: "sendEmailOtp e so u (Some cid) (rs :: challenge redis) d = ((r, d'), rs') \<Longrightarrow> requests d' = requests d" for u d d' r rs rs'
    by (metis fst_conv snd_conv)
  show ?thesis
    by (auto simp: startBreakGlass_def Let_def split: sum.splits prod.splits if_splits dest: s)
qed

lemma bg_wrong_code_requests: "requests (bs_db (snd (bg_wrong_code now x c s st))) = requests (bs_db st)"
  by (auto simp: bg_wrong_code_def Let_def bg_failed_def split: prod.split)

text \<open>What a step does to the table of requests, and that the ids of the new table count as used.\<close>

lemma access_step_table:
  assumes "access_step m m'" and "machine_ok m"
  shows "table_step (mc_used m) (requests (mc_db m)) (requests (mc_db m')) \<and> mc_used m' = mc_used m \<union> req_id ` set (requests (mc_db m'))"
proof -
  have ok: "table_ok (mc_used m) (requests (mc_db m))" and u: "mc_used m = mc_used m \<union> req_id ` set (requests (mc_db m))"
    using assms(2) by (auto simp: machine_ok_def table_ok_def)
  from assms(1) show ?thesis
  proof (cases rule: access_step.cases)
    case (submits io x)
    then show ?thesis using submitting.moves [OF ok, of "(io, x)"] by simp
  next
    case (review_writes x ar io)
    then show ?thesis using reviewing.moves [OF ok, of "(io, x, ar)"] assms(2) by (simp add: machine_ok_def)
  next
    case (issues sg keys newId now x)
    then show ?thesis using issuing.rewrite_step [of "mc_used m" "mc_db m" "(sg, keys, newId, now, x)"] by simp
  next
    case (revoke_writes x ar io fl lf)
    then show ?thesis using revoking.rewrite_step [of "mc_used m" "mc_world m" "(io, fl, lf, x, ar)"] by (simp add: mc_db_def)
  next
    case (due_writes ar ars uf io fl lf)
    then show ?thesis using expiring.rewrite_step [of "mc_used m" "mc_world m" "(io, uf, fl, lf, ar)"] by (simp add: mc_db_def)
  next
    case (stale_writes ar ars uf io)
    then show ?thesis using expiring_pending.rewrite_step [of "mc_used m" "mc_db m" "(io, uf, ar)"] by simp
  next
    case (glass_grants x c u s p e now d io isoString)
    have "requests d = requests (mc_db m)" using verifyFactor_frames(1) glass_grants(3) by (metis snd_conv)
    then show ?thesis
      using granting.moves [of "mc_used m" "(mc_bg m)\<lparr>bs_db := d\<rparr>" "(isoString, io, x, c, u, s, p)"] glass_grants ok by simp
  next
    case (glass_fails x c u s p e now d)
    have "requests d = requests (mc_db m)" using verifyFactor_frames(1) glass_fails(3) by (metis snd_conv)
    then show ?thesis using glass_fails by (simp add: bg_wrong_code_requests)
  next
    case (glass_refuses isoString rd now x er st)
    then show ?thesis using bg_check_refused(2) [OF glass_refuses(2)] by simp
  next
    case (cuts now fl lf oid uid reason sr b)
    then show ?thesis using cutting.rewrite_step [of "mc_used m" "mc_world m" "(now, fl, lf, oid, uid, reason, sr, b)"] by (simp add: mc_db_def)
  next
    case (loses_user uid)
    then show ?thesis using losing_user.rewrite_step [of "mc_used m" "mc_db m" uid] by simp
  next
    case (loses_server sid)
    then show ?thesis using losing_server.rewrite_step [of "mc_used m" "mc_db m" sid] by simp
  next
    case (loses_customer cid)
    then show ?thesis using losing_customer.moves [OF ok, of cid] by simp
  qed (use u in \<open>simp_all add: startBreakGlass_requests\<close>)
qed

lemma access_step_reviews:
  assumes "access_step m m'" and "machine_ok m" and "p \<in> set (mc_reviews m')"
  shows "p \<in> set (mc_reviews m) \<or> review_ok (mc_used m') (requests (mc_db m')) p"
  using assms by (cases rule: access_step.cases) (auto simp: machine_ok_def review_read_snapshot)

lemma access_step_ok: "access_step m m' \<Longrightarrow> machine_ok m \<Longrightarrow> machine_ok m'"
  using access_step_table [of m m'] access_step_reviews [of m m'] review_ok_step table_step_ok
  unfolding machine_ok_def by metis

lemma reachable_ok: "access_reachable m \<Longrightarrow> machine_ok m"
proof (induction rule: access_reachable.induct)
  case (start m)
  then show ?case by (simp add: machine_start_def machine_ok_def table_ok_def)
next
  case (step m m')
  then show ?case by (blast intro: access_step_ok)
qed

lemma step_refines: "access_step m m' \<Longrightarrow> machine_ok m \<Longrightarrow> lifecycle_step (phases m) (phases m')"
  using access_step_table [of m m'] table_step_refines [of "mc_used m" "requests (mc_db m)" "requests (mc_db m')"]
  by (simp add: phases_def machine_ok_def)

lemma steps_refine:
  assumes "access_step\<^sup>*\<^sup>* m m'" and "machine_ok m"
  shows "machine_ok m' \<and> lifecycle_step\<^sup>*\<^sup>* (phases m) (phases m')"
  using assms
proof (induction rule: rtranclp_induct)
  case (step m1 m2)
  then have ok: "machine_ok m1" by blast
  with step show ?case by (blast intro: access_step_ok step_refines rtranclp.rtrancl_into_rtrancl)
qed simp

section \<open>Deletions and edits of accounts, servers and customers are runs\<close>

lemma put_world_twice [simp]: "put_world w' (put_world w m) = (put_world w' m)\<lparr>mc_used := mc_used m \<union> req_id ` set (requests (w_db w)) \<union> req_id ` set (requests (w_db w'))\<rparr>"
  by (simp add: put_world_def)

text \<open>The machine after a world that came about by several writes; their ids were all in the table before.\<close>

definition runs_to :: "machine \<Rightarrow> world \<Rightarrow> bool" where
  "runs_to m w \<longleftrightarrow> (\<exists>m'. access_step\<^sup>*\<^sup>* m m' \<and> mc_world m' = w)"

lemma runs_here: "runs_to m (mc_world m)"
  by (auto simp: runs_to_def)

lemma runs_step:
  assumes "runs_to m w" and "\<And>m1. mc_world m1 = w \<Longrightarrow> \<exists>m2. access_step m1 m2 \<and> mc_world m2 = w'"
  shows "runs_to m w'"
proof -
  from assms(1) obtain m1 where m1: "access_step\<^sup>*\<^sup>* m m1" "mc_world m1 = w" by (auto simp: runs_to_def)
  from assms(2) [OF m1(2)] obtain m2 where m2: "access_step m1 m2" "mc_world m2 = w'" by blast
  have "access_step\<^sup>*\<^sup>* m m2" using m1(1) m2(1) by (rule rtranclp.rtrancl_into_rtrancl)
  with m2(2) show ?thesis by (auto simp: runs_to_def)
qed

lemma runs_quiet: "runs_to m w \<Longrightarrow> requests (w_db w') = requests (w_db w) \<Longrightarrow> runs_to m w'"
  by (erule runs_step) (auto simp: mc_db_def intro!: exI [of _ "(put_world w' _)\<lparr>mc_redis := _\<rparr>"] others)

lemma runs_cut: "runs_to m w \<Longrightarrow> runs_to m (snd (revokeAllAccessFor now fl lf oid uid reason sr b w))"
  by (erule runs_step) (metis cuts machine_frames(4))

lemma runs_lose:
  "runs_to m w \<Longrightarrow> runs_to m (w\<lparr>w_db := delete_user_row uid (w_db w)\<rparr>)"
  "runs_to m w \<Longrightarrow> runs_to m (w\<lparr>w_db := delete_server_row sid (w_db w)\<rparr>)"
  "runs_to m w \<Longrightarrow> runs_to m (w\<lparr>w_db := delete_customer_row cid (w_db w)\<rparr>)"
  by (erule runs_step, metis loses_user loses_server loses_customer machine_frames(4) mc_db_def with_db_def)+

lemma runs_deleteUser: "runs_to m (snd (deleteUser now fl lf oid uid target caller a (mc_world m)))"
proof (cases "delete_guard (mc_db m) oid uid target a")
  case (Inl e)
  then show ?thesis by (simp add: deleteUser_def mc_db_def runs_here)
next
  case (Inr z)
  define w1 where "w1 = snd (terminateActiveSessionsFor now fl oid (\<lambda>r. ses_user r = uid) caller (mc_world m))"
  define w2 where "w2 = snd (revokeAllAccessFor now fl lf oid uid ''User deleted'' ''account_deleted'' caller w1)"
  define w3 where "w3 = w2\<lparr>w_db := drop_vault oid uid (snd (cleanupPolicySubjects USER uid (reassign_reports oid uid target (w_db w2))))\<rparr>"
  have "session_only (mc_db m) (w_db w1)"
    unfolding w1_def terminateActiveSessionsFor_def mc_db_def using session_only_terminate_all [of "(0, mc_world m)"] by simp
  then have "runs_to m w1" by (intro runs_quiet [OF runs_here]) (simp add: session_only_frames(1) mc_db_def)
  then have "runs_to m w2" unfolding w2_def by (rule runs_cut)
  then have "runs_to m w3"
    by (rule runs_quiet) (simp add: w3_def drop_vault_def cleanupPolicySubjects_def reassign_reports_def Let_def)
  then have "runs_to m (w3\<lparr>w_db := delete_user_row uid (w_db w3)\<rparr>)" by (rule runs_lose(1))
  then show ?thesis using Inr by (simp add: deleteUser_def mc_db_def Let_def w1_def [symmetric] w2_def [symmetric] w3_def)
qed

lemma runs_deleteServer: "runs_to m (snd (deleteServer now fl oid sid caller sc (mc_world m)))"
proof (cases "scoped_server (mc_db m) sid oid sc")
  case None
  then show ?thesis by (simp add: deleteServer_def mc_db_def runs_here)
next
  case (Some s)
  define w1 where "w1 = snd (terminateActiveSessionsFor now fl oid (\<lambda>r. ses_server r = Some sid) caller (mc_world m))"
  have "session_only (mc_db m) (w_db w1)"
    unfolding w1_def terminateActiveSessionsFor_def mc_db_def using session_only_terminate_all [of "(0, mc_world m)"] by simp
  then have "runs_to m w1" by (intro runs_quiet [OF runs_here]) (simp add: session_only_frames(1) mc_db_def)
  from runs_lose(2) [OF this] Some show ?thesis by (simp add: deleteServer_def mc_db_def Let_def w1_def [symmetric])
qed

lemma runs_deleteCustomer: "runs_to m ((mc_world m)\<lparr>w_db := snd (deleteCustomer oid cid x sc (mc_db m))\<rparr>)"
proof -
  have s: "requests (snd (settle_servers oid cid x sc d)) = requests d" for d
    by (auto simp: settle_servers_def split: strategy.split)
  have p: "requests (snd (settle_policies oid cid x sc d)) = requests d" for d
    by (auto simp: settle_policies_def Let_def split: strategy.split)
  have w: "runs_to m ((mc_world m)\<lparr>w_db := d\<rparr>)" if "requests d = requests (mc_db m)" for d
    by (rule runs_quiet [OF runs_here]) (simp add: that mc_db_def)
  obtain r1 d1 where d1: "settle_servers oid cid x sc (mc_db m) = (r1, d1)" by force
  obtain r2 d2 where d2: "settle_policies oid cid x sc d1 = (r2, d2)" by force
  have q: "requests d1 = requests (mc_db m)" "requests d2 = requests (mc_db m)"
    using s [of "mc_db m"] p [of d1] d1 d2 by simp_all
  show ?thesis
  proof (cases "find_customer (mc_db m) cid oid sc")
    case None
    then show ?thesis using w [of "mc_db m"] by (simp add: deleteCustomer_def)
  next
    case (Some c)
    then show ?thesis using w [OF q(1)] w [OF q(2)] runs_lose(3) [OF w [OF q(2)], of cid]
      by (cases r1; cases r2) (simp_all add: deleteCustomer_def d1 d2)
  qed
qed

lemma runs_updateUser: "runs_to m (snd (updateUser hash now fl lf oid uid x a ua (mc_world m)))"
proof -
  have quiet: "requests (w_db (revokeAllSessions now fl lf uid oid sr v)) = requests (w_db v)" for sr v
    using session_only_frames(1) [OF revokeAllSessions_only [of now uid v fl lf oid sr]] by simp
  have follow: "runs_to m (edit_follow_up now fl lf oid uid p a w)" if "runs_to m w" for p w
    using that runs_cut [OF that] runs_quiet [OF that quiet] by (auto simp: edit_follow_up_def split: option.split)
  have g: "requests (snd (applyGroupMembership oid uid gids a ua d)) = requests d" for gids d
    by (simp add: applyGroupMembership_def groups_audit_def Let_def auditLog_def add_audit_def split: sum.split)
  define r where "r = (case ue_groups x of None \<Rightarrow> (Inr [], mc_db m) | Some gids \<Rightarrow> applyGroupMembership oid uid gids a ua (mc_db m))"
  have r: "requests (snd r) = requests (mc_db m)" by (simp add: r_def g split: option.split)
  have w: "runs_to m ((mc_world m)\<lparr>w_db := d\<rparr>)" if "requests d = requests (mc_db m)" for d
    by (rule runs_quiet [OF runs_here]) (simp add: that mc_db_def)
  obtain y d1 where y: "r = (y, d1)" by force
  have d1: "requests d1 = requests (mc_db m)" using r y by simp
  show ?thesis
  proof (cases "find_user (mc_db m) uid oid")
    case None
    then show ?thesis by (simp add: updateUser_def mc_db_def runs_here)
  next
    case (Some u)
    show ?thesis
    proof (cases "user_patch_of hash (mc_db m) oid u x a")
      case (Inl er)
      with Some show ?thesis by (simp add: updateUser_def mc_db_def runs_here)
    next
      case (Inr p)
      define d3 where "d3 = (if a \<noteq> None \<and> edit_changes (mc_db m) u p \<noteq> []
          then auditLog oid (actor_id a) (edit_action p) ''User'' (Some uid) (Some (JObj [(''changes'', JObj (edit_changes (mc_db m) u p))])) ua
            (update_user_row uid (apply_patch p) d1)
          else update_user_row uid (apply_patch p) d1)"
      have d3: "requests d3 = requests (mc_db m)" using d1 by (simp add: d3_def auditLog_def add_audit_def update_user_row_def)
      have run: "snd (updateUser hash now fl lf oid uid x a ua (mc_world m)) \<in>
          {(mc_world m)\<lparr>w_db := d1\<rparr>, edit_follow_up now fl lf oid uid p a ((mc_world m)\<lparr>w_db := d3\<rparr>)}"
        using Some Inr unfolding updateUser_def mc_db_def [symmetric] Let_def
        by (simp add: r_def [symmetric] y d3_def split: sum.split) auto
      then show ?thesis using w [OF d1] follow [OF w [OF d3]] by auto
    qed
  qed
qed

lemma runs_softDeleteSelf: "runs_to m (snd (softDeleteSelf now fl lf oid uid (mc_world m)))"
proof -
  let ?w1 = "snd (revokeAllAccessFor now fl lf oid uid ''User deleted account'' ''account_deleted'' None (mc_world m))"
  have "runs_to m (?w1\<lparr>w_db := update_user_row uid h ((w_db ?w1)\<lparr>refreshTokens := ts\<rparr>)\<rparr>)" for h ts
    by (rule runs_quiet [OF runs_cut [OF runs_here]]) (simp add: update_user_row_def)
  then show ?thesis using runs_here [of m] by (auto simp: softDeleteSelf_def Let_def split: option.split)
qed

lemma runs_removeServiceAccount: "runs_to m ((mc_world m)\<lparr>w_db := snd (removeServiceAccount oid i a (mc_db m))\<rparr>)"
proof -
  have w: "runs_to m ((mc_world m)\<lparr>w_db := auditLog o1 o2 o3 o4 o5 o6 o7 (mc_db m)\<rparr>)" for o1 o2 o3 o4 o5 o6 o7
    by (rule runs_quiet [OF runs_here]) (simp add: auditLog_def add_audit_def mc_db_def)
  have e: "(mc_world m)\<lparr>w_db := mc_db m\<rparr> = mc_world m" by (simp add: mc_db_def)
  show ?thesis using runs_here [of m] runs_lose(1) [OF w, of i] e
    by (auto simp: removeServiceAccount_def split: option.split sum.split)
qed

section \<open>The properties\<close>

text \<open>A run of the sample: an admin asks for the production server, the super admin reads the
  request and approves it.\<close>

definition quiet :: "db \<Rightarrow> machine" where
  "quiet d = \<lparr>mc_world = (access_world d)\<lparr>w_db := d\<rparr>, mc_redis = \<lparr>rd_num = [], rd_obj = []\<rparr>, mc_used = {}, mc_reviews = [],
     mc_revokes = [], mc_due = [], mc_stale = [], mc_grants = []\<rparr>"

lemma mc_db_quiet [simp]: "mc_db (quiet d) = d"
  by (simp add: quiet_def mc_db_def)

lemma asked:
  "access_reachable (quiet access_db)" "access_step (quiet access_db) (with_db pending_db (quiet access_db))"
proof -
  have e: "requests access_db = []" by code_simp
  show "access_reachable (quiet access_db)"
    by (rule start) (simp add: machine_start_def e, simp add: quiet_def)
  have "mc_used (quiet access_db) = {}" by (simp add: quiet_def)
  then show "access_step (quiet access_db) (with_db pending_db (quiet access_db))"
    unfolding pending_db_def using submits [of sample_outside "quiet access_db" ask_prod] by simp
qed

text \<open>C28: Whatever operations run and however their reads and writes interleave - submissions, reviews,
  revocations, the expiry jobs, emergency access, accounts cut off, and deletions of accounts, servers and
  customers - every row of the request table keeps its shape: ids are unique, nobody is among the
  approvers of their own request or reviews it except in an emergency, a pending row has no approval
  time and no expiry yet, an approved one expires the approved duration after its approval, and a
  denied or revoked one carries its date. (A pending row may lose its approvers with their accounts.)\<close>

theorem requests_well_formed:
  assumes "access_reachable m" and "r \<in> set (requests (mc_db m))"
  shows "find (\<lambda>q. req_id q = req_id r) (requests (mc_db m)) = Some r
    \<and> req_requester r \<notin> set (req_approvers r) \<and> 0 < req_duration r
    \<and> (req_reviewer r = Some (req_requester r) \<longleftrightarrow> req_breakGlass r)
    \<and> (req_status r = PENDING \<longrightarrow> req_approvedAt r = None \<and> req_expiresAt r = None)
    \<and> (req_status r = APPROVED \<longrightarrow> holds (\<lambda>t. holds (\<lambda>dur. 0 < dur \<and> req_expiresAt r = Some (t + dur * 1000)) (req_approvedDuration r)) (req_approvedAt r))
    \<and> (req_status r = DENIED \<longrightarrow> req_deniedAt r \<noteq> None) \<and> (req_status r = REVOKED \<longrightarrow> req_revokedAt r \<noteq> None)"
proof -
  have t: "table_ok (mc_used m) (requests (mc_db m))" using reachable_ok [OF assms(1)] by (simp add: machine_ok_def)
  then have "request_ok r" using assms(2) by (simp add: table_ok_def)
  moreover have "find (\<lambda>q. req_id q = req_id r) (requests (mc_db m)) = Some r"
    using t assms(2) by (intro find_unique) (simp_all add: table_ok_def)
  ultimately show ?thesis by (auto simp: request_ok_def holds_def split: option.splits request_status.splits)
qed

lemma requests_well_formed_witness:
  "\<exists>r. requests (mc_db (with_db pending_db (quiet access_db))) = [r] \<and> req_status r = PENDING \<and> req_expiresAt r = None"
proof -
  have st: "map req_status (requests pending_db) = [PENDING]" by code_simp
  then obtain r where r: "requests pending_db = [r]" "req_status r = PENDING" by auto
  have "access_reachable (with_db pending_db (quiet access_db))" by (rule step [OF asked])
  from requests_well_formed [OF this, of r] r show ?thesis by simp
qed

text \<open>Deleting the accounts of the approvers leaves a pending request that nobody is asked to review.\<close>

lemma deletion_strands_a_request:
  "(let d = fold delete_user_row (concat (map req_approvers (requests pending_db))) pending_db
    in map (\<lambda>r. (req_status r, req_approvers r)) (requests d) = [(PENDING, [])])"
  by code_simp

text \<open>C19: The requests refine a machine that knows only their phases: a request is opened pending or
  already approved, a pending one is approved or denied once, any may expire, be revoked, or go with its
  requester, its server or its customer. The operations under way never bring back a request that is
  over - denied, expired, revoked or gone - however late they write.\<close>

theorem request_lifecycle_refines:
  assumes "access_reachable m" and "access_step\<^sup>*\<^sup>* m m'"
  shows "lifecycle_step\<^sup>*\<^sup>* (phases m) (phases m') \<and> (over (phases m i) \<longrightarrow> over (phases m' i))"
  using steps_refine [OF assms(2) reachable_ok [OF assms(1)]] lifecycle_over by blast

lemma request_lifecycle_refines_witness:
  "\<exists>m' r. access_step\<^sup>*\<^sup>* (quiet access_db) m' \<and> requests (mc_db m') = [r] \<and> req_status r = APPROVED
     \<and> lifecycle_step\<^sup>*\<^sup>* (\<lambda>_. Unknown) (phases m')"
proof -
  let ?x = "approve_it ''root''" and ?m1 = "with_db pending_db (quiet access_db)"
  have "is_ok (review_read ?x pending_db)" by code_simp
  then obtain ar where ar: "review_read ?x pending_db = Inr ar" by (auto simp: is_ok_iff)
  define m2 where "m2 = ?m1\<lparr>mc_reviews := [(?x, ar)]\<rparr>"
  have rv: "mc_reviews (quiet access_db) = []" by (simp add: quiet_def)
  have r2: "access_step ?m1 m2"
    using review_reads [of ?x ?m1 ar] ar by (simp add: m2_def rv)
  define d3 where "d3 = snd (review_decide sample_outside ?x ar pending_db)"
  have "find_user_id pending_db (rv_reviewer ?x) \<noteq> None" by code_simp
  then have r3: "access_step m2 (with_db d3 m2)"
    using review_writes [of ?x ar m2 sample_outside] by (simp add: m2_def d3_def)
  have steps: "access_step\<^sup>*\<^sup>* (quiet access_db) (with_db d3 m2)"
    using asked(2) r2 r3 by (meson converse_rtranclp_into_rtranclp rtranclp.rtrancl_refl)
  have "map req_status (requests (case review_read ?x pending_db of Inl _ \<Rightarrow> pending_db | Inr a \<Rightarrow> snd (review_decide sample_outside ?x a pending_db)))
      = [APPROVED]" by code_simp
  then obtain r where r: "requests d3 = [r]" "req_status r = APPROVED" by (auto simp: ar d3_def)
  have "requests access_db = []" by code_simp
  then have "phases (quiet access_db) = (\<lambda>_. Unknown)" by (intro ext) (simp add: phases_def phase_of_def, simp add: quiet_def)
  with request_lifecycle_refines [OF asked(1) steps] show ?thesis
    using steps r by (intro exI [of _ "with_db d3 m2"] exI [of _ r]) simp
qed

end
