(* ===== verification/UserClaims.thy ===== *)
theory UserClaims
  imports UserProps JitClaims
begin

text \<open>
  The properties of accounts: cutting one off leaves nothing to use, an organization keeps a
  super admin, the manager tree stays a tree, and edits give nobody more than the editor has.
\<close>

section \<open>Cutting an account off\<close>

text \<open>No row of the account is active, so no request to the API is accepted as coming from it.\<close>

definition locked_out :: "id \<Rightarrow> db \<Rightarrow> bool" where
  "locked_out uid d = (\<forall>u \<in> set (users d). usr_id u = uid \<longrightarrow> usr_status u \<noteq> Active)"

lemma find_user_id_SomeD: "find_user_id d i = Some u \<Longrightarrow> u \<in> set (users d) \<and> usr_id u = i"
  by (auto simp: find_user_id_def dest: find_SomeD)

lemma live_token_active: "live_token sha now raw d = Inr (t, u) \<Longrightarrow> u \<in> set (users d) \<and> usr_status u = Active"
  by (auto simp: live_token_def split: option.splits if_splits dest: find_user_id_SomeD)

lemma hydrate_id [simp]: "ru_id (hydrateRequestUser d u f ps) = usr_id u"
  by (simp add: hydrateRequestUser_def)

lemma apiTokenAuth_active:
  assumes "fst (apiTokenAuth sha rc now q d) = Inr ru"
  shows "\<exists>u \<in> set (users d). usr_id u = ru_id ru \<and> usr_status u = Active"
  using assms
  by (auto simp: apiTokenAuth_def Let_def split: if_splits sum.splits prod.splits dest!: live_token_active)

lemma authenticate_active:
  assumes "authenticate e enf q d = Inr ru"
  shows "\<exists>u \<in> set (users d). usr_id u = ru_id ru \<and> usr_status u = Active"
  using assms by (auto simp: authenticate_def split: option.splits if_splits dest!: find_user_id_SomeD)

lemma bearerAuth_active:
  assumes "fst (bearerAuth e enf rc now q d) = Inr ru"
  shows "\<exists>u \<in> set (users d). usr_id u = ru_id ru \<and> usr_status u = Active"
  using assms apiTokenAuth_active authenticate_active by (auto simp: bearerAuth_def split: option.splits if_splits)

lemma locked_out_refused: "locked_out uid d \<Longrightarrow> fst (bearerAuth e enf rc now q d) = Inr ru \<Longrightarrow> ru_id ru \<noteq> uid"
  using bearerAuth_active unfolding locked_out_def by blast

definition cut_off :: "id \<Rightarrow> id \<Rightarrow> world \<Rightarrow> bool" where
  "cut_off oid uid w =
     (rows_cut oid uid (w_db w) \<and> sessions_cut oid uid w
      \<and> (\<forall>e enf rc now q ru. fst (bearerAuth e enf rc now q (w_db w)) = Inr ru \<longrightarrow> ru_id ru \<noteq> uid))"

lemma cut_offI: "locked_out uid (w_db w) \<Longrightarrow> rows_cut oid uid (w_db w) \<Longrightarrow> sessions_cut oid uid w \<Longrightarrow> cut_off oid uid w"
  unfolding cut_off_def by (intro conjI allI impI) (assumption, assumption, rule locked_out_refused)

lemma locked_out_update:
  assumes "users d = update_where (\<lambda>u. usr_id u = uid) f us" and "\<And>u. usr_id u = uid \<Longrightarrow> usr_status (f u) \<noteq> Active"
  shows "locked_out uid d"
  unfolding locked_out_def assms(1)
proof (intro ballI impI)
  fix v assume "v \<in> set (update_where (\<lambda>u. usr_id u = uid) f us)" "usr_id v = uid"
  then obtain u where "v = (if usr_id u = uid then f u else u)" unfolding set_update_where by (elim imageE) (rule that)
  then show "usr_status v \<noteq> Active" using assms(2) [of u] \<open>usr_id v = uid\<close> by (cases "usr_id u = uid") simp_all
qed

lemma locked_out_again:
  assumes "locked_out uid d" and "users d' = update_where (\<lambda>u. usr_id u = uid) f (users d)" and "\<And>u. usr_status (f u) = usr_status u"
  shows "locked_out uid d'"
  unfolding locked_out_def assms(2)
proof (intro ballI impI)
  fix v assume "v \<in> set (update_where (\<lambda>u. usr_id u = uid) f (users d))" "usr_id v = uid"
  then obtain u where u: "u \<in> set (users d)" "v = (if usr_id u = uid then f u else u)" by (auto simp: set_update_where)
  then have "usr_id u = uid" using \<open>usr_id v = uid\<close> by (cases "usr_id u = uid") simp_all
  then show "usr_status v \<noteq> Active" using u assms(1,3) by (simp add: locked_out_def)
qed

lemma edit_status_is:
  assumes "user_patch_of hash d oid u x a = Inr p" and "ue_status x = Some s" and "s \<noteq> usr_status u"
  shows "up_status p = Some s"
  using assms by (auto simp: user_patch_of_def edit_status_def changed_def split: sum.splits option.splits if_splits)

lemma apply_patch_status: "up_status p = Some s \<Longrightarrow> usr_status (apply_patch p u) = s"
  by (simp add: apply_patch_def set_opt_def split: option.split)

lemma apply_patch_id: "usr_id (apply_patch p u) = usr_id u" "usr_org (apply_patch p u) = usr_org u" "usr_deletedAt (apply_patch p u) = usr_deletedAt u"
  by (simp_all add: apply_patch_def set_opt_def split: option.split)

lemma disabled_not_active: "isDisabledStatus s \<Longrightarrow> s \<noteq> Active"
  by (auto simp: isDisabledStatus_def DISABLED_STATUSES_def)

lemma update_disables:
  assumes "updateUser hash now fl False oid uid x a ua w = (Inr v, w')" and "find_user (w_db w) uid oid = Some u"
    and "ue_status x = Some s" and "s \<noteq> usr_status u" and "isDisabledStatus s" and "oid \<noteq> []" and "writes_succeed fl w"
  shows "cut_off oid uid w'"
proof -
  from assms(1) obtain u' p d where u': "find_user (w_db w) uid oid = Some u'" and p': "user_patch_of hash (w_db w) oid u' x a = Inr p"
    and d: "users d = update_where (\<lambda>u. usr_id u = uid) (apply_patch p) (users (w_db w))" "sessions d = sessions (w_db w)"
    and w': "w' = edit_follow_up now fl False oid uid p a (w\<lparr>w_db := d\<rparr>)" by (rule updateUser_Inr)
  have p: "user_patch_of hash (w_db w) oid u x a = Inr p" using u' p' assms(2) by simp
  have st: "up_status p = Some s" by (rule edit_status_is [OF p assms(3,4)])
  have w: "w' = snd (revokeAllAccessFor now fl False oid uid (''Account '' @ status_text s) ''account_disabled'' (actor_id a) (w\<lparr>w_db := d\<rparr>))"
    using w' st assms(5) by (simp add: edit_follow_up_def)
  have ok: "writes_succeed fl (w\<lparr>w_db := d\<rparr>)" using assms(7) d by (simp add: writes_succeed_def)
  note R = revokeAllAccess_result [OF assms(6) ok w]
  have "locked_out uid (w_db w')"
    by (rule locked_out_again [OF _ R(3)], rule locked_out_update [of _ _ "apply_patch p" "users (w_db w)"])
      (use d(1) disabled_not_active [OF assms(5)] apply_patch_status [OF st] in simp_all)
  then show ?thesis using R(1,2) by (rule cut_offI)
qed

lemma self_delete_disables:
  assumes "softDeleteSelf now fl False oid uid w = (Inr (), w')" and "oid \<noteq> []" and "writes_succeed fl w"
  shows "cut_off oid uid w'"
proof -
  define w1 where "w1 = snd (revokeAllAccessFor now fl False oid uid ''User deleted account'' ''account_deleted'' None w)"
  note R = revokeAllAccess_result [OF assms(2,3) w1_def]
  let ?d2 = "(w_db w1)\<lparr>refreshTokens := filter (\<lambda>t. rt_user t \<noteq> uid) (refreshTokens (w_db w1))\<rparr>"
  obtain u where u: "find_user (w_db w) uid oid = Some u" using assms(1) by (cases "find_user (w_db w) uid oid") (simp_all add: softDeleteSelf_def)
  have w': "w' = w1\<lparr>w_db := update_user_row uid (\<lambda>r. r\<lparr>usr_status := Deleted, usr_deletedAt := Some now\<rparr>) ?d2\<rparr>"
    using assms(1) unfolding softDeleteSelf_def Let_def w1_def [symmetric] u by (simp split: if_splits)
  have "locked_out uid (w_db w')"
    by (rule locked_out_update [of _ _ "\<lambda>r. r\<lparr>usr_status := Deleted, usr_deletedAt := Some now\<rparr>" "users (w_db w1)"]) (simp_all add: w')
  moreover have "rows_cut oid uid (w_db w')" using R(1) by (simp add: w' rows_cut_def)
  moreover have "sessions_cut oid uid w'" using R(2) by (simp add: w' sessions_cut_def)
  ultimately show ?thesis by (rule cut_offI)
qed

text \<open>C4: An account that is suspended or deactivated by an edit, or that deletes itself, can use nothing any
  more, unless a write of a session row or the look-up of the desktop sessions fails: none of its requests is pending or approved and none
  of its certificates active, all its API and refresh tokens are revoked, no terminal and no desktop
  session of it runs, and no API request is accepted as coming from it, with a session or a token.\<close>

theorem disabled_account_is_cut_off:
  assumes "oid \<noteq> []" and "writes_succeed fl w"
  shows "(updateUser hash now fl False oid uid x a ua w = (Inr v, w1) \<and> find_user (w_db w) uid oid = Some u
      \<and> ue_status x = Some s \<and> s \<noteq> usr_status u \<and> isDisabledStatus s \<longrightarrow> cut_off oid uid w1)
    \<and> (softDeleteSelf now fl False oid uid w = (Inr (), w2) \<longrightarrow> cut_off oid uid w2)"
  using update_disables [of hash now fl oid uid x a ua w v w1 u s] self_delete_disables [of now fl oid uid w w2] assms by blast

text \<open>Worlds without a terminal, and edits of one field.\<close>

definition quiet :: "db \<Rightarrow> world" where
  "quiet d = \<lparr>w_db = d, w_ttl = 900, w_hub = [], w_open = [], w_out = [], w_in = [], w_closed = [], w_recorded = [],
     w_rdpByConn = [], w_rdpConn = [], w_rdpClosed = []\<rparr>"

definition no_edit :: user_edit where
  "no_edit = \<lparr>ue_name = None, ue_email = None, ue_avatar = None, ue_role = None, ue_roleId = None, ue_status = None,
     ue_manager = None, ue_password = None, ue_groups = None, ue_order = []\<rparr>"

definition cut_db :: db where
  "cut_db = auth_db\<lparr>requests := [rq_mem\<lparr>req_status := APPROVED\<rparr>],
     refreshTokens := [session_token sample_auth (call_at 1000 ''1'') u_pw ''web'']\<rparr>"

lemma disabled_account_is_cut_off_witness:
  "\<exists>v w1. updateUser (\<lambda>s. s) 5000 no_fault False ''o'' ''mem'' (no_edit\<lparr>ue_status := Some Suspended\<rparr>) None None (quiet cut_db) = (Inr v, w1)
     \<and> cut_off ''o'' ''mem'' w1 \<and> map req_status (requests (w_db w1)) = [REVOKED] \<and> map rt_revokedAt (refreshTokens (w_db w1)) = [Some 5000]"
proof -
  let ?x = "no_edit\<lparr>ue_status := Some Suspended\<rparr>"
  let ?r = "updateUser (\<lambda>s. s) 5000 no_fault False ''o'' ''mem'' ?x None None (quiet cut_db)"
  have k: "case fst ?r of Inr _ \<Rightarrow> True | Inl _ \<Rightarrow> False" "map req_status (requests (w_db (snd ?r))) = [REVOKED]"
    "map rt_revokedAt (refreshTokens (w_db (snd ?r))) = [Some 5000]" by code_simp+
  from k(1) obtain v w1 where r: "?r = (Inr v, w1)" by (cases ?r) (auto split: sum.splits)
  have h: "find_user (w_db (quiet cut_db)) ''mem'' ''o'' = Some u_pw" "Suspended \<noteq> usr_status u_pw" "isDisabledStatus Suspended" by code_simp+
  have "cut_off ''o'' ''mem'' w1"
    using disabled_account_is_cut_off [of "''o''" no_fault "quiet cut_db" "\<lambda>s. s" 5000 "''mem''" ?x None None v w1 u_pw Suspended] r h
    by (simp add: writes_succeed_def quiet_def cut_db_def auth_db_def empty_db_def no_edit_def)
  then show ?thesis using r k(2,3) by (intro exI [of _ v] exI [of _ w1]) simp
qed

section \<open>The last super admin\<close>

text \<open>Active and not deleted, as the code counts them before it suspends or demotes one.\<close>

definition has_owner :: "id \<Rightarrow> db \<Rightarrow> bool" where
  "has_owner oid d = (\<exists>u \<in> set (users d). usr_org u = oid \<and> usr_role u = SuperAdmin \<and> usr_status u = Active \<and> usr_deletedAt u = None)"

lemma count_where_some: "0 < count_where P xs \<longleftrightarrow> (\<exists>x \<in> set xs. P x)"
  by (auto simp: count_where_def filter_empty_conv)

lemma activeSuperAdminCount_pos:
  "activeSuperAdminCount d oid i \<noteq> 0 \<Longrightarrow> \<exists>u \<in> set (users d). usr_org u = oid \<and> usr_role u = SuperAdmin \<and> usr_status u = Active
     \<and> usr_deletedAt u = None \<and> usr_id u \<noteq> i"
  unfolding activeSuperAdminCount_def neq0_conv count_where_some by blast

lemma edit_keeps_owner:
  assumes "user_patch_of hash d oid u x a = Inr p" and "activeSuperAdminCount d oid (usr_id u) = 0"
    and "usr_role u = SuperAdmin" and "usr_status u = Active"
  shows "usr_role (apply_patch p u) = SuperAdmin \<and> usr_status (apply_patch p u) = Active"
proof -
  have "up_role p = None \<or> rol_base (the (up_role p)) = SuperAdmin"
    using assms by (auto simp: user_patch_of_def edit_role_def split: sum.splits option.splits if_splits)
  moreover have "up_status p = None"
    using assms by (auto simp: user_patch_of_def edit_status_def split: sum.splits option.splits if_splits)
  ultimately show ?thesis using assms(3,4) by (auto simp: apply_patch_def set_opt_def split: option.split)
qed

lemma updateUser_keeps_owner:
  assumes "updateUser hash now fl lf oid uid x a ua w = (Inr v, w')" and "distinct (map usr_id (users (w_db w)))" and "has_owner oid (w_db w)"
  shows "has_owner oid (w_db w')"
proof -
  from assms(1) obtain u p d where u: "find_user (w_db w) uid oid = Some u" and p: "user_patch_of hash (w_db w) oid u x a = Inr p"
    and d: "users d = update_where (\<lambda>u. usr_id u = uid) (apply_patch p) (users (w_db w))"
    and w': "w' = edit_follow_up now fl lf oid uid p a (w\<lparr>w_db := d\<rparr>)" by (rule updateUser_Inr)
  obtain f where f: "\<And>u. f u = u \<or> (\<exists>t. f u = u\<lparr>usr_sessionsFrom := t\<rparr>)" "users (w_db w') = map f (users d)"
    using edit_follow_up_users [of now fl lf oid uid p a "w\<lparr>w_db := d\<rparr>"] w' by auto
  have ff: "usr_org (f u) = usr_org u \<and> usr_role (f u) = usr_role u \<and> usr_status (f u) = usr_status u \<and> usr_deletedAt (f u) = usr_deletedAt u" for u
    using f(1) [of u] by auto
  have uu: "u \<in> set (users (w_db w))" "usr_id u = uid" using find_user_SomeD [OF u] by auto
  have "has_owner oid d"
  proof (cases "activeSuperAdminCount (w_db w) oid uid = 0")
    case False
    then obtain o' where "o' \<in> set (users (w_db w))" "usr_org o' = oid" "usr_role o' = SuperAdmin" "usr_status o' = Active"
      "usr_deletedAt o' = None" "usr_id o' \<noteq> uid" using activeSuperAdminCount_pos by blast
    then show ?thesis unfolding has_owner_def d set_update_where by (intro bexI [of _ o']) auto
  next
    case True
    obtain o' where o': "o' \<in> set (users (w_db w))" "usr_org o' = oid" "usr_role o' = SuperAdmin" "usr_status o' = Active" "usr_deletedAt o' = None"
      using assms(3) by (auto simp: has_owner_def)
    have "\<not> (0 < activeSuperAdminCount (w_db w) oid uid)" using True by simp
    then have "usr_id o' = uid" using o' unfolding activeSuperAdminCount_def count_where_some by blast
    then have "o' = u" using o'(1) uu assms(2) by (simp add: distinct_map inj_on_def)
    then show ?thesis using o' uu edit_keeps_owner [OF p] True
      unfolding has_owner_def d set_update_where by (intro bexI [of _ "apply_patch p u"]) (auto simp: apply_patch_id)
  qed
  then show ?thesis using ff unfolding has_owner_def f(2) by auto
qed

lemma handed_over_same [simp]:
  "usr_id (handed_over oid uid t u) = usr_id u" "usr_org (handed_over oid uid t u) = usr_org u" "usr_role (handed_over oid uid t u) = usr_role u"
  "usr_status (handed_over oid uid t u) = usr_status u" "usr_deletedAt (handed_over oid uid t u) = usr_deletedAt u"
  by (simp_all add: handed_over_def)

lemma no_other_owner:
  "activeSuperAdminCount d oid uid = 0 \<longleftrightarrow> (\<forall>u \<in> set (users d). usr_id u \<noteq> uid \<longrightarrow>
     \<not> (usr_org u = oid \<and> usr_role u = SuperAdmin \<and> usr_status u = Active \<and> usr_deletedAt u = None))"
  by (auto simp: activeSuperAdminCount_def count_where_def filter_empty_conv)

lemma softDeleteSelf_users:
  assumes "softDeleteSelf now fl lf oid uid w = (Inr (), w')"
  shows "users (w_db w') = update_where (\<lambda>u. usr_id u = uid) (\<lambda>r. r\<lparr>usr_status := Deleted, usr_deletedAt := Some now\<rparr>)
    (update_where (\<lambda>u. usr_id u = uid) (\<lambda>u. u\<lparr>usr_sessionsFrom := Some (math_floor_div now 1000 * 1000)\<rparr>) (users (w_db w)))"
proof -
  obtain u where u: "find_user (w_db w) uid oid = Some u" using assms by (cases "find_user (w_db w) uid oid") (simp_all add: softDeleteSelf_def)
  show ?thesis using assms unfolding softDeleteSelf_def Let_def u by (auto simp: revokeAllAccess_users split: if_splits)
qed

text \<open>An edit never takes the last active super admin from an organization: if it had one and the edit
  succeeds, it has one. Deletion does not keep to that: both kinds of it count super admins that are
  not deleted, suspended ones too, so where the account deleted was the only active one, a deletion
  that succeeds leaves none.\<close>

theorem last_super_admin:
  "(updateUser hash now fl lf oid uid x a ua w = (Inr v, w1) \<and> distinct (map usr_id (users (w_db w))) \<and> has_owner oid (w_db w)
      \<longrightarrow> has_owner oid (w_db w1))
   \<and> ((deleteUser now fl lf oid uid target caller a w = (Inr (), w2) \<or> softDeleteSelf now fl lf oid uid w = (Inr (), w2))
      \<and> activeSuperAdminCount (w_db w) oid uid = 0 \<longrightarrow> \<not> has_owner oid (w_db w2))"
proof (intro conjI impI, goal_cases)
  case 1 then show ?case using updateUser_keeps_owner by blast
next
  case 2
  then have no: "\<forall>u \<in> set (users (w_db w)). usr_id u \<noteq> uid \<longrightarrow>
     \<not> (usr_org u = oid \<and> usr_role u = SuperAdmin \<and> usr_status u = Active \<and> usr_deletedAt u = None)" by (simp add: no_other_owner)
  from 2 show ?case
  proof (elim conjE disjE)
    assume "deleteUser now fl lf oid uid target caller a w = (Inr (), w2)"
    then show ?thesis using no by (auto simp: has_owner_def deleteUser_users(1))
  next
    assume "softDeleteSelf now fl lf oid uid w = (Inr (), w2)"
    note U = softDeleteSelf_users [OF this]
    have "usr_deletedAt u \<noteq> None \<or> (u \<in> set (users (w_db w)) \<and> usr_id u \<noteq> uid)" if "u \<in> set (users (w_db w2))" for u
      using that unfolding U by (elim in_update_whereE) (simp split: if_splits)
    then show ?thesis using no unfolding has_owner_def by blast
  qed
qed

definition owners_db :: db where
  "owners_db = empty_db\<lparr>users := [mk_user ''r1'' SuperAdmin SCOPE_ALL, (mk_user ''r2'' SuperAdmin SCOPE_ALL)\<lparr>usr_status := Suspended\<rparr>,
     (mk_user ''m'' Member SCOPE_ALL)\<lparr>usr_manager := Some ''r1''\<rparr>]\<rparr>"

lemma last_super_admin_witness:
  "\<exists>w1 w2. deleteUser 5000 no_fault False ''o'' ''r1'' [] None None (quiet owners_db) = (Inr (), w2) \<and> has_owner ''o'' owners_db \<and> \<not> has_owner ''o'' (w_db w2)
     \<and> updateUser (\<lambda>s. s) 5000 no_fault False ''o'' ''r1'' (no_edit\<lparr>ue_name := Some ''x''\<rparr>) None None (quiet owners_db) = (Inr ((mk_user ''r1'' SuperAdmin SCOPE_ALL)\<lparr>usr_name := ''x''\<rparr>), w1)
     \<and> has_owner ''o'' (w_db w1)"
proof -
  let ?d = "deleteUser 5000 no_fault False ''o'' ''r1'' [] None None (quiet owners_db)"
  let ?u = "updateUser (\<lambda>s. s) 5000 no_fault False ''o'' ''r1'' (no_edit\<lparr>ue_name := Some ''x''\<rparr>) None None (quiet owners_db)"
  have k: "fst ?d = Inr ()" "fst ?u = Inr ((mk_user ''r1'' SuperAdmin SCOPE_ALL)\<lparr>usr_name := ''x''\<rparr>)" by code_simp+
  then obtain w2 w1 where d: "?d = (Inr (), w2)" and u: "?u = (Inr ((mk_user ''r1'' SuperAdmin SCOPE_ALL)\<lparr>usr_name := ''x''\<rparr>), w1)"
    by (metis prod.collapse)
  have h: "has_owner ''o'' owners_db" "distinct (map usr_id (users owners_db))" "activeSuperAdminCount owners_db ''o'' ''r1'' = 0"
    "w_db (quiet owners_db) = owners_db" by code_simp+
  note L = last_super_admin [of "\<lambda>s. s" 5000 no_fault False "''o''" "''r1''" "no_edit\<lparr>ue_name := Some ''x''\<rparr>" None None "quiet owners_db"
    "(mk_user ''r1'' SuperAdmin SCOPE_ALL)\<lparr>usr_name := ''x''\<rparr>" w1 "[]" None w2]
  show ?thesis by (intro exI [of _ w1] exI [of _ w2] conjI d u h(1)) (use L d u h in simp_all)
qed

section \<open>The manager tree\<close>

text \<open>Who reports to whom in the organization; an empty id is no manager.\<close>

definition reports_to :: "id \<Rightarrow> db \<Rightarrow> (id \<times> id) set" where
  "reports_to oid d = {(c, m). m \<noteq> [] \<and> (\<exists>u. find_user d c oid = Some u \<and> usr_manager u = Some m)}"

lemma climb_finds:
  assumes "acyclic (reports_to oid d)" and "uid \<noteq> []"
  shows "(c, uid) \<in> (reports_to oid d)\<^sup>* \<Longrightarrow> c \<noteq> [] \<Longrightarrow> \<forall>s \<in> set seen. (c, s) \<notin> (reports_to oid d)\<^sup>* \<Longrightarrow> climb d oid uid seen (Some c)"
proof (induction arbitrary: seen rule: converse_rtrancl_induct)
  case base then show ?case using assms(2) by (simp add: climb.simps)
next
  case (step c m)
  obtain u where u: "find_user d c oid = Some u" "usr_manager u = Some m" "m \<noteq> []" using step(1) by (auto simp: reports_to_def)
  have "(m, c) \<notin> (reports_to oid d)\<^sup>*" using assms(1) step(1) by (metis acyclic_def rtrancl_into_trancl2)
  moreover have "\<forall>s \<in> set seen. (m, s) \<notin> (reports_to oid d)\<^sup>*" using step(1,5) by (meson converse_rtrancl_into_rtrancl)
  ultimately have "climb d oid uid (c # seen) (Some m)" using step.IH [of "c # seen"] u(3) by simp
  moreover have "c \<notin> set seen" using step(5) by blast
  ultimately show ?case using u step(4) by (subst climb.simps) simp
qed

lemma climb_sound:
  "climb d oid uid seen cur \<Longrightarrow> cur = Some c \<Longrightarrow> (c, uid) \<in> (reports_to oid d)\<^sup>*"
proof (induction d oid uid seen cur arbitrary: c rule: climb.induct)
  case (1 d oid uid seen cur)
  show ?case
  proof (cases "c = uid")
    case False
    then obtain m where m: "find_user d c oid = Some m" "climb d oid uid (c # seen) (usr_manager m)" "c \<noteq> []" "c \<notin> set seen"
      using 1(2,3) by (subst (asm) climb.simps) (auto split: if_splits option.splits)
    obtain i where i: "usr_manager m = Some i" using m(2) by (cases "usr_manager m") (simp_all add: climb.simps)
    have "i \<noteq> []" using m(2) i by (auto simp: climb.simps)
    then have "(c, i) \<in> reports_to oid d" using m(1) i by (simp add: reports_to_def)
    moreover have "(i, uid) \<in> (reports_to oid d)\<^sup>*" using 1(1) [OF 1(3) m(3) False m(4,1) m(2) i] .
    ultimately show ?thesis by (rule converse_rtrancl_into_rtrancl)
  qed simp
qed

lemma wouldCreateCycle_iff:
  assumes "acyclic (reports_to oid d)" and "uid \<noteq> []" and "m \<noteq> []"
  shows "wouldCreateCycle d oid uid m \<longleftrightarrow> (m, uid) \<in> (reports_to oid d)\<^sup>*"
  using climb_finds [OF assms(1,2) _ assms(3), of "[]"] climb_sound by (auto simp: wouldCreateCycle_def)

lemma find_user_map:
  assumes "users d' = map f (users d)" and "\<And>u. usr_id (f u) = usr_id u \<and> usr_org (f u) = usr_org u"
  shows "find_user d' c oid = map_option f (find_user d c oid)"
proof -
  have "find P (map f us) = map_option f (find P us)" if "\<And>u. P (f u) = P u" for P and us :: "user list" using that by (induction us) simp_all
  then show ?thesis unfolding find_user_def assms(1) using assms(2) by simp
qed

lemma edit_manager_ok:
  assumes "user_patch_of hash d oid u x a = Inr p" and "up_manager p = Some (Some m)"
  shows "\<not> wouldCreateCycle d oid (usr_id u) m \<and> m \<noteq> usr_id u \<and> find_user d m oid \<noteq> None"
  using assms by (auto simp: user_patch_of_def edit_manager_def split: sum.splits option.splits if_splits)

lemma updateUser_tree:
  assumes "updateUser hash now fl lf oid uid x a ua w = (Inr v, w')" and "acyclic (reports_to oid (w_db w))" and "uid \<noteq> []"
  shows "acyclic (reports_to oid (w_db w'))"
proof -
  let ?R = "reports_to oid (w_db w)"
  from assms(1) obtain u p d where u: "find_user (w_db w) uid oid = Some u" and p: "user_patch_of hash (w_db w) oid u x a = Inr p"
    and d: "users d = update_where (\<lambda>u. usr_id u = uid) (apply_patch p) (users (w_db w))"
    and w': "w' = edit_follow_up now fl lf oid uid p a (w\<lparr>w_db := d\<rparr>)" by (rule updateUser_Inr)
  have ui: "usr_id u = uid" using find_user_SomeD [OF u] by simp
  obtain f where f: "\<And>u. f u = u \<or> (\<exists>t. f u = u\<lparr>usr_sessionsFrom := t\<rparr>)" "users (w_db w') = map f (users d)"
    using edit_follow_up_users [of now fl lf oid uid p a "w\<lparr>w_db := d\<rparr>"] w' by auto
  have ff: "usr_id (f u) = usr_id u \<and> usr_org (f u) = usr_org u \<and> usr_manager (f u) = usr_manager u" for u using f(1) [of u] by auto
  define g where "g u = f (if usr_id u = uid then apply_patch p u else u)" for u
  have gu: "users (w_db w') = map g (users (w_db w))" unfolding f(2) d update_where_def g_def by (simp add: o_def)
  have g: "usr_id (g u) = usr_id u \<and> usr_org (g u) = usr_org u" for u by (simp add: g_def ff apply_patch_id)
  have mgr: "usr_manager (g y) = (if usr_id y = uid then (case up_manager p of None \<Rightarrow> usr_manager y | Some m \<Rightarrow> m) else usr_manager y)" for y
    by (simp add: g_def ff apply_patch_def set_opt_def split: option.split)
  have F: "find_user (w_db w') c oid = map_option g (find_user (w_db w) c oid)" for c by (rule find_user_map [OF gu g])
  show ?thesis
  proof (cases "up_manager p")
    case None
    then have "usr_manager (g y) = usr_manager y" for y using mgr [of y] by simp
    then have "reports_to oid (w_db w') = ?R" by (auto simp: reports_to_def F)
    then show ?thesis using assms(2) by simp
  next
    case (Some mo)
    have sub: "reports_to oid (w_db w') \<subseteq> ?R \<union> {(uid, m) |m. mo = Some m \<and> m \<noteq> []}"
      using Some mgr by (auto simp: reports_to_def F dest: find_user_SomeD split: if_splits)
    show ?thesis
    proof (cases "mo = None \<or> mo = Some []")
      case True then show ?thesis using sub assms(2) by (auto intro: acyclic_subset)
    next
      case False
      then obtain m where m: "mo = Some m" "m \<noteq> []" by auto
      then have "\<not> wouldCreateCycle (w_db w) oid uid m" using edit_manager_ok [OF p] Some ui by simp
      then have "(m, uid) \<notin> ?R\<^sup>*" using wouldCreateCycle_iff [OF assms(2,3) m(2)] by simp
      then have "acyclic (insert (uid, m) ?R)" using assms(2) by simp
      moreover have "reports_to oid (w_db w') \<subseteq> insert (uid, m) ?R" using sub m by auto
      ultimately show ?thesis by (rule acyclic_subset)
    qed
  qed
qed

text \<open>C33: Editing keeps the manager tree free of cycles: the check that refuses a new manager does so exactly
  when that manager already reports, directly or not, to the user, and an edit that succeeds leaves
  no cycle where there was none. Deletion makes one: moving the reports of the deleted account to
  one of them makes that one its own manager.\<close>

theorem manager_tree:
  "(acyclic (reports_to oid (w_db w)) \<and> uid \<noteq> [] \<longrightarrow>
      (\<forall>m. m \<noteq> [] \<longrightarrow> wouldCreateCycle (w_db w) oid uid m = ((m, uid) \<in> (reports_to oid (w_db w))\<^sup>*))
      \<and> (updateUser hash now fl lf oid uid x a ua w = (Inr v, w1) \<longrightarrow> acyclic (reports_to oid (w_db w1))))
   \<and> (deleteUser now fl lf oid uid t caller a w = (Inr (), w2) \<and> t \<noteq> [] \<and> (t, uid) \<in> reports_to oid (w_db w)
      \<longrightarrow> (t, t) \<in> reports_to oid (w_db w2))"
proof (intro conjI impI allI, goal_cases)
  case (1 m) then show ?case using wouldCreateCycle_iff by blast
next
  case 2 then show ?case using updateUser_tree by blast
next
  case 3
  note D = deleteUser_users [OF conjunct1 [OF 3]]
  have t: "t \<noteq> uid" using D(2) 3 by blast
  obtain u where u: "find_user (w_db w) t oid = Some u" "usr_manager u = Some uid" using 3 by (auto simp: reports_to_def)
  have skip: "find P (filter Q us) = find P us" if "\<And>y. P y \<Longrightarrow> Q y" for P Q and us :: "user list" using that by (induction us) auto
  have "find (\<lambda>u. usr_id u = t \<and> usr_org u = oid) (filter (\<lambda>u. usr_id u \<noteq> uid) (users (w_db w))) = Some u"
    unfolding u(1) [unfolded find_user_def, symmetric] by (rule skip) (use t in auto)
  then have "find_user ((w_db w)\<lparr>users := filter (\<lambda>u. usr_id u \<noteq> uid) (users (w_db w))\<rparr>) t oid = Some u" by (simp add: find_user_def)
  then have "find_user (w_db w2) t oid = Some (handed_over oid uid t u)"
    using find_user_map [of "w_db w2" "handed_over oid uid t" "(w_db w)\<lparr>users := filter (\<lambda>u. usr_id u \<noteq> uid) (users (w_db w))\<rparr>" t oid] D(1) by simp
  moreover have "usr_org u = oid" using find_user_SomeD [OF u(1)] by simp
  ultimately show ?case using u(2) 3 by (simp add: reports_to_def handed_over_def)
qed

lemma manager_tree_witness:
  "\<exists>w2. deleteUser 5000 no_fault False ''o'' ''r1'' ''m'' None None (quiet owners_db) = (Inr (), w2)
     \<and> (''m'', ''m'') \<in> reports_to ''o'' (w_db w2) \<and> \<not> wouldCreateCycle owners_db ''o'' ''m'' ''r2'' \<and> wouldCreateCycle owners_db ''o'' ''r1'' ''m''"
proof -
  let ?d = "deleteUser 5000 no_fault False ''o'' ''r1'' ''m'' None None (quiet owners_db)"
  have "fst ?d = Inr ()" by code_simp
  then obtain w2 where d: "?d = (Inr (), w2)" by (metis prod.collapse)
  have q: "w_db (quiet owners_db) = owners_db" by (simp add: quiet_def)
  have R: "reports_to ''o'' owners_db = {(''m'', ''r1'')}"
    by (auto simp: reports_to_def owners_db_def find_user_def mk_user_def empty_db_def split: if_splits)
  have ac: "acyclic (reports_to ''o'' owners_db)" by (simp add: R) (simp add: acyclic_def)
  have "(''m'', ''m'') \<in> reports_to ''o'' (w_db w2)"
    using manager_tree [where w = "quiet owners_db" and oid = "''o''" and uid = "''r1''" and now = 5000 and fl = no_fault and lf = False
      and a = None and t = "''m''" and caller = None and ?w2.0 = w2] d R q by simp
  moreover have "\<not> wouldCreateCycle owners_db ''o'' ''m'' ''r2'' \<and> wouldCreateCycle owners_db ''o'' ''r1'' ''m''"
    using manager_tree [where w = "quiet owners_db" and oid = "''o''" and uid = "''m''"]
      manager_tree [where w = "quiet owners_db" and oid = "''o''" and uid = "''r1''"] ac R q
    by (auto simp: rtrancl_insert)
  ultimately show ?thesis using d by blast
qed

section \<open>No escalation\<close>

text \<open>What an editor who is known must have for what an edit changed.\<close>

definition target_role :: "db \<Rightarrow> id \<Rightarrow> user \<Rightarrow> role" where
  "target_role d oid u = (case role_of_target d oid u of Some r \<Rightarrow> r | None \<Rightarrow> bare_role oid u)"

definition within_reach :: "actor \<Rightarrow> role \<Rightarrow> bool" where
  "within_reach a r \<longleftrightarrow> set (permissionsOfRole (Some r)) \<subseteq> set (act_permissions a) \<and> tier_rank (rol_base r) \<le> tier_rank (act_tier a)
     \<and> (rol_isSystem r \<and> rol_key r = ''super_admin'' \<longrightarrow> act_tier a = SuperAdmin)"

lemma canAct_reach: "canActOnRole a (Some r) \<Longrightarrow> within_reach a r"
  by (auto simp: canActOnRole_def within_reach_def coversAll_def isOwnerRole_def split: if_splits)

text \<open>The row gets this role, which the organization has.\<close>

definition has_role :: "db \<Rightarrow> id \<Rightarrow> role \<Rightarrow> user \<Rightarrow> bool" where
  "has_role d oid r v \<longleftrightarrow> r \<in> set (roles d) \<and> rol_org r = oid \<and> usr_roleId v = Some (rol_id r) \<and> usr_role v = rol_base r"

text \<open>\<open>u\<close> is the row before, \<open>v\<close> the row after: nothing but the columns of an edit has changed.\<close>

definition no_gain :: "db \<Rightarrow> id \<Rightarrow> actor \<Rightarrow> user \<Rightarrow> user \<Rightarrow> bool" where
  "no_gain d oid a u v \<longleftrightarrow>
     v = u\<lparr>usr_name := usr_name v, usr_email := usr_email v, usr_avatarUrl := usr_avatarUrl v, usr_manager := usr_manager v,
           usr_status := usr_status v, usr_roleId := usr_roleId v, usr_role := usr_role v\<rparr>
     \<and> (act_user a = usr_id u \<longrightarrow> v = u\<lparr>usr_name := usr_name v\<rparr>)
     \<and> (act_user a \<noteq> usr_id u \<longrightarrow> within_reach a (target_role d oid u)
          \<and> ((usr_name v, usr_email v, usr_avatarUrl v, usr_manager v) \<noteq> (usr_name u, usr_email u, usr_avatarUrl u, usr_manager u)
               \<longrightarrow> hasPermission (act_permissions a) ''users.update''))
     \<and> ((usr_roleId v, usr_role v) \<noteq> (usr_roleId u, usr_role u) \<longrightarrow>
          hasPermission (act_permissions a) ''users.assign_role'' \<and> (\<exists>r. has_role d oid r v \<and> within_reach a r))
     \<and> (usr_status v \<noteq> usr_status u \<longrightarrow> hasPermission (act_permissions a) ''users.suspend'')"

lemma edit_guard_ok:
  assumes "edit_guard d oid u x (Some a) = Inr z"
  shows "ue_password x = None" "act_user a = usr_id u \<Longrightarrow> foreign_fields x = []"
    "act_user a \<noteq> usr_id u \<Longrightarrow> canActOnRole a (Some (target_role d oid u))"
  using assms
  by (auto simp: edit_guard_def is_self_def actor_id_def assertCanManageUser_def target_role_def assertCanActOnRole_ok split: if_splits sum.splits)

lemma no_foreign:
  assumes "foreign_fields x = []"
  shows "ue_email x = None" "ue_avatar x = None" "ue_role x = None" "ue_roleId x = None" "ue_status x = None" "ue_manager x = None" "ue_groups x = None"
proof -
  have "other_fields x = []" using assms set_foreign_fields [of x] by simp
  then show "ue_email x = None" "ue_avatar x = None" "ue_role x = None" "ue_roleId x = None" "ue_status x = None" "ue_manager x = None" "ue_groups x = None"
    by (simp_all add: other_fields_def present_def split: option.splits)
qed

lemma patch_parts:
  assumes "user_patch_of hash d oid u x a = Inr p"
  obtains q z where "edit_guard d oid u x a = Inr z" "edit_fields u x a = Inr q" "edit_role d oid u x a = Inr (up_role p)"
    "edit_status d oid u x a = Inr (up_status p)" "edit_manager d oid u x a = Inr (up_manager p)"
    "up_name p = up_name q" "up_email p = up_email q" "up_avatar p = up_avatar q"
    "up_hash p = (if truthy (ue_password x) \<and> a = None then Some (hash (the (ue_password x))) else None)"
  using assms by (auto simp: user_patch_of_def split: sum.splits)

lemma resolveRole_in: "resolveRole d oid ref = Some r \<Longrightarrow> r \<in> set (roles d) \<and> rol_org r = oid"
  by (auto simp: resolveRole_def find_Some_iff split: if_splits option.splits)

lemma patch_no_gain:
  assumes "user_patch_of hash d oid u x (Some a) = Inr p"
  shows "no_gain d oid a u (apply_patch p u)"
proof -
  obtain q z where g: "edit_guard d oid u x (Some a) = Inr z" and f: "edit_fields u x (Some a) = Inr q"
    and r: "edit_role d oid u x (Some a) = Inr (up_role p)" and s: "edit_status d oid u x (Some a) = Inr (up_status p)"
    and m: "edit_manager d oid u x (Some a) = Inr (up_manager p)" and q: "up_name p = up_name q" "up_email p = up_email q" "up_avatar p = up_avatar q"
    and h: "up_hash p = (if truthy (ue_password x) \<and> Some a = None then Some (hash (the (ue_password x))) else None)"
    by (rule patch_parts [OF assms])
  note G = edit_guard_ok [OF g]
  have self: "up_email p = None \<and> up_avatar p = None \<and> up_role p = None \<and> up_status p = None \<and> up_manager p = None" if "act_user a = usr_id u"
    using no_foreign [OF G(2) [OF that]] f r s m q
    by (auto simp: edit_fields_def changed_def edit_role_def requestedRole_def edit_status_def edit_manager_def Let_def empty_patch_def split: sum.splits if_splits)
  have fields: "up_name p \<noteq> None \<or> up_email p \<noteq> None \<or> up_avatar p \<noteq> None \<longrightarrow> hasPermission (act_permissions a) ''users.update''" if "act_user a \<noteq> usr_id u"
    using f that unfolding q by (auto simp: edit_fields_def Let_def is_self_def actor_id_def needs_def may_def empty_patch_def split: if_splits sum.splits)
  have mgr: "up_manager p \<noteq> None \<longrightarrow> hasPermission (act_permissions a) ''users.update''" if "act_user a \<noteq> usr_id u"
    using m that by (auto simp: edit_manager_def is_self_def actor_id_def needs_def may_def split: if_splits sum.splits option.splits)
  have role: "hasPermission (act_permissions a) ''users.assign_role'' \<and> canActOnRole a (Some t) \<and> t \<in> set (roles d) \<and> rol_org t = oid"
    if "up_role p = Some t" for t
    using r that
    by (auto simp: edit_role_def needs_def may_def assertCanActOnRole_ok requestedRole_def Let_def dest: resolveRole_in split: if_splits sum.splits option.splits)
  have status: "up_status p \<noteq> None \<longrightarrow> hasPermission (act_permissions a) ''users.suspend''"
    using s by (auto simp: edit_status_def needs_def may_def split: if_splits sum.splits option.splits)
  have h: "up_hash p = None" using h by simp
  have shape: "apply_patch p u = u\<lparr>usr_name := usr_name (apply_patch p u), usr_email := usr_email (apply_patch p u),
      usr_avatarUrl := usr_avatarUrl (apply_patch p u), usr_manager := usr_manager (apply_patch p u),
      usr_status := usr_status (apply_patch p u), usr_roleId := usr_roleId (apply_patch p u), usr_role := usr_role (apply_patch p u)\<rparr>"
    by (simp add: apply_patch_def set_opt_def h split: option.split)
  have own: "apply_patch p u = u\<lparr>usr_name := usr_name (apply_patch p u)\<rparr>" if "act_user a = usr_id u"
    using self [OF that] by (simp add: apply_patch_def set_opt_def h split: option.split)
  have reach: "within_reach a (target_role d oid u)" if "act_user a \<noteq> usr_id u" using canAct_reach [OF G(3) [OF that]] .
  have given: "\<exists>t. has_role d oid t (apply_patch p u) \<and> within_reach a t" if "up_role p = Some t" for t
    using role [OF that] that by (intro exI [of _ t]) (simp add: has_role_def canAct_reach apply_patch_def set_opt_def split: option.split)
  have kept: "up_name p = None \<Longrightarrow> usr_name (apply_patch p u) = usr_name u" "up_email p = None \<Longrightarrow> usr_email (apply_patch p u) = usr_email u"
    "up_avatar p = None \<Longrightarrow> usr_avatarUrl (apply_patch p u) = usr_avatarUrl u" "up_manager p = None \<Longrightarrow> usr_manager (apply_patch p u) = usr_manager u"
    "up_status p = None \<Longrightarrow> usr_status (apply_patch p u) = usr_status u" "up_role p = None \<Longrightarrow> usr_roleId (apply_patch p u) = usr_roleId u"
    "up_role p = None \<Longrightarrow> usr_role (apply_patch p u) = usr_role u"
    by (simp_all add: apply_patch_def set_opt_def split: option.split)
  show ?thesis unfolding no_gain_def
  proof (intro conjI impI)
    assume "(usr_name (apply_patch p u), usr_email (apply_patch p u), usr_avatarUrl (apply_patch p u), usr_manager (apply_patch p u))
        \<noteq> (usr_name u, usr_email u, usr_avatarUrl u, usr_manager u)" and o: "act_user a \<noteq> usr_id u"
    then have "up_name p \<noteq> None \<or> up_email p \<noteq> None \<or> up_avatar p \<noteq> None \<or> up_manager p \<noteq> None" using kept(1-4) by blast
    then show "hasPermission (act_permissions a) ''users.update''" using fields [OF o] mgr [OF o] by blast
  next
    assume "(usr_roleId (apply_patch p u), usr_role (apply_patch p u)) \<noteq> (usr_roleId u, usr_role u)"
    then obtain t where "up_role p = Some t" using kept(6,7) by blast
    then show "hasPermission (act_permissions a) ''users.assign_role''" "\<exists>r. has_role d oid r (apply_patch p u) \<and> within_reach a r"
      using role given by blast+
  next
    assume "usr_status (apply_patch p u) \<noteq> usr_status u"
    then show "hasPermission (act_permissions a) ''users.suspend''" using kept(5) status by blast
  qed (use shape own reach in blast)+
qed

text \<open>What the follow-up does to the rows: the one account's sessions may be ended.\<close>

lemma edit_follow_up_rows:
  "\<exists>f. (\<forall>u. \<exists>t. f u = u\<lparr>usr_sessionsFrom := t\<rparr>) \<and>
     users (w_db (edit_follow_up now fl lf oid uid p a w)) = update_where (\<lambda>u. usr_id u = uid) f (users (w_db w))"
proof -
  let ?f = "\<lambda>u :: user. u\<lparr>usr_sessionsFrom := Some (math_floor_div now 1000 * 1000)\<rparr>"
  let ?g = "\<lambda>u :: user. u\<lparr>usr_sessionsFrom := usr_sessionsFrom u\<rparr>"
  have "users (w_db (edit_follow_up now fl lf oid uid p a w)) \<in> {users (w_db w), update_where (\<lambda>u. usr_id u = uid) ?f (users (w_db w))}"
    by (auto simp: edit_follow_up_def revokeAllSessions_users revokeAllAccess_users split: option.split)
  then show ?thesis
  proof (elim insertE)
    assume "users (w_db (edit_follow_up now fl lf oid uid p a w)) = users (w_db w)"
    then have "users (w_db (edit_follow_up now fl lf oid uid p a w)) = update_where (\<lambda>u. usr_id u = uid) ?g (users (w_db w))" by simp
    then show ?thesis by (intro exI [of _ ?g] conjI allI) (rule exI, rule refl)
  next
    assume "users (w_db (edit_follow_up now fl lf oid uid p a w)) = update_where (\<lambda>u. usr_id u = uid) ?f (users (w_db w))"
    then show ?thesis by (intro exI [of _ ?f] conjI allI) (rule exI, rule refl)
  qed simp
qed

lemma apply_patch_ids [simp]: "usr_id (apply_patch p u) = usr_id u" "usr_org (apply_patch p u) = usr_org u"
  by (simp_all add: apply_patch_def set_opt_def split: option.split)

text \<open>The rows after an edit: the others as they were, the edited one as returned but for the end of its sessions.\<close>

lemma updateUser_rows:
  assumes "updateUser hash now fl lf oid uid x a ua w = (Inr v, w1)"
  obtains u p t where "find_user (w_db w) uid oid = Some u" "user_patch_of hash (w_db w) oid u x a = Inr p" "v = apply_patch p u"
    "find_user (w_db w1) uid oid = Some (v\<lparr>usr_sessionsFrom := t\<rparr>)"
    "\<forall>q \<in> set (users (w_db w1)). usr_id q \<noteq> uid \<longrightarrow> q \<in> set (users (w_db w))"
proof -
  obtain u p d where u: "find_user (w_db w) uid oid = Some u" "user_patch_of hash (w_db w) oid u x a = Inr p" "v = apply_patch p u"
    and d: "users d = update_where (\<lambda>u. usr_id u = uid) (apply_patch p) (users (w_db w))"
    and w1: "w1 = edit_follow_up now fl lf oid uid p a (w\<lparr>w_db := d\<rparr>)" by (rule updateUser_Inr [OF assms])
  from edit_follow_up_rows [of now fl lf oid uid p a "w\<lparr>w_db := d\<rparr>"] obtain f
    where f: "\<forall>u. \<exists>t. f u = u\<lparr>usr_sessionsFrom := t\<rparr>" and r: "users (w_db w1) = update_where (\<lambda>u. usr_id u = uid) f (users d)"
    by (auto simp: w1)
  have k: "usr_id (f q) = usr_id q \<and> usr_org (f q) = usr_org q" for q
  proof -
    obtain t where "f q = q\<lparr>usr_sessionsFrom := t\<rparr>" using f by blast
    then show ?thesis by simp
  qed
  let ?h = "\<lambda>q. if usr_id q = uid then f (apply_patch p q) else q"
  have m: "users (w_db w1) = map ?h (users (w_db w))" by (simp add: r d update_where_def k)
  have i: "usr_id u = uid" using find_user_SomeD [OF u(1)] by simp
  have "find_user (w_db w1) uid oid = Some (f v)" using find_user_map [OF m, of uid oid] u(1,3) i by (simp add: k)
  moreover obtain t where "f v = v\<lparr>usr_sessionsFrom := t\<rparr>" using f by blast
  moreover have "\<forall>q \<in> set (users (w_db w1)). usr_id q \<noteq> uid \<longrightarrow> q \<in> set (users (w_db w))" unfolding m by (auto simp: k)
  ultimately show thesis using that [OF u] by metis
qed

lemma ensured_role_in:
  assumes "ensured_role fresh oid t d = (Some m, d0)"
  shows "m \<in> set (roles d0) \<and> rol_org m = oid \<and> rol_key m = tier_name t"
  using assms by (auto simp: ensured_role_def Let_def getSystemRole_def find_Some_iff split: option.splits)

text \<open>C10: Nobody gains by editing or creating accounts. A known editor never sets a password; of the own
  account changes nothing but the name; another's account is changed only by an editor whose role
  reaches as far as that account's, with the permission each change needs; and a role that is given,
  by an edit or at creation (the default one aside), is a role of the organization within the editor's
  own reach: no permission the editor lacks, no higher tier, not the owner's role. This holds of the
  stored rows; no other account is changed by an edit, and a creation adds one row.\<close>

theorem account_edits_never_escalate:
  "(updateUser hash now fl lf oid uid x (Some a) ua w = (Inr v, w1) \<longrightarrow>
      (\<exists>u t. find_user (w_db w) uid oid = Some u \<and> no_gain (w_db w) oid a u v
         \<and> find_user (w_db w1) uid oid = Some (v\<lparr>usr_sessionsFrom := t\<rparr>)
         \<and> (\<forall>q \<in> set (users (w_db w1)). usr_id q \<noteq> uid \<longrightarrow> q \<in> set (users (w_db w)))))
   \<and> (createUser hash fresh newId oid y (Some a) caller ua d = (Inr n, d1) \<longrightarrow>
      (\<exists>r. has_role d1 oid r n
         \<and> users d1 = users (snd (ensured_role fresh oid Member d)) @ [n] \<and> usr_id n = newId \<and> usr_org n = oid
         \<and> (within_reach a r \<and> hasPermission (act_permissions a) ''users.assign_role''
            \<or> holds (\<lambda>m. rol_id m = rol_id r) (fst (ensured_role fresh oid Member d)))))"
proof (intro conjI impI)
  assume "updateUser hash now fl lf oid uid x (Some a) ua w = (Inr v, w1)"
  then show "\<exists>u t. find_user (w_db w) uid oid = Some u \<and> no_gain (w_db w) oid a u v
         \<and> find_user (w_db w1) uid oid = Some (v\<lparr>usr_sessionsFrom := t\<rparr>)
         \<and> (\<forall>q \<in> set (users (w_db w1)). usr_id q \<noteq> uid \<longrightarrow> q \<in> set (users (w_db w)))"
    by (rule updateUser_rows) (use patch_no_gain in blast)
next
  assume c: "createUser hash fresh newId oid y (Some a) caller ua d = (Inr n, d1)"
  obtain om d0 where e: "ensured_role fresh oid Member d = (om, d0)" by force
  from c e obtain r ids gs where k: "create_checks d0 oid om y (Some a) caller = Inr (r, ids, gs)" "n = create_row hash newId oid y r"
    and u: "users d1 = users d0 @ [n]" "roles d1 = roles d0"
    by (auto simp: createUser_def groups_audit_def Let_def split: if_splits sum.splits)
  have cr: "create_role d0 oid om y (Some a) = Inr r"
    using k(1) by (auto simp: create_checks_def split: sum.splits if_splits)
  obtain m where m: "om = Some m" using cr by (cases om) (simp_all add: create_role_def)
  have "r \<in> set (roles d0) \<and> rol_org r = oid"
    using cr m e ensured_role_in [of fresh oid Member d m d0]
    by (auto simp: create_role_def requestedRole_def Let_def dest: resolveRole_in split: option.splits sum.splits if_splits)
  moreover have "within_reach a r \<and> hasPermission (act_permissions a) ''users.assign_role'' \<or> holds (\<lambda>m. rol_id m = rol_id r) om"
    using cr by (auto simp: create_role_def Let_def assertCanActOnRole_ok intro: canAct_reach split: option.splits sum.splits if_splits)
  ultimately show "\<exists>r. has_role d1 oid r n
         \<and> users d1 = users (snd (ensured_role fresh oid Member d)) @ [n] \<and> usr_id n = newId \<and> usr_org n = oid
         \<and> (within_reach a r \<and> hasPermission (act_permissions a) ''users.assign_role''
            \<or> holds (\<lambda>m. rol_id m = rol_id r) (fst (ensured_role fresh oid Member d)))"
    using k(2) e u by (intro exI [of _ r]) (simp add: has_role_def create_row_def blank_user_def)
qed

definition act_adm :: actor where
  "act_adm = \<lparr>act_user = ''r1'', act_roleId = None, act_tier = Admin, act_permissions = [''users.update'', ''users.create'']\<rparr>"

definition roles_db :: db where
  "roles_db = owners_db\<lparr>roles := [(mk_role ''rm'' ''member'' Member [])\<lparr>rol_isSystem := True\<rparr>]\<rparr>"

definition new_person :: new_user_data where
  "new_person = \<lparr>nu_email = ''n@x'', nu_name = ''n'', nu_password = None, nu_manager = None, nu_status = None, nu_role = None,
     nu_roleId = None, nu_scope = None, nu_customers = [], nu_groups = None\<rparr>"

lemma account_edits_never_escalate_witness:
  "\<exists>v w1 n d1. updateUser (\<lambda>s. s) 5000 no_fault False ''o'' ''m'' (no_edit\<lparr>ue_name := Some ''x''\<rparr>) (Some act_adm) None (quiet roles_db) = (Inr v, w1)
     \<and> (\<exists>u. find_user roles_db ''m'' ''o'' = Some u \<and> no_gain roles_db ''o'' act_adm u v)
     \<and> createUser (\<lambda>s. s) (\<lambda>s. s) ''new'' ''o'' new_person (Some act_adm) ScopeAll None roles_db = (Inr n, d1)
     \<and> (\<exists>r. has_role d1 ''o'' r n)"
proof -
  let ?u = "updateUser (\<lambda>s. s) 5000 no_fault False ''o'' ''m'' (no_edit\<lparr>ue_name := Some ''x''\<rparr>) (Some act_adm) None (quiet roles_db)"
  let ?c = "createUser (\<lambda>s. s) (\<lambda>s. s) ''new'' ''o'' new_person (Some act_adm) ScopeAll None roles_db"
  have "case fst ?u of Inr _ \<Rightarrow> True | _ \<Rightarrow> False" "case fst ?c of Inr _ \<Rightarrow> True | _ \<Rightarrow> False" by code_simp+
  then obtain v w1 n d1 where k: "?u = (Inr v, w1)" "?c = (Inr n, d1)" by (cases ?u; cases ?c) (auto split: sum.splits)
  have q: "w_db (quiet roles_db) = roles_db" by (simp add: quiet_def)
  note E = account_edits_never_escalate [of "\<lambda>s. s" 5000 no_fault False "''o''" "''m''" "no_edit\<lparr>ue_name := Some ''x''\<rparr>" act_adm None "quiet roles_db" v w1
    "\<lambda>s. s" "''new''" new_person ScopeAll roles_db n d1, unfolded q]
  have "\<exists>u. find_user roles_db ''m'' ''o'' = Some u \<and> no_gain roles_db ''o'' act_adm u v" using mp [OF conjunct1 [OF E] k(1)] by blast
  moreover have "\<exists>r. has_role d1 ''o'' r n" using mp [OF conjunct2 [OF E] k(2)] by blast
  ultimately show ?thesis using k by (intro exI [of _ v] exI [of _ w1] exI [of _ n] exI [of _ d1]) simp
qed

end
