(* ===== verification/ServiceClaims.thy ===== *)
theory ServiceClaims
  imports UserClaims ServiceAccounts
begin

text \<open>
  The properties of API tokens, of scope grants, of the device flow, of one-time links and of
  what the audit log keeps of secrets.
\<close>

section \<open>API tokens\<close>

lemma effectivePermissions_bound:
  "k \<in> set (effectivePermissions u r scopes) \<Longrightarrow>
     k \<in> set (permissionsForUser u r) \<and> k \<notin> set NON_DELEGABLE_PERMISSIONS \<and> (scopes \<noteq> [] \<longrightarrow> k \<in> set scopes)"
  by (auto simp: effectivePermissions_def Let_def split: if_splits)

lemma live_token_Inr:
  "live_token sha now raw d = Inr (t, u) \<Longrightarrow> t \<in> set (apiTokens d) \<and> at_hash t = sha raw \<and> at_revokedAt t = None \<and> now < at_expiresAt t
     \<and> find_user_id d (at_user t) = Some u \<and> usr_org u = at_org t \<and> usr_status u = Active"
  by (auto simp: live_token_def split: option.splits if_splits dest: find_SomeD)

lemma apiTokenAuth_Inr:
  assumes "apiTokenAuth sha rc now q d = (Inr ru, d')"
  obtains t u where "looksLikeApiToken (bearerOf q)" "\<not> isForbiddenPath q" "live_token sha now (bearerOf q) d = Inr (t, u)"
    "ru = (hydrateRequestUser d u None (Some (effectivePermissions u (relation_role d u) (at_scopes t))))\<lparr>ru_token := Some (at_id t)\<rparr>"
    "d' = d \<or> d' = update_token (at_id t) (\<lambda>r. r\<lparr>at_lastUsedAt := Some now, at_lastUsedIp := hr_ip q\<rparr>) d"
proof -
  have l: "looksLikeApiToken (bearerOf q)" "\<not> isForbiddenPath q"
    using assms by (simp_all add: apiTokenAuth_def Let_def split: if_splits)
  then obtain t u where tu: "live_token sha now (bearerOf q) d = Inr (t, u)"
    using assms by (cases "live_token sha now (bearerOf q) d") (auto simp: apiTokenAuth_def Let_def)
  show thesis
    by (rule that [OF l tu]) (use assms l tu in \<open>simp_all add: apiTokenAuth_def Let_def split: if_splits\<close>)
qed

text \<open>C12: A request with an API token acts as the token's account with at most what that account's role
  gives it at that moment, at most the token's scopes when it has any, and never a permission that
  stays with people, so a route that requires one refuses it. The token is unrevoked and unexpired,
  its account active and in the token's organization, the path is not among the forbidden ones, and
  nothing but the time and address of the last use is written.\<close>

theorem api_token_is_bounded:
  assumes "apiTokenAuth sha rc now q d = (Inr ru, d')"
  shows "(\<exists>t u. t \<in> set (apiTokens d) \<and> at_hash t = sha (bearerOf q) \<and> at_revokedAt t = None \<and> now < at_expiresAt t
      \<and> find_user_id d (at_user t) = Some u \<and> usr_status u = Active \<and> usr_org u = at_org t \<and> ru_id ru = usr_id u \<and> ru_org ru = at_org t
      \<and> set (ru_permissions ru) \<subseteq> set (permissionsForUser u (relation_role d u)) \<and> (at_scopes t \<noteq> [] \<longrightarrow> set (ru_permissions ru) \<subseteq> set (at_scopes t)))
    \<and> (\<forall>ks. set ks \<inter> set NON_DELEGABLE_PERMISSIONS \<noteq> {} \<longrightarrow> requirePermission ks (Some ru) \<noteq> Inr ())
    \<and> \<not> isForbiddenPath q \<and> d' = d\<lparr>apiTokens := apiTokens d'\<rparr>
    \<and> map (\<lambda>t. t\<lparr>at_lastUsedAt := None, at_lastUsedIp := None\<rparr>) (apiTokens d') = map (\<lambda>t. t\<lparr>at_lastUsedAt := None, at_lastUsedIp := None\<rparr>) (apiTokens d)"
proof -
  from assms obtain t u where A: "\<not> isForbiddenPath q" "live_token sha now (bearerOf q) d = Inr (t, u)"
    "ru = (hydrateRequestUser d u None (Some (effectivePermissions u (relation_role d u) (at_scopes t))))\<lparr>ru_token := Some (at_id t)\<rparr>"
    "d' = d \<or> d' = update_token (at_id t) (\<lambda>r. r\<lparr>at_lastUsedAt := Some now, at_lastUsedIp := hr_ip q\<rparr>) d"
    by (rule apiTokenAuth_Inr)
  note L = live_token_Inr [OF A(2)]
  have ru: "ru_permissions ru = effectivePermissions u (relation_role d u) (at_scopes t)" "ru_id ru = usr_id u" "ru_org ru = usr_org u"
    unfolding A(3) by (simp_all add: hydrateRequestUser_def)
  have P: "set (ru_permissions ru) \<subseteq> set (permissionsForUser u (relation_role d u))" "at_scopes t \<noteq> [] \<longrightarrow> set (ru_permissions ru) \<subseteq> set (at_scopes t)"
    "set (ru_permissions ru) \<inter> set NON_DELEGABLE_PERMISSIONS = {}"
    unfolding ru(1) using effectivePermissions_bound [of _ u "relation_role d u" "at_scopes t"] by blast+
  have "requirePermission ks (Some ru) \<noteq> Inr ()" if "set ks \<inter> set NON_DELEGABLE_PERMISSIONS \<noteq> {}" for ks
    using that P(3) by (auto simp: requirePermission_def)
  moreover have "d' = d\<lparr>apiTokens := apiTokens d'\<rparr>" using A(4) by (auto simp: update_token_def)
  moreover have "map (\<lambda>t. t\<lparr>at_lastUsedAt := None, at_lastUsedIp := None\<rparr>) (apiTokens d') = map (\<lambda>t. t\<lparr>at_lastUsedAt := None, at_lastUsedIp := None\<rparr>) (apiTokens d)"
    using A(4) by (auto simp: update_token_def update_where_def)
  ultimately show ?thesis using A(1) L P(1,2) ru(2,3) by (intro conjI exI [of _ t] exI [of _ u]) auto
qed

section \<open>The life of a token\<close>

lemma find_fresh_last:
  "\<forall>x \<in> set xs. \<not> P x \<Longrightarrow> P y \<Longrightarrow> find P (xs @ [y]) = Some y"
  by (induction xs) auto

lemma createToken_Inr:
  assumes "createToken toIso lim sha rnd newId now oid x creator d = (Inr (plain, t), d')"
  obtains ss expires where "token_checks lim now oid x d = Inr (ss, expires)" "plain = mt_token (generateApiToken sha rnd (ta_kind x))"
    "t = new_token sha rnd newId now oid x ss expires creator" "apiTokens d' = apiTokens d @ [t]" "users d' = users d"
  using assms by (auto simp: createToken_def Let_def split: sum.splits prod.splits)

lemma normalizeScopes_from_Inr:
  "normalizeScopes_from out xs = Inr ss \<Longrightarrow> set ss \<subseteq> set out \<union> {k. isPermission k \<and> k \<notin> set NON_DELEGABLE_PERMISSIONS}"
proof (induction out xs rule: normalizeScopes_from.induct)
  case (2 out raw xs)
  then show ?case by (auto simp: Let_def split: if_splits)
qed simp

lemma expiryFrom_Inr:
  "expiryFrom lim now days = Inr t \<Longrightarrow> now + 24 * 60 * 60 * 1000 \<le> t \<and> t \<le> now + tl_maxDays lim * 24 * 60 * 60 * 1000"
  by (auto simp: expiryFrom_def Let_def split: if_splits)

lemma token_checks_Inr:
  assumes "token_checks lim now oid x d = Inr (ss, expires)"
  obtains u where "find_user d (ta_user x) oid = Some u" "usr_status u = Active"
    "now + 24 * 60 * 60 * 1000 \<le> expires" "expires \<le> now + tl_maxDays lim * 24 * 60 * 60 * 1000"
    "set ss \<inter> set NON_DELEGABLE_PERMISSIONS = {}"
  using assms normalizeScopes_from_Inr [of "[]" "ta_scopes x" ss] expiryFrom_Inr [of lim now "ta_days x" expires]
  by (auto simp: token_checks_def normalizeScopes_def split: if_splits option.splits sum.splits)

lemma find_user_unique:
  assumes "distinct (map usr_id (users d))" and "find_user d i oid = Some u"
  shows "find_user_id d i = Some u"
proof -
  have u: "u \<in> set (users d)" "usr_id u = i" using find_user_SomeD [OF assms(2)] by auto
  obtain v where v: "find_user_id d i = Some v"
    using u by (cases "find_user_id d i") (auto simp: find_user_id_def find_None_iff_all)
  then have "v \<in> set (users d)" "usr_id v = i" using find_user_id_SomeD by blast+
  then show ?thesis using v u assms(1) by (simp add: distinct_map inj_on_def)
qed

lemma live_tokenI:
  assumes "find (\<lambda>t. at_hash t = sha raw) (apiTokens d) = Some t" and "at_revokedAt t = None" and "now < at_expiresAt t"
    and "find_user_id d (at_user t) = Some u" and "usr_org u = at_org t" and "usr_status u = Active"
  shows "live_token sha now raw d = Inr (t, u)"
  using assms by (simp add: live_token_def)

lemma update_where_last: "\<forall>y \<in> set xs. \<not> P y \<Longrightarrow> P z \<Longrightarrow> update_where P f (xs @ [z]) = xs @ [f z]"
  by (simp add: update_where_append update_where_none) (simp add: update_where_def)

lemma token_audit_frames [simp]:
  "apiTokens (token_audit oid c a t ex d) = apiTokens d" "users (token_audit oid c a t ex d) = users d"
  by (simp_all add: token_audit_def)

lemma update_token_frames [simp]:
  "apiTokens (update_token i f d) = update_where (\<lambda>t. at_id t = i) f (apiTokens d)" "users (update_token i f d) = users d"
  by (simp_all add: update_token_def)

text \<open>The last row of a table, whose id and hash no other row has.\<close>

definition newest :: "(string \<Rightarrow> string) \<Rightarrow> string \<Rightarrow> api_token \<Rightarrow> db \<Rightarrow> bool" where
  "newest sha raw t d =
     (\<exists>ts. apiTokens d = ts @ [t] \<and> at_hash t = sha raw \<and> (\<forall>y \<in> set ts. at_hash y \<noteq> sha raw \<and> at_id y \<noteq> at_id t))"

lemma newest_find: "newest sha raw t d \<Longrightarrow> find (\<lambda>t. at_hash t = sha raw) (apiTokens d) = Some t"
  by (auto simp: newest_def find_fresh_last)

lemma newest_owned:
  assumes "newest sha raw t d"
  shows "loadOwned (at_org t) (at_id t) uo d =
    (if truthy uo \<longrightarrow> uo = Some (at_user t) then Inr t else Inl (api_error 404 ''Token not found''))"
proof (cases "truthy uo \<longrightarrow> uo = Some (at_user t)")
  case True
  then show ?thesis using assms by (auto simp: newest_def loadOwned_def find_fresh_last)
next
  case False
  then have "find (\<lambda>y. at_id y = at_id t \<and> at_org y = at_org t \<and> (truthy uo \<longrightarrow> Some (at_user y) = uo)) (apiTokens d) = None"
    using assms by (auto simp: newest_def find_None_iff_all)
  then show ?thesis using False by (simp add: loadOwned_def)
qed

lemma newest_update:
  assumes "newest sha raw t d" and "\<And>y. at_id (f y) = at_id y"
  obtains ts where "apiTokens d = ts @ [t]" "apiTokens (update_token (at_id t) f d) = ts @ [f t]" "\<forall>y \<in> set ts. at_hash y \<noteq> sha raw \<and> at_id y \<noteq> at_id t"
proof -
  obtain ts where "apiTokens d = ts @ [t]" "\<forall>y \<in> set ts. at_hash y \<noteq> sha raw \<and> at_id y \<noteq> at_id t" using assms(1) by (auto simp: newest_def)
  then show thesis using that [of ts] by (simp add: update_where_last)
qed

lemma newest_revoked:
  assumes "newest sha raw t d" and "at_revokedAt t = None" and "truthy uo \<longrightarrow> uo = Some (at_user t)"
  shows "live_token sha now raw (snd (revokeToken now2 (at_org t) (at_id t) uo reason b d)) =
    Inl (token_error ''This API token has been revoked'' ''TOKEN_REVOKED'')"
proof -
  let ?f = "\<lambda>r. r\<lparr>at_revokedAt := Some now2, at_revokedBy := b, at_revokedReason := reason\<rparr>"
  obtain ts where ts: "apiTokens (update_token (at_id t) ?f d) = ts @ [?f t]" "\<forall>y \<in> set ts. at_hash y \<noteq> sha raw \<and> at_id y \<noteq> at_id t"
    by (rule newest_update [OF assms(1), of ?f]) simp_all
  have "apiTokens (snd (revokeToken now2 (at_org t) (at_id t) uo reason b d)) = ts @ [?f t]"
    using newest_owned [OF assms(1), of uo] assms(2,3) ts(1) by (simp add: revokeToken_def)
  moreover have "find (\<lambda>t. at_hash t = sha raw) (ts @ [?f t]) = Some (?f t)"
    by (rule find_fresh_last) (use ts(2) assms(1) in \<open>auto simp: newest_def\<close>)
  ultimately show ?thesis by (simp add: live_token_def)
qed

lemma newest_rotated:
  assumes "newest sha raw t d" and "at_revokedAt t = None"
    and "sha (mt_token (generateApiToken sha rnd (at_kind t))) \<notin> at_hash ` set (apiTokens d)"
  obtains t2 d2 where "rotateToken sha rnd now2 (at_org t) (at_id t) None b d = (Inr (mt_token (generateApiToken sha rnd (at_kind t))), d2)"
    "newest sha (mt_token (generateApiToken sha rnd (at_kind t))) t2 d2" "users d2 = users d"
    "at_id t2 = at_id t \<and> at_org t2 = at_org t \<and> at_user t2 = at_user t \<and> at_expiresAt t2 = at_expiresAt t \<and> at_revokedAt t2 = None"
    "find (\<lambda>t. at_hash t = sha raw) (apiTokens d2) = None"
proof -
  let ?m = "generateApiToken sha rnd (at_kind t)"
  let ?f = "\<lambda>r. r\<lparr>at_hash := mt_hash ?m, at_prefix := mt_prefix ?m, at_rotatedAt := Some now2, at_lastUsedAt := None, at_lastUsedIp := None\<rparr>"
  let ?d2 = "token_audit (at_org t) b ''api_token.rotate'' t [] (update_token (at_id t) ?f d)"
  have m: "mt_hash ?m = sha (mt_token ?m)" by (simp add: generateApiToken_def Let_def)
  obtain ts where ts: "apiTokens d = ts @ [t]" "apiTokens (update_token (at_id t) ?f d) = ts @ [?f t]" "\<forall>y \<in> set ts. at_hash y \<noteq> sha raw \<and> at_id y \<noteq> at_id t"
    by (rule newest_update [OF assms(1), of ?f]) simp_all
  have r: "rotateToken sha rnd now2 (at_org t) (at_id t) None b d = (Inr (mt_token ?m), ?d2)"
    using newest_owned [OF assms(1), of None] assms(2) by (simp add: rotateToken_def Let_def)
  have new: "\<forall>y \<in> set ts. at_hash y \<noteq> mt_hash ?m" "at_hash t \<noteq> mt_hash ?m" using assms(3) unfolding ts(1) m by force+
  have n: "newest sha (mt_token ?m) (?f t) ?d2"
    unfolding newest_def using ts(2,3) new(1) m by (intro exI [of _ ts]) simp
  have "at_hash t = sha raw" using assms(1) by (auto simp: newest_def)
  then have none: "find (\<lambda>t. at_hash t = sha raw) (apiTokens ?d2) = None"
    using ts(2,3) new(2) by (simp add: find_None_iff_all)
  show thesis by (rule that [OF r n]) (use none assms(2) in simp_all)
qed

text \<open>C34: A token that was created works: until it expires, the text handed out is found and stands for the
  new row and its active owner. Rotated, the new text works under the same row and the old one is
  unknown; revoked, it is refused for good. Its expiry lies between one day and the allowed maximum.\<close>

theorem api_token_life:
  assumes "createToken toIso lim sha rnd newId now oid x creator d = (Inr (plain, t), d1)"
    and "\<forall>y \<in> set (apiTokens d). at_hash y \<noteq> sha plain \<and> at_id y \<noteq> newId" and "distinct (map usr_id (users d))"
    and "sha (mt_token (generateApiToken sha rnd2 (at_kind t))) \<notin> at_hash ` set (apiTokens d1)"
  shows "now + 24 * 60 * 60 * 1000 \<le> at_expiresAt t \<and> at_expiresAt t \<le> now + tl_maxDays lim * 24 * 60 * 60 * 1000
    \<and> set (at_scopes t) \<inter> set NON_DELEGABLE_PERMISSIONS = {}
    \<and> (\<exists>u. find_user d (ta_user x) oid = Some u \<and> (now' < at_expiresAt t \<longrightarrow> live_token sha now' plain d1 = Inr (t, u))
        \<and> (\<exists>plain2 t2 d2. rotateToken sha rnd2 now2 oid newId None b d1 = (Inr plain2, d2) \<and> at_id t2 = newId
             \<and> (now' < at_expiresAt t \<longrightarrow> live_token sha now' plain2 d2 = Inr (t2, u))
             \<and> live_token sha now' plain d2 = Inl (token_error ''Invalid API token'' ''TOKEN_INVALID'')))
    \<and> live_token sha now' plain (snd (revokeToken now2 oid newId None reason b d1)) =
        Inl (token_error ''This API token has been revoked'' ''TOKEN_REVOKED'')"
proof -
  from assms(1) obtain ss expires where k: "token_checks lim now oid x d = Inr (ss, expires)" and p: "plain = mt_token (generateApiToken sha rnd (ta_kind x))"
    and t: "t = new_token sha rnd newId now oid x ss expires creator" and d1: "apiTokens d1 = apiTokens d @ [t]" "users d1 = users d"
    by (rule createToken_Inr)
  obtain u where u: "find_user d (ta_user x) oid = Some u" "usr_status u = Active" and ex: "now + 24 * 60 * 60 * 1000 \<le> expires"
    "expires \<le> now + tl_maxDays lim * 24 * 60 * 60 * 1000" and nd: "set ss \<inter> set NON_DELEGABLE_PERMISSIONS = {}"
    by (rule token_checks_Inr [OF k])
  have T: "at_id t = newId" "at_hash t = sha plain" "at_org t = oid" "at_user t = ta_user x" "at_revokedAt t = None" "at_expiresAt t = expires" "at_scopes t = ss"
    unfolding t p by (simp_all add: new_token_def Let_def generateApiToken_def)
  have U: "find_user_id d' (ta_user x) = Some u" "usr_org u = oid" if "users d' = users d" for d'
    using find_user_unique [OF assms(3) u(1)] find_user_SomeD [OF u(1)] that by (auto simp: find_user_id_def)
  have n: "newest sha plain t d1" using d1 assms(2) T by (auto simp: newest_def)
  have live: "now' < at_expiresAt t \<longrightarrow> live_token sha now' plain d1 = Inr (t, u)"
    by (intro impI live_tokenI newest_find [OF n]) (use U [OF d1(2)] u(2) T in simp_all)
  obtain t2 d2 where r: "rotateToken sha rnd2 now2 oid newId None b d1 = (Inr (mt_token (generateApiToken sha rnd2 (at_kind t))), d2)"
    "newest sha (mt_token (generateApiToken sha rnd2 (at_kind t))) t2 d2" "users d2 = users d1"
    "at_id t2 = newId \<and> at_org t2 = oid \<and> at_user t2 = at_user t \<and> at_expiresAt t2 = at_expiresAt t \<and> at_revokedAt t2 = None"
    "find (\<lambda>t. at_hash t = sha plain) (apiTokens d2) = None"
    by (rule newest_rotated [OF n T(5) assms(4), of now2 b, unfolded T(1,3)])
  have "now' < at_expiresAt t \<longrightarrow> live_token sha now' (mt_token (generateApiToken sha rnd2 (at_kind t))) d2 = Inr (t2, u)"
    by (intro impI live_tokenI newest_find [OF r(2)]) (use r(3,4) U [of d2] d1(2) u(2) T in simp_all)
  moreover have "live_token sha now' plain d2 = Inl (token_error ''Invalid API token'' ''TOKEN_INVALID'')"
    using r(5) by (simp add: live_token_def)
  moreover have "live_token sha now' plain (snd (revokeToken now2 oid newId None reason b d1)) =
      Inl (token_error ''This API token has been revoked'' ''TOKEN_REVOKED'')"
    using newest_revoked [OF n T(5), of None] T(1,3) by simp
  ultimately show ?thesis using ex nd u live r(1,4) T by auto
qed

definition lim5 :: token_limits where
  "lim5 = \<lparr>tl_maxDays = 365, tl_maxPerUser = 5\<rparr>"

definition mem_token :: token_args where
  "mem_token = \<lparr>ta_user = ''mem'', ta_kind = ''personal'', ta_name = ''ci'', ta_description = None, ta_scopes = [''servers.view''], ta_days = Some 30\<rparr>"

definition token_db :: db where
  "token_db = snd (createToken (\<lambda>_. []) lim5 (\<lambda>s. s) ''abcdefghij'' ''tk'' 1000 ''o'' mem_token None auth_db)"

definition token_req :: http_req where
  "token_req = \<lparr>hr_method = ''GET'', hr_url = ''/api/servers?x=1'', hr_authorization = Some ''Bearer shp_abcdefghij'', hr_ip = None\<rparr>"

lemma api_token_is_bounded_witness:
  "\<exists>ru d'. apiTokenAuth (\<lambda>s. s) True 2000 token_req token_db = (Inr ru, d') \<and> ru_permissions ru = [''servers.view'']
     \<and> requirePermission [''roles.manage''] (Some ru) \<noteq> Inr () \<and> ''roles.manage'' \<in> set NON_DELEGABLE_PERMISSIONS"
proof -
  have "case fst (apiTokenAuth (\<lambda>s. s) True 2000 token_req token_db) of Inr ru \<Rightarrow> ru_permissions ru = [''servers.view''] | Inl _ \<Rightarrow> False" by code_simp
  then obtain ru d' where r: "apiTokenAuth (\<lambda>s. s) True 2000 token_req token_db = (Inr ru, d')" "ru_permissions ru = [''servers.view'']"
    by (cases "apiTokenAuth (\<lambda>s. s) True 2000 token_req token_db") (auto split: sum.splits)
  have n: "''roles.manage'' \<in> set NON_DELEGABLE_PERMISSIONS" by code_simp
  then show ?thesis using api_token_is_bounded [OF r(1)] r by auto
qed

lemma api_token_life_witness:
  "\<exists>t d1. createToken (\<lambda>_. []) lim5 (\<lambda>s. s) ''abcdefghij'' ''tk'' 1000 ''o'' mem_token None auth_db = (Inr (''shp_abcdefghij'', t), d1)
     \<and> live_token (\<lambda>s. s) 2000 ''shp_abcdefghij'' d1 = Inr (t, u_pw)
     \<and> live_token (\<lambda>s. s) 2000 ''shp_abcdefghij'' (snd (revokeToken 1500 ''o'' ''tk'' None None None d1)) =
         Inl (token_error ''This API token has been revoked'' ''TOKEN_REVOKED'')"
proof -
  let ?c = "createToken (\<lambda>_. []) lim5 (\<lambda>s. s) ''abcdefghij'' ''tk'' 1000 ''o'' mem_token None auth_db"
  have k: "case fst ?c of Inr (p, t) \<Rightarrow> p = ''shp_abcdefghij'' \<and> at_kind t = ''personal'' \<and> 2000 < at_expiresAt t | Inl _ \<Rightarrow> False"
    "map at_hash (apiTokens (snd ?c)) = [''shp_abcdefghij'']" by code_simp+
  from k obtain t d1 where c: "?c = (Inr (''shp_abcdefghij'', t), d1)" "at_kind t = ''personal''" "2000 < at_expiresAt t" "map at_hash (apiTokens d1) = [''shp_abcdefghij'']"
    by (cases ?c) (auto split: sum.splits)
  have h: "\<forall>y \<in> set (apiTokens auth_db). at_hash y \<noteq> (\<lambda>s. s) ''shp_abcdefghij'' \<and> at_id y \<noteq> ''tk''" "distinct (map usr_id (users auth_db))"
    "find_user auth_db (ta_user mem_token) ''o'' = Some u_pw" by code_simp+
  have f: "(\<lambda>s. s) (mt_token (generateApiToken (\<lambda>s. s) ''z'' (at_kind t))) \<notin> at_hash ` set (apiTokens d1)"
  proof -
    have "at_hash ` set (apiTokens d1) = {''shp_abcdefghij''}" using arg_cong [OF c(4), of set] by simp
    moreover have "mt_token (generateApiToken (\<lambda>s. s) ''z'' ''personal'') = ''shp_z''" by code_simp
    ultimately show ?thesis using c(2) by simp
  qed
  show ?thesis
    using api_token_life [OF c(1) h(1,2) f, of 2000 1500 None None] c(3) h(3) by (intro exI [of _ t] exI [of _ d1] conjI c(1)) auto
qed

section \<open>Scope grants\<close>

lemma all_found:
  assumes "distinct (map cus_id cs)" and "length (filter (\<lambda>c. cus_id c \<in> set want \<and> P c) cs) = length want"
    and "distinct want" and "i \<in> set want"
  shows "\<exists>c \<in> set cs. cus_id c = i \<and> P c"
proof -
  let ?f = "filter (\<lambda>c. cus_id c \<in> set want \<and> P c) cs"
  have "distinct (map cus_id ?f)" using assms(1) by (simp add: distinct_map_filter)
  then have "card (set (map cus_id ?f)) = length want" using assms(2) by (metis distinct_card length_map)
  moreover have "set (map cus_id ?f) \<subseteq> set want" by auto
  ultimately have "set (map cus_id ?f) = set want" using assms(3) by (metis List.finite_set card_subset_eq distinct_card)
  then show ?thesis using assms(4) by (force simp: image_iff)
qed

text \<open>A scope grant names only what its giver sees: when setting the scope of an account or of a group to
  customers succeeds, the giver may assign scopes, and every customer granted exists in the
  organization and lies within the giver's own scope. Nobody sets the scope of the own account.\<close>

theorem scope_grants_stay_visible:
  assumes "distinct (map cus_id (customers d))"
  shows "(assignUserScope oid uid sc ids (Some a) caller ua d = (Inr want, d1) \<longrightarrow> act_user a \<noteq> uid \<and> hasPermission (act_permissions a) ''users.assign_scope''
      \<and> (\<forall>i \<in> set want. i \<in> set ids \<and> (\<exists>c \<in> set (customers d). cus_id c = i \<and> cus_org c = oid \<and> customerScopeWhere caller c)))
    \<and> (assignGroupScope oid gid sc ids (Some a) caller ua d = (Inr want2, d2) \<longrightarrow> hasPermission (act_permissions a) ''users.assign_scope''
      \<and> (\<forall>i \<in> set want2. i \<in> set ids \<and> (\<exists>c \<in> set (customers d). cus_id c = i \<and> cus_org c = oid \<and> customerScopeWhere caller c)))"
proof (intro conjI impI, goal_cases)
  case 1 then show ?case by (auto simp: assignUserScope_def actor_id_def)
next
  case 2 then show ?case by (auto simp: assignUserScope_def validateScopeGrant_def may_def split: if_splits option.splits)
next
  case 3
  then have "validateScopeGrant d oid (Some a) caller sc ids = Inr want"
    by (auto simp: assignUserScope_def Let_def split: if_splits option.splits sum.splits)
  then have w: "want = (if sc = SCOPE_CUSTOMERS then uniq ids else [])"
    "want \<noteq> [] \<longrightarrow> length (filter (\<lambda>c. cus_id c \<in> set want \<and> cus_org c = oid \<and> customerScopeWhere caller c) (customers d)) = length want"
    unfolding validateScopeGrant_def Let_def by (auto split: if_splits)
  show ?case using w all_found [OF assms, of want "\<lambda>c. cus_org c = oid \<and> customerScopeWhere caller c"] by (cases "want = []") (auto split: if_splits)
next
  case 4 then show ?case by (auto simp: assignGroupScope_def may_def split: if_splits)
next
  case 5
  then have w: "want2 = (if sc = SCOPE_CUSTOMERS then uniq ids else [])"
    "want2 \<noteq> [] \<longrightarrow> length (filter (\<lambda>c. cus_id c \<in> set want2 \<and> cus_org c = oid \<and> customerScopeWhere caller c) (customers d)) = length want2"
    unfolding assignGroupScope_def Let_def grantable_customers_def by (auto split: if_splits option.splits)
  show ?case using w all_found [OF assms, of want2 "\<lambda>c. cus_org c = oid \<and> customerScopeWhere caller c"] by (cases "want2 = []") (auto split: if_splits)
qed

definition act_scoper :: actor where
  "act_scoper = \<lparr>act_user = ''adm'', act_roleId = None, act_tier = Admin, act_permissions = [''users.assign_scope'']\<rparr>"

definition mk_grp :: "id \<Rightarrow> access_scope \<Rightarrow> grp" where
  "mk_grp i sc = \<lparr>grp_id = i, grp_org = ''o'', grp_name = i, grp_scope = sc, grp_description = None\<rparr>"

text \<open>An administrator who is scoped to one customer, in a group scoped to that customer.\<close>

definition scoped_db :: db where
  "scoped_db = sample_db\<lparr>users := [(mk_user ''adm'' Admin SCOPE_CUSTOMERS), u_mem], groups := [mk_grp ''g'' SCOPE_CUSTOMERS],
     userScopes := [\<lparr>scr_owner = ''adm'', scr_customer = ''c1''\<rparr>], groupScopes := [\<lparr>scr_owner = ''g'', scr_customer = ''c1''\<rparr>],
     memberships := [\<lparr>mem_group = ''g'', mem_user = ''adm'', mem_addedBy = None\<rparr>]\<rparr>"

lemma scope_grants_stay_visible_witness:
  "\<exists>d1. assignUserScope ''o'' ''mem'' SCOPE_CUSTOMERS [''c1''] (Some act_scoper) (ScopeCustomers [''c1'']) None scoped_db = (Inr [''c1''], d1)
     \<and> (\<exists>c \<in> set (customers scoped_db). cus_id c = ''c1'' \<and> customerScopeWhere (ScopeCustomers [''c1'']) c)
     \<and> fst (assignUserScope ''o'' ''mem'' SCOPE_CUSTOMERS [''c2''] (Some act_scoper) (ScopeCustomers [''c1'']) None scoped_db) =
         Inl (api_error 404 ''One or more customers not found'')"
proof -
  let ?a = "assignUserScope ''o'' ''mem'' SCOPE_CUSTOMERS [''c1''] (Some act_scoper) (ScopeCustomers [''c1'']) None scoped_db"
  have k: "fst ?a = Inr [''c1'']" "distinct (map cus_id (customers scoped_db))"
    "fst (assignUserScope ''o'' ''mem'' SCOPE_CUSTOMERS [''c2''] (Some act_scoper) (ScopeCustomers [''c1'']) None scoped_db) =
      Inl (api_error 404 ''One or more customers not found'')" by code_simp+
  from k(1) obtain d1 where a: "?a = (Inr [''c1''], d1)" by (metis prod.collapse)
  then show ?thesis using scope_grants_stay_visible [OF k(2)] k(3) by fastforce
qed

text \<open>C14: Setting a scope to everything is not checked against the giver's own, and a group's scope not against
  the giver's membership: an account that may assign scopes and belongs to a group cannot change its own
  scope directly, but by setting that group's scope to ALL it becomes unscoped itself, whatever its scope was.\<close>

theorem group_scope_widens_own:
  assumes "find_user d (act_user a) oid = Some u" and "hasPermission (act_permissions a) ''users.assign_scope''"
    and "find_group d gid oid = Some g" and "m \<in> set (memberships d)" and "mem_user m = act_user a" and "mem_group m = gid"
  shows "assignUserScope oid (act_user a) sc ids (Some a) caller ua d = (Inl (api_error 403 ''You cannot change your own customer scope''), d)
    \<and> (\<exists>d'. assignGroupScope oid gid SCOPE_ALL ids (Some a) caller ua d = (Inr [], d') \<and> resolveScope d' (Some u) = UNSCOPED)"
proof (intro conjI)
  show "assignUserScope oid (act_user a) sc ids (Some a) caller ua d = (Inl (api_error 403 ''You cannot change your own customer scope''), d)"
    by (simp add: assignUserScope_def actor_id_def)
  let ?r = "assignGroupScope oid gid SCOPE_ALL ids (Some a) caller ua d"
  have r: "fst ?r = Inr []" "groups (snd ?r) = update_where (\<lambda>x. grp_id x = gid) (\<lambda>x. x\<lparr>grp_scope := SCOPE_ALL\<rparr>) (groups d)"
    "memberships (snd ?r) = memberships d"
    using assms(2,3) by (simp_all add: assignGroupScope_def may_def Let_def update_group_def)
  have g: "g \<in> set (groups d)" "grp_id g = gid" using assms(3) by (auto simp: find_group_def dest: find_SomeD)
  have "find (\<lambda>x. grp_id x = gid) (groups (snd ?r)) = map_option (\<lambda>x. if grp_id x = gid then x\<lparr>grp_scope := SCOPE_ALL\<rparr> else x) (find (\<lambda>x. grp_id x = gid) (groups d))"
    unfolding r(2) by (rule find_update_where) simp
  moreover obtain h where h: "find (\<lambda>x. grp_id x = gid) (groups d) = Some h"
    using g by (cases "find (\<lambda>x. grp_id x = gid) (groups d)") (auto simp: find_None_iff_all)
  moreover have "grp_id h = gid" using h by (auto dest: find_SomeD)
  ultimately have f: "find (\<lambda>x. grp_id x = gid) (groups (snd ?r)) = Some (h\<lparr>grp_scope := SCOPE_ALL\<rparr>)" by simp
  have uid: "usr_id u = act_user a" using find_user_SomeD [OF assms(1)] by simp
  have "h\<lparr>grp_scope := SCOPE_ALL\<rparr> \<in> set (user_groups (snd ?r) (usr_id u))"
    unfolding user_groups_def List.map_filter_def r(3) using assms(4-6) f uid by force
  then have "\<exists>g \<in> set (user_groups (snd ?r) (usr_id u)). grp_scope g = SCOPE_ALL" by (intro bexI) simp_all
  then have "resolveScope (snd ?r) (Some u) = UNSCOPED" by (simp add: resolveScope_def Let_def)
  then show "\<exists>d'. ?r = (Inr [], d') \<and> resolveScope d' (Some u) = UNSCOPED" using r(1) by (metis prod.collapse)
qed

lemma group_scope_widens_own_witness:
  "\<exists>d'. assignGroupScope ''o'' ''g'' SCOPE_ALL [] (Some act_scoper) (ScopeCustomers [''c1'']) None scoped_db = (Inr [], d')
     \<and> resolveScope scoped_db (Some (mk_user ''adm'' Admin SCOPE_CUSTOMERS)) = ScopeCustomers [''c1'']
     \<and> resolveScope d' (Some (mk_user ''adm'' Admin SCOPE_CUSTOMERS)) = UNSCOPED"
proof -
  have k: "find_user scoped_db (act_user act_scoper) ''o'' = Some (mk_user ''adm'' Admin SCOPE_CUSTOMERS)"
    "hasPermission (act_permissions act_scoper) ''users.assign_scope''" "find_group scoped_db ''g'' ''o'' = Some (mk_grp ''g'' SCOPE_CUSTOMERS)"
    "\<lparr>mem_group = ''g'', mem_user = ''adm'', mem_addedBy = None\<rparr> \<in> set (memberships scoped_db)"
    "resolveScope scoped_db (Some (mk_user ''adm'' Admin SCOPE_CUSTOMERS)) = ScopeCustomers [''c1'']" by code_simp+
  show ?thesis using group_scope_widens_own [OF k(1-4), of SCOPE_ALL "[]" "ScopeCustomers [''c1'']" None] k(5) by (auto simp: act_scoper_def)
qed

section \<open>The device flow\<close>

text \<open>
  The operations on device requests, one after the other. What else the program does - the cleanup job,
  the deletion of accounts and organizations, edits of accounts - removes requests or the account in them,
  and leaves the accounts still named in their organizations. Ids and codes are drawn at random, and
  the database accepts no second one.
\<close>

definition same_orgs :: "db \<Rightarrow> db \<Rightarrow> bool" where
  "same_orgs d d' = (\<forall>i u. find_user_id d i = Some u \<longrightarrow> (\<exists>v. find_user_id d' i = Some v \<and> usr_org v = usr_org u))"

inductive device_step :: "auth_env \<Rightarrow> (string \<Rightarrow> string) \<Rightarrow> db \<Rightarrow> db \<Rightarrow> bool" for e sha where
  ask: "newId \<notin> dr_id ` set (deviceRequests d) \<Longrightarrow> sha code \<notin> dr_deviceCode ` set (deviceRequests d) \<Longrightarrow>
     device_step e sha d (snd (createDeviceRequest sha newId code draws now oid client sc d))"
| approve: "device_step e sha d (snd (approveDeviceRequest now code uid d))"
| deny: "device_step e sha d (snd (denyDeviceRequest code uid d))"
| poll: "device_step e sha d (snd (pollDeviceRequest e c code d))"
| elsewhere: "deviceRequests d' = map (\<lambda>r. if P r then r\<lparr>dr_user := None\<rparr> else r) (filter Q (deviceRequests d)) \<Longrightarrow>
     \<forall>r \<in> set (deviceRequests d'). \<forall>i u. dr_user r = Some i \<and> find_user_id d i = Some u \<longrightarrow>
        (\<exists>v. find_user_id d' i = Some v \<and> usr_org v = usr_org u) \<Longrightarrow> device_step e sha d d'"

text \<open>The deletion of an account is such a step: its row goes, and the requests forget it.\<close>

lemma deletion_is_elsewhere: "device_step e sha d (delete_user_row uid d)"
proof (rule elsewhere [where P = "\<lambda>r. dr_user r = Some uid" and Q = "\<lambda>_. True"])
  show "deviceRequests (delete_user_row uid d) = map (\<lambda>r. if dr_user r = Some uid then r\<lparr>dr_user := None\<rparr> else r) (filter (\<lambda>_. True) (deviceRequests d))"
    by (auto simp: delete_user_row_def Let_def forget_def)
  have "find (\<lambda>u. usr_id u = i) (map (\<lambda>u. u\<lparr>usr_manager := forget uid (usr_manager u)\<rparr>) (filter (\<lambda>u. usr_id u \<noteq> uid) us)) =
      map_option (\<lambda>u. u\<lparr>usr_manager := forget uid (usr_manager u)\<rparr>) (find (\<lambda>u. usr_id u = i) us)" if "i \<noteq> uid" for i and us :: "user list"
    using that by (induction us) auto
  then have "find_user_id (delete_user_row uid d) i = map_option (\<lambda>u. u\<lparr>usr_manager := forget uid (usr_manager u)\<rparr>) (find_user_id d i)"
    if "i \<noteq> uid" for i
    using that by (simp add: find_user_id_def delete_user_row_def Let_def)
  then show "\<forall>r \<in> set (deviceRequests (delete_user_row uid d)). \<forall>i u. dr_user r = Some i \<and> find_user_id d i = Some u \<longrightarrow>
      (\<exists>v. find_user_id (delete_user_row uid d) i = Some v \<and> usr_org v = usr_org u)"
    by (auto simp: delete_user_row_def Let_def forget_def split: if_splits)
qed

text \<open>Ids and codes are unique, and an approved request that names an account names one of its organization.\<close>

definition device_ok :: "db \<Rightarrow> bool" where
  "device_ok d = (distinct (map dr_id (deviceRequests d)) \<and> distinct (map dr_deviceCode (deviceRequests d)) \<and>
     (\<forall>r \<in> set (deviceRequests d). \<forall>i. dr_status r = DevApproved \<and> dr_user r = Some i \<longrightarrow>
        (\<exists>u. find_user_id d i = Some u \<and> usr_org u = dr_org r)))"

lemma same_orgs_users: "users d' = users d \<Longrightarrow> same_orgs d d'"
  by (simp add: same_orgs_def find_user_id_def)

lemma device_ok_subset:
  assumes "device_ok d" and "same_orgs d d'" and "distinct (map dr_id (deviceRequests d'))" and "distinct (map dr_deviceCode (deviceRequests d'))"
    and "\<And>r. r \<in> set (deviceRequests d') \<Longrightarrow> dr_status r = DevApproved \<Longrightarrow>
      (\<exists>q \<in> set (deviceRequests d). dr_status q = DevApproved \<and> dr_user q = dr_user r \<and> dr_org q = dr_org r)
      \<or> (\<exists>i u. dr_user r = Some i \<and> find_user_id d' i = Some u \<and> usr_org u = dr_org r)"
  shows "device_ok d'"
  unfolding device_ok_def
proof (intro conjI ballI allI impI)
  fix r i assume "r \<in> set (deviceRequests d')" and a: "dr_status r = DevApproved \<and> dr_user r = Some i"
  from assms(5) [OF this(1)] a show "\<exists>u. find_user_id d' i = Some u \<and> usr_org u = dr_org r"
  proof (elim conjE disjE meta_impE)
    assume "\<exists>q \<in> set (deviceRequests d). dr_status q = DevApproved \<and> dr_user q = dr_user r \<and> dr_org q = dr_org r"
    then obtain q where q: "q \<in> set (deviceRequests d)" "dr_status q = DevApproved" "dr_user q = Some i" "dr_org q = dr_org r" using a by auto
    obtain u where "find_user_id d i = Some u" "usr_org u = dr_org q"
      using assms(1) q(1-3) unfolding device_ok_def by blast
    then show ?thesis using assms(2) q(4) unfolding same_orgs_def by fastforce
  qed auto
qed (rule assms(3), rule assms(4))

lemma update_device_frames [simp]:
  "users (update_device i f d) = users d" "deviceRequests (update_device i f d) = update_where (\<lambda>r. dr_id r = i) f (deviceRequests d)"
  "refreshTokens (update_device i f d) = refreshTokens d"
  by (simp_all add: update_device_def)

lemma find_user_id_same [simp]: "find_user_id (update_device i f d) u = find_user_id d u"
  by (simp add: find_user_id_def)

text \<open>A poll leaves the requests, less the one it used, with other times and statuses, none newly approved.\<close>

definition approved_before :: "device_request \<Rightarrow> device_request list \<Rightarrow> bool" where
  "approved_before r rs = (\<exists>q \<in> set rs. dr_status q = DevApproved \<and> dr_user q = dr_user r \<and> dr_org q = dr_org r)"

lemma approved_before_polled:
  "r \<in> set (update_where P (dr_lastPollAt_update k) rs) \<Longrightarrow> dr_status r = DevApproved \<Longrightarrow> approved_before r rs"
  unfolding approved_before_def by (erule in_update_whereE) (auto split: if_splits)

lemma approved_before_expired:
  "r \<in> set (update_where P (dr_status_update (\<lambda>_. DevExpired)) rs) \<Longrightarrow> dr_status r = DevApproved \<Longrightarrow> approved_before r rs"
  unfolding approved_before_def by (erule in_update_whereE) (auto split: if_splits)

lemma approved_before_same: "r \<in> set rs \<Longrightarrow> dr_status r = DevApproved \<Longrightarrow> approved_before r rs"
  by (auto simp: approved_before_def)

lemma issueSession_devices: "issueSession e c v cl x = (s, y) \<Longrightarrow> deviceRequests y = deviceRequests x"
  by (auto simp: issueSession_def Let_def)

lemma poll_requests:
  assumes "r \<in> set (deviceRequests (snd (pollDeviceRequest e c code d)))" and "dr_status r = DevApproved"
  shows "approved_before r (deviceRequests d)"
  using assms
  by (auto simp: pollDeviceRequest_def Let_def dest!: issueSession_devices intro: approved_before_polled approved_before_expired approved_before_same
      split: option.splits if_splits device_status.splits prod.splits)

lemma issueSession_same_orgs: "issueSession e c v cl x = (s, y) \<Longrightarrow> same_orgs x y"
proof -
  assume "issueSession e c v cl x = (s, y)"
  then have "users y = update_where (\<lambda>u. usr_id u = usr_id v) (\<lambda>r. r\<lparr>usr_lastLoginAt := Some (cl_now c)\<rparr>) (users x)"
    by (auto simp: issueSession_def Let_def)
  then have "find_user_id y i = map_option (\<lambda>u. if usr_id u = usr_id v then u\<lparr>usr_lastLoginAt := Some (cl_now c)\<rparr> else u) (find_user_id x i)" for i
    unfolding find_user_id_def by (simp only:) (rule find_update_where, simp)
  then show ?thesis by (simp add: same_orgs_def)
qed

lemma same_orgs_congL: "users d' = users d \<Longrightarrow> same_orgs d' y \<Longrightarrow> same_orgs d y"
  by (simp add: same_orgs_def find_user_id_def)

lemma same_orgs_congR: "users y' = users y \<Longrightarrow> same_orgs d y \<Longrightarrow> same_orgs d y'"
  by (simp add: same_orgs_def find_user_id_def)

lemma poll_users: "same_orgs d (snd (pollDeviceRequest e c code d))"
  by (auto simp: pollDeviceRequest_def Let_def same_orgs_users dest!: issueSession_same_orgs
      intro: same_orgs_congL [OF update_device_frames(1)] same_orgs_congR split: option.split device_status.split prod.split)

lemma device_ids_update [simp]:
  assumes "\<And>r. dr_id (f r) = dr_id r"
  shows "map dr_id (update_where P f rs) = map dr_id rs"
  by (rule map_update_where) (rule assms)

lemma device_codes_update [simp]:
  assumes "\<And>r. dr_deviceCode (f r) = dr_deviceCode r"
  shows "map dr_deviceCode (update_where P f rs) = map dr_deviceCode rs"
  by (rule map_update_where) (rule assms)

lemma poll_ids: "distinct (map dr_id (deviceRequests d)) \<Longrightarrow> distinct (map dr_id (deviceRequests (snd (pollDeviceRequest e c code d))))"
  by (auto simp: pollDeviceRequest_def Let_def distinct_map_filter dest!: issueSession_devices split: option.splits device_status.splits prod.splits)

lemma poll_codes:
  "distinct (map dr_deviceCode (deviceRequests d)) \<Longrightarrow> distinct (map dr_deviceCode (deviceRequests (snd (pollDeviceRequest e c code d))))"
  by (auto simp: pollDeviceRequest_def Let_def distinct_map_filter dest!: issueSession_devices split: option.splits device_status.splits prod.splits)

lemma approve_effect:
  assumes "approveDeviceRequest now code uid d = (Inr (), d')"
  obtains r u where "r \<in> set (deviceRequests d)" "dr_status r = DevPending" "now \<le> dr_expiresAt r" "find_user_id d uid = Some u" "usr_org u = dr_org r"
    "dr_userCode r = map upper_char code" "d' = update_device (dr_id r) (\<lambda>x. x\<lparr>dr_status := DevApproved, dr_user := Some uid\<rparr>) d"
  using assms by (auto simp: approveDeviceRequest_def find_device_def split: option.splits if_splits dest: find_SomeD)

lemma approve_ok:
  assumes "device_ok d" shows "device_ok (snd (approveDeviceRequest now code uid d))"
proof (cases "fst (approveDeviceRequest now code uid d)")
  case (Inl er)
  then have "snd (approveDeviceRequest now code uid d) = d" by (auto simp: approveDeviceRequest_def split: option.splits if_splits)
  then show ?thesis using assms by simp
next
  case (Inr x)
  then have "approveDeviceRequest now code uid d = (Inr (), snd (approveDeviceRequest now code uid d))" by (metis old.unit.exhaust prod.collapse)
  then obtain r u where r: "r \<in> set (deviceRequests d)" "find_user_id d uid = Some u" "usr_org u = dr_org r"
    and d': "snd (approveDeviceRequest now code uid d) = update_device (dr_id r) (\<lambda>x. x\<lparr>dr_status := DevApproved, dr_user := Some uid\<rparr>) d"
    by (rule approve_effect)
  have dd: "distinct (map dr_id (deviceRequests d))" "distinct (map dr_deviceCode (deviceRequests d))" using assms by (simp_all add: device_ok_def)
  show ?thesis
    unfolding d'
  proof (rule device_ok_subset [OF assms], goal_cases)
    case 1 show ?case by (rule same_orgs_users) simp
  next
    case 2 show ?case using dd by simp
  next
    case 3 show ?case using dd by simp
  next
    case (4 q)
    then obtain y where y: "y \<in> set (deviceRequests d)" "q = (if dr_id y = dr_id r then y\<lparr>dr_status := DevApproved, dr_user := Some uid\<rparr> else y)"
      unfolding update_device_frames by (elim in_update_whereE) (rule that)
    show ?case
    proof (cases "dr_id y = dr_id r")
      case True
      then have "y = r" using dd(1) r(1) y(1) by (simp add: distinct_map inj_on_def)
      then show ?thesis using r y(2) by simp
    next
      case False then show ?thesis using y 4(2) by auto
    qed
  qed
qed

lemma device_step_ok: "device_step e sha d d' \<Longrightarrow> device_ok d \<Longrightarrow> device_ok d'"
proof (induction rule: device_step.induct)
  case (ask newId d code draws now oid client sc)
  have "distinct (map dr_id (deviceRequests d))" "distinct (map dr_deviceCode (deviceRequests d))" using ask(3) by (simp_all add: device_ok_def)
  then show ?case
    using ask(1,2) by (intro device_ok_subset [OF ask(3)])
      (auto simp: createDeviceRequest_def Let_def same_orgs_users split: option.splits if_splits)
next
  case (approve d now code uid)
  then show ?case by (rule approve_ok)
next
  case (deny d code uid)
  have "distinct (map dr_id (deviceRequests d))" "distinct (map dr_deviceCode (deviceRequests d))" using deny by (simp_all add: device_ok_def)
  then show ?case
    by (intro device_ok_subset [OF deny])
      (auto simp: denyDeviceRequest_def Let_def same_orgs_users split: option.splits if_splits elim!: in_update_whereE)
next
  case (poll d c code)
  have "distinct (map dr_id (deviceRequests d))" "distinct (map dr_deviceCode (deviceRequests d))" using poll by (simp_all add: device_ok_def)
  then show ?case
    by (intro device_ok_subset [OF poll poll_users poll_ids poll_codes]) (use poll_requests in \<open>auto simp: approved_before_def\<close>)
next
  case (elsewhere d' P Q d)
  let ?f = "\<lambda>r. if P r then r\<lparr>dr_user := None\<rparr> else r"
  have "map dr_id (deviceRequests d') = map dr_id (filter Q (deviceRequests d))"
    "map dr_deviceCode (deviceRequests d') = map dr_deviceCode (filter Q (deviceRequests d))"
    unfolding elsewhere(1) map_map by (intro map_cong refl; simp)+
  then have "distinct (map dr_id (deviceRequests d')) \<and> distinct (map dr_deviceCode (deviceRequests d'))"
    using elsewhere(3) by (simp add: device_ok_def distinct_map_filter)
  moreover have "\<exists>u. find_user_id d' i = Some u \<and> usr_org u = dr_org r"
    if r: "r \<in> set (deviceRequests d')" "dr_status r = DevApproved" "dr_user r = Some i" for r i
  proof -
    obtain q where q: "q \<in> set (deviceRequests d)" "r = ?f q" using r(1) elsewhere(1) by auto
    then have "dr_status q = DevApproved" "dr_user q = Some i" "dr_org q = dr_org r" using r(2,3) by (auto split: if_splits)
    then obtain u where "find_user_id d i = Some u" "usr_org u = dr_org r" using elsewhere(3) q(1) unfolding device_ok_def by metis
    then show ?thesis using elsewhere(2) r(1,3) by fastforce
  qed
  ultimately show ?case by (simp add: device_ok_def)
qed

lemma poll_Inr:
  assumes "pollDeviceRequest e c code d = (Inr s, d')"
  obtains r u i where "find (\<lambda>r. dr_deviceCode r = ae_sha e code) (deviceRequests d) = Some r" "dr_status r = DevApproved" "cl_now c \<le> dr_expiresAt r"
    "dr_user r = Some i" "find_user_id d i = Some u" "usr_status u = Active"
    "refreshTokens d' = refreshTokens d @ [session_token e c u ''tui'']"
    "set (deviceRequests d') = {x \<in> set (update_where (\<lambda>x. dr_id x = dr_id r) (dr_lastPollAt_update (\<lambda>_. Some (cl_now c))) (deviceRequests d)). dr_id x \<noteq> dr_id r}"
  using assms
  by (auto simp: pollDeviceRequest_def Let_def truthy_iff issueSession_def split: option.splits if_splits device_status.splits prod.splits)

text \<open>C26: A device gets a session only for a request with its code that a person approved and that has not
  expired. Starting from no requests, whatever is asked, approved, denied and polled since, and
  whatever accounts are edited or deleted, the session is for an active account of the organization the
  device asked to join, and a poll that comes after it with the same code finds nothing. (This is for polls one
  after the other: two at the same moment can both read the request before either removes it.) Approving takes an unexpired pending request and an
  account of its organization.\<close>

theorem device_session_is_approved:
  assumes "(device_step e sha)\<^sup>*\<^sup>* d0 d" and "deviceRequests d0 = []"
  shows "(pollDeviceRequest e c code d = (Inr s, d1) \<longrightarrow>
      (\<exists>r \<in> set (deviceRequests d). \<exists>u \<in> set (users d). dr_deviceCode r = ae_sha e code \<and> dr_status r = DevApproved \<and> cl_now c \<le> dr_expiresAt r
         \<and> dr_user r = Some (usr_id u) \<and> usr_status u = Active \<and> usr_org u = dr_org r \<and> refreshTokens d1 = refreshTokens d @ [session_token e c u ''tui'']
         \<and> fst (pollDeviceRequest e c' code d1) = Inl (api_error 400 ''invalid_grant'')))
    \<and> (approveDeviceRequest now ucode uid d = (Inr (), d2) \<longrightarrow>
      (\<exists>r \<in> set (deviceRequests d). \<exists>u \<in> set (users d). dr_status r = DevPending \<and> now \<le> dr_expiresAt r \<and> usr_id u = uid \<and> usr_org u = dr_org r))"
proof (intro conjI impI)
  have "device_ok d0" by (simp add: device_ok_def assms(2))
  with assms(1) have ok: "device_ok d" by (induction rule: rtranclp_induct) (auto intro: device_step_ok)
  assume "pollDeviceRequest e c code d = (Inr s, d1)"
  then obtain r u i where r: "find (\<lambda>r. dr_deviceCode r = ae_sha e code) (deviceRequests d) = Some r" "dr_status r = DevApproved" "cl_now c \<le> dr_expiresAt r"
    "dr_user r = Some i" "find_user_id d i = Some u" "usr_status u = Active"
    "refreshTokens d1 = refreshTokens d @ [session_token e c u ''tui'']"
    "set (deviceRequests d1) = {x \<in> set (update_where (\<lambda>x. dr_id x = dr_id r) (dr_lastPollAt_update (\<lambda>_. Some (cl_now c))) (deviceRequests d)). dr_id x \<noteq> dr_id r}"
    by (rule poll_Inr)
  have m: "r \<in> set (deviceRequests d)" "dr_deviceCode r = ae_sha e code" using r(1) by (auto dest: find_SomeD)
  have o: "usr_org u = dr_org r" using ok m(1) r(2,4,5) unfolding device_ok_def by fastforce
  have dc: "distinct (map dr_deviceCode (deviceRequests d))" using ok by (simp add: device_ok_def)
  have "fst (pollDeviceRequest e c' code d1) = Inl (api_error 400 ''invalid_grant'')"
  proof -
    have "dr_deviceCode x \<noteq> ae_sha e code" if "x \<in> set (deviceRequests d1)" for x
    proof
      assume "dr_deviceCode x = ae_sha e code"
      moreover obtain y where "y \<in> set (deviceRequests d)" "dr_deviceCode x = dr_deviceCode y" "dr_id x = dr_id y" "dr_id x \<noteq> dr_id r"
        using \<open>x \<in> set (deviceRequests d1)\<close> unfolding r(8) by (auto elim!: in_update_whereE split: if_splits)
      ultimately show False using m dc unfolding distinct_map inj_on_def by metis
    qed
    then have "find (\<lambda>r. dr_deviceCode r = ae_sha e code) (deviceRequests d1) = None" by (auto simp: find_None_iff_all)
    then show ?thesis by (simp add: pollDeviceRequest_def Let_def)
  qed
  then show "\<exists>r \<in> set (deviceRequests d). \<exists>u \<in> set (users d). dr_deviceCode r = ae_sha e code \<and> dr_status r = DevApproved \<and> cl_now c \<le> dr_expiresAt r
      \<and> dr_user r = Some (usr_id u) \<and> usr_status u = Active \<and> usr_org u = dr_org r \<and> refreshTokens d1 = refreshTokens d @ [session_token e c u ''tui'']
      \<and> fst (pollDeviceRequest e c' code d1) = Inl (api_error 400 ''invalid_grant'')"
    using m r o find_user_id_SomeD [OF r(5)] by blast
next
  assume "approveDeviceRequest now ucode uid d = (Inr (), d2)"
  then show "\<exists>r \<in> set (deviceRequests d). \<exists>u \<in> set (users d). dr_status r = DevPending \<and> now \<le> dr_expiresAt r \<and> usr_id u = uid \<and> usr_org u = dr_org r"
    by (rule approve_effect) (use find_user_id_SomeD in blast)
qed

lemma device_session_is_approved_witness:
  "\<exists>d s d1. (device_step sample_auth (\<lambda>s. s))\<^sup>*\<^sup>* auth_db d \<and> pollDeviceRequest sample_auth (call_at 5000 ''9'') ''dc'' d = (Inr s, d1)
     \<and> refreshTokens d1 = [session_token sample_auth (call_at 5000 ''9'') u_pw ''tui'']
     \<and> fst (pollDeviceRequest sample_auth (call_at 9000 ''8'') ''dc'' d1) = Inl (api_error 400 ''invalid_grant'')"
proof -
  let ?start = "snd (createDeviceRequest (\<lambda>s. s) ''dv'' ''dc'' [[1, 2, 3, 4, 5, 6, 7, 8]] 1000 (Some ''o'') [] [] auth_db)"
  let ?code = "generateUserCode [1, 2, 3, 4, 5, 6, 7, 8]"
  let ?d = "snd (approveDeviceRequest 2000 ?code ''mem'' ?start)"
  let ?p = "pollDeviceRequest sample_auth (call_at 5000 ''9'') ''dc'' ?d"
  have s1: "device_step sample_auth (\<lambda>s. s) auth_db ?start" by (rule ask) (simp_all add: auth_db_def empty_db_def)
  have "device_step sample_auth (\<lambda>s. s) ?start ?d" by (rule approve)
  with s1 have st: "(device_step sample_auth (\<lambda>s. s))\<^sup>*\<^sup>* auth_db ?d" by (rule converse_rtranclp_into_rtranclp [OF _ r_into_rtranclp])
  define dd where "dd = ?d"
  have st: "(device_step sample_auth (\<lambda>s. s))\<^sup>*\<^sup>* auth_db dd" using st by (simp only: dd_def)
  have "case fst ?p of Inr _ \<Rightarrow> True | Inl _ \<Rightarrow> False" by code_simp
  then obtain s d1 where p: "pollDeviceRequest sample_auth (call_at 5000 ''9'') ''dc'' dd = (Inr s, d1)"
    unfolding dd_def by (cases ?p) (auto split: sum.splits)
  have "map dr_deviceCode (deviceRequests ?d) = [''dc'']" "map dr_user (deviceRequests ?d) = [Some ''mem'']"
    "refreshTokens ?d = []" "\<forall>v \<in> set (users ?d). usr_id v = ''mem'' \<longrightarrow> v = u_pw" by code_simp+
  then have h: "map dr_deviceCode (deviceRequests dd) = [''dc'']" "map dr_user (deviceRequests dd) = [Some ''mem'']"
    "refreshTokens dd = []" "\<forall>v \<in> set (users dd). usr_id v = ''mem'' \<longrightarrow> v = u_pw" by (simp_all only: dd_def)
  have none: "deviceRequests auth_db = []" by code_simp
  obtain r u where r: "r \<in> set (deviceRequests dd)" "dr_user r = Some (usr_id u)" "u \<in> set (users dd)"
    "refreshTokens d1 = refreshTokens dd @ [session_token sample_auth (call_at 5000 ''9'') u ''tui'']"
    "fst (pollDeviceRequest sample_auth (call_at 9000 ''8'') ''dc'' d1) = Inl (api_error 400 ''invalid_grant'')"
    using mp [OF conjunct1 [OF device_session_is_approved [OF st none, of "call_at 5000 ''9''" "''dc''" s d1 "call_at 9000 ''8''"]] p] by blast
  have "Some (usr_id u) \<in> set (map dr_user (deviceRequests dd))" using r(1,2) by (metis image_eqI set_map)
  then have "u = u_pw" using r(3) h(4) unfolding h(2) by simp
  moreover have "distinct (map dr_deviceCode (deviceRequests dd))" unfolding h(1) by simp
  ultimately show ?thesis using r(4,5) h(3) by (intro exI [of _ dd] exI [of _ s] exI [of _ d1] conjI st p) simp_all
qed

section \<open>What the audit log keeps\<close>

lemma redacted_field:
  assumes "length p < MAX_DEPTH" and "\<forall>s \<in> set p. clean_step s" and "isSensitiveKey k"
    and "json_at (p @ [Field k]) (redactValue 0 v) = Some x"
  shows "x = JStr REDACTED"
proof -
  have app: "json_at (p @ q) w = (case json_at p w of None \<Rightarrow> None | Some y \<Rightarrow> json_at q y)" for q w
    by (induction p w rule: json_at.induct) (auto split: option.split)
  have "json_at p (redactValue 0 v) = map_option (redactValue (length p)) (json_at p v)"
    using redact_path [of 0 p v] assms(1,2) by simp
  then obtain y where y: "json_at [Field k] (redactValue (length p) y) = Some x"
    using assms(4) by (auto simp: app split: option.splits)
  show ?thesis
  proof (cases y)
    case (JObj kvs)
    then show ?thesis
      using y assms(1,3) by (auto simp: map_of_map_snd [where f = "\<lambda>k v. if isSensitiveKey k then JStr REDACTED else redactValue (length p + 1) v", simplified] split: option.splits)
  qed (use y assms(1) in \<open>auto split: if_splits\<close>)
qed

text \<open>What the audit log stores holds no secret: in the entry that is added, every field whose name is
  sensitive, down to the depth the code looks, reads as redacted, whatever metadata was passed; a
  value below harmless names only is kept; and nothing else of the database changes.\<close>

theorem audit_keeps_no_secret:
  "\<exists>a. auditLog oid actor action rtype rid m ua d = d\<lparr>audits := audits d @ [a]\<rparr>
     \<and> (\<forall>p k x. length p < MAX_DEPTH \<and> (\<forall>s \<in> set p. clean_step s) \<and> isSensitiveKey k \<and> json_at (p @ [Field k]) (aud_meta a) = Some x
          \<longrightarrow> x = JStr REDACTED)
     \<and> (\<forall>p s. length p \<le> MAX_DEPTH \<and> (\<forall>t \<in> set p. clean_step t) \<and> json_at p (merged_meta m ua) = Some (JStr s) \<longrightarrow> json_at p (aud_meta a) = Some (JStr s))"
proof -
  let ?a = "\<lparr>aud_org = oid, aud_actor = actor, aud_action = action, aud_resourceType = rtype, aud_resource = rid, aud_meta = redactValue 0 (merged_meta m ua)\<rparr>"
  have "auditLog oid actor action rtype rid m ua d = d\<lparr>audits := audits d @ [?a]\<rparr>" by (simp add: auditLog_def add_audit_def)
  moreover have "json_at p (aud_meta ?a) = Some (JStr s)"
    if "length p \<le> MAX_DEPTH" "\<forall>t \<in> set p. clean_step t" "json_at p (merged_meta m ua) = Some (JStr s)" for p s
    using redact_path [of 0 p "merged_meta m ua"] that by simp
  ultimately show ?thesis using redacted_field [where v = "merged_meta m ua"] by (intro exI [of _ ?a]) auto
qed

lemma audit_keeps_no_secret_witness:
  "\<exists>a. auditLog ''o'' None ''x'' ''User'' None (Some (JObj [(''body'', JObj [(''newPassword'', JStr ''hunter2''), (''name'', JStr ''n'')])])) None empty_db
       = empty_db\<lparr>audits := [a]\<rparr>
     \<and> json_at [Field ''body'', Field ''newPassword''] (aud_meta a) = Some (JStr REDACTED) \<and> json_at [Field ''body'', Field ''name''] (aud_meta a) = Some (JStr ''n'')"
proof -
  let ?m = "Some (JObj [(''body'', JObj [(''newPassword'', JStr ''hunter2''), (''name'', JStr ''n'')])])"
  from audit_keeps_no_secret [of "''o''" None "''x''" "''User''" None ?m None empty_db] obtain a where
    a: "auditLog ''o'' None ''x'' ''User'' None ?m None empty_db = empty_db\<lparr>audits := audits empty_db @ [a]\<rparr>"
    "\<forall>p k x. length p < MAX_DEPTH \<and> (\<forall>s \<in> set p. clean_step s) \<and> isSensitiveKey k \<and> json_at (p @ [Field k]) (aud_meta a) = Some x \<longrightarrow> x = JStr REDACTED"
    "\<forall>p s. length p \<le> MAX_DEPTH \<and> (\<forall>t \<in> set p. clean_step t) \<and> json_at p (merged_meta ?m None) = Some (JStr s) \<longrightarrow> json_at p (aud_meta a) = Some (JStr s)"
    by blast
  have "audits (auditLog ''o'' None ''x'' ''User'' None ?m None empty_db) = [a]" unfolding a(1) by (simp add: empty_db_def)
  then have "aud_meta a = redactValue 0 (merged_meta ?m None)" by (auto simp: auditLog_def add_audit_def empty_db_def)
  moreover have k: "clean_step (Field ''body'')" "isSensitiveKey ''newPassword''" "clean_step (Field ''name'')" "1 < MAX_DEPTH" by code_simp+
  ultimately obtain x where x: "json_at ([Field ''body''] @ [Field ''newPassword'']) (aud_meta a) = Some x"
    by (simp add: merged_meta_def MAX_DEPTH_def clean_step_def)
  then have "x = JStr REDACTED" using a(2) k by (metis (no_types, lifting) One_nat_def empty_iff empty_set length_Cons list.size(3) set_ConsD)
  moreover have "json_at [Field ''body'', Field ''name''] (aud_meta a) = Some (JStr ''n'')"
    using spec [OF spec [OF a(3), of "[Field ''body'', Field ''name'']"], of "''n''"] k by (simp add: merged_meta_def)
  ultimately show ?thesis using a(1) x by (intro exI [of _ a]) (simp add: empty_db_def)
qed

end
