(* ===== verification/ServerSecrets.thy ===== *)
theory ServerSecrets
  imports Servers
begin

text \<open>
  The saved sudo password of a server, an identity of the organization bound to it
  (\<open>backend/src/services/serverSudoService.js\<close>), and saving an ad-hoc target as a server
  (\<open>quickConnectService.saveAsServer\<close>).
\<close>

section \<open>Sudo passwords\<close>

definition SUDO_TAG :: string where "SUDO_TAG = ''sudo''"

definition SAVE_PERMISSIONS :: "string list" where "SAVE_PERMISSIONS = [''servers.manage_credentials'', ''keystore.manage'']"

definition canSaveSudo :: "actor \<Rightarrow> bool" where
  "canSaveSudo a = list_all (hasPermission (act_permissions a)) SAVE_PERMISSIONS"

text \<open>The identity bound as the sudo password, joined by its id.\<close>

definition sudo_credential :: "db \<Rightarrow> server \<Rightarrow> credential option" where
  "sudo_credential d s = (case srv_sudoCredential s of None \<Rightarrow> None | Some i \<Rightarrow> find (\<lambda>c. cred_id c = i) (credentials d))"

definition org_name_taken :: "db \<Rightarrow> id \<Rightarrow> string \<Rightarrow> bool" where
  "org_name_taken d oid name = cred_named d oid None name None"

text \<open>The base name, then the base with a number up to 50, then with a time stamp.\<close>

definition freeName :: "string \<Rightarrow> db \<Rightarrow> id \<Rightarrow> string \<Rightarrow> string" where
  "freeName stamp d oid base =
     (case find (\<lambda>n. \<not> org_name_taken d oid n) (base # map (\<lambda>i. base @ '' ('' @ nat_str (i + 1) @ '')'') [1..<50]) of
        Some n \<Rightarrow> n | None \<Rightarrow> base @ '' ('' @ stamp @ '')'')"

definition server_label :: "server \<Rightarrow> string" where
  "server_label s = or_else (srv_displayName s) (srv_hostname s)"

text \<open>Replaced in place only when this feature made it, for the same user name.\<close>

definition replaceable :: "server \<Rightarrow> credential \<Rightarrow> bool" where
  "replaceable s c \<longleftrightarrow> \<not> truthy (cred_owner c) \<and> SUDO_TAG \<in> set (cred_tags c) \<and> cred_username c = srv_sshUser s"

definition password_edit :: "string \<Rightarrow> credential_edit" where
  "password_edit pw =
     \<lparr>ce_name = None, ce_description = None, ce_username = None, ce_authType = None, ce_password = Some pw, ce_clearPassword = False,
      ce_sshKey = None, ce_newKey = None, ce_tags = None\<rparr>"

definition sudo_identity :: "string \<Rightarrow> string \<Rightarrow> server \<Rightarrow> credential_data" where
  "sudo_identity name pw s =
     \<lparr>cd_name = name,
      cd_description = Some (''sudo password for '' @ srv_sshUser s @ '' on '' @ server_label s @
        ''. Saved from the installer so reinstalls over a certificate do not ask again.''),
      cd_username = srv_sshUser s, cd_authType = ''password'', cd_password = Some pw, cd_sshKey = None, cd_newKey = None,
      cd_tags = [SUDO_TAG]\<rparr>"

definition sudo_audit :: "id \<Rightarrow> actor \<Rightarrow> string \<Rightarrow> id \<Rightarrow> (string \<times> json) list \<Rightarrow> db \<Rightarrow> db" where
  "sudo_audit oid a action sid m d = auditLog oid (Some (act_user a)) action ''Server'' (Some sid) (Some (JObj m)) None d"

definition saveSudoPassword ::
    "key_kit \<Rightarrow> id \<Rightarrow> string \<Rightarrow> string \<Rightarrow> id \<Rightarrow> id \<Rightarrow> string \<Rightarrow> actor \<Rightarrow> scope \<Rightarrow> db \<Rightarrow> (id \<times> bool) res \<times> db" where
  "saveSudoPassword kt newId stamp source oid sid pw a sc d =
     (if \<not> canSaveSudo a
      then (Inl (permission_denied ''Saving a sudo password needs \"Bind stored identities to servers\" and \"Manage Keystore\"''), d)
      else if pw = [] then (Inl (api_error 400 ''password is required''), d)
      else if 1024 < length pw then (Inl (api_error 400 ''password is too long''), d)
      else case scoped_server d sid oid sc of None \<Rightarrow> (Inl server_not_found, d) | Some s \<Rightarrow>
      if holds (replaceable s) (sudo_credential d s)
      then (let c = the (sudo_credential d s) in
            case updateCredential kt [] [] oid (cred_id c) (password_edit pw) (Some (act_user a)) None d of
              (Inl er, d1) \<Rightarrow> (Inl er, d1)
            | (Inr _, d1) \<Rightarrow>
                (Inr (cred_id c, False),
                 sudo_audit oid a ''server.sudo_password.update'' (srv_id s)
                   [(''credentialId'', JStr (cred_id c)), (''sshUser'', JStr (srv_sshUser s)), (''source'', JStr source)] d1))
      else
        let name = freeName stamp d oid (dashed ''sudo'' (server_label s)) in
        case createCredential kt newId [] [] oid (sudo_identity name pw s) (Some (act_user a)) None d of
          (Inl er, d1) \<Rightarrow> (Inl er, d1)
        | (Inr c, d1) \<Rightarrow>
            (Inr (cred_id c, True),
             sudo_audit oid a ''server.sudo_password.save'' (srv_id s)
               [(''credentialId'', JStr (cred_id c)), (''sshUser'', JStr (srv_sshUser s)), (''source'', JStr source)]
               (update_server (srv_id s) (\<lambda>s. s\<lparr>srv_sudoCredential := Some (cred_id c)\<rparr>) d1)))"

text \<open>Whether a password was bound, and whether its identity was deleted too.\<close>

definition forgetSudoPassword :: "id \<Rightarrow> id \<Rightarrow> actor \<Rightarrow> scope \<Rightarrow> db \<Rightarrow> (bool \<times> bool) res \<times> db" where
  "forgetSudoPassword oid sid a sc d =
     (if \<not> canSaveSudo a
      then (Inl (permission_denied ''Removing a saved sudo password needs \"Bind stored identities to servers\" and \"Manage Keystore\"''), d)
      else case scoped_server d sid oid sc of None \<Rightarrow> (Inl server_not_found, d) | Some s \<Rightarrow>
      case sudo_credential d s of None \<Rightarrow> (Inr (False, False), d) | Some c \<Rightarrow>
        let d1 = update_server (srv_id s) (\<lambda>s. s\<lparr>srv_sudoCredential := None\<rparr>) d;
            unused = (\<not> (\<exists>x \<in> set (servers d1). srv_org x = oid \<and> (srv_sudoCredential x = Some (cred_id c) \<or> srv_credential x = Some (cred_id c))));
            (gone, d2) =
              (if \<not> truthy (cred_owner c) \<and> SUDO_TAG \<in> set (cred_tags c) \<and> unused
               then (case deleteCredential oid (cred_id c) False None (Some (act_user a)) d1 of
                       (Inl _, d2) \<Rightarrow> (False, d2) | (Inr _, d2) \<Rightarrow> (True, d2))
               else (False, d1))
        in (Inr (True, gone),
            sudo_audit oid a ''server.sudo_password.forget'' (srv_id s)
              [(''credentialId'', JStr (cred_id c)), (''deletedIdentity'', JBool gone)] d2))"

text \<open>A saved password that may not be used is a note for the log, not an error.\<close>

datatype saved_sudo = NoSudo | SudoNote string | SudoPassword string string

definition sudo_of :: "string \<Rightarrow> credential \<Rightarrow> identity_secrets \<Rightarrow> saved_sudo" where
  "sudo_of user c x =
     (if truthy (cred_owner c) then SudoNote ''The saved sudo password is a personal vault item and cannot be used for a server''
      else if user \<noteq> [] \<and> cred_username c \<noteq> [] \<and> cred_username c \<noteq> user
      then SudoNote (dashed (''The saved sudo password is for '' @ dq (cred_username c) @ '', but this install connects as '' @ dq user) ''not used'')
      else if \<not> truthy (is_password x) then SudoNote (dashed (''The saved sudo identity '' @ dq (cred_name c) @ '' has no password'') ''not used'')
      else SudoPassword (the (is_password x)) (cred_name c))"

definition resolveSavedSudo :: "(string \<Rightarrow> string res) \<Rightarrow> id \<Rightarrow> actor \<Rightarrow> id option \<Rightarrow> string \<Rightarrow> db \<Rightarrow> saved_sudo res" where
  "resolveSavedSudo unseal oid a i user d =
     (if \<not> truthy i then Inr NoSudo
      else case resolveCredentialForActor unseal oid a (the i) d of
        Inr (c, x) \<Rightarrow> Inr (sudo_of user c x)
      | Inl (ApiError n m k) \<Rightarrow>
          (if n = 403 then Inr (SudoNote ''A sudo password is saved for this host, but your role cannot use stored identities'')
           else if n = 404 then Inr (SudoNote ''The saved sudo password no longer exists in the Keystore'')
           else Inl (ApiError n m k))
      | Inl er \<Rightarrow> Inl er)"

section \<open>Saving a target as a server\<close>

text \<open>What the new server signs in with.\<close>

datatype saved_identity = BindExisting id | BindNew string auth_body | NoIdentity

record save_args =
  sq_host :: string
  sq_port :: "int option"
  sq_username :: string
  sq_hostname :: "string option"
  sq_displayName :: "string option"
  sq_customer :: id
  sq_env :: "environment option"
  sq_description :: "string option"
  sq_hostKey :: "string option"
  sq_hostKeyAlg :: "string option"
  sq_identity :: saved_identity

definition save_checks :: "quick_env \<Rightarrow> db \<Rightarrow> id \<Rightarrow> save_args \<Rightarrow> scope \<Rightarrow> unit res" where
  "save_checks e d oid x sc =
     (if \<not> isValidHost (sq_host x) then Inl (api_error 400 ''host must be a valid hostname, IPv4, or IPv6 address'')
      else case resolveTarget (qe_dns e) (qe_loopback e) (sq_host x) of Inl er \<Rightarrow> Inl er | Inr _ \<Rightarrow>
      if sq_customer x = [] then Inl (api_error 400 ''customerId is required'')
      else if \<not> (\<exists>c \<in> set (customers d). cus_id c = sq_customer x \<and> cus_org c = oid \<and> customerScopeWhere sc c)
      then Inl (api_error 400 ''Customer not found in organization'')
      else if sq_username x = [] \<or> \<not> USERNAME_RE (sq_username x) then Inl (api_error 400 ''username is required and must be valid'')
      else case sq_identity x of
        BindNew name b \<Rightarrow>
          (if name \<noteq> [] \<and> org_name_taken d oid name
           then Inl (api_error 409 (''An identity named '' @ dq name @ '' already exists'')) else Inr ())
      | _ \<Rightarrow> Inr ())"

definition saved_key :: "key_kit \<Rightarrow> id \<Rightarrow> id \<Rightarrow> actor \<Rightarrow> string \<Rightarrow> auth_body \<Rightarrow> key_info \<Rightarrow> ssh_key" where
  "saved_key kt newKeyId oid a name b i =
     \<lparr>key_id = newKeyId, key_org = oid, key_name = name @ '' key'', key_description = None, key_type = ki_type i, key_bits = ki_bits i,
      key_public = ki_public i, key_private = kt_seal kt (ki_private i), key_passphrase = seal_opt kt (str_opt (ab_passphrase b)),
      key_fingerprint = ki_fingerprint i, key_comment = None, key_source = ''imported'', key_format = Some (ki_format i),
      key_certificate = None, key_createdBy = Some (act_user a), key_owner = None, key_exportedAt = None\<rparr>"

definition saved_credential :: "key_kit \<Rightarrow> id \<Rightarrow> id \<Rightarrow> actor \<Rightarrow> string \<Rightarrow> string \<Rightarrow> auth_body \<Rightarrow> id option \<Rightarrow> credential" where
  "saved_credential kt newCredId oid a username name b kid =
     \<lparr>cred_id = newCredId, cred_org = oid, cred_name = name, cred_description = None, cred_username = username,
      cred_authType = (if ab_type b = ''key'' then (if ab_password b = [] then ''key'' else ''key_password'') else ''password''),
      cred_password = (if ab_type b = ''password'' \<or> ab_password b \<noteq> [] then Some (kt_seal kt (ab_password b)) else None),
      cred_sshKey = kid, cred_tags = [], cred_createdBy = Some (act_user a), cred_owner = None, cred_lastUsedAt = None\<rparr>"

text \<open>The identity to bind, found or created; \<open>None\<close> leaves the server with certificates.\<close>

definition save_identity :: "key_kit \<Rightarrow> id \<Rightarrow> id \<Rightarrow> id \<Rightarrow> actor \<Rightarrow> save_args \<Rightarrow> db \<Rightarrow> (id option \<times> db) res" where
  "save_identity kt newCredId newKeyId oid a x d =
     (if sq_identity x = NoIdentity then Inr (None, d)
      else if \<not> hasPermission (act_permissions a) ''servers.manage_credentials''
      then Inl (permission_denied (''You don'' @ [CHR 0x27] @ ''t have permission to bind identities to servers''))
      else case sq_identity x of
        NoIdentity \<Rightarrow> Inr (None, d)
      | BindExisting i \<Rightarrow>
          (if i = [] then Inl (api_error 400 ''identity.credentialId is required for mode \"existing\"'')
           else case find_credential d i oid None of
             None \<Rightarrow> Inl (api_error 404 ''identity.credentialId not found in organization'')
           | Some c \<Rightarrow> Inr (Some (cred_id c), d))
      | BindNew name b \<Rightarrow>
          (if \<not> hasPermission (act_permissions a) ''keystore.manage''
           then Inl (api_error 403 ''Creating a new identity requires the Manage Keystore permission'')
           else if name = [] then Inl (api_error 400 ''identity.name is required for mode \"new\"'')
           else if ab_type b \<notin> {''password'', ''key''} then Inl (api_error 400 ''identity.auth.type must be \"password\" or \"key\"'')
           else case (if ab_type b = ''key''
                      then (case kt_normalize kt (ab_privateKey b) (str_opt (ab_passphrase b)) of Inl er \<Rightarrow> Inl er
                            | Inr i \<Rightarrow> Inr (Some newKeyId, d\<lparr>sshKeys := sshKeys d @ [saved_key kt newKeyId oid a name b i]\<rparr>))
                      else Inr (None, d)) of
             Inl er \<Rightarrow> Inl er
           | Inr (kid, d1) \<Rightarrow>
               Inr (Some newCredId,
                    d1\<lparr>credentials := credentials d1 @ [saved_credential kt newCredId oid a (sq_username x) name b kid]\<rparr>)))"

definition saved_server :: "int \<Rightarrow> id \<Rightarrow> id \<Rightarrow> save_args \<Rightarrow> id option \<Rightarrow> server" where
  "saved_server now newId oid x cred =
     (blank_server newId oid (sq_customer x) (or_else (sq_hostname x) (sq_host x)))
       \<lparr>srv_displayName := or_none (sq_displayName x), srv_description := or_none (sq_description x),
        srv_ip := (if isIP (sq_host x) \<noteq> 0 then sq_host x else []), srv_dynamicIp := (isIP (sq_host x) = 0),
        srv_port := target_port (sq_port x), srv_protocol := ProtoSsh, srv_env := (case sq_env x of None \<Rightarrow> EnvDev | Some v \<Rightarrow> v),
        srv_sshUser := sq_username x, srv_authMode := (if cred = None then AuthCertificate else AuthCredential), srv_credential := cred,
        srv_hostKey := or_none (sq_hostKey x), srv_hostKeyAlg := or_none (sq_hostKeyAlg x),
        srv_hostKeyPinnedAt := (if truthy (sq_hostKey x) then Some now else None)\<rparr>"

fun identity_mode :: "saved_identity \<Rightarrow> string" where
  "identity_mode (BindExisting i) = ''existing''"
| "identity_mode (BindNew n b) = ''new''"
| "identity_mode NoIdentity = ''none''"

text \<open>All rows are written in one transaction: an error leaves none of them.\<close>

definition saveAsServer :: "quick_env \<Rightarrow> int \<Rightarrow> id \<Rightarrow> id \<Rightarrow> id \<Rightarrow> id \<Rightarrow> actor \<Rightarrow> save_args \<Rightarrow> scope \<Rightarrow> db \<Rightarrow> server res \<times> db" where
  "saveAsServer e now newId newCredId newKeyId oid a x sc d =
     (case save_checks e d oid x sc of Inl er \<Rightarrow> (Inl er, d) | Inr _ \<Rightarrow>
      case save_identity (qe_kit e) newCredId newKeyId oid a x d of Inl er \<Rightarrow> (Inl er, d) | Inr (cred, d1) \<Rightarrow>
        let s = saved_server now newId oid x cred
        in (Inr s,
            auditLog oid (Some (act_user a)) ''quick_connect.save'' ''Server'' (Some (srv_id s))
              (Some (JObj [(''host'', JStr (sq_host x)), (''port'', JNum (target_port (sq_port x))), (''username'', JStr (sq_username x)),
                 (''identityMode'', JStr (identity_mode (sq_identity x)))])) None
              (d1\<lparr>servers := servers d1 @ [s]\<rparr>)))"

end
