(* ===== verification/Vault.thy ===== *)
theory Vault
  imports QuickConnect
begin

text \<open>
  A user's own list of SSH targets (\<open>backend/src/services/vaultService.js\<close>). Every operation works
  on the caller's rows only; the address of a host passes the target guards of ad-hoc connections
  when it is saved and again at every connect, and its identity is the caller's own or one of the
  organization.
\<close>

definition MAX_HOSTS_PER_USER :: nat where "MAX_HOSTS_PER_USER = 500"

section \<open>Guards\<close>

definition assertCanUseHosts :: "db \<Rightarrow> id \<Rightarrow> actor \<Rightarrow> unit res" where
  "assertCanUseHosts d oid a =
     (if \<not> vault_on d oid then Inl vault_disabled
      else if \<not> hasPermission (act_permissions a) ''vault.hosts'' then Inl (permission_denied ''Your role does not permit My hosts'')
      else Inr ())"

definition assertUsableCredential :: "db \<Rightarrow> id \<Rightarrow> actor \<Rightarrow> id \<Rightarrow> unit res" where
  "assertUsableCredential d oid a i =
     (case visible_credential d i oid (act_user a) of None \<Rightarrow> Inl (api_error 400 ''Identity not found'') | Some c \<Rightarrow>
      if truthy (cred_owner c) \<and> \<not> hasPermission (act_permissions a) ''vault.use''
      then Inl (permission_denied ''Your role does not permit your personal vault'')
      else if \<not> truthy (cred_owner c) \<and> \<not> hasPermission (act_permissions a) ''quick_connect.use_stored_identity''
      then Inl (permission_denied ''Your role does not permit using organization identities'')
      else Inr ())"

definition assertTarget :: "quick_env \<Rightarrow> db \<Rightarrow> id \<Rightarrow> actor \<Rightarrow> string \<Rightarrow> unit res" where
  "assertTarget e d oid a h =
     (if \<not> isValidHost h then Inl (api_error 400 ''host must be a valid hostname, IPv4, or IPv6 address'')
      else case resolveTarget (qe_dns e) (qe_loopback e) h of Inl er \<Rightarrow> Inl er | Inr (ip, ips) \<Rightarrow>
      case assertNotProdHost (qe_prodDns e) d oid h ips of Inl er \<Rightarrow> Inl er | Inr _ \<Rightarrow>
      assertNotDeniedHost d oid (act_user a) h ips)"

definition assertUsername :: "string option \<Rightarrow> unit res" where
  "assertUsername u =
     (if truthy u \<and> \<not> USERNAME_RE (the u) then Inl (api_error 400 ''username must be a valid SSH username'') else Inr ())"

definition loadOwned :: "db \<Rightarrow> id \<Rightarrow> id \<Rightarrow> id \<Rightarrow> personal_host res" where
  "loadOwned d oid uid i =
     (case find (\<lambda>h. ph_id h = i \<and> ph_org h = oid \<and> ph_owner h = uid) (personalHosts d) of
        None \<Rightarrow> Inl (api_error 404 ''Host not found'') | Some h \<Rightarrow> Inr h)"

definition host_clash :: "string \<Rightarrow> err" where
  "host_clash name = api_error 409 (''You already have a host named '' @ dq name)"

definition assertNameFree :: "db \<Rightarrow> id \<Rightarrow> id \<Rightarrow> string \<Rightarrow> id option \<Rightarrow> unit res" where
  "assertNameFree d oid uid name except =
     (if \<exists>h \<in> set (personalHosts d). ph_org h = oid \<and> ph_owner h = uid \<and> ph_name h = name \<and> (truthy except \<longrightarrow> Some (ph_id h) \<noteq> except)
      then Inl (host_clash name) else Inr ())"

section \<open>Reading\<close>

record vault_status =
  vs_enabled :: bool
  vs_vault :: bool
  vs_hosts :: bool
  vs_orgIdentities :: bool

definition getVaultStatus :: "db \<Rightarrow> id \<Rightarrow> actor \<Rightarrow> vault_status" where
  "getVaultStatus d oid a =
     \<lparr>vs_enabled = vault_on d oid, vs_vault = (vault_on d oid \<and> hasPermission (act_permissions a) ''vault.use''),
      vs_hosts = (vault_on d oid \<and> hasPermission (act_permissions a) ''vault.hosts''),
      vs_orgIdentities = hasPermission (act_permissions a) ''quick_connect.use_stored_identity''\<rparr>"

text \<open>The identity shown with a host is joined by its id alone.\<close>

definition host_credential :: "db \<Rightarrow> personal_host \<Rightarrow> credential option" where
  "host_credential d h = (case ph_credential h of None \<Rightarrow> None | Some i \<Rightarrow> find (\<lambda>c. cred_id c = i) (credentials d))"

record host_view =
  hv_id :: id
  hv_name :: string
  hv_host :: string
  hv_port :: int
  hv_username :: "string option"
  hv_credential :: "(id \<times> string \<times> string \<times> string) option"
  hv_hostKey :: "string option"

definition toHostDTO :: "db \<Rightarrow> personal_host \<Rightarrow> host_view" where
  "toHostDTO d h =
     \<lparr>hv_id = ph_id h, hv_name = ph_name h, hv_host = ph_host h, hv_port = ph_port h, hv_username = ph_username h,
      hv_credential = map_option (\<lambda>c. (cred_id c, cred_name c, cred_username c, scopeOf (cred_owner c))) (host_credential d h),
      hv_hostKey = ph_hostKey h\<rparr>"

definition own_hosts :: "db \<Rightarrow> id \<Rightarrow> id \<Rightarrow> personal_host list" where
  "own_hosts d oid uid = filter (\<lambda>h. ph_org h = oid \<and> ph_owner h = uid) (personalHosts d)"

definition listHosts :: "(personal_host list \<Rightarrow> personal_host list) \<Rightarrow> id \<Rightarrow> actor \<Rightarrow> db \<Rightarrow> host_view list res" where
  "listHosts byName oid a d =
     (case assertCanUseHosts d oid a of Inl er \<Rightarrow> Inl er | Inr _ \<Rightarrow>
        Inr (map (toHostDTO d) (byName (own_hosts d oid (act_user a)))))"

section \<open>Creating\<close>

record host_args =
  ha_name :: string
  ha_host :: string
  ha_port :: int
  ha_username :: "string option"
  ha_credential :: "id option"
  ha_description :: "string option"
  ha_tags :: "string list"
  ha_newIdentity :: "(string \<times> auth_body) option"

definition identityBodyFrom :: "string \<Rightarrow> string \<Rightarrow> auth_body \<Rightarrow> credential_data" where
  "identityBodyFrom name username b =
     (if ab_type b = ''password''
      then \<lparr>cd_name = name, cd_description = None, cd_username = username, cd_authType = ''password'',
            cd_password = Some (ab_password b), cd_sshKey = None, cd_newKey = None, cd_tags = []\<rparr>
      else \<lparr>cd_name = name, cd_description = None, cd_username = username,
            cd_authType = (if ab_password b = [] then ''key'' else ''key_password''), cd_password = str_opt (ab_password b), cd_sshKey = None,
            cd_newKey = Some (UseKey (ab_privateKey b) (str_opt (ab_passphrase b))), cd_tags = []\<rparr>)"

definition host_checks :: "quick_env \<Rightarrow> db \<Rightarrow> id \<Rightarrow> actor \<Rightarrow> host_args \<Rightarrow> unit res" where
  "host_checks e d oid a x =
     (if MAX_HOSTS_PER_USER \<le> length (own_hosts d oid (act_user a)) then Inl (api_error 409 ''You can keep up to 500 hosts'')
      else case assertUsername (ha_username x) of Inl er \<Rightarrow> Inl er | Inr _ \<Rightarrow>
      if truthy (ha_credential x) \<and> ha_newIdentity x \<noteq> None
      then Inl (api_error 400 ''Pass either credentialId or newIdentity, not both'')
      else if \<not> truthy (ha_username x) \<and> \<not> truthy (ha_credential x) \<and> ha_newIdentity x = None
      then Inl (api_error 400 ''username is required when the host has no identity'')
      else case assertNameFree d oid (act_user a) (ha_name x) None of Inl er \<Rightarrow> Inl er | Inr _ \<Rightarrow>
      case assertTarget e d oid a (ha_host x) of Inl er \<Rightarrow> Inl er | Inr _ \<Rightarrow>
      if truthy (ha_credential x) then assertUsableCredential d oid a (the (ha_credential x)) else Inr ())"

record fresh_ids =
  fi_host :: id
  fi_credential :: id
  fi_key :: id
  fi_hexes :: "string list"

text \<open>The identity to link and, when it was made for this host, its id.\<close>

definition host_identity :: "quick_env \<Rightarrow> fresh_ids \<Rightarrow> id \<Rightarrow> actor \<Rightarrow> host_args \<Rightarrow> db \<Rightarrow> (id option \<times> id option) res \<times> db" where
  "host_identity e f oid a x d =
     (case ha_newIdentity x of None \<Rightarrow> (Inr (or_none (ha_credential x), None), d) | Some (name, b) \<Rightarrow>
      if \<not> hasPermission (act_permissions a) ''vault.use''
      then (Inl (permission_denied ''Saving an identity needs the Personal vault permission''), d)
      else if \<not> truthy (ha_username x) then (Inl (api_error 400 ''username is required to save an identity''), d)
      else case createCredential (qe_kit e) (fi_credential f) (fi_key f) (fi_hexes f) oid (identityBodyFrom name (the (ha_username x)) b)
             (Some (act_user a)) (Some (act_user a)) d of
        (Inl er, d1) \<Rightarrow> (Inl er, d1)
      | (Inr c, d1) \<Rightarrow> (Inr (Some (cred_id c), Some (cred_id c)), d1))"

definition new_host :: "id \<Rightarrow> id \<Rightarrow> actor \<Rightarrow> host_args \<Rightarrow> id option \<Rightarrow> personal_host" where
  "new_host newId oid a x linked =
     \<lparr>ph_id = newId, ph_org = oid, ph_owner = act_user a, ph_name = ha_name x, ph_host = ha_host x, ph_port = ha_port x,
      ph_username = or_none (ha_username x), ph_credential = linked, ph_description = or_none (ha_description x), ph_tags = ha_tags x,
      ph_hostKey = None, ph_hostKeyAlg = None, ph_hostKeyPinnedAt = None\<rparr>"

definition host_audit :: "id \<Rightarrow> actor \<Rightarrow> string \<Rightarrow> id \<Rightarrow> (string \<times> json) list \<Rightarrow> db \<Rightarrow> db" where
  "host_audit oid a action i m d = auditLog oid (Some (act_user a)) action ''PersonalHost'' (Some i) (Some (JObj m)) None d"

text \<open>
  \<open>inserted\<close> is false when the insert of the row fails: the identity made for the host is deleted
  again (its key is not) and the error passed on.
\<close>

definition createHost :: "quick_env \<Rightarrow> fresh_ids \<Rightarrow> bool \<Rightarrow> id \<Rightarrow> actor \<Rightarrow> host_args \<Rightarrow> db \<Rightarrow> host_view res \<times> db" where
  "createHost e f inserted oid a x d =
     (case assertCanUseHosts d oid a of Inl er \<Rightarrow> (Inl er, d) | Inr _ \<Rightarrow>
      case host_checks e d oid a x of Inl er \<Rightarrow> (Inl er, d) | Inr _ \<Rightarrow>
      case host_identity e f oid a x d of (Inl er, d1) \<Rightarrow> (Inl er, d1) | (Inr (linked, made), d1) \<Rightarrow>
      if \<not> inserted
      then (Inl DbError, case made of None \<Rightarrow> d1 | Some i \<Rightarrow> delete_credential_row i d1)
      else
        let h = new_host (fi_host f) oid a x linked;
            d2 = d1\<lparr>personalHosts := personalHosts d1 @ [h]\<rparr>
        in (Inr (toHostDTO d2 h),
            host_audit oid a ''vault.host.create'' (ph_id h)
              [(''name'', JStr (ha_name x)), (''host'', JStr (ha_host x)), (''port'', JNum (ha_port x)),
               (''identity'', JStr (if linked = None then ''none'' else if made = None then ''existing'' else ''new''))] d2))"

section \<open>Editing\<close>

record host_edit =
  he_name :: "string option"
  he_host :: "string option"
  he_port :: "int option"
  he_username :: "string option option"
  he_credential :: "id option option"
  he_description :: "string option option"
  he_tags :: "string list option"

definition update_host :: "id \<Rightarrow> (personal_host \<Rightarrow> personal_host) \<Rightarrow> db \<Rightarrow> db" where
  "update_host i f d = d\<lparr>personalHosts := update_where (\<lambda>h. ph_id h = i) f (personalHosts d)\<rparr>"

definition forget_host_key :: "personal_host \<Rightarrow> personal_host" where
  "forget_host_key h = h\<lparr>ph_hostKey := None, ph_hostKeyAlg := None, ph_hostKeyPinnedAt := None\<rparr>"

text \<open>A different address or port is a different machine: its pinned key goes.\<close>

definition moved :: "host_edit \<Rightarrow> personal_host \<Rightarrow> bool" where
  "moved x h \<longleftrightarrow> (he_host x \<noteq> None \<and> he_host x \<noteq> Some (ph_host h)) \<or> (he_port x \<noteq> None \<and> he_port x \<noteq> Some (ph_port h))"

definition edit_host :: "host_edit \<Rightarrow> personal_host \<Rightarrow> personal_host" where
  "edit_host x h =
     (let g = (if moved x h then forget_host_key h else h) in
      g\<lparr>ph_name := (case he_name x of None \<Rightarrow> ph_name h | Some v \<Rightarrow> v), ph_host := (case he_host x of None \<Rightarrow> ph_host h | Some v \<Rightarrow> v),
        ph_port := (case he_port x of None \<Rightarrow> ph_port h | Some p \<Rightarrow> p),
        ph_username := (case he_username x of None \<Rightarrow> ph_username h | Some u \<Rightarrow> or_none u),
        ph_credential := (case he_credential x of None \<Rightarrow> ph_credential h | Some c \<Rightarrow> or_none c),
        ph_description := (case he_description x of None \<Rightarrow> ph_description h | Some t \<Rightarrow> or_none t),
        ph_tags := (case he_tags x of None \<Rightarrow> ph_tags h | Some t \<Rightarrow> t)\<rparr>)"

text \<open>The columns an edit writes, in the order it collects them.\<close>

definition edited_fields :: "host_edit \<Rightarrow> personal_host \<Rightarrow> string list" where
  "edited_fields x h =
     (if he_name x \<noteq> None \<and> he_name x \<noteq> Some (ph_name h) then [''name''] else []) @
     (if he_host x \<noteq> None \<and> he_host x \<noteq> Some (ph_host h) then [''host''] else []) @
     (if he_port x \<noteq> None then [''port''] else []) @
     (if moved x h then [''hostKeyFingerprint'', ''hostKeyAlgorithm'', ''hostKeyPinnedAt''] else []) @
     (if he_username x \<noteq> None then [''username''] else []) @ (if he_credential x \<noteq> None then [''credentialId''] else []) @
     (if he_description x \<noteq> None then [''description''] else []) @ (if he_tags x \<noteq> None then [''tags''] else [])"

definition edit_host_checks :: "quick_env \<Rightarrow> db \<Rightarrow> id \<Rightarrow> actor \<Rightarrow> personal_host \<Rightarrow> host_edit \<Rightarrow> unit res" where
  "edit_host_checks e d oid a h x =
     (case (if he_name x \<noteq> None \<and> he_name x \<noteq> Some (ph_name h)
            then assertNameFree d oid (act_user a) (the (he_name x)) (Some (ph_id h)) else Inr ()) of Inl er \<Rightarrow> Inl er | Inr _ \<Rightarrow>
      case (if he_host x \<noteq> None \<and> he_host x \<noteq> Some (ph_host h) then assertTarget e d oid a (the (he_host x)) else Inr ()) of
        Inl er \<Rightarrow> Inl er | Inr _ \<Rightarrow>
      case (case he_username x of None \<Rightarrow> Inr () | Some u \<Rightarrow> assertUsername u) of Inl er \<Rightarrow> Inl er | Inr _ \<Rightarrow>
      case (case he_credential x of None \<Rightarrow> Inr ()
            | Some c \<Rightarrow> if truthy c \<and> c \<noteq> ph_credential h then assertUsableCredential d oid a (the c) else Inr ()) of
        Inl er \<Rightarrow> Inl er | Inr _ \<Rightarrow>
      if \<not> truthy (ph_username (edit_host x h)) \<and> \<not> truthy (ph_credential (edit_host x h))
      then Inl (api_error 400 ''username is required when the host has no identity'') else Inr ())"

definition updateHost :: "quick_env \<Rightarrow> id \<Rightarrow> actor \<Rightarrow> id \<Rightarrow> host_edit \<Rightarrow> db \<Rightarrow> host_view res \<times> db" where
  "updateHost e oid a i x d =
     (case assertCanUseHosts d oid a of Inl er \<Rightarrow> (Inl er, d) | Inr _ \<Rightarrow>
      case loadOwned d oid (act_user a) i of Inl er \<Rightarrow> (Inl er, d) | Inr h \<Rightarrow>
      case edit_host_checks e d oid a h x of Inl er \<Rightarrow> (Inl er, d) | Inr _ \<Rightarrow>
        let d1 = update_host i (edit_host x) d
        in (Inr (toHostDTO d1 (edit_host x h)),
            host_audit oid a ''vault.host.update'' i
              [(''name'', JStr (ph_name (edit_host x h))), (''fields'', JArr (map JStr (edited_fields x h)))] d1))"

definition deleteHost :: "id \<Rightarrow> actor \<Rightarrow> id \<Rightarrow> db \<Rightarrow> unit res \<times> db" where
  "deleteHost oid a i d =
     (case assertCanUseHosts d oid a of Inl er \<Rightarrow> (Inl er, d) | Inr _ \<Rightarrow>
      case loadOwned d oid (act_user a) i of Inl er \<Rightarrow> (Inl er, d) | Inr h \<Rightarrow>
        (Inr (), host_audit oid a ''vault.host.delete'' i [(''name'', JStr (ph_name h)), (''host'', JStr (ph_host h))]
           (d\<lparr>personalHosts := filter (\<lambda>h. ph_id h \<noteq> i) (personalHosts d)\<rparr>)))"

definition resetHostKey :: "id \<Rightarrow> actor \<Rightarrow> id \<Rightarrow> db \<Rightarrow> host_view res \<times> db" where
  "resetHostKey oid a i d =
     (case assertCanUseHosts d oid a of Inl er \<Rightarrow> (Inl er, d) | Inr _ \<Rightarrow>
      case loadOwned d oid (act_user a) i of Inl er \<Rightarrow> (Inl er, d) | Inr h \<Rightarrow>
        let d1 = update_host i forget_host_key d
        in (Inr (toHostDTO d1 (forget_host_key h)),
            host_audit oid a ''vault.host.reset_host_key'' i
              [(''name'', JStr (ph_name h)), (''previousFingerprint'', (case ph_hostKey h of None \<Rightarrow> JNull | Some f \<Rightarrow> JStr f))] d1))"

section \<open>Connecting\<close>

definition stored_auth :: "id \<Rightarrow> auth_body" where
  "stored_auth i = \<lparr>ab_type = ''credential'', ab_password = [], ab_privateKey = [], ab_passphrase = [], ab_credential = i\<rparr>"

definition connectHost ::
    "quick_env \<Rightarrow> int \<Rightarrow> string \<Rightarrow> id \<Rightarrow> actor \<Rightarrow> id \<Rightarrow> auth_body option \<Rightarrow> ticket redis \<Rightarrow> db \<Rightarrow> string res \<times> ticket redis \<times> db" where
  "connectHost e now fresh oid a i auth rs d =
     (case assertCanUseHosts d oid a of Inl er \<Rightarrow> (Inl er, rs, d) | Inr _ \<Rightarrow>
      case loadOwned d oid (act_user a) i of Inl er \<Rightarrow> (Inl er, rs, d) | Inr h \<Rightarrow>
      if auth = None \<and> (\<not> truthy (ph_credential h) \<or> host_credential d h = None)
      then (Inl (ApiError 409 ''This host asks for a password or key each time'' (Some ''SECRET_REQUIRED'')), rs, d)
      else
        let b = (case auth of Some b \<Rightarrow> b | None \<Rightarrow> stored_auth (the (ph_credential h)));
            username = (if truthy (ph_username h) then the (ph_username h)
                        else case host_credential d h of None \<Rightarrow> [] | Some c \<Rightarrow> cred_username c)
        in case createTicket e now fresh oid a
             \<lparr>tg_host = ph_host h, tg_port = Some (ph_port h), tg_username = username, tg_auth = Some b, tg_expected = or_none (ph_hostKey h)\<rparr>
             ViaPersonalHost (Some (ph_id h)) rs d of
            (Inl er, rs1, d1) \<Rightarrow> (Inl er, rs1, d1)
          | (Inr t, rs1, d1) \<Rightarrow>
              (Inr t, rs1, host_audit oid a ''vault.host.connect'' (ph_id h)
                 [(''name'', JStr (ph_name h)), (''host'', JStr (ph_host h)), (''port'', JNum (ph_port h)),
                  (''username'', JStr username), (''authType'', JStr (ab_type b))] d1))"

end
