(* ===== verification/VaultClaims.thy ===== *)
theory VaultClaims
  imports ServerSecrets Vault Sample
begin

text \<open>
  Stored keys and identities never leave their scope: a key is used by identities of the same
  owner only, a server signs in with identities of its own organization, a personal host with
  those of its organization or of its owner. The invariant is kept by every operation of the key
  store, the vault and the servers that writes one of these rows.
\<close>

section \<open>The invariant\<close>

definition key_in_scope :: "ssh_key list \<Rightarrow> credential \<Rightarrow> bool" where
  "key_in_scope ks c \<longleftrightarrow> (\<forall>k \<in> set ks. cred_sshKey c = Some (key_id k) \<longrightarrow> key_org k = cred_org c \<and> key_owner k = cred_owner c)"

definition server_in_scope :: "credential list \<Rightarrow> server \<Rightarrow> bool" where
  "server_in_scope cs s \<longleftrightarrow>
     (\<forall>c \<in> set cs. srv_credential s = Some (cred_id c) \<or> srv_sudoCredential s = Some (cred_id c) \<longrightarrow>
        cred_org c = srv_org s \<and> cred_owner c = None)"

definition host_in_scope :: "credential list \<Rightarrow> personal_host \<Rightarrow> bool" where
  "host_in_scope cs h \<longleftrightarrow>
     (\<forall>c \<in> set cs. ph_credential h = Some (cred_id c) \<longrightarrow>
        cred_org c = ph_org h \<and> (cred_owner c = None \<or> cred_owner c = Some (ph_owner h)))"

definition scopes_hold :: "db \<Rightarrow> bool" where
  "scopes_hold d \<longleftrightarrow>
     distinct (map key_id (sshKeys d)) \<and> distinct (map cred_id (credentials d)) \<and>
     distinct (map srv_id (servers d)) \<and> distinct (map ph_id (personalHosts d)) \<and>
     (\<forall>c \<in> set (credentials d). key_in_scope (sshKeys d) c) \<and>
     (\<forall>s \<in> set (servers d). server_in_scope (credentials d) s) \<and>
     (\<forall>h \<in> set (personalHosts d). host_in_scope (credentials d) h)"

text \<open>Ids no row has and no reference names.\<close>

definition new_key_id :: "db \<Rightarrow> id \<Rightarrow> bool" where
  "new_key_id d i \<longleftrightarrow> (\<forall>k \<in> set (sshKeys d). key_id k \<noteq> i) \<and> (\<forall>c \<in> set (credentials d). cred_sshKey c \<noteq> Some i)"

definition new_cred_id :: "db \<Rightarrow> id \<Rightarrow> bool" where
  "new_cred_id d i \<longleftrightarrow>
     (\<forall>c \<in> set (credentials d). cred_id c \<noteq> i) \<and>
     (\<forall>s \<in> set (servers d). srv_credential s \<noteq> Some i \<and> srv_sudoCredential s \<noteq> Some i) \<and>
     (\<forall>h \<in> set (personalHosts d). ph_credential h \<noteq> Some i)"

definition new_server_id :: "db \<Rightarrow> id \<Rightarrow> bool" where
  "new_server_id d i \<longleftrightarrow> (\<forall>s \<in> set (servers d). srv_id s \<noteq> i)"

definition new_host_id :: "db \<Rightarrow> id \<Rightarrow> bool" where
  "new_host_id d i \<longleftrightarrow> (\<forall>h \<in> set (personalHosts d). ph_id h \<noteq> i)"

lemma auditLog_vault [simp]:
  "sshKeys (auditLog oid a ac rt ri m ua d) = sshKeys d" "credentials (auditLog oid a ac rt ri m ua d) = credentials d"
  "personalHosts (auditLog oid a ac rt ri m ua d) = personalHosts d"
  by (simp_all add: auditLog_def add_audit_def)

lemma scopes_hold_cong:
  assumes "sshKeys d' = sshKeys d" "credentials d' = credentials d" "servers d' = servers d" "personalHosts d' = personalHosts d"
  shows "scopes_hold d' = scopes_hold d"
  by (simp add: scopes_hold_def assms)

lemma scopes_hold_audit [simp]: "scopes_hold (auditLog oid a ac rt ri m ua d) = scopes_hold d"
  by (rule scopes_hold_cong) simp_all

lemma scopes_hold_key_audit [simp]: "scopes_hold (key_audit oid a ac k m d) = scopes_hold d"
  by (simp add: key_audit_def)

lemma scopes_hold_credential_audit [simp]: "scopes_hold (credential_audit oid a ac c m d) = scopes_hold d"
  by (simp add: credential_audit_def)

lemma scopes_hold_host_audit [simp]: "scopes_hold (host_audit oid a ac i m d) = scopes_hold d"
  by (simp add: host_audit_def)

lemma scopes_hold_sudo_audit [simp]: "scopes_hold (sudo_audit oid a ac i m d) = scopes_hold d"
  by (simp add: sudo_audit_def)

section \<open>What a change of one row needs\<close>

lemma add_key: "scopes_hold d \<Longrightarrow> new_key_id d (key_id k) \<Longrightarrow> scopes_hold (d\<lparr>sshKeys := sshKeys d @ [k]\<rparr>)"
  by (auto simp: scopes_hold_def new_key_id_def key_in_scope_def)

lemma drop_key: "scopes_hold d \<Longrightarrow> scopes_hold (d\<lparr>sshKeys := filter P (sshKeys d)\<rparr>)"
  by (auto simp: scopes_hold_def key_in_scope_def distinct_map_filter)

lemma keep_key:
  assumes "scopes_hold d" and "\<And>k. key_id (f k) = key_id k \<and> key_org (f k) = key_org k \<and> key_owner (f k) = key_owner k"
  shows "scopes_hold (update_key i f d)"
  using assms by (auto simp: scopes_hold_def update_key_def key_in_scope_def rows_simps set_update_where)

lemma add_credential:
  assumes "scopes_hold d" and "new_cred_id d (cred_id c)" and "key_in_scope (sshKeys d) c"
  shows "scopes_hold (d\<lparr>credentials := credentials d @ [c]\<rparr>)"
  using assms by (auto simp: scopes_hold_def new_cred_id_def server_in_scope_def host_in_scope_def)

lemma keep_credential:
  assumes "scopes_hold d" and "\<And>c. cred_id (f c) = cred_id c \<and> cred_org (f c) = cred_org c \<and> cred_owner (f c) = cred_owner c"
    and "\<And>c. c \<in> set (credentials d) \<Longrightarrow> cred_id c = i \<Longrightarrow> key_in_scope (sshKeys d) (f c)"
  shows "scopes_hold (update_credential i f d)"
  using assms
  by (auto simp: scopes_hold_def update_credential_def server_in_scope_def host_in_scope_def rows_simps set_update_where) blast

lemma drop_refs [simp]: "drop_reference i x = Some j \<longleftrightarrow> x = Some j \<and> j \<noteq> i"
  by (auto simp: drop_reference_def)

lemma drop_credential: "scopes_hold d \<Longrightarrow> scopes_hold (delete_credential_row i d)"
  by (auto simp: scopes_hold_def delete_credential_row_def distinct_map_filter o_def server_in_scope_def host_in_scope_def)

lemma keep_servers:
  assumes "scopes_hold d" and "\<And>s. srv_id (f s) = srv_id s"
    and "\<And>s. s \<in> set (servers d) \<Longrightarrow> P s \<Longrightarrow> server_in_scope (credentials d) s \<Longrightarrow> server_in_scope (credentials d) (f s)"
  shows "scopes_hold (d\<lparr>servers := update_where P f (servers d)\<rparr>)"
  using assms by (auto simp: scopes_hold_def rows_simps set_update_where)

lemma add_server:
  "scopes_hold d \<Longrightarrow> new_server_id d (srv_id s) \<Longrightarrow> server_in_scope (credentials d) s \<Longrightarrow> scopes_hold (d\<lparr>servers := servers d @ [s]\<rparr>)"
  by (auto simp: scopes_hold_def new_server_id_def)

lemma add_host:
  "scopes_hold d \<Longrightarrow> new_host_id d (ph_id h) \<Longrightarrow> host_in_scope (credentials d) h \<Longrightarrow> scopes_hold (d\<lparr>personalHosts := personalHosts d @ [h]\<rparr>)"
  by (auto simp: scopes_hold_def new_host_id_def)

lemma keep_host:
  assumes "scopes_hold d" and "\<And>h. ph_id (f h) = ph_id h"
    and "\<And>h. h \<in> set (personalHosts d) \<Longrightarrow> ph_id h = i \<Longrightarrow> host_in_scope (credentials d) (f h)"
  shows "scopes_hold (update_host i f d)"
  using assms by (auto simp: scopes_hold_def update_host_def rows_simps set_update_where)

lemma drop_host: "scopes_hold d \<Longrightarrow> scopes_hold (d\<lparr>personalHosts := filter P (personalHosts d)\<rparr>)"
  by (auto simp: scopes_hold_def distinct_map_filter)

lemma same_row: "distinct (map k rs) \<Longrightarrow> x \<in> set rs \<Longrightarrow> y \<in> set rs \<Longrightarrow> k x = k y \<Longrightarrow> x = y"
  by (auto simp: distinct_map inj_on_def)

section \<open>Keys\<close>

lemma createSshKeyRow_cases:
  "createSshKeyRow k d = (r, d1) \<Longrightarrow> (\<exists>er. r = Inl er \<and> d1 = d) \<or> (r = Inr k \<and> d1 = d\<lparr>sshKeys := sshKeys d @ [k]\<rparr>)"
  by (auto simp: createSshKeyRow_def split: if_splits)

lemma new_key_shape [simp]:
  "key_id (new_key kt newId oid by_user own x i src) = newId" "key_org (new_key kt newId oid by_user own x i src) = oid"
  "key_owner (new_key kt newId oid by_user own x i src) = own"
  by (simp_all add: new_key_def)

lemma generateKey_keeps: "scopes_hold d \<Longrightarrow> new_key_id d newId \<Longrightarrow> scopes_hold (snd (generateKey kt newId oid x by_user own d))"
  by (auto simp: generateKey_def add_key split: sum.splits prod.splits dest!: createSshKeyRow_cases)

lemma importKey_keeps: "scopes_hold d \<Longrightarrow> new_key_id d newId \<Longrightarrow> scopes_hold (snd (importKey kt newId oid x by_user own d))"
  by (auto simp: importKey_def add_key split: sum.splits prod.splits dest!: createSshKeyRow_cases)

lemma updateKey_keeps: "scopes_hold d \<Longrightarrow> scopes_hold (snd (updateKey kt oid i x own d))"
  by (auto simp: updateKey_def edit_key_def intro!: keep_key split: sum.splits option.splits)

lemma deleteKey_keeps: "scopes_hold d \<Longrightarrow> scopes_hold (snd (deleteKey oid i own d))"
  by (auto simp: deleteKey_def drop_key split: option.splits)

lemma exportKey_keeps: "scopes_hold d \<Longrightarrow> scopes_hold (snd (exportKey kt now oid i a own d))"
  by (auto simp: exportKey_def intro!: keep_key split: sum.splits option.splits)

section \<open>Identities\<close>

lemma insert_first_cases:
  "insert_first k ns d = (r, d1) \<Longrightarrow>
     (\<exists>er. r = Inl er \<and> d1 = d) \<or> (\<exists>n. r = Inr (k\<lparr>key_name := n\<rparr>) \<and> d1 = d\<lparr>sshKeys := sshKeys d @ [k\<lparr>key_name := n\<rparr>]\<rparr>)"
  by (induction k ns d rule: insert_first.induct) (auto split: prod.splits sum.splits dest!: createSshKeyRow_cases)

lemma resolveNewKey_cases:
  "resolveNewKey kt newId hexes oid name nk by_user own d = (r, d1) \<Longrightarrow>
     (\<exists>er. r = Inl er \<and> d1 = d) \<or>
     (\<exists>k. r = Inr k \<and> key_id k = newId \<and> key_org k = oid \<and> key_owner k = own \<and> d1 = d\<lparr>sshKeys := sshKeys d @ [k]\<rparr>)"
  by (auto simp: resolveNewKey_def Let_def simp del: insert_first.simps split: sum.splits prod.splits dest!: insert_first_cases)

lemma find_key_row: "find_key d i oid own = Some k \<Longrightarrow> k \<in> set (sshKeys d) \<and> key_id k = i \<and> key_org k = oid \<and> key_owner k = own"
  by (auto simp: find_key_def dest: find_SomeD)

lemma find_credential_row:
  "find_credential d i oid own = Some c \<Longrightarrow> c \<in> set (credentials d) \<and> cred_id c = i \<and> cred_org c = oid \<and> cred_owner c = own"
  by (auto simp: find_credential_def dest: find_SomeD)

text \<open>The key of a new or edited identity: none, one of the same scope, or a new one of that scope.\<close>

lemma chosen_key_cases:
  assumes "chosen_key kt newId hexes oid name kid nk by_user own d = (r, d1)"
  shows "(\<exists>er. r = Inl er \<and> d1 = d) \<or>
    (\<exists>ko. r = Inr ko \<and> (ko \<noteq> None \<longrightarrow> (\<exists>k \<in> set (sshKeys d1). ko = Some (key_id k) \<and> key_org k = oid \<and> key_owner k = own)) \<and>
      (d1 = d \<or> (\<exists>k. key_id k = newId \<and> d1 = d\<lparr>sshKeys := sshKeys d @ [k]\<rparr>)))"
proof (cases nk)
  case None
  show ?thesis
  proof (cases "truthy kid")
    case True
    with assms None show ?thesis
      by (cases "find_key d (the kid) oid own") (auto simp: chosen_key_def or_none_def truthy_iff dest!: find_key_row)
  qed (use assms None in \<open>auto simp: chosen_key_def or_none_def\<close>)
next
  case (Some n)
  with assms show ?thesis
    by (cases "resolveNewKey kt newId hexes oid name n by_user own d" rule: prod.exhaust)
      (auto simp: chosen_key_def split: sum.splits dest!: resolveNewKey_cases)
qed

lemma chosen_in_scope:
  assumes "scopes_hold d"
    and "cred_sshKey c \<noteq> None \<longrightarrow> (\<exists>k \<in> set (sshKeys d). cred_sshKey c = Some (key_id k) \<and> key_org k = cred_org c \<and> key_owner k = cred_owner c)"
  shows "key_in_scope (sshKeys d) c"
  using assms by (auto simp: key_in_scope_def scopes_hold_def dest: same_row)

lemma after_key:
  assumes "scopes_hold d" and "new_key_id d newKeyId" and "d1 = d \<or> (\<exists>k. key_id k = newKeyId \<and> d1 = d\<lparr>sshKeys := sshKeys d @ [k]\<rparr>)"
  shows "scopes_hold d1" and "new_cred_id d1 i = new_cred_id d i"
    and "credentials d1 = credentials d" "servers d1 = servers d" "personalHosts d1 = personalHosts d"
  using assms by (auto simp: add_key new_cred_id_def)

lemma new_credential_shape [simp]:
  "cred_id (new_credential kt newId oid x kid by_user own) = newId" "cred_org (new_credential kt newId oid x kid by_user own) = oid"
  "cred_owner (new_credential kt newId oid x kid by_user own) = own" "cred_sshKey (new_credential kt newId oid x kid by_user own) = kid"
  by (simp_all add: new_credential_def)

lemma credential_audit_rows [simp]:
  "sshKeys (credential_audit oid a ac c m d) = sshKeys d" "credentials (credential_audit oid a ac c m d) = credentials d"
  "servers (credential_audit oid a ac c m d) = servers d" "personalHosts (credential_audit oid a ac c m d) = personalHosts d"
  by (simp_all add: credential_audit_def)

lemma createCredential_ok:
  assumes "scopes_hold d" and "new_key_id d newKeyId" and "new_cred_id d newId"
    and "createCredential kt newId newKeyId hexes oid x by_user own d = (r, d1)"
  shows "scopes_hold d1"
    and "r = Inr c \<Longrightarrow> cred_id c = newId \<and> cred_org c = oid \<and> cred_owner c = own \<and> credentials d1 = credentials d @ [c]"
    and "servers d1 = servers d" and "personalHosts d1 = personalHosts d"
proof -
  obtain rk d0 where ck: "chosen_key kt newKeyId hexes oid (cd_name x) (cd_sshKey x) (cd_newKey x) by_user own d = (rk, d0)"
    by (rule prod.exhaust)
  note cases = chosen_key_cases [OF ck]
  have d0: "d0 = d \<or> (\<exists>k. key_id k = newKeyId \<and> d0 = d\<lparr>sshKeys := sshKeys d @ [k]\<rparr>)"
    using cases by auto
  note k = after_key [OF assms(1,2) d0]
  have "scopes_hold (d0\<lparr>credentials := credentials d0 @ [new_credential kt newId oid x ko by_user own]\<rparr>)" if "rk = Inr ko" for ko
    using cases that assms(3) k(2)
    by (intro add_credential k(1) chosen_in_scope) auto
  with assms(1,4) ck cases k
  have all: "scopes_hold d1 \<and> (r = Inr c \<longrightarrow> cred_id c = newId \<and> cred_org c = oid \<and> cred_owner c = own \<and> credentials d1 = credentials d @ [c]) \<and>
    servers d1 = servers d \<and> personalHosts d1 = personalHosts d" for c
    by (auto simp: createCredential_def Let_def split: if_splits sum.splits)
  show "scopes_hold d1" "r = Inr c \<Longrightarrow> cred_id c = newId \<and> cred_org c = oid \<and> cred_owner c = own \<and> credentials d1 = credentials d @ [c]"
    "servers d1 = servers d" "personalHosts d1 = personalHosts d"
    using all by auto
qed

lemma edit_credential_shape [simp]:
  "cred_id (edit_credential kt x kid c) = cred_id c" "cred_org (edit_credential kt x kid c) = cred_org c"
  "cred_owner (edit_credential kt x kid c) = cred_owner c"
  "cred_sshKey (edit_credential kt x kid c) = (case kid of None \<Rightarrow> cred_sshKey c | Some v \<Rightarrow> v)"
  by (simp_all add: edit_credential_def)

lemma edited_keeps:
  assumes "scopes_hold d1" and "find_credential d i oid own = Some c" and "credentials d1 = credentials d"
    and "kid = None \<or> (\<exists>ko. kid = Some ko \<and> (ko \<noteq> None \<longrightarrow> (\<exists>k \<in> set (sshKeys d1). ko = Some (key_id k) \<and> key_org k = oid \<and> key_owner k = own)))"
  shows "scopes_hold (update_credential i (edit_credential kt x kid) d1)"
proof (rule keep_credential)
  fix r assume r: "r \<in> set (credentials d1)" "cred_id r = i"
  with assms(1-3) have rc: "r = c" and c: "cred_org c = oid" "cred_owner c = own" "c \<in> set (credentials d1)"
    by (auto simp: scopes_hold_def dest!: find_credential_row dest: same_row)
  show "key_in_scope (sshKeys d1) (edit_credential kt x kid r)"
  proof (cases kid)
    case None
    with assms(1) c rc show ?thesis by (auto simp: scopes_hold_def key_in_scope_def)
  next
    case (Some ko)
    with assms(4) c rc show ?thesis by (intro chosen_in_scope assms(1)) auto
  qed
qed (use assms in auto)

lemma updateCredential_keeps:
  assumes "scopes_hold d" and "new_key_id d newKeyId"
  shows "scopes_hold (snd (updateCredential kt newKeyId hexes oid i x a own d))"
    (is "scopes_hold (snd ?r)")
proof (cases "find_credential d i oid own")
  case (Some c)
  show ?thesis
  proof (cases "ce_newKey x = None \<and> ce_sshKey x = None")
    case True
    with Some assms show ?thesis
      by (auto simp: updateCredential_def Let_def edited_keeps split: sum.splits)
  next
    case False
    obtain rk d0 where ck: "chosen_key kt newKeyId hexes oid (or_else (ce_name x) (cred_name c))
        (case ce_sshKey x of None \<Rightarrow> None | Some v \<Rightarrow> v) (ce_newKey x) a own d = (rk, d0)"
      by (rule prod.exhaust)
    note cases = chosen_key_cases [OF ck]
    have d0: "d0 = d \<or> (\<exists>k. key_id k = newKeyId \<and> d0 = d\<lparr>sshKeys := sshKeys d @ [k]\<rparr>)"
      using cases by auto
    note k = after_key [OF assms d0]
    have "scopes_hold (update_credential i (edit_credential kt x (Some ko)) d0)" if "rk = Inr ko" for ko
      using cases that by (intro edited_keeps [OF k(1) Some k(3)]) auto
    with False Some assms ck k(1) show ?thesis
      by (auto simp: updateCredential_def Let_def split: sum.splits)
  qed
qed (use assms in \<open>simp add: updateCredential_def\<close>)

lemma deleteCredential_keeps:
  assumes "scopes_hold d"
  shows "scopes_hold (snd (deleteCredential oid i force own a d))"
proof -
  have "scopes_hold (d\<lparr>servers := update_where (\<lambda>s. srv_org s = oid \<and> srv_credential s = Some i)
      (\<lambda>s. s\<lparr>srv_credential := None, srv_authMode := AuthCertificate\<rparr>) (servers d)\<rparr>)"
    by (rule keep_servers [OF assms]) (use assms in \<open>auto simp: scopes_hold_def server_in_scope_def\<close>)
  then show ?thesis
    using assms by (auto simp: deleteCredential_def Let_def drop_credential split: option.splits)
qed

section \<open>From the vault to the organization\<close>

lemma moveKeyToOrg_keeps:
  assumes "scopes_hold d"
  shows "scopes_hold (snd (moveKeyToOrg oid i own d))"
proof -
  have "scopes_hold (update_key i (\<lambda>k. k\<lparr>key_owner := None\<rparr>) d)" if "credentials_of_key d i = []"
    using assms that
    by (auto simp: credentials_of_key_def filter_empty_conv scopes_hold_def update_key_def key_in_scope_def rows_simps set_update_where)
  with assms show ?thesis by (auto simp: moveKeyToOrg_def split: option.splits sum.splits)
qed

text \<open>With an identity goes the key no other identity uses; no server can have been bound to either.\<close>

lemma short_list: "\<not> 1 < length xs \<Longrightarrow> x \<in> set xs \<Longrightarrow> y \<in> set xs \<Longrightarrow> x = y"
  by (cases xs; cases "tl xs") auto

abbreviation shared :: "credential \<Rightarrow> credential" where "shared c \<equiv> c\<lparr>cred_owner := None\<rparr>"

text \<open>Making an identity the organization's harms neither servers nor hosts; its key is the rest.\<close>

lemma share_credential:
  assumes d: "scopes_hold d" and ids: "map key_id ks = map key_id (sshKeys d)"
    and keys: "\<And>x k. x \<in> set (credentials d) \<Longrightarrow> k \<in> set ks \<Longrightarrow> cred_sshKey x = Some (key_id k) \<Longrightarrow>
      key_org k = cred_org x \<and> key_owner k = (if cred_id x = i then None else cred_owner x)"
  shows "scopes_hold (update_credential i shared (d\<lparr>sshKeys := ks\<rparr>))"
proof -
  have "\<forall>s \<in> set (servers d). server_in_scope (update_where (\<lambda>c. cred_id c = i) shared (credentials d)) s"
    "\<forall>h \<in> set (personalHosts d). host_in_scope (update_where (\<lambda>c. cred_id c = i) shared (credentials d)) h"
    using d by (auto simp: scopes_hold_def server_in_scope_def host_in_scope_def set_update_where)
  moreover have "\<forall>c \<in> set (update_where (\<lambda>c. cred_id c = i) shared (credentials d)). key_in_scope ks c"
    using keys by (fastforce simp: key_in_scope_def elim!: in_update_whereE split: if_splits)
  ultimately show ?thesis
    using d ids by (simp add: scopes_hold_def update_credential_def rows_simps)
qed

lemma move_pair:
  assumes d: "scopes_hold d" and c: "c \<in> set (credentials d)" "cred_owner c = Some own"
    and k: "k \<in> set (sshKeys d)" "cred_sshKey c = Some (key_id k)" and alone: "\<not> 1 < length (credentials_of_key d (key_id k))"
  shows "scopes_hold (update_credential (cred_id c) shared (update_key (key_id k) (\<lambda>k. k\<lparr>key_owner := None\<rparr>) d))"
proof -
  have only: "x = c" if "x \<in> set (credentials d)" "cred_sshKey x = Some (key_id k)" for x
    by (rule short_list [OF alone]) (use that c k in \<open>auto simp: credentials_of_key_def\<close>)
  have row: "x = c" if "x \<in> set (credentials d)" "cred_id x = cred_id c" for x
    using d that c by (auto simp: scopes_hold_def dest: same_row)
  have fine: "key_org z = cred_org x \<and> key_owner z = cred_owner x"
    if "x \<in> set (credentials d)" "z \<in> set (sshKeys d)" "cred_sshKey x = Some (key_id z)" for x z
    using d that by (auto simp: scopes_hold_def key_in_scope_def)
  show ?thesis
    unfolding update_key_def
  proof (rule share_credential [OF d])
    fix x z assume x: "x \<in> set (credentials d)" and z: "z \<in> set (update_where (\<lambda>z. key_id z = key_id k) (\<lambda>k. k\<lparr>key_owner := None\<rparr>) (sshKeys d))"
      and xz: "cred_sshKey x = Some (key_id z)"
    from z obtain z0 where z0: "z0 \<in> set (sshKeys d)" "z = (if key_id z0 = key_id k then z0\<lparr>key_owner := None\<rparr> else z0)"
      by (rule in_update_whereE)
    then have same: "key_id z = key_id z0" "key_org z = key_org z0" by auto
    note f = fine [OF x z0(1)]
    show "key_org z = cred_org x \<and> key_owner z = (if cred_id x = cred_id c then None else cred_owner x)"
    proof (cases "cred_id x = cred_id c")
      case True
      with x row have "x = c" by blast
      with k xz same f z0 True show ?thesis by simp
    next
      case False
      with only [OF x] have "key_id z0 \<noteq> key_id k" using xz same by auto
      with f xz same z0 False show ?thesis by simp
    qed
  qed (simp add: rows_simps)
qed

lemma move_alone:
  assumes d: "scopes_hold d" and c: "c \<in> set (credentials d)" and k: "\<forall>k \<in> set (sshKeys d). cred_sshKey c \<noteq> Some (key_id k)"
  shows "scopes_hold (update_credential (cred_id c) shared d)"
proof -
  have row: "x = c" if "x \<in> set (credentials d)" "cred_id x = cred_id c" for x
    using d that c by (auto simp: scopes_hold_def dest: same_row)
  have "scopes_hold (update_credential (cred_id c) shared (d\<lparr>sshKeys := sshKeys d\<rparr>))"
  proof (rule share_credential [OF d])
    fix x z assume xz: "x \<in> set (credentials d)" "z \<in> set (sshKeys d)" "cred_sshKey x = Some (key_id z)"
    with row k have "cred_id x \<noteq> cred_id c" by blast
    with d xz show "key_org z = cred_org x \<and> key_owner z = (if cred_id x = cred_id c then None else cred_owner x)"
      by (auto simp: scopes_hold_def key_in_scope_def)
  qed simp
  then show ?thesis by simp
qed

lemma key_of_row: "key_of d c = Some k \<Longrightarrow> k \<in> set (sshKeys d) \<and> cred_sshKey c = Some (key_id k)"
  by (auto simp: key_of_def split: option.splits dest: find_SomeD)

lemma key_of_none: "key_of d c = None \<Longrightarrow> \<forall>k \<in> set (sshKeys d). cred_sshKey c \<noteq> Some (key_id k)"
  by (auto simp: key_of_def find_None_iff_all split: option.splits)

lemma moveCredentialToOrg_keeps:
  assumes "scopes_hold d"
  shows "scopes_hold (snd (moveCredentialToOrg oid i own d))"
proof (cases "find_credential d i oid (Some own)")
  case (Some c)
  note c = find_credential_row [OF Some]
  show ?thesis
  proof (cases "key_of d c")
    case None
    with Some c assms show ?thesis
      using move_alone [OF assms _ key_of_none [OF None]]
      by (auto simp: moveCredentialToOrg_def Let_def split: sum.splits)
  next
    case (Some k)
    with \<open>find_credential d i oid (Some own) = Some c\<close> c assms show ?thesis
      using move_pair [OF assms, of c own k] key_of_row [OF Some]
      by (auto simp: moveCredentialToOrg_def Let_def split: sum.splits)
  qed
qed (use assms in \<open>simp add: moveCredentialToOrg_def\<close>)

section \<open>Servers\<close>

lemma write_columns_shape [simp]:
  "srv_id (write_columns seal x ip mode cred s) = srv_id s" "srv_org (write_columns seal x ip mode cred s) = srv_org s"
  "srv_sudoCredential (write_columns seal x ip mode cred s) = srv_sudoCredential s"
  "srv_credential (write_columns seal x ip mode cred s) = sent cred (srv_credential s)"
  "srv_customer (write_columns seal x ip mode cred s) = srv_customer s"
  by (simp_all add: write_columns_def)

lemma validateAuthMode_ok:
  assumes "validateAuthMode d oid mode cred = Inr (m, w)" and "w \<noteq> Some (Some [])"
  shows "w = None \<or> w = Some None \<or> (\<exists>c \<in> set (credentials d). w = Some (Some (cred_id c)) \<and> cred_org c = oid \<and> cred_owner c = None)"
proof -
  have found: "\<exists>c \<in> set (credentials d). i = cred_id c \<and> cred_org c = oid \<and> cred_owner c = None"
    if "find_credential d i oid None \<noteq> None" for i
    using that by (auto dest!: find_credential_row)
  show ?thesis
    using assms found
    by (cases cred rule: option.exhaust; cases "case cred of None \<Rightarrow> None | Some v \<Rightarrow> v")
      (auto simp: validateAuthMode_def Let_def split: option.splits auth_mode.splits if_splits)
qed

lemma bound_in_scope:
  assumes "scopes_hold d" and "c \<in> set (credentials d)" "cred_org c = oid" "cred_owner c = None" "x \<in> set (credentials d)" "cred_id x = cred_id c"
  shows "cred_org x = oid \<and> cred_owner x = None"
  using assms by (auto simp: scopes_hold_def dest: same_row)

lemma written_in_scope:
  assumes d: "scopes_hold d" and s: "server_in_scope (credentials d) s" "srv_org s = oid"
    and "validateAuthMode d oid mode cred = Inr (m, w)" "w \<noteq> Some (Some [])"
  shows "server_in_scope (credentials d) (write_columns seal x ip m w s)"
  using validateAuthMode_ok [OF assms(4,5)]
proof (elim disjE bexE conjE)
  fix c assume c: "c \<in> set (credentials d)" "w = Some (Some (cred_id c))" "cred_org c = oid" "cred_owner c = None"
  show ?thesis
    using s c bound_in_scope [OF d c(1,3,4)] by (simp add: server_in_scope_def sent_def)
qed (use s in \<open>simp_all add: server_in_scope_def sent_def\<close>)

lemma blank_in_scope [simp]: "server_in_scope cs (blank_server i oid cid h)" "srv_id (blank_server i oid cid h) = i" "srv_org (blank_server i oid cid h) = oid"
  by (simp_all add: server_in_scope_def blank_server_def)

lemma createServer_keeps:
  "scopes_hold d \<Longrightarrow> new_server_id d newId \<Longrightarrow> scopes_hold (snd (createServer seal newId oid cid x sc d))"
  by (auto simp: createServer_def Let_def split: sum.splits intro!: add_server written_in_scope)

lemma scoped_server_row: "scoped_server d i oid sc = Some s \<Longrightarrow> s \<in> set (servers d) \<and> srv_id s = i \<and> srv_org s = oid \<and> serverScopeWhere sc s"
  by (auto simp: scoped_server_def dest: find_SomeD)

lemma update_server_keeps:
  assumes "scopes_hold d" and "scoped_server d i oid sc = Some s" and "\<And>s. srv_id (f s) = srv_id s"
    and "server_in_scope (credentials d) s \<Longrightarrow> server_in_scope (credentials d) (f s)"
  shows "scopes_hold (update_server i f d)"
  unfolding update_server_def
proof (rule keep_servers [OF assms(1,3)])
  fix r assume "r \<in> set (servers d)" "srv_id r = i" "server_in_scope (credentials d) r"
  with assms(1,2) have "r = s" by (auto simp: scopes_hold_def dest!: scoped_server_row dest: same_row)
  with assms(4) \<open>server_in_scope (credentials d) r\<close> show "server_in_scope (credentials d) (f r)" by simp
qed

lemma updateServer_keeps: "scopes_hold d \<Longrightarrow> scopes_hold (snd (updateServer seal oid i x sc d))"
  by (auto simp: updateServer_def Let_def split: sum.splits option.splits
      intro!: update_server_keeps written_in_scope dest: scoped_server_row)

lemma resetServerHostKey_keeps: "scopes_hold d \<Longrightarrow> scopes_hold (snd (resetServerHostKey oid i sc d))"
  by (auto simp: resetServerHostKey_def clear_host_key_def server_in_scope_def split: option.splits intro!: update_server_keeps)

lemma updateConnectionIp_keeps: "scopes_hold d \<Longrightarrow> scopes_hold (snd (updateConnectionIp oid i ip sc d))"
  by (auto simp: updateConnectionIp_def server_in_scope_def split: option.splits intro!: update_server_keeps)

lemma bulkUpdate_keeps: "scopes_hold d \<Longrightarrow> scopes_hold (snd (bulkUpdate oid ids p sc d))"
  by (auto simp: bulkUpdate_def Let_def bulk_write_def server_in_scope_def split: sum.splits if_splits intro!: keep_servers)

lemma delete_server_row_keeps: "scopes_hold d \<Longrightarrow> scopes_hold (delete_server_row i d)"
  by (auto simp: delete_server_row_def Let_def scopes_hold_def distinct_map_filter)

section \<open>Saving a target\<close>

lemma saved_key_shape [simp]:
  "key_id (saved_key kt i oid a n b z) = i" "key_org (saved_key kt i oid a n b z) = oid" "key_owner (saved_key kt i oid a n b z) = None"
  by (simp_all add: saved_key_def)

lemma saved_credential_shape [simp]:
  "cred_id (saved_credential kt i oid a u n b kid) = i" "cred_org (saved_credential kt i oid a u n b kid) = oid"
  "cred_owner (saved_credential kt i oid a u n b kid) = None" "cred_sshKey (saved_credential kt i oid a u n b kid) = kid"
  by (simp_all add: saved_credential_def)

lemma saveAsServer_keeps:
  assumes "scopes_hold d" and "new_server_id d newId" and "new_cred_id d newCredId" and "new_key_id d newKeyId"
  shows "scopes_hold (snd (saveAsServer e now newId newCredId newKeyId oid a x sc d))"
proof -
  have put: "scopes_hold (d1\<lparr>servers := servers d1 @ [saved_server now newId oid x cred]\<rparr>)"
    if "scopes_hold d1" "servers d1 = servers d"
      "cred = None \<or> (\<exists>c \<in> set (credentials d1). cred = Some (cred_id c) \<and> cred_org c = oid \<and> cred_owner c = None)" for d1 cred
  proof (rule add_server [OF that(1)])
    show "new_server_id d1 (srv_id (saved_server now newId oid x cred))"
      using assms(2) that(2) by (simp add: saved_server_def blank_server_def new_server_id_def)
    show "server_in_scope (credentials d1) (saved_server now newId oid x cred)"
      using that(3) bound_in_scope [OF that(1), of _ oid]
      by (auto simp: saved_server_def blank_server_def server_in_scope_def)
  qed
  have mk: "scopes_hold (d1\<lparr>credentials := credentials d1 @ [saved_credential kt newCredId oid a u n b kid]\<rparr>)"
    if "d1 = d \<and> kid = None \<or> (\<exists>i. d1 = d\<lparr>sshKeys := sshKeys d @ [saved_key kt newKeyId oid a n b i]\<rparr> \<and> kid = Some newKeyId)" for d1 kid kt u n b
  proof -
    have "d1 = d \<or> (\<exists>k. key_id k = newKeyId \<and> d1 = d\<lparr>sshKeys := sshKeys d @ [k]\<rparr>)"
      using that saved_key_shape(1) by blast
    note k = after_key [OF assms(1,4) this]
    show ?thesis
      using that k(2) assms(3)
      by (intro add_credential k(1) chosen_in_scope) auto
  qed
  have mk_plain: "scopes_hold (d\<lparr>credentials := credentials d @ [saved_credential kt newCredId oid a u n b None]\<rparr>)" for kt u n b
    using mk [of d None kt] by simp
  have mk_key: "scopes_hold (d\<lparr>sshKeys := sshKeys d @ [saved_key kt newKeyId oid a n b i],
      credentials := credentials d @ [saved_credential kt newCredId oid a u n b (Some newKeyId)]\<rparr>)" for kt u n b i
  proof -
    let ?d1 = "d\<lparr>sshKeys := sshKeys d @ [saved_key kt newKeyId oid a n b i]\<rparr>"
    have "?d1 = d \<and> Some newKeyId = None \<or> (\<exists>i. ?d1 = d\<lparr>sshKeys := sshKeys d @ [saved_key kt newKeyId oid a n b i]\<rparr> \<and> Some newKeyId = Some newKeyId)"
      by blast
    from mk [OF this] show ?thesis by simp
  qed
  have saved: "scopes_hold d1 \<and> servers d1 = servers d \<and>
      (cred = None \<or> (\<exists>c \<in> set (credentials d1). cred = Some (cred_id c) \<and> cred_org c = oid \<and> cred_owner c = None))"
    if "save_identity kt newCredId newKeyId oid a x d = Inr (cred, d1)" for kt cred d1
    using that assms(1) mk_plain mk_key
    by (auto simp: save_identity_def split: if_splits saved_identity.splits option.splits sum.splits
        dest!: find_credential_row)
  show ?thesis
    using assms(1) put saved
    by (auto simp: saveAsServer_def Let_def split: sum.splits)
qed

section \<open>Sudo passwords\<close>

lemma saveSudoPassword_keeps:
  assumes d: "scopes_hold d" and n: "new_cred_id d newId" and k: "new_key_id d []"
  shows "scopes_hold (snd (saveSudoPassword kt newId stamp source oid sid pw a sc d))"
proof (cases "scoped_server d sid oid sc")
  case (Some s)
  note s = scoped_server_row [OF Some]
  show ?thesis
  proof (cases "holds (replaceable s) (sudo_credential d s)")
    case True
    define r where "r = updateCredential kt [] [] oid (cred_id (the (sudo_credential d s))) (password_edit pw) (Some (act_user a)) None d"
    have "scopes_hold (snd r)" unfolding r_def by (rule updateCredential_keeps [OF d k])
    with True Some d show ?thesis
      by (cases r) (auto simp: saveSudoPassword_def Let_def r_def [symmetric] split: sum.splits)
  next
    case False
    define r where "r = createCredential kt newId [] [] oid
      (sudo_identity (freeName stamp d oid (dashed ''sudo'' (server_label s))) pw s) (Some (act_user a)) None d"
    obtain q d1 where qd: "r = (q, d1)" by (rule prod.exhaust)
    note c = createCredential_ok [OF d k n qd [unfolded r_def]]
    have "scopes_hold (update_server (srv_id s) (\<lambda>s. s\<lparr>srv_sudoCredential := Some (cred_id x)\<rparr>) d1)" if "q = Inr x" for x
    proof (rule update_server_keeps [OF c(1)])
      show "scoped_server d1 (srv_id s) oid sc = Some s"
        using Some s c(3) by (simp add: scoped_server_def)
      have "x \<in> set (credentials d1)" "cred_org x = oid" "cred_owner x = None"
        using c(2) [OF that] by auto
      then show "server_in_scope (credentials d1) s \<Longrightarrow> server_in_scope (credentials d1) (s\<lparr>srv_sudoCredential := Some (cred_id x)\<rparr>)"
        using s bound_in_scope [OF c(1), of x oid] by (auto simp: server_in_scope_def)
    qed simp
    with False Some d qd c(1) show ?thesis
      by (auto simp: saveSudoPassword_def Let_def r_def [symmetric] split: sum.splits)
  qed
qed (use d in \<open>simp add: saveSudoPassword_def\<close>)

lemma unbind_sudo_keeps:
  assumes "scopes_hold d"
  shows "scopes_hold (update_server i (\<lambda>s. s\<lparr>srv_sudoCredential := None\<rparr>) d)"
  unfolding update_server_def by (rule keep_servers [OF assms]) (auto simp: server_in_scope_def)

lemma forgetSudoPassword_keeps:
  assumes d: "scopes_hold d"
  shows "scopes_hold (snd (forgetSudoPassword oid sid a sc d))"
proof (cases "scoped_server d sid oid sc")
  case (Some s)
  let ?d1 = "update_server (srv_id s) (\<lambda>s. s\<lparr>srv_sudoCredential := None\<rparr>) d"
  have "scopes_hold (snd (deleteCredential oid i False None by_user ?d1))" for i by_user
    by (intro deleteCredential_keeps unbind_sudo_keeps d)
  then have "deleteCredential oid i False None by_user ?d1 = (r, d2) \<Longrightarrow> scopes_hold d2" for i by_user r d2
    by (metis snd_conv)
  with Some d show ?thesis
    by (auto simp: forgetSudoPassword_def Let_def unbind_sudo_keeps split: option.splits prod.splits sum.splits if_splits)
qed (use d in \<open>simp add: forgetSudoPassword_def\<close>)

section \<open>Personal hosts\<close>

lemma visible_row:
  "visible_credential d i oid uid = Some c \<Longrightarrow>
     c \<in> set (credentials d) \<and> cred_id c = i \<and> cred_org c = oid \<and> (cred_owner c = None \<or> cred_owner c = Some uid)"
  by (auto simp: visible_credential_def dest: find_SomeD)

lemma usable_visible: "assertUsableCredential d oid a i = Inr y \<Longrightarrow> \<exists>c. visible_credential d i oid (act_user a) = Some c"
  by (auto simp: assertUsableCredential_def split: option.splits)

lemma linked_in_scope:
  assumes d: "scopes_hold d"
    and "ph_credential h = None \<or> (\<exists>c \<in> set (credentials d). ph_credential h = Some (cred_id c) \<and> cred_org c = ph_org h \<and>
      (cred_owner c = None \<or> cred_owner c = Some (ph_owner h)))"
  shows "host_in_scope (credentials d) h"
  using assms by (auto simp: host_in_scope_def scopes_hold_def dest: same_row)

lemma host_identity_ok:
  assumes d: "scopes_hold d" and k: "new_key_id d (fi_key f)" and n: "new_cred_id d (fi_credential f)"
    and checks: "host_checks e d oid a x = Inr y" and eq: "host_identity e f oid a x d = (r, d1)"
  shows "scopes_hold d1" and "personalHosts d1 = personalHosts d"
    and "r = Inr (linked, made) \<Longrightarrow> linked = None \<or> (\<exists>c \<in> set (credentials d1). linked = Some (cred_id c) \<and> cred_org c = oid \<and>
      (cred_owner c = None \<or> cred_owner c = Some (act_user a)))"
proof -
  have all: "scopes_hold d1 \<and> personalHosts d1 = personalHosts d \<and> (r = Inr (linked, made) \<longrightarrow> linked = None \<or>
      (\<exists>c \<in> set (credentials d1). linked = Some (cred_id c) \<and> cred_org c = oid \<and> (cred_owner c = None \<or> cred_owner c = Some (act_user a))))"
    for linked made
  proof (cases "ha_newIdentity x")
    case None
    have "\<exists>c. visible_credential d (the (ha_credential x)) oid (act_user a) = Some c" if "truthy (ha_credential x)"
      using checks that None by (auto simp: host_checks_def split: if_splits sum.splits dest!: usable_visible)
    then have "or_none (ha_credential x) = None \<or> (\<exists>c \<in> set (credentials d). or_none (ha_credential x) = Some (cred_id c) \<and>
        cred_org c = oid \<and> (cred_owner c = None \<or> cred_owner c = Some (act_user a)))"
      by (fastforce simp: or_none_def truthy_iff dest!: visible_row)
    with None eq d show ?thesis
      by (auto simp: host_identity_def)
  next
    case (Some nb)
    obtain q d2 where qd: "createCredential (qe_kit e) (fi_credential f) (fi_key f) (fi_hexes f) oid
        (identityBodyFrom (fst nb) (the (ha_username x)) (snd nb)) (Some (act_user a)) (Some (act_user a)) d = (q, d2)"
      by (rule prod.exhaust)
    note c = createCredential_ok [OF d k n qd]
    from Some eq d qd c(1,4) c(2) show ?thesis
      by (cases nb) (auto simp: host_identity_def split: if_splits sum.splits)
  qed
  show "scopes_hold d1" "personalHosts d1 = personalHosts d"
    "r = Inr (linked, made) \<Longrightarrow> linked = None \<or> (\<exists>c \<in> set (credentials d1). linked = Some (cred_id c) \<and> cred_org c = oid \<and>
      (cred_owner c = None \<or> cred_owner c = Some (act_user a)))"
    using all by auto
qed

lemma createHost_keeps:
  assumes d: "scopes_hold d" and "new_key_id d (fi_key f)" and "new_cred_id d (fi_credential f)" and h: "new_host_id d (fi_host f)"
  shows "scopes_hold (snd (createHost e f inserted oid a x d))"
proof (cases "host_checks e d oid a x")
  case (Inr y)
  obtain r d1 where eq: "host_identity e f oid a x d = (r, d1)" by (rule prod.exhaust)
  note i = host_identity_ok [OF d assms(2,3) Inr eq]
  have "scopes_hold (d1\<lparr>personalHosts := personalHosts d1 @ [new_host (fi_host f) oid a x linked]\<rparr>)" if "r = Inr (linked, made)" for linked made
    using i(3) [OF that] h i(2)
    by (intro add_host i(1) linked_in_scope) (auto simp: new_host_def new_host_id_def)
  with Inr d eq i(1) show ?thesis
    by (auto simp: createHost_def Let_def drop_credential split: sum.splits if_splits option.splits)
qed (use d in \<open>auto simp: createHost_def split: sum.splits\<close>)

lemma edit_host_shape [simp]:
  "ph_id (edit_host x h) = ph_id h" "ph_org (edit_host x h) = ph_org h" "ph_owner (edit_host x h) = ph_owner h"
  "ph_credential (edit_host x h) = (case he_credential x of None \<Rightarrow> ph_credential h | Some c \<Rightarrow> or_none c)"
  by (simp_all add: edit_host_def Let_def forget_host_key_def)

lemma loadOwned_row: "loadOwned d oid uid i = Inr h \<Longrightarrow> h \<in> set (personalHosts d) \<and> ph_id h = i \<and> ph_org h = oid \<and> ph_owner h = uid"
  by (auto simp: loadOwned_def split: option.splits dest: find_SomeD)

lemma update_host_keeps:
  assumes d: "scopes_hold d" and h: "loadOwned d oid uid i = Inr h" and "\<And>h. ph_id (f h) = ph_id h"
    and "host_in_scope (credentials d) h \<Longrightarrow> host_in_scope (credentials d) (f h)"
  shows "scopes_hold (update_host i f d)"
proof (rule keep_host [OF d assms(3)])
  fix r assume r: "r \<in> set (personalHosts d)" "ph_id r = i"
  with d h have "r = h" by (auto simp: scopes_hold_def dest!: loadOwned_row dest: same_row)
  with assms(4) d r show "host_in_scope (credentials d) (f r)" by (simp add: scopes_hold_def)
qed

lemma edited_in_scope:
  assumes d: "scopes_hold d" and h: "loadOwned d oid (act_user a) i = Inr h" and ok: "edit_host_checks e d oid a h x = Inr y"
    and old: "host_in_scope (credentials d) h"
  shows "host_in_scope (credentials d) (edit_host x h)"
proof (cases "he_credential x")
  case (Some c)
  note row = loadOwned_row [OF h]
  show ?thesis
  proof (cases "truthy c \<and> c \<noteq> ph_credential h")
    case True
    with ok Some have "\<exists>z. visible_credential d (the c) oid (act_user a) = Some z"
      by (auto simp: edit_host_checks_def split: sum.splits if_splits option.splits dest!: usable_visible)
    with True Some row show ?thesis
      by (intro linked_in_scope [OF d]) (auto simp: or_none_def truthy_iff dest!: visible_row)
  next
    case False
    with Some old show ?thesis by (auto simp: host_in_scope_def or_none_def)
  qed
qed (use old in \<open>simp add: host_in_scope_def\<close>)

lemma updateHost_keeps: "scopes_hold d \<Longrightarrow> scopes_hold (snd (updateHost e oid a i x d))"
  by (auto simp: updateHost_def Let_def split: sum.splits intro!: update_host_keeps edited_in_scope)

lemma resetHostKey_keeps: "scopes_hold d \<Longrightarrow> scopes_hold (snd (resetHostKey oid a i d))"
  by (auto simp: resetHostKey_def Let_def forget_host_key_def host_in_scope_def split: sum.splits intro!: update_host_keeps)

lemma deleteHost_keeps: "scopes_hold d \<Longrightarrow> scopes_hold (snd (deleteHost oid a i d))"
  by (auto simp: deleteHost_def drop_host split: sum.splits)

section \<open>All of them\<close>

text \<open>
  The contract of one operation: whatever its arguments are, it keeps the scopes, when the ids it
  draws are new.
\<close>

locale scoped_operation =
  fixes ready :: "'x \<Rightarrow> db \<Rightarrow> bool" and run :: "'x \<Rightarrow> db \<Rightarrow> db"
  assumes keeps: "scopes_hold d \<Longrightarrow> ready x d \<Longrightarrow> scopes_hold (run x d)"
begin

fun run_all :: "'x list \<Rightarrow> db \<Rightarrow> db" where
  "run_all [] d = d"
| "run_all (x # xs) d = run_all xs (run x d)"

fun all_ready :: "'x list \<Rightarrow> db \<Rightarrow> bool" where
  "all_ready [] d = True"
| "all_ready (x # xs) d = (ready x d \<and> all_ready xs (run x d))"

lemma keeps_all: "scopes_hold d \<Longrightarrow> all_ready xs d \<Longrightarrow> scopes_hold (run_all xs d)"
  by (induction xs arbitrary: d) (auto intro: keeps)

end

text \<open>One call, with the caller and the arguments of the operation.\<close>

datatype key_call =
    GenerateOne id id key_args "id option" "id option"
  | ImportOne id id key_args "id option" "id option"
  | UpdateOne id id key_edit "id option"
  | DeleteOne id id "id option"
  | ExportOne int id id id "id option"
  | CreateIdentity id id "string list" id credential_data "id option" "id option"
  | UpdateIdentity id "string list" id id credential_edit "id option" "id option"
  | DeleteIdentity id id bool "id option" "id option"
  | MoveKey id id id
  | MoveIdentity id id id

datatype server_call =
    CreateOneServer id id id server_data scope
  | UpdateOneServer id id server_data scope
  | BulkServers id "id list" bulk_patch scope
  | ResetServerKey id id scope
  | ChangeIp id id string scope
  | SaveTarget int id id id id actor save_args scope
  | SaveSudo id string string id id string actor scope
  | ForgetSudo id id actor scope

datatype host_call =
    CreateOneHost fresh_ids bool id actor host_args
  | UpdateOneHost id actor id host_edit
  | DeleteOneHost id actor id
  | ResetHostKeyOf id actor id

fun run_key :: "key_kit \<Rightarrow> key_call \<Rightarrow> db \<Rightarrow> db" where
  "run_key kt (GenerateOne i oid x u own) d = snd (generateKey kt i oid x u own d)"
| "run_key kt (ImportOne i oid x u own) d = snd (importKey kt i oid x u own d)"
| "run_key kt (UpdateOne oid i x own) d = snd (updateKey kt oid i x own d)"
| "run_key kt (DeleteOne oid i own) d = snd (deleteKey oid i own d)"
| "run_key kt (ExportOne now oid i u own) d = snd (exportKey kt now oid i u own d)"
| "run_key kt (CreateIdentity i k hx oid x u own) d = snd (createCredential kt i k hx oid x u own d)"
| "run_key kt (UpdateIdentity k hx oid i x u own) d = snd (updateCredential kt k hx oid i x u own d)"
| "run_key kt (DeleteIdentity oid i force own u) d = snd (deleteCredential oid i force own u d)"
| "run_key kt (MoveKey oid i own) d = snd (moveKeyToOrg oid i own d)"
| "run_key kt (MoveIdentity oid i own) d = snd (moveCredentialToOrg oid i own d)"

fun ready_key :: "key_call \<Rightarrow> db \<Rightarrow> bool" where
  "ready_key (GenerateOne i oid x u own) d = new_key_id d i"
| "ready_key (ImportOne i oid x u own) d = new_key_id d i"
| "ready_key (CreateIdentity i k hx oid x u own) d = (new_cred_id d i \<and> new_key_id d k)"
| "ready_key (UpdateIdentity k hx oid i x u own) d = new_key_id d k"
| "ready_key _ d = True"

fun run_server :: "quick_env \<Rightarrow> server_call \<Rightarrow> db \<Rightarrow> db" where
  "run_server e (CreateOneServer i oid cid x sc) d = snd (createServer (kt_seal (qe_kit e)) i oid cid x sc d)"
| "run_server e (UpdateOneServer oid i x sc) d = snd (updateServer (kt_seal (qe_kit e)) oid i x sc d)"
| "run_server e (BulkServers oid ids p sc) d = snd (bulkUpdate oid ids p sc d)"
| "run_server e (ResetServerKey oid i sc) d = snd (resetServerHostKey oid i sc d)"
| "run_server e (ChangeIp oid i ip sc) d = snd (updateConnectionIp oid i ip sc d)"
| "run_server e (SaveTarget now i c k oid a x sc) d = snd (saveAsServer e now i c k oid a x sc d)"
| "run_server e (SaveSudo c stamp src oid i pw a sc) d = snd (saveSudoPassword (qe_kit e) c stamp src oid i pw a sc d)"
| "run_server e (ForgetSudo oid i a sc) d = snd (forgetSudoPassword oid i a sc d)"

fun ready_server :: "server_call \<Rightarrow> db \<Rightarrow> bool" where
  "ready_server (CreateOneServer i oid cid x sc) d = new_server_id d i"
| "ready_server (SaveTarget now i c k oid a x sc) d = (new_server_id d i \<and> new_cred_id d c \<and> new_key_id d k)"
| "ready_server (SaveSudo c stamp src oid i pw a sc) d = (new_cred_id d c \<and> new_key_id d [])"
| "ready_server _ d = True"

fun run_host :: "quick_env \<Rightarrow> host_call \<Rightarrow> db \<Rightarrow> db" where
  "run_host e (CreateOneHost f inserted oid a x) d = snd (createHost e f inserted oid a x d)"
| "run_host e (UpdateOneHost oid a i x) d = snd (updateHost e oid a i x d)"
| "run_host e (DeleteOneHost oid a i) d = snd (deleteHost oid a i d)"
| "run_host e (ResetHostKeyOf oid a i) d = snd (resetHostKey oid a i d)"

fun ready_host :: "host_call \<Rightarrow> db \<Rightarrow> bool" where
  "ready_host (CreateOneHost f inserted oid a x) d = (new_key_id d (fi_key f) \<and> new_cred_id d (fi_credential f) \<and> new_host_id d (fi_host f))"
| "ready_host _ d = True"

interpretation key_ops: scoped_operation ready_key "run_key kt" for kt
proof
  fix d x assume "scopes_hold d" "ready_key x d"
  then show "scopes_hold (run_key kt x d)"
    by (cases x) (simp_all add: generateKey_keeps importKey_keeps updateKey_keeps deleteKey_keeps exportKey_keeps updateCredential_keeps
        deleteCredential_keeps moveKeyToOrg_keeps moveCredentialToOrg_keeps createCredential_ok(1) [OF _ _ _ surjective_pairing])
qed

interpretation server_ops: scoped_operation ready_server "run_server e" for e
proof
  fix d x assume "scopes_hold d" "ready_server x d"
  then show "scopes_hold (run_server e x d)"
    by (cases x) (simp_all add: createServer_keeps updateServer_keeps bulkUpdate_keeps resetServerHostKey_keeps updateConnectionIp_keeps
        saveAsServer_keeps saveSudoPassword_keeps forgetSudoPassword_keeps)
qed

interpretation host_ops: scoped_operation ready_host "run_host e" for e
proof
  fix d x assume "scopes_hold d" "ready_host x d"
  then show "scopes_hold (run_host e x d)"
    by (cases x) (simp_all add: createHost_keeps updateHost_keeps deleteHost_keeps resetHostKey_keeps)
qed

inductive vault_step :: "quick_env \<Rightarrow> db \<Rightarrow> db \<Rightarrow> bool" for e where
  key_call: "ready_key x d \<Longrightarrow> vault_step e d (run_key (qe_kit e) x d)"
| server_call: "ready_server x d \<Longrightarrow> vault_step e d (run_server e x d)"
| host_call: "ready_host x d \<Longrightarrow> vault_step e d (run_host e x d)"
| server_gone: "vault_step e d (delete_server_row i d)"

inductive_cases vault_stepE: "vault_step e d d'"

lemma vault_step_keeps: "vault_step e d d' \<Longrightarrow> scopes_hold d \<Longrightarrow> scopes_hold d'"
  by (induction rule: vault_step.induct) (auto intro: key_ops.keeps server_ops.keeps host_ops.keeps delete_server_row_keeps)

lemma vault_steps_keep: "(vault_step e)\<^sup>*\<^sup>* d d' \<Longrightarrow> scopes_hold d \<Longrightarrow> scopes_hold d'"
  by (induction rule: rtranclp_induct) (auto intro: vault_step_keeps)

section \<open>The property\<close>

text \<open>C5: Whatever sequence of key store, vault, server and save-as-server operations runs, a stored
  key is only ever used by an identity of the same organization and owner; the identity a server
  signs in with or takes its sudo password from belongs to the server's organization and to nobody's
  vault; the identity of a personal host belongs to the organization or to the host's owner. So the
  joins of the code that look an identity up by its id alone find the same row as the lookup that
  repeats the organization.\<close>

theorem vault_scopes_never_mix:
  assumes "scopes_hold d" and "(vault_step e)\<^sup>*\<^sup>* d d'"
  shows "(\<forall>c \<in> set (credentials d'). \<forall>k. key_of d' c = Some k \<longrightarrow> key_org k = cred_org c \<and> key_owner k = cred_owner c) \<and>
    (\<forall>s \<in> set (servers d'). \<forall>c. server_credential d' True s = Some c \<or> sudo_credential d' s = Some c \<longrightarrow>
       cred_org c = srv_org s \<and> cred_owner c = None) \<and>
    (\<forall>s \<in> set (servers d'). server_credential d' True s = server_credential d' False s) \<and>
    (\<forall>h \<in> set (personalHosts d'). \<forall>c. host_credential d' h = Some c \<longrightarrow>
       visible_credential d' (cred_id c) (ph_org h) (ph_owner h) = Some c)"
proof -
  from assms have d: "scopes_hold d'" by (rule vault_steps_keep [rotated])
  have uniq: "find (\<lambda>c. cred_id c = cred_id x \<and> Q c) (credentials d') = Some x" if "x \<in> set (credentials d')" "Q x" for x Q
  proof -
    from that have "find (\<lambda>c. cred_id c = cred_id x \<and> Q c) (credentials d') \<noteq> None" by (auto simp: find_None_iff_all)
    then obtain y where y: "find (\<lambda>c. cred_id c = cred_id x \<and> Q c) (credentials d') = Some y" by blast
    with d that show ?thesis by (auto simp: scopes_hold_def dest!: find_SomeD dest: same_row)
  qed
  have srv: "cred_org c = srv_org s \<and> cred_owner c = None"
    if "s \<in> set (servers d')" "server_credential d' True s = Some c \<or> sudo_credential d' s = Some c" for s c
    using d that by (auto simp: scopes_hold_def server_in_scope_def server_credential_def sudo_credential_def split: option.splits dest!: find_SomeD)
  have same: "server_credential d' True s = server_credential d' False s" if s: "s \<in> set (servers d')" for s
  proof (cases "server_credential d' True s")
    case None
    then have "server_credential d' False s = None" by (auto simp: server_credential_def find_None_iff_all split: option.splits)
    with None show ?thesis by simp
  next
    case (Some c)
    then have c: "c \<in> set (credentials d')" "srv_credential s = Some (cred_id c)"
      by (auto simp: server_credential_def split: option.splits dest!: find_SomeD)
    with Some s srv show ?thesis by (auto simp: server_credential_def intro!: uniq [symmetric])
  qed
  have host: "visible_credential d' (cred_id c) (ph_org h) (ph_owner h) = Some c"
    if "h \<in> set (personalHosts d')" "host_credential d' h = Some c" for h c
    using d that unfolding visible_credential_def
    by (intro uniq) (auto simp: scopes_hold_def host_in_scope_def host_credential_def split: option.splits dest!: find_SomeD)
  have key: "key_org k = cred_org c \<and> key_owner k = cred_owner c" if "c \<in> set (credentials d')" "key_of d' c = Some k" for c k
    using d that by (auto simp: scopes_hold_def key_in_scope_def dest!: key_of_row)
  show ?thesis using srv same host key by blast
qed

definition vault_kit :: key_kit where
  "vault_kit = \<lparr>kt_generate = \<lambda>_ _ _ _. Inl DbError, kt_normalize = \<lambda>_ _. Inl DbError, kt_certified = \<lambda>_. Inl DbError,
     kt_samePublic = \<lambda>_ _. False, kt_seal = \<lambda>x. ''#'' @ x, kt_unseal = \<lambda>x. Inr (drop 1 x)\<rparr>"

definition vault_env :: quick_env where
  "vault_env = \<lparr>qe_kit = vault_kit, qe_dns = \<lambda>_. Inr [''203.0.113.9''], qe_loopback = False, qe_prodDns = \<lambda>_. []\<rparr>"

definition vault_db :: db where
  "vault_db = sample_db\<lparr>
     sshKeys := [\<lparr>key_id = ''k1'', key_org = ''o'', key_name = ''laptop'', key_description = None, key_type = ''ed25519'', key_bits = None,
       key_public = ''pub'', key_private = ''#priv'', key_passphrase = None, key_fingerprint = ''fp'', key_comment = None,
       key_source = ''imported'', key_format = None, key_certificate = None, key_createdBy = None, key_owner = Some ''mem'', key_exportedAt = None\<rparr>],
     credentials := [\<lparr>cred_id = ''i1'', cred_org = ''o'', cred_name = ''deploy'', cred_description = None, cred_username = ''deploy'',
       cred_authType = ''key'', cred_password = None, cred_sshKey = Some ''k1'', cred_tags = [], cred_createdBy = None,
       cred_owner = Some ''mem'', cred_lastUsedAt = None\<rparr>]\<rparr>"

definition bind_identity :: "id \<Rightarrow> server_data" where
  "bind_identity i = \<lparr>sv_hostname = None, sv_displayName = None, sv_description = None, sv_ip = None, sv_dynamicIp = None, sv_port = None,
     sv_protocol = None, sv_env = None, sv_labels = None, sv_osType = None, sv_osVersion = None, sv_cloudProvider = None, sv_sshUser = None,
     sv_rdpUsername = None, sv_isActive = None, sv_authMode = Some AuthCredential, sv_credential = Some (Some i), sv_rdpPassword = []\<rparr>"

text \<open>A vault identity cannot be bound to a server; moved to the organization, it can.\<close>

definition vault_run :: "db list" where
  "vault_run =
     (let bind = run_server vault_env (UpdateOneServer ''o'' ''sdev'' (bind_identity ''i1'') ScopeAll);
          d1 = bind vault_db; d2 = run_key vault_kit (MoveIdentity ''o'' ''i1'' ''mem'') d1 in [d1, d2, bind d2])"

lemma vault_run_steps: "(vault_step vault_env)\<^sup>*\<^sup>* vault_db (last vault_run)"
proof -
  have kit: "qe_kit vault_env = vault_kit" by (simp add: vault_env_def)
  have s: "vault_step vault_env d (run_server vault_env (UpdateOneServer ''o'' ''sdev'' (bind_identity ''i1'') ScopeAll) d)" for d
    by (rule server_call) simp
  have k: "vault_step vault_env d (run_key vault_kit (MoveIdentity ''o'' ''i1'' ''mem'') d)" for d
    using key_call [of "MoveIdentity ''o'' ''i1'' ''mem''" d vault_env] by (simp add: kit)
  show ?thesis
    unfolding vault_run_def Let_def
    by (simp del: run_server.simps run_key.simps) (meson s k rtranclp.rtrancl_refl rtranclp.rtrancl_into_rtrancl)
qed

lemma vault_scopes_never_mix_witness:
  "map (\<lambda>d. srv_credential (hd (servers d))) vault_run = [None, None, Some ''i1''] \<and>
   (case server_credential (last vault_run) True (hd (servers (last vault_run))) of None \<Rightarrow> False | Some c \<Rightarrow> cred_org c = ''o'' \<and> cred_owner c = None)"
proof -
  have ok: "scopes_hold vault_db" by code_simp
  have run: "map (\<lambda>d. srv_credential (hd (servers d))) vault_run = [None, None, Some ''i1'']" by code_simp
  have hd: "hd (servers (last vault_run)) \<in> set (servers (last vault_run))" "srv_org (hd (servers (last vault_run))) = ''o''" by code_simp+
  have "server_credential (last vault_run) True (hd (servers (last vault_run))) \<noteq> None" by code_simp
  then show ?thesis using run hd vault_scopes_never_mix [OF ok vault_run_steps] by auto
qed

end
