(* ===== verification/TargetClaims.thy ===== *)
theory TargetClaims
  imports QuickConnect Sample "HOL-Library.Sublist"
begin

text \<open>
  The target guard of outbound connections against the address blocks it means, the spellings
  that pass it, and the order of the authentication attempts.
\<close>

lemmas net_eval = isIP_def isIPv4_def isIPv6_def v6_groups_def v6_part_def is_octet_def is_seg_def is_hex_def is_digit_def
  dec_value_def hex_value_def hex_digit_def v4_value_def octets_def zone_ok_def Let_def lower_char_def

lemma replicate_num: "replicate (numeral k) x = x # replicate (pred_numeral k) x"
  by (simp add: numeral_eq_Suc)

section \<open>Address blocks\<close>

text \<open>An IPv4 address is a number below \<open>2 ^ 32\<close>; a block is its first \<open>n\<close> bits.\<close>

definition in_block :: "nat \<Rightarrow> nat \<Rightarrow> nat \<Rightarrow> bool" where
  "in_block base n v \<longleftrightarrow> v div 2 ^ (32 - n) = base div 2 ^ (32 - n)"

definition dotted :: "nat \<Rightarrow> nat \<Rightarrow> nat \<Rightarrow> nat \<Rightarrow> nat" where
  "dotted a b c d = ((a * 256 + b) * 256 + c) * 256 + d"

definition BLOCKS :: "(nat \<times> nat \<times> ip_class) list" where
  "BLOCKS =
     [(dotted 127 0 0 0, 8, Loopback), (dotted 0 0 0 0, 8, Unspecified), (dotted 169 254 0 0, 16, LinkLocal),
      (dotted 224 0 0 0, 4, Multicast), (dotted 255 255 255 255, 32, Multicast),
      (dotted 10 0 0 0, 8, PrivateNet), (dotted 172 16 0 0, 12, PrivateNet), (dotted 192 168 0 0, 16, PrivateNet)]"

definition block_class :: "nat \<Rightarrow> ip_class" where
  "block_class v = (case find (\<lambda>(b, n, c). in_block b n v) BLOCKS of None \<Rightarrow> PublicNet | Some (b, n, c) \<Rightarrow> c)"

lemma dotted_div:
  assumes "b \<le> 255" "c \<le> 255" "d \<le> 255"
  shows "dotted a b c d div 16777216 = a" "dotted a b c d div 65536 = a * 256 + b"
    "dotted a b c d div 268435456 = a div 16" "dotted a b c d div 1048576 = (a * 256 + b) div 16"
proof -
  have 1: "dotted a b c d div 65536 = a * 256 + b" using assms by (simp add: dotted_def)
  have 2: "dotted a b c d div 16777216 = dotted a b c d div 65536 div 256" by (simp add: div_mult2_eq [symmetric])
  have 3: "dotted a b c d div 268435456 = dotted a b c d div 16777216 div 16" by (simp add: div_mult2_eq [symmetric])
  have 4: "dotted a b c d div 1048576 = dotted a b c d div 65536 div 16" by (simp add: div_mult2_eq [symmetric])
  show "dotted a b c d div 65536 = a * 256 + b" by (rule 1)
  show "dotted a b c d div 16777216 = a" using assms by (simp add: 2 1)
  then show "dotted a b c d div 268435456 = a div 16" by (simp add: 3)
  show "dotted a b c d div 1048576 = (a * 256 + b) div 16" by (simp add: 4 1)
qed

lemma in_blocks:
  "in_block (dotted 127 0 0 0) 8 v \<longleftrightarrow> v div 16777216 = 127" "in_block (dotted 0 0 0 0) 8 v \<longleftrightarrow> v div 16777216 = 0"
  "in_block (dotted 10 0 0 0) 8 v \<longleftrightarrow> v div 16777216 = 10" "in_block (dotted 169 254 0 0) 16 v \<longleftrightarrow> v div 65536 = 43518"
  "in_block (dotted 192 168 0 0) 16 v \<longleftrightarrow> v div 65536 = 49320" "in_block (dotted 224 0 0 0) 4 v \<longleftrightarrow> v div 268435456 = 14"
  "in_block (dotted 172 16 0 0) 12 v \<longleftrightarrow> v div 1048576 = 2753" "in_block (dotted 255 255 255 255) 32 v \<longleftrightarrow> v = 4294967295"
  by (simp_all add: in_block_def dotted_def)

lemma dotted_top:
  assumes "b \<le> 255" "c \<le> 255" "d \<le> 255"
  shows "dotted a b c d = 4294967295 \<longleftrightarrow> a = 255 \<and> b = 255 \<and> c = 255 \<and> d = 255"
proof
  assume top: "dotted a b c d = 4294967295"
  have a: "a = 255" using dotted_div(1) [OF assms, of a] by (simp add: top)
  have "a * 256 + b = 65535" using dotted_div(2) [OF assms, of a] by (simp add: top)
  with a have b: "b = 255" by simp
  from top a b have "c * 256 + d = 65535" by (simp add: dotted_def)
  with assms have "c = 255" "d = 255" by linarith+
  with a b show "a = 255 \<and> b = 255 \<and> c = 255 \<and> d = 255" by simp
qed (simp add: dotted_def)

lemma bytes_eq:
  assumes "b \<le> (255 :: nat)" "b' \<le> 255"
  shows "a * 256 + b = a' * 256 + b' \<longleftrightarrow> a = a' \<and> b = b'"
proof
  assume eq: "a * 256 + b = a' * 256 + b'"
  then have "(a * 256 + b) div 256 = (a' * 256 + b') div 256" by simp
  then have "a = a'" using assms by simp
  with eq show "a = a' \<and> b = b'" by simp
qed simp

lemma sixteenths:
  assumes "b \<le> (255 :: nat)"
  shows "a div 16 = (14 :: nat) \<longleftrightarrow> 224 \<le> a \<and> a \<le> 239" "(a * 256 + b) div 16 = 2753 \<longleftrightarrow> a = 172 \<and> 16 \<le> b \<and> b \<le> 31"
    "a * 256 + b = 43518 \<longleftrightarrow> a = 169 \<and> b = 254" "a * 256 + b = 49320 \<longleftrightarrow> a = 192 \<and> b = 168"
proof -
  have "(a * 256 + b) div 16 = a * 16 + b div 16" by simp
  moreover have le: "b div 16 \<le> 15" using assms by simp
  have "a * 16 + k = 2753 \<longleftrightarrow> a = 172 \<and> k = 1" if "k \<le> 15" for k :: nat
  proof
    assume "a * 16 + k = 2753"
    moreover from this that have "a = 172" by linarith
    ultimately show "a = 172 \<and> k = 1" by simp
  qed simp
  ultimately have "(a * 256 + b) div 16 = 2753 \<longleftrightarrow> a = 172 \<and> b div 16 = 1" using le by metis
  moreover have "b div 16 = 1 \<longleftrightarrow> 16 \<le> b \<and> b \<le> 31" by presburger
  ultimately show "(a * 256 + b) div 16 = 2753 \<longleftrightarrow> a = 172 \<and> 16 \<le> b \<and> b \<le> 31" by simp
  show "a div 16 = 14 \<longleftrightarrow> 224 \<le> a \<and> a \<le> 239" by presburger
  show "a * 256 + b = 43518 \<longleftrightarrow> a = 169 \<and> b = 254" "a * 256 + b = 49320 \<longleftrightarrow> a = 192 \<and> b = 168"
    using bytes_eq [OF assms, of 254 a 169] bytes_eq [OF assms, of 168 a 192] by simp_all
qed

lemma block_class_dotted:
  assumes "b \<le> 255" "c \<le> 255" "d \<le> 255"
  shows "block_class (dotted a b c d) =
     (if a = 127 then Loopback else if a = 0 then Unspecified else if a = 169 \<and> b = 254 then LinkLocal
      else if 224 \<le> a \<and> a \<le> 239 then Multicast else if a = 255 \<and> b = 255 \<and> c = 255 \<and> d = 255 then Multicast
      else if a = 10 then PrivateNet else if a = 172 \<and> 16 \<le> b \<and> b \<le> 31 then PrivateNet
      else if a = 192 \<and> b = 168 then PrivateNet else PublicNet)"
  unfolding block_class_def BLOCKS_def find.simps prod.case in_blocks dotted_div [OF assms] dotted_top [OF assms] sixteenths [OF assms(1)]
  by (simp only: if_distrib [where f = "case_option u w" for u w] option.case prod.case)

lemma isIPv4_octets:
  assumes "isIPv4 s"
  obtains a b c d where "octets s = [a, b, c, d]" "a \<le> 255" "b \<le> 255" "c \<le> 255" "d \<le> 255"
proof -
  from assms obtain p q r t where "split_on (CHR ''.'') s = [p, q, r, t]" "is_octet p" "is_octet q" "is_octet r" "is_octet t"
    by (auto simp: isIPv4_def Let_def numeral_eq_Suc length_Suc_conv)
  then show thesis by (intro that [of "dec_value p" "dec_value q" "dec_value r" "dec_value t"]) (auto simp: octets_def is_octet_def)
qed

lemma classifyIpv4_blocks: "isIPv4 s \<Longrightarrow> classifyIpv4 s = block_class (v4_value s)"
proof -
  assume "isIPv4 s"
  then obtain a b c d where o: "octets s = [a, b, c, d]" and le: "a \<le> 255" "b \<le> 255" "c \<le> 255" "d \<le> 255"
    by (rule isIPv4_octets)
  have "v4_value s = dotted a b c d" by (simp add: v4_value_def o dotted_def)
  then show ?thesis
    using le by (simp add: classifyIpv4_def Let_def o block_class_dotted)
qed

lemma resolve_ip:
  assumes "isIP a \<noteq> 0"
  shows "if allowed_target lb a then resolveTarget dns lb a = Inr (a, [a])
    else \<exists>m. resolveTarget dns lb a = Inl (ApiError 403 m (Some ''TARGET_NOT_ALLOWED''))"
proof -
  have "isIP [] = 0" by code_simp
  with assms have "a \<noteq> []" by auto
  with assms show ?thesis by (simp add: resolveTarget_def)
qed

text \<open>C16: The guard reads an IPv4 address octet by octet; what it decides is membership of the
  address, as a number, in the blocks 127/8, 0/8, 169.254/16, 224/4, 255.255.255.255, 10/8,
  172.16/12 and 192.168/16. A target written as an IPv4 address is let through, unchanged and as
  its own only address, exactly when it lies outside the first five of them, or in 127/8 when
  loopback is allowed; otherwise the error is TARGET_NOT_ALLOWED.\<close>

theorem target_guard_ranges:
  assumes "isIPv4 a"
  shows "classifyIp a = block_class (v4_value a) \<and>
    (if block_class (v4_value a) \<in> {PrivateNet, PublicNet} \<or> loopbackAllowed \<and> block_class (v4_value a) = Loopback
     then resolveTarget dns loopbackAllowed a = Inr (a, [a])
     else \<exists>m. resolveTarget dns loopbackAllowed a = Inl (ApiError 403 m (Some ''TARGET_NOT_ALLOWED'')))"
proof -
  have ip: "isIP a \<noteq> 0" and cls: "classifyIp a = block_class (v4_value a)"
    using assms classifyIpv4_blocks [OF assms] by (simp_all add: isIP_def classifyIp_def)
  have "allowed_target loopbackAllowed a \<longleftrightarrow>
      block_class (v4_value a) \<in> {PrivateNet, PublicNet} \<or> loopbackAllowed \<and> block_class (v4_value a) = Loopback"
    by (auto simp: allowed_target_def cls)
  with resolve_ip [OF ip, of loopbackAllowed dns] cls show ?thesis by simp
qed

lemma target_guard_ranges_witness:
  "resolveTarget (\<lambda>_. Inl []) False ''192.168.1.20'' = Inr (''192.168.1.20'', [''192.168.1.20'']) \<and>
   (\<exists>m. resolveTarget (\<lambda>_. Inl []) False ''169.254.169.254'' = Inl (ApiError 403 m (Some ''TARGET_NOT_ALLOWED'')))"
proof -
  have a: "isIPv4 ''192.168.1.20''" "isIPv4 ''169.254.169.254''" by (simp_all add: net_eval)
  have "v4_value ''192.168.1.20'' = dotted 192 168 1 20" "v4_value ''169.254.169.254'' = dotted 169 254 169 254"
    by (simp_all add: net_eval dotted_def)
  then have "block_class (v4_value ''192.168.1.20'') = PrivateNet" "block_class (v4_value ''169.254.169.254'') = LinkLocal"
    by (simp_all add: block_class_dotted)
  with target_guard_ranges [OF a(1), of False "\<lambda>_. Inl []"] target_guard_ranges [OF a(2), of False "\<lambda>_. Inl []"]
  show ?thesis by simp
qed

section \<open>Spellings that pass\<close>

text \<open>The IPv6 branch of the guard compares texts. An IPv4-mapped address is recognised only when
  it ends in dotted decimals right after ::ffff:, and loopback only as ::1 or its full form. Written
  in hexadecimal or expanded, the same addresses - loopback, and the metadata address of clouds - are
  classified public and returned as targets; and a production server reached by its mapped address
  is not recognised by the production guard, which compares texts too.\<close>

theorem mapped_spellings_pass:
  "map (\<lambda>h. ok_res (resolveTarget dns False h)) [''127.0.0.1'', ''::ffff:127.0.0.1'', ''::1'', ''169.254.169.254''] = [False, False, False, False] \<and>
   map (\<lambda>h. ok_res (resolveTarget dns False h)) [''::ffff:7f00:1'', ''0:0:0:0:0:ffff:127.0.0.1'', ''0::1'', ''::ffff:a9fe:a9fe''] = [True, True, True, True] \<and>
   map v6_value [''::ffff:7f00:1'', ''0:0:0:0:0:ffff:127.0.0.1'', ''0::1'', ''::ffff:a9fe:a9fe''] =
     map v6_value [''::ffff:127.0.0.1'', ''::ffff:127.0.0.1'', ''::1'', ''::ffff:169.254.169.254''] \<and>
   \<not> ok_res (assertNotProdHost (\<lambda>_. []) sample_db ''o'' (srv_ip s_prod) [srv_ip s_prod]) \<and>
   ok_res (assertNotProdHost (\<lambda>_. []) sample_db ''o'' (''::ffff:'' @ srv_ip s_prod) [''::ffff:'' @ srv_ip s_prod]) \<and>
   ok_res (resolveTarget dns False (''::ffff:'' @ srv_ip s_prod))"
proof -
  have sip: "srv_ip s_prod = ''10.0.0.1''" "''::ffff:'' @ ''10.0.0.1'' = ''::ffff:10.0.0.1''" by (simp_all add: s_prod_def mk_server_def)
  have r: "ok_res (resolveTarget dns False h) \<longleftrightarrow> allowed_target False h" if "isIP h \<noteq> 0" for h
    using resolve_ip [OF that, of False dns] by (auto split: if_splits)
  have groups: "v6_groups ''::ffff:127.0.0.1'' = Some [0, 0, 0, 0, 0, 65535, 32512, 1]" "v6_groups ''::1'' = Some [0, 0, 0, 0, 0, 0, 0, 1]"
    "v6_groups ''::ffff:7f00:1'' = Some [0, 0, 0, 0, 0, 65535, 32512, 1]"
    "v6_groups ''0:0:0:0:0:ffff:127.0.0.1'' = Some [0, 0, 0, 0, 0, 65535, 32512, 1]" "v6_groups ''0::1'' = Some [0, 0, 0, 0, 0, 0, 0, 1]"
    "v6_groups ''::ffff:a9fe:a9fe'' = Some [0, 0, 0, 0, 0, 65535, 43518, 43518]"
    "v6_groups ''::ffff:169.254.169.254'' = Some [0, 0, 0, 0, 0, 65535, 43518, 43518]"
    "v6_groups ''::ffff:10.0.0.1'' = Some [0, 0, 0, 0, 0, 65535, 2560, 1]"
    by (simp_all add: net_eval replicate_num)
  have v4: "isIPv4 ''127.0.0.1''" "isIPv4 ''169.254.169.254''" "isIPv4 ''10.0.0.1''" "\<not> isIPv4 ''::ffff:127.0.0.1''" "\<not> isIPv4 ''::1''"
    "\<not> isIPv4 ''::ffff:7f00:1''" "\<not> isIPv4 ''0:0:0:0:0:ffff:127.0.0.1''" "\<not> isIPv4 ''0::1''" "\<not> isIPv4 ''::ffff:a9fe:a9fe''"
    "\<not> isIPv4 ''::ffff:10.0.0.1''"
    by (simp_all add: net_eval)
  have ip: "isIP ''127.0.0.1'' = 4" "isIP ''::ffff:127.0.0.1'' = 6" "isIP ''::1'' = 6" "isIP ''169.254.169.254'' = 4"
    "isIP ''::ffff:7f00:1'' = 6" "isIP ''0:0:0:0:0:ffff:127.0.0.1'' = 6" "isIP ''0::1'' = 6" "isIP ''::ffff:a9fe:a9fe'' = 6"
    "isIP ''::ffff:10.0.0.1'' = 6" "isIP ''10.0.0.1'' = 4"
    by (simp_all add: isIP_def isIPv6_def v4 groups)
  have hex: "isIP ''7f00:1'' = 0" "isIP ''a9fe:a9fe'' = 0" by (simp_all add: net_eval)
  have oct: "octets ''127.0.0.1'' = [127, 0, 0, 1]" "octets ''169.254.169.254'' = [169, 254, 169, 254]" "octets ''10.0.0.1'' = [10, 0, 0, 1]"
    by (simp_all add: net_eval)
  have low: "lower h = h" if "h \<in> {''::ffff:127.0.0.1'', ''::1'', ''::ffff:7f00:1'', ''0:0:0:0:0:ffff:127.0.0.1'', ''0::1'', ''::ffff:a9fe:a9fe'', ''::ffff:10.0.0.1''}" for h
    using that by (auto simp: lower_def lower_char_def)
  have no: "\<not> allowed_target False ''127.0.0.1''" "\<not> allowed_target False ''::ffff:127.0.0.1''" "\<not> allowed_target False ''::1''"
    "\<not> allowed_target False ''169.254.169.254''"
    by (simp_all add: allowed_target_def classifyIp_def classifyIpv4_def Let_def ip oct low)
  have yes: "allowed_target False ''::ffff:7f00:1''" "allowed_target False ''0:0:0:0:0:ffff:127.0.0.1''" "allowed_target False ''0::1''"
    "allowed_target False ''::ffff:a9fe:a9fe''" "allowed_target False ''::ffff:10.0.0.1''"
    by (simp_all add: allowed_target_def classifyIp_def classifyIpv4_def Let_def ip oct low hex)
  have eq: "map v6_value [''::ffff:7f00:1'', ''0:0:0:0:0:ffff:127.0.0.1'', ''0::1'', ''::ffff:a9fe:a9fe''] =
     map v6_value [''::ffff:127.0.0.1'', ''::ffff:127.0.0.1'', ''::1'', ''::ffff:169.254.169.254'']"
    by (simp only: list.map v6_value_def groups)
  have prod: "\<exists>er. assertNotProdHost (\<lambda>_. []) sample_db ''o'' ''10.0.0.1'' [''10.0.0.1''] = Inl er"
    "assertNotProdHost (\<lambda>_. []) sample_db ''o'' ''::ffff:10.0.0.1'' [''::ffff:10.0.0.1''] = Inr ()"
    by (simp_all add: assertNotProdHost_def prod_servers_def is_named_def prod_addresses_def sample_db_def s_prod_def s_dev_def mk_server_def
        lower_def lower_char_def)
  have refused: "\<exists>e. resolveTarget dns False h = Inl e" if "isIP h \<noteq> 0" "\<not> allowed_target False h" for h
    using resolve_ip [OF that(1), of False dns] that(2) by auto
  have passed: "resolveTarget dns False h = Inr (h, [h])" if "isIP h \<noteq> 0" "allowed_target False h" for h
    using resolve_ip [OF that(1), of False dns] that(2) by simp
  have "\<exists>e. resolveTarget dns False ''127.0.0.1'' = Inl e" "\<exists>e. resolveTarget dns False ''::ffff:127.0.0.1'' = Inl e"
    "\<exists>e. resolveTarget dns False ''::1'' = Inl e" "\<exists>e. resolveTarget dns False ''169.254.169.254'' = Inl e"
    by (simp_all add: refused no ip)
  moreover have "resolveTarget dns False ''::ffff:7f00:1'' = Inr (''::ffff:7f00:1'', [''::ffff:7f00:1''])"
    "resolveTarget dns False ''0:0:0:0:0:ffff:127.0.0.1'' = Inr (''0:0:0:0:0:ffff:127.0.0.1'', [''0:0:0:0:0:ffff:127.0.0.1''])"
    "resolveTarget dns False ''0::1'' = Inr (''0::1'', [''0::1''])"
    "resolveTarget dns False ''::ffff:a9fe:a9fe'' = Inr (''::ffff:a9fe:a9fe'', [''::ffff:a9fe:a9fe''])"
    "resolveTarget dns False ''::ffff:10.0.0.1'' = Inr (''::ffff:10.0.0.1'', [''::ffff:10.0.0.1''])"
    by (simp_all add: passed yes ip)
  ultimately show ?thesis
    unfolding sip eq using prod by auto
qed

section \<open>Authentication attempts\<close>

fun auth_rank :: "ssh_secret \<Rightarrow> nat" where
  "auth_rank (CertifiedKey k p c b) = 0"
| "auth_rank (PlainKey k p) = 1"
| "auth_rank (Password w) = 2"
| "auth_rank Prompted = 3"

abbreviation "rank_of a \<equiv> auth_rank (sa_secret a)"

definition of_identity :: "connect_args \<Rightarrow> attempt \<Rightarrow> bool" where
  "of_identity c a \<longleftrightarrow> sa_user a = co_username c \<and>
     (case sa_secret a of
        CertifiedKey k p t b \<Rightarrow> co_privateKey c = Some k \<and> p = co_passphrase c \<and> co_certificate c = Some t
      | PlainKey k p \<Rightarrow> co_privateKey c = Some k \<and> p = co_passphrase c
      | Password w \<Rightarrow> co_password c = Some w
      | Prompted \<Rightarrow> truthy (co_password c))"

lemma truthy_some: "truthy x \<Longrightarrow> x = Some (the x)" by (cases x) auto

lemma certified_ranks:
  assumes "certified_attempts e c rsa bs = Inr q" "truthy (co_privateKey c)" "truthy (co_certificate c)"
  shows "length q = length bs \<and> (\<forall>a \<in> set q. rank_of a = 0 \<and> of_identity c a \<and> (sa_rsaAlgo a \<noteq> None \<longrightarrow> rsa))"
  using assms(1)
proof (induction bs arbitrary: q)
  case (Cons b bs)
  from assms(2,3) have s: "co_privateKey c = Some (the (co_privateKey c))" "co_certificate c = Some (the (co_certificate c))"
    by (simp_all only: truthy_some [symmetric])
  from Cons.prems obtain k rest where k: "buildCertifiedKey e (the (co_privateKey c)) (co_passphrase c) (the (co_certificate c)) b = Inr k"
    and rest: "certified_attempts e c rsa bs = Inr rest"
    and q: "q = \<lparr>sa_type = ''publickey'', sa_user = co_username c, sa_secret = k, sa_rsaAlgo = (if rsa then Some b else None)\<rparr> # rest"
    by (auto split: sum.splits)
  from k have "k = CertifiedKey (the (co_privateKey c)) (co_passphrase c) (the (co_certificate c)) b"
    by (auto simp: buildCertifiedKey_def split: sum.splits if_splits)
  with Cons.IH [OF rest] s show ?case by (auto simp: q of_identity_def split: if_splits)
qed simp

lemma bases_le:
  "parseCertificateText e t = Inr (algo, bases) \<Longrightarrow> length bases \<le> 2"
  by (auto simp: parseCertificateText_def RSA_SIG_VARIANTS_def split: list.splits if_splits)

lemma queue_shape:
  assumes "buildAuthQueue e c = Inr q"
  shows "length q \<le> 5 \<and> sorted (map rank_of q) \<and> (\<forall>a \<in> set q. of_identity c a \<and> (sa_rsaAlgo a \<noteq> None \<longrightarrow> rank_of a = 0))"
proof -
  have "length cs \<le> 2 \<and> (\<forall>a \<in> set cs. rank_of a = 0 \<and> of_identity c a)"
    if "(if truthy (co_certificate c) \<and> truthy (co_privateKey c)
            then (case parseCertificateText e (the (co_certificate c)) of Inl er \<Rightarrow> Inl er
                  | Inr (algo, bases) \<Rightarrow> certified_attempts e c (algo = RSA_CERT_TYPE) bases)
            else Inr []) = Inr cs" for cs
    using that by (auto split: if_splits sum.splits dest: bases_le dest!: certified_ranks)
  moreover have "sorted (map rank_of cs)" if "\<forall>a \<in> set cs. rank_of a = 0" for cs
    using that by (induction cs) auto
  ultimately show ?thesis
    using assms
    by (fastforce simp: buildAuthQueue_def sorted_append of_identity_def simp flip: truthy_some split: sum.splits)
qed

lemma refill_ranks:
  assumes "\<forall>a \<in> set q. sa_rsaAlgo a \<noteq> None \<longrightarrow> rank_of a = 0" "\<forall>a \<in> set es. rank_of a = 0"
  shows "map rank_of (refill q es) = map rank_of q \<and> set (refill q es) \<subseteq> set q \<union> set es"
  using assms by (induction q es rule: refill.induct) (auto split: list.splits)

lemma reordered:
  assumes "\<forall>a \<in> set q. sa_rsaAlgo a \<noteq> None \<longrightarrow> rank_of a = 0"
  shows "map rank_of (reorderRsaCertAttempts q algs) = map rank_of q \<and> set (reorderRsaCertAttempts q algs) \<subseteq> set q"
proof -
  let ?es = "sort_key (\<lambda>a. index_in algs (the (sa_rsaAlgo a))) (filter (\<lambda>a. sa_rsaAlgo a \<noteq> None) q)"
  have "\<forall>a \<in> set ?es. rank_of a = 0" "set ?es \<subseteq> set q" using assms by auto
  with refill_ranks [OF assms, of ?es]
  have "map rank_of (refill q ?es) = map rank_of q" "set (refill q ?es) \<subseteq> set q" by blast+
  then show ?thesis by (simp add: reorderRsaCertAttempts_def Let_def)
qed

lemma subseq_set: "subseq xs ys \<Longrightarrow> set xs \<subseteq> set ys"
  by (induction rule: list_emb.induct) auto

lemma subseq_keeps_sorted: "subseq xs ys \<Longrightarrow> sorted (map f ys) \<Longrightarrow> sorted (map f xs)"
  by (auto simp: subseq_conv_nths nths_map [symmetric] sorted_nths)

text \<open>The conversation as the server sees it: every attempt is of a type it still takes, and
  none follows the one it accepts.\<close>

fun answers :: "(attempt list \<Rightarrow> string list option) \<Rightarrow> attempt list \<Rightarrow> string list \<Rightarrow> attempt list \<Rightarrow> bool" where
  "answers server tried left [] = True"
| "answers server tried left (a # rest) =
     ((left = [] \<or> sa_type a \<in> set left) \<and>
      (case server (tried @ [a]) of None \<Rightarrow> rest = [] | Some ms \<Rightarrow> answers server (tried @ [a]) ms rest))"

lemma picked: "pickNextAuth q left = (Some a, q') \<Longrightarrow> (left = [] \<or> sa_type a \<in> set left) \<and> subseq (a # q') q"
  by (induction q left rule: pickNextAuth.induct) (auto split: if_splits)

lemma dialogue_answers:
  "dialogue server tried left q = (inside, all) \<Longrightarrow>
     \<exists>rest. all = tried @ rest \<and> subseq rest q \<and> answers server tried left rest \<and> (inside \<longleftrightarrow> rest \<noteq> [] \<and> server all = None)"
proof (induction server tried left q rule: dialogue.induct)
  case (1 server tried left q)
  obtain ao q' where p: "pickNextAuth q left = (ao, q')" by fastforce
  show ?case
  proof (cases ao)
    case None
    with 1 p show ?thesis by (simp add: dialogue.simps [of server tried left q])
  next
    case (Some a)
    note pick = picked [OF p [unfolded Some]]
    show ?thesis
    proof (cases "server (tried @ [a])")
      case None
      have "subseq [a] q" using pick subseq_order.trans [of "[a]" "a # q'" q] by simp
      with None 1(2) pick show ?thesis by (auto simp: dialogue.simps [of server tried left q] p Some intro!: exI [of _ "[a]"])
    next
      case (Some ms)
      with 1(2) have "dialogue server (tried @ [a]) ms q' = (inside, all)"
        by (simp add: dialogue.simps [of server tried left q] p \<open>ao = Some a\<close>)
      from 1(1) [OF p [symmetric] \<open>ao = Some a\<close> Some this] obtain rest
        where m: "all = (tried @ [a]) @ rest" "subseq rest q'" "answers server (tried @ [a]) ms rest"
          "inside \<longleftrightarrow> rest \<noteq> [] \<and> server all = None" by blast
      have "subseq (a # rest) q" using pick m(2) subseq_order.trans [of "a # rest" "a # q'" q] by simp
      with m pick Some show ?thesis by (intro exI [of _ "a # rest"]) auto
    qed
  qed
qed

text \<open>C25: A connection makes at most five attempts, each with the secrets of the identity it was
  given, in the order certificate, key, password, keyboard-interactive, each of a type the server
  still accepts, and none after the one it accepts; it is inside exactly when the last attempt was
  accepted. With a host key that is missing or not the expected one, nothing is sent.\<close>

theorem outbound_attempts:
  assumes "connectSsh e fp algs server c = Inr (inside, tried)"
  shows "length tried \<le> 5 \<and> sorted (map rank_of tried) \<and> (\<forall>a \<in> set tried. of_identity c a) \<and>
    answers server [] [] tried \<and> (inside \<longleftrightarrow> tried \<noteq> [] \<and> server tried = None) \<and>
    (tried \<noteq> [] \<longrightarrow> (\<exists>f. fp = Some f \<and> (truthy (co_expected c) \<longrightarrow> co_expected c = Some f)))"
proof -
  from assms obtain q where q: "buildAuthQueue e c = Inr q" by (auto simp: connectSsh_def split: option.splits sum.splits)
  note shape = queue_shape [OF q]
  show ?thesis
  proof (cases "host_verified c fp")
    case False
    with assms q show ?thesis by (auto simp: connectSsh_def split: option.splits)
  next
    case True
    let ?q = "reorderRsaCertAttempts q algs"
    have re: "map rank_of ?q = map rank_of q" "set ?q \<subseteq> set q" using shape reordered by blast+
    from assms q True have "dialogue server [] [] ?q = (inside, tried)" by (simp add: connectSsh_def split: option.splits)
    from dialogue_answers [OF this] have t: "subseq tried ?q" "answers server [] [] tried" "inside \<longleftrightarrow> tried \<noteq> [] \<and> server tried = None" by auto
    have "length ?q = length q" using re(1) map_eq_imp_length_eq by blast
    then have "length tried \<le> 5" using list_emb_length [OF t(1)] shape by simp
    moreover have "sorted (map rank_of tried)"
      using shape subseq_keeps_sorted [OF t(1), of rank_of] re(1) by simp
    moreover have "\<forall>a \<in> set tried. of_identity c a" using shape re(2) subseq_set [OF t(1)] by blast
    ultimately show ?thesis using t True by (auto simp: host_verified_def split: option.splits)
  qed
qed

definition sample_key_env :: key_env where
  "sample_key_env = \<lparr>ke_parse = \<lambda>_ _. Inr True, ke_decode64 = id\<rparr>"

definition sample_connect :: connect_args where
  "sample_connect = \<lparr>co_host = ''h'', co_port = 22, co_username = ''root'', co_password = Some ''pw'', co_privateKey = Some ''K'',
     co_passphrase = None, co_certificate = Some ''ssh-rsa-cert-v01@openssh.com AAAA'', co_expected = Some ''fp''\<rparr>"

definition sample_peer :: "attempt list \<Rightarrow> string list option" where
  "sample_peer t = (if length t < 4 then Some (if length t < 3 then [''publickey''] else [''password'']) else None)"

lemma outbound_attempts_witness:
  "\<exists>tried. connectSsh sample_key_env (Some ''fp'') [''rsa-sha2-256'', ''rsa-sha2-512''] sample_peer sample_connect = Inr (True, tried) \<and>
    map (\<lambda>a. (rank_of a, sa_rsaAlgo a)) tried = [(0, Some ''rsa-sha2-256''), (0, Some ''rsa-sha2-512''), (1, None), (2, None)] \<and>
    length tried \<le> 5 \<and> sorted (map rank_of tried)"
proof -
  let ?run = "connectSsh sample_key_env (Some ''fp'') [''rsa-sha2-256'', ''rsa-sha2-512''] sample_peer sample_connect"
  have "case ?run of Inl _ \<Rightarrow> False | Inr (ok, tried) \<Rightarrow> ok \<and>
      map (\<lambda>a. (rank_of a, sa_rsaAlgo a)) tried = [(0, Some ''rsa-sha2-256''), (0, Some ''rsa-sha2-512''), (1, None), (2, None)]"
    by code_simp
  then obtain tried where run: "?run = Inr (True, tried)"
    and look: "map (\<lambda>a. (rank_of a, sa_rsaAlgo a)) tried = [(0, Some ''rsa-sha2-256''), (0, Some ''rsa-sha2-512''), (1, None), (2, None)]"
    by (auto split: sum.splits)
  note o = outbound_attempts [OF run]
  show ?thesis
    by (intro exI [of _ tried] conjI run look conjunct1 [OF o] conjunct1 [OF conjunct2 [OF o]])
qed

end
