(* ===== verification/QuickClaims.thy ===== *)
theory QuickClaims
  imports QuickConnect Sample
begin

text \<open>
  A ticket for an ad-hoc connection: what must hold for one to be issued, and what redeeming it
  gives to whom and how often.
\<close>

section \<open>Issuing\<close>

lemma issued_ticket:
  assumes "createTicket e now fresh oid a x v ph rs d = (Inr t, rs', d')"
  obtains auth username sent ip ips where "entry_allowed d oid a v = Inr ()" "isValidHost (tg_host x)" "1 \<le> target_port (tg_port x)"
    "target_port (tg_port x) \<le> 65535" "tg_auth x = Some auth" "ticket_login e d oid a (tg_username x) auth = Inr (username, sent)"
    "resolveTarget (qe_dns e) (qe_loopback e) (tg_host x) = Inr (ip, ips)"
    "assertNotProdHost (qe_prodDns e) d oid (tg_host x) ips = Inr ()" "assertNotDeniedHost d oid (act_user a) (tg_host x) ips = Inr ()"
    "t = fresh" "rs' = redis_set now (ticket_key fresh)
       \<lparr>tk_org = oid, tk_user = act_user a, tk_host = tg_host x, tk_ip = ip, tk_port = target_port (tg_port x),
        tk_username = username, tk_auth = sent, tk_expected = or_none (tg_expected x), tk_via = v, tk_personalHost = ph\<rparr>
       TICKET_TTL_SECONDS rs"
  using assms
  by (cases "tg_auth x") (auto simp: createTicket_def validateAuthShape_def split: sum.splits prod.splits if_splits intro: that)

lemma resolved_addresses:
  assumes "resolveTarget dns lb h = Inr (ip, ips)"
  shows "ip \<in> set ips \<and> (\<forall>a \<in> set ips. allowed_target lb a)"
  using assms by (auto simp: resolveTarget_def find_None_iff split: if_splits sum.splits option.splits)

lemma entry_permission:
  "entry_allowed d oid a v = Inr () \<Longrightarrow>
     (if v = ViaPersonalHost then vault_on d oid \<and> hasPermission (act_permissions a) ''vault.hosts''
      else loadQuickConnectSettings d oid \<and> hasPermission (act_permissions a) ''quick_connect.use'')"
  by (auto simp: entry_allowed_def getSettings_def Let_def split: if_splits)

lemma no_production:
  "assertNotProdHost prodDns d oid host ips = Inr () \<Longrightarrow> s \<in> set (servers d) \<Longrightarrow> srv_org s = oid \<Longrightarrow> srv_env s = EnvProd \<Longrightarrow> ips \<noteq> [] \<Longrightarrow>
     \<not> is_named host s \<and> (srv_ip s = [] \<or> srv_ip s \<notin> set ips) \<and> set (prod_addresses prodDns s) \<inter> set ips = {}"
  by (auto simp: assertNotProdHost_def prod_servers_def Let_def filter_empty_conv split: if_splits)

lemma check_denied_none:
  "check_denied d oid uid ss = Inr () \<Longrightarrow> s \<in> set ss \<Longrightarrow> \<exists>v. evaluate d oid uid (srv_id s) None [] None = Inr v \<and> \<not> denied_by_policy v"
  by (induction d oid uid ss rule: check_denied.induct) (auto split: sum.splits if_splits)

lemma login_permission:
  "ticket_login e d oid a u b = Inr (username, sent) \<Longrightarrow> ab_type b = ''credential'' \<Longrightarrow>
     \<exists>c \<in> set (credentials d). cred_id c = ab_credential b \<and> cred_org c = oid \<and> sent = b \<and>
       (cred_owner c = None \<and> hasPermission (act_permissions a) ''quick_connect.use_stored_identity'' \<or>
        cred_owner c = Some (act_user a) \<and>
          (if truthy (cred_owner c) then vault_on d oid \<and> hasPermission (act_permissions a) ''vault.use''
           else hasPermission (act_permissions a) ''quick_connect.use_stored_identity''))"
  by (auto simp: ticket_login_def visible_credential_def find_Some_iff split: option.splits if_splits)

section \<open>Redeeming\<close>

definition ticket_gone :: err where
  "ticket_gone = ApiError 410 ''Quick Connect ticket is invalid or has expired'' (Some ''TICKET_EXPIRED'')"

lemma redeemed_by:
  assumes "redis_get now (ticket_key t) rs = po" "t \<noteq> []"
  shows "consumeTicket unseal now t uid oid rs d =
     (case po of None \<Rightarrow> Inl ticket_gone
      | Some p \<Rightarrow> if tk_user p \<noteq> uid \<or> tk_org p \<noteq> oid then Inl (api_error 403 ''This Quick Connect ticket does not belong to your session'')
          else case ticket_secrets unseal d oid uid p of Inl er \<Rightarrow> Inl er | Inr (username, x) \<Rightarrow>
            Inr \<lparr>qn_host = (if tk_ip p = [] then tk_host p else tk_ip p), qn_port = tk_port p, qn_expected = or_none (tk_expected p),
                 qn_username = username, qn_secrets = x, qn_displayHost = tk_host p, qn_auth = tk_auth p,
                 qn_via = tk_via p, qn_personalHost = tk_personalHost p\<rparr>,
      redis_del (ticket_key t) rs)"
  using assms by (cases po) (auto simp: consumeTicket_def ticket_gone_def)

text \<open>C7: A ticket is issued only to someone whose role and organization allow the way they come in,
  for a valid host and port, when every address the host resolves to may be reached, and when neither the
  host nor one of these addresses is written like a name or address of a production server: its own, or
  one its names resolve to at that moment. (The comparison is of texts, not of what they mean: another
  spelling of the same address passes it.) A ticket for an identity of the organization needs the
  permission to use stored identities, one for a personal identity is only the owner's and needs the
  vault switched on and the permission to use it.
  Redeemed, it connects to the address that was checked, whatever the name resolves to
  now, and only for its user, in its organization, within a minute. Whoever redeems it first uses it
  up: every later attempt finds it expired.\<close>

theorem quick_ticket_checked_once:
  assumes issued: "createTicket e now fresh oid a x v ph rs d = (Inr t, rs', d')" and fresh: "fresh \<noteq> []"
    and redeemed: "consumeTicket unseal later t uid oid' rs' d2 = (r, rs2)"
  shows "(if v = ViaPersonalHost then vault_on d oid \<and> hasPermission (act_permissions a) ''vault.hosts''
      else loadQuickConnectSettings d oid \<and> hasPermission (act_permissions a) ''quick_connect.use'') \<and>
    isValidHost (tg_host x) \<and> 1 \<le> target_port (tg_port x) \<and> target_port (tg_port x) \<le> 65535 \<and>
    (\<exists>ip ips. resolveTarget (qe_dns e) (qe_loopback e) (tg_host x) = Inr (ip, ips) \<and> ip \<in> set ips \<and>
       (\<forall>i \<in> set ips. allowed_target (qe_loopback e) i) \<and>
       (\<forall>s \<in> set (servers d). srv_org s = oid \<and> srv_env s = EnvProd \<longrightarrow>
          \<not> is_named (tg_host x) s \<and> (srv_ip s = [] \<or> srv_ip s \<notin> set ips) \<and> set (prod_addresses (qe_prodDns e) s) \<inter> set ips = {}) \<and>
       (\<forall>c. r = Inr c \<longrightarrow> uid = act_user a \<and> oid' = oid \<and> later < now + 60000 \<and>
          qn_host c = (if ip = [] then tg_host x else ip) \<and> qn_port c = target_port (tg_port x) \<and>
          (ab_type (qn_auth c) = ''credential'' \<longrightarrow>
             (\<exists>k \<in> set (credentials d). cred_id k = ab_credential (qn_auth c) \<and> cred_org k = oid \<and>
                (cred_owner k = None \<and> hasPermission (act_permissions a) ''quick_connect.use_stored_identity'' \<or>
                 cred_owner k = Some (act_user a) \<and>
                   (if truthy (cred_owner k) then vault_on d oid \<and> hasPermission (act_permissions a) ''vault.use''
                    else hasPermission (act_permissions a) ''quick_connect.use_stored_identity'')))))) \<and>
    fst (consumeTicket unseal' later' t uid' oid'' rs2 d3) = Inl ticket_gone"
proof -
  from issued obtain auth username sent ip ips where g: "entry_allowed d oid a v = Inr ()" "isValidHost (tg_host x)"
      "1 \<le> target_port (tg_port x)" "target_port (tg_port x) \<le> 65535" "ticket_login e d oid a (tg_username x) auth = Inr (username, sent)"
      "resolveTarget (qe_dns e) (qe_loopback e) (tg_host x) = Inr (ip, ips)"
      "assertNotProdHost (qe_prodDns e) d oid (tg_host x) ips = Inr ()"
    and t: "t = fresh" and rs': "rs' = redis_set now (ticket_key fresh)
       \<lparr>tk_org = oid, tk_user = act_user a, tk_host = tg_host x, tk_ip = ip, tk_port = target_port (tg_port x),
        tk_username = username, tk_auth = sent, tk_expected = or_none (tg_expected x), tk_via = v, tk_personalHost = ph\<rparr>
       TICKET_TTL_SECONDS rs"
    by (rule issued_ticket)
  note addr = resolved_addresses [OF g(6)]
  then have "ips \<noteq> []" by auto
  with no_production [OF g(7)] have prod: "\<forall>s \<in> set (servers d). srv_org s = oid \<and> srv_env s = EnvProd \<longrightarrow>
          \<not> is_named (tg_host x) s \<and> (srv_ip s = [] \<or> srv_ip s \<notin> set ips) \<and> set (prod_addresses (qe_prodDns e) s) \<inter> set ips = {}"
    by blast
  have once: "rs2 = redis_del (ticket_key t) rs'" using redeemed fresh t by (auto simp: consumeTicket_def split: option.splits)
  have conn: "uid = act_user a \<and> oid' = oid \<and> later < now + 60000 \<and> qn_host c = (if ip = [] then tg_host x else ip) \<and>
      qn_port c = target_port (tg_port x) \<and> qn_auth c = sent" if "r = Inr c" for c
    using redeemed fresh that unfolding t
    by (auto simp: redeemed_by [OF refl] rs' TICKET_TTL_SECONDS_def split: if_splits sum.splits)
  have type: "ab_type sent = ab_type auth" using g(5) by (auto simp: ticket_login_def split: if_splits option.splits sum.splits)
  have cred: "\<exists>k \<in> set (credentials d). cred_id k = ab_credential sent \<and> cred_org k = oid \<and>
      (cred_owner k = None \<and> hasPermission (act_permissions a) ''quick_connect.use_stored_identity'' \<or> cred_owner k = Some (act_user a) \<and>
         (if truthy (cred_owner k) then vault_on d oid \<and> hasPermission (act_permissions a) ''vault.use''
          else hasPermission (act_permissions a) ''quick_connect.use_stored_identity''))"
    if "ab_type sent = ''credential''"
    using login_permission [OF g(5)] that type by metis
  have "fst (consumeTicket unseal' later' t uid' oid'' rs2 d3) = Inl ticket_gone"
    using fresh t by (simp add: redeemed_by [OF refl] once)
  with entry_permission [OF g(1)] g(2,3,4,6) addr prod conn cred show ?thesis by blast
qed

definition sample_quick :: quick_env where
  "sample_quick = \<lparr>qe_kit = \<lparr>kt_generate = \<lambda>_ _ _ _. Inl (api_error 500 []), kt_normalize = \<lambda>_ _. Inl (api_error 500 []),
       kt_certified = Inr, kt_samePublic = \<lambda>_ _. False, kt_seal = id, kt_unseal = Inr\<rparr>,
     qe_dns = \<lambda>_. Inr [''192.168.1.20''], qe_loopback = False, qe_prodDns = \<lambda>_. []\<rparr>"

definition quick_actor :: actor where
  "quick_actor = \<lparr>act_user = ''mem'', act_roleId = None, act_tier = Member, act_permissions = [''quick_connect.use'']\<rparr>"

definition quick_target :: target where
  "quick_target = \<lparr>tg_host = ''box.local'', tg_port = None, tg_username = ''root'',
     tg_auth = Some \<lparr>ab_type = ''password'', ab_password = ''pw'', ab_privateKey = [], ab_passphrase = [], ab_credential = []\<rparr>,
     tg_expected = None\<rparr>"

definition no_tickets :: "ticket redis" where "no_tickets = \<lparr>rd_num = [], rd_obj = []\<rparr>"

lemmas host_eval = isIPv4_def is_octet_def is_seg_def is_hex_def is_digit_def
  dec_value_def zone_ok_def Let_def lower_char_def

lemma quick_addresses: "isIP ''192.168.1.20'' = 4" "isIP ''box.local'' = 0" "isValidHost ''box.local''"
  "allowed_target False ''192.168.1.20''" "USERNAME_RE ''root''"
proof -
  have "isIPv4 ''192.168.1.20''" by (simp add: host_eval)
  moreover have "\<not> isIPv4 ''box.local''" by (simp add: host_eval)
  moreover have "v6_groups ''box.local'' = None" by (simp add: v6_groups_def v6_part_def host_eval)
  ultimately show ip: "isIP ''192.168.1.20'' = 4" "isIP ''box.local'' = 0" by (simp_all add: isIP_def isIPv6_def)
  show "isValidHost ''box.local''" 
    by (simp add: isValidHost_def ip HOSTNAME_RE_def is_label_def is_alnum_def is_lower_alnum_def lower_char_def is_ws_def Let_def)
  show "USERNAME_RE ''root''" by (simp add: USERNAME_RE_def is_alnum_def is_lower_alnum_def lower_char_def Let_def)
  show "allowed_target False ''192.168.1.20''"
    by (simp add: allowed_target_def classifyIp_def ip classifyIpv4_def octets_def dec_value_def Let_def)
qed

lemma sample_ticket:
  "\<exists>d'. createTicket sample_quick 0 ''t'' ''o'' quick_actor quick_target ViaQuickConnect None no_tickets sample_db =
     (Inr ''t'', redis_set 0 (ticket_key ''t'')
        \<lparr>tk_org = ''o'', tk_user = ''mem'', tk_host = ''box.local'', tk_ip = ''192.168.1.20'', tk_port = 22, tk_username = Some ''root'',
         tk_auth = the (tg_auth quick_target), tk_expected = None, tk_via = ViaQuickConnect, tk_personalHost = None\<rparr>
        TICKET_TTL_SECONDS no_tickets, d')"
proof -
  have "entry_allowed sample_db ''o'' quick_actor ViaQuickConnect = Inr ()" by code_simp
  moreover have "resolveTarget (qe_dns sample_quick) (qe_loopback sample_quick) ''box.local'' = Inr (''192.168.1.20'', [''192.168.1.20''])"
    by (simp add: resolveTarget_def quick_addresses sample_quick_def)
  moreover have "assertNotProdHost (qe_prodDns sample_quick) sample_db ''o'' ''box.local'' [''192.168.1.20''] = Inr ()" by code_simp
  moreover have "assertNotDeniedHost sample_db ''o'' ''mem'' ''box.local'' [''192.168.1.20''] = Inr ()" by code_simp
  ultimately show ?thesis
    using quick_addresses
    by (simp add: createTicket_def quick_target_def quick_actor_def target_port_def validateAuthShape_def ticket_login_def or_none_def)
qed

lemma quick_ticket_checked_once_witness:
  "\<exists>t rs1 d1 c rs2. createTicket sample_quick 0 ''t'' ''o'' quick_actor quick_target ViaQuickConnect None no_tickets sample_db = (Inr t, rs1, d1) \<and>
     consumeTicket Inr 1000 t ''mem'' ''o'' rs1 d1 = (Inr c, rs2) \<and> qn_host c = ''192.168.1.20'' \<and>
     fst (consumeTicket Inr 2000 t ''mem'' ''o'' rs2 d1) = Inl ticket_gone"
proof -
  obtain d1 where issued: "createTicket sample_quick 0 ''t'' ''o'' quick_actor quick_target ViaQuickConnect None no_tickets sample_db =
     (Inr ''t'', redis_set 0 (ticket_key ''t'')
        \<lparr>tk_org = ''o'', tk_user = ''mem'', tk_host = ''box.local'', tk_ip = ''192.168.1.20'', tk_port = 22, tk_username = Some ''root'',
         tk_auth = the (tg_auth quick_target), tk_expected = None, tk_via = ViaQuickConnect, tk_personalHost = None\<rparr>
        TICKET_TTL_SECONDS no_tickets, d1)" (is "_ = (_, ?rs, _)")
    using sample_ticket by blast
  have "\<exists>c rs2. consumeTicket Inr 1000 ''t'' ''mem'' ''o'' ?rs d1 = (Inr c, rs2) \<and> qn_host c = ''192.168.1.20''"
    by (simp add: consumeTicket_def ticket_secrets_def quick_target_def TICKET_TTL_SECONDS_def Let_def)
  then obtain c rs2 where used: "consumeTicket Inr 1000 ''t'' ''mem'' ''o'' ?rs d1 = (Inr c, rs2)" "qn_host c = ''192.168.1.20''" by blast
  have "fst (consumeTicket Inr 2000 ''t'' ''mem'' ''o'' rs2 d1) = Inl ticket_gone"
    using quick_ticket_checked_once [OF issued _ used(1), of Inr 2000 "''mem''" "''o''" d1] by simp
  with issued used show ?thesis by blast
qed

end
