(* ===== verification/ServerClaims.thy ===== *)
theory ServerClaims
  imports Servers Sample "HOL-Library.Multiset"
begin

text \<open>
  Who may touch which server, and the counts of the grouped server list.
\<close>

section \<open>Edits and scope\<close>

datatype server_op =
    CreateOp id id server_data
  | UpdateOp id server_data
  | ResetKeyOp id
  | ConnectionIpOp id string
  | BulkOp "id list" bulk_patch

definition as_done :: "'a res \<times> db \<Rightarrow> bool \<times> db" where
  "as_done x = (isl (fst x) = False, snd x)"

fun server_run :: "(string \<Rightarrow> string) \<Rightarrow> id \<Rightarrow> scope \<Rightarrow> server_op \<Rightarrow> db \<Rightarrow> bool \<times> db" where
  "server_run seal oid sc (CreateOp newId cid x) d = as_done (createServer seal newId oid cid x sc d)"
| "server_run seal oid sc (UpdateOp sid x) d = as_done (updateServer seal oid sid x sc d)"
| "server_run seal oid sc (ResetKeyOp sid) d = as_done (resetServerHostKey oid sid sc d)"
| "server_run seal oid sc (ConnectionIpOp sid ip) d = as_done (updateConnectionIp oid sid ip sc d)"
| "server_run seal oid sc (BulkOp ids p) d = as_done (bulkUpdate oid ids p sc d)"

definition in_reach :: "id \<Rightarrow> scope \<Rightarrow> server \<Rightarrow> bool" where
  "in_reach oid sc s \<longleftrightarrow> srv_org s = oid \<and> serverScopeWhere sc s"

lemma scope_by_customer: "srv_customer s = srv_customer s' \<Longrightarrow> serverScopeWhere sc s = serverScopeWhere sc s'"
  by (cases sc) simp_all

definition reach_only :: "id \<Rightarrow> scope \<Rightarrow> db \<Rightarrow> db \<Rightarrow> bool" where
  "reach_only oid sc d d' \<longleftrightarrow>
     (\<forall>s \<in> set (servers d). \<not> in_reach oid sc s \<longrightarrow> s \<in> set (servers d')) \<and>
     (\<forall>s \<in> set (servers d'). s \<in> set (servers d) \<or> in_reach oid sc s)"

lemma reach_only_refl [simp]: "reach_only oid sc d d"
  by (simp add: reach_only_def)

lemma reach_only_update:
  assumes "\<And>s. s \<in> set (servers d) \<Longrightarrow> P s \<Longrightarrow> in_reach oid sc s \<and> in_reach oid sc (f s)"
  shows "reach_only oid sc d (d\<lparr>servers := update_where P f (servers d)\<rparr>)"
  using assms by (auto simp: reach_only_def set_update_where intro: image_eqI)

lemma update_server_reach:
  assumes "distinct (map srv_id (servers d))" "scoped_server d sid oid sc = Some s" "\<And>x. srv_org (f x) = srv_org x" "\<And>x. srv_customer (f x) = srv_customer x"
  shows "reach_only oid sc d (update_server sid f d)"
  unfolding update_server_def
proof (rule reach_only_update)
  fix x
  assume x: "x \<in> set (servers d)" "srv_id x = sid"
  from assms(2) have s: "s \<in> set (servers d)" "srv_id s = sid" "in_reach oid sc s"
    by (auto simp: scoped_server_def find_Some_iff in_reach_def)
  from x s assms(1) have "x = s" by (auto simp: distinct_map dest: inj_onD)
  then show "in_reach oid sc x \<and> in_reach oid sc (f x)"
    using s(3) scope_by_customer [of "f s" s sc] by (simp add: in_reach_def assms(3,4))
qed

lemma write_columns_home [simp]:
  "srv_org (write_columns seal x ip mode cred s) = srv_org s" "srv_customer (write_columns seal x ip mode cred s) = srv_customer s"
  "srv_org (clear_host_key s) = srv_org s" "srv_customer (clear_host_key s) = srv_customer s"
  by (simp_all add: write_columns_def clear_host_key_def)

lemma create_reach: "reach_only oid sc d (snd (createServer seal newId oid cid x sc d))"
proof -
  have "in_reach oid sc (write_columns seal x ip mode cred (blank_server newId oid cid h))" if "assertCustomerInScope sc cid = Inr ()" for ip mode cred h
    using that by (cases sc) (auto simp: in_reach_def blank_server_def write_columns_def split: if_splits)
  then show ?thesis by (auto simp: createServer_def reach_only_def Let_def split: sum.splits)
qed

lemma bulk_reach: "reach_only oid sc d (snd (bulkUpdate oid ids p sc d))"
proof -
  let ?hit = "\<lambda>s. srv_id s \<in> set ids \<and> srv_org s = oid \<and> serverScopeWhere sc s"
  have "reach_only oid sc d (d\<lparr>servers := update_where ?hit (bulk_write p) (servers d)\<rparr>)"
    if "truthy (bp_customer p) \<Longrightarrow> assertCustomerInScope sc (the (bp_customer p)) = Inr ()"
      "\<not> (bp_customer p = Some [] \<and> (\<exists>s \<in> set (servers d). ?hit s))"
  proof (rule reach_only_update)
    fix s
    assume s: "s \<in> set (servers d)" "?hit s"
    show "in_reach oid sc s \<and> in_reach oid sc (bulk_write p s)"
    proof (cases "bp_customer p")
      case None
      then show ?thesis using s scope_by_customer [of "bulk_write p s" s sc] by (auto simp: in_reach_def bulk_write_def sent_def)
    next
      case (Some c)
      with that s have "assertCustomerInScope sc c = Inr ()" by auto
      with s Some show ?thesis by (cases sc) (auto simp: in_reach_def bulk_write_def sent_def split: if_splits)
    qed
  qed
  then show ?thesis by (auto simp: bulkUpdate_def Let_def split: sum.splits if_splits)
qed

text \<open>C17: Whoever creates, edits, re-addresses or bulk-edits servers with a customer scope touches nothing beyond it:
  rows of other organizations and of customers outside the scope stay as they are, every new or changed
  row lies in the organization and in the scope - also after a move to another customer -
  and an operation that fails writes nothing.\<close>

theorem server_edits_stay_in_scope:
  assumes "distinct (map srv_id (servers d))" and run: "server_run seal oid sc op d = (ok, d')"
  shows "(\<forall>s \<in> set (servers d). \<not> (srv_org s = oid \<and> serverScopeWhere sc s) \<longrightarrow> s \<in> set (servers d')) \<and>
    (\<forall>s \<in> set (servers d'). s \<in> set (servers d) \<or> srv_org s = oid \<and> serverScopeWhere sc s) \<and>
    (\<not> ok \<longrightarrow> d' = d)"
proof -
  have "reach_only oid sc d d'"
  proof (cases op)
    case (CreateOp newId cid x)
    with run create_reach [of oid sc d seal newId cid x] show ?thesis by (simp add: as_done_def)
  next
    case (UpdateOp sid x)
    with run update_server_reach [OF assms(1)] show ?thesis
      by (auto simp: as_done_def updateServer_def Let_def split: option.splits sum.splits if_splits)
  next
    case (ResetKeyOp sid)
    with run update_server_reach [OF assms(1)] show ?thesis by (auto simp: as_done_def resetServerHostKey_def split: option.splits)
  next
    case (ConnectionIpOp sid ip)
    with run update_server_reach [OF assms(1)] show ?thesis
      by (auto simp: as_done_def updateConnectionIp_def split: option.splits if_splits)
  next
    case (BulkOp ids p)
    with run bulk_reach [of oid sc d ids p] show ?thesis by (simp add: as_done_def)
  qed
  moreover have "d' = d" if "\<not> ok"
    using run that
    by (cases op) (auto simp: as_done_def createServer_def updateServer_def resetServerHostKey_def updateConnectionIp_def bulkUpdate_def Let_def
        split: option.splits sum.splits if_splits)
  ultimately show ?thesis by (auto simp: reach_only_def in_reach_def)
qed

definition no_server_data :: server_data where
  "no_server_data = \<lparr>sv_hostname = None, sv_displayName = None, sv_description = None, sv_ip = None, sv_dynamicIp = None, sv_port = None,
     sv_protocol = None, sv_env = None, sv_labels = None, sv_osType = None, sv_osVersion = None, sv_cloudProvider = None, sv_sshUser = None,
     sv_rdpUsername = None, sv_isActive = None, sv_authMode = None, sv_credential = None, sv_rdpPassword = []\<rparr>"

definition move_patch :: "id \<Rightarrow> bulk_patch" where
  "move_patch c = \<lparr>bp_env = None, bp_protocol = None, bp_osType = None, bp_osVersion = None, bp_sshUser = None, bp_isActive = Some False, bp_customer = Some c\<rparr>"

lemma server_edits_stay_in_scope_witness:
  "\<exists>d'. server_run id ''o'' (ScopeCustomers [''c1'']) (BulkOp [''sdev'', ''sprd''] (move_patch ''c1'')) sample_db = (True, d') \<and>
     s_prod \<in> set (servers d') \<and> s_dev \<notin> set (servers d') \<and> fst (server_run id ''o'' (ScopeCustomers [''c1'']) (BulkOp [''sdev''] (move_patch ''c2'')) sample_db) = False"
proof -
  let ?d' = "snd (server_run id ''o'' (ScopeCustomers [''c1'']) (BulkOp [''sdev'', ''sprd''] (move_patch ''c1'')) sample_db)"
  have run: "server_run id ''o'' (ScopeCustomers [''c1'']) (BulkOp [''sdev'', ''sprd''] (move_patch ''c1'')) sample_db = (True, ?d')"
    "s_dev \<notin> set (servers ?d')" "fst (server_run id ''o'' (ScopeCustomers [''c1'']) (BulkOp [''sdev''] (move_patch ''c2'')) sample_db) = False"
    by (simp_all add: as_done_def bulkUpdate_def empty_bulk_def move_patch_def sample_db_def mk_customer_def update_where_def bulk_write_def s_dev_def
        s_prod_def mk_server_def sent_def Let_def)
  have "distinct (map srv_id (servers sample_db))" "s_prod \<in> set (servers sample_db)" "\<not> (srv_org s_prod = ''o'' \<and> serverScopeWhere (ScopeCustomers [''c1'']) s_prod)"
    by (simp_all add: sample_db_def s_dev_def s_prod_def mk_server_def)
  with server_edits_stay_in_scope [OF _ run(1)] have "s_prod \<in> set (servers ?d')" by blast
  with run show ?thesis by blast
qed

section \<open>Grouped lists\<close>

text \<open>The node a path of values leads to, and the rows that have those values.\<close>

fun node_at :: "group_node list \<Rightarrow> string \<Rightarrow> string list \<Rightarrow> group_node option" where
  "node_at gs v [] = find (\<lambda>g. gn_value g = v) gs"
| "node_at gs v (w # ws) =
     (case find (\<lambda>g. gn_value g = v) gs of None \<Rightarrow> None
      | Some g \<Rightarrow> (case gn_children g of None \<Rightarrow> None | Some cs \<Rightarrow> node_at cs w ws))"

fun has_values :: "dim list \<Rightarrow> string list \<Rightarrow> (string \<Rightarrow> string option) \<Rightarrow> bool" where
  "has_values dms [] r = True"
| "has_values [] (v # vs) r = False"
| "has_values (dm # dms) (v # vs) r = (valueKey (r (dm_key dm)) = v \<and> has_values dms vs r)"

lemma find_only:
  assumes "a \<in> set xs" "P a" "\<And>x. x \<in> set xs \<Longrightarrow> P x \<Longrightarrow> x = a"
  shows "find P xs = Some a"
proof -
  from assms(1,2) have "find P xs \<noteq> None" by (auto simp: find_None_iff)
  then obtain x where x: "find P xs = Some x" by auto
  then have "x \<in> set xs" "P x" by (auto simp: find_Some_iff)
  with x assms(3) show ?thesis by simp
qed

abbreviation node_of :: "(string \<Rightarrow> nat) \<Rightarrow> counted list \<Rightarrow> dim \<Rightarrow> dim list \<Rightarrow> string \<Rightarrow> group_node" where
  "node_of collate rows dm dms v \<equiv>
     Group (dm_key dm) v (dm_label dm v) (sum_list (map snd (bucket dm v rows))) (if dms = [] then None else Some (level collate (bucket dm v rows) dms))"

lemma set_level: "set (level collate rows (dm # dms)) = (\<lambda>v. node_of collate rows dm dms v) ` set (map (row_value dm) rows)"
  by (simp only: level.simps Let_def set_sort set_map set_uniq)

lemma find_level:
  "find (\<lambda>g. gn_value g = v) (level collate rows (dm # dms)) =
     (if bucket dm v rows = [] then None else Some (node_of collate rows dm dms v))"
proof (cases "bucket dm v rows = []")
  case True
  then have "v \<notin> set (map (row_value dm) rows)" by (auto simp: bucket_def filter_empty_conv)
  then have "find (\<lambda>g. gn_value g = v) (level collate rows (dm # dms)) = None"
    unfolding find_None_iff set_level by auto
  with True show ?thesis by simp
next
  case False
  then have "v \<in> set (map (row_value dm) rows)" by (auto simp: bucket_def filter_empty_conv)
  then have "find (\<lambda>g. gn_value g = v) (level collate rows (dm # dms)) = Some (node_of collate rows dm dms v)"
    by (intro find_only) (auto simp only: set_level group_node.sel)
  with False show ?thesis by simp
qed

lemma node_at_level:
  "map_option gn_count (node_at (level collate rows dms) v vs) =
     (let hit = filter (\<lambda>r. has_values dms (v # vs) (fst r)) rows in if hit = [] then None else Some (sum_list (map snd hit)))"
proof (induction dms arbitrary: rows v vs)
  case Nil
  show ?case by (cases vs) simp_all
next
  case (Cons dm dms)
  have b: "bucket dm v rows = filter (\<lambda>r. valueKey (fst r (dm_key dm)) = v) rows" by (simp add: bucket_def row_value_def)
  show ?case
  proof (cases vs)
    case Nil
    then show ?thesis by (simp add: find_level b Let_def del: level.simps)
  next
    case (Cons w ws)
    have "map_option gn_count (node_at (level collate rows (dm # dms)) v vs) =
        (if bucket dm v rows = [] \<or> dms = [] then None else map_option gn_count (node_at (level collate (bucket dm v rows) dms) w ws))"
      by (simp add: Cons find_level del: level.simps)
    also have "\<dots> = (let hit = filter (\<lambda>r. has_values dms (w # ws) (fst r)) (bucket dm v rows) in if hit = [] then None else Some (sum_list (map snd hit)))"
      by (cases "dms = []") (auto simp: Cons.IH Let_def)
    also have "filter (\<lambda>r. has_values dms (w # ws) (fst r)) (bucket dm v rows) = filter (\<lambda>r. has_values (dm # dms) (v # vs) (fst r)) rows"
      by (simp add: b Cons conj_commute)
    finally show ?thesis .
  qed
qed

lemma level_total: "sum_list (map gn_count (level collate rows (dm # dms))) = sum_list (map snd rows)"
proof -
  have "mset (level collate rows (dm # dms)) = mset (map (node_of collate rows dm dms) (uniq (map (row_value dm) rows)))"
    by (simp only: level.simps Let_def mset_sort)
  then have "sum_list (map gn_count (level collate rows (dm # dms))) = (\<Sum>v \<leftarrow> uniq (map (row_value dm) rows). sum_list (map snd (bucket dm v rows)))"
    using sum_mset_sum_list [of "map gn_count (level collate rows (dm # dms))"]
      sum_mset_sum_list [of "map gn_count (map (node_of collate rows dm dms) (uniq (map (row_value dm) rows)))"]
    by (simp add: image_mset.compositionality comp_def del: level.simps)
  also have "\<dots> = (\<Sum>v \<in> row_value dm ` set rows. sum_list (map snd (bucket dm v rows)))"
    by (simp add: sum_list_distinct_conv_sum_set)
  also have "\<dots> = sum_list (map snd rows)"
  proof (induction rows)
    case (Cons r rows)
    have "(\<Sum>v \<in> row_value dm ` set (r # rows). sum_list (map snd (bucket dm v (r # rows)))) =
        (\<Sum>v \<in> row_value dm ` set (r # rows). (if v = row_value dm r then snd r else 0) + sum_list (map snd (bucket dm v rows)))"
      by (rule sum.cong) (auto simp: bucket_def)
    also have "\<dots> = snd r + (\<Sum>v \<in> row_value dm ` set (r # rows). sum_list (map snd (bucket dm v rows)))"
      by (simp add: sum.distrib)
    also have "(\<Sum>v \<in> row_value dm ` set (r # rows). sum_list (map snd (bucket dm v rows))) = (\<Sum>v \<in> row_value dm ` set rows. sum_list (map snd (bucket dm v rows)))"
      by (rule sum.mono_neutral_right) (auto simp: bucket_def filter_empty_conv)
    finally show ?case using Cons.IH by simp
  qed simp
  finally show ?thesis .
qed

text \<open>C21: The groups of the server list say what the list itself says. The node under a path of values counts
  exactly the servers the filters select that have those values at the levels of the path, there is such a node
  only when there is such a server, the groups of the first level add up to the whole list, and
  they stand in the order of their rank, count and label.\<close>

theorem server_groups_count_the_list:
  "map_option gn_count (node_at (listServerGroups collate shown fl now oid f sc dms d) v vs) =
     (let n = length (filter (\<lambda>s. has_values dms (v # vs) (shown s)) (resolveServerWhere fl now oid f sc d)) in if n = 0 then None else Some n) \<and>
   (case dms of [] \<Rightarrow> listServerGroups collate shown fl now oid f sc dms d = []
    | dm # _ \<Rightarrow> sum_list (map gn_count (listServerGroups collate shown fl now oid f sc dms d)) = length (resolveServerWhere fl now oid f sc d) \<and>
        sorted (map (node_key collate dm) (listServerGroups collate shown fl now oid f sc dms d)))"
proof -
  let ?servers = "resolveServerWhere fl now oid f sc d"
  have ones: "sum_list (map snd (map (\<lambda>s. (shown s, 1 :: nat)) xs)) = length xs" for xs by (induction xs) auto
  have "filter (\<lambda>r. has_values dms (v # vs) (fst r)) (map (\<lambda>s. (shown s, 1 :: nat)) ?servers) =
      map (\<lambda>s. (shown s, 1)) (filter (\<lambda>s. has_values dms (v # vs) (shown s)) ?servers)"
    by (simp add: filter_map comp_def)
  then have "map_option gn_count (node_at (listServerGroups collate shown fl now oid f sc dms d) v vs) =
     (let n = length (filter (\<lambda>s. has_values dms (v # vs) (shown s)) ?servers) in if n = 0 then None else Some n)"
    unfolding listServerGroups_def buildGroupTree_def node_at_level Let_def by (simp only: ones) simp
  moreover have "sum_list (map gn_count (listServerGroups collate shown fl now oid f sc (dm # ds) d)) = length ?servers \<and>
      sorted (map (node_key collate dm) (listServerGroups collate shown fl now oid f sc (dm # ds) d))" for dm ds
    unfolding listServerGroups_def buildGroupTree_def level_total ones by simp
  moreover have "listServerGroups collate shown fl now oid f sc [] d = []" by (simp add: listServerGroups_def buildGroupTree_def)
  ultimately show ?thesis by (simp split: list.split)
qed

end
