(* ===== verification/Sso.thy ===== *)
theory Sso
  imports AuthTokens Users
begin

text \<open>
  From a verified external identity to an account (\<open>backend/src/services/ssoService.js\<close>): which
  account a sign-in at a provider reaches, when it may be linked at once and when the account's
  holder has to prove it first, creating accounts, and removing an identity. The protocol with
  the provider is outside; what it asserted is an argument. The stable codes the callback route
  shows (\<open>errorCode\<close>) are the codes of the errors here.
\<close>

definition ssoError :: "string \<Rightarrow> string \<Rightarrow> nat \<Rightarrow> err" where
  "ssoError code m n = ApiError n m (Some code)"

definition account_disabled :: err where "account_disabled = ssoError ''account_disabled'' ''Account is not active'' 403"

section \<open>Providers\<close>

text \<open>The environment's Google preset: whether it has its secrets, and its defaults.\<close>

record sso_env =
  en_google :: bool
  en_defaultRole :: "string option"
  en_autoProvision :: bool
  en_domains :: "string list"

definition safeDefaultRole :: "string option \<Rightarrow> string" where
  "safeDefaultRole r = (if \<not> truthy r \<or> r = Some ''super_admin'' then ''member'' else the r)"

definition materializeEnvGoogle :: "sso_env \<Rightarrow> id \<Rightarrow> id \<Rightarrow> db \<Rightarrow> sso_config option \<times> db" where
  "materializeEnvGoogle e newId oid d =
     (case find (\<lambda>c. sso_org c = oid \<and> sso_preset c = Some ''google'') (ssoConfigs d) of
        Some c \<Rightarrow> (Some c, d)
      | None \<Rightarrow>
          if \<not> en_google e then (None, d)
          else
            let c = \<lparr>sso_id = newId, sso_org = oid, sso_provider = ''oidc'', sso_preset = Some ''google'', sso_name = ''Google'',
                     sso_order = -1, sso_defaultRole = safeDefaultRole (en_defaultRole e), sso_defaultGroup = None,
                     sso_autoProvision = en_autoProvision e, sso_domains = en_domains e, sso_verifiedEmail = True, sso_active = True\<rparr>
            in (Some c, d\<lparr>ssoConfigs := ssoConfigs d @ [c]\<rparr>))"

definition provider_of :: "db \<Rightarrow> id \<Rightarrow> id \<Rightarrow> sso_config option" where
  "provider_of d i oid = find (\<lambda>c. sso_id c = i \<and> sso_org c = oid) (ssoConfigs d)"

definition active_providers :: "db \<Rightarrow> id \<Rightarrow> sso_config list" where
  "active_providers d oid = sort_key sso_order (filter (\<lambda>c. sso_org c = oid \<and> sso_active c) (ssoConfigs d))"

definition resolveProviderForStart :: "sso_env \<Rightarrow> id \<Rightarrow> id \<Rightarrow> string \<Rightarrow> db \<Rightarrow> sso_config option \<times> db" where
  "resolveProviderForStart e newId oid param d =
     (if param = ''env-google'' then materializeEnvGoogle e newId oid d
      else if param \<noteq> [] then (provider_of d param oid, d)
      else case active_providers d oid of c # _ \<Rightarrow> (Some c, d) | [] \<Rightarrow> materializeEnvGoogle e newId oid d)"

definition provider_label :: "sso_config \<Rightarrow> string" where
  "provider_label c = (if sso_name c = [] then sso_provider c else sso_name c)"

section \<open>Who has to confirm\<close>

definition isPrivilegedUser :: "db \<Rightarrow> user \<Rightarrow> bool" where
  "isPrivilegedUser d u = (\<exists>p \<in> set PRIVILEGED_PERMISSIONS. p \<in> set (permissionsForUser u (assigned_role d u)))"

definition linkConfirmationFor :: "db \<Rightarrow> user \<Rightarrow> string option" where
  "linkConfirmationFor d u =
     (if truthy (usr_passwordHash u) then Some ''password'' else if isPrivilegedUser d u then Some ''email_approval'' else None)"

section \<open>Linking\<close>

text \<open>What the provider asserted.\<close>

record sso_profile =
  sp_subject :: string
  sp_externalId :: "string option"
  sp_email :: "string option"
  sp_verified :: bool
  sp_name :: "string option"
  sp_picture :: "string option"

definition identity_at :: "db \<Rightarrow> id \<Rightarrow> string \<Rightarrow> user_identity option" where
  "identity_at d cfg sub = find (\<lambda>i. idn_config i = cfg \<and> idn_subject i = sub) (identities d)"

definition keep_first :: "string option \<Rightarrow> string option \<Rightarrow> string option" where
  "keep_first old new = (if truthy old then old else new)"

definition new_identity :: "id \<Rightarrow> id \<Rightarrow> id \<Rightarrow> sso_config \<Rightarrow> string \<Rightarrow> string option \<Rightarrow> string option \<Rightarrow> int option \<Rightarrow> user_identity" where
  "new_identity newId oid uid cfg sub ext email at =
     \<lparr>idn_id = newId, idn_org = oid, idn_user = uid, idn_config = sso_id cfg, idn_provider = sso_provider cfg, idn_subject = sub,
      idn_externalId = or_none ext, idn_email = or_none email, idn_lastLoginAt = at\<rparr>"

definition link_columns :: "sso_config \<Rightarrow> sso_profile \<Rightarrow> bool \<Rightarrow> user \<Rightarrow> user" where
  "link_columns cfg p activate u =
     u\<lparr>usr_name := (if usr_name u = [] then or_else (sp_name p) [] else usr_name u),
       usr_avatarUrl := (if truthy (usr_avatarUrl u) then usr_avatarUrl u else or_none (sp_picture p)),
       usr_ssoProvider := keep_first (usr_ssoProvider u) (Some (sso_provider cfg)),
       usr_ssoSub := keep_first (usr_ssoSub u) (Some (sp_subject p)),
       usr_status := (if activate \<and> usr_status u \<in> {Invited, PendingVerification} then Active else usr_status u)\<rparr>"

definition linkIdentityToUser :: "id \<Rightarrow> int \<Rightarrow> id \<Rightarrow> sso_config \<Rightarrow> id \<Rightarrow> sso_profile \<Rightarrow> bool \<Rightarrow> db \<Rightarrow> user_identity res \<times> db" where
  "linkIdentityToUser newId now oid cfg uid p activate d =
     (case identity_at d (sso_id cfg) (sp_subject p) of
        Some i \<Rightarrow>
          (if idn_user i \<noteq> uid
           then (Inl (ssoError ''identity_in_use'' (''This '' @ provider_label cfg @ '' account is already linked to another Shellius user'') 409), d)
           else (Inl (ssoError ''already_connected'' (''This '' @ provider_label cfg @ '' account is already connected'') 409), d))
      | None \<Rightarrow>
          if \<exists>i \<in> set (identities d). idn_user i = uid \<and> idn_config i = sso_id cfg
          then (Inl (ssoError ''already_connected'' (''You already have a '' @ provider_label cfg @ '' account connected'') 409), d)
          else case find_user d uid oid of None \<Rightarrow> (Inl account_disabled, d) | Some u \<Rightarrow>
          if isDisabledStatus (usr_status u) then (Inl account_disabled, d)
          else
            let i = new_identity newId oid uid cfg (sp_subject p) (sp_externalId p) (sp_email p) (if activate then Some now else None)
            in (Inr i, update_user_row uid (link_columns cfg p activate) (d\<lparr>identities := identities d @ [i]\<rparr>)))"

section \<open>Signing in\<close>

text \<open>A link that waits for the account's holder.\<close>

record pending_link =
  pl_mode :: string
  pl_user :: id
  pl_org :: id
  pl_userEmail :: string
  pl_userName :: string
  pl_config :: id
  pl_provider :: string
  pl_providerName :: string
  pl_preset :: "string option"
  pl_profile :: sso_profile
  pl_createdAt :: "int option"
  pl_requestIp :: "string option"
  pl_passwordVerified :: bool

datatype sso_outcome = SignIn user bool | ConfirmFirst pending_link

definition email_domain :: "string \<Rightarrow> string" where
  "email_domain email = takeWhile (\<lambda>c. c \<noteq> CHR ''@'') (drop 1 (dropWhile (\<lambda>c. c \<noteq> CHR ''@'') email))"

definition domain_refused :: "sso_config \<Rightarrow> string \<Rightarrow> bool" where
  "domain_refused cfg email \<longleftrightarrow>
     sso_domains cfg \<noteq> [] \<and> (email_domain email = [] \<or> lower (email_domain email) \<notin> set (sso_domains cfg))"

definition not_verified :: err where
  "not_verified = ssoError ''email_not_verified'' ''Your identity provider did not assert a verified email for this account'' 403"

text \<open>
  The account a profile reaches: by its identity, or by a verified address; and whether the
  second is linked silently. \<open>Inl (Inr _)\<close> is a link to confirm.
\<close>

definition pending_for :: "user \<Rightarrow> id \<Rightarrow> sso_config \<Rightarrow> sso_profile \<Rightarrow> string \<Rightarrow> pending_link" where
  "pending_for u oid cfg p mode =
     \<lparr>pl_mode = mode, pl_user = usr_id u, pl_org = oid, pl_userEmail = usr_email u, pl_userName = usr_name u, pl_config = sso_id cfg,
      pl_provider = sso_provider cfg, pl_providerName = provider_label cfg, pl_preset = or_none (sso_preset cfg), pl_profile = p,
      pl_createdAt = None, pl_requestIp = None, pl_passwordVerified = False\<rparr>"

datatype matched = NoAccount | ByIdentity user | ByEmail user | ToConfirm pending_link

definition match_by_email :: "db \<Rightarrow> id \<Rightarrow> sso_config \<Rightarrow> sso_profile \<Rightarrow> string \<Rightarrow> matched res" where
  "match_by_email d oid cfg p email =
     (case (if email = [] then None else find (\<lambda>u. usr_org u = oid \<and> usr_email u = email \<and> usr_kind u = Human) (users d)) of
        None \<Rightarrow> Inr NoAccount
      | Some u \<Rightarrow>
          if \<exists>i \<in> set (identities d). idn_user i = usr_id u \<and> idn_config i = sso_id cfg \<and> idn_subject i \<noteq> sp_subject p
          then Inl (ssoError ''identity_conflict'' ''This email is already linked to a different identity provider account'' 403)
          else if sso_verifiedEmail cfg \<and> \<not> sp_verified p then Inl not_verified
          else if isDisabledStatus (usr_status u) then Inl account_disabled
          else (case linkConfirmationFor d u of
                  Some mode \<Rightarrow> Inr (ToConfirm (pending_for u oid cfg (p\<lparr>sp_email := Some email\<rparr>) mode))
                | None \<Rightarrow> Inr (ByEmail u)))"

definition match_account :: "db \<Rightarrow> id \<Rightarrow> sso_config \<Rightarrow> sso_profile \<Rightarrow> string \<Rightarrow> matched res" where
  "match_account d oid cfg p email =
     (case Option.bind (identity_at d (sso_id cfg) (sp_subject p)) (\<lambda>i. find_user_id d (idn_user i)) of
        Some u \<Rightarrow> Inr (ByIdentity u)
      | None \<Rightarrow> match_by_email d oid cfg p email)"

definition provisioned :: "id \<Rightarrow> id \<Rightarrow> sso_config \<Rightarrow> sso_profile \<Rightarrow> string \<Rightarrow> role \<Rightarrow> user" where
  "provisioned newId oid cfg p email r =
     (blank_user newId oid email (or_else (sp_name p) email) r)
       \<lparr>usr_status := Active, usr_ssoProvider := Some (sso_provider cfg), usr_ssoSub := Some (sp_subject p),
        usr_avatarUrl := or_none (sp_picture p)\<rparr>"

definition provision :: "id \<Rightarrow> id \<Rightarrow> sso_config \<Rightarrow> sso_profile \<Rightarrow> string \<Rightarrow> db \<Rightarrow> user res \<times> db" where
  "provision newId oid cfg p email d =
     (if \<not> sso_autoProvision cfg
      then (Inl (ssoError ''provisioning_disabled''
              ''Your account has not been set up in Shellius yet. Please contact your administrator to request access.'' 403), d)
      else if email = [] then (Inl (ssoError ''sso_failed'' (sso_provider cfg @ '' response is missing an email'') 403), d)
      else if sso_verifiedEmail cfg \<and> \<not> sp_verified p then (Inl not_verified, d)
      else case ssoDefaultRole d oid (sso_defaultRole cfg) of None \<Rightarrow> (Inl TypeError, d) | Some r \<Rightarrow>
      if email_taken d oid email then (Inl DbError, d)
      else
        let u = provisioned newId oid cfg p email r; d1 = d\<lparr>users := users d @ [u]\<rparr>
        in (Inr u,
            case sso_defaultGroup cfg of None \<Rightarrow> d1
            | Some g \<Rightarrow> if \<exists>x \<in> set (groups d). grp_id x = g
                then d1\<lparr>memberships := memberships d1 @ [\<lparr>mem_group = g, mem_user = newId, mem_addedBy = None\<rparr>]\<rparr> else d1))"

definition refreshed :: "int \<Rightarrow> sso_config \<Rightarrow> sso_profile \<Rightarrow> user \<Rightarrow> user" where
  "refreshed now cfg p u =
     u\<lparr>usr_name := (if usr_name u = [] then or_else (sp_name p) [] else usr_name u),
       usr_avatarUrl := (if truthy (sp_picture p) \<and> \<not> prefix ''data:'' (or_else (usr_avatarUrl u) []) then sp_picture p else usr_avatarUrl u),
       usr_ssoProvider := keep_first (usr_ssoProvider u) (Some (sso_provider cfg)),
       usr_ssoSub := keep_first (usr_ssoSub u) (Some (sp_subject p)), usr_status := Active, usr_lastLoginAt := Some now\<rparr>"

definition upsert_identity :: "id \<Rightarrow> int \<Rightarrow> id \<Rightarrow> sso_config \<Rightarrow> sso_profile \<Rightarrow> string \<Rightarrow> id \<Rightarrow> db \<Rightarrow> db" where
  "upsert_identity newId now oid cfg p email uid d =
     (let here = (\<lambda>i. idn_config i = sso_id cfg \<and> idn_subject i = sp_subject p);
          em = (if email = [] then None else Some email) in
      if \<exists>i \<in> set (identities d). here i
      then d\<lparr>identities := update_where here
             (\<lambda>i. i\<lparr>idn_user := uid, idn_email := em, idn_lastLoginAt := Some now,
                    idn_externalId := (if truthy (sp_externalId p) then sp_externalId p else idn_externalId i)\<rparr>) (identities d)\<rparr>
      else d\<lparr>identities := identities d @ [new_identity newId oid uid cfg (sp_subject p) (sp_externalId p) em (Some now)]\<rparr>)"

definition sso_sign_in :: "id \<Rightarrow> id \<Rightarrow> int \<Rightarrow> id \<Rightarrow> sso_config \<Rightarrow> sso_profile \<Rightarrow> string \<Rightarrow> user option \<Rightarrow> db \<Rightarrow> user res \<times> db" where
  "sso_sign_in newUser newIdn now oid cfg p email ou d =
     (case (case ou of None \<Rightarrow> provision newUser oid cfg p email d
            | Some u \<Rightarrow>
                if isDisabledStatus (usr_status u) then (Inl account_disabled, d)
                else (Inr (refreshed now cfg p u), update_user_row (usr_id u) (refreshed now cfg p) d)) of
        (Inl er, d1) \<Rightarrow> (Inl er, d1)
      | (Inr u, d1) \<Rightarrow> (Inr u, upsert_identity newIdn now oid cfg p email (usr_id u) d1))"

definition reconcileSsoUser :: "id \<Rightarrow> id \<Rightarrow> int \<Rightarrow> id \<Rightarrow> sso_config \<Rightarrow> sso_profile \<Rightarrow> db \<Rightarrow> sso_outcome res \<times> db" where
  "reconcileSsoUser newUser newIdn now oid cfg p d =
     (let email = js_trim (lower (or_else (sp_email p) [])) in
      if sp_subject p = [] then (Inl (ssoError ''sso_failed'' (sso_provider cfg @ '' response is missing a subject/sub claim'') 403), d)
      else if domain_refused cfg email
      then (Inl (ssoError ''domain_not_allowed'' ''Your email domain is not permitted to sign in to this organization'' 403), d)
      else case match_account d oid cfg p email of
        Inl er \<Rightarrow> (Inl er, d)
      | Inr (ToConfirm pl) \<Rightarrow> (Inr (ConfirmFirst pl), d)
      | Inr (ByIdentity u) \<Rightarrow>
          (case sso_sign_in newUser newIdn now oid cfg p email (Some u) d of (Inl er, d1) \<Rightarrow> (Inl er, d1) | (Inr v, d1) \<Rightarrow> (Inr (SignIn v False), d1))
      | Inr (ByEmail u) \<Rightarrow>
          (case sso_sign_in newUser newIdn now oid cfg p email (Some u) d of (Inl er, d1) \<Rightarrow> (Inl er, d1) | (Inr v, d1) \<Rightarrow> (Inr (SignIn v True), d1))
      | Inr NoAccount \<Rightarrow>
          (case sso_sign_in newUser newIdn now oid cfg p email None d of (Inl er, d1) \<Rightarrow> (Inl er, d1) | (Inr v, d1) \<Rightarrow> (Inr (SignIn v False), d1)))"

section \<open>A user's identities\<close>

record identity_view =
  iv_id :: id
  iv_provider :: id
  iv_name :: string
  iv_email :: "string option"

definition identity_name :: "db \<Rightarrow> user_identity \<Rightarrow> string" where
  "identity_name d i =
     (case find (\<lambda>c. sso_id c = idn_config i) (ssoConfigs d) of None \<Rightarrow> idn_provider i
      | Some c \<Rightarrow> if sso_name c = [] then idn_provider i else sso_name c)"

definition identity_view_of :: "db \<Rightarrow> user_identity \<Rightarrow> identity_view" where
  "identity_view_of d i = \<lparr>iv_id = idn_id i, iv_provider = idn_config i, iv_name = identity_name d i, iv_email = idn_email i\<rparr>"

definition listUserIdentities :: "id \<Rightarrow> id option \<Rightarrow> db \<Rightarrow> identity_view list" where
  "listUserIdentities uid oid d =
     map (identity_view_of d) (filter (\<lambda>i. idn_user i = uid \<and> (truthy oid \<longrightarrow> Some (idn_org i) = oid)) (identities d))"

text \<open>A password counts as a way in when the organization lets this user use it.\<close>

definition passwordUsable :: "db \<Rightarrow> user option \<Rightarrow> bool" where
  "passwordUsable d ou = (case ou of None \<Rightarrow> False | Some u \<Rightarrow> truthy (usr_passwordHash u) \<and> \<not> passwordSignInBlocked d (Some u))"

definition deleteUserIdentity :: "id \<Rightarrow> id \<Rightarrow> id option \<Rightarrow> bool \<Rightarrow> db \<Rightarrow> identity_view res \<times> db" where
  "deleteUserIdentity uid iid oid byAdmin d =
     (case find (\<lambda>i. idn_id i = iid \<and> idn_user i = uid \<and> (truthy oid \<longrightarrow> Some (idn_org i) = oid)) (identities d) of
        None \<Rightarrow> (Inl (api_error 404 ''Identity not found''), d)
      | Some i \<Rightarrow>
          if \<not> passwordUsable d (find_user_id d uid) \<and> \<not> (\<exists>x \<in> set (identities d). idn_user x = uid \<and> idn_id x \<noteq> iid)
          then (Inl (ApiError 409 (if byAdmin then ''Removing this identity would leave the user with no way to sign in''
                                   else ''Removing this identity would leave you with no way to sign in'') (Some ''LAST_SIGN_IN_METHOD'')), d)
          else (Inr (identity_view_of d i), d\<lparr>identities := filter (\<lambda>x. idn_id x \<noteq> iid) (identities d)\<rparr>))"

end
