(* ===== verification/SsoLinks.thy ===== *)
theory SsoLinks
  imports Sso
begin

text \<open>
  Attaching an external identity to an existing account, and removing one
  (\<open>backend/src/services/ssoLinkService.js\<close>). A pending link lives in Redis under the hash of its
  token, once: the browser confirms it with the account's password and second factor, or the
  account's holder approves it from a mail. Mails are outside; only whether the approval mail was
  delivered matters to the code.
\<close>

definition PENDING_LINK_TTL_SEC :: int where "PENDING_LINK_TTL_SEC = 10 * 60"
definition APPROVAL_LINK_TTL_SEC :: int where "APPROVAL_LINK_TTL_SEC = 30 * 60"
definition MAX_CONFIRM_ATTEMPTS :: nat where "MAX_CONFIRM_ATTEMPTS = 5"
definition APPROVAL_MAILS_PER_HOUR :: nat where "APPROVAL_MAILS_PER_HOUR = 5"

definition linkKey :: "auth_env \<Rightarrow> string \<Rightarrow> string" where "linkKey e t = ''sso:link:'' @ ae_sha e t"
definition attemptsKey :: "auth_env \<Rightarrow> string \<Rightarrow> string" where "attemptsKey e t = ''sso:link:attempts:'' @ ae_sha e t"

definition linkExpired :: err where
  "linkExpired = ApiError 400 (dashed ''This link request has expired or was already used'' ''sign in again'') (Some ''LINK_EXPIRED'')"

section \<open>The store\<close>

definition readPending :: "auth_env \<Rightarrow> int \<Rightarrow> string \<Rightarrow> pending_link redis \<Rightarrow> pending_link option" where
  "readPending e now t rs = (if t = [] then None else redis_get now (linkKey e t) rs)"

text \<open>\<open>SET \<dots> KEEPTTL\<close>: the deadline stays; a key that is gone is created without one.\<close>

definition redis_set_keepttl :: "int \<Rightarrow> string \<Rightarrow> 'v \<Rightarrow> 'v redis \<Rightarrow> 'v redis" where
  "redis_set_keepttl now k v s =
     s\<lparr>rd_obj := put_entry k v (case live_entry now k (rd_obj s) of None \<Rightarrow> None | Some (_, dl) \<Rightarrow> dl) (rd_obj s)\<rparr>"

definition writePending :: "auth_env \<Rightarrow> int \<Rightarrow> string \<Rightarrow> pending_link \<Rightarrow> pending_link redis \<Rightarrow> pending_link redis" where
  "writePending e now t p rs = redis_set_keepttl now (linkKey e t) p rs"

text \<open>True for the one caller whose \<open>DEL\<close> removed the key.\<close>

definition consumePending :: "auth_env \<Rightarrow> int \<Rightarrow> string \<Rightarrow> pending_link redis \<Rightarrow> bool \<times> pending_link redis" where
  "consumePending e now t rs =
     (redis_get now (linkKey e t) rs \<noteq> None, redis_del (attemptsKey e t) (redis_del (linkKey e t) rs))"

definition approvalMailAllowed :: "int \<Rightarrow> id \<Rightarrow> pending_link redis \<Rightarrow> bool \<times> pending_link redis" where
  "approvalMailAllowed now uid rs =
     (case incr_window now (''sso:link:approvalmail:'' @ uid) (60 * 60) rs of (n, rs1) \<Rightarrow> (n \<le> APPROVAL_MAILS_PER_HOUR, rs1))"

definition storePendingLink :: "auth_env \<Rightarrow> call \<Rightarrow> string \<Rightarrow> pending_link \<Rightarrow> pending_link redis \<Rightarrow> pending_link redis" where
  "storePendingLink e c t p rs =
     redis_set (cl_now c) (linkKey e t) (p\<lparr>pl_createdAt := Some (cl_now c), pl_requestIp := or_none (cl_ip c)\<rparr>)
       (if pl_mode p = ''email_approval'' then APPROVAL_LINK_TTL_SEC else PENDING_LINK_TTL_SEC) rs"

section \<open>Audit\<close>

definition pending_audit :: "call \<Rightarrow> pending_link \<Rightarrow> string \<Rightarrow> (string \<times> json) list \<Rightarrow> db \<Rightarrow> db" where
  "pending_audit c p action m d =
     auditLog (pl_org p) None action ''User'' (Some (pl_user p))
       (Some (JObj ([(''provider'', JStr (pl_providerName p)), (''providerId'', JStr (pl_config p))] @ m))) (cl_agent c) d"

definition linkFailed :: "call \<Rightarrow> pending_link \<Rightarrow> string \<Rightarrow> db \<Rightarrow> db" where
  "linkFailed c p reason d = pending_audit c p ''auth.identity.link_failed'' [(''reason'', JStr reason)] d"

definition recordIdentityLinked :: "call \<Rightarrow> user \<Rightarrow> string \<Rightarrow> string \<Rightarrow> id \<Rightarrow> db \<Rightarrow> db" where
  "recordIdentityLinked c u meth name cfg d =
     auditLog (usr_org u) (Some (usr_id u)) ''auth.identity.linked'' ''User'' (Some (usr_id u))
       (Some (JObj [(''method'', JStr meth), (''provider'', JStr name), (''providerId'', JStr cfg)])) (cl_agent c) d"

section \<open>Pending links\<close>

text \<open>Its mode, the token when the browser needs it, and whether the approval mail went out.\<close>

definition createPendingLink ::
    "auth_env \<Rightarrow> call \<Rightarrow> string \<Rightarrow> bool \<Rightarrow> pending_link \<Rightarrow> pending_link redis \<Rightarrow> db \<Rightarrow> (string option \<times> bool) \<times> pending_link redis \<times> db" where
  "createPendingLink e c t delivered p rs d =
     (let rs1 = storePendingLink e c t p rs;
          d1 = pending_audit c p ''auth.identity.link_pending'' [(''mode'', JStr (pl_mode p))] d in
      if pl_mode p \<noteq> ''email_approval'' then ((Some t, False), rs1, d1)
      else case approvalMailAllowed (cl_now c) (pl_user p) rs1 of
        (ok, rs2) \<Rightarrow>
          if ok \<and> delivered then ((None, True), rs2, d1)
          else ((None, False), snd (consumePending e (cl_now c) t rs2), d1))"

definition loadLinkUser :: "db \<Rightarrow> pending_link \<Rightarrow> user res" where
  "loadLinkUser d p =
     (case find_user d (pl_user p) (pl_org p) of
        None \<Rightarrow> Inl (ApiError 403 ''Account is disabled'' (Some ''ACCOUNT_DISABLED''))
      | Some u \<Rightarrow> if isDisabledStatus (usr_status u) then Inl (ApiError 403 ''Account is disabled'' (Some ''ACCOUNT_DISABLED'')) else Inr u)"

text \<open>A live link of one of the two modes, with its account.\<close>

definition live_link :: "auth_env \<Rightarrow> int \<Rightarrow> string \<Rightarrow> string \<Rightarrow> pending_link redis \<Rightarrow> pending_link res" where
  "live_link e now t mode rs =
     (case readPending e now t rs of None \<Rightarrow> Inl linkExpired | Some p \<Rightarrow> if mode \<noteq> [] \<and> pl_mode p \<noteq> mode then Inl linkExpired else Inr p)"

record link_description =
  ld_mode :: string
  ld_provider :: string
  ld_email :: "string option"
  ld_account :: string
  ld_passwordVerified :: bool
  ld_methods :: "string list"

definition describePendingLink :: "auth_env \<Rightarrow> int \<Rightarrow> string \<Rightarrow> string \<Rightarrow> pending_link redis \<Rightarrow> db \<Rightarrow> link_description res" where
  "describePendingLink e now t expected rs d =
     (case live_link e now t expected rs of Inl er \<Rightarrow> Inl er | Inr p \<Rightarrow>
      case loadLinkUser d p of Inl er \<Rightarrow> Inl er | Inr u \<Rightarrow>
        Inr \<lparr>ld_mode = pl_mode p, ld_provider = pl_providerName p, ld_email = sp_email (pl_profile p), ld_account = mask_email (usr_email u),
             ld_passwordVerified = pl_passwordVerified p, ld_methods = (if pl_mode p = ''password'' then availableMethods u else [])\<rparr>)"

definition cancelPendingLink :: "auth_env \<Rightarrow> call \<Rightarrow> string \<Rightarrow> pending_link redis \<Rightarrow> db \<Rightarrow> pending_link redis \<times> db" where
  "cancelPendingLink e c t rs d =
     (case readPending e (cl_now c) t rs of None \<Rightarrow> (rs, d)
      | Some p \<Rightarrow> (snd (consumePending e (cl_now c) t rs), linkFailed c p ''cancelled'' d))"

definition countAttempt :: "auth_env \<Rightarrow> int \<Rightarrow> string \<Rightarrow> pending_link redis \<Rightarrow> nat \<times> pending_link redis" where
  "countAttempt e now t rs = incr_window now (attemptsKey e t) PENDING_LINK_TTL_SEC rs"

definition upper :: "string \<Rightarrow> string" where "upper s = map upper_char s"

text \<open>The provider as the link remembers it.\<close>

definition remembered :: "pending_link \<Rightarrow> sso_config \<Rightarrow> sso_config" where
  "remembered p cfg = cfg\<lparr>sso_provider := pl_provider p, sso_name := pl_providerName p\<rparr>"

definition finalizePendingLink ::
    "auth_env \<Rightarrow> call \<Rightarrow> id \<Rightarrow> string \<Rightarrow> pending_link \<Rightarrow> user \<Rightarrow> string \<Rightarrow> pending_link redis \<Rightarrow> db \<Rightarrow> unit res \<times> pending_link redis \<times> db" where
  "finalizePendingLink e c newIdn t p u meth rs d =
     (case consumePending e (cl_now c) t rs of (won, rs1) \<Rightarrow>
      if \<not> won then (Inl linkExpired, rs1, d)
      else case provider_of d (pl_config p) (pl_org p) of
        None \<Rightarrow> (Inl (ApiError 409 ''This sign-in provider is no longer available'' (Some ''PROVIDER_UNAVAILABLE'')), rs1, d)
      | Some cfg \<Rightarrow>
          if \<not> sso_active cfg
          then (Inl (ApiError 409 ''This sign-in provider is no longer available'' (Some ''PROVIDER_UNAVAILABLE'')), rs1, d)
          else case linkIdentityToUser newIdn (cl_now c) (pl_org p) (remembered p cfg) (usr_id u) (pl_profile p) True d of
            (Inl (ApiError n m (Some k)), d1) \<Rightarrow> (Inl (ApiError 409 m (Some (upper k))), rs1, d1)
          | (Inl er, d1) \<Rightarrow> (Inl er, rs1, d1)
          | (Inr _, d1) \<Rightarrow> (Inr (), rs1, recordIdentityLinked c u meth (pl_providerName p) (pl_config p) d1))"

section \<open>Confirming with the password\<close>

datatype confirm_step = WithPassword string | WithFactor string string

datatype confirm_result = LinkMfaRequired "string list" string | Linked session_pair

definition burn :: "auth_env \<Rightarrow> call \<Rightarrow> string \<Rightarrow> pending_link \<Rightarrow> string \<Rightarrow> pending_link redis \<Rightarrow> db \<Rightarrow> err \<times> pending_link redis \<times> db" where
  "burn e c t p code rs d =
     (ApiError 429 (dashed ''Too many attempts'' ''sign in again'') (Some code), snd (consumePending e (cl_now c) t rs),
      linkFailed c p ''too_many_attempts'' d)"

definition link_password_wrong :: "auth_env \<Rightarrow> call \<Rightarrow> user \<Rightarrow> db \<Rightarrow> db" where
  "link_password_wrong e c u d =
     auditLog (usr_org u) None ''auth.login_failed'' ''User'' (Some (usr_id u)) (Some (JObj [(''context'', JStr ''sso_link_confirm'')])) (cl_agent c)
       (recordFailedLogin e c u d)"

text \<open>Either step ends with an error, with a demand for the second factor, or (\<open>None\<close>) proven.\<close>

definition confirm_password ::
    "auth_env \<Rightarrow> call \<Rightarrow> string \<Rightarrow> string \<Rightarrow> pending_link \<Rightarrow> user \<Rightarrow> pending_link redis \<Rightarrow> db \<Rightarrow>
     confirm_result option res \<times> pending_link redis \<times> db" where
  "confirm_password e c t pw p u rs d =
     (if account_locked (cl_now c) u
      then (Inl (ApiError 423 ''Account is locked due to too many failed sign-in attempts'' (Some ''ACCOUNT_LOCKED'')), rs, d)
      else case countAttempt e (cl_now c) t rs of (n, rs1) \<Rightarrow>
      if MAX_CONFIRM_ATTEMPTS < n
      then (case burn e c t p ''LINK_TOO_MANY_ATTEMPTS'' rs1 d of (er, rs2, d1) \<Rightarrow> (Inl er, rs2, d1))
      else if \<not> (truthy (usr_passwordHash u) \<and> ae_compare e pw (the (usr_passwordHash u)))
      then (Inl (ApiError 401 ''Incorrect password'' (Some ''INVALID_CREDENTIALS'')), rs1, link_password_wrong e c u d)
      else
        let d1 = resetFailedLogin u d; ms = availableMethods u in
        if ms \<noteq> []
        then (Inr (Some (LinkMfaRequired ms (mask_email (usr_email u)))), writePending e (cl_now c) t (p\<lparr>pl_passwordVerified := True\<rparr>) rs1, d1)
        else (Inr None, rs1, d1))"

definition confirm_factor ::
    "auth_env \<Rightarrow> call \<Rightarrow> string \<Rightarrow> string \<Rightarrow> string \<Rightarrow> pending_link \<Rightarrow> user \<Rightarrow> pending_link redis \<Rightarrow> db \<Rightarrow>
     confirm_result option res \<times> pending_link redis \<times> db" where
  "confirm_factor e c t m code p u rs d =
     (if \<not> pl_passwordVerified p then (Inl (ApiError 400 ''Enter your password first'' (Some ''PASSWORD_REQUIRED'')), rs, d)
      else case countAttempt e (cl_now c) t rs of (n, rs1) \<Rightarrow>
      if MAX_CONFIRM_ATTEMPTS < n
      then (case burn e c t p ''MFA_TOO_MANY_ATTEMPTS'' rs1 d of (er, rs2, d1) \<Rightarrow> (Inl er, rs2, d1))
      else case isUserThrottled (cl_now c) (usr_id u) rs1 of (throttled, rs2) \<Rightarrow>
      if throttled then (Inl (ApiError 429 (dashed ''Too many attempts'' ''try again later'') (Some ''MFA_TOO_MANY_ATTEMPTS'')), rs2, d)
      else case (if m \<in> set (availableMethods u) then verifyFactor (ae_mfa e) (cl_now c) u m code d else (False, d)) of (ok, d1) \<Rightarrow>
      if ok then (Inr None, rs2, d1)
      else (Inl (ApiError 401 ''Invalid verification code'' (Some ''MFA_INVALID'')), rs2,
            auditLog (usr_org u) (Some (usr_id u)) ''auth.mfa_failed'' ''User'' (Some (usr_id u))
              (Some (JObj [(''method'', JStr m), (''context'', JStr ''sso_link_confirm'')])) (cl_agent c) d1))"

definition confirmPendingLink ::
    "auth_env \<Rightarrow> call \<Rightarrow> id \<Rightarrow> string \<Rightarrow> confirm_step \<Rightarrow> pending_link redis \<Rightarrow> db \<Rightarrow> confirm_result res \<times> pending_link redis \<times> db" where
  "confirmPendingLink e c newIdn t step rs d =
     (case live_link e (cl_now c) t ''password'' rs of Inl er \<Rightarrow> (Inl er, rs, d) | Inr p \<Rightarrow>
      case loadLinkUser d p of Inl er \<Rightarrow> (Inl er, rs, d) | Inr u \<Rightarrow>
      case (case step of WithPassword pw \<Rightarrow> confirm_password e c t pw p u rs d | WithFactor m code \<Rightarrow> confirm_factor e c t m code p u rs d) of
        (Inl er, rs1, d1) \<Rightarrow> (Inl er, rs1, d1)
      | (Inr (Some r), rs1, d1) \<Rightarrow> (Inr r, rs1, d1)
      | (Inr None, rs1, d1) \<Rightarrow>
          (case finalizePendingLink e c newIdn t p u ''confirmed'' rs1 d1 of
             (Inl er, rs2, d2) \<Rightarrow> (Inl er, rs2, d2)
           | (Inr _, rs2, d2) \<Rightarrow>
               let d3 = auditLog (usr_org u) (Some (usr_id u)) ''auth.sso_login'' ''User'' (Some (usr_id u))
                          (Some (JObj [(''provider'', JStr (pl_provider p)), (''providerId'', JStr (pl_config p)), (''linked'', JBool True)])) (cl_agent c) d2
               in (case find_user_id d3 (usr_id u) of
                     None \<Rightarrow> (Inl TypeError, rs2, d3)
                   | Some v \<Rightarrow> (case issueSession e c v ''web'' d3 of (s, d4) \<Rightarrow> (Inr (Linked s), rs2, d4)))))"

definition sendConfirmLinkCode ::
    "auth_env \<Rightarrow> otp_send \<Rightarrow> string \<Rightarrow> pending_link redis \<Rightarrow> db \<Rightarrow> unit res \<times> pending_link redis \<times> db" where
  "sendConfirmLinkCode e s t rs d =
     (case live_link e (os_now s) t ''password'' rs of Inl er \<Rightarrow> (Inl er, rs, d) | Inr p \<Rightarrow>
      if \<not> pl_passwordVerified p then (Inl (ApiError 400 ''Enter your password first'' (Some ''PASSWORD_REQUIRED'')), rs, d)
      else case loadLinkUser d p of Inl er \<Rightarrow> (Inl er, rs, d) | Inr u \<Rightarrow>
      if \<not> usr_emailOtp u then (Inl (api_error 400 ''Email codes are not enabled for this account''), rs, d)
      else case sendEmailOtp (ae_mfa e) s u (Some (''sso-link:'' @ ae_sha e t)) rs d of
        ((Inl er, d1), rs1) \<Rightarrow> (Inl er, rs1, d1)
      | ((Inr sent, d1), rs1) \<Rightarrow>
          (if sent then Inr () else Inl (ApiError 429 (dashed ''Too many code requests'' ''please wait and try again'') (Some ''MFA_TOO_MANY_ATTEMPTS'')), rs1, d1))"

section \<open>Approving from the mail\<close>

definition approvePendingLink ::
    "auth_env \<Rightarrow> call \<Rightarrow> id \<Rightarrow> string \<Rightarrow> pending_link redis \<Rightarrow> db \<Rightarrow> string res \<times> pending_link redis \<times> db" where
  "approvePendingLink e c newIdn t rs d =
     (case live_link e (cl_now c) t ''email_approval'' rs of Inl er \<Rightarrow> (Inl er, rs, d) | Inr p \<Rightarrow>
      case loadLinkUser d p of Inl er \<Rightarrow> (Inl er, rs, d) | Inr u \<Rightarrow>
      case finalizePendingLink e c newIdn t p u ''email_approved'' rs d of
        (Inl er, rs1, d1) \<Rightarrow> (Inl er, rs1, d1) | (Inr _, rs1, d1) \<Rightarrow> (Inr (pl_providerName p), rs1, d1))"

section \<open>Connecting from the profile\<close>

definition assertCanStartConnect :: "sso_env \<Rightarrow> id \<Rightarrow> id \<Rightarrow> id \<Rightarrow> id \<Rightarrow> db \<Rightarrow> sso_config res \<times> db" where
  "assertCanStartConnect en newCfg oid uid pid d =
     (case (if pid = ''env-google'' then (case materializeEnvGoogle en newCfg oid d of (co, d1) \<Rightarrow> (map_option sso_id co, d1))
            else (if pid = [] then None else Some pid, d)) of
        (rid, d1) \<Rightarrow>
          (case (case rid of None \<Rightarrow> None | Some i \<Rightarrow> find (\<lambda>c. sso_id c = i \<and> sso_org c = oid \<and> sso_active c) (ssoConfigs d1)) of
             None \<Rightarrow> (Inl (api_error 404 ''Sign-in provider not found''), d1)
           | Some cfg \<Rightarrow>
               if \<exists>i \<in> set (identities d1). idn_user i = uid \<and> idn_org i = oid \<and> idn_config i = sso_id cfg
               then (Inl (ApiError 409 (''You already have a '' @ sso_name cfg @ '' account connected'') (Some ''ALREADY_CONNECTED'')), d1)
               else (Inr cfg, d1)))"

definition lower_email :: "sso_profile \<Rightarrow> sso_profile" where
  "lower_email p = p\<lparr>sp_email := (if truthy (sp_email p) then map_option lower (sp_email p) else None)\<rparr>"

definition completeConnect :: "call \<Rightarrow> id \<Rightarrow> id \<Rightarrow> id \<Rightarrow> sso_config \<Rightarrow> sso_profile \<Rightarrow> db \<Rightarrow> string res \<times> db" where
  "completeConnect c newIdn oid uid cfg p d =
     (if sp_subject p = [] then (Inl (ssoError ''sso_failed'' ''Provider response is missing a subject'' 403), d)
      else if domain_refused cfg (or_else (sp_email p) [])
      then (Inl (ssoError ''domain_not_allowed'' ''This email domain is not permitted for this organization'' 403), d)
      else case find_user d uid oid of None \<Rightarrow> (Inl account_disabled, d) | Some u \<Rightarrow>
      if usr_status u \<noteq> Active then (Inl account_disabled, d)
      else case linkIdentityToUser newIdn (cl_now c) oid cfg uid (lower_email p) False d of
        (Inl er, d1) \<Rightarrow> (Inl er, d1)
      | (Inr _, d1) \<Rightarrow> (Inr (provider_label cfg), recordIdentityLinked c u ''connect'' (provider_label cfg) (sso_id cfg) d1))"

section \<open>Unlinking\<close>

definition unlink_audit :: "call \<Rightarrow> id \<Rightarrow> id \<Rightarrow> id \<Rightarrow> string \<Rightarrow> identity_view \<Rightarrow> db \<Rightarrow> db" where
  "unlink_audit c oid actorId uid meth v d =
     auditLog oid (Some actorId) ''auth.identity.unlinked'' ''User'' (Some uid)
       (Some (JObj [(''method'', JStr meth), (''identityId'', JStr (iv_id v)), (''provider'', JStr (iv_name v)), (''providerId'', JStr (iv_provider v))]))
       (cl_agent c) d"

definition unlinkOwnIdentity :: "call \<Rightarrow> id \<Rightarrow> id \<Rightarrow> id \<Rightarrow> db \<Rightarrow> unit res \<times> db" where
  "unlinkOwnIdentity c oid uid iid d =
     (case deleteUserIdentity uid iid (Some oid) False d of
        (Inl er, d1) \<Rightarrow> (Inl er, d1) | (Inr v, d1) \<Rightarrow> (Inr (), unlink_audit c oid uid uid ''self'' v d1))"

definition loadManagedTarget :: "db \<Rightarrow> id \<Rightarrow> actor \<Rightarrow> id \<Rightarrow> string \<Rightarrow> user res" where
  "loadManagedTarget d oid a uid what =
     (case find (\<lambda>u. usr_id u = uid \<and> usr_org u = oid \<and> usr_deletedAt u = None) (users d) of
        None \<Rightarrow> Inl (api_error 404 ''User not found'')
      | Some u \<Rightarrow> (case assertCanManageUser d oid (Some a) u what of Inl er \<Rightarrow> Inl er | Inr _ \<Rightarrow> Inr u))"

record admin_identities =
  ai_hasPassword :: bool
  ai_passwordUsable :: bool
  ai_identities :: "identity_view list"

definition their_methods :: "string \<Rightarrow> string" where
  "their_methods verb = verb @ '' this user'' @ [CHR 0x27] @ ''s sign-in methods''"

definition listIdentitiesForAdmin :: "id \<Rightarrow> actor \<Rightarrow> id \<Rightarrow> db \<Rightarrow> admin_identities res" where
  "listIdentitiesForAdmin oid a uid d =
     (case loadManagedTarget d oid a uid (their_methods ''view'') of Inl er \<Rightarrow> Inl er | Inr u \<Rightarrow>
        Inr \<lparr>ai_hasPassword = truthy (usr_passwordHash u), ai_passwordUsable = passwordUsable d (Some u),
             ai_identities = listUserIdentities (usr_id u) (Some oid) d\<rparr>)"

definition adminUnlinkIdentity :: "call \<Rightarrow> id \<Rightarrow> actor \<Rightarrow> id \<Rightarrow> id \<Rightarrow> db \<Rightarrow> unit res \<times> db" where
  "adminUnlinkIdentity c oid a uid iid d =
     (case loadManagedTarget d oid a uid (their_methods ''change'') of Inl er \<Rightarrow> (Inl er, d) | Inr u \<Rightarrow>
      case deleteUserIdentity (usr_id u) iid (Some oid) (usr_id u \<noteq> act_user a) d of
        (Inl er, d1) \<Rightarrow> (Inl er, d1)
      | (Inr v, d1) \<Rightarrow> (Inr (), unlink_audit c oid (act_user a) (usr_id u) (if usr_id u = act_user a then ''self'' else ''admin'') v d1))"

section \<open>A first password\<close>

definition password_already_set :: err where
  "password_already_set = ApiError 409 ''You already have a password'' (Some ''PASSWORD_ALREADY_SET'')"

definition sendSetPasswordCode :: "auth_env \<Rightarrow> otp_send \<Rightarrow> id \<Rightarrow> id \<Rightarrow> 'v redis \<Rightarrow> db \<Rightarrow> string res \<times> 'v redis \<times> db" where
  "sendSetPasswordCode e s oid uid rs d =
     (case find_user d uid oid of None \<Rightarrow> (Inl (api_error 404 ''User not found''), rs, d) | Some u \<Rightarrow>
      if truthy (usr_passwordHash u) then (Inl password_already_set, rs, d)
      else case sendSelfServiceEmailOtp (ae_mfa e) s u rs d of
        ((Inl er, d1), rs1) \<Rightarrow> (Inl er, rs1, d1)
      | ((Inr sent, d1), rs1) \<Rightarrow>
          (if sent then Inr (mask_email (usr_email u))
           else Inl (ApiError 429 ''Please wait a moment before requesting another code'' (Some ''MFA_TOO_MANY_ATTEMPTS'')), rs1, d1))"

text \<open>The proof: an enrolled factor, otherwise a mailed code.\<close>

definition set_password_proof :: "auth_env \<Rightarrow> int \<Rightarrow> user \<Rightarrow> string \<Rightarrow> string \<Rightarrow> db \<Rightarrow> bool \<times> db" where
  "set_password_proof e now u m code d =
     (if hasFactor u then (if m \<in> set (availableMethods u) then verifyFactor (ae_mfa e) now u m code d else (False, d))
      else if m = ''email'' then verifyEmailOtp (ae_mfa e) now u code d
      else (False, d))"

definition setInitialPassword ::
    "auth_env \<Rightarrow> call \<Rightarrow> (string \<Rightarrow> string) \<Rightarrow> id \<Rightarrow> id \<Rightarrow> string \<Rightarrow> string \<Rightarrow> string \<Rightarrow> 'v redis \<Rightarrow> db \<Rightarrow> unit res \<times> 'v redis \<times> db" where
  "setInitialPassword e c hash oid uid new m code rs d =
     (case find_user d uid oid of None \<Rightarrow> (Inl (api_error 404 ''User not found''), rs, d) | Some u \<Rightarrow>
      if truthy (usr_passwordHash u) then (Inl password_already_set, rs, d)
      else if passwordSignInBlocked d (Some u)
      then (Inl (ApiError 403 (''Your organization signs in with single sign-on, so passwords can'' @ [CHR 0x27] @ ''t be added'') (Some ''SSO_REQUIRED'')), rs, d)
      else case isUserThrottled (cl_now c) uid rs of (throttled, rs1) \<Rightarrow>
      if throttled then (Inl (ApiError 429 (dashed ''Too many attempts'' ''try again later'') (Some ''MFA_TOO_MANY_ATTEMPTS'')), rs1, d)
      else case set_password_proof e (cl_now c) u m code d of (ok, d1) \<Rightarrow>
      if \<not> ok
      then (Inl (ApiError 401 ''Invalid verification code'' (Some ''MFA_INVALID'')), rs1,
            auditLog oid (Some (usr_id u)) ''auth.mfa_failed'' ''User'' (Some (usr_id u))
              (Some (JObj [(''method'', JStr m), (''context'', JStr ''password_set'')])) (cl_agent c) d1)
      else if \<not> (\<exists>v \<in> set (users d1). usr_id v = usr_id u \<and> usr_org v = oid \<and> usr_passwordHash v = None)
      then (Inl password_already_set, rs1, d1)
      else (Inr (), rs1,
            auditLog oid (Some (usr_id u)) ''auth.password.set'' ''User'' (Some (usr_id u))
              (Some (JObj [(''proof'', JStr (if hasFactor u then m else ''email_code''))])) (cl_agent c)
              (update_user_row (usr_id u)
                 (\<lambda>v. if usr_org v = oid \<and> usr_passwordHash v = None
                      then v\<lparr>usr_passwordHash := Some (hash new), usr_passwordChangedAt := Some (cl_now c)\<rparr> else v) d1)))"

end
