(* ===== verification/SsoClaims.thy ===== *)
theory SsoClaims
  imports SsoLinks Sample
begin

text \<open>
  Which accounts a sign-in at a provider reaches without the holder's word, and what the word of
  the holder has to be.
\<close>

section \<open>Signing in\<close>

definition foreign_subject :: "db \<Rightarrow> sso_config \<Rightarrow> sso_profile \<Rightarrow> id \<Rightarrow> bool" where
  "foreign_subject d cfg p uid \<longleftrightarrow>
     (\<forall>i \<in> set (identities d). idn_config i = sso_id cfg \<and> idn_subject i = sp_subject p \<longrightarrow> idn_user i \<noteq> uid)"

definition identities_of :: "db \<Rightarrow> id \<Rightarrow> user_identity list" where
  "identities_of d uid = filter (\<lambda>i. idn_user i = uid) (identities d)"

lemma filter_other_rows:
  assumes "\<And>r. r \<in> set rs \<Longrightarrow> P r \<Longrightarrow> \<not> Q r \<and> \<not> Q (f r)"
  shows "filter Q (update_where P f rs) = filter Q rs"
  using assms by (induction rs) (auto simp: update_where_def)

lemma upsert_others:
  assumes "foreign_subject d cfg p uid" "vid \<noteq> uid"
  shows "identities_of (upsert_identity ni now oid cfg p email vid d) uid = identities_of d uid"
  using assms
  by (auto simp: upsert_identity_def identities_of_def foreign_subject_def new_identity_def Let_def intro!: filter_other_rows)

lemma upsert_users [simp]: "users (upsert_identity ni now oid cfg p email vid d) = users d"
  by (simp add: upsert_identity_def Let_def)

lemma identities_update_user [simp]: "identities (update_user_row i f d) = identities d"
  by (simp add: update_user_row_def)

lemma provision_frames:
  assumes "provision nu oid cfg p email d = (r, d')"
  shows "identities d' = identities d" "set (users d) \<subseteq> set (users d')" "r = Inr v \<Longrightarrow> usr_id v = nu"
  using assms by (auto simp: provision_def provisioned_def blank_user_def Let_def split: if_splits option.splits)

lemma sign_in_others:
  assumes "sso_sign_in nu ni now oid cfg p email ou d = (r, d')" and "foreign_subject d cfg p (usr_id u)"
    and "u \<in> set (users d)" and other: "case ou of None \<Rightarrow> nu \<noteq> usr_id u | Some v \<Rightarrow> usr_id v \<noteq> usr_id u"
  shows "(\<forall>v. r = Inr v \<longrightarrow> usr_id v \<noteq> usr_id u) \<and> u \<in> set (users d') \<and> identities_of d' (usr_id u) = identities_of d (usr_id u)"
proof -
  have up: "identities_of (upsert_identity ni now oid cfg p email vid x) (usr_id u) = identities_of d (usr_id u)"
    if "identities x = identities d" "vid \<noteq> usr_id u" for x vid
    using upsert_others [of x cfg p "usr_id u" vid] assms(2) that by (simp add: foreign_subject_def identities_of_def)
  show ?thesis
  proof (cases ou)
    case None
    obtain q x where pr: "provision nu oid cfg p email d = (q, x)" by fastforce
    note fr = provision_frames [OF pr]
    from assms(1) pr None have "(\<exists>er. q = Inl er \<and> r = Inl er \<and> d' = x) \<or>
        (\<exists>v. q = Inr v \<and> r = Inr v \<and> d' = upsert_identity ni now oid cfg p email (usr_id v) x)"
      by (auto simp: sso_sign_in_def split: sum.splits)
    with fr up other assms(3) None show ?thesis by (auto simp: identities_of_def)
  next
    case (Some v)
    with assms(1) have "(isDisabledStatus (usr_status v) \<and> (\<exists>er. r = Inl er) \<and> d' = d) \<or>
        (r = Inr (refreshed now cfg p v) \<and>
         d' = upsert_identity ni now oid cfg p email (usr_id v) (update_user_row (usr_id v) (refreshed now cfg p) d))"
      by (auto simp: sso_sign_in_def refreshed_def split: if_splits)
    with Some other assms(3) up show ?thesis
      by (auto simp: refreshed_def update_user_row_def set_update_where intro: image_eqI)
  qed
qed

lemma matched_by_email:
  assumes "match_by_email d oid cfg p email = Inr m"
  shows "case m of NoAccount \<Rightarrow> True | ByIdentity v \<Rightarrow> False | ByEmail v \<Rightarrow> v \<in> set (users d) \<and> linkConfirmationFor d v = None
    | ToConfirm pl \<Rightarrow> email \<noteq> [] \<and> (\<exists>v \<in> set (users d). usr_id v = pl_user pl \<and> usr_org v = oid \<and> usr_email v = email \<and>
        linkConfirmationFor d v = Some (pl_mode pl) \<and> \<not> isDisabledStatus (usr_status v) \<and> (sso_verifiedEmail cfg \<longrightarrow> sp_verified p))"
proof (cases "email = []")
  case False
  show ?thesis
  proof (cases "find (\<lambda>u. usr_org u = oid \<and> usr_email u = email \<and> usr_kind u = Human) (users d)")
    case (Some u)
    then have u: "u \<in> set (users d)" "usr_org u = oid" "usr_email u = email" by (auto simp: find_Some_iff)
    show ?thesis
    proof (cases "linkConfirmationFor d u")
      case None
      with assms False Some u show ?thesis by (auto simp: match_by_email_def split: if_splits)
    next
      case (Some mode)
      with assms False \<open>find _ _ = Some u\<close>
      have "m = ToConfirm (pending_for u oid cfg (p\<lparr>sp_email := Some email\<rparr>) mode)" "\<not> isDisabledStatus (usr_status u)"
        "sso_verifiedEmail cfg \<longrightarrow> sp_verified p"
        by (auto simp: match_by_email_def split: if_splits)
      with u Some False show ?thesis by (auto simp: pending_for_def)
    qed
  qed (use assms False in \<open>auto simp: match_by_email_def\<close>)
qed (use assms in \<open>auto simp: match_by_email_def\<close>)

lemma matched_account:
  assumes "match_account d oid cfg p email = Inr m" "distinct (map usr_id (users d))" "u \<in> set (users d)"
    "linkConfirmationFor d u \<noteq> None" "foreign_subject d cfg p (usr_id u)"
  shows "case m of NoAccount \<Rightarrow> True | ByIdentity v \<Rightarrow> usr_id v \<noteq> usr_id u | ByEmail v \<Rightarrow> usr_id v \<noteq> usr_id u
    | ToConfirm pl \<Rightarrow> email \<noteq> [] \<and> (\<exists>v \<in> set (users d). usr_id v = pl_user pl \<and> usr_org v = oid \<and> usr_email v = email \<and>
        linkConfirmationFor d v = Some (pl_mode pl) \<and> \<not> isDisabledStatus (usr_status v) \<and> (sso_verifiedEmail cfg \<longrightarrow> sp_verified p))"
proof (cases "Option.bind (identity_at d (sso_id cfg) (sp_subject p)) (\<lambda>i. find_user_id d (idn_user i))")
  case None
  with assms(1) have "match_by_email d oid cfg p email = Inr m" by (simp add: match_account_def)
  note by_email = matched_by_email [OF this]
  have "v = u" if "v \<in> set (users d)" "usr_id v = usr_id u" for v
    using that assms(2,3) by (auto simp: distinct_map dest: inj_onD)
  then have "usr_id v \<noteq> usr_id u" if "v \<in> set (users d)" "linkConfirmationFor d v = None" for v using that assms(4) by metis
  with by_email show ?thesis by (cases m) auto
next
  case (Some v)
  then obtain i where "identity_at d (sso_id cfg) (sp_subject p) = Some i" "find_user_id d (idn_user i) = Some v"
    by (auto simp: bind_eq_Some_conv)
  then have "usr_id v \<noteq> usr_id u"
    using assms(5) by (auto simp: identity_at_def find_user_id_def find_Some_iff foreign_subject_def)
  with assms(1) Some show ?thesis by (auto simp: match_account_def)
qed

lemma sso_reaches_others:
  assumes run: "reconcileSsoUser nu ni now oid cfg p d = (r, d')"
    and ids: "distinct (map usr_id (users d))" "nu \<notin> usr_id ` set (users d)"
    and u: "u \<in> set (users d)" "linkConfirmationFor d u \<noteq> None" "foreign_subject d cfg p (usr_id u)"
  shows "(\<forall>v b. r = Inr (SignIn v b) \<longrightarrow> usr_id v \<noteq> usr_id u) \<and> u \<in> set (users d') \<and> identities_of d' (usr_id u) = identities_of d (usr_id u) \<and>
    (\<forall>pl. r = Inr (ConfirmFirst pl) \<longrightarrow> d' = d \<and>
       (\<exists>v \<in> set (users d). usr_id v = pl_user pl \<and> usr_org v = oid \<and> usr_email v = js_trim (lower (or_else (sp_email p) [])) \<and>
          linkConfirmationFor d v = Some (pl_mode pl) \<and> \<not> isDisabledStatus (usr_status v) \<and> (sso_verifiedEmail cfg \<longrightarrow> sp_verified p)))"
proof -
  let ?email = "js_trim (lower (or_else (sp_email p) []))"
  have refused: ?thesis if "r = Inl er" "d' = d" for er using that u(1) by simp
  show ?thesis
  proof (cases "sp_subject p = [] \<or> domain_refused cfg ?email")
    case True
    with run refused show ?thesis by (auto simp: reconcileSsoUser_def Let_def split: if_splits)
  next
    case False
    show ?thesis
    proof (cases "match_account d oid cfg p ?email")
      case (Inl er)
      with False run refused show ?thesis by (auto simp: reconcileSsoUser_def Let_def)
    next
      case (Inr m)
      note who = matched_account [OF Inr ids(1) u]
      have ends: ?thesis if s: "sso_sign_in nu ni now oid cfg p ?email ou d = (q, x)" and o: "case ou of None \<Rightarrow> nu \<noteq> usr_id u | Some v \<Rightarrow> usr_id v \<noteq> usr_id u"
        and res: "(r, d') = (case q of Inl er \<Rightarrow> Inl er | Inr v \<Rightarrow> Inr (SignIn v b), x)" for ou q x b
        using sign_in_others [OF s u(3,1) o] res by (auto split: sum.splits)
      have new: "nu \<noteq> usr_id u" using ids(2) u(1) by auto
      show ?thesis
      proof (cases m)
        case NoAccount
        obtain q x where s: "sso_sign_in nu ni now oid cfg p ?email None d = (q, x)" by fastforce
        show ?thesis by (rule ends [OF s, of False]) (use new run False Inr NoAccount s in \<open>auto simp: reconcileSsoUser_def Let_def split: sum.splits\<close>)
      next
        case (ByIdentity v)
        obtain q x where s: "sso_sign_in nu ni now oid cfg p ?email (Some v) d = (q, x)" by fastforce
        show ?thesis by (rule ends [OF s, of False]) (use who run False Inr ByIdentity s in \<open>auto simp: reconcileSsoUser_def Let_def split: sum.splits\<close>)
      next
        case (ByEmail v)
        obtain q x where s: "sso_sign_in nu ni now oid cfg p ?email (Some v) d = (q, x)" by fastforce
        show ?thesis by (rule ends [OF s, of True]) (use who run False Inr ByEmail s in \<open>auto simp: reconcileSsoUser_def Let_def split: sum.splits\<close>)
      next
        case (ToConfirm pl)
        with run False Inr have "r = Inr (ConfirmFirst pl)" "d' = d" by (auto simp: reconcileSsoUser_def Let_def)
        with who ToConfirm u(1) show ?thesis by auto
      qed
    qed
  qed
qed

text \<open>The subject is linked to nobody yet, and its address is this account's.\<close>

definition address_names :: "db \<Rightarrow> id \<Rightarrow> sso_config \<Rightarrow> sso_profile \<Rightarrow> user \<Rightarrow> bool" where
  "address_names d oid cfg p u \<longleftrightarrow>
     (let email = js_trim (lower (or_else (sp_email p) [])) in
      identity_at d (sso_id cfg) (sp_subject p) = None \<and> email \<noteq> [] \<and> usr_org u = oid \<and> usr_email u = email \<and> usr_kind u = Human
      \<and> (\<forall>v \<in> set (users d). usr_org v = oid \<and> usr_email v = email \<longrightarrow> v = u))"

definition sso_refuses :: "db \<Rightarrow> sso_config \<Rightarrow> sso_profile \<Rightarrow> user \<Rightarrow> bool" where
  "sso_refuses d cfg p u \<longleftrightarrow>
     sp_subject p = [] \<or> domain_refused cfg (js_trim (lower (or_else (sp_email p) []))) \<or> isDisabledStatus (usr_status u)
     \<or> (sso_verifiedEmail cfg \<and> \<not> sp_verified p)
     \<or> (\<exists>i \<in> set (identities d). idn_user i = usr_id u \<and> idn_config i = sso_id cfg \<and> idn_subject i \<noteq> sp_subject p)"

lemma address_matches:
  assumes "address_names d oid cfg p u" and "u \<in> set (users d)" and "linkConfirmationFor d u = Some mode"
  shows "\<exists>q. reconcileSsoUser nu ni now oid cfg p d = (q, d) \<and>
     (if sso_refuses d cfg p u then \<exists>er. q = Inl er
      else \<exists>pl. q = Inr (ConfirmFirst pl) \<and> pl_user pl = usr_id u \<and> pl_mode pl = mode \<and> \<not> pl_passwordVerified pl)"
proof -
  let ?email = "js_trim (lower (or_else (sp_email p) []))"
  have n: "identity_at d (sso_id cfg) (sp_subject p) = None" "?email \<noteq> []"
    and u: "usr_org u = oid" "usr_email u = ?email" "usr_kind u = Human"
    and only: "\<And>v. v \<in> set (users d) \<Longrightarrow> usr_org v = oid \<Longrightarrow> usr_email v = ?email \<Longrightarrow> v = u"
    using assms(1) by (auto simp: address_names_def Let_def)
  obtain v where v: "find (\<lambda>u. usr_org u = oid \<and> usr_email u = ?email \<and> usr_kind u = Human) (users d) = Some v"
    using assms(2) u by (cases "find (\<lambda>u. usr_org u = oid \<and> usr_email u = ?email \<and> usr_kind u = Human) (users d)") (auto simp: find_None_iff)
  then have f: "find (\<lambda>u. usr_org u = oid \<and> usr_email u = ?email \<and> usr_kind u = Human) (users d) = Some u"
    using only find_SomeD [OF v] by simp
  have m: "match_account d oid cfg p ?email = match_by_email d oid cfg p ?email" by (simp add: match_account_def n)
  show ?thesis
    by (auto simp: reconcileSsoUser_def Let_def m match_by_email_def n f sso_refuses_def assms(3) pending_for_def)
qed

text \<open>C6: A sign-in at a provider never reaches, links or edits an account that has a password or privileged
  permissions and that the presented subject is not already linked to: the session, if there is one, is
  another account's, and the account's identities and row stay as they are. When the subject is linked to
  nobody and its address names such an account, nothing is written at all: the sign-in is refused - no
  subject, a domain not allowed, a disabled account, an address not verified where it has to be, or an account
  linked to another subject of the provider - or what comes back is a link for that account, to be
  confirmed in the way the account demands. Any other link that comes back is of this kind too.\<close>

theorem sso_never_links_silently:
  assumes run: "reconcileSsoUser nu ni now oid cfg p d = (r, d')"
    and ids: "distinct (map usr_id (users d))" "nu \<notin> usr_id ` set (users d)"
    and u: "u \<in> set (users d)" "linkConfirmationFor d u \<noteq> None" "foreign_subject d cfg p (usr_id u)"
  shows "(\<forall>v b. r = Inr (SignIn v b) \<longrightarrow> usr_id v \<noteq> usr_id u) \<and> u \<in> set (users d') \<and> identities_of d' (usr_id u) = identities_of d (usr_id u) \<and>
    (address_names d oid cfg p u \<longrightarrow> d' = d \<and>
       (if sso_refuses d cfg p u then \<exists>er. r = Inl er
        else \<exists>pl. r = Inr (ConfirmFirst pl) \<and> pl_user pl = usr_id u \<and> linkConfirmationFor d u = Some (pl_mode pl) \<and> \<not> pl_passwordVerified pl)) \<and>
    (\<forall>pl. r = Inr (ConfirmFirst pl) \<longrightarrow> d' = d \<and>
       (\<exists>v \<in> set (users d). usr_id v = pl_user pl \<and> usr_org v = oid \<and> usr_email v = js_trim (lower (or_else (sp_email p) [])) \<and>
          linkConfirmationFor d v = Some (pl_mode pl) \<and> \<not> isDisabledStatus (usr_status v) \<and> (sso_verifiedEmail cfg \<longrightarrow> sp_verified p)))"
proof -
  obtain mode where "linkConfirmationFor d u = Some mode" using u(2) by blast
  then have "address_names d oid cfg p u \<longrightarrow> d' = d \<and>
       (if sso_refuses d cfg p u then \<exists>er. r = Inl er
        else \<exists>pl. r = Inr (ConfirmFirst pl) \<and> pl_user pl = usr_id u \<and> linkConfirmationFor d u = Some (pl_mode pl) \<and> \<not> pl_passwordVerified pl)"
    using address_matches [of d oid cfg p u mode nu ni now] u(1) run by auto
  then show ?thesis using sso_reaches_others [OF run ids u] by blast
qed

definition sso_user :: user where "sso_user = u_mem\<lparr>usr_passwordHash := Some ''hash''\<rparr>"

definition sample_provider :: sso_config where
  "sample_provider = \<lparr>sso_id = ''p1'', sso_org = ''o'', sso_provider = ''oidc'', sso_preset = None, sso_name = ''Okta'', sso_order = 0,
     sso_defaultRole = ''member'', sso_defaultGroup = None, sso_autoProvision = True, sso_domains = [], sso_verifiedEmail = True, sso_active = True\<rparr>"

definition sample_asserted :: sso_profile where
  "sample_asserted = \<lparr>sp_subject = ''s1'', sp_externalId = None, sp_email = Some ''mem@x'', sp_verified = True, sp_name = None, sp_picture = None\<rparr>"

definition sso_db :: db where
  "sso_db = sample_db\<lparr>users := [u_root, sso_user], ssoConfigs := [sample_provider]\<rparr>"

lemma sso_never_links_silently_witness:
  "\<exists>pl. reconcileSsoUser ''n'' ''i'' 5 ''o'' sample_provider sample_asserted sso_db = (Inr (ConfirmFirst pl), sso_db) \<and>
     pl_user pl = ''mem'' \<and> pl_mode pl = ''password'' \<and> identities_of sso_db ''mem'' = []"
proof -
  have email: "js_trim (lower (or_else (sp_email sample_asserted) [])) = ''mem@x''" by code_simp
  have match: "match_account sso_db ''o'' sample_provider sample_asserted ''mem@x'' =
      Inr (ToConfirm (pending_for sso_user ''o'' sample_provider sample_asserted ''password''))"
    by code_simp
  have "sp_subject sample_asserted \<noteq> []" "\<not> domain_refused sample_provider ''mem@x''"
    by (simp_all add: sample_asserted_def domain_refused_def sample_provider_def)
  with email match
  have run: "reconcileSsoUser ''n'' ''i'' 5 ''o'' sample_provider sample_asserted sso_db =
      (Inr (ConfirmFirst (pending_for sso_user ''o'' sample_provider sample_asserted ''password'')), sso_db)"
    by (simp add: reconcileSsoUser_def Let_def)
  have "usr_id sso_user = ''mem''" by code_simp
  moreover have "distinct (map usr_id (users sso_db))" "''n'' \<notin> usr_id ` set (users sso_db)" "sso_user \<in> set (users sso_db)"
    "linkConfirmationFor sso_db sso_user \<noteq> None" "foreign_subject sso_db sample_provider sample_asserted (usr_id sso_user)"
    by (simp_all add: sso_db_def sso_user_def u_root_def u_mem_def mk_user_def linkConfirmationFor_def foreign_subject_def sample_db_def empty_db_def)
  ultimately have "identities_of sso_db ''mem'' = identities_of sso_db ''mem'' \<and>
      (\<exists>v \<in> set (users sso_db). usr_id v = ''mem'' \<and> linkConfirmationFor sso_db v = Some ''password'')"
    using sso_never_links_silently [OF run, of sso_user] by (auto simp: pending_for_def)
  moreover have "identities_of sso_db ''mem'' = []" by (simp add: identities_of_def sso_db_def sample_db_def empty_db_def)
  ultimately show ?thesis using run by (auto simp: pending_for_def sso_user_def u_mem_def mk_user_def)
qed

section \<open>The holder's word\<close>

definition proven :: "auth_env \<Rightarrow> call \<Rightarrow> confirm_step \<Rightarrow> pending_link \<Rightarrow> user \<Rightarrow> db \<Rightarrow> bool" where
  "proven e c step p u d =
     (case step of
        WithPassword pw \<Rightarrow> \<not> account_locked (cl_now c) u \<and> truthy (usr_passwordHash u) \<and> ae_compare e pw (the (usr_passwordHash u)) \<and>
          availableMethods u = []
      | WithFactor m code \<Rightarrow> pl_passwordVerified p \<and> m \<in> set (availableMethods u) \<and> fst (verifyFactor (ae_mfa e) (cl_now c) u m code d))"

lemma confirm_password_none:
  assumes "confirm_password e c t pw p u rs d = (Inr None, rs', d')"
  shows "proven e c (WithPassword pw) p u d \<and> fst (countAttempt e (cl_now c) t rs) \<le> MAX_CONFIRM_ATTEMPTS"
  using assms by (auto simp: confirm_password_def proven_def burn_def Let_def split: if_splits prod.splits)

lemma confirm_factor_none:
  assumes "confirm_factor e c t m code p u rs d = (Inr None, rs', d')"
  shows "proven e c (WithFactor m code) p u d \<and> fst (countAttempt e (cl_now c) t rs) \<le> MAX_CONFIRM_ATTEMPTS"
  using assms by (auto simp: confirm_factor_def proven_def burn_def split: if_splits prod.splits)

definition one_identity :: "pending_link \<Rightarrow> db \<Rightarrow> bool" where
  "one_identity p d \<longleftrightarrow> (\<exists>i \<in> set (identities d). idn_user i = pl_user p \<and> idn_org i = pl_org p \<and> idn_config i = pl_config p \<and>
     idn_subject i = sp_subject (pl_profile p))"

lemma identities_audit [simp]: "identities (auditLog oid a ac rt ri m ua d) = identities d"
  by (simp add: auditLog_def add_audit_def)

lemma identities_issue: "identities (snd (issueSession e c u client d)) = identities d"
  by (simp add: issueSession_def Let_def)

lemma linked_identity:
  assumes "linkIdentityToUser newId now oid cfg uid p a d = (Inr i, d')"
  shows "i \<in> set (identities d') \<and> idn_user i = uid \<and> idn_org i = oid \<and> idn_config i = sso_id cfg \<and> idn_subject i = sp_subject p"
  using assms by (auto simp: linkIdentityToUser_def new_identity_def Let_def split: option.splits if_splits)

lemma provider_found: "provider_of d i oid = Some c \<Longrightarrow> sso_id c = i \<and> sso_org c = oid"
  by (auto simp: provider_of_def find_Some_iff)

lemma finalized:
  assumes "finalizePendingLink e c newId t p u meth rs d = (Inr x, rs', d')" "usr_id u = pl_user p"
  shows "one_identity p d' \<and> (\<exists>cfg \<in> set (ssoConfigs d). sso_id cfg = pl_config p \<and> sso_active cfg) \<and>
    (\<forall>later. redis_get later (linkKey e t) rs' = None)"
proof -
  from assms(1) obtain cfg i d1 where w: "provider_of d (pl_config p) (pl_org p) = Some cfg" "sso_active cfg"
    and l: "linkIdentityToUser newId (cl_now c) (pl_org p) (remembered p cfg) (usr_id u) (pl_profile p) True d = (Inr i, d1)"
    and d': "d' = recordIdentityLinked c u meth (pl_providerName p) (pl_config p) d1" "rs' = snd (consumePending e (cl_now c) t rs)"
    by (auto simp: finalizePendingLink_def split: prod.splits if_splits option.splits sum.splits err.splits)
  from linked_identity [OF l] provider_found [OF w(1)] assms(2) have "one_identity p d'"
    by (auto simp: one_identity_def d' recordIdentityLinked_def remembered_def)
  moreover have "cfg \<in> set (ssoConfigs d)" using w(1) by (auto simp: provider_of_def find_Some_iff)
  ultimately show ?thesis using w(2) provider_found [OF w(1)] by (auto simp: d' consumePending_def)
qed

lemma confirm_providers:
  "ssoConfigs (snd (snd (confirm_password e c t pw p u rs d))) = ssoConfigs d"
  "ssoConfigs (snd (snd (confirm_factor e c t m code p u rs d))) = ssoConfigs d"
proof -
  have audit: "ssoConfigs (auditLog oid a ac rt ri me ua x) = ssoConfigs x" for oid a ac rt ri me ua x
    by (simp add: auditLog_def add_audit_def)
  have factor: "ssoConfigs (snd (verifyFactor (ae_mfa e) (cl_now c) u m code x)) = ssoConfigs x" for x
    by (auto simp: verifyFactor_def verifyEmailOtp_def verifyBackupCode_def update_user_row_def Let_def split: option.split)
  show "ssoConfigs (snd (snd (confirm_password e c t pw p u rs d))) = ssoConfigs d"
    by (auto simp: confirm_password_def burn_def linkFailed_def pending_audit_def link_password_wrong_def recordFailedLogin_def resetFailedLogin_def
        update_user_row_def audit Let_def split: prod.splits)
  show "ssoConfigs (snd (snd (confirm_factor e c t m code p u rs d))) = ssoConfigs d"
    using factor [of d]
    by (auto simp: confirm_factor_def burn_def linkFailed_def pending_audit_def audit Let_def split: prod.splits)
qed

lemma refresh_tokens_audit [simp]: "refreshTokens (auditLog oid a ac rt ri m ua d) = refreshTokens d"
  by (simp add: auditLog_def add_audit_def)

lemma confirm_tokens:
  "refreshTokens (snd (snd (confirm_password e c t pw p u rs d))) = refreshTokens d"
  "refreshTokens (snd (snd (confirm_factor e c t m code p u rs d))) = refreshTokens d"
proof -
  have factor: "refreshTokens (snd (verifyFactor (ae_mfa e) (cl_now c) u m code x)) = refreshTokens x" for x
    by (auto simp: verifyFactor_def verifyEmailOtp_def verifyBackupCode_def update_user_row_def Let_def split: option.split)
  show "refreshTokens (snd (snd (confirm_password e c t pw p u rs d))) = refreshTokens d"
    by (auto simp: confirm_password_def burn_def linkFailed_def pending_audit_def link_password_wrong_def recordFailedLogin_def resetFailedLogin_def
        update_user_row_def Let_def split: prod.splits)
  show "refreshTokens (snd (snd (confirm_factor e c t m code p u rs d))) = refreshTokens d"
    using factor [of d]
    by (auto simp: confirm_factor_def burn_def linkFailed_def pending_audit_def Let_def split: prod.splits)
qed

lemma finalize_tokens: "refreshTokens (snd (snd (finalizePendingLink e c newId t p u meth rs d))) = refreshTokens d"
proof -
  have "refreshTokens (snd (linkIdentityToUser newId now oid cfg uid q a x)) = refreshTokens x" for now oid cfg uid q a x
    by (simp add: linkIdentityToUser_def update_user_row_def Let_def split: option.split)
  then have l: "linkIdentityToUser newId now oid cfg uid q a x = (y, d1) \<Longrightarrow> refreshTokens d1 = refreshTokens x" for now oid cfg uid q a x y d1
    by (metis snd_conv)
  show ?thesis
    by (auto simp: finalizePendingLink_def recordIdentityLinked_def dest: l split: prod.splits option.splits sum.splits err.splits)
qed

text \<open>C11: A pending link ends in a session only for its own, enabled account, on its fifth try at
  the latest, with the account's current password and - when the account has second factors - with the password given
  before and a factor that is right now. The one session issued is of that account: both its tokens are made
  for it, and its row is the only one added. Then the identity is on that account, at a provider
  that is still active, and the link is gone for good.\<close>

theorem pending_link_needs_proof:
  assumes "confirmPendingLink e c newId t step rs d = (Inr (Linked s), rs', d')"
  shows "\<exists>p u. readPending e (cl_now c) t rs = Some p \<and> pl_mode p = ''password'' \<and> u \<in> set (users d) \<and> usr_id u = pl_user p \<and>
    usr_org u = pl_org p \<and> \<not> isDisabledStatus (usr_status u) \<and> proven e c step p u d \<and>
    fst (countAttempt e (cl_now c) t rs) \<le> MAX_CONFIRM_ATTEMPTS \<and> one_identity p d' \<and>
    (\<exists>v. usr_id v = pl_user p \<and> sp_access s = generateAccessToken e (cl_now c) v (cl_fid c) \<and>
       sp_refresh s = generateRefreshToken e (pl_user p) (cl_tokenId c) (cl_fid c) \<and>
       refreshTokens d' = refreshTokens d @ [session_token e c v ''web'']) \<and>
    (\<exists>cfg \<in> set (ssoConfigs d). sso_id cfg = pl_config p \<and> sso_active cfg) \<and> (\<forall>later. readPending e later t rs' = None)"
proof -
  let ?tried = "\<lambda>p u. case step of WithPassword pw \<Rightarrow> confirm_password e c t pw p u rs d | WithFactor m code \<Rightarrow> confirm_factor e c t m code p u rs d"
  have no: "r \<noteq> Inr (Some (Linked s'))" if "?tried p u = (r, x)" for p u r x s'
    using that by (auto simp: confirm_password_def confirm_factor_def burn_def Let_def split: confirm_step.splits if_splits prod.splits)
  obtain p where live: "live_link e (cl_now c) t ''password'' rs = Inr p"
    using assms by (auto simp: confirmPendingLink_def split: sum.splits)
  obtain u where u: "loadLinkUser d p = Inr u" using assms live by (auto simp: confirmPendingLink_def split: sum.splits)
  obtain r rs1 d1 where tried: "?tried p u = (r, rs1, d1)" by (metis prod_cases3)
  have "r = Inr None"
  proof (cases r)
    case (Inl er)
    with assms live u tried show ?thesis by (simp add: confirmPendingLink_def)
  next
    case (Inr o')
    with assms live u tried no [OF tried] show ?thesis by (cases o') (auto simp: confirmPendingLink_def)
  qed
  obtain f rs2 d2 where f: "finalizePendingLink e c newId t p u ''confirmed'' rs1 d1 = (f, rs2, d2)" by (metis prod_cases3)
  let ?d3 = "auditLog (usr_org u) (Some (usr_id u)) ''auth.sso_login'' ''User'' (Some (usr_id u))
    (Some (JObj [(''provider'', JStr (pl_provider p)), (''providerId'', JStr (pl_config p)), (''linked'', JBool True)])) (cl_agent c) d2"
  note here = assms live u tried \<open>r = Inr None\<close> f
  obtain x where fin: "finalizePendingLink e c newId t p u ''confirmed'' rs1 d1 = (Inr x, rs2, d2)"
    using here by (cases f) (simp_all add: confirmPendingLink_def)
  obtain v where v: "find_user_id ?d3 (usr_id u) = Some v"
    using assms live u tried \<open>r = Inr None\<close> fin by (cases "find_user_id ?d3 (usr_id u)") (simp_all add: confirmPendingLink_def Let_def)
  have rs': "rs' = rs2" and new: "(s, d') = issueSession e c v ''web'' ?d3"
    using assms live u tried \<open>r = Inr None\<close> fin v by (auto simp: confirmPendingLink_def Let_def split: prod.splits)
  have d': "identities d' = identities d2" using identities_issue [of e c v "''web''" ?d3] new by (metis snd_conv identities_audit)
  have "refreshTokens d1 = refreshTokens d"
    using tried confirm_tokens(1) [of e c t _ p u rs d] confirm_tokens(2) [of e c t _ _ p u rs d]
    by (cases step) (metis confirm_step.case snd_conv)+
  moreover have "refreshTokens d2 = refreshTokens d1" using finalize_tokens [of e c newId t p u "''confirmed''" rs1 d1] fin by simp
  ultimately have toks: "sp_access s = generateAccessToken e (cl_now c) v (cl_fid c)"
    "sp_refresh s = generateRefreshToken e (usr_id v) (cl_tokenId c) (cl_fid c)"
    "refreshTokens d' = refreshTokens d @ [session_token e c v ''web'']"
    using new by (simp_all add: issueSession_def Let_def update_user_row_def)
  have who: "usr_id v = usr_id u" using v by (auto simp: find_user_id_def find_Some_iff)
  have user: "u \<in> set (users d)" "usr_id u = pl_user p" "usr_org u = pl_org p" "\<not> isDisabledStatus (usr_status u)"
    using u by (auto simp: loadLinkUser_def find_user_def find_Some_iff split: option.splits if_splits)
  note done' = finalized [OF fin user(2)]
  have "ssoConfigs d1 = ssoConfigs d"
    using tried confirm_providers(1) [of e c t _ p u rs d] confirm_providers(2) [of e c t _ _ p u rs d]
    by (cases step) (metis confirm_step.case snd_conv)+
  moreover have "proven e c step p u d \<and> fst (countAttempt e (cl_now c) t rs) \<le> MAX_CONFIRM_ATTEMPTS"
    using tried \<open>r = Inr None\<close> confirm_password_none [of e c t _ p u rs d] confirm_factor_none [of e c t _ _ p u rs d]
    by (cases step) auto
  moreover have "readPending e (cl_now c) t rs = Some p" "pl_mode p = ''password''"
    using live by (auto simp: live_link_def split: option.splits if_splits)
  moreover have "one_identity p d'" using done' d' by (simp add: one_identity_def)
  moreover have "\<exists>v. usr_id v = pl_user p \<and> sp_access s = generateAccessToken e (cl_now c) v (cl_fid c) \<and>
       sp_refresh s = generateRefreshToken e (pl_user p) (cl_tokenId c) (cl_fid c) \<and>
       refreshTokens d' = refreshTokens d @ [session_token e c v ''web'']"
    using toks who user(2) by (intro exI [of _ v]) simp
  ultimately show ?thesis using user done' by (auto simp: rs' readPending_def)
qed

definition link_env :: auth_env where
  "link_env = \<lparr>ae_mfa = \<lparr>me_totp = \<lambda>_ _. False, me_sha = id, me_seal = id, me_unseal = Inr\<rparr>, ae_sha = id, ae_compare = (=),
     ae_signAccess = \<lambda>_. [], ae_verifyAccess = \<lambda>_. None, ae_signRefresh = \<lambda>_. [], ae_verifyRefresh = \<lambda>_. None,
     ae_signMfa = \<lambda>_. [], ae_verifyMfa = \<lambda>_. None, ae_threshold = 5, ae_lockMinutes = 15, ae_absoluteTtl = 1, ae_graceMs = 1\<rparr>"

definition link_call :: call where
  "link_call = \<lparr>cl_now = 10, cl_ip = None, cl_agent = None, cl_fid = ''f'', cl_tokenId = ''t'', cl_rowId = ''r'', cl_jti = ''j''\<rparr>"

definition link_db :: db where
  "link_db = sso_db\<lparr>users := [sso_user\<lparr>usr_totpEnabled := False, usr_totpSecret := None\<rparr>]\<rparr>"

definition link_store :: "pending_link redis" where
  "link_store = storePendingLink link_env link_call ''tok'' (pending_for sso_user ''o'' sample_provider sample_asserted ''password'')
     \<lparr>rd_num = [], rd_obj = []\<rparr>"

definition is_linked :: "confirm_result res \<times> 'a \<Rightarrow> bool" where
  "is_linked x = (case fst x of Inr (Linked s) \<Rightarrow> True | _ \<Rightarrow> False)"

lemma is_linked_iff: "is_linked x \<longleftrightarrow> (\<exists>s y. x = (Inr (Linked s), y))"
  by (cases x) (auto simp: is_linked_def split: sum.splits confirm_result.splits)

lemma sample_confirm: "is_linked (confirmPendingLink link_env link_call ''i'' ''tok'' (WithPassword ''hash'') link_store link_db)"
  by code_simp

lemma pending_link_needs_proof_witness:
  "\<exists>s rs' d' p. confirmPendingLink link_env link_call ''i'' ''tok'' (WithPassword ''hash'') link_store link_db = (Inr (Linked s), rs', d') \<and>
     readPending link_env 10 ''tok'' link_store = Some p \<and> one_identity p d' \<and> (\<forall>later. readPending link_env later ''tok'' rs' = None)"
proof -
  obtain s rs' d' where run: "confirmPendingLink link_env link_call ''i'' ''tok'' (WithPassword ''hash'') link_store link_db = (Inr (Linked s), rs', d')"
    using sample_confirm unfolding is_linked_iff by (metis prod.collapse)
  have "cl_now link_call = 10" by (simp add: link_call_def)
  with pending_link_needs_proof [OF run] run show ?thesis by auto
qed

section \<open>The flag of a pending link\<close>

datatype link_event =
    Start call string bool id id id sso_config sso_profile
  | Confirm call id string confirm_step
  | SendCode otp_send string
  | Cancel call string
  | ApproveMail call id string

text \<open>A link is opened by the sign-in that was told to confirm first.\<close>

fun link_apply :: "auth_env \<Rightarrow> link_event \<Rightarrow> pending_link redis \<Rightarrow> db \<Rightarrow> pending_link redis \<times> db" where
  "link_apply e (Start c t delivered nu ni oid cfg p) rs d =
     (case reconcileSsoUser nu ni (cl_now c) oid cfg p d of
        (Inr (ConfirmFirst pl), d1) \<Rightarrow> snd (createPendingLink e c t delivered pl rs d1)
      | (_, d1) \<Rightarrow> (rs, d1))"
| "link_apply e (Confirm c newId t step) rs d = snd (confirmPendingLink e c newId t step rs d)"
| "link_apply e (SendCode s t) rs d = snd (sendConfirmLinkCode e s t rs d)"
| "link_apply e (Cancel c t) rs d = cancelPendingLink e c t rs d"
| "link_apply e (ApproveMail c newId t) rs d = snd (approvePendingLink e c newId t rs d)"

text \<open>What the store can hold under a key after an event: what it held, or less, or what the event puts there.\<close>

definition keeps_links :: "(string \<Rightarrow> pending_link \<Rightarrow> bool) \<Rightarrow> pending_link redis \<Rightarrow> pending_link redis \<Rightarrow> bool" where
  "keeps_links P rs rs' \<longleftrightarrow> (\<forall>later k p. redis_get later k rs' = Some p \<longrightarrow> redis_get later k rs = Some p \<or> P k p)"

lemma keeps_links_refl [simp]: "keeps_links P rs rs" by (simp add: keeps_links_def)

lemma keeps_links_trans: "keeps_links P rs rs1 \<Longrightarrow> keeps_links P rs1 rs2 \<Longrightarrow> keeps_links P rs rs2"
  unfolding keeps_links_def by blast

lemma keeps_links_obj: "rd_obj rs' = rd_obj rs1 \<Longrightarrow> keeps_links P rs rs' = keeps_links P rs rs1"
  by (simp add: keeps_links_def redis_get_def)

lemma keeps_links_del: "keeps_links P rs rs1 \<Longrightarrow> keeps_links P rs (redis_del k rs1)"
  by (auto simp: keeps_links_def)

lemma keeps_links_incr: "keeps_links P rs rs1 \<Longrightarrow> keeps_links P rs (snd (incr_window now k ttl rs1))"
  by (simp add: keeps_links_obj [OF rd_obj_incr_window])

lemma consume_keeps: "keeps_links P rs rs1 \<Longrightarrow> keeps_links P rs (snd (consumePending e now t rs1))"
  by (simp add: consumePending_def keeps_links_del)

lemma finalize_keeps: "keeps_links P rs rs1 \<Longrightarrow> keeps_links P rs (fst (snd (finalizePendingLink e c newId t p u meth rs1 d)))"
  using consume_keeps [of P rs rs1 e "cl_now c" t]
  by (auto simp: finalizePendingLink_def split: prod.splits option.splits sum.splits err.splits)

lemma incr_eq: "incr_window now k ttl rs = (n, rs') \<Longrightarrow> rs' = snd (incr_window now k ttl rs)"
  by simp

text \<open>The password of the link's account was presented, right and on an account that is not locked.\<close>

definition password_shown :: "auth_env \<Rightarrow> link_event \<Rightarrow> pending_link redis \<Rightarrow> db \<Rightarrow> string \<Rightarrow> pending_link \<Rightarrow> bool" where
  "password_shown e ev rs d k p =
     (case ev of
        Confirm c i t (WithPassword pw) \<Rightarrow>
          k = linkKey e t \<and> (\<exists>q u. readPending e (cl_now c) t rs = Some q \<and> p = q\<lparr>pl_passwordVerified := True\<rparr> \<and>
            u \<in> set (users d) \<and> usr_id u = pl_user p \<and> \<not> account_locked (cl_now c) u \<and> truthy (usr_passwordHash u) \<and>
            ae_compare e pw (the (usr_passwordHash u)))
      | _ \<Rightarrow> False)"

lemma redis_get_keepttl:
  "redis_get later k' (redis_set_keepttl now k v rs) =
     (if k' = k then (case live_entry now k (rd_obj rs) of None \<Rightarrow> Some v | Some (w, dl) \<Rightarrow> if alive later dl then Some v else None)
      else redis_get later k' rs)"
  by (auto simp: redis_get_def redis_set_keepttl_def alive_def split: option.splits)

lemma confirm_password_keeps:
  assumes "readPending e (cl_now c) t rs = Some p" "loadLinkUser d p = Inr u"
  shows "keeps_links (password_shown e (Confirm c i t (WithPassword pw)) rs d) rs (fst (snd (confirm_password e c t pw p u rs d)))"
proof -
  let ?P = "password_shown e (Confirm c i t (WithPassword pw)) rs d"
  let ?rs1 = "snd (countAttempt e (cl_now c) t rs)"
  have k1: "keeps_links ?P rs ?rs1" by (simp add: countAttempt_def keeps_links_incr)
  have u: "u \<in> set (users d)" "usr_id u = pl_user p"
    using assms(2) by (auto simp: loadLinkUser_def find_user_def find_Some_iff split: option.splits if_splits)
  have "keeps_links ?P rs (writePending e (cl_now c) t (p\<lparr>pl_passwordVerified := True\<rparr>) ?rs1)"
    if "\<not> account_locked (cl_now c) u" "truthy (usr_passwordHash u)" "ae_compare e pw (the (usr_passwordHash u))"
    unfolding keeps_links_def
  proof (intro allI impI)
    fix later k q
    assume got: "redis_get later k (writePending e (cl_now c) t (p\<lparr>pl_passwordVerified := True\<rparr>) ?rs1) = Some q"
    show "redis_get later k rs = Some q \<or> ?P k q"
    proof (cases "k = linkKey e t")
      case True
      with got have "q = p\<lparr>pl_passwordVerified := True\<rparr>" by (auto simp: writePending_def redis_get_keepttl split: option.splits if_splits)
      with True that u assms(1) show ?thesis by (auto simp: password_shown_def)
    next
      case False
      with got k1 show ?thesis by (auto simp: writePending_def redis_get_keepttl keeps_links_def)
    qed
  qed
  with k1 consume_keeps [OF k1, of e "cl_now c" t] show ?thesis
    by (auto simp: confirm_password_def burn_def Let_def split: prod.splits)
qed

lemma confirm_factor_keeps: "keeps_links P rs (fst (snd (confirm_factor e c t m code p u rs d)))"
proof -
  let ?rs1 = "snd (countAttempt e (cl_now c) t rs)"
  have k1: "keeps_links P rs ?rs1" by (simp add: countAttempt_def keeps_links_incr)
  moreover have "keeps_links P rs (snd (isUserThrottled (cl_now c) (usr_id u) ?rs1))"
    using keeps_links_incr [OF k1] by (simp add: isUserThrottled_def case_prod_beta)
  ultimately show ?thesis
    using consume_keeps [OF k1, of e "cl_now c" t]
    by (auto simp: confirm_factor_def burn_def split: prod.splits)
qed

lemma confirm_keeps:
  "keeps_links (password_shown e (Confirm c i t step) rs d) rs (fst (snd (confirmPendingLink e c i t step rs d)))"
proof -
  let ?P = "password_shown e (Confirm c i t step) rs d"
  show ?thesis
  proof (cases "live_link e (cl_now c) t ''password'' rs")
    case (Inr p)
    then have read: "readPending e (cl_now c) t rs = Some p" by (auto simp: live_link_def split: option.splits if_splits)
    show ?thesis
    proof (cases "loadLinkUser d p")
      case (Inr u)
      let ?tried = "case step of WithPassword pw \<Rightarrow> confirm_password e c t pw p u rs d | WithFactor m code \<Rightarrow> confirm_factor e c t m code p u rs d"
      obtain r rs1 d1 where tried: "?tried = (r, rs1, d1)" by (metis prod_cases3)
      have k1: "keeps_links ?P rs rs1"
      proof (cases step)
        case (WithPassword pw)
        with tried have "rs1 = fst (snd (confirm_password e c t pw p u rs d))" by simp
        with confirm_password_keeps [OF read Inr, of i pw] WithPassword show ?thesis by simp
      next
        case (WithFactor m code)
        with tried have "rs1 = fst (snd (confirm_factor e c t m code p u rs d))" by simp
        with confirm_factor_keeps [of ?P rs e c t m code p u d] show ?thesis by simp
      qed
      obtain f rs2 d2 where f: "finalizePendingLink e c i t p u ''confirmed'' rs1 d1 = (f, rs2, d2)" by (metis prod_cases3)
      have "keeps_links ?P rs rs2" using finalize_keeps [OF k1, of e c i t p u "''confirmed''" d1] f by simp
      note go = confirmPendingLink_def \<open>live_link _ _ _ _ _ = _\<close> Inr tried f
      have "fst (snd (confirmPendingLink e c i t step rs d)) \<in> {rs1, rs2}"
      proof (cases r)
        case (Inr o')
        then show ?thesis
          by (cases o'; cases f) (simp_all add: go Let_def case_prod_beta split: option.split)
      qed (simp add: go)
      with k1 \<open>keeps_links ?P rs rs2\<close> show ?thesis by auto
    qed (use Inr in \<open>simp add: confirmPendingLink_def\<close>)
  qed (simp add: confirmPendingLink_def)
qed

lemma start_keeps:
  assumes "\<not> pl_passwordVerified p"
  shows "keeps_links (\<lambda>k q. \<not> pl_passwordVerified q) rs (fst (snd (createPendingLink e c t delivered p rs d)))"
proof -
  let ?P = "\<lambda>k q. \<not> pl_passwordVerified q"
  have k1: "keeps_links ?P rs (storePendingLink e c t p rs)" using assms by (auto simp: storePendingLink_def keeps_links_def)
  then have "keeps_links ?P rs (snd (approvalMailAllowed (cl_now c) (pl_user p) (storePendingLink e c t p rs)))"
    using keeps_links_incr [OF k1] by (simp add: approvalMailAllowed_def case_prod_beta)
  with k1 show ?thesis by (auto simp: createPendingLink_def Let_def consume_keeps split: prod.splits)
qed

lemma send_keeps: "keeps_links P rs (fst (snd (sendConfirmLinkCode e s t rs d)))"
proof -
  have "keeps_links P rs (snd (sendEmailOtp (ae_mfa e) s u j rs d))" for u j
    using keeps_links_incr [OF keeps_links_refl, of P rs] by (auto simp: sendEmailOtp_def case_prod_beta split: sum.splits)
  then show ?thesis
    by (auto simp: sendConfirmLinkCode_def split: sum.splits prod.splits) (metis snd_conv)+
qed

lemma approve_keeps: "keeps_links P rs (fst (snd (approvePendingLink e c i t rs d)))"
proof -
  have "keeps_links P rs rs1" if "finalizePendingLink e c i t p u meth rs d = (r, rs1, d1)" for p u meth r rs1 d1
    using finalize_keeps [OF keeps_links_refl, of P rs e c i t p u meth d] that by simp
  then show ?thesis by (auto simp: approvePendingLink_def split: sum.splits prod.splits)
qed

text \<open>A link a sign-in hands out is not marked.\<close>

lemma unmarked_link: "reconcileSsoUser nu ni now oid cfg p d = (Inr (ConfirmFirst pl), d1) \<Longrightarrow> \<not> pl_passwordVerified pl"
proof -
  assume run: "reconcileSsoUser nu ni now oid cfg p d = (Inr (ConfirmFirst pl), d1)"
  have "match_account d oid cfg p (js_trim (lower (or_else (sp_email p) []))) = Inr (ToConfirm pl)"
    using run by (auto simp: reconcileSsoUser_def Let_def split: if_splits sum.splits matched.splits prod.splits)
  then have "match_by_email d oid cfg p (js_trim (lower (or_else (sp_email p) []))) = Inr (ToConfirm pl)"
    by (simp add: match_account_def split: option.splits)
  then show ?thesis by (auto simp: match_by_email_def pending_for_def split: if_splits option.splits)
qed

text \<open>C29: The mark that a pending link's password was given is set by one event only: a confirmation of
  that link with a password that is right for its account, while the account is not locked. Whatever else happens -
  sign-ins that open a link, codes sent, factors tried, cancelling, approval from a mail - a marked link was marked, and stored, before.\<close>

theorem link_mark_needs_password:
  assumes "link_apply e ev rs d = (rs', d')" and "redis_get later k rs' = Some p" "pl_passwordVerified p"
  shows "redis_get later k rs = Some p \<or> password_shown e ev rs d k p"
proof (cases ev)
  case (Start c t dl nu ni oid cfg q)
  obtain r d1 where r: "reconcileSsoUser nu ni (cl_now c) oid cfg q d = (r, d1)" by fastforce
  show ?thesis
  proof (cases "\<exists>pl. r = Inr (ConfirmFirst pl)")
    case True
    then obtain pl where pl: "r = Inr (ConfirmFirst pl)" by blast
    have "rs' = fst (snd (createPendingLink e c t dl pl rs d1))" using assms(1) by (simp add: Start r pl)
    with start_keeps [OF unmarked_link [OF r [unfolded pl]], of rs e c t dl d1] assms(2,3) show ?thesis
      by (auto simp: keeps_links_def)
  next
    case False
    then have "rs' = rs" using assms(1) Start r by (auto split: sum.splits sso_outcome.splits)
    then show ?thesis using assms(2) by simp
  qed
next
  case (Confirm c i t step)
  with assms(1,2) confirm_keeps [of e c i t step rs d] show ?thesis by (auto simp: keeps_links_def)
next
  case (SendCode s t)
  with assms(1,2) send_keeps [of "\<lambda>_ _. False" rs e s t d] show ?thesis by (auto simp: keeps_links_def)
next
  case (Cancel c t)
  with assms(1,2) consume_keeps [OF keeps_links_refl, of "\<lambda>_ _. False" rs e "cl_now c" t] show ?thesis
    by (auto simp: cancelPendingLink_def keeps_links_def split: option.splits)
next
  case (ApproveMail c i t)
  with assms(1,2) approve_keeps [of "\<lambda>_ _. False" rs e c i t d] show ?thesis by (auto simp: keeps_links_def)
qed

lemma link_mark_needs_password_witness:
  "\<exists>p. redis_get 20 ''sso:link:tok'' (fst (link_apply link_env (Confirm link_call ''i'' ''tok'' (WithPassword ''hash'')) link_store
      (link_db\<lparr>users := [sso_user]\<rparr>))) = Some p \<and> pl_passwordVerified p \<and>
    password_shown link_env (Confirm link_call ''i'' ''tok'' (WithPassword ''hash'')) link_store (link_db\<lparr>users := [sso_user]\<rparr>) ''sso:link:tok'' p"
proof -
  let ?ev = "Confirm link_call ''i'' ''tok'' (WithPassword ''hash'')"
  let ?d = "link_db\<lparr>users := [sso_user]\<rparr>"
  have "case redis_get 20 ''sso:link:tok'' (fst (link_apply link_env ?ev link_store ?d)) of None \<Rightarrow> False | Some p \<Rightarrow> pl_passwordVerified p"
    by code_simp
  then obtain p where got: "redis_get 20 ''sso:link:tok'' (fst (link_apply link_env ?ev link_store ?d)) = Some p" "pl_passwordVerified p"
    by (auto split: option.splits)
  have before: "case redis_get 20 ''sso:link:tok'' link_store of None \<Rightarrow> False | Some p \<Rightarrow> \<not> pl_passwordVerified p" by code_simp
  obtain rs' d' where run: "link_apply link_env ?ev link_store ?d = (rs', d')" by fastforce
  have "redis_get 20 ''sso:link:tok'' link_store = Some p \<or> password_shown link_env ?ev link_store ?d ''sso:link:tok'' p"
    by (rule link_mark_needs_password [OF run]) (use got run in auto)
  with before got show ?thesis by (auto split: option.splits)
qed

end
