(* ===== verification/Saml.thy ===== *)
theory Saml
  imports Net Redis
begin

text \<open>
  SAML sign-in: what \<open>backend/src/services/samlService.js\<close> checks around the validation done by
  \<open>node-saml\<close>, the attribute mapping (\<open>config/samlAttributes.js\<close>) and the single use of an
  assertion (\<open>saml/samlReplayStore.js\<close>). XML, X.509 and the signature are outside: the parsed
  document, the validity of the certificates and the outcome of \<open>validatePostResponseAsync\<close> are
  arguments. Dates are milliseconds; one that is missing or cannot be parsed is \<open>None\<close>.
\<close>

definition samlError :: "string \<Rightarrow> string \<Rightarrow> nat \<Rightarrow> err" where "samlError code m n = ApiError n m (Some code)"

section \<open>Limits\<close>

definition MAX_SAML_RESPONSE_BYTES :: nat where "MAX_SAML_RESPONSE_BYTES = 1024 * 1024"
definition MAX_ASSERTION_AGE_MS :: int where "MAX_ASSERTION_AGE_MS = 10 * 60 * 1000"
definition MAX_ASSERTION_LIFETIME_SEC :: int where "MAX_ASSERTION_LIFETIME_SEC = 24 * 60 * 60"
definition MIN_CLOCK_SKEW_SEC :: int where "MIN_CLOCK_SKEW_SEC = 0"
definition MAX_CLOCK_SKEW_SEC :: int where "MAX_CLOCK_SKEW_SEC = 300"
definition REQUEST_ID_TTL_SEC :: int where "REQUEST_ID_TTL_SEC = 10 * 60"
definition ASSERTION_TTL_MIN_SEC :: int where "ASSERTION_TTL_MIN_SEC = 5 * 60"
definition ASSERTION_TTL_MAX_SEC :: int where "ASSERTION_TTL_MAX_SEC = 24 * 60 * 60"

definition clampSkew :: "int option \<Rightarrow> int" where
  "clampSkew v = min MAX_CLOCK_SKEW_SEC (max MIN_CLOCK_SKEW_SEC (case v of None \<Rightarrow> 60 | Some n \<Rightarrow> n))"

section \<open>The replay store\<close>

text \<open>\<open>up\<close>: the command is answered within its deadline. Otherwise it fails, never hangs.\<close>

definition store_unavailable :: err where
  "store_unavailable = samlError ''saml_replay_unavailable'' ''Single sign-on is temporarily unavailable. Please try again shortly.'' 503"

definition bounded :: "bool \<Rightarrow> 'a \<Rightarrow> 'a res" where
  "bounded up x = (if up then Inr x else Inl store_unavailable)"

definition requestKey :: "id \<Rightarrow> string \<Rightarrow> string" where "requestKey pid i = ''saml:req:'' @ pid @ '':'' @ i"

definition assertionKey :: "(string \<Rightarrow> string) \<Rightarrow> id \<Rightarrow> string \<Rightarrow> string" where
  "assertionKey sha pid aid = ''saml:aid:'' @ pid @ '':'' @ sha aid"

definition saveRequestId :: "bool \<Rightarrow> int \<Rightarrow> id \<Rightarrow> string \<Rightarrow> string \<Rightarrow> string redis \<Rightarrow> unit res \<times> string redis" where
  "saveRequestId up now pid k v rs =
     (if up then (Inr (), redis_set now (requestKey pid k) v REQUEST_ID_TTL_SEC rs) else (Inl store_unavailable, rs))"

definition getRequestId :: "bool \<Rightarrow> int \<Rightarrow> id \<Rightarrow> string \<Rightarrow> string redis \<Rightarrow> string option res" where
  "getRequestId up now pid k rs = (if k = [] then Inr None else bounded up (redis_get now (requestKey pid k) rs))"

text \<open>Removing an id is only an early expiry: a failure is not passed on.\<close>

definition removeRequestId :: "bool \<Rightarrow> id \<Rightarrow> string \<Rightarrow> string redis \<Rightarrow> string option \<times> string redis" where
  "removeRequestId up pid k rs = (if k = [] \<or> \<not> up then (None, rs) else (Some k, redis_del (requestKey pid k) rs))"

definition assertionTtlSeconds :: "int option \<Rightarrow> int \<Rightarrow> int \<Rightarrow> int" where
  "assertionTtlSeconds notOnOrAfter skew now =
     (let ttl = (case notOnOrAfter of None \<Rightarrow> ASSERTION_TTL_MIN_SEC | Some t \<Rightarrow> - ((now - t) div 1000) + skew)
      in min ASSERTION_TTL_MAX_SEC (max ASSERTION_TTL_MIN_SEC ttl))"

text \<open>\<open>SET \<dots> NX\<close>: taken only when no live claim is there.\<close>

definition claimAssertionId ::
    "(string \<Rightarrow> string) \<Rightarrow> bool \<Rightarrow> int \<Rightarrow> id \<Rightarrow> string \<Rightarrow> int \<Rightarrow> string redis \<Rightarrow> bool res \<times> string redis" where
  "claimAssertionId sha up now pid aid ttl rs =
     (if aid = [] then (Inr False, rs)
      else if \<not> up then (Inl store_unavailable, rs)
      else if redis_get now (assertionKey sha pid aid) rs \<noteq> None then (Inr False, rs)
      else (Inr True, redis_set now (assertionKey sha pid aid) ''1'' ttl rs))"

definition assertionIdSeen :: "(string \<Rightarrow> string) \<Rightarrow> bool \<Rightarrow> int \<Rightarrow> id \<Rightarrow> string \<Rightarrow> string redis \<Rightarrow> bool res" where
  "assertionIdSeen sha up now pid aid rs = bounded up (redis_get now (assertionKey sha pid aid) rs \<noteq> None)"

section \<open>The document before validation\<close>

text \<open>What follows the end of the comment, when it has one.\<close>

fun after_comment :: "string \<Rightarrow> string option" where
  "after_comment [] = None"
| "after_comment (c # cs) = (if prefix ''-->'' (c # cs) then Some (drop 2 cs) else after_comment cs)"

lemma after_comment_shorter: "after_comment s = Some r \<Longrightarrow> length r < length s"
  by (induction s arbitrary: r rule: after_comment.induct) (fastforce split: if_splits)+

function strip_comments :: "string \<Rightarrow> string" where
  "strip_comments s =
     (case s of [] \<Rightarrow> []
      | c # cs \<Rightarrow>
          (case (if prefix ''<!--'' s then after_comment (drop 4 s) else None) of
             Some r \<Rightarrow> strip_comments r
           | None \<Rightarrow> c # strip_comments cs))"
  by pat_completeness auto
termination
  by (relation "measure length") (auto dest!: after_comment_shorter split: if_splits)

declare strip_comments.simps [simp del]

definition saml_invalid :: "string \<Rightarrow> err" where "saml_invalid m = samlError ''saml_invalid'' m 403"

definition assertNoDoctype :: "string \<Rightarrow> unit res" where
  "assertNoDoctype xml =
     (let s = strip_comments xml in
      if contains_ci ''<!DOCTYPE'' s \<or> contains_ci ''<!ENTITY'' s
      then Inl (saml_invalid ''SAML response contains a document type declaration'') else Inr ())"

record parsed_url =
  pu_protocol :: string
  pu_hostname :: string
  pu_port :: string
  pu_path :: string

definition no_slash :: "string \<Rightarrow> string" where
  "no_slash p = (if p \<noteq> [] \<and> last p = CHR ''/'' then butlast p else p)"

definition urlEquals :: "(string \<Rightarrow> parsed_url option) \<Rightarrow> string \<Rightarrow> string \<Rightarrow> bool" where
  "urlEquals url a b =
     (a = b \<or>
      (case (url a, url b) of
         (Some x, Some y) \<Rightarrow>
           lower (pu_protocol x) = lower (pu_protocol y) \<and> lower (pu_hostname x) = lower (pu_hostname y) \<and>
           pu_port x = pu_port y \<and> no_slash (pu_path x) = no_slash (pu_path y)
       | _ \<Rightarrow> False))"

text \<open>The envelope: its \<open>Destination\<close> and the algorithms its signatures name.\<close>

record saml_doc =
  sd_destination :: string
  sd_signatures :: "string list"
  sd_digests :: "string list"

definition assertDestination :: "(string \<Rightarrow> parsed_url option) \<Rightarrow> saml_doc \<Rightarrow> string \<Rightarrow> bool \<Rightarrow> unit res" where
  "assertDestination url doc acs responseSigned =
     (if sd_destination doc = []
      then (if responseSigned then Inl (samlError ''saml_destination_mismatch'' ''Signed SAML response has no Destination'' 403) else Inr ())
      else if \<not> urlEquals url (sd_destination doc) acs
      then Inl (samlError ''saml_destination_mismatch'' ''SAML response was issued for a different destination'' 403)
      else Inr ())"

definition ALGO_STRENGTH :: "(string \<times> nat) list" where
  "ALGO_STRENGTH = [(''sha1'', 1), (''sha256'', 2), (''sha384'', 3), (''sha512'', 4)]"

definition SIGNATURE_ALGO_URIS :: "(string \<times> string) list" where
  "SIGNATURE_ALGO_URIS =
     [(''http://www.w3.org/2000/09/xmldsig#rsa-sha1'', ''sha1''),
      (''http://www.w3.org/2000/09/xmldsig#dsa-sha1'', ''sha1''),
      (''http://www.w3.org/2001/04/xmldsig-more#rsa-sha256'', ''sha256''),
      (''http://www.w3.org/2001/04/xmldsig-more#rsa-sha384'', ''sha384''),
      (''http://www.w3.org/2001/04/xmldsig-more#rsa-sha512'', ''sha512''),
      (''http://www.w3.org/2001/04/xmldsig-more#ecdsa-sha256'', ''sha256''),
      (''http://www.w3.org/2001/04/xmldsig-more#ecdsa-sha384'', ''sha384''),
      (''http://www.w3.org/2001/04/xmldsig-more#ecdsa-sha512'', ''sha512'')]"

definition DIGEST_ALGO_URIS :: "(string \<times> string) list" where
  "DIGEST_ALGO_URIS =
     [(''http://www.w3.org/2000/09/xmldsig#sha1'', ''sha1''),
      (''http://www.w3.org/2001/04/xmlenc#sha256'', ''sha256''),
      (''http://www.w3.org/2001/04/xmldsig-more#sha384'', ''sha384''),
      (''http://www.w3.org/2001/04/xmlenc#sha512'', ''sha512'')]"

definition algo_strength :: "(string \<times> string) list \<Rightarrow> string \<Rightarrow> nat option" where
  "algo_strength table uri = Option.bind (map_of table uri) (map_of ALGO_STRENGTH)"

definition weak :: "string \<Rightarrow> err" where "weak m = samlError ''saml_weak_signature'' m 403"

fun check_algorithms :: "(string \<Rightarrow> err option) \<Rightarrow> string list \<Rightarrow> unit res" where
  "check_algorithms bad [] = Inr ()"
| "check_algorithms bad (u # us) = (case bad u of Some er \<Rightarrow> Inl er | None \<Rightarrow> check_algorithms bad us)"

definition signature_error :: "nat \<Rightarrow> string \<Rightarrow> err option" where
  "signature_error lowest uri =
     (if contains_ci ''hmac'' uri then Some (weak ''SAML signature uses a symmetric (HMAC) algorithm'')
      else case algo_strength SIGNATURE_ALGO_URIS uri of
        None \<Rightarrow> Some (weak ''SAML signature uses an unrecognised algorithm'')
      | Some n \<Rightarrow> if n < lowest then Some (weak ''SAML signature algorithm is weaker than this provider allows'') else None)"

definition digest_error :: "nat \<Rightarrow> string \<Rightarrow> err option" where
  "digest_error lowest uri =
     (case algo_strength DIGEST_ALGO_URIS uri of
        None \<Rightarrow> Some (weak ''SAML signature uses an unrecognised digest algorithm'')
      | Some n \<Rightarrow> if n < lowest then Some (weak ''SAML digest algorithm is weaker than this provider allows'') else None)"

definition assertSignatureAlgorithms :: "saml_doc \<Rightarrow> string \<Rightarrow> unit res" where
  "assertSignatureAlgorithms doc minAlgo =
     (let lowest = (case map_of ALGO_STRENGTH minAlgo of None \<Rightarrow> 2 | Some n \<Rightarrow> n) in
      case check_algorithms (signature_error lowest) (sd_signatures doc) of
        Inl er \<Rightarrow> Inl er | Inr _ \<Rightarrow> check_algorithms (digest_error lowest) (sd_digests doc))"

section \<open>The provider and the library\<close>

text \<open>A certificate is what matters of it here: its text and until when it is valid, if it parses.\<close>

record idp_cert =
  ic_pem :: string
  ic_notAfter :: "int option"

record saml_config =
  sc_id :: id
  sc_spEntityId :: string
  sc_acsUrl :: string
  sc_entryPoint :: string
  sc_idpEntityId :: string
  sc_certs :: "idp_cert list"
  sc_skew :: "int option"
  sc_responseSigned :: bool
  sc_idpInitiated :: bool
  sc_sigAlgo :: string
  sc_identifierFormat :: string
  sc_mapping :: "json option"
  sc_preset :: string

definition assertCertsUsable :: "int \<Rightarrow> idp_cert list \<Rightarrow> idp_cert list res" where
  "assertCertsUsable now ks =
     (if ks = [] then Inl (samlError ''saml_not_configured'' ''This provider has no IdP signing certificate configured'' 403)
      else let usable = filter (\<lambda>c. holds (\<lambda>t. now < t) (ic_notAfter c)) ks in
        if usable = []
        then Inl (samlError ''saml_idp_cert_expired'' (''Every configured identity provider certificate has expired. '' @
               ''An administrator must upload the provider'' @ [CHR 0x27] @ ''s current certificate.'') 403)
        else Inr usable)"

text \<open>What is asked of \<open>node-saml\<close>.\<close>

record saml_options =
  so_issuer :: string
  so_audience :: string
  so_callback :: string
  so_idpIssuer :: string
  so_certs :: "idp_cert list"
  so_assertionsSigned :: bool
  so_responseSigned :: bool
  so_skewMs :: int
  so_maxAgeMs :: int
  so_inResponseTo :: string

definition buildSaml :: "int \<Rightarrow> saml_config \<Rightarrow> bool \<Rightarrow> saml_options res" where
  "buildSaml now cfg forLogin =
     (case (if forLogin then assertCertsUsable now (sc_certs cfg) else Inr (sc_certs cfg)) of Inl er \<Rightarrow> Inl er | Inr ks \<Rightarrow>
      if ks = [] then Inl (samlError ''saml_not_configured'' ''This provider has no IdP signing certificate configured'' 403)
      else if forLogin \<and> sc_entryPoint cfg = []
      then Inl (samlError ''saml_not_configured'' ''This provider has no IdP sign-in URL configured'' 403)
      else Inr \<lparr>so_issuer = sc_spEntityId cfg, so_audience = sc_spEntityId cfg, so_callback = sc_acsUrl cfg, so_idpIssuer = sc_idpEntityId cfg,
                so_certs = ks, so_assertionsSigned = True, so_responseSigned = sc_responseSigned cfg,
                so_skewMs = clampSkew (sc_skew cfg) * 1000, so_maxAgeMs = MAX_ASSERTION_AGE_MS,
                so_inResponseTo = (if sc_idpInitiated cfg then ''ifPresent'' else ''always'')\<rparr>)"

definition classifyValidationError :: "string \<Rightarrow> string" where
  "classifyValidationError m =
     (let has = (\<lambda>t. contains_ci t m) in
      if has ''InResponseTo'' then ''saml_request_mismatch''
      else if has ''audience'' then ''saml_audience_mismatch''
      else if has ''not yet valid'' then ''saml_not_yet_valid''
      else if has ''expired'' \<or> has ''too old'' \<or> has ''clocks skewed'' then ''saml_expired''
      else if has ''subject confirmation'' then ''saml_expired''
      else if has ''signature'' then ''saml_bad_signature''
      else if has ''decryption'' \<or> has ''decrypt'' then ''saml_decrypt_failed''
      else if has ''Missing SAML assertion'' \<or> has ''no assertion'' then ''saml_no_assertion''
      else if has ''SAML provider returned'' then ''saml_idp_error''
      else ''saml_invalid'')"

section \<open>The signed assertion\<close>

record attribute =
  at_name :: string
  at_friendly :: string
  at_values :: "string list"

record saml_facts =
  sf_id :: string
  sf_issuer :: string
  sf_notBefore :: "int option"
  sf_notOnOrAfter :: "int option"
  sf_recipients :: "string list"
  sf_inResponseTo :: "string list"
  sf_attributes :: "attribute list"

record saml_profile =
  pf_nameId :: string
  pf_format :: string
  pf_inResponseTo :: string
  pf_facts :: "saml_facts option"

datatype validation = Validated saml_profile | NoProfile | Rejected_with string | StoreDown

definition readAssertionFacts :: "saml_profile \<Rightarrow> saml_facts res" where
  "readAssertionFacts p =
     (case pf_facts p of None \<Rightarrow> Inl (saml_invalid ''SAML assertion could not be read after validation'') | Some f \<Rightarrow> Inr f)"

definition assertIssuer :: "saml_facts \<Rightarrow> string \<Rightarrow> unit res" where
  "assertIssuer f expected =
     (if expected = [] then Inr ()
      else if sf_issuer f = [] then Inl (samlError ''saml_issuer_mismatch'' ''SAML assertion has no Issuer'' 403)
      else if js_trim (sf_issuer f) \<noteq> js_trim expected
      then Inl (samlError ''saml_issuer_mismatch'' ''SAML assertion came from an unexpected identity provider'' 403)
      else Inr ())"

definition assertRecipient :: "(string \<Rightarrow> parsed_url option) \<Rightarrow> saml_facts \<Rightarrow> string \<Rightarrow> unit res" where
  "assertRecipient url f acs =
     (if sf_recipients f = [] \<or> (\<exists>r \<in> set (sf_recipients f). urlEquals url r acs) then Inr ()
      else Inl (samlError ''saml_destination_mismatch'' ''SAML assertion was issued for a different service'' 403))"

definition assertLifetime :: "saml_facts \<Rightarrow> unit res" where
  "assertLifetime f =
     (case (sf_notBefore f, sf_notOnOrAfter f) of
        (Some a, Some b) \<Rightarrow>
          (if MAX_ASSERTION_LIFETIME_SEC * 1000 < b - a then Inl (saml_invalid ''SAML assertion validity window is unreasonably long'') else Inr ())
      | _ \<Rightarrow> Inr ())"

definition TRANSIENT_FORMAT :: string where "TRANSIENT_FORMAT = ''urn:oasis:names:tc:SAML:2.0:nameid-format:transient''"
definition UNSPECIFIED_FORMAT :: string where "UNSPECIFIED_FORMAT = ''urn:oasis:names:tc:SAML:1.1:nameid-format:unspecified''"
definition EMAIL_FORMAT :: string where "EMAIL_FORMAT = ''urn:oasis:names:tc:SAML:1.1:nameid-format:emailAddress''"

definition assertNameId :: "saml_profile \<Rightarrow> saml_config \<Rightarrow> (string \<times> string) res" where
  "assertNameId p cfg =
     (if js_trim (pf_nameId p) = [] then Inl (samlError ''saml_no_nameid'' ''SAML assertion does not contain a NameID'' 403)
      else if pf_format p = TRANSIENT_FORMAT
      then Inl (samlError ''saml_transient_nameid'' (''This provider sends a transient NameID, which cannot identify a user across sign-ins. '' @
             ''Configure a persistent or email NameID format.'') 403)
      else if sc_identifierFormat cfg \<noteq> [] \<and> pf_format p \<noteq> [] \<and> pf_format p \<noteq> sc_identifierFormat cfg
      then Inl (samlError ''saml_nameid_format'' ''SAML NameID format does not match this provider configuration'' 403)
      else Inr (js_trim (pf_nameId p), pf_format p))"

section \<open>Attributes\<close>

text \<open>By name and by friendly name; the first that has a value wins.\<close>

definition put_new :: "string \<Rightarrow> string list \<Rightarrow> (string \<times> string list) list \<Rightarrow> (string \<times> string list) list" where
  "put_new k vs ix = (if k = [] \<or> map_of ix k \<noteq> None then ix else (k, vs) # ix)"

definition index_attribute :: "attribute \<Rightarrow> (string \<times> string list) list \<Rightarrow> (string \<times> string list) list" where
  "index_attribute a ix =
     (let vs = filter (\<lambda>v. js_trim v \<noteq> []) (at_values a) in
      if vs = [] then ix else put_new (at_friendly a) vs (put_new (at_name a) vs ix))"

definition indexAttributes :: "saml_facts \<Rightarrow> (string \<times> string list) list" where
  "indexAttributes f = fold index_attribute (sf_attributes f) []"

definition DEFAULT_ATTRIBUTE_CANDIDATES :: "(string \<times> string list) list" where
  "DEFAULT_ATTRIBUTE_CANDIDATES =
     [(''email'',
       [''email'', ''mail'', ''emailAddress'', ''Email'', ''EmailAddress'',
        ''http://schemas.xmlsoap.org/ws/2005/05/identity/claims/emailaddress'', ''http://schemas.xmlsoap.org/claims/EmailAddress'',
        ''urn:oid:0.9.2342.19200300.100.1.3'', ''urn:oid:1.2.840.113549.1.9.1'']),
      (''name'',
       [''displayName'', ''display_name'', ''name'', ''cn'', ''DisplayName'', ''http://schemas.microsoft.com/identity/claims/displayname'',
        ''urn:oid:2.16.840.1.113730.3.1.241'', ''urn:oid:2.5.4.3'']),
      (''firstName'',
       [''firstName'', ''first_name'', ''givenName'', ''given_name'', ''FirstName'',
        ''http://schemas.xmlsoap.org/ws/2005/05/identity/claims/givenname'', ''urn:oid:2.5.4.42'']),
      (''lastName'',
       [''lastName'', ''last_name'', ''surname'', ''sn'', ''LastName'',
        ''http://schemas.xmlsoap.org/ws/2005/05/identity/claims/surname'', ''urn:oid:2.5.4.4'']),
      (''groups'',
       [''groups'', ''Groups'', ''memberOf'', ''member'', ''http://schemas.microsoft.com/ws/2008/06/identity/claims/groups'',
        ''http://schemas.xmlsoap.org/claims/Group'', ''urn:oid:1.3.6.1.4.1.5923.1.5.1.1'']),
      (''externalId'', [''http://schemas.microsoft.com/identity/claims/objectidentifier'', ''objectGUID''])]"

definition PRESET_ATTRIBUTE_HINTS :: "(string \<times> (string \<times> string list) list) list" where
  "PRESET_ATTRIBUTE_HINTS =
     [(''saml-entra'',
       [(''email'', [''http://schemas.xmlsoap.org/ws/2005/05/identity/claims/emailaddress'']),
        (''name'', [''http://schemas.microsoft.com/identity/claims/displayname'']),
        (''firstName'', [''http://schemas.xmlsoap.org/ws/2005/05/identity/claims/givenname'']),
        (''lastName'', [''http://schemas.xmlsoap.org/ws/2005/05/identity/claims/surname'']),
        (''groups'', [''http://schemas.microsoft.com/ws/2008/06/identity/claims/groups'']),
        (''externalId'', [''http://schemas.microsoft.com/identity/claims/objectidentifier''])]),
      (''saml-okta'',
       [(''email'', [''email'']), (''name'', [''displayName'']), (''firstName'', [''firstName'']), (''lastName'', [''lastName'']),
        (''groups'', [''groups''])]),
      (''saml-adfs'',
       [(''email'', [''http://schemas.xmlsoap.org/ws/2005/05/identity/claims/emailaddress'']),
        (''name'', [''http://schemas.xmlsoap.org/ws/2005/05/identity/claims/name'']),
        (''firstName'', [''http://schemas.xmlsoap.org/ws/2005/05/identity/claims/givenname'']),
        (''lastName'', [''http://schemas.xmlsoap.org/ws/2005/05/identity/claims/surname'']),
        (''groups'', [''http://schemas.microsoft.com/ws/2008/06/identity/claims/groups''])])]"

definition listed :: "(string \<times> string list) list \<Rightarrow> string \<Rightarrow> string list" where
  "listed m k = (case map_of m k of None \<Rightarrow> [] | Some xs \<Rightarrow> xs)"

definition configured_names :: "json option \<Rightarrow> string \<Rightarrow> string list" where
  "configured_names mapping k =
     (let str = (\<lambda>j. case j of JStr s \<Rightarrow> if js_trim s = [] then [] else [js_trim s] | _ \<Rightarrow> []) in
      case Option.bind mapping (\<lambda>m. json_get m k) of
        Some (JArr js) \<Rightarrow> concat (map str js) | Some j \<Rightarrow> str j | None \<Rightarrow> [])"

definition candidatesFor :: "string \<Rightarrow> json option \<Rightarrow> string \<Rightarrow> string list" where
  "candidatesFor k mapping preset =
     uniq (configured_names mapping k @ listed (case map_of PRESET_ATTRIBUTE_HINTS preset of None \<Rightarrow> [] | Some h \<Rightarrow> h) k @
           listed DEFAULT_ATTRIBUTE_CANDIDATES k)"

fun pick_first :: "(string \<times> string list) list \<Rightarrow> string list \<Rightarrow> string list" where
  "pick_first ix [] = []"
| "pick_first ix (c # cs) = (case map_of ix c of Some (v # vs) \<Rightarrow> v # vs | _ \<Rightarrow> pick_first ix cs)"

definition pick :: "saml_config \<Rightarrow> saml_facts \<Rightarrow> string \<Rightarrow> string list" where
  "pick cfg f k = pick_first (indexAttributes f) (candidatesFor k (sc_mapping cfg) (sc_preset cfg))"

definition head_or :: "string list \<Rightarrow> string" where
  "head_or xs = (case xs of [] \<Rightarrow> [] | x # _ \<Rightarrow> x)"

definition looks_like_email :: "string \<Rightarrow> bool" where
  "looks_like_email s =
     ((\<forall>c \<in> set s. \<not> is_ws c) \<and>
      (case split_on (CHR ''@'') s of [u, dm] \<Rightarrow> u \<noteq> [] \<and> CHR ''.'' \<in> set (butlast (tl dm)) | _ \<Rightarrow> False))"

text \<open>Empty texts stand for what is missing.\<close>

record mapped_profile =
  mp_subject :: string
  mp_email :: string
  mp_verified :: bool
  mp_name :: string
  mp_externalId :: string
  mp_groups :: "string list"
  mp_assertion :: string

definition mapped_email :: "saml_config \<Rightarrow> saml_facts \<Rightarrow> string \<Rightarrow> string \<Rightarrow> string" where
  "mapped_email cfg f nameId format =
     (let e = head_or (pick cfg f ''email'') in
      if e \<noteq> [] then e
      else if format \<in> {EMAIL_FORMAT, UNSPECIFIED_FORMAT, []} \<and> looks_like_email nameId then nameId else [])"

definition mapped_name :: "saml_config \<Rightarrow> saml_facts \<Rightarrow> string" where
  "mapped_name cfg f =
     (let n = head_or (pick cfg f ''name'') in
      if n \<noteq> [] then n
      else js_trim (join '' '' (filter (\<lambda>x. x \<noteq> []) [head_or (pick cfg f ''firstName''), head_or (pick cfg f ''lastName'')])))"

definition mapProfile :: "saml_config \<Rightarrow> saml_profile \<Rightarrow> saml_facts \<Rightarrow> mapped_profile res" where
  "mapProfile cfg p f =
     (case assertNameId p cfg of Inl er \<Rightarrow> Inl er | Inr (nameId, format) \<Rightarrow>
        Inr \<lparr>mp_subject = nameId, mp_email = js_trim (lower (mapped_email cfg f nameId format)), mp_verified = True,
             mp_name = mapped_name cfg f, mp_externalId = head_or (pick cfg f ''externalId''), mp_groups = pick cfg f ''groups'',
             mp_assertion = sf_id f\<rparr>)"

section \<open>The inbound path\<close>

record saml_env =
  sx_decode :: "string \<Rightarrow> string"
  sx_parse :: "string \<Rightarrow> saml_doc option"
  sx_url :: "string \<Rightarrow> parsed_url option"
  sx_sha :: "string \<Rightarrow> string"
  sx_validate :: "saml_options \<Rightarrow> string \<Rightarrow> validation"

definition before_validation :: "saml_env \<Rightarrow> int \<Rightarrow> saml_config \<Rightarrow> string \<Rightarrow> saml_options res" where
  "before_validation x now cfg response =
     (if response = [] then Inl (samlError ''saml_invalid'' ''Missing SAMLResponse'' 400)
      else if MAX_SAML_RESPONSE_BYTES < length response then Inl (samlError ''saml_invalid'' ''SAML response is too large'' 413)
      else if js_trim (sx_decode x response) = [] then Inl (samlError ''saml_invalid'' ''SAML response is empty'' 400)
      else case assertNoDoctype (sx_decode x response) of Inl er \<Rightarrow> Inl er | Inr _ \<Rightarrow>
      case sx_parse x (sx_decode x response) of None \<Rightarrow> Inl (saml_invalid ''SAML response is not well-formed XML'') | Some doc \<Rightarrow>
      case assertDestination (sx_url x) doc (sc_acsUrl cfg) (sc_responseSigned cfg) of Inl er \<Rightarrow> Inl er | Inr _ \<Rightarrow>
      case assertSignatureAlgorithms doc (if sc_sigAlgo cfg = [] then ''sha256'' else sc_sigAlgo cfg) of Inl er \<Rightarrow> Inl er | Inr _ \<Rightarrow>
      buildSaml now cfg True)"

definition validated :: "saml_env \<Rightarrow> saml_options \<Rightarrow> string \<Rightarrow> saml_profile res" where
  "validated x opts response =
     (case sx_validate x opts response of
        StoreDown \<Rightarrow> Inl store_unavailable
      | Rejected_with m \<Rightarrow> Inl (samlError (classifyValidationError m) ''The SAML assertion could not be validated'' 403)
      | NoProfile \<Rightarrow> Inl (saml_invalid ''SAML response contained no assertion'')
      | Validated p \<Rightarrow> Inr p)"

definition assertion_checks :: "saml_env \<Rightarrow> saml_config \<Rightarrow> string \<Rightarrow> saml_profile \<Rightarrow> saml_facts res" where
  "assertion_checks x cfg expected p =
     (case readAssertionFacts p of Inl er \<Rightarrow> Inl er | Inr f \<Rightarrow>
      case assertIssuer f (sc_idpEntityId cfg) of Inl er \<Rightarrow> Inl er | Inr _ \<Rightarrow>
      case assertRecipient (sx_url x) f (sc_acsUrl cfg) of Inl er \<Rightarrow> Inl er | Inr _ \<Rightarrow>
      case assertLifetime f of Inl er \<Rightarrow> Inl er | Inr _ \<Rightarrow>
      if expected \<noteq> [] \<and> (if pf_inResponseTo p \<noteq> [] then pf_inResponseTo p else head_or (sf_inResponseTo f)) \<noteq> expected
      then Inl (samlError ''saml_request_mismatch'' ''SAML response does not match the sign-in that started it'' 403)
      else if sf_id f = []
      then Inl (saml_invalid ''SAML assertion has no ID, so it cannot be tracked against replay'')
      else Inr f)"

definition consumeAssertion ::
    "saml_env \<Rightarrow> bool \<Rightarrow> int \<Rightarrow> saml_config \<Rightarrow> string \<Rightarrow> string \<Rightarrow> string redis \<Rightarrow> mapped_profile res \<times> string redis" where
  "consumeAssertion x up now cfg response expected rs =
     (case before_validation x now cfg response of Inl er \<Rightarrow> (Inl er, rs) | Inr opts \<Rightarrow>
      case validated x opts response of Inl er \<Rightarrow> (Inl er, rs) | Inr p \<Rightarrow>
      case assertion_checks x cfg expected p of Inl er \<Rightarrow> (Inl er, rs) | Inr f \<Rightarrow>
      case claimAssertionId (sx_sha x) up now (sc_id cfg) (sf_id f)
             (assertionTtlSeconds (sf_notOnOrAfter f) (clampSkew (sc_skew cfg)) now) rs of
        (Inl er, rs1) \<Rightarrow> (Inl er, rs1)
      | (Inr claimed, rs1) \<Rightarrow>
          (if \<not> claimed then (Inl (samlError ''saml_replay'' ''This SAML assertion has already been used'' 403), rs1)
           else (mapProfile cfg p f, rs1)))"

end
