(* ===== verification/SamlClaims.thy ===== *)
theory SamlClaims
  imports Saml
begin

text \<open>
  The single use of an assertion: whatever happens in the replay store between two attempts, the
  second is refused as long as the claim of the first lasts.
\<close>

section \<open>Histories of the store\<close>

datatype saml_event =
    Consume saml_env bool int saml_config string string
  | SaveId bool int id string string
  | RemoveId bool id string

fun saml_apply :: "saml_event \<Rightarrow> string redis \<Rightarrow> string redis" where
  "saml_apply (Consume x up now cfg response expected) rs = snd (consumeAssertion x up now cfg response expected rs)"
| "saml_apply (SaveId up now pid k v) rs = snd (saveRequestId up now pid k v rs)"
| "saml_apply (RemoveId up pid k) rs = snd (removeRequestId up pid k rs)"

text \<open>A key that is there until \<open>dl\<close>, or longer.\<close>

definition claimed_until :: "string \<Rightarrow> int \<Rightarrow> string redis \<Rightarrow> bool" where
  "claimed_until k dl rs \<longleftrightarrow> (\<forall>t < dl. redis_get t k rs \<noteq> None)"

lemma keys_apart: "assertionKey sha pid aid \<noteq> requestKey pid' k"
  by (simp add: assertionKey_def requestKey_def)

lemma ttl_bounds: "300 \<le> assertionTtlSeconds e skew now \<and> assertionTtlSeconds e skew now \<le> 86400"
  by (simp add: assertionTtlSeconds_def ASSERTION_TTL_MIN_SEC_def ASSERTION_TTL_MAX_SEC_def)

lemma ttl_covers: "min (t + skew * 1000) (now + 86400000) \<le> now + assertionTtlSeconds (Some t) skew now * 1000"
proof -
  have "t - now \<le> - ((now - t) div 1000) * 1000" by linarith
  moreover have "assertionTtlSeconds (Some t) skew now = 86400 \<or> - ((now - t) div 1000) + skew \<le> assertionTtlSeconds (Some t) skew now"
    by (auto simp: assertionTtlSeconds_def ASSERTION_TTL_MIN_SEC_def ASSERTION_TTL_MAX_SEC_def)
  ultimately show ?thesis by (auto simp: algebra_simps)
qed

lemma consume_store:
  assumes "P rs"
    and "\<And>(f :: saml_facts) e skew. redis_get now (assertionKey (sx_sha x) (sc_id cfg) (sf_id f)) rs = None \<Longrightarrow>
      P (redis_set now (assertionKey (sx_sha x) (sc_id cfg) (sf_id f)) ''1'' (assertionTtlSeconds e skew now) rs)"
  shows "P (snd (consumeAssertion x up now cfg response expected rs))"
  using assms by (auto simp: consumeAssertion_def claimAssertionId_def split: sum.splits if_splits)

lemma claim_survives_set:
  assumes "claimed_until k dl rs" "redis_get now k' rs = None" "300 \<le> ttl"
  shows "claimed_until k dl (redis_set now k' v ttl rs)"
  unfolding claimed_until_def
proof (intro allI impI)
  fix t
  assume t: "t < dl"
  have "dl \<le> now" if "k = k'" using assms(1,2) that by (auto simp: claimed_until_def not_less [symmetric])
  with assms t show "redis_get t k (redis_set now k' v ttl rs) \<noteq> None" by (auto simp: claimed_until_def)
qed

lemma claim_survives:
  assumes "claimed_until (assertionKey sha pid aid) dl rs"
  shows "claimed_until (assertionKey sha pid aid) dl (saml_apply ev rs)"
proof (cases ev)
  case (Consume x up now cfg response expected)
  show ?thesis
    unfolding Consume saml_apply.simps
    by (rule consume_store) (use assms claim_survives_set [OF assms] ttl_bounds in blast)+
next
  case SaveId
  with assms show ?thesis by (auto simp: saveRequestId_def claimed_until_def keys_apart)
next
  case RemoveId
  with assms show ?thesis by (auto simp: removeRequestId_def claimed_until_def keys_apart)
qed

lemma claim_survives_all:
  "claimed_until (assertionKey sha pid aid) dl rs \<Longrightarrow> claimed_until (assertionKey sha pid aid) dl (fold saml_apply es rs)"
  by (induction es arbitrary: rs) (auto intro: claim_survives)

section \<open>One sign-in\<close>

lemma consumed:
  assumes "consumeAssertion x up now cfg response expected rs = (Inr prof, rs1)"
  obtains opts p f where "before_validation x now cfg response = Inr opts" "validated x opts response = Inr p"
    "assertion_checks x cfg expected p = Inr f" "up" "mapProfile cfg p f = Inr prof" "sf_id f \<noteq> []"
    "redis_get now (assertionKey (sx_sha x) (sc_id cfg) (sf_id f)) rs = None"
    "rs1 = redis_set now (assertionKey (sx_sha x) (sc_id cfg) (sf_id f)) ''1''
       (assertionTtlSeconds (sf_notOnOrAfter f) (clampSkew (sc_skew cfg)) now) rs"
  using assms
  by (auto simp: consumeAssertion_def claimAssertionId_def split: sum.splits if_splits intro: that)

lemma mapped_assertion: "mapProfile cfg p f = Inr prof \<Longrightarrow> mp_assertion prof = sf_id f"
  by (auto simp: mapProfile_def split: sum.splits)

text \<open>What the inbound checks demand of a response besides the library's validation.\<close>

lemma destination_checked:
  assumes "before_validation x now cfg response = Inr opts"
  obtains doc where "sx_parse x (sx_decode x response) = Some doc" "assertDestination (sx_url x) doc (sc_acsUrl cfg) (sc_responseSigned cfg) = Inr ()"
    "buildSaml now cfg True = Inr opts"
  using assms by (auto simp: before_validation_def split: if_splits sum.splits option.splits)

lemma options_built:
  assumes "buildSaml now cfg True = Inr opts"
  shows "so_assertionsSigned opts" "so_audience opts = sc_spEntityId cfg" "so_certs opts \<noteq> []"
    "k \<in> set (so_certs opts) \<Longrightarrow> k \<in> set (sc_certs cfg) \<and> holds (\<lambda>t. now < t) (ic_notAfter k)"
  using assms by (auto simp: buildSaml_def assertCertsUsable_def Let_def split: if_splits sum.splits)

lemma facts_checked:
  assumes "assertion_checks x cfg expected p = Inr f"
  shows "pf_facts p = Some f" "sc_idpEntityId cfg \<noteq> [] \<Longrightarrow> js_trim (sf_issuer f) = js_trim (sc_idpEntityId cfg)"
    "sf_recipients f = [] \<or> (\<exists>r \<in> set (sf_recipients f). urlEquals (sx_url x) r (sc_acsUrl cfg))"
    "expected \<noteq> [] \<Longrightarrow> (if pf_inResponseTo p \<noteq> [] then pf_inResponseTo p else head_or (sf_inResponseTo f)) = expected"
    "sf_notBefore f = Some a \<Longrightarrow> sf_notOnOrAfter f = Some b \<Longrightarrow> b - a \<le> MAX_ASSERTION_LIFETIME_SEC * 1000"
  using assms
  by (auto simp: assertion_checks_def readAssertionFacts_def assertIssuer_def assertRecipient_def assertLifetime_def
      split: if_splits sum.splits option.splits)

lemma second_use_is_late:
  assumes rs1: "rs1 = redis_set now (assertionKey sha pid aid) ''1'' (assertionTtlSeconds e skew now) rs"
    and second: "consumeAssertion x' up' later cfg' response' expected' (fold saml_apply es rs1) = (Inr prof', rs2)"
    and same: "sx_sha x' = sha" "sc_id cfg' = pid" "mp_assertion prof' = aid"
  shows "now + 300000 \<le> later \<and> (\<forall>t. e = Some t \<longrightarrow> min (t + skew * 1000) (now + 86400000) \<le> later)"
proof -
  let ?k = "assertionKey sha pid aid" and ?ttl = "assertionTtlSeconds e skew now"
  have "claimed_until ?k (now + ?ttl * 1000) rs1" by (simp add: claimed_until_def rs1)
  then have "claimed_until ?k (now + ?ttl * 1000) (fold saml_apply es rs1)" by (rule claim_survives_all)
  moreover from consumed [OF second] obtain p' f' where f': "mapProfile cfg' p' f' = Inr prof'"
    "redis_get later (assertionKey (sx_sha x') (sc_id cfg') (sf_id f')) (fold saml_apply es rs1) = None" by metis
  moreover have "sf_id f' = aid" using mapped_assertion [OF f'(1)] same(3) by simp
  ultimately have late: "now + ?ttl * 1000 \<le> later" using same by (auto simp: claimed_until_def not_less [symmetric])
  have "now + 300000 \<le> later" using late ttl_bounds [of e skew now] by simp
  moreover have "min (t + skew * 1000) (now + 86400000) \<le> later" if "e = Some t" for t
    using late ttl_covers [of t skew now] that by simp
  ultimately show ?thesis by blast
qed

text \<open>C13: A sign-in that succeeds was validated by the library with signed assertions and the service's
  name as audience demanded, against certificates of the provider that are not expired. Its response was sent to
  the service's address where it says to whom it was sent, its assertion was issued for that address where it says for
  whom, by the provider's issuer when one is configured, for no more than the longest lifetime accepted; it
  answers the request that started it when there was one, and names an assertion. Whatever happens in
  the replay store afterwards - other sign-ins, request ids saved or removed, outages - the same
  assertion of that provider signs no one in again for at least five minutes, and not before its
  NotOnOrAfter with the clock skew, or a day, is over.\<close>

theorem saml_assertion_used_once:
  assumes "consumeAssertion x up now cfg response expected rs = (Inr prof, rs1)"
  shows "\<exists>doc opts p f. sx_parse x (sx_decode x response) = Some doc
    \<and> (if sd_destination doc = [] then \<not> sc_responseSigned cfg else urlEquals (sx_url x) (sd_destination doc) (sc_acsUrl cfg))
    \<and> sx_validate x opts response = Validated p \<and> so_assertionsSigned opts \<and> so_audience opts = sc_spEntityId cfg
    \<and> so_certs opts \<noteq> [] \<and> (\<forall>k \<in> set (so_certs opts). k \<in> set (sc_certs cfg) \<and> holds (\<lambda>t. now < t) (ic_notAfter k))
    \<and> pf_facts p = Some f \<and> mp_assertion prof = sf_id f \<and> sf_id f \<noteq> []
    \<and> (sc_idpEntityId cfg \<noteq> [] \<longrightarrow> js_trim (sf_issuer f) = js_trim (sc_idpEntityId cfg))
    \<and> (sf_recipients f = [] \<or> (\<exists>r \<in> set (sf_recipients f). urlEquals (sx_url x) r (sc_acsUrl cfg)))
    \<and> (\<forall>a b. sf_notBefore f = Some a \<and> sf_notOnOrAfter f = Some b \<longrightarrow> b - a \<le> MAX_ASSERTION_LIFETIME_SEC * 1000)
    \<and> (expected \<noteq> [] \<longrightarrow> (if pf_inResponseTo p \<noteq> [] then pf_inResponseTo p else head_or (sf_inResponseTo f)) = expected)
    \<and> (\<forall>x' up' later cfg' response' expected' es prof' rs2.
         consumeAssertion x' up' later cfg' response' expected' (fold saml_apply es rs1) = (Inr prof', rs2)
         \<and> sx_sha x' = sx_sha x \<and> sc_id cfg' = sc_id cfg \<and> mp_assertion prof' = sf_id f
         \<longrightarrow> now + 300000 \<le> later
           \<and> (\<forall>t. sf_notOnOrAfter f = Some t \<longrightarrow> min (t + clampSkew (sc_skew cfg) * 1000) (now + 86400000) \<le> later))"
proof -
  from consumed [OF assms] obtain opts p f where o: "before_validation x now cfg response = Inr opts" "validated x opts response = Inr p"
      "assertion_checks x cfg expected p = Inr f" "mapProfile cfg p f = Inr prof" "sf_id f \<noteq> []"
    and rs1: "rs1 = redis_set now (assertionKey (sx_sha x) (sc_id cfg) (sf_id f)) ''1''
       (assertionTtlSeconds (sf_notOnOrAfter f) (clampSkew (sc_skew cfg)) now) rs"
    by metis
  obtain doc where doc: "sx_parse x (sx_decode x response) = Some doc"
      "assertDestination (sx_url x) doc (sc_acsUrl cfg) (sc_responseSigned cfg) = Inr ()" "buildSaml now cfg True = Inr opts"
    by (rule destination_checked [OF o(1)])
  have d: "if sd_destination doc = [] then \<not> sc_responseSigned cfg else urlEquals (sx_url x) (sd_destination doc) (sc_acsUrl cfg)"
    using doc(2) by (auto simp: assertDestination_def split: if_splits)
  have v: "sx_validate x opts response = Validated p" using o(2) by (auto simp: validated_def split: validation.splits)
  note F = facts_checked [OF o(3)] and B = options_built [OF doc(3)]
  show ?thesis
    by (intro exI [of _ doc] exI [of _ opts] exI [of _ p] exI [of _ f] conjI allI impI ballI)
      (use doc(1) d v B F o(5) mapped_assertion [OF o(4)] second_use_is_late [OF rs1] in blast)+
qed

text \<open>
  Comments are cut out of the raw text before a document type is looked for. Two processing
  instructions that hold the comment marks therefore hide one, although no XML parser sees a comment there.
\<close>

lemma doctype_behind_instructions:
  "assertNoDoctype ''<!DOCTYPE a><a/>'' = Inl (saml_invalid ''SAML response contains a document type declaration'') \<and>
   assertNoDoctype ''<?p <!--?><!DOCTYPE a><?p -->?><a/>'' = Inr ()"
  by code_simp

definition sample_profile :: saml_profile where
  "sample_profile = \<lparr>pf_nameId = ''ann'', pf_format = [], pf_inResponseTo = ''r1'',
     pf_facts = Some \<lparr>sf_id = ''A'', sf_issuer = ''idp'', sf_notBefore = Some 0, sf_notOnOrAfter = Some 3600000, sf_recipients = [],
       sf_inResponseTo = [], sf_attributes = [\<lparr>at_name = ''email'', at_friendly = [], at_values = [''ann@x.io'']\<rparr>]\<rparr>\<rparr>"

definition sample_saml :: saml_env where
  "sample_saml = \<lparr>sx_decode = id, sx_parse = \<lambda>_. Some \<lparr>sd_destination = ''acs'', sd_signatures = [], sd_digests = []\<rparr>,
     sx_url = \<lambda>_. None, sx_sha = id, sx_validate = \<lambda>_ _. Validated sample_profile\<rparr>"

definition sample_idp :: saml_config where
  "sample_idp = \<lparr>sc_id = ''p1'', sc_spEntityId = ''sp'', sc_acsUrl = ''acs'', sc_entryPoint = ''sso'', sc_idpEntityId = ''idp'',
     sc_certs = [\<lparr>ic_pem = ''c'', ic_notAfter = Some 100000000000\<rparr>], sc_skew = None, sc_responseSigned = False, sc_idpInitiated = False,
     sc_sigAlgo = [], sc_identifierFormat = [], sc_mapping = None, sc_preset = ''saml-okta''\<rparr>"

lemma sample_before:
  assumes "now < 100000000000"
  shows "\<exists>opts. before_validation sample_saml now sample_idp ''R'' = Inr opts"
proof -
  have "js_trim ''R'' \<noteq> []" "assertNoDoctype ''R'' = Inr ()" by code_simp+
  with assms show ?thesis
    by (simp add: before_validation_def sample_saml_def sample_idp_def MAX_SAML_RESPONSE_BYTES_def assertDestination_def urlEquals_def
        assertSignatureAlgorithms_def buildSaml_def assertCertsUsable_def Let_def)
qed

lemma sample_sign_in:
  assumes "now < 100000000000" "redis_get now ''saml:aid:p1:A'' rs = None"
  shows "\<exists>prof. consumeAssertion sample_saml True now sample_idp ''R'' ''r1'' rs =
     (Inr prof, redis_set now ''saml:aid:p1:A'' ''1'' (assertionTtlSeconds (Some 3600000) 60 now) rs) \<and>
     mp_subject prof = ''ann'' \<and> mp_email prof = ''ann@x.io'' \<and> mp_assertion prof = ''A''"
proof -
  let ?f = "the (pf_facts sample_profile)"
  obtain opts where "before_validation sample_saml now sample_idp ''R'' = Inr opts" using sample_before [OF assms(1)] by blast
  moreover have "assertion_checks sample_saml sample_idp ''r1'' sample_profile = Inr ?f"
    by (simp add: assertion_checks_def readAssertionFacts_def assertIssuer_def assertRecipient_def assertLifetime_def sample_profile_def
        sample_idp_def MAX_ASSERTION_LIFETIME_SEC_def)
  moreover have "case mapProfile sample_idp sample_profile ?f of Inl _ \<Rightarrow> False
      | Inr prof \<Rightarrow> mp_subject prof = ''ann'' \<and> mp_email prof = ''ann@x.io'' \<and> mp_assertion prof = ''A''"
    by code_simp
  moreover have "sf_id ?f = ''A''" "sf_notOnOrAfter ?f = Some 3600000" by (simp_all add: sample_profile_def)
  moreover have "sc_id sample_idp = ''p1''" "clampSkew (sc_skew sample_idp) = 60"
    by (simp_all add: sample_idp_def clampSkew_def MAX_CLOCK_SKEW_SEC_def MIN_CLOCK_SKEW_SEC_def)
  ultimately show ?thesis
    using assms(2)
    by (auto simp: consumeAssertion_def validated_def claimAssertionId_def assertionKey_def sample_saml_def split: sum.splits)
qed

lemma saml_assertion_used_once_witness:
  "\<exists>prof rs1 prof' rs2. consumeAssertion sample_saml True 0 sample_idp ''R'' ''r1'' \<lparr>rd_num = [], rd_obj = []\<rparr> = (Inr prof, rs1) \<and>
     consumeAssertion sample_saml True 9000000 sample_idp ''R'' ''r1'' (fold saml_apply [SaveId True 5 ''p1'' ''r2'' ''t''] rs1) = (Inr prof', rs2) \<and>
     min (3600000 + 60 * 1000) 86400000 \<le> (9000000 :: int)"
proof -
  obtain prof rs1 where first: "consumeAssertion sample_saml True 0 sample_idp ''R'' ''r1'' \<lparr>rd_num = [], rd_obj = []\<rparr> = (Inr prof, rs1)"
    and rs1: "rs1 = redis_set 0 ''saml:aid:p1:A'' ''1'' (assertionTtlSeconds (Some 3600000) 60 0) \<lparr>rd_num = [], rd_obj = []\<rparr>" "mp_assertion prof = ''A''"
    using sample_sign_in [of 0 "\<lparr>rd_num = [], rd_obj = []\<rparr>"] by (auto simp: redis_get_def live_entry_def)
  let ?rs = "fold saml_apply [SaveId True 5 ''p1'' ''r2'' ''t''] rs1"
  have "redis_get 9000000 ''saml:aid:p1:A'' ?rs = None"
    by (simp add: rs1 saveRequestId_def requestKey_def assertionTtlSeconds_def ASSERTION_TTL_MIN_SEC_def ASSERTION_TTL_MAX_SEC_def)
  then obtain prof' rs2 where second: "consumeAssertion sample_saml True 9000000 sample_idp ''R'' ''r1'' ?rs = (Inr prof', rs2)" "mp_assertion prof' = ''A''"
    using sample_sign_in [of 9000000 ?rs] by auto
  have f: "sf_notOnOrAfter f = Some 3600000 \<and> sf_id f = ''A''" if "sx_validate sample_saml opts ''R'' = Validated p" "pf_facts p = Some f" for opts p f
    using that by (auto simp: sample_saml_def sample_profile_def)
  have "clampSkew (sc_skew sample_idp) = 60" by (simp add: sample_idp_def clampSkew_def MAX_CLOCK_SKEW_SEC_def MIN_CLOCK_SKEW_SEC_def)
  then have "min (3600000 + 60 * 1000) 86400000 \<le> (9000000 :: int)"
    using saml_assertion_used_once [OF first] second f by fastforce
  with first second show ?thesis by blast
qed

end
