(* ===== verification/Spec2Isabelle.thy ===== *)
theory Spec2Isabelle
  imports PolicyClaims RoleClaims JitClaims OrgClaims CertClaims TerminalClaims AccessClaims BreakGlassClaims AccessMachine AuthClaims TokenClaims UserClaims ServiceClaims VaultClaims TargetClaims QuickClaims ServerClaims SsoClaims SamlClaims
begin

text \<open>
  A model of the access core of Shellius, a self-hosted bastion for SSH and RDP: the services under
  \<open>backend/src/services\<close>, with the libraries, middleware and utilities they decide with. People and machine
  identities belong to an organization; a role gives them permissions and a customer scope narrows
  what they see; access policies decide who may reach which server, as whom, and with whose approval;
  a request that is approved gives a certificate, a terminal or an RDP tunnel, and ends by expiry, revocation or
  the account's end. Beside that path there are stored identities, a personal vault, ad-hoc
  connections and sign-in at external providers. The model follows those services function by function.

  \<^bold>\<open>State.\<close> Every service is stateless and works on one PostgreSQL database through Prisma. The record \<open>db\<close>
  (Store) has one list of records per table of \<open>backend/prisma/schema.prisma\<close> that the modelled services touch, with
  the columns they use, in insertion order; the queries are \<open>find\<close>, \<open>filter\<close>, \<open>update_where\<close>
  and the like on those lists, a unique constraint or a foreign key is a check that ends in \<open>DbError\<close>. An
  operation takes the database (and what else it needs) and returns its result with the new
  database: \<open>Inr\<close> for a return value, \<open>Inl\<close> for a thrown error, \<open>ApiError status message code\<close> or
  \<open>DbError\<close>. What was written before an error was thrown stays written, as in the code, which seldom
  uses transactions. Redis is \<open>'v redis\<close> (Redis), counters and values with deadlines. The process memory of the live terminals
  is the record \<open>world\<close> (Hub), which holds the database too. Time is a parameter in milliseconds, new ids,
  random codes and tokens are parameters, and so are encryption, hashing, signing, DNS and what
  the libraries answer: a function argument or a field of an environment record (\<open>auth_env\<close>, \<open>key_kit\<close>, \<open>quick_env\<close>,
  \<open>saml_env\<close>, \<open>outside\<close>). Nothing is assumed about them except where a theorem names it.

  \<^bold>\<open>Foundations.\<close> Prelude: errors, JavaScript truthiness, JSON values, text functions, the rows lemmas and the
  locale \<open>keyed_update\<close>. Store: the tables. Scope: \<open>lib/scope.js\<close>, \<open>lib/userStatus.js\<close>. Redis: the commands used.
  Net: what \<open>net.isIP\<close> accepts, host names, and the address classes of \<open>sshConnect.js\<close>. AuditTrail: \<open>auditService.log\<close> and
  \<open>utils/logger.js\<close>. Sample: the organization on which the properties are evaluated.

  \<^bold>\<open>Who may do what.\<close> Permissions: \<open>config/permissions.js\<close>. Roles, RolesProps: \<open>roleService.js\<close>. Org: \<open>orgService.js\<close>,
  the access switches. Policy, PolicyProps, PolicyAdmin: \<open>policyService.js\<close>, the decision for one request, the
  batched one and the edits. Tenancy: \<open>groupService.js\<close>, \<open>customerService.js\<close>. Users, UserEdits, UserProps:
  \<open>userService.js\<close>. ServiceAccounts: \<open>serviceAccountService.js\<close>, \<open>deviceAuthService.js\<close>, \<open>inviteService.js\<close>.

  \<^bold>\<open>Signing in.\<close> Mfa: \<open>mfaService.js\<close>. Auth, AuthTokens: \<open>authService.js\<close>, \<open>utils/jwt.js\<close>, \<open>middleware/auth.js\<close>,
  \<open>middleware/rbac.js\<close>. ApiTokens: \<open>apiTokenService.js\<close> and its middleware. Sso: \<open>ssoService.js\<close>, from an external identity to an
  account. SsoLinks: \<open>ssoLinkService.js\<close>, links that wait for a proof. Saml: \<open>samlService.js\<close>,
  \<open>saml/samlReplayStore.js\<close>, \<open>config/samlAttributes.js\<close>.

  \<^bold>\<open>Access.\<close> Jit: \<open>jitManifestService.js\<close> and the uid allocator. Certs: \<open>certificateService.js\<close> and what the CA records.
  Sessions: \<open>sessionService.js\<close>. Access, Review, Lifecycle, RequestReads, BreakGlass: \<open>accessRequestService.js\<close> in
  the order submit, decide and hand out, end, read, emergency. Rdp: \<open>rdpService.js\<close>. Notify:
  \<open>notificationEvents.js\<close>, \<open>notificationService.js\<close>. Hub, HubProps: \<open>terminalHub.js\<close>. Terminal: \<open>terminalService.js\<close>,
  closing and terminating.

  \<^bold>\<open>Targets and secrets.\<close> Outbound: \<open>sshConnect.js\<close>, the attempts of a connection, the secrets of a server and host key
  pinning. Keystore: \<open>keystoreService.js\<close>. Vault: \<open>vaultService.js\<close>. QuickConnect: \<open>quickConnectService.js\<close>. Servers,
  ServerSecrets: \<open>serverService.js\<close>, \<open>serverSudoService.js\<close>, saving a quick connection as a server. AgentStatus:
  \<open>serverAgentStatus.js\<close> and the collector states. GroupTree: \<open>utils/groupTree.js\<close>.

  \<^bold>\<open>How the parts meet.\<close> A submission asks Policy for the verdict and for approvers and Notify to tell them; a review
  issues nothing, the credentials of an approved request are drawn by their owner from Certs, with the account name of
  Jit; revoking a request revokes its certificate (Certs) and closes its terminals and tunnels (Hub, Terminal); disabling an
  account (UserEdits) goes through all of these, its refresh and API tokens included. The expiry watcher of the hub reads
  the request rows. Quick connections and personal hosts pass the guard of Net and Outbound, then the production guard over
  the Servers rows and the DENY policies; the secrets come from Keystore. A sign-in at a provider ends in
  the same session rows as a password sign-in.
\<close>

text \<open>
  \<^bold>\<open>What the lemmas show.\<close> Each \<open>...Claims\<close> theory states the properties of its part, with an evaluation on concrete
  rows for each that has a hypothesis; the \<open>...Props\<close> theories hold the component lemmas they rest on.

  PolicyClaims: production is reached without approval only with the bypass permission in an organization
  that allows it; the decision as a function of the matching policies; the batched evaluation
  agrees with the single one. RoleClaims: roles hand out nothing the editor lacks, the system roles are
  complete after a synchronization, the search for a free key ends. OrgClaims: the switches. UserClaims: account edits
  never escalate, a disabled account has nothing left to use unless the writing or look-up of its sessions fails, the manager relation stays a tree under edits.
  ServiceClaims: API tokens are bounded by their owner, their life, the device flow, scope grants and what they
  fail to prevent. JitClaims: uids are never given twice, and an account keeps the uid it got.

  AuthClaims, TokenClaims: every factor is checked, guesses that come one after the other are bounded, at most one live refresh
  token per family under sequential operations, reuse ends the family. SsoClaims: no account with a password or privileges is reached by a
  provider sign-in it is not linked to; a pending link needs the password, the factors and an enabled
  account, within five tries; only the right password marks a link. SamlClaims: an assertion is used once,
  for as long as its claim lasts.

  AccessClaims: what a submission leaves, one decision per request by an eligible approver, what credentials are bounded by,
  what revoking closes, that the list and the single read agree (and that equal sort keys can hide a row between pages). AccessMachine: the whole life of requests as a step
  relation in which the read and the later write of a review, a revocation, an expiry and an emergency grant are separate
  steps, with other operations in between: accounts cut off, and accounts, servers and customers deleted, whose requests change
  or go with them. The edits and deletions of UserEdits, ServiceAccounts, Servers and Tenancy that touch requests are runs of it. It
  refines an abstract machine of phases (not asked for, one of the statuses, gone), and the rows of every reachable table are well formed. BreakGlassClaims: what an emergency grant requires and how many codes can be tried. CertClaims: issuance,
  verification, and that a revocation is final over all certificate operations. TerminalClaims: replay, reattachment,
  the expiry watcher, detached sessions end.

  TargetClaims: the address guard against the blocks it means, as numbers; the order and number of the authentication attempts;
  the spellings that pass the guard. QuickClaims: what a ticket was checked for, that it
  connects to the address that was checked, and is used up once. VaultClaims: an invariant over all operations of the key store, the vault
  and the servers: keys, identities, servers and personal hosts refer to each other only within
  their organization and owner. ServerClaims: edits stay inside the customer scope, and the grouped list counts the list.

  The contracts several operations share are locales, interpreted on the model's operations: \<open>keyed_update\<close>
  (a row update that keeps the key), \<open>scope_predicate\<close>, \<open>access_decision\<close> (the single and the batched evaluation),
  \<open>hub_operation\<close>, \<open>closing_operation\<close>, \<open>cert_operation\<close>, \<open>token_operation\<close> and \<open>token_removal\<close>, \<open>request_operation\<close>
  and \<open>row_rewrite\<close>, \<open>scoped_operation\<close>.

  \<^bold>\<open>Bounds and termination.\<close> Loops are structural recursion except: \<open>climb\<close> (the walk up the manager tree, measured by the
  users not yet seen), \<open>dialogue\<close> (the authentication attempts, measured by the queue), \<open>strip_comments\<close> (measured by the
  text), \<open>nat_str\<close>. The one loop of the code without a bound of its own, the search for a free role key, has fuel: two probes more
  than there are roles are enough, which \<open>uniqueKey_terminates\<close> shows by counting. Terminal bytes and
  the hash that names the lock of the uid allocator are words of the code's width; JavaScript numbers elsewhere are
  \<open>int\<close> or \<open>nat\<close>, within the range where they are exact.

  \<^bold>\<open>Not modelled.\<close> HTTP routes (\<open>routes/\<close>): request schemas and the mapping of results to JSON. \<open>routes/bootstrap.js\<close>
  generates shell and PowerShell text, whose meaning is that of the shells. \<open>routes/sso.js\<close> and the provider adapters: OAuth,
  OIDC and XML are libraries; of \<open>ssoConfigService.js\<close> only the default role. Directory synchronization, imports and fleet posture
  beyond the agent states. The set-up of WebSocket and ssh2 connections, recordings, \<open>utils/sshKeys.js\<close> and \<open>utils/crypto.js\<close>,
  key deployment, mail, chat and storage: input and output, or libraries. The background jobs are timers; their bodies are modelled with
  their services. The React client (\<open>frontend/src\<close>) displays the API.
  Sorting by locale, the Unicode decomposition of names, the order in which the database finds the rows of a
  page, page sizes of lists and the texts of mails are parameters or left out; of a query the model keeps the rows and the order the code asks for. Concurrency is modelled where a read and a later write
  belong to one operation and something depends on what comes between: requests, refresh tokens, backup codes; elsewhere an
  operation is one step.
\<close>

end
